(* ===== verification/Prelude.thy ===== *)
theory Prelude
  imports Main "HOL-Library.Word" "HOL-Library.List_Lexorder" "HOL-Library.Char_ord"
    "HOL-Library.Sublist"
begin

text \<open>
  Shared vocabulary of the development.

  \<^item> Go's byte slices and strings are both sequences of bytes; both are \<open>char list\<close> here,
    ordered lexicographically as \<open>bytes.Compare\<close> orders them.
  \<^item> \<open>uint64\<close> and \<open>uint32\<close> are machine words.
  \<^item> A Go function that returns \<open>(value, error)\<close>, may panic, and changes state is a function
    from a state to an \<open>outcome\<close> and a new state; \<open>bindM\<close> is the sequencing of statements with
    the customary early return on an error, \<open>tryM\<close> the code that inspects the error itself.
  \<^item> The big endian encodings of \<open>encoding/binary\<close>, with their round trip and their order.
\<close>

section \<open>Types\<close>

type_synonym bytes = "char list"
type_synonym u64 = "64 word"
type_synonym u32 = "32 word"

text \<open>
  Errors. A registered error has a codespace and a code; wrapping adds a description.
  \<open>DeterministicError\<close>, \<open>FlavouredError\<close> and \<open>SystemError\<close> are the error types of
  \<open>x/wasm/types/errors.go\<close> and \<open>wasmvm/types/systemerror.go\<close>; \<open>PlainError\<close> is
  \<open>errors.New\<close> and \<open>fmt.Errorf\<close>.
\<close>

datatype system_error =
    InvalidRequest string bytes
  | InvalidResponse string bytes
  | NoSuchContract string
  | NoSuchCode u64
  | UnknownSystem
  | UnsupportedRequest string

datatype go_error =
    RegisteredError string nat
  | WrappedError string go_error
  | DeterministicError go_error
  | FlavouredError go_error system_error
  | SystemError system_error
  | PlainError string

datatype go_panic =
    PanicOutOfGas string
  | PanicGasOverflow string
  | PanicOther

datatype 'a outcome = Ok 'a | Err go_error | Panic go_panic

type_synonym ('s, 'a) prog = "'s \<Rightarrow> 'a outcome \<times> 's"

section \<open>Collections of rules\<close>

named_theorems key_simps \<open>equations between store keys\<close>
named_theorems prog_simps \<open>evaluation of the sequencing combinators\<close>
named_theorems keeps_rules \<open>preservation of a predicate by the combinators and operations\<close>

section \<open>Sequencing\<close>

definition returnM :: "'a \<Rightarrow> ('s, 'a) prog" where
  "returnM x = (\<lambda>s. (Ok x, s))"

definition failM :: "go_error \<Rightarrow> ('s, 'a) prog" where
  "failM e = (\<lambda>s. (Err e, s))"

definition panicM :: "go_panic \<Rightarrow> ('s, 'a) prog" where
  "panicM p = (\<lambda>s. (Panic p, s))"

definition bindM :: "('s, 'a) prog \<Rightarrow> ('a \<Rightarrow> ('s, 'b) prog) \<Rightarrow> ('s, 'b) prog" where
  "bindM m f = (\<lambda>s. case m s of
      (Ok x, s') \<Rightarrow> f x s'
    | (Err e, s') \<Rightarrow> (Err e, s')
    | (Panic p, s') \<Rightarrow> (Panic p, s'))"

definition getM :: "('s, 's) prog" where
  "getM = (\<lambda>s. (Ok s, s))"

definition modifyM :: "('s \<Rightarrow> 's) \<Rightarrow> ('s, unit) prog" where
  "modifyM f = (\<lambda>s. (Ok (), f s))"

text \<open>\<open>tryM m\<close> hands the error of \<open>m\<close> to the continuation as a value; panics pass through.\<close>

definition tryM :: "('s, 'a) prog \<Rightarrow> ('s, go_error + 'a) prog" where
  "tryM m = (\<lambda>s. case m s of
      (Ok x, s') \<Rightarrow> (Ok (Inr x), s')
    | (Err e, s') \<Rightarrow> (Ok (Inl e), s')
    | (Panic p, s') \<Rightarrow> (Panic p, s'))"

text \<open>\<open>wrapM d m\<close> is \<open>if err != nil { return errorsmod.Wrap(err, d) }\<close>.\<close>

definition wrapM :: "string \<Rightarrow> ('s, 'a) prog \<Rightarrow> ('s, 'a) prog" where
  "wrapM d m = (\<lambda>s. case m s of
      (Err e, s') \<Rightarrow> (Err (WrappedError d e), s')
    | (Ok x, s') \<Rightarrow> (Ok x, s')
    | (Panic p, s') \<Rightarrow> (Panic p, s'))"

text \<open>\<open>guardM b e\<close> is \<open>if !b { return e }\<close>.\<close>

definition guardM :: "bool \<Rightarrow> go_error \<Rightarrow> ('s, unit) prog" where
  "guardM b e = (if b then returnM () else failM e)"

definition liftE :: "go_error + 'a \<Rightarrow> ('s, 'a) prog" where
  "liftE r = (case r of Inl e \<Rightarrow> failM e | Inr x \<Rightarrow> returnM x)"

definition liftO :: "'a outcome \<Rightarrow> ('s, 'a) prog" where
  "liftO r = (\<lambda>s. (r, s))"

primrec eachM :: "('a \<Rightarrow> ('s, unit) prog) \<Rightarrow> 'a list \<Rightarrow> ('s, unit) prog" where
  "eachM f [] = returnM ()"
| "eachM f (x # xs) = bindM (f x) (\<lambda>_. eachM f xs)"

text \<open>\<open>iterateM cb xs\<close> is a loop with a callback that may stop it by returning true.\<close>

primrec iterateM :: "('a \<Rightarrow> ('s, bool) prog) \<Rightarrow> 'a list \<Rightarrow> ('s, unit) prog" where
  "iterateM cb [] = returnM ()"
| "iterateM cb (x # xs) = bindM (cb x) (\<lambda>stop. if stop then returnM () else iterateM cb xs)"

lemma bindM_Ok_E:
  assumes "bindM m f s = (Ok y, s'')"
  obtains x s' where "m s = (Ok x, s')" and "f x s' = (Ok y, s'')"
  using assms by (auto simp: bindM_def split: prod.splits outcome.splits)

lemma bindM_apply [prog_simps]:
  "m s = (Ok x, s') \<Longrightarrow> bindM m f s = f x s'"
  "m s = (Err e, s') \<Longrightarrow> bindM m f s = (Err e, s')"
  "m s = (Panic p, s') \<Longrightarrow> bindM m f s = (Panic p, s')"
  by (simp_all add: bindM_def)

lemma basic_apply [prog_simps]:
  "returnM x s = (Ok x, s)"
  "failM e s = (Err e, s)"
  "panicM p s = (Panic p, s)"
  "getM s = (Ok s, s)"
  "modifyM g s = (Ok (), g s)"
  by (simp_all add: returnM_def failM_def panicM_def getM_def modifyM_def)

lemma bindM_basic [simp]:
  "bindM (returnM x) f = f x"
  "bindM (failM e) f = failM e"
  "bindM (panicM p) f = panicM p"
  by (simp_all add: bindM_def returnM_def failM_def panicM_def)

lemma bindM_assoc: "bindM (bindM m f) g = bindM m (\<lambda>x. bindM (f x) g)"
  by (rule ext) (auto simp: bindM_def split: prod.splits outcome.splits)

lemma guardM_Ok_iff: "guardM b e s = (Ok x, s') \<longleftrightarrow> b \<and> s' = s"
  by (simp add: guardM_def returnM_def failM_def) auto

lemma liftE_Ok_iff: "liftE r s = (Ok x, s') \<longleftrightarrow> r = Inr x \<and> s' = s"
  by (cases r) (auto simp: liftE_def returnM_def failM_def)

lemma liftO_Ok_iff: "liftO r s = (Ok x, s') \<longleftrightarrow> r = Ok x \<and> s' = s"
  by (auto simp: liftO_def)

lemma wrapM_Ok_iff: "wrapM d m s = (Ok x, s') \<longleftrightarrow> m s = (Ok x, s')"
  by (auto simp: wrapM_def split: prod.splits outcome.splits)

lemma tryM_Ok_iff:
  "tryM m s = (Ok r, s') \<longleftrightarrow>
    (case r of Inl e \<Rightarrow> m s = (Err e, s') | Inr x \<Rightarrow> m s = (Ok x, s'))"
  by (auto simp: tryM_def split: prod.splits outcome.splits sum.splits)

lemma basic_Ok_iff:
  "returnM x s = (Ok y, s') \<longleftrightarrow> y = x \<and> s' = s"
  "failM e s = (Ok y, s') \<longleftrightarrow> False"
  "panicM p s = (Ok y, s') \<longleftrightarrow> False"
  "getM s = (Ok t, s') \<longleftrightarrow> t = s \<and> s' = s"
  "modifyM g s = (Ok u, s') \<longleftrightarrow> s' = g s"
  by (auto simp: returnM_def failM_def panicM_def getM_def modifyM_def)

lemmas prog_Ok_iffs = guardM_Ok_iff liftE_Ok_iff liftO_Ok_iff wrapM_Ok_iff tryM_Ok_iff basic_Ok_iff

text \<open>Sequencing and wrapping on plain results, for code without state.\<close>

fun bindO :: "'a outcome \<Rightarrow> ('a \<Rightarrow> 'b outcome) \<Rightarrow> 'b outcome" where
  "bindO (Ok x) f = f x"
| "bindO (Err e) f = Err e"
| "bindO (Panic p) f = Panic p"

definition wrapE :: "string \<Rightarrow> go_error + 'a \<Rightarrow> go_error + 'a" where
  "wrapE d r = (case r of Inl e \<Rightarrow> Inl (WrappedError d e) | Inr x \<Rightarrow> Inr x)"

fun bindE :: "go_error + 'a \<Rightarrow> ('a \<Rightarrow> go_error + 'b) \<Rightarrow> go_error + 'b" where
  "bindE (Inl e) f = Inl e"
| "bindE (Inr x) f = f x"

lemma bindE_Inr_iff: "bindE r f = Inr y \<longleftrightarrow> (\<exists>x. r = Inr x \<and> f x = Inr y)"
  by (cases r) auto

lemma wrapE_Inr_iff [simp]: "wrapE d r = Inr y \<longleftrightarrow> r = Inr y"
  by (cases r) (auto simp: wrapE_def)

lemma bindO_Ok_iff: "bindO r f = Ok y \<longleftrightarrow> (\<exists>x. r = Ok x \<and> f x = Ok y)"
  by (cases r) auto

definition requireE :: "bool \<Rightarrow> go_error \<Rightarrow> go_error + unit" where
  "requireE b e = (if b then Inr () else Inl e)"

lemma requireE_Inr_iff [simp]: "requireE b e = Inr u \<longleftrightarrow> b"
  by (simp add: requireE_def)

text \<open>
  \<open>keeps I m\<close>: whenever \<open>m\<close> starts in a state with \<open>I\<close> and does not panic, it ends in one,
  whether it returns a value or an error.
\<close>

definition is_panic :: "'a outcome \<Rightarrow> bool" where
  "is_panic r = (case r of Panic _ \<Rightarrow> True | _ \<Rightarrow> False)"

lemma is_panic_simps [simp]:
  "\<not> is_panic (Ok x)" "\<not> is_panic (Err e)" "is_panic (Panic p)"
  by (simp_all add: is_panic_def)

definition keeps :: "('s \<Rightarrow> bool) \<Rightarrow> ('s, 'a) prog \<Rightarrow> bool" where
  "keeps I m \<longleftrightarrow> (\<forall>s. I s \<longrightarrow> \<not> is_panic (fst (m s)) \<longrightarrow> I (snd (m s)))"

lemma keepsI:
  assumes "\<And>s r s'. I s \<Longrightarrow> m s = (r, s') \<Longrightarrow> \<not> is_panic r \<Longrightarrow> I s'"
  shows "keeps I m"
  using assms unfolding keeps_def by (metis prod.collapse)

lemma keepsD:
  assumes "keeps I m" and "m s = (r, s')" and "I s" and "\<not> is_panic r"
  shows "I s'"
  using assms by (metis keeps_def fst_conv snd_conv)

lemma keeps_bindM [keeps_rules]:
  assumes "keeps I m" and "\<And>x. keeps I (f x)"
  shows "keeps I (bindM m f)"
proof (rule keepsI)
  fix s r s'
  assume I: "I s" and run: "bindM m f s = (r, s')" and np: "\<not> is_panic r"
  obtain q t where m: "m s = (q, t)" by (cases "m s")
  note t = keepsD [OF assms(1) m I]
  show "I s'"
  proof (cases q)
    case (Ok x)
    with run m have "f x t = (r, s')" by (simp add: bindM_def)
    with Ok t np show ?thesis using keepsD [OF assms(2)] by simp
  next
    case (Err e)
    with run m t show ?thesis by (simp add: bindM_def)
  next
    case (Panic p)
    with run m np show ?thesis by (auto simp: bindM_def)
  qed
qed

lemma keeps_basic [keeps_rules]:
  "keeps I (returnM x)"
  "keeps I (failM e)"
  "keeps I (panicM p)"
  "keeps I getM"
  by (simp_all add: keeps_def returnM_def failM_def panicM_def getM_def)

lemma keeps_guardM [keeps_rules]: "keeps I (guardM b e)"
  by (simp add: guardM_def keeps_basic)

lemma keeps_liftE [keeps_rules]: "keeps I (liftE r)"
  by (cases r) (simp_all add: liftE_def keeps_basic)

lemma keeps_liftO [keeps_rules]: "keeps I (liftO r)"
  by (simp add: liftO_def keeps_def)

lemma keeps_modifyM: "(\<And>s. I s \<Longrightarrow> I (g s)) \<Longrightarrow> keeps I (modifyM g)"
  by (simp add: keeps_def modifyM_def)

lemma keeps_tryM [keeps_rules]: "keeps I m \<Longrightarrow> keeps I (tryM m)"
  unfolding keeps_def tryM_def
  by (metis (mono_tags, lifting) case_prod_beta fst_conv is_panic_simps outcome.exhaust
      outcome.simps(10-12) snd_conv)

lemma keeps_wrapM [keeps_rules]: "keeps I m \<Longrightarrow> keeps I (wrapM d m)"
  unfolding keeps_def wrapM_def
  by (metis (mono_tags, lifting) case_prod_beta fst_conv is_panic_simps outcome.exhaust
      outcome.simps(10-12) snd_conv)

lemma keeps_eachM [keeps_rules]: "(\<And>x. keeps I (f x)) \<Longrightarrow> keeps I (eachM f xs)"
  by (induction xs) (simp_all add: keeps_basic keeps_bindM)

lemma keeps_iterateM [keeps_rules]: "(\<And>x. keeps I (cb x)) \<Longrightarrow> keeps I (iterateM cb xs)"
  by (induction xs) (auto simp: keeps_basic intro!: keeps_bindM)

lemma keeps_cases [keeps_rules]:
  "(b \<Longrightarrow> keeps I m) \<Longrightarrow> (\<not> b \<Longrightarrow> keeps I m') \<Longrightarrow> keeps I (if b then m else m')"
  "keeps I n \<Longrightarrow> (\<And>x. keeps I (f x)) \<Longrightarrow> keeps I (case v of None \<Rightarrow> n | Some x \<Rightarrow> f x)"
  "(\<And>x. keeps I (g x)) \<Longrightarrow> (\<And>y. keeps I (h y)) \<Longrightarrow> keeps I (case r of Inl x \<Rightarrow> g x | Inr y \<Rightarrow> h y)"
  "(\<And>x y. keeps I (l x y)) \<Longrightarrow> keeps I (case q of (x, y) \<Rightarrow> l x y)"
  by (auto split: option.split sum.split prod.split)

lemma keeps_Let [keeps_rules]: "(\<And>x. keeps I (f x)) \<Longrightarrow> keeps I (let x = v in f x)"
  by (simp add: Let_def)

text \<open>
  Triples with a postcondition for the value returned and one for an error: what a sequence of
  statements needs when it passes through states that do not satisfy the invariant.
\<close>

definition triple ::
  "('s \<Rightarrow> bool) \<Rightarrow> ('s, 'a) prog \<Rightarrow> ('a \<Rightarrow> 's \<Rightarrow> bool) \<Rightarrow> ('s \<Rightarrow> bool) \<Rightarrow> bool"
where
  "triple P m Q E \<longleftrightarrow> (\<forall>s. P s \<longrightarrow>
     (case m s of (Ok x, s') \<Rightarrow> Q x s' | (Err e, s') \<Rightarrow> E s' | (Panic p, s') \<Rightarrow> True))"

lemma tripleI:
  assumes "\<And>s x s'. P s \<Longrightarrow> m s = (Ok x, s') \<Longrightarrow> Q x s'"
    and "\<And>s e s'. P s \<Longrightarrow> m s = (Err e, s') \<Longrightarrow> E s'"
  shows "triple P m Q E"
  using assms unfolding triple_def by (auto split: prod.splits outcome.splits)

lemma tripleD:
  assumes "triple P m Q E" and "P s"
  shows "m s = (Ok x, s') \<Longrightarrow> Q x s'" and "m s = (Err e, s') \<Longrightarrow> E s'"
  using assms unfolding triple_def by (auto split: prod.splits outcome.splits)

lemma keeps_triple: "keeps I m \<longleftrightarrow> triple I m (\<lambda>_. I) I"
  unfolding keeps_def triple_def is_panic_def
  by (intro all_cong1 imp_cong refl) (auto split: prod.splits outcome.splits)

lemma triple_conseq:
  assumes "triple P' m Q' E'" and "\<And>s. P s \<Longrightarrow> P' s" and "\<And>x s. Q' x s \<Longrightarrow> Q x s" and "\<And>s. E' s \<Longrightarrow> E s"
  shows "triple P m Q E"
  using tripleD [OF assms(1)] assms(2-4) by (intro tripleI) blast+

lemma triple_bindM:
  assumes "triple P m Q E" and "\<And>x. triple (Q x) (f x) R E"
  shows "triple P (bindM m f) R E"
proof (rule tripleI)
  fix s y s' assume P: "P s" and "bindM m f s = (Ok y, s')"
  then obtain x t where "m s = (Ok x, t)" and "f x t = (Ok y, s')" by (elim bindM_Ok_E)
  with P assms show "R y s'" by (blast dest: tripleD)
next
  fix s e s' assume P: "P s" and run: "bindM m f s = (Err e, s')"
  obtain q t where m: "m s = (q, t)" by (cases "m s")
  with run P assms show "E s'"
    by (cases q) (auto simp: bindM_def dest: tripleD)
qed

lemma triple_bind_keeps:
  assumes "keeps P m" and "\<And>s. P s \<Longrightarrow> E s" and "\<And>x. triple P (f x) R E"
  shows "triple P (bindM m f) R E"
proof (rule triple_bindM [where Q = "\<lambda>_. P", OF _ assms(3)])
  show "triple P m (\<lambda>_. P) E"
    using assms(1) unfolding keeps_triple by (rule triple_conseq) (simp_all add: assms(2))
qed

lemma triple_basic:
  "(\<And>s. P s \<Longrightarrow> Q x s) \<Longrightarrow> triple P (returnM x) Q E"
  "(\<And>s. P s \<Longrightarrow> E s) \<Longrightarrow> triple P (failM e) Q E"
  "triple P (panicM p) Q E"
  by (auto simp: triple_def returnM_def failM_def panicM_def)

lemma triple_bind_guardM:
  assumes "\<And>s. P s \<Longrightarrow> E s" and "b \<Longrightarrow> triple P (f ()) R E"
  shows "triple P (bindM (guardM b e) f) R E"
  using assms by (simp add: guardM_def triple_basic)

lemma triple_pre: "(\<And>s. P s \<Longrightarrow> B) \<Longrightarrow> (B \<Longrightarrow> triple P m Q E) \<Longrightarrow> triple P m Q E"
  by (intro tripleI) (blast dest: tripleD)+

section \<open>Decimal and hexadecimal text\<close>

text \<open>\<open>strings.Join\<close>.\<close>

fun join :: "string \<Rightarrow> string list \<Rightarrow> string" where
  "join sep [] = []"
| "join sep [x] = x"
| "join sep (x # y # ys) = x @ sep @ join sep (y # ys)"

text \<open>\<open>strings.Split\<close> with a one-byte separator: the empty string splits into one empty part.\<close>

fun split_on :: "char \<Rightarrow> string \<Rightarrow> string list" where
  "split_on sep [] = [[]]"
| "split_on sep (c # cs) =
     (if c = sep then [] # split_on sep cs
      else case split_on sep cs of [] \<Rightarrow> [[c]] | p # ps \<Rightarrow> (c # p) # ps)"

text \<open>\<open>fmt\<close>'s \<open>%d\<close> and \<open>hex.EncodeToString\<close>.\<close>

function dec_string :: "nat \<Rightarrow> string" where
  "dec_string n = (if n < 10 then [char_of (48 + n)]
     else dec_string (n div 10) @ [char_of (48 + n mod 10)])"
  by auto
termination by (relation "measure id") auto

declare dec_string.simps [simp del]

definition hex_digit :: "nat \<Rightarrow> char" where
  "hex_digit n = (if n < 10 then char_of (48 + n) else char_of (87 + n))"

definition hex_encode :: "bytes \<Rightarrow> string" where
  "hex_encode bs = concat (map (\<lambda>c. [hex_digit (of_char c div 16), hex_digit (of_char c mod 16)]) bs)"

section \<open>Big endian encodings\<close>

text \<open>
  \<open>be_bytes k n\<close> is what \<open>binary.BigEndian\<close> writes into \<open>k\<close> bytes for the integer \<open>n\<close>
  (\<open>char_of\<close> keeps the low eight bits); \<open>be_val\<close> reads it back.
\<close>

primrec be_bytes :: "nat \<Rightarrow> nat \<Rightarrow> bytes" where
  "be_bytes 0 n = []"
| "be_bytes (Suc k) n = char_of (n div 256 ^ k) # be_bytes k n"

primrec be_val :: "bytes \<Rightarrow> nat" where
  "be_val [] = 0"
| "be_val (c # cs) = of_char c * 256 ^ length cs + be_val cs"

lemma length_be_bytes [simp]: "length (be_bytes k n) = k"
  by (induction k) simp_all

lemma be_val_be_bytes [simp]: "be_val (be_bytes k n) = n mod 256 ^ k"
proof (induction k)
  case 0
  show ?case by simp
next
  case (Suc k)
  have "n mod (256 ^ k * 256) = 256 ^ k * (n div 256 ^ k mod 256) + n mod 256 ^ k"
    by (rule mod_mult2_eq)
  with Suc show ?case by (simp add: mult.commute)
qed

lemma be_bytes_inj:
  assumes "n < 256 ^ k" and "m < 256 ^ k" and "be_bytes k n = be_bytes k m"
  shows "n = m"
  using assms by (metis be_val_be_bytes mod_less)

lemma be_val_less: "be_val bs < 256 ^ length bs"
proof (induction bs)
  case (Cons c cs)
  have "of_char c \<le> (255::nat)"
    using nat_of_char_less_256 [of c] by linarith
  then have "of_char c * 256 ^ length cs \<le> (255::nat) * 256 ^ length cs"
    by (rule mult_right_mono) simp
  then have "be_val (c # cs) < 255 * 256 ^ length cs + 256 ^ length cs"
    using Cons unfolding be_val.simps by (rule add_le_less_mono)
  then show ?case by simp
qed simp

lemma be_val_inj:
  assumes "length xs = length ys" and "be_val xs = be_val ys"
  shows "xs = ys"
  using assms
proof (induction xs ys rule: list_induct2)
  case (Cons c xs d ys)
  let ?B = "256 ^ length xs :: nat"
  have eq: "of_char c * ?B + be_val xs = of_char d * ?B + be_val ys"
    using Cons by simp
  have small: "be_val xs < ?B" "be_val ys < ?B"
    using be_val_less [of xs] be_val_less [of ys] Cons(1) by simp_all
  have "(of_char c :: nat) = (of_char c * ?B + be_val xs) div ?B"
    using small(1) by simp
  also have "\<dots> = of_char d"
    using small(2) by (simp add: eq)
  finally have "c = d" by simp
  with eq Cons show ?case by simp
qed simp

lemma be_bytes_be_val [simp]: "be_bytes (length bs) (be_val bs) = bs"
  by (rule be_val_inj) (simp_all add: be_val_less)

text \<open>Encodings of one width compare like the integers they encode.\<close>

lemma be_val_mono:
  assumes "length xs = length ys"
  shows "xs < ys \<longleftrightarrow> be_val xs < be_val ys"
  using assms
proof (induction xs ys rule: list_induct2)
  case (Cons c xs d ys)
  let ?B = "256 ^ length xs :: nat"
  have small: "be_val xs < ?B" "be_val ys < ?B"
    using be_val_less [of xs] be_val_less [of ys] Cons(1) by simp_all
  have less: "a * ?B + v < b * ?B + w" if "a < b" "v < ?B" for a b v w :: nat
  proof -
    have "a * ?B + v < Suc a * ?B" using that(2) by simp
    also have "\<dots> \<le> b * ?B + w" using that(1) by (metis Suc_leI mult_le_mono1 trans_le_add1)
    finally show ?thesis .
  qed
  consider "c < d" | "d < c" | "c = d" by (rule linorder_cases)
  then show ?case
  proof cases
    case 1
    then show ?thesis using less small Cons(1) by (simp add: less_char_def)
  next
    case 2
    then have "be_val (d # ys) < be_val (c # xs)"
      using less [of "of_char d" "of_char c" "be_val ys"] small Cons(1) by (simp add: less_char_def)
    with 2 show ?thesis by (auto simp: less_char_def)
  next
    case 3
    then show ?thesis using Cons by simp
  qed
qed simp

lemma be_bytes_less_iff:
  assumes "n < 256 ^ k" and "m < 256 ^ k"
  shows "be_bytes k n < be_bytes k m \<longleftrightarrow> n < m"
  using assms by (simp add: be_val_mono)

lemma be_bytes_append_inj:
  assumes "n < 256 ^ k" and "m < 256 ^ k" and "be_bytes k n @ xs = be_bytes k m @ ys"
  shows "n = m \<and> xs = ys"
  using assms be_bytes_inj [of n k m] by simp

end
