(* ===== verification/KV_Store.thy ===== *)
theory KV_Store
  imports Prelude
begin

text \<open>
  Ordered key-value stores: the contract of \<open>types.KVStore\<close> (\<open>wasmvm/types/store.go\<close>) and its
  in-memory implementation \<open>testdb.MemDB\<close> with its iterators
  (\<open>wasmvm/internal/api/testdb\<close>).

  The B-tree of google/btree is represented by its items in ascending order, and its traversals
  by the sublist each of them is documented to visit. The locale \<open>ordered_kv\<close> is the interface
  the rest of the development relies on; it is interpreted on \<open>MemDB\<close>'s operations.
\<close>

section \<open>Items in key order\<close>

type_synonym 'v items = "(bytes \<times> 'v) list"

definition items_ok :: "'v items \<Rightarrow> bool" where
  "items_ok m \<longleftrightarrow> sorted_wrt (<) (map fst m)"

fun kv_set :: "'v items \<Rightarrow> bytes \<Rightarrow> 'v \<Rightarrow> 'v items" where
  "kv_set [] k v = [(k, v)]"
| "kv_set ((k', v') # m) k v =
     (if k < k' then (k, v) # (k', v') # m
      else if k = k' then (k, v) # m
      else (k', v') # kv_set m k v)"

fun kv_get :: "'v items \<Rightarrow> bytes \<Rightarrow> 'v option" where
  "kv_get [] k = None"
| "kv_get ((k', v') # m) k = (if k = k' then Some v' else kv_get m k)"

definition kv_delete :: "'v items \<Rightarrow> bytes \<Rightarrow> 'v items" where
  "kv_delete m k = filter (\<lambda>(k', _). k' \<noteq> k) m"

definition kv_has :: "'v items \<Rightarrow> bytes \<Rightarrow> bool" where
  "kv_has m k \<longleftrightarrow> kv_get m k \<noteq> None"

text \<open>
  What \<open>prefix.NewStore\<close> shows of a list of items: those whose key starts with the prefix,
  without it.
\<close>

definition strip_prefix :: "bytes \<Rightarrow> 'v items \<Rightarrow> 'v items" where
  "strip_prefix p m = map (\<lambda>(k, v). (drop (length p) k, v)) (filter (\<lambda>(k, _). prefix p k) m)"

lemma prefix_less_iff: "p @ x < p @ y \<longleftrightarrow> x < (y :: bytes)"
  by (induction p) simp_all

lemma strip_prefix_sorted_wrt:
  assumes "sorted_wrt (<) (map fst m)"
  shows "sorted_wrt (<) (map fst (strip_prefix p m))"
  using assms
proof (induction m)
  case (Cons a m)
  obtain k v where a: "a = (k, v)" by (cases a)
  have rest: "sorted_wrt (<) (map fst (strip_prefix p m))" using Cons by simp
  have "drop (length p) k < drop (length p) k'"
    if "(k', v') \<in> set m" "prefix p k" "prefix p k'" for k' v'
    using Cons.prems that by (force simp: a prefix_def prefix_less_iff)
  with rest show ?case by (auto simp: a strip_prefix_def)
qed (simp add: strip_prefix_def)

section \<open>The interface\<close>

locale ordered_kv =
  fixes lookup :: "'s \<Rightarrow> bytes \<Rightarrow> 'v option"
    and upd :: "'s \<Rightarrow> bytes \<Rightarrow> 'v \<Rightarrow> 's"
    and del :: "'s \<Rightarrow> bytes \<Rightarrow> 's"
    and entries :: "'s \<Rightarrow> (bytes \<times> 'v) list"
    and ok :: "'s \<Rightarrow> bool"
  assumes lookup_upd: "ok s \<Longrightarrow> lookup (upd s k v) k' = (if k' = k then Some v else lookup s k')"
    and lookup_del: "ok s \<Longrightarrow> lookup (del s k) k' = (if k' = k then None else lookup s k')"
    and ok_upd: "ok s \<Longrightarrow> ok (upd s k v)"
    and ok_del: "ok s \<Longrightarrow> ok (del s k)"
    and entries_lookup: "ok s \<Longrightarrow> (k, v) \<in> set (entries s) \<longleftrightarrow> lookup s k = Some v"
    and entries_sorted: "ok s \<Longrightarrow> sorted_wrt (<) (map fst (entries s))"
begin

lemma lookup_upd_same [simp]: "ok s \<Longrightarrow> lookup (upd s k v) k = Some v"
  by (simp add: lookup_upd)

lemma lookup_upd_other: "ok s \<Longrightarrow> k' \<noteq> k \<Longrightarrow> lookup (upd s k v) k' = lookup s k'"
  by (simp add: lookup_upd)

lemma entries_distinct: "ok s \<Longrightarrow> distinct (map fst (entries s))"
  using entries_sorted [of s] by (simp add: strict_sorted_iff)

text \<open>Two stores that answer every lookup alike list the same entries in the same order.\<close>

lemma entries_cong:
  assumes "ok s" and "ok t" and "\<And>k. lookup s k = lookup t k"
  shows "entries s = entries t"
proof -
  have "set (entries s) = set (entries t)"
    using assms entries_lookup by auto
  then have "map fst (entries s) = map fst (entries t)"
    using entries_sorted [OF assms(1)] entries_sorted [OF assms(2)]
    by (metis set_map strict_sorted_equal)
  moreover have rebuild: "map (\<lambda>k. (k, the (lookup u k))) (map fst (entries u)) = entries u"
    if "ok u" for u
    unfolding map_map using entries_lookup [OF that] by (intro map_idI) auto
  ultimately show ?thesis
    using rebuild [OF assms(1)] rebuild [OF assms(2)] by (simp add: assms(3))
qed

lemma strip_prefix_lookup:
  assumes "ok s"
  shows "(k, v) \<in> set (strip_prefix p (entries s)) \<longleftrightarrow> lookup s (p @ k) = Some v"
  by (force simp: strip_prefix_def prefix_def entries_lookup [OF assms, symmetric])

lemma strip_prefix_sorted:
  assumes "ok s"
  shows "sorted_wrt (<) (map fst (strip_prefix p (entries s)))"
  using entries_sorted [OF assms] by (rule strip_prefix_sorted_wrt)

lemma strip_prefix_upd_other:
  assumes "ok s" and "\<not> prefix p k"
  shows "set (strip_prefix p (entries (upd s k v))) = set (strip_prefix p (entries s))"
proof -
  have "p @ a \<noteq> k" for a using assms(2) by (auto simp: prefix_def)
  then show ?thesis using assms(1) by (auto simp: strip_prefix_lookup ok_upd lookup_upd)
qed

end

section \<open>MemDB's operations\<close>

definition errKeyEmpty :: go_error where "errKeyEmpty = PlainError ''key cannot be empty''"
definition errValueNil :: go_error where "errValueNil = PlainError ''value cannot be nil''"

text \<open>A value that may be nil is an option; a missing key reads as nil.\<close>

definition MemDB_Get :: "'v items \<Rightarrow> bytes \<Rightarrow> go_error + 'v option" where
  "MemDB_Get db key = (if key = [] then Inl errKeyEmpty else Inr (kv_get db key))"

definition MemDB_Has :: "'v items \<Rightarrow> bytes \<Rightarrow> go_error + bool" where
  "MemDB_Has db key = (if key = [] then Inl errKeyEmpty else Inr (kv_has db key))"

definition MemDB_Set :: "'v items \<Rightarrow> bytes \<Rightarrow> 'v option \<Rightarrow> go_error + 'v items" where
  "MemDB_Set db key value =
     (if key = [] then Inl errKeyEmpty
      else case value of None \<Rightarrow> Inl errValueNil | Some v \<Rightarrow> Inr (kv_set db key v))"

definition MemDB_Delete :: "'v items \<Rightarrow> bytes \<Rightarrow> go_error + 'v items" where
  "MemDB_Delete db key = (if key = [] then Inl errKeyEmpty else Inr (kv_delete db key))"

text \<open>
  The traversals of the B-tree: ascending from a key, in a half-open range, and descending from
  a key, each as the list of items handed to the visitor.
\<close>

definition AscendGreaterOrEqual :: "'v items \<Rightarrow> bytes \<Rightarrow> 'v items" where
  "AscendGreaterOrEqual db pivot = filter (\<lambda>(k, _). pivot \<le> k) db"

definition AscendRange :: "'v items \<Rightarrow> bytes \<Rightarrow> bytes \<Rightarrow> 'v items" where
  "AscendRange db ge lt = filter (\<lambda>(k, _). ge \<le> k \<and> k < lt) db"

definition DescendLessOrEqual :: "'v items \<Rightarrow> bytes \<Rightarrow> 'v items" where
  "DescendLessOrEqual db pivot = rev (filter (\<lambda>(k, _). k \<le> pivot) db)"

text \<open>
  The visitor closure with its two captured variables \<open>skipEqual\<close> and \<open>abortLessThan\<close>, run over
  the items of a traversal: the items it sends down the channel.
\<close>

fun visitor :: "bytes option \<Rightarrow> bytes option \<Rightarrow> 'v items \<Rightarrow> 'v items" where
  "visitor skipEqual abortLessThan [] = []"
| "visitor skipEqual abortLessThan ((k, v) # rest) =
     (if skipEqual = Some k then visitor None abortLessThan rest
      else if (case abortLessThan of None \<Rightarrow> False | Some a \<Rightarrow> k < a) then []
      else (k, v) # visitor skipEqual abortLessThan rest)"

definition memdb_channel ::
  "'v items \<Rightarrow> bytes option \<Rightarrow> bytes option \<Rightarrow> bool \<Rightarrow> 'v items"
where
  "memdb_channel db start stop reverse =
     (case (start, stop, reverse) of
        (None, None, False) \<Rightarrow> visitor None None db
      | (None, None, True) \<Rightarrow> visitor None None (rev db)
      | (Some s, None, False) \<Rightarrow> visitor None None (AscendGreaterOrEqual db s)
      | (None, Some e, False) \<Rightarrow> visitor None None (AscendRange db [] e)
      | (Some s, Some e, False) \<Rightarrow> visitor None None (AscendRange db s e)
      | (Some s, None, True) \<Rightarrow> visitor None (Some s) (rev db)
      | (s, Some e, True) \<Rightarrow> visitor (Some e) s (DescendLessOrEqual db e))"

record 'v memDBIterator =
  it_item :: "(bytes \<times> 'v) option"
  it_ch :: "'v items"
  it_start :: "bytes option"
  it_end :: "bytes option"

definition newMemDBIterator ::
  "'v items \<Rightarrow> bytes option \<Rightarrow> bytes option \<Rightarrow> bool \<Rightarrow> 'v memDBIterator"
where
  "newMemDBIterator db start stop reverse =
     (case memdb_channel db start stop reverse of
        [] \<Rightarrow> \<lparr>it_item = None, it_ch = [], it_start = start, it_end = stop\<rparr>
      | i # ch \<Rightarrow> \<lparr>it_item = Some i, it_ch = ch, it_start = start, it_end = stop\<rparr>)"

definition empty_bound :: "bytes option \<Rightarrow> bool" where
  "empty_bound b \<longleftrightarrow> b = Some []"

definition MemDB_Iterator ::
  "'v items \<Rightarrow> bytes option \<Rightarrow> bytes option \<Rightarrow> go_error + 'v memDBIterator"
where
  "MemDB_Iterator db start stop =
     (if empty_bound start \<or> empty_bound stop then Inl errKeyEmpty
      else Inr (newMemDBIterator db start stop False))"

definition MemDB_ReverseIterator ::
  "'v items \<Rightarrow> bytes option \<Rightarrow> bytes option \<Rightarrow> go_error + 'v memDBIterator"
where
  "MemDB_ReverseIterator db start stop =
     (if empty_bound start \<or> empty_bound stop then Inl errKeyEmpty
      else Inr (newMemDBIterator db start stop True))"

definition iter_Valid :: "'v memDBIterator \<Rightarrow> bool" where
  "iter_Valid i \<longleftrightarrow> it_item i \<noteq> None"

definition iter_Next :: "'v memDBIterator \<Rightarrow> 'v memDBIterator outcome" where
  "iter_Next i =
     (if \<not> iter_Valid i then Panic PanicOther
      else case it_ch i of
             [] \<Rightarrow> Ok (i\<lparr>it_item := None\<rparr>)
           | x # ch \<Rightarrow> Ok (i\<lparr>it_item := Some x, it_ch := ch\<rparr>))"

definition iter_Key :: "'v memDBIterator \<Rightarrow> bytes outcome" where
  "iter_Key i = (case it_item i of None \<Rightarrow> Panic PanicOther | Some (k, _) \<Rightarrow> Ok k)"

definition iter_Value :: "'v memDBIterator \<Rightarrow> 'v outcome" where
  "iter_Value i = (case it_item i of None \<Rightarrow> Panic PanicOther | Some (_, v) \<Rightarrow> Ok v)"

definition iter_Close :: "'v memDBIterator \<Rightarrow> 'v memDBIterator" where
  "iter_Close i = i\<lparr>it_item := None, it_ch := []\<rparr>"

text \<open>
  The loop \<open>for ; itr.Valid(); itr.Next()\<close> of the interface's documentation, with fuel: the
  pairs it sees.
\<close>

fun drain :: "nat \<Rightarrow> 'v memDBIterator \<Rightarrow> 'v items option" where
  "drain 0 i = None"
| "drain (Suc n) i =
     (if \<not> iter_Valid i then Some []
      else case (iter_Key i, iter_Value i, iter_Next i) of
             (Ok k, Ok v, Ok i') \<Rightarrow> map_option ((#) (k, v)) (drain n i')
           | _ \<Rightarrow> None)"

text \<open>What an iterator over \<open>[start, end)\<close> has to list.\<close>

definition in_domain :: "bytes option \<Rightarrow> bytes option \<Rightarrow> bytes \<Rightarrow> bool" where
  "in_domain start stop k \<longleftrightarrow>
     (case start of None \<Rightarrow> True | Some s \<Rightarrow> s \<le> k) \<and>
     (case stop of None \<Rightarrow> True | Some e \<Rightarrow> k < e)"

definition kv_range :: "'v items \<Rightarrow> bytes option \<Rightarrow> bytes option \<Rightarrow> 'v items" where
  "kv_range db start stop = filter (\<lambda>(k, _). in_domain start stop k) db"

section \<open>The operations meet the interface\<close>

lemma kv_get_set: "kv_get (kv_set m k v) k' = (if k' = k then Some v else kv_get m k')"
  by (induction m k v rule: kv_set.induct) auto

lemma kv_get_delete: "kv_get (kv_delete m k) k' = (if k' = k then None else kv_get m k')"
  by (induction m) (auto simp: kv_delete_def)

lemma keys_kv_set: "fst ` set (kv_set m k v) = insert k (fst ` set m)"
  by (induction m k v rule: kv_set.induct) auto

lemma items_ok_Cons: "items_ok ((k, v) # m) \<longleftrightarrow> (\<forall>k' \<in> fst ` set m. k < k') \<and> items_ok m"
  by (auto simp: items_ok_def)

lemma items_ok_Nil [simp]: "items_ok []"
  by (simp add: items_ok_def)

lemma items_ok_set: "items_ok m \<Longrightarrow> items_ok (kv_set m k v)"
proof (induction m k v rule: kv_set.induct)
  case (2 k' v' m k v)
  then show ?case
    by (auto simp: items_ok_Cons keys_kv_set dest: less_trans)
qed (simp add: items_ok_Cons)

lemma items_ok_filter: "items_ok m \<Longrightarrow> items_ok (filter P m)"
  unfolding items_ok_def by (induction m) auto

lemma items_ok_delete: "items_ok m \<Longrightarrow> items_ok (kv_delete m k)"
  by (simp add: kv_delete_def items_ok_filter)

lemma items_ok_entries: "items_ok m \<Longrightarrow> (k, v) \<in> set m \<longleftrightarrow> kv_get m k = Some v"
proof (induction m)
  case (Cons a m)
  then show ?case by (cases a) (force simp: items_ok_Cons)
qed simp

interpretation memdb: ordered_kv kv_get kv_set kv_delete "\<lambda>m. m" items_ok
  by unfold_locales
     (simp_all add: kv_get_set kv_get_delete items_ok_set items_ok_delete items_ok_entries,
      simp add: items_ok_def)

section \<open>Iterators list their domain\<close>

lemma visitor_None_None [simp]: "visitor None None xs = xs"
  by (induction "None :: bytes option" "None :: bytes option" xs rule: visitor.induct) auto

lemma visitor_abort:
  assumes "sorted_wrt (>) (map fst xs)"
  shows "visitor None ab xs = filter (\<lambda>(k, _). in_domain ab None k) xs"
  using assms
proof (induction xs)
  case (Cons x xs)
  obtain k v where x: "x = (k, v)" by (cases x)
  show ?case
  proof (cases "in_domain ab None k")
    case True
    with Cons x show ?thesis by (auto simp: in_domain_def split: option.splits)
  next
    case False
    then obtain a where ab: "ab = Some a" and "k < a" by (auto simp: in_domain_def split: option.splits)
    then have "filter (\<lambda>(k, _). in_domain ab None k) xs = []"
      using Cons.prems x by (fastforce simp: in_domain_def filter_empty_conv)
    with False x ab \<open>k < a\<close> show ?thesis by simp
  qed
qed simp

lemma visitor_no_skip: "e \<notin> fst ` set xs \<Longrightarrow> visitor (Some e) ab xs = visitor None ab xs"
  by (induction xs) auto

lemma visitor_skip:
  assumes "sorted_wrt (>) (map fst xs)" and "\<forall>(k, _) \<in> set xs. k \<le> e"
  shows "visitor (Some e) ab xs = filter (\<lambda>(k, _). in_domain ab (Some e) k) xs"
proof (cases xs)
  case (Cons x rest)
  obtain k v where x: "x = (k, v)" by (cases x)
  have below: "\<forall>(k', _) \<in> set rest. k' < k" and rest: "sorted_wrt (>) (map fst rest)"
    using assms(1) Cons x by auto
  have "k \<le> e" using assms(2) Cons x by simp
  then have lt: "\<forall>(k', _) \<in> set rest. k' < e" using below by fastforce
  then have notin: "e \<notin> fst ` set rest" by auto
  have dom: "filter (\<lambda>(k, _). in_domain ab None k) rest =
      filter (\<lambda>(k, _). in_domain ab (Some e) k) rest"
    using lt by (intro filter_cong) (auto simp: in_domain_def)
  show ?thesis
  proof (cases "k = e")
    case True
    then show ?thesis
      using visitor_abort [OF rest] dom by (simp add: Cons x in_domain_def)
  next
    case False
    then have "e \<notin> fst ` set xs" using notin Cons x by simp
    then have "visitor (Some e) ab xs = filter (\<lambda>(k, _). in_domain ab None k) xs"
      using visitor_abort [OF assms(1)] by (simp add: visitor_no_skip)
    then show ?thesis using dom False \<open>k \<le> e\<close> by (simp add: Cons x in_domain_def)
  qed
qed simp

lemma rev_sorted_desc: "sorted_wrt (<) (map fst xs) \<Longrightarrow> sorted_wrt (>) (map fst (rev xs))"
  by (simp add: sorted_wrt_rev flip: rev_map)

lemma memdb_channel_forward: "memdb_channel db start stop False = kv_range db start stop"
  by (auto simp: memdb_channel_def kv_range_def in_domain_def AscendGreaterOrEqual_def
      AscendRange_def split: option.splits)

lemma memdb_channel_reverse:
  assumes "items_ok db"
  shows "memdb_channel db start stop True = rev (kv_range db start stop)"
proof -
  have desc: "sorted_wrt (>) (map fst (rev db))"
    using assms by (simp add: items_ok_def rev_sorted_desc)
  show ?thesis
  proof (cases stop)
    case None
    then show ?thesis using visitor_abort [OF desc, of start]
      by (cases start) (simp_all add: memdb_channel_def kv_range_def rev_filter in_domain_def)
  next
    case (Some e)
    have "items_ok (filter (\<lambda>(k, _). k \<le> e) db)" using assms by (rule items_ok_filter)
    then have "sorted_wrt (>) (map fst (DescendLessOrEqual db e))"
      unfolding DescendLessOrEqual_def items_ok_def by (rule rev_sorted_desc)
    then have "visitor (Some e) start (DescendLessOrEqual db e) =
        filter (\<lambda>(k, _). in_domain start (Some e) k) (DescendLessOrEqual db e)"
      by (rule visitor_skip) (auto simp: DescendLessOrEqual_def)
    also have "\<dots> = rev (kv_range db start stop)"
      by (auto simp: Some DescendLessOrEqual_def kv_range_def in_domain_def simp flip: rev_filter
          intro!: filter_cong)
    finally show ?thesis by (cases start) (simp_all add: memdb_channel_def Some)
  qed
qed

lemma drain_iterator:
  "length ch < n \<Longrightarrow>
   drain (Suc n) \<lparr>it_item = Some x, it_ch = ch, it_start = s, it_end = e\<rparr> = Some (x # ch)"
proof (induction n arbitrary: x ch)
  case (Suc n)
  then show ?case
    by (cases x; cases ch)
       (auto simp: iter_Valid_def iter_Key_def iter_Value_def iter_Next_def)
qed simp

lemma drain_new:
  "length (memdb_channel db s e r) < n \<Longrightarrow>
   drain (Suc n) (newMemDBIterator db s e r) = Some (memdb_channel db s e r)"
  by (auto simp: newMemDBIterator_def iter_Valid_def drain_iterator simp del: drain.simps(2)
      split: list.splits) (simp add: iter_Valid_def)

section \<open>Properties\<close>

text \<open>
  An iterator over an in-memory store lists exactly the entries whose key lies in the half-open
  domain from the start to the end bound (either bound may be absent), in ascending key order;
  the reverse iterator lists the same entries in descending order. Both loops end after at most
  one round per stored entry.
\<close>

theorem memdb_iterators_list_domain:
  assumes "items_ok db" and "\<not> empty_bound start" and "\<not> empty_bound stop"
  shows "\<exists>it rit. MemDB_Iterator db start stop = Inr it \<and>
           drain (length db + 2) it = Some (kv_range db start stop) \<and>
           MemDB_ReverseIterator db start stop = Inr rit \<and>
           drain (length db + 2) rit = Some (rev (kv_range db start stop))"
proof -
  have len: "length (kv_range db start stop) < Suc (length db)"
    by (simp add: kv_range_def less_Suc_eq_le)
  then show ?thesis
    using assms drain_new [of db start stop False "Suc (length db)"]
      drain_new [of db start stop True "Suc (length db)"]
    by (simp add: MemDB_Iterator_def MemDB_ReverseIterator_def memdb_channel_forward
        memdb_channel_reverse del: drain.simps)
qed

theorem memdb_iterators_list_domain_witness:
  "items_ok [(''a'', ''x''), (''b'', ''y''), (''c'', ''z'')] \<and>
   (\<exists>it rit.
      MemDB_Iterator [(''a'', ''x''), (''b'', ''y''), (''c'', ''z'')] (Some ''a'') (Some ''c'') = Inr it \<and>
      drain 5 it = Some [(''a'', ''x''), (''b'', ''y'')] \<and>
      MemDB_ReverseIterator [(''a'', ''x''), (''b'', ''y''), (''c'', ''z'')] (Some ''a'') (Some ''c'') = Inr rit \<and>
      drain 5 rit = Some [(''b'', ''y''), (''a'', ''x'')])"
proof -
  have ok: "items_ok [(''a'', ''x''), (''b'', ''y''), (''c'', ''z'')]" by (simp add: items_ok_def)
  show ?thesis
    using memdb_iterators_list_domain [OF ok, of "Some ''a''" "Some ''c''"] ok
    by (simp add: empty_bound_def kv_range_def in_domain_def eval_nat_numeral del: drain.simps)
qed

end
