(* ===== verification/Wasm_Types.thy ===== *)
theory Wasm_Types
  imports Prelude
begin

text \<open>
  The data of the module: \<open>x/wasm/types/types.go\<close>, the messages of \<open>types.pb.go\<close> it works on,
  the registered errors of \<open>errors.go\<close> and the values \<open>context.go\<close> keeps in a context.

  Bech32 text of account addresses is the Cosmos SDK's: it is the parameter
  \<open>addr_codec\<close>, and \<open>bech32_ok\<close> states what the module relies on, namely that the text of a
  non-empty address of at most 255 bytes is not empty and parses back to it, that the empty
  address has the empty text, and that no text parses to the empty address.
\<close>

section \<open>Addresses\<close>

record addr_codec =
  addr_String :: "bytes \<Rightarrow> string"
  AccAddressFromBech32 :: "string \<Rightarrow> go_error + bytes"

definition bech32_ok :: "addr_codec \<Rightarrow> bool" where
  "bech32_ok c \<longleftrightarrow>
     (\<forall>a. a \<noteq> [] \<and> length a \<le> 255 \<longrightarrow> AccAddressFromBech32 c (addr_String c a) = Inr a) \<and>
     addr_String c [] = [] \<and>
     (\<forall>a. a \<noteq> [] \<longrightarrow> addr_String c a \<noteq> []) \<and>
     (\<forall>s a. AccAddressFromBech32 c s = Inr a \<longrightarrow> a \<noteq> [] \<and> length a \<le> 255)"

text \<open>An \<open>sdk.AccAddress\<close> that may be nil; its text is empty when it has no bytes.\<close>

type_synonym AccAddress = "bytes option"

definition addr_bytes :: "AccAddress \<Rightarrow> bytes" where
  "addr_bytes a = (case a of None \<Rightarrow> [] | Some b \<Rightarrow> b)"

definition addr_Equals :: "AccAddress \<Rightarrow> AccAddress \<Rightarrow> bool" where
  "addr_Equals a b \<longleftrightarrow> addr_bytes a = addr_bytes b"

definition ContractAddrLen :: nat where "ContractAddrLen = 32"
definition SDKAddrLen :: nat where "SDKAddrLen = 20"

section \<open>Registered errors\<close>

definition wasmErr :: "nat \<Rightarrow> go_error" where
  "wasmErr n = RegisteredError ''wasm'' n"

definition ErrCreateFailed :: go_error where "ErrCreateFailed = wasmErr 2"
definition ErrAccountExists :: go_error where "ErrAccountExists = wasmErr 3"
definition ErrInstantiateFailed :: go_error where "ErrInstantiateFailed = wasmErr 4"
definition ErrExecuteFailed :: go_error where "ErrExecuteFailed = wasmErr 5"
definition ErrInvalidGenesis :: go_error where "ErrInvalidGenesis = wasmErr 7"
definition ErrNotFound :: go_error where "ErrNotFound = wasmErr 8"
definition ErrQueryFailed :: go_error where "ErrQueryFailed = wasmErr 9"
definition ErrInvalidMsg :: go_error where "ErrInvalidMsg = wasmErr 10"
definition ErrMigrationFailed :: go_error where "ErrMigrationFailed = wasmErr 11"
definition ErrEmpty :: go_error where "ErrEmpty = wasmErr 12"
definition ErrLimit :: go_error where "ErrLimit = wasmErr 13"
definition ErrInvalid :: go_error where "ErrInvalid = wasmErr 14"
definition ErrDuplicate :: go_error where "ErrDuplicate = wasmErr 15"
definition ErrUnsupportedForContract :: go_error where "ErrUnsupportedForContract = wasmErr 17"
definition ErrPinContractFailed :: go_error where "ErrPinContractFailed = wasmErr 18"
definition ErrUnpinContractFailed :: go_error where "ErrUnpinContractFailed = wasmErr 19"
definition ErrUnknownMsg :: go_error where "ErrUnknownMsg = wasmErr 20"
definition ErrInvalidEvent :: go_error where "ErrInvalidEvent = wasmErr 21"
definition ErrExceedMaxQueryStackSize :: go_error where "ErrExceedMaxQueryStackSize = wasmErr 27"
definition ErrVMError :: go_error where "ErrVMError = wasmErr 29"
definition ErrExceedMaxCallDepth :: go_error where "ErrExceedMaxCallDepth = wasmErr 30"

definition ErrNoSuchContractFn :: "string \<Rightarrow> go_error" where
  "ErrNoSuchContractFn addr = FlavouredError (wasmErr 22) (NoSuchContract addr)"

definition ErrNoSuchCodeFn :: "u64 \<Rightarrow> go_error" where
  "ErrNoSuchCodeFn codeID = FlavouredError (wasmErr 28) (NoSuchCode codeID)"

text \<open>Errors of the SDK's own codespace that the module returns.\<close>

definition sdkErr :: "nat \<Rightarrow> go_error" where
  "sdkErr n = RegisteredError ''sdk'' n"

definition ErrUnauthorized :: go_error where "ErrUnauthorized = sdkErr 4"
definition ErrInvalidAddress :: go_error where "ErrInvalidAddress = sdkErr 7"
definition ErrInvalidCoins :: go_error where "ErrInvalidCoins = sdkErr 10"
definition ErrOutOfGas :: go_error where "ErrOutOfGas = sdkErr 11"
definition ErrInvalidRequest :: go_error where "ErrInvalidRequest = sdkErr 18"
definition ErrInvalidType :: go_error where "ErrInvalidType = sdkErr 29"

text \<open>The root cause that \<open>errors.Is\<close> compares.\<close>

fun error_is :: "go_error \<Rightarrow> go_error \<Rightarrow> bool" where
  "error_is (WrappedError d e) t = (WrappedError d e = t \<or> error_is e t)"
| "error_is (DeterministicError e) t = (DeterministicError e = t \<or> error_is e t)"
| "error_is (FlavouredError e v) t = (FlavouredError e v = t \<or> error_is e t)"
| "error_is e t = (e = t)"

section \<open>Access configuration data\<close>

text \<open>
  \<open>AccessType\<close> is an \<open>int32\<close> enum: a value outside the named ones is \<open>AccessTypeOther\<close>.
\<close>

datatype AccessType =
    AccessTypeUnspecified
  | AccessTypeNobody
  | AccessTypeEverybody
  | AccessTypeAnyOfAddresses
  | AccessTypeOther int

record AccessConfig =
  Permission :: AccessType
  Addresses :: "string list"

record Params =
  CodeUploadAccess :: AccessConfig
  InstantiateDefaultPermission :: AccessType

section \<open>Codes, contracts and their history\<close>

record CodeInfo =
  code_CodeHash :: bytes
  code_Creator :: string
  code_InstantiateConfig :: AccessConfig

record AbsoluteTxPosition =
  pos_BlockHeight :: u64
  pos_TxIndex :: u64

text \<open>An extension is an opaque packed value (\<open>codectypes.Any\<close>).\<close>

record ContractInfo =
  con_CodeID :: u64
  con_Creator :: string
  con_Admin :: string
  con_Label :: string
  con_Created :: "AbsoluteTxPosition option"
  con_IBCPortID :: string
  con_Extension :: "bytes option"

datatype ContractCodeHistoryOperationType =
    OperationTypeUnspecified
  | OperationTypeInit
  | OperationTypeMigrate
  | OperationTypeGenesis
  | OperationTypeOther int

record ContractCodeHistoryEntry =
  hist_Operation :: ContractCodeHistoryOperationType
  hist_CodeID :: u64
  hist_Updated :: "AbsoluteTxPosition option"
  hist_Msg :: bytes

record Model =
  model_Key :: bytes
  model_Value :: bytes

record sdk_Coin =
  coin_Denom :: string
  coin_Amount :: int

section \<open>Authorization policies\<close>

datatype AuthorizationPolicyAction =
    AuthZActionUnspecified
  | AuthZActionInstantiate
  | AuthZActionMigrateContract

text \<open>The implementations of \<open>types.AuthorizationPolicy\<close> in \<open>keeper/authz_policy.go\<close>.\<close>

datatype AuthorizationPolicy =
    DefaultAuthorizationPolicy
  | GovAuthorizationPolicy "AuthorizationPolicyAction set"
  | PartialGovAuthorizationPolicy AuthorizationPolicyAction AuthorizationPolicy

section \<open>The values a context carries\<close>

text \<open>
  The immutable part of an \<open>sdk.Context\<close>: block data and the values of \<open>context.go\<close>. What is
  shared by reference (stores, gas meter, event manager, the contracts of the transaction) is
  state of the programs below.
\<close>

record ctx =
  ctx_BlockHeight :: int
  ctx_BlockTime :: int
  ctx_ChainID :: string
  ctx_BlockGas :: "u64 option"
  ctx_TXCounter :: "u32 option"
  ctx_QueryStackSize :: "u32 option"
  ctx_SubMsgAuthzPolicy :: "AuthorizationPolicy option"
  ctx_CallDepth :: "u32 option"

definition WithTXCounter :: "ctx \<Rightarrow> u32 \<Rightarrow> ctx" where
  "WithTXCounter c n = c\<lparr>ctx_TXCounter := Some n\<rparr>"

definition TXCounter :: "ctx \<Rightarrow> u32 \<times> bool" where
  "TXCounter c = (case ctx_TXCounter c of None \<Rightarrow> (0, False) | Some n \<Rightarrow> (n, True))"

definition WithQueryStackSize :: "ctx \<Rightarrow> u32 \<Rightarrow> ctx" where
  "WithQueryStackSize c n = c\<lparr>ctx_QueryStackSize := Some n\<rparr>"

definition QueryStackSize :: "ctx \<Rightarrow> u32 \<times> bool" where
  "QueryStackSize c = (case ctx_QueryStackSize c of None \<Rightarrow> (0, False) | Some n \<Rightarrow> (n, True))"

definition WithCallDepth :: "ctx \<Rightarrow> u32 \<Rightarrow> ctx" where
  "WithCallDepth c n = c\<lparr>ctx_CallDepth := Some n\<rparr>"

definition CallDepth :: "ctx \<Rightarrow> u32 \<times> bool" where
  "CallDepth c = (case ctx_CallDepth c of None \<Rightarrow> (0, False) | Some n \<Rightarrow> (n, True))"

definition WithSubMsgAuthzPolicy :: "ctx \<Rightarrow> AuthorizationPolicy \<Rightarrow> ctx" where
  "WithSubMsgAuthzPolicy c p = c\<lparr>ctx_SubMsgAuthzPolicy := Some p\<rparr>"

definition SubMsgAuthzPolicy :: "ctx \<Rightarrow> AuthorizationPolicy option" where
  "SubMsgAuthzPolicy c = ctx_SubMsgAuthzPolicy c"

section \<open>Operations on this data\<close>

definition NewCodeInfo :: "addr_codec \<Rightarrow> bytes \<Rightarrow> AccAddress \<Rightarrow> AccessConfig \<Rightarrow> CodeInfo" where
  "NewCodeInfo ac codeHash creator instantiatePermission =
     \<lparr>code_CodeHash = codeHash,
      code_Creator = addr_String ac (addr_bytes creator),
      code_InstantiateConfig = instantiatePermission\<rparr>"

definition NewContractInfo ::
  "addr_codec \<Rightarrow> u64 \<Rightarrow> AccAddress \<Rightarrow> AccAddress \<Rightarrow> string \<Rightarrow> AbsoluteTxPosition option \<Rightarrow> ContractInfo"
where
  "NewContractInfo ac codeID creator admin label createdAt =
     \<lparr>con_CodeID = codeID,
      con_Creator = addr_String ac (addr_bytes creator),
      con_Admin = (if addr_bytes admin \<noteq> [] then addr_String ac (addr_bytes admin) else []),
      con_Label = label,
      con_Created = createdAt,
      con_IBCPortID = [],
      con_Extension = None\<rparr>"

definition NewAbsoluteTxPosition :: "ctx \<Rightarrow> AbsoluteTxPosition outcome" where
  "NewAbsoluteTxPosition c =
     (let index = (case ctx_BlockGas c of None \<Rightarrow> 0 | Some g \<Rightarrow> g);
          height = ctx_BlockHeight c
      in if height < 0 then Panic PanicOther
         else Ok \<lparr>pos_BlockHeight = word_of_int height, pos_TxIndex = index\<rparr>)"

fun LessThan :: "AbsoluteTxPosition option \<Rightarrow> AbsoluteTxPosition option \<Rightarrow> bool" where
  "LessThan None _ = True"
| "LessThan (Some a) None = False"
| "LessThan (Some a) (Some b) =
     (pos_BlockHeight a < pos_BlockHeight b \<or>
      pos_BlockHeight a = pos_BlockHeight b \<and> pos_TxIndex a < pos_TxIndex b)"

definition InitialHistory :: "ContractInfo \<Rightarrow> bytes \<Rightarrow> ContractCodeHistoryEntry" where
  "InitialHistory c initMsg =
     \<lparr>hist_Operation = OperationTypeInit, hist_CodeID = con_CodeID c,
      hist_Updated = con_Created c, hist_Msg = initMsg\<rparr>"

definition AddMigration ::
  "ContractInfo \<Rightarrow> ctx \<Rightarrow> u64 \<Rightarrow> bytes \<Rightarrow> (ContractCodeHistoryEntry \<times> ContractInfo) outcome"
where
  "AddMigration c ctx codeID msg =
     bindO (NewAbsoluteTxPosition ctx) (\<lambda>pos.
       Ok (\<lparr>hist_Operation = OperationTypeMigrate, hist_CodeID = codeID,
            hist_Updated = Some pos, hist_Msg = msg\<rparr>,
           c\<lparr>con_CodeID := codeID\<rparr>))"

definition AdminAddr :: "addr_codec \<Rightarrow> ContractInfo \<Rightarrow> AccAddress outcome" where
  "AdminAddr ac c =
     (if con_Admin c = [] then Ok None
      else case AccAddressFromBech32 ac (con_Admin c) of
             Inl _ \<Rightarrow> Panic PanicOther
           | Inr a \<Rightarrow> Ok (Some a))"

definition VerifyAddressLen :: "bytes \<Rightarrow> go_error + unit" where
  "VerifyAddressLen addr =
     (if length addr \<noteq> ContractAddrLen \<and> length addr \<noteq> SDKAddrLen
      then Inl ErrInvalidAddress else Inr ())"

section \<open>Contracts executed in a transaction\<close>

type_synonym TxContracts = "string set"

definition NewTxContracts :: TxContracts where
  "NewTxContracts = {}"

definition AddContract :: "TxContracts \<Rightarrow> bytes \<Rightarrow> TxContracts" where
  "AddContract tc checksum = (if checksum = [] then tc else insert (hex_encode checksum) tc)"

definition TxContracts_Exists :: "TxContracts \<Rightarrow> bytes \<Rightarrow> bool" where
  "TxContracts_Exists tc checksum \<longleftrightarrow> hex_encode checksum \<in> tc"

lemma of_char_hex_digit:
  assumes "n < 16"
  shows "of_char (hex_digit n) = (if n < 10 then 48 + n else 87 + n :: nat)"
  using assms by (simp add: hex_digit_def)

lemma hex_digit_inj:
  assumes "n < 16" and "m < 16" and "hex_digit n = hex_digit m"
  shows "n = m"
proof -
  have "(if n < 10 then 48 + n else 87 + n :: nat) = (if m < 10 then 48 + m else 87 + m)"
    using of_char_hex_digit [OF assms(1)] of_char_hex_digit [OF assms(2)] assms(3) by metis
  then show ?thesis by (simp split: if_splits)
qed

lemma hex_pair_inj:
  assumes "hex_digit (of_char c div 16) = hex_digit (of_char d div 16)"
    and "hex_digit (of_char c mod 16) = hex_digit (of_char d mod 16)"
  shows "c = d"
proof -
  have "of_char c div 16 < (16::nat)" "of_char d div 16 < (16::nat)"
    using nat_of_char_less_256 [of c] nat_of_char_less_256 [of d] by linarith+
  then have "of_char c div 16 = (of_char d div 16 :: nat)"
    using assms(1) by (rule hex_digit_inj)
  moreover have "of_char c mod 16 = (of_char d mod 16 :: nat)"
    by (rule hex_digit_inj [OF _ _ assms(2)]) simp_all
  ultimately have "(of_char c :: nat) = of_char d" by (metis div_mult_mod_eq)
  then show ?thesis by simp
qed

lemma hex_encode_inj [simp]: "hex_encode xs = hex_encode ys \<longleftrightarrow> xs = ys"
proof
  show "hex_encode xs = hex_encode ys \<Longrightarrow> xs = ys"
  proof (induction xs arbitrary: ys)
    case Nil
    then show ?case by (cases ys) (simp_all add: hex_encode_def)
  next
    case (Cons c xs)
    then obtain d zs where ys: "ys = d # zs" by (cases ys) (auto simp: hex_encode_def)
    with Cons.prems have "hex_encode xs = hex_encode zs" and "c = d"
      by (auto simp: hex_encode_def intro: hex_pair_inj)
    with Cons.IH ys show ?case by simp
  qed
qed simp

lemma TxContracts_Exists_AddContract:
  "TxContracts_Exists (AddContract tc a) b \<longleftrightarrow> (a \<noteq> [] \<and> a = b) \<or> TxContracts_Exists tc b"
  by (auto simp: TxContracts_Exists_def AddContract_def)

end
