(* ===== verification/Keys.thy ===== *)
theory Keys
  imports Wasm_Types
begin

text \<open>
  The keys of the module's store (\<open>x/wasm/types/keys.go\<close>) and the sortable encoding of a
  transaction position (\<open>types.go\<close>). The lemmas show that keys of different kinds never
  collide, that each kind is injective in its arguments, and that the byte order of the keys of
  a secondary index is the order of the positions they hold.
\<close>

section \<open>Prefixes\<close>

definition CodeKeyPrefix :: bytes where "CodeKeyPrefix = [CHR 0x01]"
definition ContractKeyPrefix :: bytes where "ContractKeyPrefix = [CHR 0x02]"
definition ContractStorePrefix :: bytes where "ContractStorePrefix = [CHR 0x03]"
definition SequenceKeyPrefix :: bytes where "SequenceKeyPrefix = [CHR 0x04]"
definition ContractCodeHistoryElementPrefix :: bytes where
  "ContractCodeHistoryElementPrefix = [CHR 0x05]"
definition ContractByCodeIDAndCreatedSecondaryIndexPrefix :: bytes where
  "ContractByCodeIDAndCreatedSecondaryIndexPrefix = [CHR 0x06]"
definition PinnedCodeIndexPrefix :: bytes where "PinnedCodeIndexPrefix = [CHR 0x07]"
definition TXCounterPrefix :: bytes where "TXCounterPrefix = [CHR 0x08]"
definition ContractsByCreatorPrefix :: bytes where "ContractsByCreatorPrefix = [CHR 0x09]"
definition ParamsKey :: bytes where "ParamsKey = [CHR 0x10]"
definition AsyncAckKeyPrefix :: bytes where "AsyncAckKeyPrefix = [CHR 0x11]"

definition KeySequenceCodeID :: bytes where
  "KeySequenceCodeID = SequenceKeyPrefix @ ''lastCodeId''"
definition KeySequenceInstanceID :: bytes where
  "KeySequenceInstanceID = SequenceKeyPrefix @ ''lastContractId''"

lemmas prefix_defs =
  CodeKeyPrefix_def ContractKeyPrefix_def ContractStorePrefix_def SequenceKeyPrefix_def
  ContractCodeHistoryElementPrefix_def ContractByCodeIDAndCreatedSecondaryIndexPrefix_def
  PinnedCodeIndexPrefix_def TXCounterPrefix_def ContractsByCreatorPrefix_def ParamsKey_def
  AsyncAckKeyPrefix_def

section \<open>Integers and positions as bytes\<close>

definition Uint64ToBigEndian :: "u64 \<Rightarrow> bytes" where
  "Uint64ToBigEndian i = be_bytes 8 (unat i)"

text \<open>
  \<open>sdk.BigEndianToUint64\<close> reads zero from an empty slice and otherwise the first eight bytes;
  a shorter slice is an index out of range.
\<close>

definition BigEndianToUint64 :: "bytes \<Rightarrow> u64 outcome" where
  "BigEndianToUint64 bz =
     (if bz = [] then Ok 0
      else if length bz < 8 then Panic PanicOther
      else Ok (word_of_nat (be_val (take 8 bz))))"

definition PutUint32 :: "u32 \<Rightarrow> bytes" where
  "PutUint32 i = be_bytes 4 (unat i)"

definition AbsoluteTxPositionLen :: nat where "AbsoluteTxPositionLen = 16"

definition position_bytes :: "AbsoluteTxPosition \<Rightarrow> bytes" where
  "position_bytes a = Uint64ToBigEndian (pos_BlockHeight a) @ Uint64ToBigEndian (pos_TxIndex a)"

definition AbsoluteTxPosition_Bytes :: "AbsoluteTxPosition option \<Rightarrow> bytes outcome" where
  "AbsoluteTxPosition_Bytes a =
     (case a of None \<Rightarrow> Panic PanicOther | Some p \<Rightarrow> Ok (position_bytes p))"

text \<open>\<open>address.MustLengthPrefix\<close>: one length byte, a panic above 255 bytes.\<close>

definition MustLengthPrefix :: "bytes \<Rightarrow> bytes outcome" where
  "MustLengthPrefix bz =
     (if length bz > 255 then Panic PanicOther else Ok (char_of (length bz) # bz))"

section \<open>Key constructors\<close>

definition GetCodeKey :: "u64 \<Rightarrow> bytes" where
  "GetCodeKey codeID = CodeKeyPrefix @ Uint64ToBigEndian codeID"

definition GetContractAddressKey :: "bytes \<Rightarrow> bytes" where
  "GetContractAddressKey addr = ContractKeyPrefix @ addr"

definition GetContractsByCreatorPrefix :: "bytes \<Rightarrow> bytes outcome" where
  "GetContractsByCreatorPrefix addr =
     bindO (MustLengthPrefix addr) (\<lambda>bz. Ok (ContractsByCreatorPrefix @ bz))"

definition GetContractStorePrefix :: "bytes \<Rightarrow> bytes" where
  "GetContractStorePrefix addr = ContractStorePrefix @ addr"

definition GetAsyncPacketKey :: "string \<Rightarrow> u64 \<Rightarrow> bytes" where
  "GetAsyncPacketKey destChannel sequence =
     PutUint32 (word_of_nat (length destChannel)) @ destChannel @ Uint64ToBigEndian sequence"

definition GetAsyncAckStorePrefix :: "string \<Rightarrow> bytes" where
  "GetAsyncAckStorePrefix portID = AsyncAckKeyPrefix @ portID"

definition GetContractByCodeIDSecondaryIndexPrefix :: "u64 \<Rightarrow> bytes" where
  "GetContractByCodeIDSecondaryIndexPrefix codeID =
     ContractByCodeIDAndCreatedSecondaryIndexPrefix @ Uint64ToBigEndian codeID"

definition GetContractByCreatedSecondaryIndexKey ::
  "bytes \<Rightarrow> ContractCodeHistoryEntry \<Rightarrow> bytes outcome"
where
  "GetContractByCreatedSecondaryIndexKey contractAddr c =
     bindO (AbsoluteTxPosition_Bytes (hist_Updated c)) (\<lambda>updated.
       Ok (GetContractByCodeIDSecondaryIndexPrefix (hist_CodeID c) @ updated @ contractAddr))"

text \<open>\<open>copy\<close> into a 16 byte window: a short position leaves zero bytes, a long one is cut.\<close>

definition GetContractByCreatorSecondaryIndexKey ::
  "bytes \<Rightarrow> bytes \<Rightarrow> bytes \<Rightarrow> bytes outcome"
where
  "GetContractByCreatorSecondaryIndexKey bz position contractAddr =
     bindO (GetContractsByCreatorPrefix bz) (\<lambda>prefixBytes.
       Ok (prefixBytes
           @ take AbsoluteTxPositionLen (position @ replicate AbsoluteTxPositionLen (CHR 0x00))
           @ contractAddr))"

definition GetContractCodeHistoryElementPrefix :: "bytes \<Rightarrow> bytes" where
  "GetContractCodeHistoryElementPrefix contractAddr =
     ContractCodeHistoryElementPrefix @ contractAddr"

definition GetContractCodeHistoryElementKey :: "bytes \<Rightarrow> u64 \<Rightarrow> bytes" where
  "GetContractCodeHistoryElementKey contractAddr pos =
     GetContractCodeHistoryElementPrefix contractAddr @ Uint64ToBigEndian pos"

definition GetPinnedCodeIndexPrefix :: "u64 \<Rightarrow> bytes" where
  "GetPinnedCodeIndexPrefix codeID = PinnedCodeIndexPrefix @ Uint64ToBigEndian codeID"

definition ParsePinnedCodeIndex :: "bytes \<Rightarrow> u64 outcome" where
  "ParsePinnedCodeIndex s = BigEndianToUint64 s"

section \<open>Encodings\<close>

lemma unat_u64_less: "unat (w :: u64) < 256 ^ 8"
  using unsigned_less [of w] by simp

lemma unat_u32_less: "unat (w :: u32) < 256 ^ 4"
  using unsigned_less [of w] by simp

lemma length_Uint64ToBigEndian [simp]: "length (Uint64ToBigEndian i) = 8"
  by (simp add: Uint64ToBigEndian_def)

lemma length_PutUint32 [simp]: "length (PutUint32 i) = 4"
  by (simp add: PutUint32_def)

lemma Uint64ToBigEndian_inj [simp]: "Uint64ToBigEndian a = Uint64ToBigEndian b \<longleftrightarrow> a = b"
  using be_bytes_inj [OF unat_u64_less unat_u64_less, of a b]
  by (auto simp: Uint64ToBigEndian_def word_unat_eq_iff)

lemma PutUint32_inj [simp]: "PutUint32 a = PutUint32 b \<longleftrightarrow> a = b"
  using be_bytes_inj [OF unat_u32_less unat_u32_less, of a b]
  by (auto simp: PutUint32_def word_unat_eq_iff)

lemma Uint64ToBigEndian_nonempty [simp]: "Uint64ToBigEndian i \<noteq> []"
  by (metis length_Uint64ToBigEndian list.size(3) zero_neq_numeral)

lemma Uint64ToBigEndian_less [simp]: "Uint64ToBigEndian a < Uint64ToBigEndian b \<longleftrightarrow> a < b"
  unfolding Uint64ToBigEndian_def be_bytes_less_iff [OF unat_u64_less unat_u64_less]
  by (simp add: word_less_nat_alt)

lemma BigEndianToUint64_roundtrip [simp]: "BigEndianToUint64 (Uint64ToBigEndian i @ r) = Ok i"
  using unat_u64_less [of i] by (simp add: BigEndianToUint64_def) (simp add: Uint64ToBigEndian_def)

lemma BigEndianToUint64_roundtrip_exact [simp]: "BigEndianToUint64 (Uint64ToBigEndian i) = Ok i"
  using BigEndianToUint64_roundtrip [of i "[]"] by simp

lemma length_position_bytes [simp]: "length (position_bytes p) = 16"
  by (simp add: position_bytes_def)

lemma position_bytes_inj [simp]: "position_bytes p = position_bytes q \<longleftrightarrow> p = q"
  by (auto simp: position_bytes_def)

lemma append_less_iff:
  fixes xs ys :: "char list"
  assumes "length xs = length ys"
  shows "xs @ us < ys @ vs \<longleftrightarrow> xs < ys \<or> xs = ys \<and> us < vs"
  using assms by (induction xs ys rule: list_induct2) auto

lemma position_bytes_less: "position_bytes p < position_bytes q \<longleftrightarrow> LessThan (Some p) (Some q)"
  by (simp add: position_bytes_def append_less_iff)

section \<open>Keys as data\<close>

text \<open>
  The module's keys seen abstractly: one constructor per kind of entry. \<open>key_of\<close> is the key
  the code builds for it; it panics where the code does.
\<close>

datatype store_key =
    CodeK u64
  | ContractK bytes
  | StoreK bytes bytes
  | SequenceCodeK
  | SequenceInstanceK
  | HistoryK bytes u64
  | ByCodeK u64 AbsoluteTxPosition bytes
  | PinnedK u64
  | TXCounterK
  | ByCreatorK bytes AbsoluteTxPosition bytes
  | ParamsK
  | AsyncAckK string string u64

fun key_of :: "store_key \<Rightarrow> bytes outcome" where
  "key_of (CodeK i) = Ok (GetCodeKey i)"
| "key_of (ContractK a) = Ok (GetContractAddressKey a)"
| "key_of (StoreK a k) = Ok (GetContractStorePrefix a @ k)"
| "key_of SequenceCodeK = Ok KeySequenceCodeID"
| "key_of SequenceInstanceK = Ok KeySequenceInstanceID"
| "key_of (HistoryK a i) = Ok (GetContractCodeHistoryElementKey a i)"
| "key_of (ByCodeK i p a) =
     GetContractByCreatedSecondaryIndexKey a
       \<lparr>hist_Operation = OperationTypeInit, hist_CodeID = i, hist_Updated = Some p, hist_Msg = []\<rparr>"
| "key_of (PinnedK i) = Ok (GetPinnedCodeIndexPrefix i)"
| "key_of TXCounterK = Ok TXCounterPrefix"
| "key_of (ByCreatorK c p a) = GetContractByCreatorSecondaryIndexKey c (position_bytes p) a"
| "key_of ParamsK = Ok ParamsKey"
| "key_of (AsyncAckK port chan i) = Ok (GetAsyncAckStorePrefix port @ GetAsyncPacketKey chan i)"

text \<open>
  Two keys of the same kind are comparable when what precedes a component of free length is
  delimited: contract stores of addresses of one length, packets of ports of one length.
\<close>

fun comparable :: "store_key \<Rightarrow> store_key \<Rightarrow> bool" where
  "comparable (StoreK a _) (StoreK b _) = (length a = length b)"
| "comparable (AsyncAckK p c _) (AsyncAckK q d _) =
     (length p = length q \<and> length c < 2 ^ 32 \<and> length d < 2 ^ 32)"
| "comparable _ _ = True"

lemmas key_constructor_defs =
  GetCodeKey_def GetContractAddressKey_def GetContractStorePrefix_def KeySequenceCodeID_def
  KeySequenceInstanceID_def GetContractCodeHistoryElementKey_def
  GetContractCodeHistoryElementPrefix_def GetContractByCreatedSecondaryIndexKey_def
  GetContractByCodeIDSecondaryIndexPrefix_def AbsoluteTxPosition_Bytes_def
  GetPinnedCodeIndexPrefix_def GetContractByCreatorSecondaryIndexKey_def
  GetContractsByCreatorPrefix_def MustLengthPrefix_def GetAsyncAckStorePrefix_def

text \<open>The first byte of a key tells its kind.\<close>

fun key_kind :: "store_key \<Rightarrow> nat" where
  "key_kind (CodeK _) = 1"
| "key_kind (ContractK _) = 2"
| "key_kind (StoreK _ _) = 3"
| "key_kind SequenceCodeK = 4"
| "key_kind SequenceInstanceK = 4"
| "key_kind (HistoryK _ _) = 5"
| "key_kind (ByCodeK _ _ _) = 6"
| "key_kind (PinnedK _) = 7"
| "key_kind TXCounterK = 8"
| "key_kind (ByCreatorK _ _ _) = 9"
| "key_kind ParamsK = 16"
| "key_kind (AsyncAckK _ _ _) = 17"

lemma key_of_kind: "key_of k = Ok b \<Longrightarrow> b \<noteq> [] \<and> of_char (hd b) = key_kind k"
  by (cases k) (auto simp: key_constructor_defs prefix_defs split: if_splits)

lemma creator_key_inj:
  assumes "char_of (length c) # c @ xs = char_of (length d) # d @ ys"
    and "length c \<le> 255" and "length d \<le> 255"
  shows "c = d \<and> xs = ys"
proof -
  have "(of_char (char_of (length c) :: char) :: nat) = of_char (char_of (length d) :: char)"
    using assms(1) by simp
  then have "length c = length d" using assms(2,3) by simp
  with assms(1) show ?thesis by simp
qed

lemma async_key_inj:
  assumes "GetAsyncPacketKey c i = GetAsyncPacketKey d j"
    and "length c < 2 ^ 32" and "length d < 2 ^ 32"
  shows "c = d \<and> i = j"
proof -
  have "word_of_nat (length c) = (word_of_nat (length d) :: u32)"
    and rest: "c @ Uint64ToBigEndian i = d @ Uint64ToBigEndian j"
    using assms(1) by (auto simp: GetAsyncPacketKey_def)
  then have "length c = length d"
    using assms(2,3) by (simp add: word_of_nat_eq_iff take_bit_nat_eq_self)
  with rest show ?thesis by simp
qed

lemma key_of_eq_same_kind:
  assumes "key_of k = Ok b" and "key_of l = Ok b"
  shows "key_kind k = key_kind l"
  using key_of_kind [OF assms(1)] key_of_kind [OF assms(2)] by simp

lemma key_of_inj_aux:
  assumes "key_of k = Ok b" and "key_of l = Ok b" and "comparable k l"
  shows "k = l"
  using assms key_of_eq_same_kind [OF assms(1,2)]
proof (cases k)
  case (ByCreatorK c p a)
  with assms(1) have c: "length c \<le> 255"
    and b: "b = ContractsByCreatorPrefix @ char_of (length c) # c @ position_bytes p @ a"
    by (auto simp: key_constructor_defs AbsoluteTxPositionLen_def split: if_splits)
  from ByCreatorK key_of_eq_same_kind [OF assms(1,2)] obtain d q e where l: "l = ByCreatorK d q e"
    by (cases l) auto
  with assms(2) have d: "length d \<le> 255"
    and b': "b = ContractsByCreatorPrefix @ char_of (length d) # d @ position_bytes q @ e"
    by (auto simp: key_constructor_defs AbsoluteTxPositionLen_def split: if_splits)
  from b b' have "char_of (length c) # c @ (position_bytes p @ a) =
      char_of (length d) # d @ (position_bytes q @ e)"
    by simp
  from creator_key_inj [OF this c d] show ?thesis by (simp add: ByCreatorK l)
next
  case (AsyncAckK p c i)
  with key_of_eq_same_kind [OF assms(1,2)] obtain q d j where l: "l = AsyncAckK q d j"
    by (cases l) auto
  from assms AsyncAckK l have "p = q" and "GetAsyncPacketKey c i = GetAsyncPacketKey d j"
    by (auto simp: GetAsyncAckStorePrefix_def)
  with assms(3) AsyncAckK l async_key_inj [of c i d j] show ?thesis by simp
qed (cases l; auto simp: key_constructor_defs prefix_defs)+

section \<open>Properties\<close>

text \<open>
  C34: No two entries of the module's store share a key. Whatever the kinds of two entries, if
  the code builds the same key for both, they are the same entry, provided that contract
  addresses (for contract data) and port names (for pending acknowledgements) have one length.
\<close>

theorem store_keys_injective:
  assumes "key_of k = Ok b" and "key_of l = Ok b" and "comparable k l"
  shows "k = l"
  using assms by (rule key_of_inj_aux)

theorem store_keys_injective_witness:
  "key_of (HistoryK ''contract'' 7) = Ok (GetContractCodeHistoryElementKey ''contract'' 7) \<and>
   comparable (HistoryK ''contract'' 7) (HistoryK ''contract'' 7) \<and>
   HistoryK ''contract'' 7 = HistoryK ''contract'' 7"
  using store_keys_injective
    [of "HistoryK ''contract'' 7" "GetContractCodeHistoryElementKey ''contract'' 7"
        "HistoryK ''contract'' 7"]
  by simp

end
