(* ===== verification/Vm_Types.thy ===== *)
theory Vm_Types
  imports Prelude
begin

text \<open>
  The messages exchanged with contracts (\<open>wasmvm/types\<close>): contract results, submessages and
  replies (\<open>msg.go\<close>, \<open>submessages.go\<close>), IBC messages (\<open>ibc.go\<close>) and system errors
  (\<open>systemerror.go\<close>). A pointer field that may be nil is an option.
\<close>

section \<open>Coins, events and messages\<close>

record Coin =
  vcoin_Denom :: string
  vcoin_Amount :: string

record EventAttribute =
  attr_Key :: string
  attr_Value :: string

record Event =
  ev_Type :: string
  ev_Attributes :: "EventAttribute list"

record SendMsg =
  send_ToAddress :: string
  send_Amount :: "Coin list"

record BurnMsg =
  burn_Amount :: "Coin list"

record BankMsg =
  bank_Send :: "SendMsg option"
  bank_Burn :: "BurnMsg option"

record IBCTimeoutBlock =
  tb_Revision :: u64
  tb_Height :: u64

record IBCTimeout =
  to_Block :: "IBCTimeoutBlock option"
  to_Timestamp :: u64

record TransferMsg =
  transfer_ChannelID :: string
  transfer_ToAddress :: string
  transfer_Amount :: Coin
  transfer_Timeout :: IBCTimeout
  transfer_Memo :: string

record SendPacketMsg =
  sp_ChannelID :: string
  sp_Data :: bytes
  sp_Timeout :: IBCTimeout

record WriteAcknowledgementMsg =
  wa_Ack :: bytes
  wa_ChannelID :: string
  wa_PacketSequence :: u64

record CloseChannelMsg =
  cc_ChannelID :: string

record IBCFee =
  fee_AckFee :: "Coin list"
  fee_ReceiveFee :: "Coin list"
  fee_TimeoutFee :: "Coin list"

record PayPacketFeeMsg =
  pf_ChannelID :: string
  pf_Fee :: IBCFee
  pf_PortID :: string
  pf_Relayers :: "string list"

record PayPacketFeeAsyncMsg =
  pfa_ChannelID :: string
  pfa_Fee :: IBCFee
  pfa_PortID :: string
  pfa_Relayers :: "string list"
  pfa_Sequence :: u64

record IBCMsg =
  ibc_Transfer :: "TransferMsg option"
  ibc_SendPacket :: "SendPacketMsg option"
  ibc_WriteAcknowledgement :: "WriteAcknowledgementMsg option"
  ibc_CloseChannel :: "CloseChannelMsg option"
  ibc_PayPacketFee :: "PayPacketFeeMsg option"
  ibc_PayPacketFeeAsync :: "PayPacketFeeAsyncMsg option"

datatype voteOption = UnsetVoteOption | Yes | No | Abstain | NoWithVeto

record VoteMsg =
  vote_ProposalId :: u64
  vote_Option :: voteOption

record WeightedVoteOption =
  wvo_Option :: voteOption
  wvo_Weight :: string

record VoteWeightedMsg =
  vw_ProposalId :: u64
  vw_Options :: "WeightedVoteOption list"

record GovMsg =
  gov_Vote :: "VoteMsg option"
  gov_VoteWeighted :: "VoteWeightedMsg option"

record DelegateMsg =
  dele_Validator :: string
  dele_Amount :: Coin

record UndelegateMsg =
  und_Validator :: string
  und_Amount :: Coin

record RedelegateMsg =
  red_SrcValidator :: string
  red_DstValidator :: string
  red_Amount :: Coin

record StakingMsg =
  stk_Delegate :: "DelegateMsg option"
  stk_Undelegate :: "UndelegateMsg option"
  stk_Redelegate :: "RedelegateMsg option"

record DistributionMsg =
  dist_SetWithdrawAddress :: "string option"
  dist_WithdrawDelegatorReward :: "string option"
  dist_FundCommunityPool :: "Coin list option"

record AnyMsg =
  any_TypeURL :: string
  any_Value :: bytes

record ExecuteMsg =
  exm_ContractAddr :: string
  exm_Msg :: bytes
  exm_Funds :: "Coin list"

record InstantiateMsg =
  inm_CodeID :: u64
  inm_Msg :: bytes
  inm_Funds :: "Coin list"
  inm_Label :: string
  inm_Admin :: string

record Instantiate2Msg =
  in2_CodeID :: u64
  in2_Msg :: bytes
  in2_Funds :: "Coin list"
  in2_Label :: string
  in2_Admin :: string
  in2_Salt :: bytes

record MigrateMsg =
  mgm_ContractAddr :: string
  mgm_NewCodeID :: u64
  mgm_Msg :: bytes

record UpdateAdminMsg =
  uam_ContractAddr :: string
  uam_Admin :: string

record ClearAdminMsg =
  cam_ContractAddr :: string

record WasmMsg =
  wasm_Execute :: "ExecuteMsg option"
  wasm_Instantiate :: "InstantiateMsg option"
  wasm_Instantiate2 :: "Instantiate2Msg option"
  wasm_Migrate :: "MigrateMsg option"
  wasm_UpdateAdmin :: "UpdateAdminMsg option"
  wasm_ClearAdmin :: "ClearAdminMsg option"

record CosmosMsg =
  cm_Bank :: "BankMsg option"
  cm_Custom :: "bytes option"
  cm_Distribution :: "DistributionMsg option"
  cm_Gov :: "GovMsg option"
  cm_IBC :: "IBCMsg option"
  cm_Staking :: "StakingMsg option"
  cm_Any :: "AnyMsg option"
  cm_Wasm :: "WasmMsg option"

section \<open>Submessages, replies and results\<close>

datatype replyOn = UnsetReplyOn | ReplyAlways | ReplySuccess | ReplyError | ReplyNever

record SubMsg =
  sub_ID :: u64
  sub_Msg :: CosmosMsg
  sub_Payload :: bytes
  sub_GasLimit :: "u64 option"
  sub_ReplyOn :: replyOn

record MsgResponse =
  mr_TypeURL :: string
  mr_Value :: bytes

record SubMsgResponse =
  smr_Events :: "Event list"
  smr_Data :: "bytes option"
  smr_MsgResponses :: "MsgResponse list"

record SubMsgResult =
  res_Ok :: "SubMsgResponse option"
  res_Err :: string

record Reply =
  reply_GasUsed :: u64
  reply_ID :: u64
  reply_Result :: SubMsgResult
  reply_Payload :: bytes

record Response =
  resp_Messages :: "SubMsg list"
  resp_Data :: "bytes option"
  resp_Attributes :: "EventAttribute list"
  resp_Events :: "Event list"

record ContractResult =
  cr_Ok :: "Response option"
  cr_Err :: string

definition SubMessages :: "ContractResult \<Rightarrow> SubMsg list" where
  "SubMessages r = (case cr_Ok r of None \<Rightarrow> [] | Some ok \<Rightarrow> resp_Messages ok)"

section \<open>Decoding of messages with two spellings\<close>

text \<open>
  \<open>CosmosMsg.UnmarshalJSON\<close> and \<open>VoteMsg.UnmarshalJSON\<close> after \<open>encoding/json\<close> has filled the
  internal struct: the field has an old and a new name. Dereferencing the nil pointer of a vote
  with neither name is a panic.
\<close>

definition CosmosMsg_UnmarshalJSON ::
  "CosmosMsg \<Rightarrow> AnyMsg option \<Rightarrow> go_error + CosmosMsg"
where
  "CosmosMsg_UnmarshalJSON tmp stargate =
     (if cm_Any tmp \<noteq> None \<and> stargate \<noteq> None
      then Inl (PlainError ''invalid CosmosMsg: both 'any' and 'stargate' fields are set'')
      else if cm_Any tmp = None \<and> stargate \<noteq> None
      then Inr (tmp\<lparr>cm_Any := stargate\<rparr>)
      else Inr tmp)"

definition VoteMsg_UnmarshalJSON ::
  "u64 \<Rightarrow> voteOption option \<Rightarrow> voteOption option \<Rightarrow> VoteMsg outcome"
where
  "VoteMsg_UnmarshalJSON proposalId opt vote =
     (if opt \<noteq> None \<and> vote \<noteq> None
      then Err (PlainError ''invalid VoteMsg: both 'option' and 'vote' fields are set'')
      else case (if opt = None \<and> vote \<noteq> None then vote else opt) of
             None \<Rightarrow> Panic PanicOther
           | Some v \<Rightarrow> Ok \<lparr>vote_ProposalId = proposalId, vote_Option = v\<rparr>)"

definition toReplyOn :: "string \<Rightarrow> replyOn option" where
  "toReplyOn s =
     (if s = ''always'' then Some ReplyAlways
      else if s = ''success'' then Some ReplySuccess
      else if s = ''error'' then Some ReplyError
      else if s = ''never'' then Some ReplyNever
      else None)"

fun fromReplyOn :: "replyOn \<Rightarrow> string" where
  "fromReplyOn ReplyAlways = ''always''"
| "fromReplyOn ReplySuccess = ''success''"
| "fromReplyOn ReplyError = ''error''"
| "fromReplyOn ReplyNever = ''never''"
| "fromReplyOn UnsetReplyOn = []"

definition toVoteOption :: "string \<Rightarrow> voteOption option" where
  "toVoteOption s =
     (if s = ''yes'' then Some Yes
      else if s = ''no'' then Some No
      else if s = ''abstain'' then Some Abstain
      else if s = ''no_with_veto'' then Some NoWithVeto
      else None)"

fun fromVoteOption :: "voteOption \<Rightarrow> string" where
  "fromVoteOption Yes = ''yes''"
| "fromVoteOption No = ''no''"
| "fromVoteOption Abstain = ''abstain''"
| "fromVoteOption NoWithVeto = ''no_with_veto''"
| "fromVoteOption UnsetVoteOption = []"

section \<open>IBC data\<close>

record IBCEndpoint =
  ep_PortID :: string
  ep_ChannelID :: string

record IBCChannel =
  ch_Endpoint :: IBCEndpoint
  ch_CounterpartyEndpoint :: IBCEndpoint
  ch_Order :: string
  ch_Version :: string
  ch_ConnectionID :: string

datatype IBCChannelOpenMsg = OpenInit IBCChannel | OpenTry IBCChannel string
datatype IBCChannelConnectMsg = OpenAck IBCChannel string | OpenConfirm IBCChannel
datatype IBCChannelCloseMsg = CloseInit IBCChannel | CloseConfirm IBCChannel

fun ChannelOpenMsg_GetChannel :: "IBCChannelOpenMsg \<Rightarrow> IBCChannel" where
  "ChannelOpenMsg_GetChannel (OpenInit c) = c"
| "ChannelOpenMsg_GetChannel (OpenTry c _) = c"

fun ChannelOpenMsg_GetCounterVersion :: "IBCChannelOpenMsg \<Rightarrow> string \<times> bool" where
  "ChannelOpenMsg_GetCounterVersion (OpenTry _ v) = (v, True)"
| "ChannelOpenMsg_GetCounterVersion (OpenInit _) = ([], False)"

fun ChannelConnectMsg_GetChannel :: "IBCChannelConnectMsg \<Rightarrow> IBCChannel" where
  "ChannelConnectMsg_GetChannel (OpenAck c _) = c"
| "ChannelConnectMsg_GetChannel (OpenConfirm c) = c"

fun ChannelConnectMsg_GetCounterVersion :: "IBCChannelConnectMsg \<Rightarrow> string \<times> bool" where
  "ChannelConnectMsg_GetCounterVersion (OpenAck _ v) = (v, True)"
| "ChannelConnectMsg_GetCounterVersion (OpenConfirm _) = ([], False)"

fun ChannelCloseMsg_GetChannel :: "IBCChannelCloseMsg \<Rightarrow> IBCChannel" where
  "ChannelCloseMsg_GetChannel (CloseInit c) = c"
| "ChannelCloseMsg_GetChannel (CloseConfirm c) = c"

record IBCPacket =
  pkt_Data :: bytes
  pkt_Src :: IBCEndpoint
  pkt_Dest :: IBCEndpoint
  pkt_Sequence :: u64
  pkt_Timeout :: IBCTimeout

record IBCPacketReceiveMsg =
  prm_Packet :: IBCPacket
  prm_Relayer :: string

record IBCPacketAckMsg =
  pam_Acknowledgement :: bytes
  pam_OriginalPacket :: IBCPacket
  pam_Relayer :: string

record IBCPacketTimeoutMsg =
  ptm_Packet :: IBCPacket
  ptm_Relayer :: string

datatype IBCSourceCallbackMsg =
    AckCallback bytes IBCPacket string
  | TimeoutCallback IBCPacket string

record IBCDestinationCallbackMsg =
  dcm_Ack :: bytes
  dcm_Packet :: IBCPacket

record IBCChannelOpenResult =
  open_Ok :: "string option"
  open_Err :: string

record IBCBasicResponse =
  basic_Messages :: "SubMsg list"
  basic_Attributes :: "EventAttribute list"
  basic_Events :: "Event list"

record IBCBasicResult =
  basic_Ok :: "IBCBasicResponse option"
  basic_Err :: string

record IBCReceiveResponse =
  recv_Acknowledgement :: "bytes option"
  recv_Messages :: "SubMsg list"
  recv_Attributes :: "EventAttribute list"
  recv_Events :: "Event list"

record IBCReceiveResult =
  recv_Ok :: "IBCReceiveResponse option"
  recv_Err :: string

section \<open>Queries\<close>

record PageRequest =
  page_Key :: bytes
  page_Limit :: u32
  page_Reverse :: bool

record BankQuery =
  bq_Supply :: "string option"
  bq_Balance :: "(string \<times> string) option"
  bq_AllBalances :: "string option"
  bq_DenomMetadata :: "string option"
  bq_AllDenomMetadata :: "PageRequest option option"

record IBCQuery =
  iq_PortID :: bool
  iq_ListChannels :: "string option"
  iq_Channel :: "(string \<times> string) option"
  iq_FeeEnabledChannel :: "(string \<times> string) option"

record StakingQuery =
  sq_AllValidators :: bool
  sq_Validator :: "string option"
  sq_AllDelegations :: "string option"
  sq_Delegation :: "(string \<times> string) option"
  sq_BondedDenom :: bool

record DistributionQuery =
  dq_DelegatorWithdrawAddress :: "string option"
  dq_DelegationRewards :: "(string \<times> string) option"
  dq_DelegationTotalRewards :: "string option"
  dq_DelegatorValidators :: "string option"

record GrpcQuery =
  gq_Data :: bytes
  gq_Path :: string

record SmartQuery =
  smart_ContractAddr :: string
  smart_Msg :: "bytes option"

record RawQuery =
  raw_ContractAddr :: string
  raw_Key :: "bytes option"

record WasmQuery =
  wq_Smart :: "SmartQuery option"
  wq_Raw :: "RawQuery option"
  wq_ContractInfo :: "string option"
  wq_CodeInfo :: "u64 option"

record QueryRequest =
  qr_Bank :: "BankQuery option"
  qr_Custom :: "bytes option"
  qr_IBC :: "IBCQuery option"
  qr_Staking :: "StakingQuery option"
  qr_Distribution :: "DistributionQuery option"
  qr_Stargate :: "GrpcQuery option"
  qr_Grpc :: "GrpcQuery option"
  qr_Wasm :: "WasmQuery option"

record QueryResult =
  qres_Ok :: bytes
  qres_Err :: string

section \<open>Call environment\<close>

record Env =
  env_BlockHeight :: u64
  env_BlockTime :: u64
  env_ChainID :: string
  env_Transaction :: "u32 option"
  env_ContractAddress :: string

record MessageInfo =
  info_Sender :: string
  info_Funds :: "Coin list"

record MigrateInfo =
  minfo_Sender :: string
  minfo_OldMigrateVersion :: "u64 option"

record AnalysisReport =
  rep_HasIBCEntryPoints :: bool
  rep_RequiredCapabilities :: string
  rep_Entrypoints :: "string list"
  rep_ContractMigrateVersion :: "u64 option"

section \<open>System errors\<close>

fun SystemError_Error :: "system_error \<Rightarrow> string" where
  "SystemError_Error (InvalidRequest err req) =
     ''invalid request: '' @ err @ '' - original request: '' @ req"
| "SystemError_Error (InvalidResponse err resp) =
     ''invalid response: '' @ err @ '' - original response: '' @ resp"
| "SystemError_Error (NoSuchContract addr) = ''no such contract: '' @ addr"
| "SystemError_Error (NoSuchCode codeID) = ''no such code: '' @ dec_string (unat codeID)"
| "SystemError_Error UnknownSystem = ''unknown system error''"
| "SystemError_Error (UnsupportedRequest kind) = ''unsupported request: '' @ kind"

text \<open>Only an error that is itself a system error converts; a wrapped one does not.\<close>

fun ToSystemError :: "go_error \<Rightarrow> system_error option" where
  "ToSystemError (SystemError e) = Some e"
| "ToSystemError _ = None"

section \<open>Properties\<close>

text \<open>
  Decoding a contract's vote: exactly one of the two spellings of the option has to be
  present. Both together are rejected with an error; a vote with neither dereferences a nil
  pointer, so the decoder panics instead of returning an error.
\<close>

theorem vote_decoding_cases:
  "VoteMsg_UnmarshalJSON i (Some a) None = Ok \<lparr>vote_ProposalId = i, vote_Option = a\<rparr> \<and>
   VoteMsg_UnmarshalJSON i None (Some b) = Ok \<lparr>vote_ProposalId = i, vote_Option = b\<rparr> \<and>
   (\<exists>e. VoteMsg_UnmarshalJSON i (Some a) (Some b) = Err e) \<and>
   VoteMsg_UnmarshalJSON i None None = Panic PanicOther"
  by (simp add: VoteMsg_UnmarshalJSON_def)

end
