(* ===== verification/Gas_Register.thy ===== *)
theory Gas_Register
  imports Vm_Types Wasm_Types
begin

text \<open>
  Gas prices (\<open>x/wasm/types/gas_register.go\<close>), the fractions they use
  (\<open>wasmvm/types/fraction.go\<close>) and the gas meter (\<open>mockGasMeter\<close> of
  \<open>wasmvm/internal/api/mocks.go\<close>, a copy of the SDK's). All quantities are 64 bit words, as in
  the code, so that wrap-around is visible; the lemmas relate them to natural numbers.
\<close>

section \<open>Fractions\<close>

record UFraction =
  frac_Numerator :: u64
  frac_Denominator :: u64

definition UFraction_Mul :: "UFraction \<Rightarrow> u64 \<Rightarrow> UFraction" where
  "UFraction_Mul f m = \<lparr>frac_Numerator = frac_Numerator f * m, frac_Denominator = frac_Denominator f\<rparr>"

text \<open>Division by zero is a run-time panic.\<close>

definition UFraction_Floor :: "UFraction \<Rightarrow> u64 outcome" where
  "UFraction_Floor f =
     (if frac_Denominator f = 0 then Panic PanicOther
      else Ok (frac_Numerator f div frac_Denominator f))"

section \<open>The gas meter\<close>

record gas_meter =
  gm_limit :: u64
  gm_consumed :: u64

definition NewGasMeter :: "u64 \<Rightarrow> gas_meter" where
  "NewGasMeter limit = \<lparr>gm_limit = limit, gm_consumed = 0\<rparr>"

definition addUint64Overflow :: "u64 \<Rightarrow> u64 \<Rightarrow> u64 \<times> bool" where
  "addUint64Overflow a b = (if - 1 - a < b then (0, True) else (a + b, False))"

definition ConsumeGas :: "u64 \<Rightarrow> string \<Rightarrow> (gas_meter, unit) prog" where
  "ConsumeGas amount descriptor = (\<lambda>g.
     (let (consumed, overflow) = addUint64Overflow (gm_consumed g) amount;
          g' = g\<lparr>gm_consumed := consumed\<rparr>
      in if overflow then (Panic (PanicGasOverflow descriptor), g')
         else if gm_limit g < consumed then (Panic (PanicOutOfGas descriptor), g')
         else (Ok (), g')))"

section \<open>Configuration\<close>

record WasmGasRegisterConfig =
  InstanceCost :: u64
  InstanceCostDiscount :: u64
  CompileCost :: u64
  UncompressCost :: UFraction
  GasMultiplier :: u64
  EventPerAttributeCost :: u64
  EventAttributeDataCost :: u64
  EventAttributeDataFreeTier :: u64
  ContractMessageDataCost :: u64
  CustomEventCost :: u64

definition DefaultPerByteUncompressCost :: UFraction where
  "DefaultPerByteUncompressCost = \<lparr>frac_Numerator = 15, frac_Denominator = 100\<rparr>"

definition DefaultGasRegisterConfig :: WasmGasRegisterConfig where
  "DefaultGasRegisterConfig =
     \<lparr>InstanceCost = 60000,
      InstanceCostDiscount = 2000,
      CompileCost = 3,
      UncompressCost = DefaultPerByteUncompressCost,
      GasMultiplier = 140000,
      EventPerAttributeCost = 10,
      EventAttributeDataCost = 1,
      EventAttributeDataFreeTier = 100,
      ContractMessageDataCost = 0,
      CustomEventCost = 20\<rparr>"

definition NewWasmGasRegister :: "WasmGasRegisterConfig \<Rightarrow> WasmGasRegisterConfig outcome" where
  "NewWasmGasRegister c = (if GasMultiplier c = 0 then Panic PanicOther else Ok c)"

section \<open>Prices\<close>

definition UncompressCosts :: "WasmGasRegisterConfig \<Rightarrow> int \<Rightarrow> u64 outcome" where
  "UncompressCosts g byteLength =
     (if byteLength < 0 then Panic PanicOther
      else UFraction_Floor (UFraction_Mul (UncompressCost g) (word_of_int byteLength)))"

definition SetupContractCost :: "WasmGasRegisterConfig \<Rightarrow> bool \<Rightarrow> int \<Rightarrow> u64 outcome" where
  "SetupContractCost g discount msgLen =
     (if msgLen < 0 then Panic PanicOther
      else let dataCost = word_of_int msgLen * ContractMessageDataCost g
           in if discount then Ok (InstanceCostDiscount g + dataCost)
              else Ok (InstanceCost g + dataCost))"

definition calcWithFreeTier :: "u64 \<Rightarrow> u64 \<Rightarrow> u64 \<times> u64" where
  "calcWithFreeTier storedBytes freeTier =
     (if storedBytes \<le> freeTier then (0, freeTier - storedBytes)
      else (storedBytes - freeTier, 0))"

definition storedBytes :: "EventAttribute list \<Rightarrow> u64" where
  "storedBytes attrs =
     fold (\<lambda>l acc. acc + (word_of_nat (length (attr_Key l)) + word_of_nat (length (attr_Value l)))) attrs 0"

definition eventAttributeCosts ::
  "WasmGasRegisterConfig \<Rightarrow> EventAttribute list \<Rightarrow> u64 \<Rightarrow> (u64 \<times> u64) outcome"
where
  "eventAttributeCosts g attrs freeTier =
     (if attrs = [] then Ok (0, freeTier)
      else let (stored, free') = calcWithFreeTier (storedBytes attrs) freeTier;
               r = unat (EventAttributeDataCost g) * unat stored +
                   unat (EventPerAttributeCost g) * unat (word_of_nat (length attrs) :: u64)
           in if r < 2 ^ 64 then Ok (word_of_nat r, free')
              else Panic (PanicOutOfGas ''overflow''))"

fun customEventCosts ::
  "WasmGasRegisterConfig \<Rightarrow> Event list \<Rightarrow> u64 \<Rightarrow> u64 \<Rightarrow> u64 outcome"
where
  "customEventCosts g [] gas remainingFreeTier = Ok gas"
| "customEventCosts g (e # events) gas remainingFreeTier =
     bindO (eventAttributeCosts g (ev_Attributes e) remainingFreeTier) (\<lambda>(attrCost, free').
       customEventCosts g events
         (gas + CustomEventCost g + word_of_nat (length (ev_Type e)) * EventAttributeDataCost g
          + attrCost) free')"

definition EventCosts ::
  "WasmGasRegisterConfig \<Rightarrow> EventAttribute list \<Rightarrow> Event list \<Rightarrow> u64 outcome"
where
  "EventCosts g attrs events =
     bindO (eventAttributeCosts g attrs (EventAttributeDataFreeTier g)) (\<lambda>(gas, remainingFreeTier).
       customEventCosts g events gas remainingFreeTier)"

definition ReplyCosts :: "WasmGasRegisterConfig \<Rightarrow> bool \<Rightarrow> Reply \<Rightarrow> u64 outcome" where
  "ReplyCosts g discount reply =
     (let errLen = int (length (res_Err (reply_Result reply)))
      in case res_Ok (reply_Result reply) of
           None \<Rightarrow> SetupContractCost g discount errLen
         | Some ok \<Rightarrow>
             (let msgLen = errLen + int (length (case smr_Data ok of None \<Rightarrow> [] | Some d \<Rightarrow> d));
                  typeGas = fold (\<lambda>e acc. acc + word_of_nat (length (ev_Type e)) * EventAttributeDataCost g)
                              (smr_Events ok) 0;
                  attrs = concat (map ev_Attributes (smr_Events ok))
              in bindO (EventCosts g attrs []) (\<lambda>attrGas.
                   bindO (SetupContractCost g discount msgLen) (\<lambda>setup.
                     Ok (typeGas + attrGas + setup)))))"

definition ToWasmVMGas :: "WasmGasRegisterConfig \<Rightarrow> u64 \<Rightarrow> u64 outcome" where
  "ToWasmVMGas g source =
     (let x = source * GasMultiplier g
      in if x < source then Panic (PanicOutOfGas ''overflow'') else Ok x)"

definition FromWasmVMGas :: "WasmGasRegisterConfig \<Rightarrow> u64 \<Rightarrow> u64" where
  "FromWasmVMGas g source = source div GasMultiplier g"

section \<open>Event prices over the natural numbers\<close>

definition attr_bytes :: "EventAttribute list \<Rightarrow> nat" where
  "attr_bytes attrs = (\<Sum>l\<leftarrow>attrs. length (attr_Key l) + length (attr_Value l))"

definition type_bytes :: "Event list \<Rightarrow> nat" where
  "type_bytes events = (\<Sum>e\<leftarrow>events. length (ev_Type e))"

definition all_attrs :: "Event list \<Rightarrow> EventAttribute list" where
  "all_attrs events = concat (map ev_Attributes events)"

text \<open>
  The intended price: attribute data beyond the free tier of the whole set, a price per
  attribute, a price per custom event, and the event types without a free tier.
\<close>

definition event_price ::
  "WasmGasRegisterConfig \<Rightarrow> nat \<Rightarrow> EventAttribute list \<Rightarrow> Event list \<Rightarrow> nat"
where
  "event_price g free attrs events =
     (let as = attrs @ all_attrs events
      in unat (EventAttributeDataCost g) * (attr_bytes as - free)
         + unat (EventPerAttributeCost g) * length as
         + unat (CustomEventCost g) * length events
         + unat (EventAttributeDataCost g) * type_bytes events)"

lemma attr_bytes_append [simp]: "attr_bytes (xs @ ys) = attr_bytes xs + attr_bytes ys"
  by (simp add: attr_bytes_def)

lemma attr_bytes_Nil [simp]: "attr_bytes [] = 0"
  by (simp add: attr_bytes_def)

lemma all_attrs_simps [simp]:
  "all_attrs [] = []"
  "all_attrs (e # es) = ev_Attributes e @ all_attrs es"
  by (simp_all add: all_attrs_def)

lemma type_bytes_simps [simp]:
  "type_bytes [] = 0"
  "type_bytes (e # es) = length (ev_Type e) + type_bytes es"
  by (simp_all add: type_bytes_def)

lemma storedBytes_eq: "storedBytes attrs = word_of_nat (attr_bytes attrs)"
proof -
  have "fold (\<lambda>l acc. acc + (word_of_nat (length (attr_Key l)) + word_of_nat (length (attr_Value l)))) as w
      = w + (word_of_nat (attr_bytes as) :: u64)" for as w
    by (induction as arbitrary: w) (simp_all add: attr_bytes_def algebra_simps)
  then show ?thesis by (simp add: storedBytes_def)
qed

lemma unat_of_nat_u64: "n < 2 ^ 64 \<Longrightarrow> unat (word_of_nat n :: u64) = n"
  by (simp add: unat_of_nat take_bit_nat_eq_self)

lemma mult_of_nat_u64:
  assumes "unat c * n < 2 ^ 64"
  shows "unat c * unat (word_of_nat n :: u64) = unat (c :: u64) * n"
proof (cases "c = 0")
  case False
  then have "1 \<le> unat c" by (simp add: Suc_le_eq unat_gt_0)
  then have "1 * n \<le> unat c * n" by (rule mult_le_mono1)
  then have "n < 2 ^ 64" using assms by linarith
  then show ?thesis by (simp only: unat_of_nat_u64)
qed simp

lemma calcWithFreeTier_unat:
  assumes "calcWithFreeTier b f = (c, f')"
  shows "unat c = unat b - unat f" and "unat f' = unat f - unat b"
  using assms
  by (auto simp: calcWithFreeTier_def unat_sub word_le_nat_alt split: if_splits)

lemma eventAttributeCosts_ok:
  assumes "attr_bytes attrs < 2 ^ 64"
    and "unat (EventAttributeDataCost g) * (attr_bytes attrs - unat f)
         + unat (EventPerAttributeCost g) * length attrs < 2 ^ 64" (is "?c < _")
  obtains w f' where "eventAttributeCosts g attrs f = Ok (w, f')"
    and "unat w = ?c" and "unat f' = unat f - attr_bytes attrs"
proof (cases "attrs = []")
  case True
  then show ?thesis by (intro that [of 0 f]) (simp_all add: eventAttributeCosts_def)
next
  case False
  obtain c f' where c: "calcWithFreeTier (storedBytes attrs) f = (c, f')" by fastforce
  have u: "unat c = attr_bytes attrs - unat f" "unat f' = unat f - attr_bytes attrs"
    using calcWithFreeTier_unat [OF c] assms(1) by (simp_all add: storedBytes_eq unat_of_nat_u64)
  have "unat (EventPerAttributeCost g) * length attrs < 2 ^ 64" using assms(2) by linarith
  then have "eventAttributeCosts g attrs f = Ok (word_of_nat ?c, f')"
    using False c u assms(2) by (simp add: eventAttributeCosts_def mult_of_nat_u64)
  then show ?thesis using that u(2) unat_of_nat_u64 [OF assms(2)] by blast
qed

lemma unat_add_u64: "unat a + unat b < 2 ^ 64 \<Longrightarrow> unat (a + b :: u64) = unat a + unat b"
  by (simp add: unat_add_lem [symmetric])

lemma unat_mult_u64: "unat a * unat b < 2 ^ 64 \<Longrightarrow> unat (a * b :: u64) = unat a * unat b"
  by (simp add: unat_mult_lem [symmetric])

lemma customEventCosts_ok:
  assumes "attr_bytes (all_attrs events) < 2 ^ 64"
    and "unat gas + event_price g (unat f) [] events < 2 ^ 64"
  shows "\<exists>w. customEventCosts g events gas f = Ok w \<and>
             unat w = unat gas + event_price g (unat f) [] events"
  using assms
proof (induction events arbitrary: gas f)
  case Nil
  then show ?case by (simp add: event_price_def)
next
  case (Cons e es)
  let ?D = "unat (EventAttributeDataCost g)"
  let ?P = "unat (EventPerAttributeCost g)"
  let ?b = "attr_bytes (ev_Attributes e)" and ?r = "attr_bytes (all_attrs es)"
  let ?step = "?D * (?b - unat f) + ?P * length (ev_Attributes e)"
  let ?head = "unat (CustomEventCost g) + ?D * length (ev_Type e)"
  have split: "event_price g (unat f) [] (e # es) =
      ?head + ?step + event_price g (unat f - ?b) [] es"
  proof -
    have "?b + ?r - unat f = (?b - unat f) + (?r - (unat f - ?b))" by simp
    then have "?D * (?b + ?r - unat f) = ?D * (?b - unat f) + ?D * (?r - (unat f - ?b))"
      by (simp only: distrib_left)
    then show ?thesis by (simp add: event_price_def Let_def distrib_left)
  qed
  have "?b < 2 ^ 64" using Cons.prems(1) by simp
  moreover have "?step < 2 ^ 64" using Cons.prems(2) split by linarith
  ultimately obtain w f' where w: "eventAttributeCosts g (ev_Attributes e) f = Ok (w, f')"
    and uw: "unat w = ?step" and uf: "unat f' = unat f - ?b"
    by (rule eventAttributeCosts_ok)
  have D: "?D * length (ev_Type e) < 2 ^ 64" using Cons.prems(2) split by linarith
  have t: "unat (word_of_nat (length (ev_Type e)) * EventAttributeDataCost g) = ?D * length (ev_Type e)"
    using unat_mult_u64 [of "EventAttributeDataCost g" "word_of_nat (length (ev_Type e))"] D
    unfolding mult_of_nat_u64 [OF D] by (simp only: mult.commute)
  let ?gas = "gas + CustomEventCost g + word_of_nat (length (ev_Type e)) * EventAttributeDataCost g + w"
  have g: "unat ?gas = unat gas + ?head + ?step"
    using Cons.prems(2) split t uw by (simp add: unat_add_u64)
  have "\<exists>v. customEventCosts g es ?gas f' = Ok v \<and> unat v = unat ?gas + event_price g (unat f') [] es"
    using Cons.prems split g uf by (intro Cons.IH) simp_all
  then show ?case using w g uf by (auto simp: split add.assoc)
qed

section \<open>Conversion between SDK gas and VM gas\<close>

text \<open>
  The interface the keeper relies on when it hands a contract its remaining gas: what comes back,
  if it stays within what was handed out, costs at most what was left.
\<close>

locale gas_conversion =
  fixes to_vm :: "u64 \<Rightarrow> u64 outcome"
    and from_vm :: "u64 \<Rightarrow> u64"
  assumes to_from: "to_vm s = Ok x \<Longrightarrow> used \<le> x \<Longrightarrow> from_vm used \<le> s"
begin

lemma within_limit:
  assumes "consumed \<le> limit" and "to_vm (limit - consumed) = Ok x" and "used \<le> x"
  shows "consumed + from_vm used \<le> limit" and "unat (consumed + from_vm used) = unat consumed + unat (from_vm used)"
proof -
  have "from_vm used \<le> limit - consumed" using assms(2,3) by (rule to_from)
  then have *: "unat (from_vm used) \<le> unat limit - unat consumed"
    using assms(1) by (simp add: word_le_nat_alt unat_sub)
  have "unat consumed + unat (from_vm used) < 2 ^ 64"
    using * assms(1) unsigned_less [of limit, where 'a = nat] unfolding word_le_nat_alt by simp
  then show u: "unat (consumed + from_vm used) = unat consumed + unat (from_vm used)"
    by (rule unat_add_u64)
  show "consumed + from_vm used \<le> limit"
    unfolding word_le_nat_alt u using * assms(1) by (simp add: word_le_nat_alt)
qed

end

lemma unat_mult_le: "unat (a * b :: u64) \<le> unat a * unat b"
  by (simp add: unat_word_ariths)

lemma wasm_gas_to_from:
  assumes "ToWasmVMGas g s = Ok x" and "used \<le> x"
  shows "FromWasmVMGas g used \<le> s"
proof -
  have "x = s * GasMultiplier g" using assms(1) by (auto simp: ToWasmVMGas_def Let_def split: if_splits)
  then have "unat used \<le> unat s * unat (GasMultiplier g)"
    using assms(2) unat_mult_le [of s "GasMultiplier g"] by (simp add: word_le_nat_alt)
  then have "unat used div unat (GasMultiplier g) \<le> unat s"
    by (metis div_le_mono div_by_0 le0 nonzero_mult_div_cancel_right)
  then show ?thesis by (simp add: FromWasmVMGas_def word_le_nat_alt unat_div)
qed

interpretation wasm_gas: gas_conversion "ToWasmVMGas g" "FromWasmVMGas g" for g
  by unfold_locales (rule wasm_gas_to_from)

section \<open>Properties\<close>

text \<open>
  The gas charged for the events of a contract is the intended price: the free tier of
  attribute bytes is applied once over the contract's own attributes and those of all custom
  events together, event types have no free tier, and nothing wraps around as long as the
  price and the number of attribute bytes fit into 64 bits.
\<close>

theorem event_costs_price:
  assumes "attr_bytes (attrs @ all_attrs events) < 2 ^ 64"
    and "event_price g (unat (EventAttributeDataFreeTier g)) attrs events < 2 ^ 64"
  shows "\<exists>w. EventCosts g attrs events = Ok w \<and>
             unat w = event_price g (unat (EventAttributeDataFreeTier g)) attrs events"
proof -
  let ?D = "unat (EventAttributeDataCost g)" and ?P = "unat (EventPerAttributeCost g)"
  let ?f = "unat (EventAttributeDataFreeTier g)"
  let ?a = "?D * (attr_bytes attrs - ?f) + ?P * length attrs"
  have "attr_bytes attrs + attr_bytes (all_attrs events) - ?f =
      (attr_bytes attrs - ?f) + (attr_bytes (all_attrs events) - (?f - attr_bytes attrs))"
    by simp
  then have "?D * (attr_bytes attrs + attr_bytes (all_attrs events) - ?f) =
      ?D * (attr_bytes attrs - ?f) + ?D * (attr_bytes (all_attrs events) - (?f - attr_bytes attrs))"
    by (simp only: distrib_left)
  then have split: "event_price g ?f attrs events = ?a + event_price g (?f - attr_bytes attrs) [] events"
    by (simp add: event_price_def Let_def distrib_left)
  have "attr_bytes attrs < 2 ^ 64" using assms(1) by simp
  moreover have "?a < 2 ^ 64" using assms(2) split by linarith
  ultimately obtain w f' where w: "eventAttributeCosts g attrs (EventAttributeDataFreeTier g) = Ok (w, f')"
    and uw: "unat w = ?a" and uf: "unat f' = ?f - attr_bytes attrs"
    by (rule eventAttributeCosts_ok)
  have "\<exists>v. customEventCosts g events w f' = Ok v \<and> unat v = unat w + event_price g (unat f') [] events"
    using assms split uw uf by (intro customEventCosts_ok) simp_all
  then show ?thesis using w split uw uf by (simp add: EventCosts_def)
qed

theorem event_costs_price_witness:
  "event_price DefaultGasRegisterConfig 100 [\<lparr>attr_Key = ''k'', attr_Value = ''v''\<rparr>]
     [\<lparr>ev_Type = ''mint'', ev_Attributes = [\<lparr>attr_Key = ''to'', attr_Value = ''bob''\<rparr>]\<rparr>] = 44 \<and>
   (\<exists>w. EventCosts DefaultGasRegisterConfig [\<lparr>attr_Key = ''k'', attr_Value = ''v''\<rparr>]
     [\<lparr>ev_Type = ''mint'', ev_Attributes = [\<lparr>attr_Key = ''to'', attr_Value = ''bob''\<rparr>]\<rparr>] = Ok w \<and>
     unat w = 44)"
  using event_costs_price
    [of "[\<lparr>attr_Key = ''k'', attr_Value = ''v''\<rparr>]"
        "[\<lparr>ev_Type = ''mint'', ev_Attributes = [\<lparr>attr_Key = ''to'', attr_Value = ''bob''\<rparr>]\<rparr>]"
        DefaultGasRegisterConfig]
  by (simp add: DefaultGasRegisterConfig_def event_price_def attr_bytes_def)

text \<open>
  Converting remaining SDK gas to VM gas and charging back what the contract used never
  exceeds the gas that was left: with a meter below its limit, the consumption after the charge
  does not wrap and stays within the limit.
\<close>

theorem contract_gas_within_limit:
  assumes "consumed \<le> limit" and "ToWasmVMGas g (limit - consumed) = Ok x" and "used \<le> x"
  shows "consumed + FromWasmVMGas g used \<le> limit \<and>
         unat (consumed + FromWasmVMGas g used) = unat consumed + unat (FromWasmVMGas g used)"
  using wasm_gas.within_limit [OF assms] by simp

theorem contract_gas_within_limit_witness:
  "ToWasmVMGas DefaultGasRegisterConfig (1000 - 400) = Ok 84000000 \<and>
   400 + FromWasmVMGas DefaultGasRegisterConfig 83999999 \<le> 1000"
  using contract_gas_within_limit [of 400 1000 DefaultGasRegisterConfig 84000000 83999999]
  by (simp add: ToWasmVMGas_def DefaultGasRegisterConfig_def)

text \<open>
  Without overflow the two conversions are inverse: SDK gas converted to VM gas and back is
  the same amount.
\<close>

theorem gas_conversion_roundtrip:
  assumes "GasMultiplier g \<noteq> 0" and "unat s * unat (GasMultiplier g) < 2 ^ 64"
  shows "\<exists>x. ToWasmVMGas g s = Ok x \<and> unat x = unat s * unat (GasMultiplier g) \<and> FromWasmVMGas g x = s"
proof -
  let ?x = "s * GasMultiplier g"
  have u: "unat ?x = unat s * unat (GasMultiplier g)" using assms(2) by (rule unat_mult_u64)
  have pos: "1 \<le> unat (GasMultiplier g)" using assms(1) by (simp add: Suc_le_eq unat_gt_0)
  then have "unat s * 1 \<le> unat s * unat (GasMultiplier g)" by (rule mult_le_mono2)
  then have "\<not> ?x < s" using u by (simp only: word_less_nat_alt not_less mult_1_right)
  then have "ToWasmVMGas g s = Ok ?x" by (simp add: ToWasmVMGas_def)
  moreover have "unat (?x div GasMultiplier g) = unat s" using u pos by (simp add: unat_div)
  then have "FromWasmVMGas g ?x = s" by (simp add: FromWasmVMGas_def word_unat_eq_iff)
  ultimately show ?thesis using u by blast
qed

theorem gas_conversion_roundtrip_witness:
  "\<exists>x. ToWasmVMGas DefaultGasRegisterConfig 3000000 = Ok x \<and> unat x = 420000000000 \<and>
       FromWasmVMGas DefaultGasRegisterConfig x = 3000000"
  using gas_conversion_roundtrip [of DefaultGasRegisterConfig 3000000]
  by (simp add: DefaultGasRegisterConfig_def)

text \<open>
  The overflow check of the conversion to VM gas is incomplete. It compares the wrapped
  product with the source, and a product of more than 64 bits can wrap to a value above the
  source: with the default multiplier, 200000000000000 SDK gas converts without a panic to
  less than half of the correct amount.
\<close>

theorem to_wasmvm_gas_misses_overflow:
  "ToWasmVMGas DefaultGasRegisterConfig 200000000000000 = Ok 9553255926290448384 \<and>
   (200000000000000 * 140000 :: nat) > 2 * 9553255926290448384"
  by (simp add: ToWasmVMGas_def DefaultGasRegisterConfig_def)

end
