(* ===== verification/Access_Control.thy ===== *)
theory Access_Control
  imports Wasm_Types
begin

text \<open>
  Who may do what: access configurations (\<open>params.go\<close>, \<open>types.go\<close>), the validation of address
  lists (\<open>validation.go\<close>) and the authorization policies (\<open>keeper/authz_policy.go\<close>).
\<close>

section \<open>Address lists\<close>

definition MaxAddressCount :: nat where "MaxAddressCount = 50"

text \<open>\<open>strings.ToUpper\<close> on the ASCII text of an address.\<close>

definition ToUpper :: "string \<Rightarrow> string" where
  "ToUpper s = map (\<lambda>c. if CHR ''a'' \<le> c \<and> c \<le> CHR ''z'' then char_of (of_char c - 32 :: nat) else c) s"

fun checkAddresses :: "addr_codec \<Rightarrow> string set \<Rightarrow> string list \<Rightarrow> go_error + unit" where
  "checkAddresses ac index [] = Inr ()"
| "checkAddresses ac index (addr # addrs) =
     (case AccAddressFromBech32 ac addr of
        Inl err \<Rightarrow> Inl (WrappedError (''address: '' @ addr) err)
      | Inr _ \<Rightarrow>
          (if ToUpper addr \<in> index
           then Inl (WrappedError ''duplicate addresses'' ErrDuplicate)
           else checkAddresses ac (insert (ToUpper addr) index) addrs))"

definition validateBech32Addresses :: "addr_codec \<Rightarrow> string list \<Rightarrow> go_error + unit" where
  "validateBech32Addresses ac addresses =
     (if addresses = [] then Inl (WrappedError ''addresses'' ErrEmpty)
      else if length addresses > MaxAddressCount
      then Inl (WrappedError ''total number of addresses is greater than 50'' ErrInvalidRequest)
      else checkAddresses ac {} addresses)"

section \<open>Access configurations\<close>

definition AllowEverybody :: AccessConfig where
  "AllowEverybody = \<lparr>Permission = AccessTypeEverybody, Addresses = []\<rparr>"

definition AllowNobody :: AccessConfig where
  "AllowNobody = \<lparr>Permission = AccessTypeNobody, Addresses = []\<rparr>"

definition DefaultParams :: Params where
  "DefaultParams =
     \<lparr>CodeUploadAccess = AllowEverybody, InstantiateDefaultPermission = AccessTypeEverybody\<rparr>"

fun AccessType_With :: "addr_codec \<Rightarrow> AccessType \<Rightarrow> bytes list \<Rightarrow> AccessConfig outcome" where
  "AccessType_With ac AccessTypeNobody addrs = Ok AllowNobody"
| "AccessType_With ac AccessTypeEverybody addrs = Ok AllowEverybody"
| "AccessType_With ac AccessTypeAnyOfAddresses addrs =
     (let bech32Addrs = map (addr_String ac) addrs
      in case validateBech32Addresses ac bech32Addrs of
           Inl _ \<Rightarrow> Panic PanicOther
         | Inr _ \<Rightarrow> Ok \<lparr>Permission = AccessTypeAnyOfAddresses, Addresses = bech32Addrs\<rparr>)"
| "AccessType_With ac _ addrs = Panic PanicOther"

fun AccessType_String :: "AccessType \<Rightarrow> string" where
  "AccessType_String AccessTypeNobody = ''Nobody''"
| "AccessType_String AccessTypeEverybody = ''Everybody''"
| "AccessType_String AccessTypeAnyOfAddresses = ''AnyOfAddresses''"
| "AccessType_String _ = ''Unspecified''"

definition AllAccessTypes :: "AccessType list" where
  "AllAccessTypes = [AccessTypeNobody, AccessTypeAnyOfAddresses, AccessTypeEverybody]"

definition AccessType_UnmarshalText :: "string \<Rightarrow> AccessType" where
  "AccessType_UnmarshalText txt =
     (case find (\<lambda>v. AccessType_String v = txt) AllAccessTypes of
        Some v \<Rightarrow> v
      | None \<Rightarrow> AccessTypeUnspecified)"

definition validateAccessType :: "AccessType \<Rightarrow> go_error + unit" where
  "validateAccessType a =
     (if a = AccessTypeUnspecified then Inl (WrappedError ''type'' ErrEmpty)
      else if a \<in> set AllAccessTypes then Inr ()
      else Inl (WrappedError ''unknown type'' ErrInvalid))"

definition AccessConfig_ValidateBasic :: "addr_codec \<Rightarrow> AccessConfig \<Rightarrow> go_error + unit" where
  "AccessConfig_ValidateBasic ac a =
     (case Permission a of
        AccessTypeUnspecified \<Rightarrow> Inl (WrappedError ''type'' ErrEmpty)
      | AccessTypeNobody \<Rightarrow> Inr ()
      | AccessTypeEverybody \<Rightarrow> Inr ()
      | AccessTypeAnyOfAddresses \<Rightarrow> wrapE ''addresses'' (validateBech32Addresses ac (Addresses a))
      | AccessTypeOther _ \<Rightarrow> Inl (WrappedError ''unknown type'' ErrInvalid))"

definition Params_ValidateBasic :: "addr_codec \<Rightarrow> Params \<Rightarrow> go_error + unit" where
  "Params_ValidateBasic ac p =
     bindE (wrapE ''instantiate default permission''
              (validateAccessType (InstantiateDefaultPermission p))) (\<lambda>_.
       wrapE ''upload access'' (AccessConfig_ValidateBasic ac (CodeUploadAccess p)))"

definition Allowed :: "addr_codec \<Rightarrow> AccessConfig \<Rightarrow> bytes \<Rightarrow> bool outcome" where
  "Allowed ac a actor =
     (case Permission a of
        AccessTypeNobody \<Rightarrow> Ok False
      | AccessTypeEverybody \<Rightarrow> Ok True
      | AccessTypeAnyOfAddresses \<Rightarrow> Ok (\<exists>v \<in> set (Addresses a). v = addr_String ac actor)
      | _ \<Rightarrow> Panic PanicOther)"

fun AccessType_IsSubset :: "AccessType \<Rightarrow> AccessType \<Rightarrow> bool" where
  "AccessType_IsSubset a AccessTypeEverybody = (a \<noteq> AccessTypeUnspecified)"
| "AccessType_IsSubset a AccessTypeNobody = (a = AccessTypeNobody)"
| "AccessType_IsSubset a AccessTypeAnyOfAddresses =
     (a = AccessTypeNobody \<or> a = AccessTypeAnyOfAddresses)"
| "AccessType_IsSubset a _ = False"

text \<open>The two loops of \<open>isSubset\<close>: the number of elements of the first list found in the other.\<close>

definition matches :: "string list \<Rightarrow> string list \<Rightarrow> nat" where
  "matches super sub = foldl (\<lambda>n o'. if \<exists>s \<in> set super. o' = s then n + 1 else n) 0 sub"

definition isSubset :: "string list \<Rightarrow> string list \<Rightarrow> bool" where
  "isSubset super sub = (if sub = [] then True else matches super sub = length sub)"

definition AccessConfig_IsSubset :: "AccessConfig \<Rightarrow> AccessConfig \<Rightarrow> bool" where
  "AccessConfig_IsSubset a superSet =
     (case Permission superSet of
        AccessTypeAnyOfAddresses \<Rightarrow>
          Permission a = AccessTypeNobody \<or>
          Permission a = AccessTypeAnyOfAddresses \<and> isSubset (Addresses superSet) (Addresses a)
      | AccessTypeUnspecified \<Rightarrow> False
      | p \<Rightarrow> AccessType_IsSubset (Permission a) p)"

definition AllAuthorizedAddresses :: "AccessConfig \<Rightarrow> string list" where
  "AllAuthorizedAddresses a =
     (if Permission a = AccessTypeAnyOfAddresses then Addresses a else [])"

section \<open>Authorization policies\<close>

record ChainAccessConfigs =
  Upload :: AccessConfig
  Instantiate :: AccessConfig

definition NewGovAuthorizationPolicy :: "AuthorizationPolicyAction list \<Rightarrow> AuthorizationPolicy" where
  "NewGovAuthorizationPolicy actions = GovAuthorizationPolicy (set actions)"

definition NewPartialGovAuthorizationPolicy ::
  "AuthorizationPolicy \<Rightarrow> AuthorizationPolicyAction \<Rightarrow> AuthorizationPolicy"
where
  "NewPartialGovAuthorizationPolicy defaultPolicy entrypoint =
     PartialGovAuthorizationPolicy entrypoint defaultPolicy"

fun CanCreateCode ::
  "addr_codec \<Rightarrow> AuthorizationPolicy \<Rightarrow> ChainAccessConfigs \<Rightarrow> bytes \<Rightarrow> AccessConfig \<Rightarrow> bool outcome"
where
  "CanCreateCode ac DefaultAuthorizationPolicy chainConfigs actor contractConfig =
     bindO (Allowed ac (Upload chainConfigs) actor) (\<lambda>ok.
       Ok (ok \<and> AccessConfig_IsSubset contractConfig (Instantiate chainConfigs)))"
| "CanCreateCode ac (GovAuthorizationPolicy _) chainConfigs actor contractConfig = Ok True"
| "CanCreateCode ac (PartialGovAuthorizationPolicy _ p) chainConfigs actor contractConfig =
     CanCreateCode ac p chainConfigs actor contractConfig"

fun CanInstantiateContract ::
  "addr_codec \<Rightarrow> AuthorizationPolicy \<Rightarrow> AccessConfig \<Rightarrow> bytes \<Rightarrow> bool outcome"
where
  "CanInstantiateContract ac DefaultAuthorizationPolicy c actor = Allowed ac c actor"
| "CanInstantiateContract ac (GovAuthorizationPolicy _) c actor = Ok True"
| "CanInstantiateContract ac (PartialGovAuthorizationPolicy action p) c actor =
     (if action = AuthZActionInstantiate then Ok True else CanInstantiateContract ac p c actor)"

fun CanModifyContract :: "AuthorizationPolicy \<Rightarrow> AccAddress \<Rightarrow> AccAddress \<Rightarrow> bool" where
  "CanModifyContract DefaultAuthorizationPolicy admin actor =
     (admin \<noteq> None \<and> addr_Equals admin actor)"
| "CanModifyContract (GovAuthorizationPolicy _) admin actor = True"
| "CanModifyContract (PartialGovAuthorizationPolicy action p) admin actor =
     (if action = AuthZActionMigrateContract then True else CanModifyContract p admin actor)"

fun CanModifyCodeAccessConfig ::
  "AuthorizationPolicy \<Rightarrow> AccAddress \<Rightarrow> AccAddress \<Rightarrow> bool \<Rightarrow> bool"
where
  "CanModifyCodeAccessConfig DefaultAuthorizationPolicy creator actor isSub =
     (creator \<noteq> None \<and> addr_Equals creator actor \<and> isSub)"
| "CanModifyCodeAccessConfig (GovAuthorizationPolicy _) creator actor isSub = True"
| "CanModifyCodeAccessConfig (PartialGovAuthorizationPolicy _ p) creator actor isSub =
     CanModifyCodeAccessConfig p creator actor isSub"

fun SubMessageAuthorizationPolicy ::
  "AuthorizationPolicy \<Rightarrow> AuthorizationPolicyAction \<Rightarrow> AuthorizationPolicy"
where
  "SubMessageAuthorizationPolicy DefaultAuthorizationPolicy action = DefaultAuthorizationPolicy"
| "SubMessageAuthorizationPolicy (GovAuthorizationPolicy propagate) action =
     (if propagate \<noteq> {} \<and> action \<in> propagate
      then NewPartialGovAuthorizationPolicy DefaultAuthorizationPolicy action
      else DefaultAuthorizationPolicy)"
| "SubMessageAuthorizationPolicy (PartialGovAuthorizationPolicy a p) action =
     PartialGovAuthorizationPolicy a p"

section \<open>Lemmas on access configurations\<close>

lemma matches_length: "matches super sub = length (filter (\<lambda>o'. o' \<in> set super) sub)"
proof -
  have "foldl (\<lambda>n o'. if \<exists>s \<in> set super. o' = s then n + 1 else n) k sub =
      k + length (filter (\<lambda>o'. o' \<in> set super) sub)" for k
    by (induction sub arbitrary: k) auto
  then show ?thesis by (simp add: matches_def)
qed

lemma isSubset_iff: "isSubset super sub \<longleftrightarrow> set sub \<subseteq> set super"
proof -
  have "length (filter (\<lambda>o'. o' \<in> set super) sub) = length sub \<longleftrightarrow> (\<forall>x \<in> set sub. x \<in> set super)"
    using length_filter_less [of _ sub "\<lambda>o'. o' \<in> set super"] by (metis filter_True less_irrefl)
  then show ?thesis by (auto simp: isSubset_def matches_length)
qed

lemma checkAddresses_ok:
  assumes "checkAddresses ac index addrs = Inr ()"
  shows "distinct (map ToUpper addrs) \<and> ToUpper ` set addrs \<inter> index = {} \<and>
         (\<forall>a \<in> set addrs. \<exists>b. AccAddressFromBech32 ac a = Inr b)"
  using assms
  by (induction ac index addrs rule: checkAddresses.induct) (auto split: sum.splits if_splits)

lemma validateBech32Addresses_ok:
  assumes "validateBech32Addresses ac addrs = Inr ()"
  shows "addrs \<noteq> []" and "length addrs \<le> MaxAddressCount" and "distinct (map ToUpper addrs)"
    and "\<forall>a \<in> set addrs. \<exists>b. AccAddressFromBech32 ac a = Inr b"
  using assms checkAddresses_ok [of ac "{}" addrs]
  by (auto simp: validateBech32Addresses_def split: if_splits)

lemma Allowed_subset:
  assumes "AccessConfig_IsSubset a b" and "Allowed ac a actor = Ok True"
  shows "Allowed ac b actor = Ok True"
  using assms
  by (auto simp: AccessConfig_IsSubset_def Allowed_def isSubset_iff split: AccessType.splits)

lemma IsSubset_trans:
  assumes "AccessConfig_IsSubset a b" and "AccessConfig_IsSubset b c"
  shows "AccessConfig_IsSubset a c"
  using assms
  by (auto simp: AccessConfig_IsSubset_def isSubset_iff split: AccessType.splits)

section \<open>Policies as sets of granted requests\<close>

datatype authz_request =
    CreateCodeReq ChainAccessConfigs bytes AccessConfig
  | InstantiateReq AccessConfig bytes
  | ModifyContractReq AccAddress AccAddress
  | ModifyCodeAccessReq AccAddress AccAddress bool

fun policy_grants :: "addr_codec \<Rightarrow> AuthorizationPolicy \<Rightarrow> authz_request \<Rightarrow> bool" where
  "policy_grants ac p (CreateCodeReq cfgs actor cfg) = (CanCreateCode ac p cfgs actor cfg = Ok True)"
| "policy_grants ac p (InstantiateReq cfg actor) = (CanInstantiateContract ac p cfg actor = Ok True)"
| "policy_grants ac p (ModifyContractReq admin actor) = CanModifyContract p admin actor"
| "policy_grants ac p (ModifyCodeAccessReq creator actor isSub) =
     CanModifyCodeAccessConfig p creator actor isSub"

text \<open>
  The contract of a policy towards the code that runs submessages: the policy it hands down
  grants no more than itself.
\<close>

locale authorization_policy =
  fixes grants :: "'p \<Rightarrow> 'r \<Rightarrow> bool"
    and sub_policy :: "'p \<Rightarrow> 'a \<Rightarrow> 'p"
  assumes sub_grants: "grants (sub_policy p act) r \<Longrightarrow> grants p r"
begin

lemma chain_grants: "grants (foldl sub_policy p acts) r \<Longrightarrow> grants p r"
  by (induction acts arbitrary: p) (auto dest: sub_grants)

end

lemma gov_grants [simp]: "policy_grants ac (GovAuthorizationPolicy ps) r"
  by (cases r) simp_all

interpretation policies: authorization_policy "policy_grants ac" SubMessageAuthorizationPolicy for ac
proof unfold_locales
  fix p act r
  assume "policy_grants ac (SubMessageAuthorizationPolicy p act) r"
  then show "policy_grants ac p r" by (cases p) simp_all
qed

section \<open>Properties\<close>



text \<open>
  What governance hands down to submessages: the ordinary rules, plus, only when it was set
  up to propagate the action, instantiation of any code for the instantiate action and
  modification of any contract for the migrate action. Code upload and changes of a code's
  access configuration are never handed down.
\<close>

theorem governance_submessage_rights:
  "policy_grants ac (SubMessageAuthorizationPolicy (GovAuthorizationPolicy propagate) act) r \<longleftrightarrow>
     policy_grants ac DefaultAuthorizationPolicy r \<or>
     act \<in> propagate \<and>
       (act = AuthZActionInstantiate \<and> (\<exists>cfg actor. r = InstantiateReq cfg actor) \<or>
        act = AuthZActionMigrateContract \<and> (\<exists>admin actor. r = ModifyContractReq admin actor))"
  by (cases r) (auto simp: NewPartialGovAuthorizationPolicy_def)

text \<open>
  Restricting an access configuration is sound: if one configuration is a subset of another,
  every actor the first admits is admitted by the second, and the subset relation composes.
\<close>

theorem access_config_subset_sound:
  assumes "AccessConfig_IsSubset a b"
  shows "(Allowed ac a actor = Ok True \<longrightarrow> Allowed ac b actor = Ok True) \<and>
         (AccessConfig_IsSubset b c \<longrightarrow> AccessConfig_IsSubset a c)"
  using assms by (auto intro: Allowed_subset IsSubset_trans)

theorem access_config_subset_sound_witness:
  "AccessConfig_IsSubset \<lparr>Permission = AccessTypeAnyOfAddresses, Addresses = [''b'']\<rparr>
     \<lparr>Permission = AccessTypeAnyOfAddresses, Addresses = [''a'', ''b'']\<rparr> \<and>
   Allowed \<lparr>addr_String = (\<lambda>a. a), AccAddressFromBech32 = Inr\<rparr>
     \<lparr>Permission = AccessTypeAnyOfAddresses, Addresses = [''a'', ''b'']\<rparr> ''b'' = Ok True"
  using access_config_subset_sound
    [of "\<lparr>Permission = AccessTypeAnyOfAddresses, Addresses = [''b'']\<rparr>"
        "\<lparr>Permission = AccessTypeAnyOfAddresses, Addresses = [''a'', ''b'']\<rparr>"
        "\<lparr>addr_String = (\<lambda>a. a), AccAddressFromBech32 = Inr\<rparr>" "''b''" AllowEverybody]
  by (simp add: AccessConfig_IsSubset_def isSubset_iff Allowed_def)

text \<open>
  An address list that passes validation is not empty, has at most 50 members, all of them
  parse, and no two of them are the same address up to the case of the letters.
\<close>

theorem validated_addresses:
  assumes "validateBech32Addresses ac addrs = Inr ()"
  shows "addrs \<noteq> [] \<and> length addrs \<le> 50 \<and> distinct (map ToUpper addrs) \<and>
         (\<forall>a \<in> set addrs. \<exists>b. AccAddressFromBech32 ac a = Inr b)"
  using validateBech32Addresses_ok [OF assms] by (simp add: MaxAddressCount_def)

theorem validated_addresses_witness:
  "validateBech32Addresses \<lparr>addr_String = (\<lambda>a. a), AccAddressFromBech32 = Inr\<rparr> [''a'', ''b''] = Inr () \<and>
   distinct (map ToUpper [''a'', ''b''])"
  using validated_addresses [of "\<lparr>addr_String = (\<lambda>a. a), AccAddressFromBech32 = Inr\<rparr>" "[''a'', ''b'']"]
  by (simp add: validateBech32Addresses_def MaxAddressCount_def ToUpper_def)

end
