(* ===== verification/World.thy ===== *)
theory World
  imports KV_Store Keys Gas_Register Access_Control
begin

text \<open>
  The state the keeper works on and the code it calls but does not contain.

  \<open>world\<close> is what the methods of an \<open>sdk.Context\<close> reach by reference: the module's own store,
  the state of all other modules (an abstract type), the gas meter, the emitted events, the state
  of the VM's code cache and the contracts already executed in the transaction. Values in the
  module's store are kept decoded (\<open>store_value\<close>); the protobuf codec is left out, and reading
  an entry as the wrong message is the panic of \<open>MustUnmarshal\<close>.

  \<open>sdk_ops\<close> collects the functions of the Cosmos SDK and ibc-go that the module calls, and
  \<open>wasm_engine\<close> those of the VM: both are parameters. A call into the VM gets the contract's
  own store, a callback for queries and the gas meter, and returns what is left of them: by its
  type it cannot reach any other entry of the module's store.
\<close>

section \<open>State\<close>

record Packet =
  packet_Sequence :: u64
  packet_SourcePort :: string
  packet_SourceChannel :: string
  packet_DestinationPort :: string
  packet_DestinationChannel :: string
  packet_Data :: bytes
  packet_TimeoutHeight :: "u64 \<times> u64"
  packet_TimeoutTimestamp :: u64

datatype store_value =
    RawV bytes
  | CodeInfoV CodeInfo
  | ContractInfoV ContractInfo
  | HistoryV ContractCodeHistoryEntry
  | ParamsV Params
  | PacketV Packet

record 'w env_state =
  es_ext :: 'w
  es_meter :: gas_meter
  es_events :: "Event list"

record ('w, 'v) world =
  w_store :: "store_value items"
  w_env :: "'w env_state"
  w_vm :: 'v
  w_tx :: "TxContracts option"

section \<open>Called code\<close>

record account =
  acc_Address :: bytes
  acc_Sequence :: u64
  acc_PubKey :: "bytes option"
  acc_Type :: string
  acc_OriginalVesting :: "sdk_Coin list option"

record Channel =
  chan_State :: nat
  chan_Ordering :: string
  chan_CounterpartyPortId :: string
  chan_CounterpartyChannelId :: string
  chan_ConnectionHops :: "string list"
  chan_Version :: string

record 'w sdk_ops =
  sdk_addr :: addr_codec
  sdk_IsOutOfGas :: "gas_meter \<Rightarrow> bool"
  sdk_GasConsumedToLimit :: "gas_meter \<Rightarrow> u64"
  sdk_address_Module :: "string \<Rightarrow> bytes \<Rightarrow> bytes"
  sdk_VerifyAddressFormat :: "bytes \<Rightarrow> bool"
  sdk_errText :: "go_error \<Rightarrow> string"
  sdk_ABCIInfo :: "go_error \<Rightarrow> string \<times> nat"
  sdk_TrimSpace :: "string \<Rightarrow> string"
  sdk_PrintableOnly :: "string \<Rightarrow> string"
  sdk_json_Valid :: "bytes \<Rightarrow> bool"
  sdk_ParseRequestURI :: "string \<Rightarrow> string option"
  sdk_ParseDockerRef :: "string \<Rightarrow> string option"
  sdk_gunzip :: "bytes \<Rightarrow> string + bytes \<times> string option \<times> bool"
  sdk_Coins_Validate :: "sdk_Coin list \<Rightarrow> go_error + unit"
  sdk_NewIntFromString :: "string \<Rightarrow> int option"
  sdk_Coin_Validate :: "sdk_Coin \<Rightarrow> go_error + unit"
  sdk_Coins_Add :: "sdk_Coin list \<Rightarrow> sdk_Coin \<Rightarrow> sdk_Coin list outcome"
  sdk_Coins_Sort :: "sdk_Coin list \<Rightarrow> sdk_Coin list"
  sdk_LegacyNewDecFromStr :: "string \<Rightarrow> go_error + string"
  sdk_GetAccount :: "bytes \<Rightarrow> ('w env_state, account option) prog"
  sdk_NewAccountWithAddress :: "bytes \<Rightarrow> ('w env_state, account) prog"
  sdk_SetAccount :: "account \<Rightarrow> ('w env_state, unit) prog"
  sdk_IsSendEnabledCoins :: "sdk_Coin list \<Rightarrow> ('w env_state, unit) prog"
  sdk_BlockedAddr :: "bytes \<Rightarrow> bool"
  sdk_SendCoins :: "bytes \<Rightarrow> bytes \<Rightarrow> sdk_Coin list \<Rightarrow> ('w env_state, unit) prog"
  sdk_GetBalance :: "bytes \<Rightarrow> string \<Rightarrow> ('w env_state, sdk_Coin) prog"
  sdk_SendCoinsFromAccountToModule :: "bytes \<Rightarrow> string \<Rightarrow> sdk_Coin list \<Rightarrow> ('w env_state, unit) prog"
  sdk_BurnCoins :: "string \<Rightarrow> sdk_Coin list \<Rightarrow> ('w env_state, unit) prog"
  sdk_PortPath :: "string \<Rightarrow> string"
  sdk_ChannelCapabilityPath :: "string \<Rightarrow> string \<Rightarrow> string"
  sdk_GetCapability :: "string \<Rightarrow> ('w env_state, nat option) prog"
  sdk_ClaimCapability :: "nat \<Rightarrow> string \<Rightarrow> ('w env_state, unit) prog"
  sdk_AuthenticateCapability :: "nat \<Rightarrow> string \<Rightarrow> ('w env_state, bool) prog"
  sdk_GetChannel :: "string \<Rightarrow> string \<Rightarrow> ('w env_state, Channel option) prog"
  sdk_GetAppVersion :: "string \<Rightarrow> string \<Rightarrow> ('w env_state, string option) prog"
  sdk_ErrChannelNotFound :: go_error
  sdk_ErrInvalidChannelVersion :: go_error
  sdk_ParseChannelSequence :: "string \<Rightarrow> go_error + u64"
  sdk_NewErrorAcknowledgement :: "go_error \<Rightarrow> string"
  sdk_BindPort :: "string \<Rightarrow> ('w env_state, nat) prog"
  sdk_MaxTitleLength :: nat
  sdk_MaxDescriptionLength :: nat
  sdk_ErrInvalidProposalContent :: go_error
  sdk_TransferPort :: "('w env_state, string) prog"
  sdk_SendPacket :: "nat \<Rightarrow> string \<Rightarrow> string \<Rightarrow> u64 \<times> u64 \<Rightarrow> u64 \<Rightarrow> bytes \<Rightarrow> ('w env_state, u64) prog"
  sdk_WriteAcknowledgement :: "nat \<Rightarrow> Packet \<Rightarrow> bytes \<Rightarrow> ('w env_state, unit) prog"

text \<open>
  \<open>sdk_gunzip\<close> is the decoder of \<open>compress/gzip\<close>: an error for the header, or the decoded bytes, the
  error that ends them unless it is the end of the stream, and whether the end is reported
  together with the last bytes. The two parsers of verification data yield
  the text of their error, if any.

  The callback a contract uses for queries: given its own store as it currently is and the
  meter, it answers and charges the meter. A panic inside (out of gas) is handed back to the VM.
\<close>

type_synonym querier =
  "bytes items \<Rightarrow> gas_meter \<Rightarrow> QueryRequest \<Rightarrow> u64 \<Rightarrow> bytes outcome \<times> gas_meter"

text \<open>
  One call of a contract: store, querier, meter and gas limit in; result or error text, gas used,
  store and meter out.
\<close>

type_synonym 'r vm_call =
  "bytes items \<Rightarrow> querier \<Rightarrow> gas_meter \<Rightarrow> u64 \<Rightarrow> (string + 'r option) \<times> u64 \<times> bytes items \<times> gas_meter"

record 'v wasm_engine =
  vm_StoreCode :: "bytes \<Rightarrow> u64 \<Rightarrow> 'v \<Rightarrow> (bytes \<times> u64 \<times> string option) \<times> 'v"
  vm_StoreCodeUnchecked :: "bytes \<Rightarrow> 'v \<Rightarrow> (string + bytes) \<times> 'v"
  vm_AnalyzeCode :: "bytes \<Rightarrow> 'v \<Rightarrow> string + AnalysisReport"
  vm_GetCode :: "bytes \<Rightarrow> 'v \<Rightarrow> string + bytes"
  vm_Pin :: "bytes \<Rightarrow> 'v \<Rightarrow> string option \<times> 'v"
  vm_Unpin :: "bytes \<Rightarrow> 'v \<Rightarrow> string option \<times> 'v"
  vm_Instantiate :: "bytes \<Rightarrow> Env \<Rightarrow> MessageInfo \<Rightarrow> bytes \<Rightarrow> ContractResult vm_call"
  vm_Execute :: "bytes \<Rightarrow> Env \<Rightarrow> MessageInfo \<Rightarrow> bytes \<Rightarrow> ContractResult vm_call"
  vm_MigrateWithInfo :: "bytes \<Rightarrow> Env \<Rightarrow> bytes \<Rightarrow> MigrateInfo \<Rightarrow> ContractResult vm_call"
  vm_Sudo :: "bytes \<Rightarrow> Env \<Rightarrow> bytes \<Rightarrow> ContractResult vm_call"
  vm_Reply :: "bytes \<Rightarrow> Env \<Rightarrow> Reply \<Rightarrow> ContractResult vm_call"
  vm_Query :: "bytes \<Rightarrow> Env \<Rightarrow> bytes \<Rightarrow> QueryResult vm_call"
  vm_IBCChannelOpen :: "bytes \<Rightarrow> Env \<Rightarrow> IBCChannelOpenMsg \<Rightarrow> IBCChannelOpenResult vm_call"
  vm_IBCChannelConnect :: "bytes \<Rightarrow> Env \<Rightarrow> IBCChannelConnectMsg \<Rightarrow> IBCBasicResult vm_call"
  vm_IBCChannelClose :: "bytes \<Rightarrow> Env \<Rightarrow> IBCChannelCloseMsg \<Rightarrow> IBCBasicResult vm_call"
  vm_IBCPacketReceive :: "bytes \<Rightarrow> Env \<Rightarrow> IBCPacketReceiveMsg \<Rightarrow> IBCReceiveResult vm_call"
  vm_IBCPacketAck :: "bytes \<Rightarrow> Env \<Rightarrow> IBCPacketAckMsg \<Rightarrow> IBCBasicResult vm_call"
  vm_IBCPacketTimeout :: "bytes \<Rightarrow> Env \<Rightarrow> IBCPacketTimeoutMsg \<Rightarrow> IBCBasicResult vm_call"
  vm_IBCSourceCallback :: "bytes \<Rightarrow> Env \<Rightarrow> IBCSourceCallbackMsg \<Rightarrow> IBCBasicResult vm_call"
  vm_IBCDestinationCallback :: "bytes \<Rightarrow> Env \<Rightarrow> IBCDestinationCallbackMsg \<Rightarrow> IBCBasicResult vm_call"

section \<open>The keeper\<close>

text \<open>
  The interfaces a \<open>Keeper\<close> holds as fields are function fields here: the message handler
  (\<open>Messenger\<close>), the response handler (\<open>WasmVMResponseHandler\<close>) and the query handler
  (\<open>WasmVMQueryHandler\<close>).
\<close>

type_synonym ('w, 'v, 'a) op = "(('w, 'v) world, 'a) prog"
type_synonym dispatch_result = "Event list \<times> bytes option list \<times> MsgResponse list list"
type_synonym ('w, 'v) messenger =
  "ctx \<Rightarrow> bytes \<Rightarrow> string \<Rightarrow> CosmosMsg \<Rightarrow> ('w, 'v, dispatch_result) op"

record ('w, 'v) Keeper =
  k_sdk :: "'w sdk_ops"
  k_vm :: "'v wasm_engine"
  k_bank :: "bytes \<Rightarrow> bytes \<Rightarrow> sdk_Coin list \<Rightarrow> ('w env_state, unit) prog"
  k_queryHandler :: "ctx \<Rightarrow> bytes \<Rightarrow> QueryRequest \<Rightarrow> ('w, 'v, bytes) op"
  k_responseHandler :: "ctx \<Rightarrow> bytes \<Rightarrow> string \<Rightarrow> SubMsg list \<Rightarrow> bytes option \<Rightarrow> ('w, 'v, bytes option) op"
  k_messenger :: "('w, 'v) messenger"
  k_queryGasLimit :: u64
  k_gasRegister :: WasmGasRegisterConfig
  k_maxQueryStackSize :: u32
  k_maxCallDepth :: u32
  k_acceptedAccountTypes :: "string set"
  k_accountPruner :: "account \<Rightarrow> ('w env_state, bool) prog"
  k_propagateGovAuthorization :: "AuthorizationPolicyAction set"
  k_authority :: string

abbreviation k_addr :: "('w, 'v) Keeper \<Rightarrow> addr_codec" where
  "k_addr k \<equiv> sdk_addr (k_sdk k)"

section \<open>Access to the parts of the state\<close>

definition liftX :: "('w env_state, 'a) prog \<Rightarrow> ('w, 'v, 'a) op" where
  "liftX m = (\<lambda>w. case m (w_env w) of (r, e) \<Rightarrow> (r, w\<lparr>w_env := e\<rparr>))"

definition liftGas :: "(gas_meter, 'a) prog \<Rightarrow> ('w env_state, 'a) prog" where
  "liftGas m = (\<lambda>e. case m (es_meter e) of (r, g) \<Rightarrow> (r, e\<lparr>es_meter := g\<rparr>))"

definition consumeGas :: "u64 \<Rightarrow> string \<Rightarrow> ('w, 'v, unit) op" where
  "consumeGas amount descriptor = liftX (liftGas (ConsumeGas amount descriptor))"

definition readMeter :: "('w, 'v, gas_meter) op" where
  "readMeter = (\<lambda>w. (Ok (es_meter (w_env w)), w))"

definition emitEvents :: "Event list \<Rightarrow> ('w, 'v, unit) op" where
  "emitEvents evs = modifyM (\<lambda>w. w\<lparr>w_env := (w_env w)\<lparr>es_events := es_events (w_env w) @ evs\<rparr>\<rparr>)"

definition storeGet :: "bytes \<Rightarrow> ('w, 'v, store_value option) op" where
  "storeGet key = (\<lambda>w. (Ok (kv_get (w_store w) key), w))"

definition storeHas :: "bytes \<Rightarrow> ('w, 'v, bool) op" where
  "storeHas key = (\<lambda>w. (Ok (kv_has (w_store w) key), w))"

definition storeSet :: "bytes \<Rightarrow> store_value \<Rightarrow> ('w, 'v, unit) op" where
  "storeSet key v = modifyM (\<lambda>w. w\<lparr>w_store := kv_set (w_store w) key v\<rparr>)"

definition storeDelete :: "bytes \<Rightarrow> ('w, 'v, unit) op" where
  "storeDelete key = modifyM (\<lambda>w. w\<lparr>w_store := kv_delete (w_store w) key\<rparr>)"

definition storePrefix :: "bytes \<Rightarrow> ('w, 'v, store_value items) op" where
  "storePrefix p = (\<lambda>w. (Ok (strip_prefix p (w_store w)), w))"

text \<open>The contract's own store, as a prefix store shows it, and writing it back.\<close>

fun raw_items :: "store_value items \<Rightarrow> bytes items" where
  "raw_items [] = []"
| "raw_items ((k, RawV v) # m) = (k, v) # raw_items m"
| "raw_items ((k, _) # m) = raw_items m"

definition contractStore :: "store_value items \<Rightarrow> bytes \<Rightarrow> bytes items" where
  "contractStore m addr = raw_items (strip_prefix (GetContractStorePrefix addr) m)"

definition putContractStore :: "bytes \<Rightarrow> bytes items \<Rightarrow> store_value items \<Rightarrow> store_value items" where
  "putContractStore addr local m =
     fold (\<lambda>(k, v) m'. kv_set m' (GetContractStorePrefix addr @ k) (RawV v)) local
       (filter (\<lambda>(k, _). \<not> prefix (GetContractStorePrefix addr) k) m)"

end
