(* ===== verification/Keeper_Store.thy ===== *)
theory Keeper_Store
  imports World
begin

text \<open>
  The part of \<open>keeper/keeper.go\<close> that reads and writes the module's store: parameters,
  sequences, codes, contracts, their history and secondary indexes, pinned codes, access
  configuration, packets waiting for an acknowledgement, and the import functions of genesis.
\<close>

section \<open>Events\<close>

definition attr :: "string \<Rightarrow> string \<Rightarrow> EventAttribute" where
  "attr k v = \<lparr>attr_Key = k, attr_Value = v\<rparr>"

definition emitEvent :: "string \<Rightarrow> EventAttribute list \<Rightarrow> ('w, 'v, unit) op" where
  "emitEvent kind attrs = emitEvents [\<lparr>ev_Type = kind, ev_Attributes = attrs\<rparr>]"

definition fmt_u64 :: "u64 \<Rightarrow> string" where
  "fmt_u64 n = dec_string (unat n)"

section \<open>Decoding\<close>

text \<open>\<open>cdc.MustUnmarshal\<close> into the message type of the entry.\<close>

fun asCodeInfo :: "store_value \<Rightarrow> CodeInfo outcome" where
  "asCodeInfo (CodeInfoV c) = Ok c"
| "asCodeInfo _ = Panic PanicOther"

fun asContractInfo :: "store_value \<Rightarrow> ContractInfo outcome" where
  "asContractInfo (ContractInfoV c) = Ok c"
| "asContractInfo _ = Panic PanicOther"

fun asHistory :: "store_value \<Rightarrow> ContractCodeHistoryEntry outcome" where
  "asHistory (HistoryV h) = Ok h"
| "asHistory _ = Panic PanicOther"

text \<open>\<open>binary.BigEndian.Uint64\<close>: index out of range on fewer than eight bytes.\<close>

definition BigEndian_Uint64 :: "bytes \<Rightarrow> u64 outcome" where
  "BigEndian_Uint64 b =
     (if length b < 8 then Panic PanicOther else Ok (word_of_nat (be_val (take 8 b))))"

fun asUint64 :: "store_value \<Rightarrow> u64 outcome" where
  "asUint64 (RawV b) = BigEndian_Uint64 b"
| "asUint64 _ = Panic PanicOther"

section \<open>Parameters\<close>

definition GetParams :: "('w, 'v, Params) op" where
  "GetParams = bindM (storeGet ParamsKey) (\<lambda>v.
     case v of Some (ParamsV p) \<Rightarrow> returnM p | _ \<Rightarrow> panicM PanicOther)"

definition SetParams :: "Params \<Rightarrow> ('w, 'v, unit) op" where
  "SetParams ps = storeSet ParamsKey (ParamsV ps)"

definition getUploadAccessConfig :: "('w, 'v, AccessConfig) op" where
  "getUploadAccessConfig = bindM GetParams (\<lambda>p. returnM (CodeUploadAccess p))"

definition getInstantiateAccessConfig :: "('w, 'v, AccessType) op" where
  "getInstantiateAccessConfig = bindM GetParams (\<lambda>p. returnM (InstantiateDefaultPermission p))"

section \<open>Sequences\<close>

definition readSequence :: "bytes \<Rightarrow> ('w, 'v, u64) op" where
  "readSequence sequenceKey = bindM (storeGet sequenceKey) (\<lambda>bz.
     case bz of None \<Rightarrow> returnM 1 | Some v \<Rightarrow> liftO (asUint64 v))"

definition mustAutoIncrementID :: "bytes \<Rightarrow> ('w, 'v, u64) op" where
  "mustAutoIncrementID sequenceKey =
     bindM (readSequence sequenceKey) (\<lambda>id.
     bindM (storeSet sequenceKey (RawV (Uint64ToBigEndian (id + 1)))) (\<lambda>_.
     returnM id))"

definition PeekAutoIncrementID :: "bytes \<Rightarrow> ('w, 'v, u64) op" where
  "PeekAutoIncrementID sequenceKey = readSequence sequenceKey"

definition importAutoIncrementID :: "bytes \<Rightarrow> u64 \<Rightarrow> ('w, 'v, unit) op" where
  "importAutoIncrementID sequenceKey val =
     bindM (storeHas sequenceKey) (\<lambda>ok.
     if ok then failM (WrappedError (''autoincrement id: '' @ sequenceKey) ErrDuplicate)
     else storeSet sequenceKey (RawV (Uint64ToBigEndian val)))"

section \<open>Codes\<close>

definition mustStoreCodeInfo :: "u64 \<Rightarrow> CodeInfo \<Rightarrow> ('w, 'v, unit) op" where
  "mustStoreCodeInfo codeID codeInfo = storeSet (GetCodeKey codeID) (CodeInfoV codeInfo)"

definition GetCodeInfo :: "u64 \<Rightarrow> ('w, 'v, CodeInfo option) op" where
  "GetCodeInfo codeID = bindM (storeGet (GetCodeKey codeID)) (\<lambda>v.
     case v of None \<Rightarrow> returnM None
             | Some bz \<Rightarrow> bindM (liftO (asCodeInfo bz)) (\<lambda>c. returnM (Some c)))"

definition containsCodeInfo :: "u64 \<Rightarrow> ('w, 'v, bool) op" where
  "containsCodeInfo codeID = storeHas (GetCodeKey codeID)"

definition noSuchCode :: "u64 \<Rightarrow> go_error" where
  "noSuchCode codeID = WrappedError (''code id '' @ fmt_u64 codeID) (ErrNoSuchCodeFn codeID)"

definition IterateCodeInfos :: "(u64 \<Rightarrow> CodeInfo \<Rightarrow> ('w, 'v, bool) op) \<Rightarrow> ('w, 'v, unit) op" where
  "IterateCodeInfos cb = bindM (storePrefix CodeKeyPrefix) (\<lambda>items.
     iterateM (\<lambda>(key, value).
       bindM (liftO (asCodeInfo value)) (\<lambda>c.
       bindM (liftO (BigEndian_Uint64 key)) (\<lambda>codeID.
       cb codeID c))) items)"

definition GetByteCode :: "('w, 'v) Keeper \<Rightarrow> u64 \<Rightarrow> ('w, 'v, bytes option) op" where
  "GetByteCode k codeID = bindM (GetCodeInfo codeID) (\<lambda>info.
     case info of
       None \<Rightarrow> returnM None
     | Some c \<Rightarrow> bindM getM (\<lambda>w.
         case vm_GetCode (k_vm k) (code_CodeHash c) (w_vm w) of
           Inl err \<Rightarrow> failM (PlainError err)
         | Inr code \<Rightarrow> returnM (Some code)))"

text \<open>\<open>setAccessConfig\<close>: \<open>MustAccAddressFromBech32\<close> panics on an unparsable creator.\<close>

definition setAccessConfig ::
  "('w, 'v) Keeper \<Rightarrow> u64 \<Rightarrow> AccAddress \<Rightarrow> AccessConfig \<Rightarrow> AuthorizationPolicy \<Rightarrow> ('w, 'v, unit) op"
where
  "setAccessConfig k codeID caller newConfig authz =
     bindM (GetCodeInfo codeID) (\<lambda>info.
     case info of
       None \<Rightarrow> failM (noSuchCode codeID)
     | Some c \<Rightarrow>
        bindM getInstantiateAccessConfig (\<lambda>dflt.
        case AccAddressFromBech32 (k_addr k) (code_Creator c) of
          Inl _ \<Rightarrow> panicM PanicOther
        | Inr creator \<Rightarrow>
            bindM (guardM (CanModifyCodeAccessConfig authz (Some creator) caller
                             (AccessType_IsSubset (Permission newConfig) dflt))
                     (WrappedError ''can not modify code access config'' ErrUnauthorized)) (\<lambda>_.
            bindM (mustStoreCodeInfo codeID (c\<lparr>code_InstantiateConfig := newConfig\<rparr>)) (\<lambda>_.
            emitEvent ''update_code_access_config''
              ([attr ''code_permission'' (AccessType_String (Permission newConfig)),
                attr ''code_id'' (fmt_u64 codeID)] @
               (case AllAuthorizedAddresses newConfig of
                  [] \<Rightarrow> []
                | addrs \<Rightarrow> [attr ''authorized_addresses'' (join '','' addrs)]))))))"

section \<open>Contracts\<close>

definition GetContractInfo :: "bytes \<Rightarrow> ('w, 'v, ContractInfo option) op" where
  "GetContractInfo contractAddress = bindM (storeGet (GetContractAddressKey contractAddress)) (\<lambda>v.
     case v of None \<Rightarrow> returnM None
             | Some bz \<Rightarrow> bindM (liftO (asContractInfo bz)) (\<lambda>c. returnM (Some c)))"

definition HasContractInfo :: "bytes \<Rightarrow> ('w, 'v, bool) op" where
  "HasContractInfo contractAddress = storeHas (GetContractAddressKey contractAddress)"

definition mustStoreContractInfo :: "bytes \<Rightarrow> ContractInfo \<Rightarrow> ('w, 'v, unit) op" where
  "mustStoreContractInfo contractAddress contract =
     storeSet (GetContractAddressKey contractAddress) (ContractInfoV contract)"

definition IterateContractInfo ::
  "(bytes \<Rightarrow> ContractInfo \<Rightarrow> ('w, 'v, bool) op) \<Rightarrow> ('w, 'v, unit) op"
where
  "IterateContractInfo cb = bindM (storePrefix ContractKeyPrefix) (\<lambda>items.
     iterateM (\<lambda>(key, value). bindM (liftO (asContractInfo value)) (\<lambda>c. cb key c)) items)"

definition IterateContractState ::
  "bytes \<Rightarrow> (bytes \<Rightarrow> bytes \<Rightarrow> ('w, 'v, bool) op) \<Rightarrow> ('w, 'v, unit) op"
where
  "IterateContractState contractAddress cb = bindM getM (\<lambda>w.
     iterateM (\<lambda>(key, value). cb key value) (contractStore (w_store w) contractAddress))"

definition QueryRaw :: "bytes \<Rightarrow> bytes option \<Rightarrow> ('w, 'v, bytes option) op" where
  "QueryRaw contractAddress key =
     (case key of
        None \<Rightarrow> returnM None
      | Some key' \<Rightarrow> bindM getM (\<lambda>w. returnM (kv_get (contractStore (w_store w) contractAddress) key')))"

text \<open>\<open>contractInstance\<close> without the prefix store, which the calls read from the state.\<close>

definition contractInstance ::
  "('w, 'v) Keeper \<Rightarrow> bytes \<Rightarrow> ('w, 'v, ContractInfo \<times> CodeInfo) op"
where
  "contractInstance k contractAddress =
     bindM (GetContractInfo contractAddress) (\<lambda>ci.
     case ci of
       None \<Rightarrow> failM (WrappedError (''address '' @ addr_String (k_addr k) contractAddress)
                        (ErrNoSuchContractFn (addr_String (k_addr k) contractAddress)))
     | Some contractInfo \<Rightarrow>
         bindM (GetCodeInfo (con_CodeID contractInfo)) (\<lambda>co.
         case co of
           None \<Rightarrow> failM (noSuchCode (con_CodeID contractInfo))
         | Some codeInfo \<Rightarrow> returnM (contractInfo, codeInfo)))"

definition setContractAdmin ::
  "('w, 'v) Keeper \<Rightarrow> bytes \<Rightarrow> AccAddress \<Rightarrow> AccAddress \<Rightarrow> AuthorizationPolicy \<Rightarrow> ('w, 'v, unit) op"
where
  "setContractAdmin k contractAddress caller newAdmin authZ =
     bindM (GetContractInfo contractAddress) (\<lambda>ci.
     case ci of
       None \<Rightarrow> failM (WrappedError ''unknown contract'' ErrInvalidRequest)
     | Some contractInfo \<Rightarrow>
         bindM (liftO (AdminAddr (k_addr k) contractInfo)) (\<lambda>admin.
         bindM (guardM (CanModifyContract authZ admin caller)
                  (WrappedError ''can not modify contract'' ErrUnauthorized)) (\<lambda>_.
         let newAdminStr = addr_String (k_addr k) (addr_bytes newAdmin)
         in bindM (mustStoreContractInfo contractAddress (contractInfo\<lparr>con_Admin := newAdminStr\<rparr>)) (\<lambda>_.
            emitEvent ''update_contract_admin''
              [attr ''_contract_address'' (addr_String (k_addr k) contractAddress),
               attr ''new_admin_address'' newAdminStr]))))"

definition setContractLabel ::
  "('w, 'v) Keeper \<Rightarrow> bytes \<Rightarrow> AccAddress \<Rightarrow> string \<Rightarrow> AuthorizationPolicy \<Rightarrow> ('w, 'v, unit) op"
where
  "setContractLabel k contractAddress caller newLabel authZ =
     bindM (GetContractInfo contractAddress) (\<lambda>ci.
     case ci of
       None \<Rightarrow> failM (WrappedError ''unknown contract'' ErrInvalidRequest)
     | Some contractInfo \<Rightarrow>
         bindM (liftO (AdminAddr (k_addr k) contractInfo)) (\<lambda>admin.
         bindM (guardM (CanModifyContract authZ admin caller)
                  (WrappedError ''can not modify contract'' ErrUnauthorized)) (\<lambda>_.
         bindM (mustStoreContractInfo contractAddress (contractInfo\<lparr>con_Label := newLabel\<rparr>)) (\<lambda>_.
         emitEvent ''update_contract_label''
           [attr ''_contract_address'' (addr_String (k_addr k) contractAddress),
            attr ''new_label'' newLabel]))))"

text \<open>
  An extension is opaque; its optional \<open>ValidateBasic\<close> is the argument \<open>validate\<close>.
\<close>

definition SetExtension ::
  "(bytes \<Rightarrow> go_error + unit) \<Rightarrow> ContractInfo \<Rightarrow> bytes option \<Rightarrow> go_error + ContractInfo"
where
  "SetExtension validate c ext =
     (case ext of
        None \<Rightarrow> Inr (c\<lparr>con_Extension := None\<rparr>)
      | Some e \<Rightarrow> bindE (validate e) (\<lambda>_. Inr (c\<lparr>con_Extension := Some e\<rparr>)))"

definition setContractInfoExtension ::
  "('w, 'v) Keeper \<Rightarrow> (bytes \<Rightarrow> go_error + unit) \<Rightarrow> bytes \<Rightarrow> bytes option \<Rightarrow> ('w, 'v, unit) op"
where
  "setContractInfoExtension k validate contractAddr ext =
     bindM (GetContractInfo contractAddr) (\<lambda>ci.
     case ci of
       None \<Rightarrow> failM (WrappedError (''address '' @ addr_String (k_addr k) contractAddr)
                        (ErrNoSuchContractFn (addr_String (k_addr k) contractAddr)))
     | Some info \<Rightarrow>
         bindM (liftE (SetExtension validate info ext)) (\<lambda>info'.
         mustStoreContractInfo contractAddr info'))"

section \<open>Secondary indexes\<close>

definition addToContractCodeSecondaryIndex ::
  "bytes \<Rightarrow> ContractCodeHistoryEntry \<Rightarrow> ('w, 'v, unit) op"
where
  "addToContractCodeSecondaryIndex contractAddress entry =
     bindM (liftO (GetContractByCreatedSecondaryIndexKey contractAddress entry)) (\<lambda>key.
     storeSet key (RawV []))"

definition removeFromContractCodeSecondaryIndex ::
  "bytes \<Rightarrow> ContractCodeHistoryEntry \<Rightarrow> ('w, 'v, unit) op"
where
  "removeFromContractCodeSecondaryIndex contractAddress entry =
     bindM (liftO (GetContractByCreatedSecondaryIndexKey contractAddress entry)) (\<lambda>key.
     storeDelete key)"

definition addToContractCreatorSecondaryIndex ::
  "bytes \<Rightarrow> AbsoluteTxPosition option \<Rightarrow> bytes \<Rightarrow> ('w, 'v, unit) op"
where
  "addToContractCreatorSecondaryIndex creatorAddress position contractAddress =
     bindM (liftO (AbsoluteTxPosition_Bytes position)) (\<lambda>pos.
     bindM (liftO (GetContractByCreatorSecondaryIndexKey creatorAddress pos contractAddress)) (\<lambda>key.
     storeSet key (RawV [])))"

text \<open>The slice \<open>key[AbsoluteTxPositionLen:]\<close> of an index key; out of range on a shorter key.\<close>

definition indexAddress :: "bytes \<Rightarrow> bytes outcome" where
  "indexAddress key =
     (if length key < AbsoluteTxPositionLen then Panic PanicOther
      else Ok (drop AbsoluteTxPositionLen key))"

definition IterateContractsByCreator ::
  "bytes \<Rightarrow> (bytes \<Rightarrow> ('w, 'v, bool) op) \<Rightarrow> ('w, 'v, unit) op"
where
  "IterateContractsByCreator creator cb =
     bindM (liftO (GetContractsByCreatorPrefix creator)) (\<lambda>p.
     bindM (storePrefix p) (\<lambda>items.
     iterateM (\<lambda>(key, _). bindM (liftO (indexAddress key)) cb) items))"

definition IterateContractsByCode ::
  "u64 \<Rightarrow> (bytes \<Rightarrow> ('w, 'v, bool) op) \<Rightarrow> ('w, 'v, unit) op"
where
  "IterateContractsByCode codeID cb =
     bindM (storePrefix (GetContractByCodeIDSecondaryIndexPrefix codeID)) (\<lambda>items.
     iterateM (\<lambda>(key, _). bindM (liftO (indexAddress key)) cb) items)"

section \<open>History\<close>

text \<open>Only keys of eight bytes behind the prefix are positions of this contract.\<close>

definition isPosition :: "bytes \<times> 'v \<Rightarrow> bool" where
  "isPosition kv \<longleftrightarrow> length (fst kv) = 8"

definition lastPosition :: "store_value items \<Rightarrow> u64 outcome" where
  "lastPosition items =
     (case find isPosition (rev items) of
        None \<Rightarrow> Ok 0
      | Some (key, _) \<Rightarrow> BigEndianToUint64 key)"

primrec storeHistory :: "bytes \<Rightarrow> u64 \<Rightarrow> ContractCodeHistoryEntry list \<Rightarrow> ('w, 'v, unit) op" where
  "storeHistory contractAddr pos [] = returnM ()"
| "storeHistory contractAddr pos (e # es) =
     bindM (storeSet (GetContractCodeHistoryElementKey contractAddr (pos + 1)) (HistoryV e)) (\<lambda>_.
     storeHistory contractAddr (pos + 1) es)"

definition appendToContractHistory ::
  "bytes \<Rightarrow> ContractCodeHistoryEntry list \<Rightarrow> ('w, 'v, unit) op"
where
  "appendToContractHistory contractAddr newEntries =
     bindM (storePrefix (GetContractCodeHistoryElementPrefix contractAddr)) (\<lambda>items.
     bindM (liftO (lastPosition items)) (\<lambda>pos.
     storeHistory contractAddr pos newEntries))"

fun decodeHistory :: "store_value items \<Rightarrow> ContractCodeHistoryEntry list outcome" where
  "decodeHistory [] = Ok []"
| "decodeHistory ((key, value) # items) =
     (if \<not> isPosition (key, value) then decodeHistory items
      else bindO (asHistory value) (\<lambda>e. bindO (decodeHistory items) (\<lambda>es. Ok (e # es))))"

definition GetContractHistory :: "bytes \<Rightarrow> ('w, 'v, ContractCodeHistoryEntry list) op" where
  "GetContractHistory contractAddr =
     bindM (storePrefix (GetContractCodeHistoryElementPrefix contractAddr)) (\<lambda>items.
     liftO (decodeHistory items))"

definition mustGetLastContractHistoryEntry :: "bytes \<Rightarrow> ('w, 'v, ContractCodeHistoryEntry) op" where
  "mustGetLastContractHistoryEntry contractAddr =
     bindM (storePrefix (GetContractCodeHistoryElementPrefix contractAddr)) (\<lambda>items.
     case find isPosition (rev items) of
       None \<Rightarrow> panicM PanicOther
     | Some (_, value) \<Rightarrow> liftO (asHistory value))"

section \<open>Pinned codes\<close>

definition vmPin :: "('w, 'v) Keeper \<Rightarrow> bytes \<Rightarrow> ('w, 'v, string option) op" where
  "vmPin k checksum = (\<lambda>w. case vm_Pin (k_vm k) checksum (w_vm w) of (r, v) \<Rightarrow> (Ok r, w\<lparr>w_vm := v\<rparr>))"

definition vmUnpin :: "('w, 'v) Keeper \<Rightarrow> bytes \<Rightarrow> ('w, 'v, string option) op" where
  "vmUnpin k checksum = (\<lambda>w. case vm_Unpin (k_vm k) checksum (w_vm w) of (r, v) \<Rightarrow> (Ok r, w\<lparr>w_vm := v\<rparr>))"

definition pinCode :: "('w, 'v) Keeper \<Rightarrow> u64 \<Rightarrow> ('w, 'v, unit) op" where
  "pinCode k codeID =
     bindM (GetCodeInfo codeID) (\<lambda>ci.
     case ci of
       None \<Rightarrow> failM (noSuchCode codeID)
     | Some codeInfo \<Rightarrow>
         bindM (vmPin k (code_CodeHash codeInfo)) (\<lambda>err.
         case err of
           Some e \<Rightarrow> failM (WrappedError e ErrPinContractFailed)
         | None \<Rightarrow>
             bindM (storeSet (GetPinnedCodeIndexPrefix codeID) (RawV [CHR 0x01])) (\<lambda>_.
             emitEvent ''pin_code'' [attr ''code_id'' (fmt_u64 codeID)])))"

definition unpinCode :: "('w, 'v) Keeper \<Rightarrow> u64 \<Rightarrow> ('w, 'v, unit) op" where
  "unpinCode k codeID =
     bindM (GetCodeInfo codeID) (\<lambda>ci.
     case ci of
       None \<Rightarrow> failM (noSuchCode codeID)
     | Some codeInfo \<Rightarrow>
         bindM (vmUnpin k (code_CodeHash codeInfo)) (\<lambda>err.
         case err of
           Some e \<Rightarrow> failM (WrappedError e ErrUnpinContractFailed)
         | None \<Rightarrow>
             bindM (storeDelete (GetPinnedCodeIndexPrefix codeID)) (\<lambda>_.
             emitEvent ''unpin_code'' [attr ''code_id'' (fmt_u64 codeID)])))"

definition IsPinnedCode :: "u64 \<Rightarrow> ('w, 'v, bool) op" where
  "IsPinnedCode codeID = storeHas (GetPinnedCodeIndexPrefix codeID)"

definition InitializePinnedCodes :: "('w, 'v) Keeper \<Rightarrow> ('w, 'v, unit) op" where
  "InitializePinnedCodes k =
     bindM (storePrefix PinnedCodeIndexPrefix) (\<lambda>items.
     eachM (\<lambda>(key, _).
       bindM (liftO (ParsePinnedCodeIndex key)) (\<lambda>codeID.
       bindM (GetCodeInfo codeID) (\<lambda>ci.
       case ci of
         None \<Rightarrow> failM (noSuchCode codeID)
       | Some codeInfo \<Rightarrow>
           bindM (vmPin k (code_CodeHash codeInfo)) (\<lambda>err.
           case err of
             Some e \<Rightarrow> failM (WrappedError e ErrPinContractFailed)
           | None \<Rightarrow> returnM ())))) items)"

section \<open>Packets waiting for an acknowledgement\<close>

definition asyncAckKey :: "string \<Rightarrow> string \<Rightarrow> u64 \<Rightarrow> bytes" where
  "asyncAckKey portID channelID sequence =
     GetAsyncAckStorePrefix portID @ GetAsyncPacketKey channelID sequence"

definition LoadAsyncAckPacket :: "string \<Rightarrow> string \<Rightarrow> u64 \<Rightarrow> ('w, 'v, Packet) op" where
  "LoadAsyncAckPacket portID channelID sequence =
     bindM (storeGet (asyncAckKey portID channelID sequence)) (\<lambda>v.
     case v of
       None \<Rightarrow> failM (WrappedError ''packet'' ErrNotFound)
     | Some (PacketV packet) \<Rightarrow> returnM packet
     | Some _ \<Rightarrow> failM (PlainError ''unmarshal packet''))"

definition StoreAsyncAckPacket :: "Packet \<Rightarrow> ('w, 'v, unit) op" where
  "StoreAsyncAckPacket packet =
     storeSet (asyncAckKey (packet_DestinationPort packet) (packet_DestinationChannel packet)
                 (packet_Sequence packet)) (PacketV packet)"

definition DeleteAsyncAckPacket :: "string \<Rightarrow> string \<Rightarrow> u64 \<Rightarrow> ('w, 'v, unit) op" where
  "DeleteAsyncAckPacket portID channelID sequence =
     storeDelete (asyncAckKey portID channelID sequence)"

section \<open>Import\<close>

primrec importContractState :: "bytes \<Rightarrow> Model list \<Rightarrow> ('w, 'v, unit) op" where
  "importContractState contractAddress [] = returnM ()"
| "importContractState contractAddress (model # models) =
     (let key = GetContractStorePrefix contractAddress @ model_Key model
      in bindM (storeHas key) (\<lambda>has.
         if has then failM (WrappedError (''duplicate key: '' @ hex_encode (model_Key model)) ErrDuplicate)
         else bindM (storeSet key (RawV (model_Value model))) (\<lambda>_.
              importContractState contractAddress models)))"

definition importContract ::
  "('w, 'v) Keeper \<Rightarrow> bytes \<Rightarrow> ContractInfo \<Rightarrow> Model list \<Rightarrow> ContractCodeHistoryEntry list \<Rightarrow> ('w, 'v, unit) op"
where
  "importContract k contractAddr c state historyEntries =
     bindM (containsCodeInfo (con_CodeID c)) (\<lambda>known.
     bindM (guardM known (noSuchCode (con_CodeID c))) (\<lambda>_.
     bindM (HasContractInfo contractAddr) (\<lambda>has.
     bindM (guardM (\<not> has) (WrappedError (''contract: '' @ addr_String (k_addr k) contractAddr) ErrDuplicate)) (\<lambda>_.
     bindM (guardM (historyEntries \<noteq> []) (WrappedError ''contract history'' ErrEmpty)) (\<lambda>_.
     bindM (liftE (AccAddressFromBech32 (k_addr k) (con_Creator c))) (\<lambda>creatorAddress.
     bindM (appendToContractHistory contractAddr historyEntries) (\<lambda>_.
     bindM (mustStoreContractInfo contractAddr c) (\<lambda>_.
     bindM (addToContractCodeSecondaryIndex contractAddr (last historyEntries)) (\<lambda>_.
     bindM (addToContractCreatorSecondaryIndex creatorAddress (hist_Updated (hd historyEntries)) contractAddr) (\<lambda>_.
     importContractState contractAddr state))))))))))"

end
