(* ===== verification/Store_Logic.thy ===== *)
theory Store_Logic
  imports Keeper_Store
begin

text \<open>
  Reasoning about the module's store: which operations leave it alone (\<open>neutral\<close>), lookups by
  kind of entry (\<open>look\<close>) and how writes change them, and what writing back the store of a contract
  can touch.
\<close>

named_theorems neutral_rules \<open>operations that leave the store alone\<close>

section \<open>Operations that leave the store alone\<close>

definition neutral :: "('w, 'v, 'a) op \<Rightarrow> bool" where
  "neutral m \<longleftrightarrow> (\<forall>w. w_store (snd (m w)) = w_store w)"

lemma neutralI: "(\<And>w r w'. m w = (r, w') \<Longrightarrow> w_store w' = w_store w) \<Longrightarrow> neutral m"
  unfolding neutral_def by (metis prod.collapse)

lemma neutralD: "neutral m \<Longrightarrow> m w = (r, w') \<Longrightarrow> w_store w' = w_store w"
  unfolding neutral_def by (metis snd_conv)

lemma neutral_keeps: "neutral m \<Longrightarrow> keeps (\<lambda>w. \<Phi> (w_store w)) m"
  by (rule keepsI) (simp add: neutralD)

lemma neutral_bindM [neutral_rules]:
  assumes "neutral m" and "\<And>x. neutral (f x)"
  shows "neutral (bindM m f)"
proof (rule neutralI)
  fix w r w' assume run: "bindM m f w = (r, w')"
  obtain q t where m: "m w = (q, t)" by (cases "m w")
  note t = neutralD [OF assms(1) m]
  show "w_store w' = w_store w"
    using run m t neutralD [OF assms(2)] by (cases q) (auto simp: bindM_def)
qed

lemma neutral_basic [neutral_rules]:
  "neutral (returnM x)" "neutral (failM e)" "neutral (panicM p)" "neutral getM"
  "neutral (liftO q)" "neutral (guardM b e)" "neutral (liftE z)"
  by (auto simp: neutral_def returnM_def failM_def panicM_def getM_def liftO_def guardM_def liftE_def
      split: sum.split)

lemma neutral_tryM [neutral_rules]: "neutral m \<Longrightarrow> neutral (tryM m)"
  by (rule neutralI) (auto simp: tryM_def dest: neutralD split: prod.splits outcome.splits)

lemma neutral_wrapM [neutral_rules]: "neutral m \<Longrightarrow> neutral (wrapM d m)"
  by (rule neutralI) (auto simp: wrapM_def dest: neutralD split: prod.splits outcome.splits)

lemma neutral_eachM [neutral_rules]: "(\<And>x. neutral (f x)) \<Longrightarrow> neutral (eachM f xs)"
  by (induction xs) (auto intro: neutral_rules)

lemma neutral_iterateM [neutral_rules]: "(\<And>x. neutral (cb x)) \<Longrightarrow> neutral (iterateM cb xs)"
  by (induction xs) (auto intro!: neutral_rules)

lemma neutral_cases [neutral_rules]:
  "(b \<Longrightarrow> neutral m) \<Longrightarrow> (\<not> b \<Longrightarrow> neutral m') \<Longrightarrow> neutral (if b then m else m')"
  "neutral n \<Longrightarrow> (\<And>x. neutral (f x)) \<Longrightarrow> neutral (case v of None \<Rightarrow> n | Some x \<Rightarrow> f x)"
  "(\<And>x. neutral (g x)) \<Longrightarrow> (\<And>y. neutral (h y)) \<Longrightarrow> neutral (case r of Inl x \<Rightarrow> g x | Inr y \<Rightarrow> h y)"
  "(\<And>x y. neutral (l x y)) \<Longrightarrow> neutral (case q of (x, y) \<Rightarrow> l x y)"
  by (auto split: option.split sum.split prod.split)

lemma neutral_Let [neutral_rules]: "(\<And>x. neutral (f x)) \<Longrightarrow> neutral (let x = v in f x)"
  by (simp add: Let_def)

lemma neutral_liftX [neutral_rules]: "neutral (liftX m)"
  by (auto simp: neutral_def liftX_def split: prod.split)

lemma neutral_store_reads [neutral_rules]:
  "neutral (storeGet k)" "neutral (storeHas k)" "neutral (storePrefix k)" "neutral readMeter"
  "neutral (emitEvents evs)" "neutral (consumeGas n d)"
  by (auto simp: neutral_def storeGet_def storeHas_def storePrefix_def readMeter_def emitEvents_def
      modifyM_def consumeGas_def liftX_def split: prod.split)

lemma neutral_emitEvent [neutral_rules]: "neutral (emitEvent k as)"
  by (simp add: emitEvent_def neutral_rules)

lemma neutral_vm [neutral_rules]: "neutral (vmPin k c)" "neutral (vmUnpin k c)"
  by (auto simp: neutral_def vmPin_def vmUnpin_def split: prod.split)

lemma neutral_GetParams [neutral_rules]: "neutral GetParams"
  unfolding GetParams_def
  by (intro neutral_rules) (auto intro: neutral_rules split: option.split store_value.split)

lemma neutral_params [neutral_rules]: "neutral getUploadAccessConfig" "neutral getInstantiateAccessConfig"
  unfolding getUploadAccessConfig_def getInstantiateAccessConfig_def by (intro neutral_rules)+

lemma neutral_readers [neutral_rules]:
  "neutral (readSequence s)" "neutral (PeekAutoIncrementID s)" "neutral (GetCodeInfo i)"
  "neutral (containsCodeInfo i)" "neutral (GetContractInfo a)" "neutral (HasContractInfo a)"
  "neutral (GetContractHistory a)" "neutral (mustGetLastContractHistoryEntry a)"
  "neutral (IsPinnedCode i)" "neutral (QueryRaw a key)"
  unfolding readSequence_def PeekAutoIncrementID_def GetCodeInfo_def containsCodeInfo_def
    GetContractInfo_def HasContractInfo_def GetContractHistory_def
    mustGetLastContractHistoryEntry_def IsPinnedCode_def QueryRaw_def
  by (intro neutral_rules)+

lemma neutral_contractInstance [neutral_rules]: "neutral (contractInstance k a)"
  unfolding contractInstance_def by (intro neutral_rules)

lemma neutral_GetByteCode [neutral_rules]: "neutral (GetByteCode k i)"
  unfolding GetByteCode_def by (intro neutral_rules)

lemma neutral_InitializePinnedCodes [neutral_rules]: "neutral (InitializePinnedCodes k)"
  unfolding InitializePinnedCodes_def by (intro neutral_rules)

section \<open>Lookups by kind of entry\<close>

definition look :: "store_value items \<Rightarrow> store_key \<Rightarrow> store_value option" where
  "look m sk = (case key_of sk of Ok b \<Rightarrow> kv_get m b | _ \<Rightarrow> None)"

text \<open>Entries of the registry proper: not data of a contract, not a pending packet.\<close>

fun registry_key :: "store_key \<Rightarrow> bool" where
  "registry_key (StoreK _ _) = False"
| "registry_key (AsyncAckK _ _ _) = False"
| "registry_key _ = True"

lemma registry_comparable: "registry_key k \<or> registry_key l \<Longrightarrow> comparable k l"
  by (cases k; cases l) auto

lemma key_eq_iff:
  assumes "key_of sk = Ok b" and "key_of sk' = Ok b'" and "registry_key sk \<or> registry_key sk'"
  shows "b' = b \<longleftrightarrow> sk' = sk"
proof
  assume "b' = b"
  with assms(2) have "key_of sk' = Ok b" by simp
  from key_of_inj_aux [OF assms(1) this registry_comparable [OF assms(3)]] show "sk' = sk" by (rule sym)
next
  assume "sk' = sk"
  with assms(1,2) show "b' = b" by simp
qed

lemma look_write:
  assumes "key_of sk = Ok b" and "registry_key sk \<or> registry_key sk'"
    and "\<And>k. kv_get m' k = (if k = b then x else kv_get m k)"
  shows "look m' sk' = (if sk' = sk then x else look m sk')"
proof (cases "key_of sk'")
  case (Ok b')
  then show ?thesis unfolding look_def using key_eq_iff [OF assms(1) Ok assms(2)] by (simp add: assms(3))
next
  case (Err e)
  with assms(1) show ?thesis unfolding look_def by fastforce
next
  case (Panic p)
  with assms(1) show ?thesis unfolding look_def by fastforce
qed

lemma look_set:
  assumes "key_of sk = Ok b" and "registry_key sk \<or> registry_key sk'"
  shows "look (kv_set m b v) sk' = (if sk' = sk then Some v else look m sk')"
  using assms by (rule look_write) (rule kv_get_set)

lemma look_delete:
  assumes "key_of sk = Ok b" and "registry_key sk \<or> registry_key sk'"
  shows "look (kv_delete m b) sk' = (if sk' = sk then None else look m sk')"
  using assms by (rule look_write) (rule kv_get_delete)

section \<open>The store of a contract\<close>

lemma kv_get_filter_key: "P k \<Longrightarrow> kv_get (filter (\<lambda>(k, _). P k) m) k = kv_get m k"
  by (induction m) auto

lemma fold_set_other:
  assumes "\<not> prefix p k"
  shows "kv_get (fold (\<lambda>(k, v) m'. kv_set m' (p @ k) (RawV v)) local m) k = kv_get m k"
  using assms by (induction local arbitrary: m) (auto simp: kv_get_set)

lemma putContractStore_other:
  assumes "\<not> prefix (GetContractStorePrefix a) k"
  shows "kv_get (putContractStore a local m) k = kv_get m k"
  using assms by (simp add: putContractStore_def fold_set_other kv_get_filter_key)

lemma items_ok_fold_set:
  "items_ok m \<Longrightarrow> items_ok (fold (\<lambda>(k, v) m'. kv_set m' (p @ k) (RawV v)) local m)"
  by (induction local arbitrary: m) (auto simp: items_ok_set)

lemma items_ok_putContractStore: "items_ok m \<Longrightarrow> items_ok (putContractStore a local m)"
  by (simp add: putContractStore_def items_ok_fold_set items_ok_filter)

lemma key_outside_contract_store:
  assumes "key_of sk = Ok b" and "key_kind sk \<noteq> 3"
  shows "\<not> prefix (GetContractStorePrefix a) b"
  using key_of_kind [OF assms(1)] assms(2)
  by (auto simp: GetContractStorePrefix_def ContractStorePrefix_def prefix_def)

lemma look_putContractStore:
  assumes "key_kind sk \<noteq> 3"
  shows "look (putContractStore a local m) sk = look m sk"
  using key_outside_contract_store [OF _ assms, of _ a]
  by (auto simp: look_def putContractStore_other split: outcome.split)

section \<open>Symbolic execution\<close>

text \<open>Triples that start in a state with a known store, one rule per access.\<close>

abbreviation store_is :: "store_value items \<Rightarrow> ('w, 'v) world \<Rightarrow> bool" where
  "store_is m \<equiv> (\<lambda>w. w_store w = m)"

lemma triple_known_store:
  assumes "\<And>m. \<Phi> m \<Longrightarrow> triple (store_is m) f R E"
  shows "triple (\<lambda>w. \<Phi> (w_store w)) f R E"
  using assms by (intro tripleI) (blast dest: tripleD)+

lemma keeps_known_store:
  assumes "\<And>m. \<Phi> m \<Longrightarrow> triple (store_is m) f (\<lambda>_ w. \<Phi> (w_store w)) (\<lambda>w. \<Phi> (w_store w))"
  shows "keeps (\<lambda>w. \<Phi> (w_store w)) f"
  unfolding keeps_triple using assms by (rule triple_known_store)

lemma run_storeSet:
  assumes "triple (store_is (kv_set m k v)) (f ()) R E"
  shows "triple (store_is m) (bindM (storeSet k v) f) R E"
  using assms by (auto simp: triple_def bindM_def storeSet_def modifyM_def)

lemma run_storeDelete:
  assumes "triple (store_is (kv_delete m k)) (f ()) R E"
  shows "triple (store_is m) (bindM (storeDelete k) f) R E"
  using assms by (auto simp: triple_def bindM_def storeDelete_def modifyM_def)

lemma run_storeGet:
  assumes "triple (store_is m) (f (kv_get m k)) R E"
  shows "triple (store_is m) (bindM (storeGet k) f) R E"
  using assms by (auto simp: triple_def bindM_def storeGet_def)

lemma run_storeHas:
  assumes "triple (store_is m) (f (kv_has m k)) R E"
  shows "triple (store_is m) (bindM (storeHas k) f) R E"
  using assms by (auto simp: triple_def bindM_def storeHas_def)

lemma run_storePrefix:
  assumes "triple (store_is m) (f (strip_prefix p m)) R E"
  shows "triple (store_is m) (bindM (storePrefix p) f) R E"
  using assms by (auto simp: triple_def bindM_def storePrefix_def)

lemma run_liftO:
  assumes "\<And>e. r \<noteq> Err e" and "\<And>x. r = Ok x \<Longrightarrow> triple P (f x) R E"
  shows "triple P (bindM (liftO r) f) R E"
  using assms by (cases r) (auto simp: triple_def bindM_def liftO_def)

lemma run_liftE:
  assumes "\<And>e w. r = Inl e \<Longrightarrow> P w \<Longrightarrow> E w" and "\<And>x. r = Inr x \<Longrightarrow> triple P (f x) R E"
  shows "triple P (bindM (liftE r) f) R E"
  using assms by (cases r) (auto simp: liftE_def triple_basic)

lemma run_neutral:
  assumes "neutral p" and "E = (\<lambda>w. \<Psi> (w_store w))" and "\<Psi> m"
    and "\<And>x. triple (store_is m) (f x) R E"
  shows "triple (store_is m) (bindM p f) R E"
proof (rule triple_bind_keeps)
  show "keeps (store_is m) p" using neutral_keeps [OF assms(1), of "\<lambda>m'. m' = m"] by simp
qed (use assms in simp_all)

lemma run_end:
  "\<Phi> (kv_set m k v) \<Longrightarrow> triple (store_is m) (storeSet k v) (\<lambda>_ w. \<Phi> (w_store w)) E"
  "\<Phi> (kv_delete m k) \<Longrightarrow> triple (store_is m) (storeDelete k) (\<lambda>_ w. \<Phi> (w_store w)) E"
  "neutral p \<Longrightarrow> \<Phi> m \<Longrightarrow> triple (store_is m) p (\<lambda>_ w. \<Phi> (w_store w)) (\<lambda>w. \<Phi> (w_store w))"
  by (auto simp: storeSet_def storeDelete_def modifyM_def triple_def dest: neutralD split: prod.splits outcome.splits)

lemmas run_store = run_storeSet run_storeDelete run_storeGet run_storeHas run_storePrefix

end
