(* ===== verification/Registry.thy ===== *)
theory Registry
  imports Store_Logic
begin

text \<open>
  The invariant of the registry of codes and contracts, and that the operations of
  \<open>keeper/keeper.go\<close> on the store keep it.

  A registry is consistent when every contract has an existing code, a history whose last entry
  names that code and a position, and exactly one entry in the index by code, the one made of that
  last history entry; when only existing codes are pinned; and when every entry has the type of its
  key. The history of a contract counts its entries with 64 bits: should a contract ever use the
  last position, the statements about histories and the index are given up (\<open>history_full\<close>).
\<close>

section \<open>Views\<close>

definition code_at :: "store_value items \<Rightarrow> u64 \<Rightarrow> CodeInfo option" where
  "code_at m i = (case look m (CodeK i) of Some (CodeInfoV c) \<Rightarrow> Some c | _ \<Rightarrow> None)"

definition contract_at :: "store_value items \<Rightarrow> bytes \<Rightarrow> ContractInfo option" where
  "contract_at m a = (case look m (ContractK a) of Some (ContractInfoV c) \<Rightarrow> Some c | _ \<Rightarrow> None)"

definition history_at :: "store_value items \<Rightarrow> bytes \<Rightarrow> u64 \<Rightarrow> ContractCodeHistoryEntry option" where
  "history_at m a i = (case look m (HistoryK a i) of Some (HistoryV e) \<Rightarrow> Some e | _ \<Rightarrow> None)"

definition is_last :: "store_value items \<Rightarrow> bytes \<Rightarrow> u64 \<Rightarrow> ContractCodeHistoryEntry \<Rightarrow> bool" where
  "is_last m a i e \<longleftrightarrow> history_at m a i = Some e \<and> (\<forall>j. look m (HistoryK a j) \<noteq> None \<longrightarrow> j \<le> i)"

definition history_full :: "store_value items \<Rightarrow> bool" where
  "history_full m \<longleftrightarrow> (\<exists>a. look m (HistoryK a (- 1)) \<noteq> None)"

definition listed :: "store_value items \<Rightarrow> u64 \<Rightarrow> AbsoluteTxPosition \<Rightarrow> bytes \<Rightarrow> bool" where
  "listed m cid p a \<longleftrightarrow>
     contract_at m a \<noteq> None \<and> (\<exists>i e. is_last m a i e \<and> hist_CodeID e = cid \<and> hist_Updated e = Some p)"

section \<open>The invariant\<close>

definition well_typed :: "store_value items \<Rightarrow> bool" where
  "well_typed m \<longleftrightarrow>
     (\<forall>i v. look m (CodeK i) = Some v \<longrightarrow> (\<exists>c. v = CodeInfoV c)) \<and>
     (\<forall>a v. look m (ContractK a) = Some v \<longrightarrow> (\<exists>c. v = ContractInfoV c)) \<and>
     (\<forall>a i v. look m (HistoryK a i) = Some v \<longrightarrow> (\<exists>e. v = HistoryV e)) \<and>
     (\<forall>k v. kv_get m k = Some v \<longrightarrow> prefix ContractByCodeIDAndCreatedSecondaryIndexPrefix k \<longrightarrow>
        (\<exists>cid p a. key_of (ByCodeK cid p a) = Ok k))"

definition contract_ok :: "store_value items \<Rightarrow> bytes \<Rightarrow> ContractInfo \<Rightarrow> bool" where
  "contract_ok m a c \<longleftrightarrow>
     (\<exists>i e p. is_last m a i e \<and> hist_CodeID e = con_CodeID c \<and> hist_Updated e = Some p)"

definition histories_ok :: "store_value items \<Rightarrow> bool" where
  "histories_ok m \<longleftrightarrow>
     (\<forall>a c. contract_at m a = Some c \<longrightarrow> contract_ok m a c) \<and>
     (\<forall>cid p a. look m (ByCodeK cid p a) \<noteq> None \<longleftrightarrow> listed m cid p a)"

definition registry_ok :: "store_value items \<Rightarrow> bool" where
  "registry_ok m \<longleftrightarrow>
     items_ok m \<and> well_typed m \<and>
     (\<forall>a c. contract_at m a = Some c \<longrightarrow> code_at m (con_CodeID c) \<noteq> None) \<and>
     (\<forall>i. look m (PinnedK i) \<noteq> None \<longrightarrow> code_at m i \<noteq> None) \<and>
     (history_full m \<or> histories_ok m)"

abbreviation world_ok :: "('w, 'v) world \<Rightarrow> bool" where
  "world_ok w \<equiv> registry_ok (w_store w)"

lemma registry_ok_Nil: "registry_ok []"
  by (auto simp: registry_ok_def well_typed_def histories_ok_def contract_at_def look_def listed_def
      split: outcome.splits)

lemma at_iffs:
  "code_at m i = Some c \<longleftrightarrow> look m (CodeK i) = Some (CodeInfoV c)"
  "contract_at m a = Some ci \<longleftrightarrow> look m (ContractK a) = Some (ContractInfoV ci)"
  "history_at m a i = Some e \<longleftrightarrow> look m (HistoryK a i) = Some (HistoryV e)"
  by (auto simp: code_at_def contract_at_def history_at_def split: option.splits store_value.splits)

lemma at_None_iffs:
  assumes "well_typed m"
  shows "code_at m i = None \<longleftrightarrow> look m (CodeK i) = None"
    and "contract_at m a = None \<longleftrightarrow> look m (ContractK a) = None"
  using assms unfolding well_typed_def
  by (fastforce simp: code_at_def contract_at_def split: option.splits store_value.splits)+

lemma is_last_unique: "is_last m a i e \<Longrightarrow> is_last m a j f \<Longrightarrow> i = j \<and> e = f"
proof -
  assume i: "is_last m a i e" and j: "is_last m a j f"
  then have "i \<le> j" and "j \<le> i" by (auto simp: is_last_def at_iffs)
  with i j show ?thesis by (simp add: is_last_def)
qed

section \<open>The last entry of a history\<close>

lemma be_val_word: "length k = 8 \<Longrightarrow> unat (word_of_nat (be_val k) :: u64) = be_val k"
  using be_val_less [of k] by (simp add: unat_of_nat)

lemma position_key: "length k = 8 \<Longrightarrow> Uint64ToBigEndian (word_of_nat (be_val k)) = k"
  by (simp add: Uint64ToBigEndian_def be_val_word) (metis be_bytes_be_val)

lemma find_append: "find P (xs @ ys) = (case find P xs of None \<Rightarrow> find P ys | Some x \<Rightarrow> Some x)"
  by (induction xs) auto

lemma find_rev_sorted:
  assumes "sorted_wrt (<) (map fst xs)" and "find P (rev xs) = Some x"
  shows "x \<in> set xs \<and> P x \<and> (\<forall>y \<in> set xs. P y \<longrightarrow> fst y \<le> (fst x :: bytes))"
  using assms
proof (induction xs)
  case (Cons y xs)
  show ?case
  proof (cases "find P (rev xs)")
    case None
    with Cons.prems(2) have "P y" and "x = y" by (auto simp: find_append split: if_splits)
    moreover have "\<not> P z" if "z \<in> set xs" for z
      using None that by (cases z) (auto simp: find_None_iff)
    ultimately show ?thesis by auto
  next
    case (Some z)
    with Cons.prems(2) have "z = x" by (simp add: find_append)
    with Cons.IH Cons.prems(1) Some have "x \<in> set xs \<and> P x \<and> (\<forall>y \<in> set xs. P y \<longrightarrow> fst y \<le> fst x)" by simp
    with Cons.prems(1) show ?thesis by (auto intro: less_imp_le)
  qed
qed simp

lemma history_items:
  assumes "items_ok m"
  shows "(Uint64ToBigEndian i, v) \<in> set (strip_prefix (GetContractCodeHistoryElementPrefix a) m) \<longleftrightarrow>
         look m (HistoryK a i) = Some v"
  using memdb.strip_prefix_lookup [OF assms]
  by (simp add: look_def GetContractCodeHistoryElementKey_def)

lemma find_history_Some:
  assumes "items_ok m" and "find isPosition (rev (strip_prefix (GetContractCodeHistoryElementPrefix a) m)) = Some (k, v)"
  obtains i where "k = Uint64ToBigEndian i" and "look m (HistoryK a i) = Some v"
    and "\<And>j. look m (HistoryK a j) \<noteq> None \<Longrightarrow> j \<le> i"
proof -
  let ?xs = "strip_prefix (GetContractCodeHistoryElementPrefix a) m"
  have *: "(k, v) \<in> set ?xs" "isPosition (k, v)" "\<And>y. y \<in> set ?xs \<Longrightarrow> isPosition y \<Longrightarrow> fst y \<le> k"
    using find_rev_sorted [OF memdb.strip_prefix_sorted [OF assms(1)] assms(2)] by auto
  let ?i = "word_of_nat (be_val k) :: u64"
  have k: "k = Uint64ToBigEndian ?i" using *(2) by (simp add: isPosition_def position_key)
  have last: "j \<le> ?i" if some: "look m (HistoryK a j) \<noteq> None" for j
  proof -
    from some obtain u where "(Uint64ToBigEndian j, u) \<in> set ?xs"
      using history_items [OF assms(1)] by blast
    then have "Uint64ToBigEndian j \<le> Uint64ToBigEndian ?i"
      using *(3) [of "(Uint64ToBigEndian j, u)"] k by (simp add: isPosition_def)
    then show "j \<le> ?i" by (metis Uint64ToBigEndian_less linorder_not_le)
  qed
  show ?thesis
    by (rule that [OF k]) (use *(1) k history_items [OF assms(1)] last in \<open>metis\<close>)+
qed

lemma find_history_None:
  assumes "items_ok m"
  shows "find isPosition (rev (strip_prefix (GetContractCodeHistoryElementPrefix a) m)) = None \<longleftrightarrow>
         (\<forall>i. look m (HistoryK a i) = None)"
proof
  assume none: "find isPosition (rev (strip_prefix (GetContractCodeHistoryElementPrefix a) m)) = None"
  show "\<forall>i. look m (HistoryK a i) = None"
  proof (rule allI, rule ccontr)
    fix i assume "look m (HistoryK a i) \<noteq> None"
    then obtain v where "(Uint64ToBigEndian i, v) \<in> set (strip_prefix (GetContractCodeHistoryElementPrefix a) m)"
      using history_items [OF assms] by blast
    with none show False by (auto simp: find_None_iff isPosition_def)
  qed
next
  assume none: "\<forall>i. look m (HistoryK a i) = None"
  show "find isPosition (rev (strip_prefix (GetContractCodeHistoryElementPrefix a) m)) = None"
  proof (rule ccontr)
    assume "find isPosition (rev (strip_prefix (GetContractCodeHistoryElementPrefix a) m)) \<noteq> None"
    then obtain k v where "find isPosition (rev (strip_prefix (GetContractCodeHistoryElementPrefix a) m)) = Some (k, v)"
      by auto
    then show False using none by (elim find_history_Some [OF assms]) simp
  qed
qed

text \<open>The position the next entry is counted from.\<close>

lemma lastPosition_bound:
  assumes "items_ok m" and "lastPosition (strip_prefix (GetContractCodeHistoryElementPrefix a) m) = Ok pos"
  shows "(\<forall>j. look m (HistoryK a j) \<noteq> None \<longrightarrow> j \<le> pos) \<and>
         (pos = 0 \<or> look m (HistoryK a pos) \<noteq> None)"
proof (cases "find isPosition (rev (strip_prefix (GetContractCodeHistoryElementPrefix a) m))")
  case None
  with assms show ?thesis by (auto simp: lastPosition_def find_history_None)
next
  case (Some kv)
  obtain k v where kv: "kv = (k, v)" by (cases kv)
  from Some kv obtain i where "k = Uint64ToBigEndian i" and "look m (HistoryK a i) = Some v"
    and last: "\<And>j. look m (HistoryK a j) \<noteq> None \<Longrightarrow> j \<le> i"
    using find_history_Some [OF assms(1)] by blast
  with assms(2) Some kv show ?thesis by (simp add: lastPosition_def)
qed

lemma lastPosition_Ok:
  assumes "items_ok m"
  shows "\<exists>pos. lastPosition (strip_prefix (GetContractCodeHistoryElementPrefix a) m) = Ok pos"
proof (cases "find isPosition (rev (strip_prefix (GetContractCodeHistoryElementPrefix a) m))")
  case None
  then show ?thesis by (simp add: lastPosition_def)
next
  case (Some kv)
  obtain k v where kv: "kv = (k, v)" by (cases kv)
  from Some kv obtain i where "k = Uint64ToBigEndian i"
    using find_history_Some [OF assms] by blast
  with Some kv show ?thesis by (simp add: lastPosition_def)
qed

lemma mustGetLast_iff:
  assumes "items_ok (w_store w)"
  shows "mustGetLastContractHistoryEntry a w = (Ok e, w') \<longleftrightarrow> w' = w \<and> (\<exists>i. is_last (w_store w) a i e)"
proof -
  let ?find = "find isPosition (rev (strip_prefix (GetContractCodeHistoryElementPrefix a) (w_store w)))"
  have run: "mustGetLastContractHistoryEntry a w =
      (case ?find of None \<Rightarrow> Panic PanicOther | Some (_, value) \<Rightarrow> asHistory value, w)"
    by (simp add: mustGetLastContractHistoryEntry_def storePrefix_def bindM_def panicM_def liftO_def
        split: option.split)
  show ?thesis
  proof (cases ?find)
    case None
    then have "\<forall>i. look (w_store w) (HistoryK a i) = None" using find_history_None [OF assms] by simp
    with None show ?thesis by (simp add: run is_last_def history_at_def)
  next
    case (Some kv)
    obtain k v where kv: "kv = (k, v)" by (cases kv)
    obtain i where i: "look (w_store w) (HistoryK a i) = Some v"
      and last: "\<And>j. look (w_store w) (HistoryK a j) \<noteq> None \<Longrightarrow> j \<le> i"
      using find_history_Some [OF assms] Some kv by blast
    have "is_last (w_store w) a j e \<longleftrightarrow> j = i \<and> v = HistoryV e" for j
    proof
      assume "is_last (w_store w) a j e"
      then have j: "look (w_store w) (HistoryK a j) = Some (HistoryV e)" and "i \<le> j"
        using i by (auto simp: is_last_def at_iffs)
      with last [of j] have "j = i" by simp
      with i j show "j = i \<and> v = HistoryV e" by simp
    qed (use i last in \<open>auto simp: is_last_def at_iffs\<close>)
    then show ?thesis using Some kv by (cases v) (auto simp: run)
  qed
qed

section \<open>Writes that keep the invariant\<close>

fun relevant :: "store_key \<Rightarrow> bool" where
  "relevant (CodeK _) = True"
| "relevant (ContractK _) = True"
| "relevant (HistoryK _ _) = True"
| "relevant (ByCodeK _ _ _) = True"
| "relevant (PinnedK _) = True"
| "relevant _ = False"

lemma relevant_registry: "relevant sk \<Longrightarrow> registry_key sk \<and> key_kind sk \<noteq> 3"
  by (cases sk) auto

text \<open>The invariant looks at the relevant entries only.\<close>

lemma registry_ok_cong:
  assumes "registry_ok m" and "items_ok m'"
    and look: "\<And>sk. relevant sk \<Longrightarrow> look m' sk = look m sk"
    and index: "\<And>k. prefix ContractByCodeIDAndCreatedSecondaryIndexPrefix k \<Longrightarrow> kv_get m' k = kv_get m k"
  shows "registry_ok m'"
proof -
  have *: "look m' (CodeK i) = look m (CodeK i)" "look m' (ContractK a) = look m (ContractK a)"
    "look m' (HistoryK a i) = look m (HistoryK a i)" "look m' (ByCodeK i p a) = look m (ByCodeK i p a)"
    "look m' (PinnedK i) = look m (PinnedK i)" for i a p
    by (simp_all add: look)
  have at: "code_at m' = code_at m" "contract_at m' = contract_at m" "history_at m' = history_at m"
    by (simp_all add: fun_eq_iff code_at_def contract_at_def history_at_def *)
  have views: "is_last m' = is_last m" by (simp add: fun_eq_iff is_last_def at *)
  then have "listed m' = listed m" "contract_ok m' = contract_ok m" "history_full m' = history_full m"
    by (simp_all add: fun_eq_iff listed_def contract_ok_def history_full_def at *)
  moreover have "well_typed m'"
    using assms(1) unfolding registry_ok_def well_typed_def * by (metis index)
  ultimately show ?thesis
    using assms(1,2) by (simp add: registry_ok_def histories_ok_def at *)
qed

lemma index_prefix_kind:
  assumes "key_of sk = Ok b" and "prefix ContractByCodeIDAndCreatedSecondaryIndexPrefix b"
  shows "key_kind sk = 6"
  using key_of_kind [OF assms(1)] assms(2)
  by (auto simp: ContractByCodeIDAndCreatedSecondaryIndexPrefix_def prefix_def)

lemma registry_ok_set_other:
  assumes "registry_ok m" and "key_of sk = Ok k" and "\<not> relevant sk"
  shows "registry_ok (kv_set m k v)"
proof (rule registry_ok_cong [OF assms(1)])
  show "items_ok (kv_set m k v)" using assms(1) by (simp add: registry_ok_def items_ok_set)
  show "look (kv_set m k v) sk' = look m sk'" if "relevant sk'" for sk'
    using that assms(3) relevant_registry [OF that] by (subst look_set [OF assms(2)]) auto
  show "kv_get (kv_set m k v) b = kv_get m b"
    if "prefix ContractByCodeIDAndCreatedSecondaryIndexPrefix b" for b
    using that index_prefix_kind [OF assms(2)] assms(3) by (auto simp: kv_get_set elim!: key_kind.elims)
qed

lemma registry_ok_delete_other:
  assumes "registry_ok m" and "key_of sk = Ok k" and "\<not> relevant sk"
  shows "registry_ok (kv_delete m k)"
proof (rule registry_ok_cong [OF assms(1)])
  show "items_ok (kv_delete m k)" using assms(1) by (simp add: registry_ok_def items_ok_delete)
  show "look (kv_delete m k) sk' = look m sk'" if "relevant sk'" for sk'
    using that assms(3) relevant_registry [OF that] by (subst look_delete [OF assms(2)]) auto
  show "kv_get (kv_delete m k) b = kv_get m b"
    if "prefix ContractByCodeIDAndCreatedSecondaryIndexPrefix b" for b
    using that index_prefix_kind [OF assms(2)] assms(3) by (auto simp: kv_get_delete elim!: key_kind.elims)
qed

lemma registry_ok_putContractStore:
  assumes "registry_ok m"
  shows "registry_ok (putContractStore a local m)"
proof (rule registry_ok_cong [OF assms])
  show "items_ok (putContractStore a local m)"
    using assms by (simp add: registry_ok_def items_ok_putContractStore)
  show "look (putContractStore a local m) sk = look m sk" if "relevant sk" for sk
    using relevant_registry [OF that] by (simp add: look_putContractStore)
  show "kv_get (putContractStore a local m) k = kv_get m k"
    if "prefix ContractByCodeIDAndCreatedSecondaryIndexPrefix k" for k
    by (rule putContractStore_other)
       (use that in \<open>auto simp: GetContractStorePrefix_def prefix_defs prefix_def\<close>)
qed

lemma key_of_constructors:
  "key_of (CodeK i) = Ok (GetCodeKey i)"
  "key_of (ContractK a) = Ok (GetContractAddressKey a)"
  "key_of (HistoryK a i) = Ok (GetContractCodeHistoryElementKey a i)"
  "key_of (PinnedK i) = Ok (GetPinnedCodeIndexPrefix i)"
  by simp_all

lemma look_sets:
  "look (kv_set m (GetCodeKey i) v) sk = (if sk = CodeK i then Some v else look m sk)"
  "look (kv_set m (GetContractAddressKey a) v) sk = (if sk = ContractK a then Some v else look m sk)"
  "look (kv_set m (GetContractCodeHistoryElementKey a i) v) sk = (if sk = HistoryK a i then Some v else look m sk)"
  "look (kv_set m (GetPinnedCodeIndexPrefix i) v) sk = (if sk = PinnedK i then Some v else look m sk)"
  "look (kv_delete m (GetPinnedCodeIndexPrefix i)) sk = (if sk = PinnedK i then None else look m sk)"
  by (rule look_set, simp, simp)+ (rule look_delete, simp, simp)

lemma look_index:
  assumes "key_of (ByCodeK cid p a) = Ok k"
  shows "look (kv_set m k v) sk = (if sk = ByCodeK cid p a then Some v else look m sk)"
    and "look (kv_delete m k) sk = (if sk = ByCodeK cid p a then None else look m sk)"
  using look_set [OF assms] look_delete [OF assms] by (auto simp del: key_of.simps)

lemma kv_get_index_other:
  assumes "prefix ContractByCodeIDAndCreatedSecondaryIndexPrefix b" and "key_of sk = Ok k" and "key_kind sk \<noteq> 6"
  shows "kv_get (kv_set m k v) b = kv_get m b" and "kv_get (kv_delete m k) b = kv_get m b"
  using index_prefix_kind [OF assms(2)] assms(1,3) by (auto simp: kv_get_set kv_get_delete)

text \<open>Storing a code, whether new or known, keeps the invariant.\<close>

lemma registry_ok_set_code:
  assumes "registry_ok m"
  shows "registry_ok (kv_set m (GetCodeKey i) (CodeInfoV c))"
proof -
  let ?m = "kv_set m (GetCodeKey i) (CodeInfoV c)"
  have at: "code_at ?m = (code_at m)(i := Some c)" "contract_at ?m = contract_at m" "history_at ?m = history_at m"
    by (simp_all add: fun_eq_iff code_at_def contract_at_def history_at_def look_sets)
  have views: "is_last ?m = is_last m" "history_full ?m = history_full m"
    by (simp_all add: fun_eq_iff is_last_def history_full_def at look_sets)
  then have "listed ?m = listed m" "contract_ok ?m = contract_ok m"
    by (simp_all add: fun_eq_iff listed_def contract_ok_def at)
  moreover have "well_typed ?m"
    using assms unfolding registry_ok_def well_typed_def
    by (auto simp: look_sets kv_get_index_other [of _ "CodeK i"])
  ultimately show ?thesis
    using assms by (auto simp: registry_ok_def histories_ok_def at views look_sets items_ok_set)
qed

text \<open>A contract keeps its code unless it is migrated.\<close>

lemma registry_ok_set_contract:
  assumes "registry_ok m" and "contract_at m a = Some c" and "con_CodeID c' = con_CodeID c"
  shows "registry_ok (kv_set m (GetContractAddressKey a) (ContractInfoV c'))"
proof -
  let ?m = "kv_set m (GetContractAddressKey a) (ContractInfoV c')"
  have at: "code_at ?m = code_at m" "contract_at ?m = (contract_at m)(a := Some c')" "history_at ?m = history_at m"
    by (simp_all add: fun_eq_iff code_at_def contract_at_def history_at_def look_sets)
  have views: "is_last ?m = is_last m" "history_full ?m = history_full m"
    by (simp_all add: fun_eq_iff is_last_def history_full_def at look_sets)
  then have "listed ?m = listed m" "contract_ok ?m = contract_ok m"
    using assms(2) by (auto simp: fun_eq_iff listed_def contract_ok_def at)
  moreover have "well_typed ?m"
    using assms(1) unfolding registry_ok_def well_typed_def
    by (auto simp: look_sets kv_get_index_other [of _ "ContractK a"])
  moreover have "contract_ok m a c'" if "contract_ok m a c"
    using that assms(3) by (simp add: contract_ok_def)
  ultimately show ?thesis
    using assms by (auto simp: registry_ok_def histories_ok_def at views look_sets items_ok_set)
qed

lemma registry_ok_pin:
  assumes "registry_ok m" and "code_at m i \<noteq> None"
  shows "registry_ok (kv_set m (GetPinnedCodeIndexPrefix i) v)"
    and "registry_ok (kv_delete m (GetPinnedCodeIndexPrefix i))"
proof -
  have *: "registry_ok m'" if m': "items_ok m'"
    and look: "\<And>sk. key_kind sk \<noteq> 7 \<Longrightarrow> look m' sk = look m sk"
    and pinned: "\<And>j. look m' (PinnedK j) \<noteq> None \<Longrightarrow> j = i \<or> look m (PinnedK j) \<noteq> None"
    and index: "\<And>b. prefix ContractByCodeIDAndCreatedSecondaryIndexPrefix b \<Longrightarrow> kv_get m' b = kv_get m b" for m'
  proof -
    have at: "code_at m' = code_at m" "contract_at m' = contract_at m" "history_at m' = history_at m"
      by (simp_all add: fun_eq_iff code_at_def contract_at_def history_at_def look)
    have views: "is_last m' = is_last m" "history_full m' = history_full m"
      by (simp_all add: fun_eq_iff is_last_def history_full_def at look)
    then have "listed m' = listed m" "contract_ok m' = contract_ok m"
      by (simp_all add: fun_eq_iff listed_def contract_ok_def at)
    moreover have "well_typed m'"
      using assms(1) unfolding registry_ok_def well_typed_def by (simp add: look) (metis index)
    ultimately show ?thesis
      using assms m' pinned unfolding registry_ok_def histories_ok_def at views by (simp add: look) blast
  qed
  show "registry_ok (kv_set m (GetPinnedCodeIndexPrefix i) v)"
    by (rule *) (use assms in \<open>auto simp: registry_ok_def items_ok_set look_sets
        kv_get_index_other [of _ "PinnedK i"] split: if_splits\<close>)
  show "registry_ok (kv_delete m (GetPinnedCodeIndexPrefix i))"
    by (rule *) (use assms in \<open>auto simp: registry_ok_def items_ok_delete look_sets
        kv_get_index_other [of _ "PinnedK i"] split: if_splits\<close>)
qed

section \<open>A new version of a contract\<close>

lemma word_less_Suc:
  assumes "(i :: u64) \<noteq> - 1"
  shows "i < i + 1"
proof -
  have "1 + i \<noteq> 0" using assms by (simp add: add_eq_0_iff)
  then have "unat (1 + i) = Suc (unat i)" by (rule unatSuc)
  then show ?thesis by (simp add: word_less_nat_alt add.commute)
qed

text \<open>
  Instantiation and migration end in a store of this shape: the contract \<open>c\<close>, the entry \<open>e\<close> one
  position behind its history, and exactly the index entry of \<open>e\<close>.
\<close>

definition new_version ::
  "store_value items \<Rightarrow> bytes \<Rightarrow> ContractInfo \<Rightarrow> ContractCodeHistoryEntry \<Rightarrow> u64 \<Rightarrow> store_value items \<Rightarrow> bool"
where
  "new_version m a c e pos m' \<longleftrightarrow>
     items_ok m' \<and>
     (\<forall>sk. relevant sk \<longrightarrow> key_kind sk \<noteq> 6 \<longrightarrow>
        look m' sk = (if sk = ContractK a then Some (ContractInfoV c)
                      else if sk = HistoryK a (pos + 1) then Some (HistoryV e) else look m sk)) \<and>
     (\<forall>x q b. b \<noteq> a \<longrightarrow> look m' (ByCodeK x q b) = look m (ByCodeK x q b)) \<and>
     (\<not> history_full m \<longrightarrow>
        (\<forall>x q. look m' (ByCodeK x q a) \<noteq> None \<longleftrightarrow> x = hist_CodeID e \<and> hist_Updated e = Some q)) \<and>
     (\<forall>k v. kv_get m' k = Some v \<longrightarrow> prefix ContractByCodeIDAndCreatedSecondaryIndexPrefix k \<longrightarrow>
        kv_get m k \<noteq> None \<or> (\<exists>x q b. key_of (ByCodeK x q b) = Ok k))"

lemma registry_ok_new_version:
  assumes ok: "registry_ok m" and new: "new_version m a c e pos m'"
    and code: "code_at m (con_CodeID c) \<noteq> None"
    and e: "hist_CodeID e = con_CodeID c" "hist_Updated e = Some p"
    and bound: "\<not> history_full m \<Longrightarrow> \<forall>j. look m (HistoryK a j) \<noteq> None \<longrightarrow> j \<le> pos"
      "\<not> history_full m \<Longrightarrow> pos = 0 \<or> look m (HistoryK a pos) \<noteq> None"
  shows "registry_ok m'"
proof -
  have look: "look m' (CodeK i) = look m (CodeK i)" "look m' (PinnedK i) = look m (PinnedK i)"
    "look m' (ContractK b) = (if b = a then Some (ContractInfoV c) else look m (ContractK b))"
    "look m' (HistoryK b i) = (if b = a \<and> i = pos + 1 then Some (HistoryV e) else look m (HistoryK b i))" for i b
    using new by (auto simp: new_version_def)
  have at: "code_at m' = code_at m" "contract_at m' = (contract_at m)(a := Some c)"
    by (simp_all add: fun_eq_iff code_at_def contract_at_def look)
  have "\<exists>x q b. key_of (ByCodeK x q b) = Ok k"
    if "kv_get m' k = Some v" and "prefix ContractByCodeIDAndCreatedSecondaryIndexPrefix k" for k v
  proof (cases "kv_get m k")
    case None
    with new that show ?thesis by (auto simp only: new_version_def)
  next
    case (Some u)
    with ok that show ?thesis unfolding registry_ok_def well_typed_def by blast
  qed
  then have typed: "well_typed m'"
    using ok unfolding registry_ok_def well_typed_def by (auto simp only: look split: if_splits)
  have "history_full m' \<or> histories_ok m'"
  proof (cases "history_full m")
    case True
    then have "history_full m'" by (auto simp: history_full_def look)
    then show ?thesis ..
  next
    case False
    then have ok': "histories_ok m" using ok by (simp add: registry_ok_def)
    note bound = bound [OF False]
    have "pos \<noteq> - 1" using False bound(2) by (auto simp: history_full_def)
    then have less: "pos < pos + 1" by (rule word_less_Suc)
    have last_a: "is_last m' a i f \<longleftrightarrow> i = pos + 1 \<and> f = e" for i f
    proof -
      have "is_last m' a (pos + 1) e"
        using bound(1) less by (auto simp: is_last_def at_iffs look intro: order_trans less_imp_le)
      then show ?thesis using is_last_unique by blast
    qed
    have last_b: "is_last m' b = is_last m b" if "b \<noteq> a" for b
      using that by (simp add: fun_eq_iff is_last_def history_at_def look)
    have contracts: "contract_ok m' b d" if "contract_at m' b = Some d" for b d
    proof (cases "b = a")
      case True
      with that e show ?thesis by (simp add: contract_ok_def last_a at)
    next
      case False
      with that ok' show ?thesis by (simp add: contract_ok_def last_b at histories_ok_def)
    qed
    have "look m' (ByCodeK x q b) \<noteq> None \<longleftrightarrow> listed m' x q b" for x q b
    proof (cases "b = a")
      case True
      have "look m' (ByCodeK x q a) \<noteq> None \<longleftrightarrow> x = hist_CodeID e \<and> hist_Updated e = Some q"
        using new \<open>\<not> history_full m\<close> by (simp add: new_version_def)
      with True show ?thesis by (auto simp: listed_def last_a at)
    next
      case False
      then have "look m' (ByCodeK x q b) = look m (ByCodeK x q b)" using new by (simp add: new_version_def)
      with False ok' show ?thesis by (simp add: listed_def last_b at histories_ok_def)
    qed
    with contracts have "histories_ok m'" by (simp add: histories_ok_def)
    then show ?thesis ..
  qed
  with typed show ?thesis
    using ok new code by (auto simp: registry_ok_def at look new_version_def)
qed

text \<open>The index entries of a contract before it changes.\<close>

lemma index_of_absent:
  assumes "registry_ok m" and "\<not> history_full m" and "contract_at m a = None"
  shows "look m (ByCodeK x q a) = None"
proof -
  have "look m (ByCodeK x q a) \<noteq> None \<longleftrightarrow> listed m x q a"
    using assms(1,2) by (simp add: registry_ok_def histories_ok_def)
  with assms(3) show ?thesis by (auto simp: listed_def)
qed

lemma index_of_present:
  assumes "registry_ok m" and "\<not> history_full m" and "is_last m a i e"
    and "look m (ByCodeK x q a) \<noteq> None"
  shows "x = hist_CodeID e \<and> hist_Updated e = Some q"
proof -
  have "listed m x q a"
    using assms(1,2,4) by (simp add: registry_ok_def histories_ok_def)
  then obtain j f where "is_last m a j f" and "hist_CodeID f = x" and "hist_Updated f = Some q"
    by (auto simp: listed_def)
  with is_last_unique [OF assms(3)] show ?thesis by blast
qed

lemma index_key_cases:
  "GetContractByCreatedSecondaryIndexKey a e \<noteq> Err err"
  "GetContractByCreatedSecondaryIndexKey a e = Ok k \<Longrightarrow>
     \<exists>p. hist_Updated e = Some p \<and> key_of (ByCodeK (hist_CodeID e) p a) = Ok k"
  by (auto simp: GetContractByCreatedSecondaryIndexKey_def AbsoluteTxPosition_Bytes_def split: option.splits)

lemma creator_key_cases:
  "GetContractByCreatorSecondaryIndexKey c p a \<noteq> Err err"
  "AbsoluteTxPosition_Bytes pos \<noteq> Err err"
  "AbsoluteTxPosition_Bytes pos = Ok b \<Longrightarrow> GetContractByCreatorSecondaryIndexKey c b a = Ok k \<Longrightarrow>
     \<exists>q. key_of (ByCreatorK c q a) = Ok k"
  by (auto simp: GetContractByCreatorSecondaryIndexKey_def GetContractsByCreatorPrefix_def MustLengthPrefix_def
      AbsoluteTxPosition_Bytes_def split: option.splits)

end
