(* ===== verification/Registry_Steps.thy ===== *)
theory Registry_Steps
  imports Registry
begin

text \<open>
  The ways the store of the module may change, as a step relation: one rule for each kind of write
  the keeper performs, with what the keeper has checked or read before it. Everything the module
  does is a sequence of these steps; an invariant of the registry is an invariant of the steps.
\<close>

section \<open>The steps\<close>

definition next_id :: "store_value items \<Rightarrow> bytes \<Rightarrow> u64 outcome" where
  "next_id m sequenceKey = (case kv_get m sequenceKey of None \<Rightarrow> Ok 1 | Some v \<Rightarrow> asUint64 v)"

definition bump :: "bytes \<Rightarrow> u64 \<Rightarrow> store_value items \<Rightarrow> store_value items" where
  "bump sequenceKey i m = kv_set m sequenceKey (RawV (Uint64ToBigEndian (i + 1)))"

definition last_position :: "store_value items \<Rightarrow> bytes \<Rightarrow> u64 \<Rightarrow> bool" where
  "last_position m a pos \<longleftrightarrow>
     (\<forall>j. look m (HistoryK a j) \<noteq> None \<longrightarrow> j \<le> pos) \<and> (pos = 0 \<or> look m (HistoryK a pos) \<noteq> None)"

text \<open>What an update of a contract leaves alone, and what a migration may change.\<close>

definition same_contract :: "ContractInfo \<Rightarrow> ContractInfo \<Rightarrow> bool" where
  "same_contract c c' \<longleftrightarrow>
     con_CodeID c' = con_CodeID c \<and> con_Creator c' = con_Creator c \<and> con_Created c' = con_Created c \<and>
     con_IBCPortID c' = con_IBCPortID c"

definition migrated :: "ContractInfo \<Rightarrow> ContractInfo \<Rightarrow> bool" where
  "migrated c c' \<longleftrightarrow>
     con_Creator c' = con_Creator c \<and> con_Created c' = con_Created c \<and> con_Admin c' = con_Admin c \<and>
     con_Label c' = con_Label c \<and> (con_IBCPortID c \<noteq> [] \<longrightarrow> con_IBCPortID c' = con_IBCPortID c)"

inductive registry_step :: "store_value items \<Rightarrow> store_value items \<Rightarrow> bool" where
  contract_data: "registry_step m (putContractStore a l m)"
| params_set: "registry_step m (kv_set m ParamsKey (ParamsV p))"
| tx_counted: "registry_step m (kv_set m TXCounterPrefix v)"
| instance_id: "next_id m KeySequenceInstanceID = Ok i \<Longrightarrow> registry_step m (bump KeySequenceInstanceID i m)"
| code_stored: "next_id m KeySequenceCodeID = Ok i \<Longrightarrow>
    registry_step m (kv_set (bump KeySequenceCodeID i m) (GetCodeKey i) (CodeInfoV c))"
| access_set: "code_at m i = Some c \<Longrightarrow>
    registry_step m (kv_set m (GetCodeKey i) (CodeInfoV (c\<lparr>code_InstantiateConfig := cfg\<rparr>)))"
| contract_set: "contract_at m a = Some c \<Longrightarrow> same_contract c c' \<Longrightarrow>
    registry_step m (kv_set m (GetContractAddressKey a) (ContractInfoV c'))"
| pinned: "code_at m i \<noteq> None \<Longrightarrow> registry_step m (kv_set m (GetPinnedCodeIndexPrefix i) (RawV [CHR 0x01]))"
| unpinned: "code_at m i \<noteq> None \<Longrightarrow> registry_step m (kv_delete m (GetPinnedCodeIndexPrefix i))"
| packet_stored: "registry_step m (kv_set m (asyncAckKey p ch i) (PacketV pkt))"
| packet_done: "registry_step m (kv_delete m (asyncAckKey p ch i))"
| instantiated:
    "code_at m (con_CodeID c) \<noteq> None \<Longrightarrow> look m (ContractK a) = None \<Longrightarrow>
     con_Created c = Some p \<Longrightarrow> e = InitialHistory c msg \<Longrightarrow>
     key_of (ByCodeK (con_CodeID c) p a) = Ok kc \<Longrightarrow> key_of (ByCreatorK creator q a) = Ok kr \<Longrightarrow>
     last_position m a pos \<Longrightarrow>
     registry_step m
       (kv_set (kv_set (kv_set (kv_set m kc (RawV [])) kr (RawV []))
          (GetContractCodeHistoryElementKey a (pos + 1)) (HistoryV e))
          (GetContractAddressKey a) (ContractInfoV c))"
| contract_migrated:
    "code_at m (con_CodeID c') \<noteq> None \<Longrightarrow> contract_at m a = Some c \<Longrightarrow> migrated c c' \<Longrightarrow>
     is_last m a i old \<Longrightarrow> hist_Updated old = Some pold \<Longrightarrow>
     key_of (ByCodeK (hist_CodeID old) pold a) = Ok kold \<Longrightarrow>
     hist_CodeID e = con_CodeID c' \<Longrightarrow> hist_Updated e = Some p \<Longrightarrow>
     key_of (ByCodeK (con_CodeID c') p a) = Ok kc \<Longrightarrow> last_position m a pos \<Longrightarrow>
     registry_step m
       (kv_set (kv_set (kv_set (kv_delete m kold)
          (GetContractCodeHistoryElementKey a (pos + 1)) (HistoryV e)) kc (RawV []))
          (GetContractAddressKey a) (ContractInfoV c'))"

definition reaches :: "store_value items \<Rightarrow> store_value items \<Rightarrow> bool" where
  "reaches m m' \<longleftrightarrow> items_ok m' \<and> registry_step\<^sup>*\<^sup>* m m'"

section \<open>Order of the entries\<close>

lemma registry_step_items_ok: "registry_step m m' \<Longrightarrow> items_ok m \<Longrightarrow> items_ok m'"
  by (induction rule: registry_step.induct)
     (simp_all add: items_ok_putContractStore items_ok_set items_ok_delete bump_def)

lemma reaches_step: "reaches m0 m \<Longrightarrow> registry_step m m' \<Longrightarrow> reaches m0 m'"
  by (auto simp: reaches_def intro: registry_step_items_ok rtranclp.rtrancl_into_rtrancl)

lemma reaches_refl: "items_ok m \<Longrightarrow> reaches m m"
  by (simp add: reaches_def)

lemma reaches_trans: "reaches m0 m1 \<Longrightarrow> reaches m1 m2 \<Longrightarrow> reaches m0 m2"
  by (auto simp: reaches_def)

text \<open>An invariant of the steps is an invariant of everything they reach.\<close>

locale registry_stable =
  fixes J :: "store_value items \<Rightarrow> bool"
  assumes step_stable: "items_ok m \<Longrightarrow> J m \<Longrightarrow> registry_step m m' \<Longrightarrow> J m'"
begin

lemma reaches_stable:
  assumes "items_ok m" and "J m" and "reaches m m'"
  shows "J m'"
proof -
  from assms(3) have "registry_step\<^sup>*\<^sup>* m m'" by (simp add: reaches_def)
  then have "items_ok m' \<and> J m'"
    by (induction rule: rtranclp_induct) (use assms in \<open>auto intro: registry_step_items_ok step_stable\<close>)
  then show ?thesis ..
qed

end

section \<open>The steps keep the registry consistent\<close>

lemma key_of_asyncAckKey: "key_of (AsyncAckK p c i) = Ok (asyncAckKey p c i)"
  by (simp add: asyncAckKey_def)

lemma registry_ok_bump: "registry_ok m \<Longrightarrow> registry_ok (bump KeySequenceCodeID i m)"
    "registry_ok m \<Longrightarrow> registry_ok (bump KeySequenceInstanceID i m)"
  unfolding bump_def
  by (rule registry_ok_set_other [where sk = SequenceCodeK]; simp)
     (rule registry_ok_set_other [where sk = SequenceInstanceK]; simp)

lemma look_creator:
  assumes "key_of (ByCreatorK c q b) = Ok k"
  shows "look (kv_set m k v) sk = (if sk = ByCreatorK c q b then Some v else look m sk)"
  by (rule look_set [OF assms]) simp

lemma kv_get_set_index:
  assumes "prefix ContractByCodeIDAndCreatedSecondaryIndexPrefix b"
  shows "kv_get (kv_set m (GetContractAddressKey a) v) b = kv_get m b"
    and "kv_get (kv_set m (GetContractCodeHistoryElementKey a i) v) b = kv_get m b"
    and "key_of (ByCreatorK c q d) = Ok k \<Longrightarrow> kv_get (kv_set m k v) b = kv_get m b"
  by (rule kv_get_index_other(1) [OF assms, of "ContractK a"], simp, simp)
     (rule kv_get_index_other(1) [OF assms, of "HistoryK a i"], simp, simp,
      rule kv_get_index_other(1) [OF assms], assumption, simp)

lemma registry_ok_instantiated:
  assumes ok: "registry_ok m" and code: "code_at m (con_CodeID c) \<noteq> None" and absent: "look m (ContractK a) = None"
    and p: "con_Created c = Some p" and e: "e = InitialHistory c msg"
    and k1: "key_of (ByCodeK (con_CodeID c) p a) = Ok k1" and k2: "key_of (ByCreatorK creator q a) = Ok k2"
    and pos: "last_position m a pos"
  shows "registry_ok (kv_set (kv_set (kv_set (kv_set m k1 (RawV [])) k2 (RawV []))
          (GetContractCodeHistoryElementKey a (pos + 1)) (HistoryV e))
          (GetContractAddressKey a) (ContractInfoV c))"
    (is "registry_ok ?m")
proof -
  note look = look_index [OF k1] look_creator [OF k2] look_sets
  have e': "hist_CodeID e = con_CodeID c" "hist_Updated e = Some p" by (simp_all add: e p InitialHistory_def)
  have "contract_at m a = None" using absent by (simp add: contract_at_def)
  note absent' = index_of_absent [OF ok _ this]
  have "new_version m a c e pos ?m"
    unfolding new_version_def
  proof (intro conjI allI impI)
    show "items_ok ?m" using ok by (simp add: registry_ok_def items_ok_set)
    show "look ?m sk = (if sk = ContractK a then Some (ContractInfoV c)
          else if sk = HistoryK a (pos + 1) then Some (HistoryV e) else look m sk)"
      if "relevant sk" and "key_kind sk \<noteq> 6" for sk
      using that by (auto simp: look)
    show "look ?m (ByCodeK x y b) = look m (ByCodeK x y b)" if "b \<noteq> a" for x y b
      using that by (simp add: look)
    show "look ?m (ByCodeK x y a) \<noteq> None \<longleftrightarrow> x = hist_CodeID e \<and> hist_Updated e = Some y"
      if "\<not> history_full m" for x y
      using absent' [OF that] e' by (auto simp: look)
    show "kv_get m b \<noteq> None \<or> (\<exists>x y d. key_of (ByCodeK x y d) = Ok b)"
      if "kv_get ?m b = Some v" and "prefix ContractByCodeIDAndCreatedSecondaryIndexPrefix b" for b v
    proof -
      have "kv_get (kv_set m k1 (RawV [])) b = Some v"
        using that(1) by (simp add: kv_get_set_index [OF that(2)] kv_get_set_index(3) [OF that(2) k2])
      then show ?thesis using k1 by (simp only: kv_get_set split: if_splits) blast+
    qed
  qed
  from registry_ok_new_version [OF ok this code e'] pos show ?thesis by (simp add: last_position_def)
qed

lemma registry_ok_contract_migrated:
  assumes ok: "registry_ok m" and code: "code_at m (con_CodeID c') \<noteq> None"
    and last: "is_last m a i old" and p0: "hist_Updated old = Some p0"
    and k0: "key_of (ByCodeK (hist_CodeID old) p0 a) = Ok k0"
    and e: "hist_CodeID e = con_CodeID c'" "hist_Updated e = Some p"
    and k1: "key_of (ByCodeK (con_CodeID c') p a) = Ok k1" and pos: "last_position m a pos"
  shows "registry_ok (kv_set (kv_set (kv_set (kv_delete m k0)
          (GetContractCodeHistoryElementKey a (pos + 1)) (HistoryV e)) k1 (RawV []))
          (GetContractAddressKey a) (ContractInfoV c'))"
    (is "registry_ok ?m")
proof -
  let ?m1 = "kv_set (kv_delete m k0) (GetContractCodeHistoryElementKey a (pos + 1)) (HistoryV e)"
  note look = look_index [OF k0] look_index [OF k1] look_sets
  have "new_version m a c' e pos ?m"
    unfolding new_version_def
  proof (intro conjI allI impI)
    show "items_ok ?m" using ok by (simp add: registry_ok_def items_ok_set items_ok_delete)
    show "look ?m sk = (if sk = ContractK a then Some (ContractInfoV c')
          else if sk = HistoryK a (pos + 1) then Some (HistoryV e) else look m sk)"
      if "relevant sk" and "key_kind sk \<noteq> 6" for sk
      using that by (auto simp: look)
    show "look ?m (ByCodeK x y b) = look m (ByCodeK x y b)" if "b \<noteq> a" for x y b
      using that by (simp add: look)
    show "look ?m (ByCodeK x y a) \<noteq> None \<longleftrightarrow> x = hist_CodeID e \<and> hist_Updated e = Some y"
      if "\<not> history_full m" for x y
    proof -
      have "look ?m (ByCodeK x y a) =
          (if x = con_CodeID c' \<and> y = p then Some (RawV [])
           else if x = hist_CodeID old \<and> y = p0 then None else look m (ByCodeK x y a))"
        by (simp add: look)
      moreover have "look m (ByCodeK x y a) = None \<or> x = hist_CodeID old \<and> y = p0"
        using index_of_present [OF ok that last, of x y] p0 by auto
      ultimately show ?thesis using e by auto
    qed
    show "kv_get m b \<noteq> None \<or> (\<exists>x y d. key_of (ByCodeK x y d) = Ok b)"
      if "kv_get ?m b = Some v" and "prefix ContractByCodeIDAndCreatedSecondaryIndexPrefix b" for b v
    proof -
      have "b = k1 \<or> kv_get ?m1 b = Some v"
        using that(1) kv_get_set [of ?m1 k1 "RawV []" b]
        unfolding kv_get_set_index [OF that(2)] by (metis (no_types))
      then have "b = k1 \<or> kv_get m b = Some v"
        unfolding kv_get_set_index [OF that(2)] by (auto simp only: kv_get_delete split: if_splits)
      then show ?thesis using k1 by auto
    qed
  qed
  from registry_ok_new_version [OF ok this code e] pos show ?thesis by (simp add: last_position_def)
qed

lemma registry_step_ok: "registry_step m m' \<Longrightarrow> registry_ok m \<Longrightarrow> registry_ok m'"
proof (induction rule: registry_step.induct)
  case (params_set m p)
  then show ?case by (rule registry_ok_set_other [where sk = ParamsK]) simp_all
next
  case (tx_counted m v)
  then show ?case by (rule registry_ok_set_other [where sk = TXCounterK]) simp_all
next
  case (contract_set m a c c')
  then show ?case by (intro registry_ok_set_contract) (auto simp: same_contract_def)
next
  case (packet_stored m p ch i pkt)
  then show ?case by (rule registry_ok_set_other [OF _ key_of_asyncAckKey]) simp
next
  case (packet_done m p ch i)
  then show ?case by (rule registry_ok_delete_other [OF _ key_of_asyncAckKey]) simp
next
  case (instantiated m c a p e msg k1 creator q k2 pos)
  then show ?case by (intro registry_ok_instantiated)
next
  case (contract_migrated m c' a c i old p0 k0 e p k1 pos)
  show ?case by (rule registry_ok_contract_migrated [OF contract_migrated.prems]; fact)
qed (auto intro: registry_ok_putContractStore registry_ok_bump registry_ok_set_code registry_ok_pin)

interpretation consistent: registry_stable registry_ok
  by unfold_locales (rule registry_step_ok)

section \<open>The steps on the views\<close>

lemma look_bump:
  "look (bump KeySequenceCodeID i m) sk =
     (if sk = SequenceCodeK then Some (RawV (Uint64ToBigEndian (i + 1))) else look m sk)"
  "look (bump KeySequenceInstanceID i m) sk =
     (if sk = SequenceInstanceK then Some (RawV (Uint64ToBigEndian (i + 1))) else look m sk)"
  unfolding bump_def
  by (rule look_set [where sk = SequenceCodeK]; simp) (rule look_set [where sk = SequenceInstanceK]; simp)

lemma look_packet:
  assumes "registry_key sk"
  shows "look (kv_set m (asyncAckKey p ch i) v) sk = look m sk"
    and "look (kv_delete m (asyncAckKey p ch i)) sk = look m sk"
  using assms by (auto simp: look_set [OF key_of_asyncAckKey] look_delete [OF key_of_asyncAckKey])

lemma look_single:
  "look (kv_set m ParamsKey v) sk = (if sk = ParamsK then Some v else look m sk)"
  "look (kv_set m TXCounterPrefix v) sk = (if sk = TXCounterK then Some v else look m sk)"
  by (rule look_set [where sk = ParamsK]; simp) (rule look_set [where sk = TXCounterK]; simp)

lemmas look_writes = look_sets look_bump look_packet look_single look_putContractStore

lemma next_id_look:
  "next_id m KeySequenceCodeID =
     (case look m SequenceCodeK of None \<Rightarrow> Ok 1 | Some v \<Rightarrow> asUint64 v)"
  by (simp add: next_id_def look_def)

section \<open>The index by creator\<close>

definition created_by :: "store_value items \<Rightarrow> bytes \<Rightarrow> bytes \<Rightarrow> bool" where
  "created_by m creator a \<longleftrightarrow> (\<exists>p. look m (ByCreatorK creator p a) \<noteq> None)"

lemma creator_entry_kept:
  assumes "registry_step m m'" and "look m (ByCreatorK creator p a) \<noteq> None"
  shows "look m' (ByCreatorK creator p a) \<noteq> None"
  using assms
proof (induction rule: registry_step.induct)
  case (params_set m ps)
  then show ?case using look_set [of ParamsK ParamsKey "ByCreatorK creator p a" m] by simp
next
  case (tx_counted m v)
  then show ?case using look_set [of TXCounterK TXCounterPrefix "ByCreatorK creator p a" m] by simp
next
  case (packet_stored m port ch i pkt)
  then show ?case using look_set [OF key_of_asyncAckKey [of port ch i], of "ByCreatorK creator p a" m] by simp
next
  case (packet_done m port ch i)
  then show ?case using look_delete [OF key_of_asyncAckKey [of port ch i], of "ByCreatorK creator p a" m] by simp
next
  case (instantiated m c b q e msg kc cr r kr pos)
  then show ?case by (simp add: look_sets look_creator [OF instantiated(6)] look_index [OF instantiated(5)])
next
  case (contract_migrated m c' b c i old pold kold e q kc pos)
  then show ?case by (simp add: look_sets look_index [OF contract_migrated(6)] look_index [OF contract_migrated(9)])
qed (simp_all add: look_putContractStore look_sets look_bump)

interpretation creator_index: registry_stable "\<lambda>m. created_by m creator a" for creator a
  by unfold_locales (metis created_by_def creator_entry_kept)

end
