(* ===== verification/Registry_Spec.thy ===== *)
theory Registry_Spec
  imports Registry_Steps
begin

text \<open>
  What the registry promises, without keys, prefixes and indexes: an abstract registry of codes,
  contracts, their histories and the set of pinned codes, and the transitions it may make. The
  steps on the store refine these transitions, so that what is proved of the abstract registry
  holds for the store.
\<close>

section \<open>The abstract registry\<close>

record registry =
  reg_codes :: "u64 \<rightharpoonup> CodeInfo"
  reg_next :: "u64 outcome"
  reg_contracts :: "bytes \<rightharpoonup> ContractInfo"
  reg_history :: "bytes \<Rightarrow> u64 \<rightharpoonup> ContractCodeHistoryEntry"
  reg_pinned :: "u64 set"

definition last_of :: "(u64 \<rightharpoonup> 'e) \<Rightarrow> u64 \<Rightarrow> bool" where
  "last_of h pos \<longleftrightarrow> (\<forall>j \<in> dom h. j \<le> pos) \<and> (pos = 0 \<or> pos \<in> dom h)"

inductive spec_step :: "registry \<Rightarrow> registry \<Rightarrow> bool" where
  store_code: "reg_next r = Ok i \<Longrightarrow>
    spec_step r (r\<lparr>reg_codes := (reg_codes r)(i \<mapsto> c), reg_next := Ok (i + 1)\<rparr>)"
| set_access: "reg_codes r i = Some c \<Longrightarrow>
    spec_step r (r\<lparr>reg_codes := (reg_codes r)(i \<mapsto> c\<lparr>code_InstantiateConfig := cfg\<rparr>)\<rparr>)"
| update_contract: "reg_contracts r a = Some c \<Longrightarrow> same_contract c c' \<Longrightarrow>
    spec_step r (r\<lparr>reg_contracts := (reg_contracts r)(a \<mapsto> c')\<rparr>)"
| pin: "i \<in> dom (reg_codes r) \<Longrightarrow> spec_step r (r\<lparr>reg_pinned := insert i (reg_pinned r)\<rparr>)"
| unpin: "i \<in> dom (reg_codes r) \<Longrightarrow> spec_step r (r\<lparr>reg_pinned := reg_pinned r - {i}\<rparr>)"
| create_contract: "reg_contracts r a = None \<Longrightarrow> con_CodeID c \<in> dom (reg_codes r) \<Longrightarrow>
    last_of (reg_history r a) pos \<Longrightarrow> e = InitialHistory c msg \<Longrightarrow>
    spec_step r (r\<lparr>reg_contracts := (reg_contracts r)(a \<mapsto> c),
                   reg_history := (reg_history r)(a := (reg_history r a)(pos + 1 \<mapsto> e))\<rparr>)"
| migrate_contract: "reg_contracts r a = Some c \<Longrightarrow> con_CodeID c' \<in> dom (reg_codes r) \<Longrightarrow>
    migrated c c' \<Longrightarrow> last_of (reg_history r a) pos \<Longrightarrow> hist_CodeID e = con_CodeID c' \<Longrightarrow>
    spec_step r (r\<lparr>reg_contracts := (reg_contracts r)(a \<mapsto> c'),
                   reg_history := (reg_history r)(a := (reg_history r a)(pos + 1 \<mapsto> e))\<rparr>)"

definition registry_of :: "store_value items \<Rightarrow> registry" where
  "registry_of m =
     \<lparr>reg_codes = code_at m, reg_next = next_id m KeySequenceCodeID, reg_contracts = contract_at m,
      reg_history = history_at m, reg_pinned = {i. look m (PinnedK i) \<noteq> None}\<rparr>"

section \<open>The steps refine the transitions\<close>

lemma registry_of_cong:
  assumes "\<And>sk. registry_key sk \<Longrightarrow> sk \<noteq> ParamsK \<Longrightarrow> sk \<noteq> TXCounterK \<Longrightarrow> sk \<noteq> SequenceInstanceK \<Longrightarrow>
     look m' sk = look m sk"
  shows "registry_of m' = registry_of m"
  by (simp add: registry_of_def fun_eq_iff code_at_def contract_at_def history_at_def next_id_look assms)

lemma registry_of_silent:
  "registry_of (putContractStore a l m) = registry_of m"
  "registry_of (kv_set m ParamsKey v) = registry_of m"
  "registry_of (kv_set m TXCounterPrefix v) = registry_of m"
  "registry_of (bump KeySequenceInstanceID i m) = registry_of m"
  "registry_of (kv_set m (asyncAckKey p ch i) v) = registry_of m"
  "registry_of (kv_delete m (asyncAckKey p ch i)) = registry_of m"
proof -
  have "registry_key sk \<Longrightarrow> key_kind sk \<noteq> 3" for sk by (cases sk) auto
  then show "registry_of (putContractStore a l m) = registry_of m"
    by (intro registry_of_cong look_putContractStore)
qed (rule registry_of_cong, simp add: look_writes)+

lemma last_of_history:
  assumes "well_typed m" and "last_position m a pos"
  shows "last_of (history_at m a) pos"
proof -
  have "look m (HistoryK a j) \<noteq> None \<longleftrightarrow> j \<in> dom (history_at m a)" for j
    using assms(1) unfolding well_typed_def
    by (fastforce simp: history_at_def split: option.splits store_value.splits)
  with assms(2) show ?thesis by (simp add: last_of_def last_position_def)
qed

lemma asUint64_roundtrip: "asUint64 (RawV (Uint64ToBigEndian i)) = Ok i"
  using unat_u64_less [of i] by (simp add: BigEndian_Uint64_def) (simp add: Uint64ToBigEndian_def)

lemma registry_step_refines:
  assumes "registry_step m m'" and "registry_ok m"
  shows "registry_of m' = registry_of m \<or> spec_step (registry_of m) (registry_of m')"
proof -
  have typed: "well_typed m" using assms(2) by (simp add: registry_ok_def)
  let ?r = "registry_of m"
  from assms(1) show ?thesis
  proof cases
    case (code_stored i c)
    then have "registry_of m' = ?r\<lparr>reg_codes := (reg_codes ?r)(i \<mapsto> c), reg_next := Ok (i + 1)\<rparr>"
      by (simp add: registry_of_def fun_eq_iff code_at_def contract_at_def history_at_def next_id_look
          look_writes asUint64_roundtrip del: asUint64.simps)
    moreover have "reg_next ?r = Ok i" using code_stored by (simp add: registry_of_def)
    ultimately show ?thesis by (metis spec_step.store_code)
  next
    case (access_set i c cfg)
    then have "registry_of m' = ?r\<lparr>reg_codes := (reg_codes ?r)(i \<mapsto> c\<lparr>code_InstantiateConfig := cfg\<rparr>)\<rparr>"
      by (simp add: registry_of_def fun_eq_iff code_at_def contract_at_def history_at_def next_id_look look_writes)
    moreover have "reg_codes ?r i = Some c" using access_set by (simp add: registry_of_def)
    ultimately show ?thesis by (metis spec_step.set_access)
  next
    case (contract_set a c c')
    then have "registry_of m' = ?r\<lparr>reg_contracts := (reg_contracts ?r)(a \<mapsto> c')\<rparr>"
      by (simp add: registry_of_def fun_eq_iff code_at_def contract_at_def history_at_def next_id_look look_writes)
    moreover have "reg_contracts ?r a = Some c" using contract_set by (simp add: registry_of_def)
    ultimately show ?thesis using contract_set by (metis spec_step.update_contract)
  next
    case (pinned i)
    then have "registry_of m' = ?r\<lparr>reg_pinned := insert i (reg_pinned ?r)\<rparr>"
      by (auto simp: registry_of_def fun_eq_iff code_at_def contract_at_def history_at_def next_id_look look_writes)
    moreover have "i \<in> dom (reg_codes ?r)" using pinned by (auto simp: registry_of_def)
    ultimately show ?thesis by (metis spec_step.pin)
  next
    case (unpinned i)
    then have "registry_of m' = ?r\<lparr>reg_pinned := reg_pinned ?r - {i}\<rparr>"
      by (auto simp: registry_of_def fun_eq_iff code_at_def contract_at_def history_at_def next_id_look look_writes)
    moreover have "i \<in> dom (reg_codes ?r)" using unpinned by (auto simp: registry_of_def)
    ultimately show ?thesis by (metis spec_step.unpin)
  next
    case (instantiated c a p e msg k1 creator q k2 pos)
    then have "registry_of m' = ?r\<lparr>reg_contracts := (reg_contracts ?r)(a \<mapsto> c),
        reg_history := (reg_history ?r)(a := (reg_history ?r a)(pos + 1 \<mapsto> e))\<rparr>"
      by (simp add: registry_of_def fun_eq_iff code_at_def contract_at_def history_at_def next_id_look
          look_writes look_index [OF instantiated(6)] look_creator [OF instantiated(7)])
    moreover have "reg_contracts ?r a = None" and "con_CodeID c \<in> dom (reg_codes ?r)"
      using instantiated by (auto simp: registry_of_def contract_at_def)
    moreover have "last_of (reg_history ?r a) pos"
      using last_of_history [OF typed instantiated(8)] by (simp add: registry_of_def)
    ultimately show ?thesis using instantiated(5) by (metis spec_step.create_contract)
  next
    case (contract_migrated c' a c i old p0 k0 e p k1 pos)
    then have "registry_of m' = ?r\<lparr>reg_contracts := (reg_contracts ?r)(a \<mapsto> c'),
        reg_history := (reg_history ?r)(a := (reg_history ?r a)(pos + 1 \<mapsto> e))\<rparr>"
      by (simp add: registry_of_def fun_eq_iff code_at_def contract_at_def history_at_def next_id_look
          look_writes look_index [OF contract_migrated(7)] look_index [OF contract_migrated(10)])
    moreover have "reg_contracts ?r a = Some c" and "con_CodeID c' \<in> dom (reg_codes ?r)"
      using contract_migrated by (auto simp: registry_of_def)
    moreover have "last_of (reg_history ?r a) pos"
      using last_of_history [OF typed contract_migrated(11)] by (simp add: registry_of_def)
    ultimately show ?thesis using contract_migrated(4,8) by (metis spec_step.migrate_contract)
  qed (simp_all add: registry_of_silent)
qed

text \<open>So an invariant of the abstract transitions, with consistency, is one of the steps.\<close>

locale spec_invariant =
  fixes K :: "registry \<Rightarrow> bool"
  assumes spec_stable: "spec_step r r' \<Longrightarrow> K r \<Longrightarrow> K r'"

sublocale spec_invariant \<subseteq> store: registry_stable "\<lambda>m. registry_ok m \<and> K (registry_of m)"
proof unfold_locales
  fix m m' assume "registry_ok m \<and> K (registry_of m)" and step: "registry_step m m'"
  then show "registry_ok m' \<and> K (registry_of m')"
    using registry_step_ok [OF step] registry_step_refines [OF step] spec_stable by fastforce
qed

section \<open>What never changes\<close>

text \<open>
  Code identifiers are handed out in order, so a new code never takes the identifier of an old one
  before the last of the \<open>2\<^sup>6\<^sup>4\<close> identifiers has been used.
\<close>

definition ids_used_up :: "registry \<Rightarrow> bool" where
  "ids_used_up r \<longleftrightarrow> - 1 \<in> dom (reg_codes r)"

definition codes_below_next :: "registry \<Rightarrow> bool" where
  "codes_below_next r \<longleftrightarrow> ids_used_up r \<or> (\<exists>n. reg_next r = Ok n \<and> (\<forall>i \<in> dom (reg_codes r). i < n))"

definition code_is :: "u64 \<Rightarrow> bytes \<Rightarrow> string \<Rightarrow> registry \<Rightarrow> bool" where
  "code_is i checksum creator r \<longleftrightarrow> codes_below_next r \<and>
     (ids_used_up r \<or> (\<exists>c. reg_codes r i = Some c \<and> code_CodeHash c = checksum \<and> code_Creator c = creator))"

definition contract_is :: "bytes \<Rightarrow> string \<Rightarrow> AbsoluteTxPosition option \<Rightarrow> string \<Rightarrow> registry \<Rightarrow> bool" where
  "contract_is a creator created port r \<longleftrightarrow>
     (\<exists>c. reg_contracts r a = Some c \<and> con_Creator c = creator \<and> con_Created c = created \<and>
          (port \<noteq> [] \<longrightarrow> con_IBCPortID c = port))"

definition history_extends ::
  "bytes \<Rightarrow> (u64 \<rightharpoonup> ContractCodeHistoryEntry) \<Rightarrow> registry \<Rightarrow> bool"
where
  "history_extends a h r \<longleftrightarrow> reg_history r a (- 1) \<noteq> None \<or>
     h \<subseteq>\<^sub>m reg_history r a \<and> (\<forall>i \<in> dom h. \<forall>j \<in> dom (reg_history r a) - dom h. i < j)"

lemma spec_step_ids_used_up: "spec_step r r' \<Longrightarrow> ids_used_up r \<Longrightarrow> ids_used_up r'"
  by (induction rule: spec_step.induct) (auto simp: ids_used_up_def)

lemma spec_step_codes_below_next:
  assumes "spec_step r r'" and "codes_below_next r"
  shows "codes_below_next r'"
proof (cases "ids_used_up r \<or> ids_used_up r'")
  case True
  then show ?thesis using spec_step_ids_used_up [OF assms(1)] by (auto simp: codes_below_next_def)
next
  case False
  then obtain n where n: "reg_next r = Ok n" and below: "\<And>i. i \<in> dom (reg_codes r) \<Longrightarrow> i < n"
    using assms(2) by (auto simp: codes_below_next_def)
  from assms(1) show ?thesis
  proof cases
    case (store_code i c)
    with False have "i \<noteq> - 1" by (auto simp: ids_used_up_def)
    then have "i < i + 1" by (rule word_less_Suc)
    then show ?thesis using store_code n below unfolding codes_below_next_def
      by (intro disjI2 exI [of _ "i + 1"]) (auto dest: less_trans)
  next
    case (set_access i c cfg)
    then show ?thesis using n below by (auto simp: codes_below_next_def)
  qed (use n below in \<open>auto simp: codes_below_next_def\<close>)
qed

lemma spec_step_code_is:
  assumes "spec_step r r'" and "code_is i h creator r"
  shows "code_is i h creator r'"
proof (cases "ids_used_up r")
  case True
  then show ?thesis
    using spec_step_ids_used_up [OF assms(1)] by (simp add: code_is_def codes_below_next_def)
next
  case False
  from assms(2) False obtain c where c: "reg_codes r i = Some c" "code_CodeHash c = h" "code_Creator c = creator"
    by (auto simp: code_is_def)
  have below: "codes_below_next r'" using assms by (auto simp: code_is_def intro: spec_step_codes_below_next)
  from assms(1) show ?thesis
  proof cases
    case (store_code j d)
    with False assms(2) c have "i < j" by (auto simp: code_is_def codes_below_next_def)
    with c below store_code show ?thesis by (auto simp: code_is_def)
  qed (use c below in \<open>auto simp: code_is_def\<close>)
qed

lemma spec_step_contract_is: "spec_step r r' \<Longrightarrow> contract_is a creator p port r \<Longrightarrow> contract_is a creator p port r'"
  by (induction rule: spec_step.induct) (auto simp: contract_is_def same_contract_def migrated_def)

lemma history_append:
  assumes "last_of h' pos"
    and "h \<subseteq>\<^sub>m h'" and "\<forall>i \<in> dom h. \<forall>j \<in> dom h' - dom h. i < j"
  shows "h' (- 1) \<noteq> None \<or>
    h \<subseteq>\<^sub>m h'(pos + 1 \<mapsto> e) \<and> (\<forall>i \<in> dom h. \<forall>j \<in> dom (h'(pos + 1 \<mapsto> e)) - dom h. i < j)"
proof (cases "pos = - 1")
  case True
  then show ?thesis using assms(1) by (auto simp: last_of_def)
next
  case False
  then have pos: "pos < pos + 1" by (rule word_less_Suc)
  have below: "i < pos + 1" if "i \<in> dom h" for i
  proof -
    have "i \<in> dom h'" using that assms(2) by (metis map_le_implies_dom_le subsetD)
    then have "i \<le> pos" using assms(1) by (simp add: last_of_def)
    then show ?thesis using pos by (rule le_less_trans)
  qed
  then have "pos + 1 \<notin> dom h" by blast
  then have "h \<subseteq>\<^sub>m h'(pos + 1 \<mapsto> e)" using assms(2) by (auto simp: map_le_def)
  with assms(3) below show ?thesis by (auto simp: domIff)
qed

lemma spec_step_history_extends:
  assumes "spec_step r r'" and "history_extends a h r"
  shows "history_extends a h r'"
  using assms
proof (induction rule: spec_step.induct)
  case (create_contract r b c pos e' msg)
  then show ?case using history_append [of "reg_history r a" pos h e']
    by (cases "a = b") (auto simp: history_extends_def)
next
  case (migrate_contract r b c c' pos e')
  then show ?case using history_append [of "reg_history r a" pos h e']
    by (cases "a = b") (auto simp: history_extends_def)
qed (simp_all add: history_extends_def)

interpretation code_ids: spec_invariant codes_below_next
  by unfold_locales (rule spec_step_codes_below_next)

interpretation code_fixed: spec_invariant "code_is i checksum creator" for i checksum creator
  by unfold_locales (rule spec_step_code_is)

interpretation contract_fixed: spec_invariant "contract_is a creator created port" for a creator created port
  by unfold_locales (rule spec_step_contract_is)

interpretation history_grows: spec_invariant "history_extends a h" for a h
  by unfold_locales (rule spec_step_history_extends)

end
