(* ===== verification/Events.thy ===== *)
theory Events
  imports Vm_Types Wasm_Types
begin

text \<open>
  Events of contracts (\<open>keeper/events.go\<close>, constants of \<open>types/events.go\<close>) and the conversions
  and filters the dispatcher applies to events (\<open>keeper/msg_dispatcher.go\<close>).
  \<open>strings.TrimSpace\<close> is the parameter \<open>trim\<close>.
\<close>

definition WasmModuleEventType :: string where "WasmModuleEventType = ''wasm''"
definition CustomContractEventPrefix :: string where "CustomContractEventPrefix = ''wasm-''"
definition AttributeReservedPrefix :: string where "AttributeReservedPrefix = ''_''"
definition AttributeKeyContractAddr :: string where "AttributeKeyContractAddr = ''_contract_address''"
definition eventTypeMinLength :: nat where "eventTypeMinLength = 2"

fun customAttributes :: "(string \<Rightarrow> string) \<Rightarrow> EventAttribute list \<Rightarrow> go_error + EventAttribute list" where
  "customAttributes trim [] = Inr []"
| "customAttributes trim (l # ls) =
     (let key = trim (attr_Key l); value = trim (attr_Value l)
      in if key = []
         then Inl (WrappedError (''Empty attribute key. Value: '' @ attr_Value l) ErrInvalidEvent)
         else if prefix AttributeReservedPrefix key
         then Inl (WrappedError (''Attribute key starts with reserved prefix _: '' @ key) ErrInvalidEvent)
         else bindE (customAttributes trim ls) (\<lambda>rest. Inr (\<lparr>attr_Key = key, attr_Value = value\<rparr> # rest)))"

definition contractSDKEventAttributes ::
  "addr_codec \<Rightarrow> (string \<Rightarrow> string) \<Rightarrow> EventAttribute list \<Rightarrow> bytes \<Rightarrow> go_error + EventAttribute list"
where
  "contractSDKEventAttributes ac trim attrs contractAddr =
     bindE (customAttributes trim attrs) (\<lambda>rest.
       Inr (\<lparr>attr_Key = AttributeKeyContractAddr, attr_Value = addr_String ac contractAddr\<rparr> # rest))"

definition newWasmModuleEvent ::
  "addr_codec \<Rightarrow> (string \<Rightarrow> string) \<Rightarrow> EventAttribute list \<Rightarrow> bytes \<Rightarrow> go_error + Event list"
where
  "newWasmModuleEvent ac trim attrs contractAddr =
     bindE (contractSDKEventAttributes ac trim attrs contractAddr) (\<lambda>as.
       Inr [\<lparr>ev_Type = WasmModuleEventType, ev_Attributes = as\<rparr>])"

fun newCustomEvents ::
  "addr_codec \<Rightarrow> (string \<Rightarrow> string) \<Rightarrow> Event list \<Rightarrow> bytes \<Rightarrow> go_error + Event list"
where
  "newCustomEvents ac trim [] contractAddr = Inr []"
| "newCustomEvents ac trim (e # evts) contractAddr =
     (let typ = trim (ev_Type e)
      in if length typ \<le> eventTypeMinLength
         then Inl (WrappedError (''Event type too short: '' @ typ) ErrInvalidEvent)
         else bindE (contractSDKEventAttributes ac trim (ev_Attributes e) contractAddr) (\<lambda>as.
              bindE (newCustomEvents ac trim evts contractAddr) (\<lambda>rest.
              Inr (\<lparr>ev_Type = CustomContractEventPrefix @ typ, ev_Attributes = as\<rparr> # rest))))"

section \<open>Filters and conversions of the dispatcher\<close>

definition filterEvents :: "Event list \<Rightarrow> Event list" where
  "filterEvents events = filter (\<lambda>ev. ev_Type ev \<noteq> ''message'') events"

definition sdkAttributesToWasmVMAttributes :: "EventAttribute list \<Rightarrow> EventAttribute list" where
  "sdkAttributesToWasmVMAttributes attrs =
     map (\<lambda>a. \<lparr>attr_Key = attr_Key a, attr_Value = attr_Value a\<rparr>) attrs"

definition sdkEventsToWasmVMEvents :: "Event list \<Rightarrow> Event list" where
  "sdkEventsToWasmVMEvents events =
     map (\<lambda>ev. \<lparr>ev_Type = ev_Type ev,
                ev_Attributes = sdkAttributesToWasmVMAttributes (ev_Attributes ev)\<rparr>) events"

text \<open>\<open>sort.SliceStable\<close> of an event's attributes by key.\<close>

definition sortAttributes :: "Event \<Rightarrow> Event" where
  "sortAttributes e = e\<lparr>ev_Attributes := sort_key attr_Key (ev_Attributes e)\<rparr>"

section \<open>Lemmas\<close>

text \<open>
  What may be relied on about an event of a contract: its first attribute names the contract and
  no other attribute uses a reserved key.
\<close>

definition attributed :: "addr_codec \<Rightarrow> bytes \<Rightarrow> Event \<Rightarrow> bool" where
  "attributed ac contractAddr ev \<longleftrightarrow>
     (\<exists>rest. ev_Attributes ev =
        \<lparr>attr_Key = ''_contract_address'', attr_Value = addr_String ac contractAddr\<rparr> # rest \<and>
        (\<forall>a \<in> set rest. attr_Key a \<noteq> [] \<and> hd (attr_Key a) \<noteq> CHR ''_''))"

lemma customAttributes_ok:
  assumes "customAttributes trim attrs = Inr rest"
  shows "length rest = length attrs \<and>
         (\<forall>a \<in> set rest. attr_Key a \<noteq> [] \<and> hd (attr_Key a) \<noteq> CHR ''_'')"
  using assms
proof (induction trim attrs arbitrary: rest rule: customAttributes.induct)
  case (2 trim l ls)
  let ?key = "trim (attr_Key l)"
  from "2.prems" have key: "?key \<noteq> []" and us: "\<not> prefix AttributeReservedPrefix ?key"
    by (auto simp: Let_def split: if_splits)
  then have "hd ?key \<noteq> CHR ''_''"
    by (cases ?key) (auto simp: AttributeReservedPrefix_def)
  with 2 key us show ?case by (auto simp: Let_def bindE_Inr_iff split: if_splits)
qed simp

lemma contractSDKEventAttributes_ok:
  assumes "contractSDKEventAttributes ac trim attrs addr = Inr as"
  shows "attributed ac addr \<lparr>ev_Type = t, ev_Attributes = as\<rparr>" and "length as = Suc (length attrs)"
  using assms customAttributes_ok [of trim attrs]
  by (auto simp: contractSDKEventAttributes_def bindE_Inr_iff attributed_def AttributeKeyContractAddr_def)

lemma newCustomEvents_ok:
  assumes "newCustomEvents ac trim evts addr = Inr events"
  shows "length events = length evts \<and>
         (\<forall>ev \<in> set events. attributed ac addr ev \<and>
            prefix ''wasm-'' (ev_Type ev) \<and> length (ev_Type ev) > 7)"
  using assms
proof (induction ac trim evts addr arbitrary: events rule: newCustomEvents.induct)
  case (2 ac trim e evts addr)
  let ?kind = "trim (ev_Type e)"
  from "2.prems" obtain ats rest where long: "\<not> length ?kind \<le> eventTypeMinLength"
    and ats: "contractSDKEventAttributes ac trim (ev_Attributes e) addr = Inr ats"
    and rest: "newCustomEvents ac trim evts addr = Inr rest"
    and events: "events = \<lparr>ev_Type = CustomContractEventPrefix @ ?kind, ev_Attributes = ats\<rparr> # rest"
    by (auto simp: Let_def bindE_Inr_iff split: if_splits)
  have "attributed ac addr \<lparr>ev_Type = CustomContractEventPrefix @ ?kind, ev_Attributes = ats\<rparr>"
    using ats by (rule contractSDKEventAttributes_ok)
  with "2.IH" [OF refl long rest] long events show ?case
    by (simp add: CustomContractEventPrefix_def eventTypeMinLength_def)
qed simp

section \<open>Properties\<close>

text \<open>
  Events cannot be forged. Every event emitted for a contract names that contract in its
  first attribute; a contract cannot add another attribute with a reserved key, cannot emit an
  event type outside the \<open>wasm-\<close> name space, and no event is dropped.
\<close>

theorem contract_events_attributed:
  assumes "newCustomEvents ac trim evts addr = Inr events"
  shows "length events = length evts \<and>
         (\<forall>ev \<in> set events.
            (\<exists>rest. ev_Attributes ev =
               \<lparr>attr_Key = ''_contract_address'', attr_Value = addr_String ac addr\<rparr> # rest \<and>
               (\<forall>a \<in> set rest. attr_Key a \<noteq> [] \<and> hd (attr_Key a) \<noteq> CHR ''_'')) \<and>
            prefix ''wasm-'' (ev_Type ev))"
  using newCustomEvents_ok [OF assms] by (auto simp: attributed_def)

theorem contract_events_attributed_witness:
  "\<exists>events. newCustomEvents \<lparr>addr_String = (\<lambda>a. a), AccAddressFromBech32 = Inr\<rparr> (\<lambda>s. s)
     [\<lparr>ev_Type = ''mint'', ev_Attributes = [\<lparr>attr_Key = ''to'', attr_Value = ''bob''\<rparr>]\<rparr>] ''addr'' = Inr events \<and>
     length events = 1"
  using contract_events_attributed
    [of "\<lparr>addr_String = (\<lambda>a. a), AccAddressFromBech32 = Inr\<rparr>" "\<lambda>s. s"
        "[\<lparr>ev_Type = ''mint'', ev_Attributes = [\<lparr>attr_Key = ''to'', attr_Value = ''bob''\<rparr>]\<rparr>]" "''addr''"]
  by (simp add: eventTypeMinLength_def contractSDKEventAttributes_def AttributeReservedPrefix_def)

end
