(* ===== verification/Validation.thy ===== *)
theory Validation
  imports World
begin

text \<open>
  Stateless validation: \<open>types/validation.go\<close> and the \<open>ValidateBasic\<close> methods of the messages in
  \<open>types/tx.go\<close>, with the message structs of the generated \<open>tx.pb.go\<close>. JSON and coin validation,
  address parsing and the Unicode tables are parameters (\<open>sdk_ops\<close>).
\<close>

section \<open>Field checks\<close>

definition MaxSaltSize :: nat where "MaxSaltSize = 64"
definition MaxLabelSize :: nat where "MaxLabelSize = 128"
definition MaxWasmSize :: nat where "MaxWasmSize = 800 * 1024"
definition MaxProposalWasmSize :: nat where "MaxProposalWasmSize = 3 * 1024 * 1024"
definition maxCodeIDCount :: nat where "maxCodeIDCount = 50"

definition validateWasmCode :: "bytes \<Rightarrow> nat \<Rightarrow> go_error + unit" where
  "validateWasmCode s maxSize =
     (if s = [] then Inl (WrappedError ''is required'' ErrEmpty)
      else if length s > maxSize
      then Inl (WrappedError (''cannot be longer than '' @ dec_string maxSize @ '' bytes'') ErrLimit)
      else Inr ())"

definition ValidateLabel :: "'w sdk_ops \<Rightarrow> string \<Rightarrow> go_error + unit" where
  "ValidateLabel sdk label =
     (if label = [] then Inl (WrappedError ''is required'' ErrEmpty)
      else if length label > MaxLabelSize
      then Inl (WrappedError (''cannot be longer than '' @ dec_string MaxLabelSize @ '' characters'') ErrLimit)
      else if label \<noteq> sdk_TrimSpace sdk label
      then Inl (WrappedError ''label must not start/end with whitespaces'' ErrInvalid)
      else if label \<noteq> sdk_PrintableOnly sdk label
      then Inl (WrappedError ''label must have printable characters only'' ErrInvalid)
      else Inr ())"

definition ValidateSalt :: "bytes \<Rightarrow> go_error + unit" where
  "ValidateSalt salt =
     (if salt = [] then Inl (WrappedError ''is required'' ErrEmpty)
      else if length salt > MaxSaltSize
      then Inl (WrappedError (''cannot be longer than '' @ dec_string MaxSaltSize @ '' characters'') ErrLimit)
      else Inr ())"

text \<open>A code hash is a slice that may be nil, which differs from an empty one.\<close>

definition ValidateVerificationInfo ::
  "'w sdk_ops \<Rightarrow> string \<Rightarrow> string \<Rightarrow> bytes option \<Rightarrow> go_error + unit"
where
  "ValidateVerificationInfo sdk src builder codeHash =
     (if src \<noteq> [] \<or> builder \<noteq> [] \<or> (codeHash \<noteq> None \<and> codeHash \<noteq> Some [])
      then if src = [] then Inl (PlainError ''source is required'')
           else case sdk_ParseRequestURI sdk src of
             Some err \<Rightarrow> Inl (PlainError (''source: '' @ err))
           | None \<Rightarrow>
               if builder = [] then Inl (PlainError ''builder is required'')
               else case sdk_ParseDockerRef sdk builder of
                 Some err \<Rightarrow> Inl (PlainError (''builder: '' @ err))
               | None \<Rightarrow>
                   if codeHash = None then Inl (PlainError ''code hash is required'') else Inr ()
      else Inr ())"

fun hasDuplicates :: "'a set \<Rightarrow> 'a list \<Rightarrow> bool" where
  "hasDuplicates index [] = False"
| "hasDuplicates index (v # s) = (v \<in> index \<or> hasDuplicates (insert v index) s)"

definition validateCodeIDs :: "u64 list \<Rightarrow> go_error + unit" where
  "validateCodeIDs codeIDs =
     (if codeIDs = [] then Inl (WrappedError ''empty code ids'' ErrInvalidRequest)
      else if length codeIDs > maxCodeIDCount
      then Inl (WrappedError (''total number of code ids is greater than '' @ dec_string maxCodeIDCount)
                  ErrInvalidRequest)
      else if hasDuplicates {} codeIDs then Inl (WrappedError ''duplicate code ids'' ErrInvalidRequest)
      else Inr ())"

text \<open>The checks of the elements of a slice, with the position of the offending one in the error.\<close>

fun validateEach :: "string \<Rightarrow> ('a \<Rightarrow> go_error + unit) \<Rightarrow> nat \<Rightarrow> 'a list \<Rightarrow> go_error + unit" where
  "validateEach what check i [] = Inr ()"
| "validateEach what check i (v # vs) =
     bindE (wrapE (what @ dec_string i) (check v)) (\<lambda>_. validateEach what check (Suc i) vs)"

text \<open>A message is a slice behind a pointer.\<close>

definition RawContractMessage_ValidateBasic :: "'w sdk_ops \<Rightarrow> bytes option \<Rightarrow> go_error + unit" where
  "RawContractMessage_ValidateBasic sdk r =
     (case r of
        None \<Rightarrow> Inl ErrEmpty
      | Some m \<Rightarrow> if \<not> sdk_json_Valid sdk m then Inl ErrInvalid else Inr ())"

section \<open>Messages\<close>

record MsgStoreCode =
  sc_Sender :: string
  sc_WASMByteCode :: bytes
  sc_InstantiatePermission :: "AccessConfig option"

record MsgInstantiateContract =
  ic_Sender :: string
  ic_Admin :: string
  ic_CodeID :: u64
  ic_Label :: string
  ic_Msg :: bytes
  ic_Funds :: "sdk_Coin list"

record MsgInstantiateContract2 =
  i2_Sender :: string
  i2_Admin :: string
  i2_CodeID :: u64
  i2_Label :: string
  i2_Msg :: bytes
  i2_Funds :: "sdk_Coin list"
  i2_Salt :: bytes
  i2_FixMsg :: bool

record MsgExecuteContract =
  ec_Sender :: string
  ec_Contract :: string
  ec_Msg :: bytes
  ec_Funds :: "sdk_Coin list"

record MsgMigrateContract =
  mc_Sender :: string
  mc_Contract :: string
  mc_CodeID :: u64
  mc_Msg :: bytes

record MsgUpdateAdmin =
  ua_Sender :: string
  ua_NewAdmin :: string
  ua_Contract :: string

record MsgClearAdmin =
  ca_Sender :: string
  ca_Contract :: string

record MsgUpdateInstantiateConfig =
  uic_Sender :: string
  uic_CodeID :: u64
  uic_NewInstantiatePermission :: "AccessConfig option"

record MsgUpdateParams =
  up_Authority :: string
  up_Params :: Params

record MsgPinCodes =
  pin_Authority :: string
  pin_CodeIDs :: "u64 list"

record MsgUnpinCodes =
  unpin_Authority :: string
  unpin_CodeIDs :: "u64 list"

record MsgSudoContract =
  su_Authority :: string
  su_Contract :: string
  su_Msg :: bytes

record MsgStoreAndInstantiateContract =
  si_Authority :: string
  si_WASMByteCode :: bytes
  si_InstantiatePermission :: "AccessConfig option"
  si_UnpinCode :: bool
  si_Admin :: string
  si_Label :: string
  si_Msg :: bytes
  si_Funds :: "sdk_Coin list"
  si_Source :: string
  si_Builder :: string
  si_CodeHash :: "bytes option"

record MsgAddCodeUploadParamsAddresses =
  add_Authority :: string
  add_Addresses :: "string list"

record MsgRemoveCodeUploadParamsAddresses =
  rem_Authority :: string
  rem_Addresses :: "string list"

record MsgStoreAndMigrateContract =
  sm_Authority :: string
  sm_WASMByteCode :: bytes
  sm_InstantiatePermission :: "AccessConfig option"
  sm_Contract :: string
  sm_Msg :: bytes

record MsgUpdateContractLabel =
  ul_Sender :: string
  ul_NewLabel :: string
  ul_Contract :: string

section \<open>ValidateBasic\<close>

definition checkAddr :: "'w sdk_ops \<Rightarrow> string \<Rightarrow> string \<Rightarrow> go_error + unit" where
  "checkAddr sdk what s = wrapE what (bindE (AccAddressFromBech32 (sdk_addr sdk) s) (\<lambda>_. Inr ()))"

definition checkFunds :: "'w sdk_ops \<Rightarrow> sdk_Coin list \<Rightarrow> go_error + unit" where
  "checkFunds sdk funds = wrapE ''funds'' (sdk_Coins_Validate sdk funds)"

definition checkAdmin :: "'w sdk_ops \<Rightarrow> string \<Rightarrow> go_error + unit" where
  "checkAdmin sdk admin = (if admin \<noteq> [] then checkAddr sdk ''admin'' admin else Inr ())"

definition checkPayload :: "'w sdk_ops \<Rightarrow> bytes \<Rightarrow> go_error + unit" where
  "checkPayload sdk msg = wrapE ''payload msg'' (RawContractMessage_ValidateBasic sdk (Some msg))"

definition checkCode :: "'w sdk_ops \<Rightarrow> bytes \<Rightarrow> go_error + unit" where
  "checkCode sdk code =
     (case validateWasmCode code MaxWasmSize of
        Inl err \<Rightarrow> Inl (WrappedError (''code bytes '' @ sdk_errText sdk err) ErrInvalidRequest)
      | Inr _ \<Rightarrow> Inr ())"

definition checkPermission :: "'w sdk_ops \<Rightarrow> AccessConfig option \<Rightarrow> go_error + unit" where
  "checkPermission sdk permission =
     (case permission of
        None \<Rightarrow> Inr ()
      | Some c \<Rightarrow> wrapE ''instantiate permission'' (AccessConfig_ValidateBasic (sdk_addr sdk) c))"

definition checkCodeID :: "u64 \<Rightarrow> go_error + unit" where
  "checkCodeID codeID = requireE (codeID \<noteq> 0) (WrappedError ''code id is required'' ErrInvalidRequest)"

definition MsgStoreCode_ValidateBasic :: "'w sdk_ops \<Rightarrow> MsgStoreCode \<Rightarrow> go_error + unit" where
  "MsgStoreCode_ValidateBasic sdk msg =
     bindE (bindE (AccAddressFromBech32 (sdk_addr sdk) (sc_Sender msg)) (\<lambda>_. Inr ())) (\<lambda>_.
     bindE (checkCode sdk (sc_WASMByteCode msg)) (\<lambda>_.
     checkPermission sdk (sc_InstantiatePermission msg)))"

definition MsgInstantiateContract_ValidateBasic ::
  "'w sdk_ops \<Rightarrow> MsgInstantiateContract \<Rightarrow> go_error + unit"
where
  "MsgInstantiateContract_ValidateBasic sdk msg =
     bindE (checkAddr sdk ''sender'' (ic_Sender msg)) (\<lambda>_.
     bindE (checkCodeID (ic_CodeID msg)) (\<lambda>_.
     bindE (wrapE ''label'' (ValidateLabel sdk (ic_Label msg))) (\<lambda>_.
     bindE (checkFunds sdk (ic_Funds msg)) (\<lambda>_.
     bindE (checkAdmin sdk (ic_Admin msg)) (\<lambda>_.
     checkPayload sdk (ic_Msg msg))))))"

definition MsgExecuteContract_ValidateBasic ::
  "'w sdk_ops \<Rightarrow> MsgExecuteContract \<Rightarrow> go_error + unit"
where
  "MsgExecuteContract_ValidateBasic sdk msg =
     bindE (checkAddr sdk ''sender'' (ec_Sender msg)) (\<lambda>_.
     bindE (checkAddr sdk ''contract'' (ec_Contract msg)) (\<lambda>_.
     bindE (checkFunds sdk (ec_Funds msg)) (\<lambda>_.
     checkPayload sdk (ec_Msg msg))))"

definition MsgMigrateContract_ValidateBasic ::
  "'w sdk_ops \<Rightarrow> MsgMigrateContract \<Rightarrow> go_error + unit"
where
  "MsgMigrateContract_ValidateBasic sdk msg =
     bindE (checkCodeID (mc_CodeID msg)) (\<lambda>_.
     bindE (checkAddr sdk ''sender'' (mc_Sender msg)) (\<lambda>_.
     bindE (checkAddr sdk ''contract'' (mc_Contract msg)) (\<lambda>_.
     checkPayload sdk (mc_Msg msg))))"

text \<open>\<open>strings.EqualFold\<close> on two strings that are bech32 text, hence ASCII.\<close>

definition MsgUpdateAdmin_ValidateBasic :: "'w sdk_ops \<Rightarrow> MsgUpdateAdmin \<Rightarrow> go_error + unit" where
  "MsgUpdateAdmin_ValidateBasic sdk msg =
     bindE (checkAddr sdk ''sender'' (ua_Sender msg)) (\<lambda>_.
     bindE (checkAddr sdk ''contract'' (ua_Contract msg)) (\<lambda>_.
     bindE (checkAddr sdk ''new admin'' (ua_NewAdmin msg)) (\<lambda>_.
     requireE (ToUpper (ua_Sender msg) \<noteq> ToUpper (ua_NewAdmin msg))
       (WrappedError ''new admin is the same as the old'' ErrInvalid))))"

definition MsgClearAdmin_ValidateBasic :: "'w sdk_ops \<Rightarrow> MsgClearAdmin \<Rightarrow> go_error + unit" where
  "MsgClearAdmin_ValidateBasic sdk msg =
     bindE (checkAddr sdk ''sender'' (ca_Sender msg)) (\<lambda>_.
     checkAddr sdk ''contract'' (ca_Contract msg))"

definition MsgInstantiateContract2_ValidateBasic ::
  "'w sdk_ops \<Rightarrow> MsgInstantiateContract2 \<Rightarrow> go_error + unit"
where
  "MsgInstantiateContract2_ValidateBasic sdk msg =
     bindE (checkAddr sdk ''sender'' (i2_Sender msg)) (\<lambda>_.
     bindE (checkCodeID (i2_CodeID msg)) (\<lambda>_.
     bindE (wrapE ''label'' (ValidateLabel sdk (i2_Label msg))) (\<lambda>_.
     bindE (checkFunds sdk (i2_Funds msg)) (\<lambda>_.
     bindE (checkAdmin sdk (i2_Admin msg)) (\<lambda>_.
     bindE (checkPayload sdk (i2_Msg msg)) (\<lambda>_.
     wrapE ''salt'' (ValidateSalt (i2_Salt msg))))))))"

definition MsgUpdateInstantiateConfig_ValidateBasic ::
  "'w sdk_ops \<Rightarrow> MsgUpdateInstantiateConfig \<Rightarrow> go_error + unit"
where
  "MsgUpdateInstantiateConfig_ValidateBasic sdk msg =
     bindE (checkAddr sdk ''sender'' (uic_Sender msg)) (\<lambda>_.
     bindE (checkCodeID (uic_CodeID msg)) (\<lambda>_.
     bindE (requireE (uic_NewInstantiatePermission msg \<noteq> None)
              (WrappedError ''instantiate permission is required'' ErrInvalidRequest)) (\<lambda>_.
     checkPermission sdk (uic_NewInstantiatePermission msg))))"

definition MsgUpdateParams_ValidateBasic :: "'w sdk_ops \<Rightarrow> MsgUpdateParams \<Rightarrow> go_error + unit" where
  "MsgUpdateParams_ValidateBasic sdk msg =
     bindE (checkAddr sdk ''authority'' (up_Authority msg)) (\<lambda>_.
     Params_ValidateBasic (sdk_addr sdk) (up_Params msg))"

definition MsgPinCodes_ValidateBasic :: "'w sdk_ops \<Rightarrow> MsgPinCodes \<Rightarrow> go_error + unit" where
  "MsgPinCodes_ValidateBasic sdk msg =
     bindE (checkAddr sdk ''authority'' (pin_Authority msg)) (\<lambda>_. validateCodeIDs (pin_CodeIDs msg))"

definition MsgUnpinCodes_ValidateBasic :: "'w sdk_ops \<Rightarrow> MsgUnpinCodes \<Rightarrow> go_error + unit" where
  "MsgUnpinCodes_ValidateBasic sdk msg =
     bindE (checkAddr sdk ''authority'' (unpin_Authority msg)) (\<lambda>_. validateCodeIDs (unpin_CodeIDs msg))"

definition MsgSudoContract_ValidateBasic :: "'w sdk_ops \<Rightarrow> MsgSudoContract \<Rightarrow> go_error + unit" where
  "MsgSudoContract_ValidateBasic sdk msg =
     bindE (checkAddr sdk ''authority'' (su_Authority msg)) (\<lambda>_.
     bindE (checkAddr sdk ''contract'' (su_Contract msg)) (\<lambda>_.
     checkPayload sdk (su_Msg msg)))"

definition MsgStoreAndInstantiateContract_ValidateBasic ::
  "'w sdk_ops \<Rightarrow> MsgStoreAndInstantiateContract \<Rightarrow> go_error + unit"
where
  "MsgStoreAndInstantiateContract_ValidateBasic sdk msg =
     bindE (checkAddr sdk ''authority'' (si_Authority msg)) (\<lambda>_.
     bindE (wrapE ''label'' (ValidateLabel sdk (si_Label msg))) (\<lambda>_.
     bindE (checkFunds sdk (si_Funds msg)) (\<lambda>_.
     bindE (checkAdmin sdk (si_Admin msg)) (\<lambda>_.
     bindE (wrapE ''code verification info''
              (ValidateVerificationInfo sdk (si_Source msg) (si_Builder msg) (si_CodeHash msg))) (\<lambda>_.
     bindE (checkPayload sdk (si_Msg msg)) (\<lambda>_.
     bindE (checkCode sdk (si_WASMByteCode msg)) (\<lambda>_.
     checkPermission sdk (si_InstantiatePermission msg))))))))"

definition MsgAddCodeUploadParamsAddresses_ValidateBasic ::
  "'w sdk_ops \<Rightarrow> MsgAddCodeUploadParamsAddresses \<Rightarrow> go_error + unit"
where
  "MsgAddCodeUploadParamsAddresses_ValidateBasic sdk msg =
     bindE (checkAddr sdk ''authority'' (add_Authority msg)) (\<lambda>_.
     validateBech32Addresses (sdk_addr sdk) (add_Addresses msg))"

definition MsgRemoveCodeUploadParamsAddresses_ValidateBasic ::
  "'w sdk_ops \<Rightarrow> MsgRemoveCodeUploadParamsAddresses \<Rightarrow> go_error + unit"
where
  "MsgRemoveCodeUploadParamsAddresses_ValidateBasic sdk msg =
     bindE (checkAddr sdk ''authority'' (rem_Authority msg)) (\<lambda>_.
     validateBech32Addresses (sdk_addr sdk) (rem_Addresses msg))"

definition MsgStoreAndMigrateContract_ValidateBasic ::
  "'w sdk_ops \<Rightarrow> MsgStoreAndMigrateContract \<Rightarrow> go_error + unit"
where
  "MsgStoreAndMigrateContract_ValidateBasic sdk msg =
     bindE (checkAddr sdk ''authority'' (sm_Authority msg)) (\<lambda>_.
     bindE (checkAddr sdk ''contract'' (sm_Contract msg)) (\<lambda>_.
     bindE (checkPayload sdk (sm_Msg msg)) (\<lambda>_.
     bindE (checkCode sdk (sm_WASMByteCode msg)) (\<lambda>_.
     checkPermission sdk (sm_InstantiatePermission msg)))))"

definition MsgUpdateContractLabel_ValidateBasic ::
  "'w sdk_ops \<Rightarrow> MsgUpdateContractLabel \<Rightarrow> go_error + unit"
where
  "MsgUpdateContractLabel_ValidateBasic sdk msg =
     bindE (checkAddr sdk ''sender'' (ul_Sender msg)) (\<lambda>_.
     bindE (wrapE ''label'' (ValidateLabel sdk (ul_NewLabel msg))) (\<lambda>_.
     checkAddr sdk ''contract'' (ul_Contract msg)))"

section \<open>What validated messages satisfy\<close>

lemma hasDuplicates_iff: "hasDuplicates index s \<longleftrightarrow> \<not> distinct s \<or> set s \<inter> index \<noteq> {}"
  by (induction index s rule: hasDuplicates.induct) auto

lemma validateEach_iff: "validateEach what check i vs = Inr () \<longleftrightarrow> (\<forall>v \<in> set vs. check v = Inr ())"
  by (induction what check i vs rule: validateEach.induct) (auto simp: bindE_Inr_iff)

lemma validateCodeIDs_iff:
  "validateCodeIDs ids = Inr u \<longleftrightarrow> ids \<noteq> [] \<and> length ids \<le> maxCodeIDCount \<and> distinct ids"
  by (auto simp: validateCodeIDs_def hasDuplicates_iff)

lemma ValidateLabel_iff:
  "ValidateLabel sdk l = Inr u \<longleftrightarrow>
     l \<noteq> [] \<and> length l \<le> MaxLabelSize \<and> l = sdk_TrimSpace sdk l \<and> l = sdk_PrintableOnly sdk l"
  by (auto simp: ValidateLabel_def)

lemma ValidateSalt_iff: "ValidateSalt s = Inr u \<longleftrightarrow> s \<noteq> [] \<and> length s \<le> MaxSaltSize"
  by (auto simp: ValidateSalt_def)

lemma validateWasmCode_iff: "validateWasmCode s n = Inr u \<longleftrightarrow> s \<noteq> [] \<and> length s \<le> n"
  by (auto simp: validateWasmCode_def)

end
