(* ===== verification/Keeper_Calls.thy ===== *)
theory Keeper_Calls
  imports Keeper_Store Events Validation
begin

text \<open>
  The entry points of \<open>keeper/keeper.go\<close> that run contracts: upload, instantiation, execution,
  migration, sudo, reply and smart queries, with the gas accounting around them, the queries a
  running contract may send (\<open>keeper/query_plugins.go\<close>), contract addresses
  (\<open>keeper/addresses.go\<close>), IBC ports (\<open>keeper/ibc.go\<close>), and \<open>ioutils\<close>.
\<close>

section \<open>Compressed code\<close>

definition gzipIdent :: bytes where "gzipIdent = [CHR 0x1F, CHR 0x8B, CHR 0x08]"
definition wasmIdent :: bytes where "wasmIdent = [CHR 0x00, CHR ''a'', CHR ''s'', CHR ''m'']"

definition IsGzip :: "bytes \<Rightarrow> bool" where
  "IsGzip input \<longleftrightarrow> length input \<ge> 3 \<and> gzipIdent = take 3 input"

text \<open>
  The slice expression \<open>input[:4]\<close> reaches up to the capacity of the slice; \<open>spare\<close> are the bytes
  between its length and its capacity.
\<close>

definition IsWasm :: "bytes \<Rightarrow> bytes \<Rightarrow> bool outcome" where
  "IsWasm input spare =
     (if length (input @ spare) < 4 then Panic PanicOther else Ok (take 4 (input @ spare) = wasmIdent))"

definition errLimit :: go_error where "errLimit = PlainError ''exceeds limit''"

text \<open>
  \<open>io.ReadAll\<close> over the limited reader: it fails as soon as it has to read on with no budget left,
  that is beyond the limit, and at the limit unless the end came with the last bytes.
\<close>

definition Uncompress :: "'w sdk_ops \<Rightarrow> bytes \<Rightarrow> nat \<Rightarrow> go_error + bytes" where
  "Uncompress sdk gzipSrc limit =
     (if length gzipSrc > limit then Inl (WrappedError ''max bytes'' errLimit)
      else case sdk_gunzip sdk gzipSrc of
             Inl err \<Rightarrow> Inl (PlainError err)
           | Inr (out, err, withData) \<Rightarrow>
               if length out > limit \<or> length out = limit \<and> (limit = 0 \<or> \<not> withData)
               then Inl (WrappedError ''max bytes'' errLimit)
               else case err of Some e \<Rightarrow> Inl (PlainError e) | None \<Rightarrow> Inr out)"

section \<open>Gas\<close>

definition runtimeGasForContract :: "('w, 'v) Keeper \<Rightarrow> ('w, 'v, u64) op" where
  "runtimeGasForContract k = bindM readMeter (\<lambda>meter.
     if sdk_IsOutOfGas (k_sdk k) meter then returnM 0
     else if gm_limit meter = - 1 then returnM (- 1)
     else liftO (ToWasmVMGas (k_gasRegister k)
                   (gm_limit meter - sdk_GasConsumedToLimit (k_sdk k) meter)))"

definition consumeRuntimeGas :: "('w, 'v) Keeper \<Rightarrow> u64 \<Rightarrow> ('w, 'v, unit) op" where
  "consumeRuntimeGas k gas =
     bindM (consumeGas (FromWasmVMGas (k_gasRegister k) gas) ''wasm contract'') (\<lambda>_.
     bindM readMeter (\<lambda>meter.
     if sdk_IsOutOfGas (k_sdk k) meter then panicM (PanicOutOfGas ''Wasm engine function execution'')
     else returnM ()))"

definition checkDiscountEligibility :: "bytes \<Rightarrow> bool \<Rightarrow> ('w, 'v, bool) op" where
  "checkDiscountEligibility checksum isPinned = (\<lambda>w.
     if isPinned then (Ok True, w)
     else case w_tx w of
            None \<Rightarrow> (Ok False, w)
          | Some txContracts \<Rightarrow>
              if TxContracts_Exists txContracts checksum then (Ok True, w)
              else (Ok False, w\<lparr>w_tx := Some (AddContract txContracts checksum)\<rparr>))"

section \<open>Contract environment\<close>

definition NewEnv :: "addr_codec \<Rightarrow> ctx \<Rightarrow> bytes \<Rightarrow> Env outcome" where
  "NewEnv ac ctx contractAddr =
     (if ctx_BlockHeight ctx < 0 then Panic PanicOther
      else if ctx_BlockTime ctx < 1 then Panic PanicOther
      else Ok \<lparr>env_BlockHeight = word_of_int (ctx_BlockHeight ctx),
               env_BlockTime = word_of_int (ctx_BlockTime ctx),
               env_ChainID = ctx_ChainID ctx,
               env_Transaction = ctx_TXCounter ctx,
               env_ContractAddress = addr_String ac contractAddr\<rparr>)"

definition int_string :: "int \<Rightarrow> string" where
  "int_string i = (if i < 0 then ''-'' @ dec_string (nat (- i)) else dec_string (nat i))"

definition NewWasmCoins :: "sdk_Coin list \<Rightarrow> Coin list" where
  "NewWasmCoins coins =
     map (\<lambda>c. \<lparr>vcoin_Denom = coin_Denom c, vcoin_Amount = int_string (coin_Amount c)\<rparr>) coins"

definition NewInfo :: "addr_codec \<Rightarrow> bytes \<Rightarrow> sdk_Coin list \<Rightarrow> MessageInfo" where
  "NewInfo ac creator deposit =
     \<lparr>info_Sender = addr_String ac creator, info_Funds = NewWasmCoins deposit\<rparr>"

definition Coins_IsZero :: "sdk_Coin list \<Rightarrow> bool" where
  "Coins_IsZero coins \<longleftrightarrow> (\<forall>c \<in> set coins. coin_Amount c = 0)"

section \<open>Errors that reach a contract\<close>

text \<open>\<open>errors.As\<close> for \<open>WasmVMErrorable\<close>, then \<open>ToWasmVMError\<close>.\<close>

fun asWasmVMError :: "go_error \<Rightarrow> go_error option" where
  "asWasmVMError (FlavouredError _ vmErr) = Some (SystemError vmErr)"
| "asWasmVMError (WrappedError _ e) = asWasmVMError e"
| "asWasmVMError (DeterministicError e) = asWasmVMError e"
| "asWasmVMError _ = None"

fun isDeterministic :: "go_error \<Rightarrow> bool" where
  "isDeterministic (DeterministicError _) = True"
| "isDeterministic _ = False"

definition redactError :: "'w sdk_ops \<Rightarrow> go_error \<Rightarrow> go_error" where
  "redactError sdk err =
     (if ToSystemError err \<noteq> None then err
      else if isDeterministic err then err
      else case sdk_ABCIInfo sdk err of
             (codespace, code) \<Rightarrow>
               PlainError (''codespace: '' @ codespace @ '', code: '' @ dec_string code))"

section \<open>Queries of a running contract\<close>

definition withMeter :: "gas_meter \<Rightarrow> ('w, 'v) world \<Rightarrow> ('w, 'v) world" where
  "withMeter g w = w\<lparr>w_env := (w_env w)\<lparr>es_meter := g\<rparr>\<rparr>"

text \<open>
  \<open>QueryHandler.Query\<close>: the query runs on a cached context with its own meter; its state changes
  are dropped, its gas is charged to the caller, even on a panic.
\<close>

definition QueryHandler_Query ::
  "('w, 'v) Keeper \<Rightarrow> ctx \<Rightarrow> bytes \<Rightarrow> QueryRequest \<Rightarrow> u64 \<Rightarrow> ('w, 'v, bytes) op"
where
  "QueryHandler_Query k ctx caller request gasLimit = (\<lambda>w.
     let sdkGas = FromWasmVMGas (k_gasRegister k) gasLimit;
         sub = withMeter (NewGasMeter sdkGas) w;
         (r, sub') = k_queryHandler k ctx caller request sub;
         spent = gm_consumed (es_meter (w_env sub'));
         (charged, w') = consumeGas spent ''contract sub-query'' (w\<lparr>w_tx := w_tx sub'\<rparr>)
     in case charged of
          Ok _ \<Rightarrow>
            (case r of
               Ok res \<Rightarrow> (Ok res, w')
             | Panic p \<Rightarrow> (Panic p, w')
             | Err err \<Rightarrow>
                 (Err (redactError (k_sdk k)
                    (case asWasmVMError err of Some e \<Rightarrow> e | None \<Rightarrow> err)), w'))
        | Err e \<Rightarrow> (Err e, w')
        | Panic p \<Rightarrow> (Panic p, w'))"

definition queryCallback :: "('w, 'v) Keeper \<Rightarrow> ctx \<Rightarrow> bytes \<Rightarrow> ('w, 'v) world \<Rightarrow> querier" where
  "queryCallback k ctx contractAddress w = (\<lambda>local meter request gasLimit.
     case QueryHandler_Query k ctx contractAddress request gasLimit
            (withMeter meter (w\<lparr>w_store := putContractStore contractAddress local (w_store w)\<rparr>)) of
       (r, w') \<Rightarrow> (r, es_meter (w_env w')))"

section \<open>Calling a contract\<close>

definition callVM ::
  "('w, 'v) Keeper \<Rightarrow> ctx \<Rightarrow> bytes \<Rightarrow> 'r vm_call \<Rightarrow> u64 \<Rightarrow> ('w, 'v, (string + 'r option) \<times> u64) op"
where
  "callVM k ctx contractAddress call gasLeft = (\<lambda>w.
     case call (contractStore (w_store w) contractAddress) (queryCallback k ctx contractAddress w)
            (es_meter (w_env w)) gasLeft of
       (res, gasUsed, local, meter) \<Rightarrow>
         (Ok (res, gasUsed),
          withMeter meter (w\<lparr>w_store := putContractStore contractAddress local (w_store w)\<rparr>)))"

text \<open>
  The steps every entry point shares: take the gas that is left, call the VM, charge what it used,
  turn a VM error into an error; then a missing result and an error of the contract.
\<close>

definition runVM ::
  "('w, 'v) Keeper \<Rightarrow> ctx \<Rightarrow> bytes \<Rightarrow> 'r vm_call \<Rightarrow> ('w, 'v, 'r option) op"
where
  "runVM k ctx contractAddress call =
     bindM (runtimeGasForContract k) (\<lambda>gasLeft.
     bindM (callVM k ctx contractAddress call gasLeft) (\<lambda>(res, gasUsed).
     bindM (consumeRuntimeGas k gasUsed) (\<lambda>_.
     case res of
       Inl err \<Rightarrow> failM (WrappedError err ErrVMError)
     | Inr r \<Rightarrow> returnM r)))"

definition runContract ::
  "('w, 'v) Keeper \<Rightarrow> ctx \<Rightarrow> bytes \<Rightarrow> go_error \<Rightarrow> ContractResult vm_call \<Rightarrow> ('w, 'v, Response option) op"
where
  "runContract k ctx contractAddress failed call =
     bindM (runVM k ctx contractAddress call) (\<lambda>res.
     case res of
       None \<Rightarrow> failM (WrappedError ''internal wasmvm error'' ErrVMError)
     | Some r \<Rightarrow>
         if cr_Err r \<noteq> [] then failM (DeterministicError (WrappedError (cr_Err r) failed))
         else returnM (cr_Ok r))"

text \<open>\<open>res.Ok\<close> is dereferenced without a check.\<close>

definition derefM :: "'a option \<Rightarrow> ('s, 'a) prog" where
  "derefM p = (case p of None \<Rightarrow> panicM PanicOther | Some x \<Rightarrow> returnM x)"

definition handleContractResponse ::
  "('w, 'v) Keeper \<Rightarrow> ctx \<Rightarrow> bytes \<Rightarrow> string \<Rightarrow> SubMsg list \<Rightarrow> EventAttribute list \<Rightarrow> bytes option \<Rightarrow>
   Event list \<Rightarrow> ('w, 'v, bytes option) op"
where
  "handleContractResponse k ctx contractAddr ibcPort msgs attrs data evts =
     bindM (liftO (EventCosts (k_gasRegister k) attrs evts)) (\<lambda>attributeGasCost.
     bindM (consumeGas attributeGasCost ''Custom contract event attributes'') (\<lambda>_.
     bindM (if attrs = [] then returnM ()
            else bindM (liftE (newWasmModuleEvent (k_addr k) (sdk_TrimSpace (k_sdk k)) attrs contractAddr)) emitEvents) (\<lambda>_.
     bindM (if evts = [] then returnM ()
            else bindM (liftE (newCustomEvents (k_addr k) (sdk_TrimSpace (k_sdk k)) evts contractAddr)) emitEvents) (\<lambda>_.
     k_responseHandler k ctx contractAddr ibcPort msgs data))))"

definition respond ::
  "('w, 'v) Keeper \<Rightarrow> ctx \<Rightarrow> bytes \<Rightarrow> string \<Rightarrow> Response \<Rightarrow> ('w, 'v, bytes option) op"
where
  "respond k ctx contractAddr ibcPort r =
     handleContractResponse k ctx contractAddr ibcPort (resp_Messages r) (resp_Attributes r)
       (resp_Data r) (resp_Events r)"

text \<open>Loading a contract costs less when its code is pinned or was used before in the transaction.\<close>

definition chargeSetup ::
  "('w, 'v) Keeper \<Rightarrow> u64 \<Rightarrow> bytes \<Rightarrow> bytes \<Rightarrow> string \<Rightarrow> ('w, 'v, unit) op"
where
  "chargeSetup k codeID checksum msg descriptor =
     bindM (IsPinnedCode codeID) (\<lambda>pinned.
     bindM (checkDiscountEligibility checksum pinned) (\<lambda>discount.
     bindM (liftO (SetupContractCost (k_gasRegister k) discount (int (length msg)))) (\<lambda>setupCost.
     consumeGas setupCost descriptor)))"

definition analyzeCode :: "('w, 'v) Keeper \<Rightarrow> go_error \<Rightarrow> bytes \<Rightarrow> ('w, 'v, AnalysisReport) op" where
  "analyzeCode k failed checksum = bindM getM (\<lambda>w.
     case vm_AnalyzeCode (k_vm k) checksum (w_vm w) of
       Inl err \<Rightarrow> failM (WrappedError err failed)
     | Inr report \<Rightarrow> returnM report)"

section \<open>Upload\<close>

definition vmStoreCode ::
  "('w, 'v) Keeper \<Rightarrow> bytes \<Rightarrow> u64 \<Rightarrow> ('w, 'v, bytes \<times> u64 \<times> string option) op"
where
  "vmStoreCode k code gasLeft = (\<lambda>w.
     case vm_StoreCode (k_vm k) code gasLeft (w_vm w) of (r, v) \<Rightarrow> (Ok r, w\<lparr>w_vm := v\<rparr>))"

definition vmStoreCodeUnchecked :: "('w, 'v) Keeper \<Rightarrow> bytes \<Rightarrow> ('w, 'v, string + bytes) op" where
  "vmStoreCodeUnchecked k code = (\<lambda>w.
     case vm_StoreCodeUnchecked (k_vm k) code (w_vm w) of (r, v) \<Rightarrow> (Ok r, w\<lparr>w_vm := v\<rparr>))"

definition uncompressCode :: "('w, 'v) Keeper \<Rightarrow> bytes \<Rightarrow> nat \<Rightarrow> ('w, 'v, bytes) op" where
  "uncompressCode k wasmCode limit =
     (case Uncompress (k_sdk k) wasmCode limit of
        Inl err \<Rightarrow>
          failM (WrappedError (sdk_errText (k_sdk k) (WrappedError ''uncompress wasm archive'' err))
                   ErrCreateFailed)
      | Inr code \<Rightarrow> returnM code)"

definition create ::
  "('w, 'v) Keeper \<Rightarrow> ctx \<Rightarrow> AccAddress \<Rightarrow> bytes \<Rightarrow> AccessConfig option \<Rightarrow> AuthorizationPolicy \<Rightarrow>
   ('w, 'v, u64 \<times> bytes) op"
where
  "create k ctx creator wasmCode instantiateAccess authZ =
     (case creator of
        None \<Rightarrow> failM (WrappedError ''cannot be nil'' ErrInvalidAddress)
      | Some actor \<Rightarrow>
     bindM getInstantiateAccessConfig (\<lambda>defaultType.
     bindM (liftO (AccessType_With (k_addr k) defaultType [actor])) (\<lambda>defaultAccessConfig.
     bindM getUploadAccessConfig (\<lambda>upload.
     let access = (case instantiateAccess of None \<Rightarrow> defaultAccessConfig | Some c \<Rightarrow> c);
         chainConfigs = \<lparr>Upload = upload, Instantiate = defaultAccessConfig\<rparr> in
     bindM (liftO (CanCreateCode (k_addr k) authZ chainConfigs actor access)) (\<lambda>ok.
     bindM (guardM ok (WrappedError ''can not create code'' ErrUnauthorized)) (\<lambda>_.
     bindM (if IsGzip wasmCode
            then bindM (liftO (UncompressCosts (k_gasRegister k) (int (length wasmCode)))) (\<lambda>cost.
                 bindM (consumeGas cost ''Uncompress gzip bytecode'') (\<lambda>_.
                 uncompressCode k wasmCode MaxWasmSize))
            else returnM wasmCode) (\<lambda>code.
     bindM (runtimeGasForContract k) (\<lambda>gasLeft.
     bindM (vmStoreCode k code gasLeft) (\<lambda>(checksum, gasUsed, err).
     bindM (consumeRuntimeGas k gasUsed) (\<lambda>_.
     case err of
       Some e \<Rightarrow> failM (WrappedError e ErrCreateFailed)
     | None \<Rightarrow>
     bindM (analyzeCode k ErrCreateFailed checksum) (\<lambda>report.
     bindM (mustAutoIncrementID KeySequenceCodeID) (\<lambda>codeID.
     bindM (mustStoreCodeInfo codeID (NewCodeInfo (k_addr k) checksum creator access)) (\<lambda>_.
     bindM (emitEvent ''store_code''
              ([attr ''code_checksum'' (hex_encode checksum), attr ''code_id'' (fmt_u64 codeID)] @
               map (\<lambda>f. attr ''required_capability'' (sdk_TrimSpace (k_sdk k) f))
                 (split_on CHR '','' (rep_RequiredCapabilities report)))) (\<lambda>_.
     returnM (codeID, checksum)))))))))))))))"

definition importCode ::
  "('w, 'v) Keeper \<Rightarrow> u64 \<Rightarrow> CodeInfo \<Rightarrow> bytes \<Rightarrow> ('w, 'v, unit) op"
where
  "importCode k codeID codeInfo wasmCode =
     bindM (if IsGzip wasmCode then uncompressCode k wasmCode (2 ^ 63 - 1) else returnM wasmCode) (\<lambda>code.
     bindM (vmStoreCodeUnchecked k code) (\<lambda>r.
     case r of
       Inl err \<Rightarrow> failM (WrappedError err ErrCreateFailed)
     | Inr newCodeHash \<Rightarrow>
     bindM (guardM (code_CodeHash codeInfo = newCodeHash)
              (WrappedError ''code hashes not same'' ErrInvalid)) (\<lambda>_.
     bindM (containsCodeInfo codeID) (\<lambda>has.
     bindM (guardM (\<not> has) (WrappedError (''duplicate code: '' @ fmt_u64 codeID) ErrDuplicate)) (\<lambda>_.
     mustStoreCodeInfo codeID codeInfo)))))"

section \<open>Contract addresses\<close>

definition UInt64LengthPrefix :: "bytes \<Rightarrow> bytes" where
  "UInt64LengthPrefix bz = Uint64ToBigEndian (word_of_nat (length bz)) @ bz"

text \<open>The slice \<open>[:types.ContractAddrLen]\<close>.\<close>

definition moduleAddress :: "'w sdk_ops \<Rightarrow> bytes \<Rightarrow> bytes outcome" where
  "moduleAddress sdk key =
     (let h = sdk_address_Module sdk ''wasm'' key
      in if length h < ContractAddrLen then Panic PanicOther else Ok (take ContractAddrLen h))"

definition BuildContractAddressClassic :: "'w sdk_ops \<Rightarrow> u64 \<Rightarrow> u64 \<Rightarrow> bytes outcome" where
  "BuildContractAddressClassic sdk codeID instanceID =
     moduleAddress sdk (Uint64ToBigEndian codeID @ Uint64ToBigEndian instanceID)"

definition BuildContractAddressPredictable ::
  "'w sdk_ops \<Rightarrow> bytes \<Rightarrow> bytes \<Rightarrow> bytes \<Rightarrow> bytes \<Rightarrow> bytes outcome"
where
  "BuildContractAddressPredictable sdk checksum creator salt initMsg =
     (if length checksum \<noteq> 32 then Panic PanicOther
      else if \<not> sdk_VerifyAddressFormat sdk creator then Panic PanicOther
      else if isl (ValidateSalt salt) then Panic PanicOther
      else if initMsg \<noteq> [] \<and> isl (RawContractMessage_ValidateBasic sdk (Some initMsg)) then Panic PanicOther
      else moduleAddress sdk
             (UInt64LengthPrefix checksum @ UInt64LengthPrefix creator @ UInt64LengthPrefix salt @
              UInt64LengthPrefix initMsg))"

type_synonym ('w, 'v) AddressGenerator = "u64 \<Rightarrow> bytes \<Rightarrow> ('w, 'v, bytes) op"

definition ClassicAddressGenerator :: "('w, 'v) Keeper \<Rightarrow> ('w, 'v) AddressGenerator" where
  "ClassicAddressGenerator k = (\<lambda>codeID _.
     bindM (mustAutoIncrementID KeySequenceInstanceID) (\<lambda>instanceID.
     liftO (BuildContractAddressClassic (k_sdk k) codeID instanceID)))"

definition PredictableAddressGenerator ::
  "('w, 'v) Keeper \<Rightarrow> bytes \<Rightarrow> bytes \<Rightarrow> bytes \<Rightarrow> bool \<Rightarrow> ('w, 'v) AddressGenerator"
where
  "PredictableAddressGenerator k creator salt msg fixMsg = (\<lambda>_ checksum.
     liftO (BuildContractAddressPredictable (k_sdk k) checksum creator salt (if fixMsg then msg else [])))"

section \<open>IBC ports\<close>

definition portIDPrefix :: string where "portIDPrefix = ''wasm.''"

definition PortIDForContract :: "addr_codec \<Rightarrow> bytes \<Rightarrow> string" where
  "PortIDForContract ac addr = portIDPrefix @ addr_String ac addr"

definition ContractFromPortID :: "addr_codec \<Rightarrow> string \<Rightarrow> go_error + bytes" where
  "ContractFromPortID ac portID =
     (if \<not> prefix portIDPrefix portID then Inl (WrappedError ''without prefix'' ErrInvalid)
      else AccAddressFromBech32 ac (drop (length portIDPrefix) portID))"

definition bindIbcPort :: "('w, 'v) Keeper \<Rightarrow> string \<Rightarrow> ('w, 'v, unit) op" where
  "bindIbcPort k portID =
     bindM (liftX (sdk_BindPort (k_sdk k) portID)) (\<lambda>portCap.
     liftX (sdk_ClaimCapability (k_sdk k) portCap (sdk_PortPath (k_sdk k) portID)))"

definition ensureIbcPort :: "('w, 'v) Keeper \<Rightarrow> bytes \<Rightarrow> ('w, 'v, string) op" where
  "ensureIbcPort k contractAddr =
     (let portID = PortIDForContract (k_addr k) contractAddr
      in bindM (liftX (sdk_GetCapability (k_sdk k) (sdk_PortPath (k_sdk k) portID))) (\<lambda>found.
         if found \<noteq> None then returnM portID
         else bindM (bindIbcPort k portID) (\<lambda>_. returnM portID)))"

end
