(* ===== verification/Keeper_Contracts.thy ===== *)
theory Keeper_Contracts
  imports Keeper_Calls
begin

text \<open>
  The entry points of a contract in \<open>keeper/keeper.go\<close>: \<open>instantiate\<close>, \<open>execute\<close>, \<open>migrate\<close>,
  \<open>Sudo\<close>, \<open>reply\<close> and \<open>QuerySmart\<close>, the two depth counters, the coin transfer and the cleanup of
  accounts found at a contract address.
\<close>

section \<open>Coins and accounts\<close>

definition TransferCoins ::
  "'w sdk_ops \<Rightarrow> bytes \<Rightarrow> bytes \<Rightarrow> sdk_Coin list \<Rightarrow> ('w env_state, unit) prog"
where
  "TransferCoins sdk fromAddr toAddr amount = (\<lambda>e.
     let send =
       bindM (sdk_IsSendEnabledCoins sdk amount) (\<lambda>_.
       bindM (guardM (\<not> sdk_BlockedAddr sdk toAddr)
                (WrappedError (addr_String (sdk_addr sdk) toAddr @ '' is not allowed to receive funds'')
                   ErrUnauthorized)) (\<lambda>_.
       sdk_SendCoins sdk fromAddr toAddr amount));
         (r, e') = send (e\<lparr>es_events := []\<rparr>)
     in case r of
          Ok _ \<Rightarrow>
            (r, e'\<lparr>es_events := es_events e @ filter (\<lambda>ev. ev_Type ev \<noteq> ''message'') (es_events e')\<rparr>)
        | _ \<Rightarrow> (r, e'\<lparr>es_events := es_events e\<rparr>))"

text \<open>The cleanup runs on an infinite gas meter; the caller's meter stays as it is.\<close>

definition CleanupExistingAccount :: "'w sdk_ops \<Rightarrow> account \<Rightarrow> ('w env_state, bool) prog" where
  "CleanupExistingAccount sdk existingAcc =
     (case acc_OriginalVesting existingAcc of
        None \<Rightarrow> returnM False
      | Some original \<Rightarrow> (\<lambda>e.
          let collect = foldr (\<lambda>orig rest coins.
                bindM (sdk_GetBalance sdk (acc_Address existingAcc) (coin_Denom orig)) (\<lambda>c. rest (coins @ [c])))
                original returnM;
              burn = bindM (collect []) (\<lambda>coinsToBurn.
                bindM (wrapM ''prune account balance''
                  (sdk_SendCoinsFromAccountToModule sdk (acc_Address existingAcc) ''wasm'' coinsToBurn)) (\<lambda>_.
                bindM (wrapM ''burn account balance'' (sdk_BurnCoins sdk ''wasm'' coinsToBurn)) (\<lambda>_.
                returnM True)));
              (r, e') = burn (e\<lparr>es_meter := NewGasMeter (- 1)\<rparr>)
          in (r, e'\<lparr>es_meter := es_meter e\<rparr>)))"

definition claimAccount :: "('w, 'v) Keeper \<Rightarrow> bytes \<Rightarrow> ('w, 'v, unit) op" where
  "claimAccount k contractAddress =
     bindM (liftX (sdk_GetAccount (k_sdk k) contractAddress)) (\<lambda>existing.
     case existing of
       Some existingAcct \<Rightarrow>
         if acc_Sequence existingAcct \<noteq> 0 \<or> acc_PubKey existingAcct \<noteq> None
         then failM (WrappedError ''address is claimed by external account'' ErrAccountExists)
         else if acc_Type existingAcct \<in> k_acceptedAccountTypes k then returnM ()
         else
           bindM (liftX (sdk_NewAccountWithAddress (k_sdk k) contractAddress)) (\<lambda>contractAccount.
           bindM (liftX (sdk_SetAccount (k_sdk k) contractAccount)) (\<lambda>_.
           bindM (wrapM ''prune balance'' (liftX (k_accountPruner k existingAcct))) (\<lambda>handled.
           guardM handled (WrappedError ''address is claimed by external account'' ErrAccountExists))))
     | None \<Rightarrow>
         bindM (liftX (sdk_NewAccountWithAddress (k_sdk k) contractAddress)) (\<lambda>contractAccount.
         liftX (sdk_SetAccount (k_sdk k) contractAccount)))"

definition depositCoins ::
  "('w, 'v) Keeper \<Rightarrow> bytes \<Rightarrow> bytes \<Rightarrow> sdk_Coin list \<Rightarrow> ('w, 'v, unit) op"
where
  "depositCoins k fromAddr contractAddress coins =
     (if \<not> Coins_IsZero coins then liftX (k_bank k fromAddr contractAddress coins) else returnM ())"

section \<open>Instantiation\<close>

text \<open>The writes that persist a new contract: both indexes, the history, then the contract.\<close>

definition persistContract ::
  "('w, 'v) Keeper \<Rightarrow> bytes \<Rightarrow> bytes \<Rightarrow> ContractInfo \<Rightarrow> bytes \<Rightarrow> ('w, 'v, unit) op"
where
  "persistContract k creator contractAddress contractInfo initMsg =
     (let historyEntry = InitialHistory contractInfo initMsg
      in bindM (addToContractCodeSecondaryIndex contractAddress historyEntry) (\<lambda>_.
         bindM (addToContractCreatorSecondaryIndex creator (hist_Updated historyEntry) contractAddress) (\<lambda>_.
         bindM (appendToContractHistory contractAddress [historyEntry]) (\<lambda>_.
         mustStoreContractInfo contractAddress contractInfo))))"

definition instantiate ::
  "('w, 'v) Keeper \<Rightarrow> ctx \<Rightarrow> u64 \<Rightarrow> AccAddress \<Rightarrow> AccAddress \<Rightarrow> bytes \<Rightarrow> string \<Rightarrow> sdk_Coin list \<Rightarrow>
   ('w, 'v) AddressGenerator \<Rightarrow> AuthorizationPolicy \<Rightarrow> ('w, 'v, bytes \<times> bytes option) op"
where
  "instantiate k ctx codeID creatorAddr admin initMsg label deposit addressGenerator authPolicy =
     (case creatorAddr of
        None \<Rightarrow> failM (WrappedError ''creator'' ErrEmpty)
      | Some creator \<Rightarrow>
     bindM (GetCodeInfo codeID) (\<lambda>info.
     case info of
       None \<Rightarrow> failM (noSuchCode codeID)
     | Some codeInfo \<Rightarrow>
     bindM (chargeSetup k codeID (code_CodeHash codeInfo) initMsg ''Loading CosmWasm module: instantiate'') (\<lambda>_.
     bindM (liftO (CanInstantiateContract (k_addr k) authPolicy (code_InstantiateConfig codeInfo) creator)) (\<lambda>ok.
     bindM (guardM ok (WrappedError ''can not instantiate'' ErrUnauthorized)) (\<lambda>_.
     bindM (addressGenerator codeID (code_CodeHash codeInfo)) (\<lambda>contractAddress.
     bindM (HasContractInfo contractAddress) (\<lambda>exists.
     bindM (guardM (\<not> exists) (WrappedError ''contract address already exists, try a different combination of creator, checksum and salt'' ErrDuplicate)) (\<lambda>_.
     bindM (claimAccount k contractAddress) (\<lambda>_.
     bindM (depositCoins k creator contractAddress deposit) (\<lambda>_.
     bindM (liftO (NewEnv (k_addr k) ctx contractAddress)) (\<lambda>env.
     bindM (runContract k ctx contractAddress ErrInstantiateFailed
              (vm_Instantiate (k_vm k) (code_CodeHash codeInfo) env (NewInfo (k_addr k) creator deposit) initMsg)) (\<lambda>res.
     bindM (liftO (NewAbsoluteTxPosition ctx)) (\<lambda>createdAt.
     let contractInfo = NewContractInfo (k_addr k) codeID creatorAddr admin label (Some createdAt) in
     bindM (analyzeCode k ErrVMError (code_CodeHash codeInfo)) (\<lambda>report.
     bindM (if rep_HasIBCEntryPoints report
            then bindM (ensureIbcPort k contractAddress) (\<lambda>ibcPort.
                 returnM (contractInfo\<lparr>con_IBCPortID := ibcPort\<rparr>))
            else returnM contractInfo) (\<lambda>contract.
     bindM (persistContract k creator contractAddress contract initMsg) (\<lambda>_.
     bindM (emitEvent ''instantiate''
              [attr AttributeKeyContractAddr (addr_String (k_addr k) contractAddress),
               attr ''code_id'' (fmt_u64 codeID)]) (\<lambda>_.
     bindM (derefM res) (\<lambda>r.
     bindM (wrapM ''dispatch''
              (respond k (WithSubMsgAuthzPolicy ctx (SubMessageAuthorizationPolicy authPolicy AuthZActionInstantiate))
                 contractAddress (con_IBCPortID contract) r)) (\<lambda>data.
     returnM (contractAddress, data))))))))))))))))))))"

section \<open>Execution\<close>

definition execute ::
  "('w, 'v) Keeper \<Rightarrow> ctx \<Rightarrow> bytes \<Rightarrow> bytes \<Rightarrow> bytes \<Rightarrow> sdk_Coin list \<Rightarrow> ('w, 'v, bytes option) op"
where
  "execute k ctx contractAddress caller msg coins =
     bindM (contractInstance k contractAddress) (\<lambda>(contractInfo, codeInfo).
     bindM (chargeSetup k (con_CodeID contractInfo) (code_CodeHash codeInfo) msg ''Loading CosmWasm module: execute'') (\<lambda>_.
     bindM (depositCoins k caller contractAddress coins) (\<lambda>_.
     bindM (liftO (NewEnv (k_addr k) ctx contractAddress)) (\<lambda>env.
     bindM (runContract k ctx contractAddress ErrExecuteFailed
              (vm_Execute (k_vm k) (code_CodeHash codeInfo) env (NewInfo (k_addr k) caller coins) msg)) (\<lambda>res.
     bindM (emitEvent ''execute'' [attr AttributeKeyContractAddr (addr_String (k_addr k) contractAddress)]) (\<lambda>_.
     bindM (derefM res) (\<lambda>r.
     respond k ctx contractAddress (con_IBCPortID contractInfo) r)))))))"

definition Sudo :: "('w, 'v) Keeper \<Rightarrow> ctx \<Rightarrow> bytes \<Rightarrow> bytes \<Rightarrow> ('w, 'v, bytes option) op" where
  "Sudo k ctx contractAddress msg =
     bindM (contractInstance k contractAddress) (\<lambda>(contractInfo, codeInfo).
     bindM (chargeSetup k (con_CodeID contractInfo) (code_CodeHash codeInfo) msg ''Loading CosmWasm module: sudo'') (\<lambda>_.
     bindM (liftO (NewEnv (k_addr k) ctx contractAddress)) (\<lambda>env.
     bindM (runContract k ctx contractAddress ErrExecuteFailed
              (vm_Sudo (k_vm k) (code_CodeHash codeInfo) env msg)) (\<lambda>res.
     bindM (emitEvent ''sudo'' [attr AttributeKeyContractAddr (addr_String (k_addr k) contractAddress)]) (\<lambda>_.
     bindM (derefM res) (\<lambda>r.
     wrapM ''dispatch'' (respond k ctx contractAddress (con_IBCPortID contractInfo) r)))))))"

definition reply :: "('w, 'v) Keeper \<Rightarrow> ctx \<Rightarrow> bytes \<Rightarrow> Reply \<Rightarrow> ('w, 'v, bytes option) op" where
  "reply k ctx contractAddress rep =
     bindM (contractInstance k contractAddress) (\<lambda>(contractInfo, codeInfo).
     bindM (liftO (ReplyCosts (k_gasRegister k) True rep)) (\<lambda>replyCosts.
     bindM (consumeGas replyCosts ''Loading CosmWasm module: reply'') (\<lambda>_.
     bindM (liftO (NewEnv (k_addr k) ctx contractAddress)) (\<lambda>env.
     bindM (runContract k ctx contractAddress ErrExecuteFailed
              (vm_Reply (k_vm k) (code_CodeHash codeInfo) env rep)) (\<lambda>res.
     bindM (emitEvent ''reply'' [attr AttributeKeyContractAddr (addr_String (k_addr k) contractAddress)]) (\<lambda>_.
     bindM (derefM res) (\<lambda>r.
     wrapM ''dispatch'' (respond k ctx contractAddress (con_IBCPortID contractInfo) r))))))))"

section \<open>Migration\<close>

definition callMigrateEntrypoint ::
  "('w, 'v) Keeper \<Rightarrow> ctx \<Rightarrow> bytes \<Rightarrow> bytes \<Rightarrow> bytes \<Rightarrow> u64 \<Rightarrow> bytes \<Rightarrow> u64 option \<Rightarrow>
   ('w, 'v, Response option) op"
where
  "callMigrateEntrypoint k ctx contractAddress newChecksum msg newCodeID senderAddress oldMigrateVersion =
     bindM (chargeSetup k newCodeID newChecksum msg ''Loading CosmWasm module: migrate'') (\<lambda>_.
     bindM (liftO (NewEnv (k_addr k) ctx contractAddress)) (\<lambda>env.
     runContract k ctx contractAddress ErrMigrationFailed
       (vm_MigrateWithInfo (k_vm k) newChecksum env msg
          \<lparr>minfo_Sender = addr_String (k_addr k) senderAddress,
           minfo_OldMigrateVersion = oldMigrateVersion\<rparr>)))"

definition sameMigrateVersion :: "AnalysisReport \<Rightarrow> AnalysisReport \<Rightarrow> bool" where
  "sameMigrateVersion report oldReport \<longleftrightarrow>
     rep_ContractMigrateVersion report \<noteq> None \<and>
     rep_ContractMigrateVersion oldReport \<noteq> None \<and>
     rep_ContractMigrateVersion report = rep_ContractMigrateVersion oldReport"

text \<open>The writes of a migration: the index entry of the old code goes, history and index grow.\<close>

definition persistMigration ::
  "('w, 'v) Keeper \<Rightarrow> ctx \<Rightarrow> bytes \<Rightarrow> ContractInfo \<Rightarrow> u64 \<Rightarrow> bytes \<Rightarrow> ('w, 'v, unit) op"
where
  "persistMigration k ctx contractAddress contractInfo newCodeID msg =
     bindM (mustGetLastContractHistoryEntry contractAddress) (\<lambda>lastEntry.
     bindM (removeFromContractCodeSecondaryIndex contractAddress lastEntry) (\<lambda>_.
     bindM (liftO (AddMigration contractInfo ctx newCodeID msg)) (\<lambda>(historyEntry, contract).
     bindM (appendToContractHistory contractAddress [historyEntry]) (\<lambda>_.
     bindM (addToContractCodeSecondaryIndex contractAddress historyEntry) (\<lambda>_.
     mustStoreContractInfo contractAddress contract)))))"

definition migrate ::
  "('w, 'v) Keeper \<Rightarrow> ctx \<Rightarrow> bytes \<Rightarrow> bytes \<Rightarrow> u64 \<Rightarrow> bytes \<Rightarrow> AuthorizationPolicy \<Rightarrow>
   ('w, 'v, bytes option) op"
where
  "migrate k ctx contractAddress caller newCodeID msg authZ =
     bindM (GetContractInfo contractAddress) (\<lambda>ci.
     case ci of
       None \<Rightarrow> failM (WrappedError ''unknown contract'' ErrInvalidRequest)
     | Some contractInfo \<Rightarrow>
     bindM (liftO (AdminAddr (k_addr k) contractInfo)) (\<lambda>admin.
     bindM (guardM (CanModifyContract authZ admin (Some caller))
              (WrappedError ''can not migrate'' ErrUnauthorized)) (\<lambda>_.
     bindM (GetCodeInfo newCodeID) (\<lambda>nci.
     case nci of
       None \<Rightarrow> failM (WrappedError ''unknown code'' ErrInvalidRequest)
     | Some newCodeInfo \<Rightarrow>
     bindM (liftO (CanInstantiateContract (k_addr k) authZ (code_InstantiateConfig newCodeInfo) caller)) (\<lambda>ok.
     bindM (guardM ok (WrappedError ''to use new code'' ErrUnauthorized)) (\<lambda>_.
     bindM (analyzeCode k ErrVMError (code_CodeHash newCodeInfo)) (\<lambda>report.
     bindM (if \<not> rep_HasIBCEntryPoints report \<and> con_IBCPortID contractInfo \<noteq> []
            then failM (WrappedError ''requires ibc callbacks'' ErrMigrationFailed)
            else if rep_HasIBCEntryPoints report \<and> con_IBCPortID contractInfo = []
            then bindM (ensureIbcPort k contractAddress) (\<lambda>ibcPort.
                 returnM (contractInfo\<lparr>con_IBCPortID := ibcPort\<rparr>))
            else returnM contractInfo) (\<lambda>contract.
     bindM (GetCodeInfo (con_CodeID contract)) (\<lambda>oci.
     bindM (derefM oci) (\<lambda>oldCodeInfo.
     bindM (analyzeCode k ErrVMError (code_CodeHash oldCodeInfo)) (\<lambda>oldReport.
     bindM (if sameMigrateVersion report oldReport then returnM None
            else callMigrateEntrypoint k ctx contractAddress (code_CodeHash newCodeInfo) msg newCodeID caller
                   (rep_ContractMigrateVersion oldReport)) (\<lambda>response.
     bindM (persistMigration k ctx contractAddress contract newCodeID msg) (\<lambda>_.
     bindM (emitEvent ''migrate''
              [attr ''code_id'' (fmt_u64 newCodeID),
               attr AttributeKeyContractAddr (addr_String (k_addr k) contractAddress)]) (\<lambda>_.
     case response of
       None \<Rightarrow> returnM None
     | Some r \<Rightarrow>
         wrapM ''dispatch''
           (respond k (WithSubMsgAuthzPolicy ctx (SubMessageAuthorizationPolicy authZ AuthZActionMigrateContract))
              contractAddress (con_IBCPortID contract) r)))))))))))))))"

section \<open>Depth counters and queries\<close>

definition checkAndIncreaseQueryStackSize :: "ctx \<Rightarrow> u32 \<Rightarrow> go_error + ctx" where
  "checkAndIncreaseQueryStackSize ctx maxQueryStackSize =
     (let queryStackSize = fst (QueryStackSize ctx) + 1
      in if queryStackSize > maxQueryStackSize then Inl ErrExceedMaxQueryStackSize
         else Inr (WithQueryStackSize ctx queryStackSize))"

definition checkAndIncreaseCallDepth :: "ctx \<Rightarrow> u32 \<Rightarrow> go_error + ctx" where
  "checkAndIncreaseCallDepth ctx maxCallDepth =
     (let callDepth = fst (CallDepth ctx) + 1
      in if callDepth > maxCallDepth then Inl ErrExceedMaxCallDepth
         else Inr (WithCallDepth ctx callDepth))"

definition QuerySmart :: "('w, 'v) Keeper \<Rightarrow> ctx \<Rightarrow> bytes \<Rightarrow> bytes \<Rightarrow> ('w, 'v, bytes) op" where
  "QuerySmart k ctx contractAddr req =
     bindM (liftE (checkAndIncreaseQueryStackSize ctx (k_maxQueryStackSize k))) (\<lambda>sdkCtx.
     bindM (contractInstance k contractAddr) (\<lambda>(contractInfo, codeInfo).
     bindM (chargeSetup k (con_CodeID contractInfo) (code_CodeHash codeInfo) req ''Loading CosmWasm module: query'') (\<lambda>_.
     bindM (liftO (NewEnv (k_addr k) sdkCtx contractAddr)) (\<lambda>env.
     bindM (runVM k sdkCtx contractAddr (vm_Query (k_vm k) (code_CodeHash codeInfo) env req)) (\<lambda>res.
     bindM (derefM res) (\<lambda>queryResult.
     if qres_Err queryResult \<noteq> []
     then failM (DeterministicError (WrappedError (qres_Err queryResult) ErrQueryFailed))
     else returnM (qres_Ok queryResult)))))))"

end
