(* ===== verification/Sample_Chain.thy ===== *)
theory Sample_Chain
  imports World
begin

text \<open>
  A small concrete chain on which the witnesses of the development run: addresses are their own
  text, other modules accept everything, codes are identified by their first bytes, contracts
  answer every call with an empty response. It instantiates the parameters of the model and
  models no code.
\<close>

definition sample_codec :: addr_codec where
  "sample_codec = \<lparr>addr_String = (\<lambda>a. a),
     AccAddressFromBech32 =
       (\<lambda>s. if s \<noteq> [] \<and> length s \<le> 255 then Inr s else Inl (PlainError ''invalid address''))\<rparr>"

definition sample_account :: "bytes \<Rightarrow> account" where
  "sample_account a = \<lparr>acc_Address = a, acc_Sequence = 0, acc_PubKey = None, acc_Type = ''base'',
     acc_OriginalVesting = None\<rparr>"

definition sample_sdk :: "unit sdk_ops" where
  "sample_sdk = \<lparr>
     sdk_addr = sample_codec,
     sdk_IsOutOfGas = (\<lambda>m. gm_consumed m \<ge> gm_limit m),
     sdk_GasConsumedToLimit = (\<lambda>m. min (gm_consumed m) (gm_limit m)),
     sdk_address_Module = (\<lambda>_ key. take 32 (key @ replicate 32 (CHR 0x00))),
     sdk_VerifyAddressFormat = (\<lambda>a. a \<noteq> [] \<and> length a \<le> 255),
     sdk_errText = (\<lambda>_. ''error''),
     sdk_ABCIInfo = (\<lambda>e. case e of RegisteredError c n \<Rightarrow> (c, n) | _ \<Rightarrow> (''undefined'', 1)),
     sdk_TrimSpace = (\<lambda>s. s),
     sdk_PrintableOnly = (\<lambda>s. s),
     sdk_json_Valid = (\<lambda>b. b \<noteq> []),
     sdk_ParseRequestURI = (\<lambda>_. None),
     sdk_ParseDockerRef = (\<lambda>_. None),
     sdk_gunzip = (\<lambda>b. Inr (b, None, True)),
     sdk_Coins_Validate = (\<lambda>_. Inr ()),
     sdk_NewIntFromString = (\<lambda>_. Some 1),
     sdk_Coin_Validate = (\<lambda>_. Inr ()),
     sdk_Coins_Add = (\<lambda>cs c. Ok (cs @ [c])),
     sdk_Coins_Sort = (\<lambda>cs. cs),
     sdk_LegacyNewDecFromStr = Inr,
     sdk_GetAccount = (\<lambda>_. returnM None),
     sdk_NewAccountWithAddress = (\<lambda>a. returnM (sample_account a)),
     sdk_SetAccount = (\<lambda>_. returnM ()),
     sdk_IsSendEnabledCoins = (\<lambda>_. returnM ()),
     sdk_BlockedAddr = (\<lambda>_. False),
     sdk_SendCoins = (\<lambda>_ _ _. returnM ()),
     sdk_GetBalance = (\<lambda>_ d. returnM \<lparr>coin_Denom = d, coin_Amount = 0\<rparr>),
     sdk_SendCoinsFromAccountToModule = (\<lambda>_ _ _. returnM ()),
     sdk_BurnCoins = (\<lambda>_ _. returnM ()),
     sdk_PortPath = (\<lambda>p. ''ports/'' @ p),
     sdk_ChannelCapabilityPath = (\<lambda>p c. p @ ''/'' @ c),
     sdk_GetCapability = (\<lambda>_. returnM (Some 0)),
     sdk_ClaimCapability = (\<lambda>_ _. returnM ()),
     sdk_AuthenticateCapability = (\<lambda>_ _. returnM False),
     sdk_GetChannel = (\<lambda>_ _. returnM (Some \<lparr>chan_State = 3, chan_Ordering = ''ORDER_UNORDERED'',
       chan_CounterpartyPortId = ''other'', chan_CounterpartyChannelId = ''channel-1'',
       chan_ConnectionHops = [''connection-0''], chan_Version = ''v1''\<rparr>)),
     sdk_GetAppVersion = (\<lambda>_ _. returnM (Some ''v1'')),
     sdk_ErrChannelNotFound = PlainError ''channel not found'',
     sdk_ErrInvalidChannelVersion = PlainError ''invalid channel version'',
     sdk_ParseChannelSequence = (\<lambda>_. Inr 0),
     sdk_NewErrorAcknowledgement = (\<lambda>_. ''error''),
     sdk_BindPort = (\<lambda>_. returnM 0),
     sdk_MaxTitleLength = 140, sdk_MaxDescriptionLength = 10000,
     sdk_ErrInvalidProposalContent = PlainError ''invalid proposal content'',
     sdk_TransferPort = returnM ''transfer'',
     sdk_SendPacket = (\<lambda>_ _ _ _ _ _. returnM 1),
     sdk_WriteAcknowledgement = (\<lambda>_ _ _. returnM ())\<rparr>"

definition sample_report :: AnalysisReport where
  "sample_report = \<lparr>rep_HasIBCEntryPoints = False, rep_RequiredCapabilities = [], rep_Entrypoints = [],
     rep_ContractMigrateVersion = None\<rparr>"

definition sample_response :: Response where
  "sample_response = \<lparr>resp_Messages = [], resp_Data = None, resp_Attributes = [], resp_Events = []\<rparr>"

definition sample_call :: "'r \<Rightarrow> 'r vm_call" where
  "sample_call r = (\<lambda>local query meter gas. (Inr (Some r), 1, local, meter))"

definition sample_vm :: "unit wasm_engine" where
  "sample_vm = (let result = \<lparr>cr_Ok = Some sample_response, cr_Err = []\<rparr>;
       basic = \<lparr>basic_Ok = Some \<lparr>basic_Messages = [], basic_Attributes = [], basic_Events = []\<rparr>, basic_Err = []\<rparr> in \<lparr>
     vm_StoreCode = (\<lambda>code _ v. ((take 32 (code @ replicate 32 (CHR 0x00)), 1, None), v)),
     vm_StoreCodeUnchecked = (\<lambda>code v. (Inr (take 32 (code @ replicate 32 (CHR 0x00))), v)),
     vm_AnalyzeCode = (\<lambda>_ _. Inr sample_report),
     vm_GetCode = (\<lambda>c _. Inr c),
     vm_Pin = (\<lambda>_ v. (None, v)),
     vm_Unpin = (\<lambda>_ v. (None, v)),
     vm_Instantiate = (\<lambda>_ _ _ _. sample_call result),
     vm_Execute = (\<lambda>_ _ _ _. sample_call result),
     vm_MigrateWithInfo = (\<lambda>_ _ _ _. sample_call result),
     vm_Sudo = (\<lambda>_ _ _. sample_call result),
     vm_Reply = (\<lambda>_ _ _. sample_call result),
     vm_Query = (\<lambda>_ _ _. sample_call \<lparr>qres_Ok = ''{}'', qres_Err = []\<rparr>),
     vm_IBCChannelOpen = (\<lambda>_ _ _. sample_call \<lparr>open_Ok = None, open_Err = []\<rparr>),
     vm_IBCChannelConnect = (\<lambda>_ _ _. sample_call basic),
     vm_IBCChannelClose = (\<lambda>_ _ _. sample_call basic),
     vm_IBCPacketReceive = (\<lambda>_ _ _. sample_call
        \<lparr>recv_Ok = Some \<lparr>recv_Acknowledgement = None, recv_Messages = [], recv_Attributes = [], recv_Events = []\<rparr>,
         recv_Err = []\<rparr>),
     vm_IBCPacketAck = (\<lambda>_ _ _. sample_call basic),
     vm_IBCPacketTimeout = (\<lambda>_ _ _. sample_call basic),
     vm_IBCSourceCallback = (\<lambda>_ _ _. sample_call basic),
     vm_IBCDestinationCallback = (\<lambda>_ _ _. sample_call basic)\<rparr>)"

definition sample_keeper :: "(unit, unit) Keeper" where
  "sample_keeper = \<lparr>
     k_sdk = sample_sdk, k_vm = sample_vm,
     k_bank = (\<lambda>_ _ _. returnM ()),
     k_queryHandler = (\<lambda>_ _ _. returnM []),
     k_responseHandler = (\<lambda>_ _ _ _ d. returnM d),
     k_messenger = (\<lambda>_ _ _ _. returnM ([], [], [])),
     k_queryGasLimit = 3000000, k_gasRegister = DefaultGasRegisterConfig,
     k_maxQueryStackSize = 10, k_maxCallDepth = 500,
     k_acceptedAccountTypes = {''base''},
     k_accountPruner = (\<lambda>_. returnM False),
     k_propagateGovAuthorization = {AuthZActionMigrateContract, AuthZActionInstantiate},
     k_authority = ''gov''\<rparr>"

definition sample_ctx :: ctx where
  "sample_ctx = \<lparr>ctx_BlockHeight = 7, ctx_BlockTime = 1, ctx_ChainID = ''test'', ctx_BlockGas = Some 5,
     ctx_TXCounter = None, ctx_QueryStackSize = None, ctx_SubMsgAuthzPolicy = None, ctx_CallDepth = None\<rparr>"

definition sample_world :: "store_value items \<Rightarrow> (unit, unit) world" where
  "sample_world items = \<lparr>w_store = items,
     w_env = \<lparr>es_ext = (), es_meter = NewGasMeter 1000000, es_events = []\<rparr>, w_vm = (), w_tx = Some {}\<rparr>"

lemmas sample_defs = sample_sdk_def sample_keeper_def sample_vm_def sample_codec_def sample_ctx_def
  sample_world_def sample_call_def sample_report_def sample_response_def

end
