(* ===== verification/Encoders.thy ===== *)
theory Encoders
  imports Keeper_Calls Sample_Chain
begin

text \<open>
  \<open>keeper/handler_plugin_encoders.go\<close>: how a message of a contract becomes messages of the chain.
  The messages of other modules are constructors that hold the fields the encoders set; a message
  unpacked from an \<open>Any\<close> may also be one this module does not know.
\<close>

section \<open>Chain messages\<close>

datatype gov_VoteOption = OptionYes | OptionNo | OptionNoWithVeto | OptionAbstain

datatype sdk_Msg =
    StoreCodeMsg MsgStoreCode
  | InstantiateContractMsg MsgInstantiateContract
  | InstantiateContract2Msg MsgInstantiateContract2
  | ExecuteContractMsg MsgExecuteContract
  | MigrateContractMsg MsgMigrateContract
  | UpdateAdminMessage MsgUpdateAdmin
  | ClearAdminMessage MsgClearAdmin
  | UpdateInstantiateConfigMsg MsgUpdateInstantiateConfig
  | UpdateParamsMsg MsgUpdateParams
  | PinCodesMsg MsgPinCodes
  | UnpinCodesMsg MsgUnpinCodes
  | SudoContractMsg MsgSudoContract
  | StoreAndInstantiateContractMsg MsgStoreAndInstantiateContract
  | AddCodeUploadParamsAddressesMsg MsgAddCodeUploadParamsAddresses
  | RemoveCodeUploadParamsAddressesMsg MsgRemoveCodeUploadParamsAddresses
  | StoreAndMigrateContractMsg MsgStoreAndMigrateContract
  | UpdateContractLabelMsg MsgUpdateContractLabel
  | BankSend string string "sdk_Coin list"
  | SetWithdrawAddress string string
  | WithdrawDelegatorReward string string
  | FundCommunityPool string "sdk_Coin list"
  | StakingDelegate string string sdk_Coin
  | BeginRedelegate string string string sdk_Coin
  | StakingUndelegate string string sdk_Coin
  | GovVote string u64 gov_VoteOption
  | GovVoteWeighted string u64 "(gov_VoteOption \<times> string) list"
  | ChannelCloseInit string string string
  | IBCTransfer string string sdk_Coin string string "u64 \<times> u64" u64 string
  | PayPacketFee string "sdk_Coin list \<times> sdk_Coin list \<times> sdk_Coin list" string string "string list"
  | PayPacketFeeAsync string "sdk_Coin list \<times> sdk_Coin list \<times> sdk_Coin list" string string u64 "string list"
  | OtherMsg string bytes

section \<open>Conversions\<close>

definition ConvertWasmCoinToSdkCoin :: "'w sdk_ops \<Rightarrow> Coin \<Rightarrow> sdk_Coin outcome" where
  "ConvertWasmCoinToSdkCoin sdk coin =
     (case sdk_NewIntFromString sdk (vcoin_Amount coin) of
        None \<Rightarrow> Err (WrappedError (vcoin_Amount coin @ vcoin_Denom coin) ErrInvalidCoins)
      | Some amount \<Rightarrow>
          let r = \<lparr>coin_Denom = vcoin_Denom coin, coin_Amount = amount\<rparr>
          in case sdk_Coin_Validate sdk r of Inl e \<Rightarrow> Err e | Inr _ \<Rightarrow> Ok r)"

fun addWasmCoins :: "'w sdk_ops \<Rightarrow> sdk_Coin list \<Rightarrow> Coin list \<Rightarrow> sdk_Coin list outcome" where
  "addWasmCoins sdk toSend [] = Ok toSend"
| "addWasmCoins sdk toSend (coin # coins) =
     bindO (ConvertWasmCoinToSdkCoin sdk coin) (\<lambda>c.
     bindO (sdk_Coins_Add sdk toSend c) (\<lambda>toSend'.
     addWasmCoins sdk toSend' coins))"

definition ConvertWasmCoinsToSdkCoins :: "'w sdk_ops \<Rightarrow> Coin list \<Rightarrow> sdk_Coin list outcome" where
  "ConvertWasmCoinsToSdkCoins sdk coins =
     bindO (addWasmCoins sdk [] coins) (\<lambda>toSend. Ok (sdk_Coins_Sort sdk toSend))"

definition ConvertIBCFee ::
  "'w sdk_ops \<Rightarrow> IBCFee \<Rightarrow> (sdk_Coin list \<times> sdk_Coin list \<times> sdk_Coin list) outcome"
where
  "ConvertIBCFee sdk fee =
     bindO (ConvertWasmCoinsToSdkCoins sdk (fee_AckFee fee)) (\<lambda>ackFee.
     bindO (ConvertWasmCoinsToSdkCoins sdk (fee_ReceiveFee fee)) (\<lambda>recvFee.
     bindO (ConvertWasmCoinsToSdkCoins sdk (fee_TimeoutFee fee)) (\<lambda>timeoutFee.
     Ok (ackFee, recvFee, timeoutFee))))"

fun ConvertWasmIBCTimeoutHeightToCosmosHeight :: "IBCTimeoutBlock option \<Rightarrow> u64 \<times> u64" where
  "ConvertWasmIBCTimeoutHeightToCosmosHeight None = (0, 0)"
| "ConvertWasmIBCTimeoutHeightToCosmosHeight (Some b) = (tb_Revision b, tb_Height b)"

fun convertVoteOption :: "voteOption \<Rightarrow> gov_VoteOption outcome" where
  "convertVoteOption Yes = Ok OptionYes"
| "convertVoteOption No = Ok OptionNo"
| "convertVoteOption NoWithVeto = Ok OptionNoWithVeto"
| "convertVoteOption Abstain = Ok OptionAbstain"
| "convertVoteOption UnsetVoteOption = Err ErrInvalid"

definition wrapO :: "string \<Rightarrow> 'a outcome \<Rightarrow> 'a outcome" where
  "wrapO d r = (case r of Err e \<Rightarrow> Err (WrappedError d e) | _ \<Rightarrow> r)"

section \<open>Encoders\<close>

definition EncodeBankMsg :: "'w sdk_ops \<Rightarrow> bytes \<Rightarrow> BankMsg \<Rightarrow> sdk_Msg list outcome" where
  "EncodeBankMsg sdk sender msg =
     (case bank_Send msg of
        None \<Rightarrow> Err (WrappedError ''unknown variant of Bank'' ErrUnknownMsg)
      | Some send \<Rightarrow>
          if send_Amount send = [] then Ok []
          else bindO (ConvertWasmCoinsToSdkCoins sdk (send_Amount send)) (\<lambda>toSend.
               Ok [BankSend (addr_String (sdk_addr sdk) sender) (send_ToAddress send) toSend]))"

definition NoCustomMsg :: "bytes \<Rightarrow> bytes \<Rightarrow> sdk_Msg list outcome" where
  "NoCustomMsg sender msg = Err (WrappedError ''custom variant not supported'' ErrUnknownMsg)"

definition EncodeDistributionMsg ::
  "'w sdk_ops \<Rightarrow> bytes \<Rightarrow> DistributionMsg \<Rightarrow> sdk_Msg list outcome"
where
  "EncodeDistributionMsg sdk sender msg =
     (case dist_SetWithdrawAddress msg of
        Some address \<Rightarrow> Ok [SetWithdrawAddress (addr_String (sdk_addr sdk) sender) address]
      | None \<Rightarrow>
     case dist_WithdrawDelegatorReward msg of
        Some validator \<Rightarrow> Ok [WithdrawDelegatorReward (addr_String (sdk_addr sdk) sender) validator]
      | None \<Rightarrow>
     case dist_FundCommunityPool msg of
        Some amount \<Rightarrow>
          bindO (ConvertWasmCoinsToSdkCoins sdk amount) (\<lambda>amt.
          Ok [FundCommunityPool (addr_String (sdk_addr sdk) sender) amt])
      | None \<Rightarrow> Err (WrappedError ''unknown variant of Distribution'' ErrUnknownMsg))"

definition EncodeStakingMsg :: "'w sdk_ops \<Rightarrow> bytes \<Rightarrow> StakingMsg \<Rightarrow> sdk_Msg list outcome" where
  "EncodeStakingMsg sdk sender msg =
     (let from = addr_String (sdk_addr sdk) sender in
      case stk_Delegate msg of
        Some d \<Rightarrow>
          bindO (ConvertWasmCoinToSdkCoin sdk (dele_Amount d)) (\<lambda>coin.
          Ok [StakingDelegate from (dele_Validator d) coin])
      | None \<Rightarrow>
      case stk_Redelegate msg of
        Some r \<Rightarrow>
          bindO (ConvertWasmCoinToSdkCoin sdk (red_Amount r)) (\<lambda>coin.
          Ok [BeginRedelegate from (red_SrcValidator r) (red_DstValidator r) coin])
      | None \<Rightarrow>
      case stk_Undelegate msg of
        Some u \<Rightarrow>
          bindO (ConvertWasmCoinToSdkCoin sdk (und_Amount u)) (\<lambda>coin.
          Ok [StakingUndelegate from (und_Validator u) coin])
      | None \<Rightarrow> Err (WrappedError ''unknown variant of Staking'' ErrUnknownMsg))"

text \<open>Unpacking, of the message and of the interfaces inside it, is the codec's.\<close>

definition EncodeAnyMsg ::
  "(AnyMsg \<Rightarrow> sdk_Msg option) \<Rightarrow> (sdk_Msg \<Rightarrow> string option) \<Rightarrow> bytes \<Rightarrow> AnyMsg \<Rightarrow> sdk_Msg list outcome"
where
  "EncodeAnyMsg unpackAny unpackInterfaces sender msg =
     (case unpackAny msg of
        None \<Rightarrow> Err (WrappedError (''Cannot unpack proto message with type URL: '' @ any_TypeURL msg) ErrInvalidMsg)
      | Some sdkMsg \<Rightarrow>
          case unpackInterfaces sdkMsg of
            Some err \<Rightarrow> Err (WrappedError (''UnpackInterfaces inside msg: '' @ err) ErrInvalidMsg)
          | None \<Rightarrow> Ok [sdkMsg])"

definition EncodeWasmMsg :: "'w sdk_ops \<Rightarrow> bytes \<Rightarrow> WasmMsg \<Rightarrow> sdk_Msg list outcome" where
  "EncodeWasmMsg sdk sender msg =
     (let from = addr_String (sdk_addr sdk) sender in
      case wasm_Execute msg of
        Some m \<Rightarrow>
          bindO (ConvertWasmCoinsToSdkCoins sdk (exm_Funds m)) (\<lambda>coins.
          Ok [ExecuteContractMsg \<lparr>ec_Sender = from, ec_Contract = exm_ContractAddr m,
                ec_Msg = exm_Msg m, ec_Funds = coins\<rparr>])
      | None \<Rightarrow>
      case wasm_Instantiate msg of
        Some m \<Rightarrow>
          bindO (ConvertWasmCoinsToSdkCoins sdk (inm_Funds m)) (\<lambda>coins.
          Ok [InstantiateContractMsg \<lparr>ic_Sender = from, ic_Admin = inm_Admin m, ic_CodeID = inm_CodeID m,
                ic_Label = inm_Label m, ic_Msg = inm_Msg m, ic_Funds = coins\<rparr>])
      | None \<Rightarrow>
      case wasm_Instantiate2 msg of
        Some m \<Rightarrow>
          bindO (ConvertWasmCoinsToSdkCoins sdk (in2_Funds m)) (\<lambda>coins.
          Ok [InstantiateContract2Msg \<lparr>i2_Sender = from, i2_Admin = in2_Admin m, i2_CodeID = in2_CodeID m,
                i2_Label = in2_Label m, i2_Msg = in2_Msg m, i2_Funds = coins, i2_Salt = in2_Salt m,
                i2_FixMsg = False\<rparr>])
      | None \<Rightarrow>
      case wasm_Migrate msg of
        Some m \<Rightarrow>
          Ok [MigrateContractMsg \<lparr>mc_Sender = from, mc_Contract = mgm_ContractAddr m,
                mc_CodeID = mgm_NewCodeID m, mc_Msg = mgm_Msg m\<rparr>]
      | None \<Rightarrow>
      case wasm_ClearAdmin msg of
        Some m \<Rightarrow> Ok [ClearAdminMessage \<lparr>ca_Sender = from, ca_Contract = cam_ContractAddr m\<rparr>]
      | None \<Rightarrow>
      case wasm_UpdateAdmin msg of
        Some m \<Rightarrow>
          Ok [UpdateAdminMessage \<lparr>ua_Sender = from, ua_NewAdmin = uam_Admin m, ua_Contract = uam_ContractAddr m\<rparr>]
      | None \<Rightarrow> Err (WrappedError ''unknown variant of Wasm'' ErrUnknownMsg))"

definition EncodeIBCMsg ::
  "'w sdk_ops \<Rightarrow> ctx \<Rightarrow> bytes \<Rightarrow> string \<Rightarrow> IBCMsg \<Rightarrow> ('w, 'v, sdk_Msg list) op"
where
  "EncodeIBCMsg sdk ctx sender contractIBCPortID msg =
     (let from = addr_String (sdk_addr sdk) sender in
      case ibc_CloseChannel msg of
        Some c \<Rightarrow> returnM [ChannelCloseInit from (PortIDForContract (sdk_addr sdk) sender) (cc_ChannelID c)]
      | None \<Rightarrow>
      case ibc_Transfer msg of
        Some t \<Rightarrow>
          bindM (liftO (wrapO ''amount'' (ConvertWasmCoinToSdkCoin sdk (transfer_Amount t)))) (\<lambda>amount.
          bindM (liftX (sdk_TransferPort sdk)) (\<lambda>port.
          returnM [IBCTransfer port (transfer_ChannelID t) amount from (transfer_ToAddress t)
            (ConvertWasmIBCTimeoutHeightToCosmosHeight (to_Block (transfer_Timeout t)))
            (to_Timestamp (transfer_Timeout t)) (transfer_Memo t)]))
      | None \<Rightarrow>
      case ibc_PayPacketFee msg of
        Some p \<Rightarrow>
          bindM (liftO (wrapO ''fee'' (ConvertIBCFee sdk (pf_Fee p)))) (\<lambda>fee.
          returnM [PayPacketFee from fee (pf_PortID p) (pf_ChannelID p) (pf_Relayers p)])
      | None \<Rightarrow>
      case ibc_PayPacketFeeAsync msg of
        Some p \<Rightarrow>
          bindM (liftO (wrapO ''fee'' (ConvertIBCFee sdk (pfa_Fee p)))) (\<lambda>fee.
          returnM [PayPacketFeeAsync from fee (pfa_PortID p) (pfa_ChannelID p) (pfa_Sequence p) (pfa_Relayers p)])
      | None \<Rightarrow> failM (WrappedError ''unknown variant of IBC'' ErrUnknownMsg))"

fun convertWeighted ::
  "'w sdk_ops \<Rightarrow> nat \<Rightarrow> WeightedVoteOption list \<Rightarrow> (gov_VoteOption \<times> string) list outcome"
where
  "convertWeighted sdk i [] = Ok []"
| "convertWeighted sdk i (v # vs) =
     (case sdk_LegacyNewDecFromStr sdk (wvo_Weight v) of
        Inl e \<Rightarrow> Err (WrappedError (''weight for vote '' @ dec_string (i + 1)) e)
      | Inr weight \<Rightarrow>
          bindO (wrapO ''vote option'' (convertVoteOption (wvo_Option v))) (\<lambda>opt.
          bindO (convertWeighted sdk (i + 1) vs) (\<lambda>opts. Ok ((opt, weight) # opts))))"

definition EncodeGovMsg :: "'w sdk_ops \<Rightarrow> bytes \<Rightarrow> GovMsg \<Rightarrow> sdk_Msg list outcome" where
  "EncodeGovMsg sdk sender msg =
     (let from = addr_String (sdk_addr sdk) sender in
      case gov_Vote msg of
        Some v \<Rightarrow>
          bindO (wrapO ''vote option'' (convertVoteOption (vote_Option v))) (\<lambda>opt.
          Ok [GovVote from (vote_ProposalId v) opt])
      | None \<Rightarrow>
      case gov_VoteWeighted msg of
        Some v \<Rightarrow>
          bindO (convertWeighted sdk 0 (vw_Options v)) (\<lambda>opts.
          Ok [GovVoteWeighted from (vw_ProposalId v) opts])
      | None \<Rightarrow> Err (WrappedError ''unknown variant of gov'' ErrUnknownMsg))"

record ('w, 'v) MessageEncoders =
  enc_Bank :: "bytes \<Rightarrow> BankMsg \<Rightarrow> sdk_Msg list outcome"
  enc_Custom :: "bytes \<Rightarrow> bytes \<Rightarrow> sdk_Msg list outcome"
  enc_Distribution :: "bytes \<Rightarrow> DistributionMsg \<Rightarrow> sdk_Msg list outcome"
  enc_IBC :: "ctx \<Rightarrow> bytes \<Rightarrow> string \<Rightarrow> IBCMsg \<Rightarrow> ('w, 'v, sdk_Msg list) op"
  enc_Staking :: "bytes \<Rightarrow> StakingMsg \<Rightarrow> sdk_Msg list outcome"
  enc_Any :: "bytes \<Rightarrow> AnyMsg \<Rightarrow> sdk_Msg list outcome"
  enc_Wasm :: "bytes \<Rightarrow> WasmMsg \<Rightarrow> sdk_Msg list outcome"
  enc_Gov :: "bytes \<Rightarrow> GovMsg \<Rightarrow> sdk_Msg list outcome"

definition DefaultEncoders ::
  "'w sdk_ops \<Rightarrow> (AnyMsg \<Rightarrow> sdk_Msg option) \<Rightarrow> (sdk_Msg \<Rightarrow> string option) \<Rightarrow> ('w, 'v) MessageEncoders"
where
  "DefaultEncoders sdk unpackAny unpackInterfaces =
     \<lparr>enc_Bank = EncodeBankMsg sdk, enc_Custom = NoCustomMsg,
      enc_Distribution = EncodeDistributionMsg sdk, enc_IBC = EncodeIBCMsg sdk,
      enc_Staking = EncodeStakingMsg sdk, enc_Any = EncodeAnyMsg unpackAny unpackInterfaces,
      enc_Wasm = EncodeWasmMsg sdk, enc_Gov = EncodeGovMsg sdk\<rparr>"

text \<open>Custom encoders are fields that may be nil.\<close>

record ('w, 'v) CustomEncoders =
  cust_Bank :: "(bytes \<Rightarrow> BankMsg \<Rightarrow> sdk_Msg list outcome) option"
  cust_Custom :: "(bytes \<Rightarrow> bytes \<Rightarrow> sdk_Msg list outcome) option"
  cust_Distribution :: "(bytes \<Rightarrow> DistributionMsg \<Rightarrow> sdk_Msg list outcome) option"
  cust_IBC :: "(ctx \<Rightarrow> bytes \<Rightarrow> string \<Rightarrow> IBCMsg \<Rightarrow> ('w, 'v, sdk_Msg list) op) option"
  cust_Staking :: "(bytes \<Rightarrow> StakingMsg \<Rightarrow> sdk_Msg list outcome) option"
  cust_Any :: "(bytes \<Rightarrow> AnyMsg \<Rightarrow> sdk_Msg list outcome) option"
  cust_Wasm :: "(bytes \<Rightarrow> WasmMsg \<Rightarrow> sdk_Msg list outcome) option"
  cust_Gov :: "(bytes \<Rightarrow> GovMsg \<Rightarrow> sdk_Msg list outcome) option"

definition orElse :: "'a option \<Rightarrow> 'a \<Rightarrow> 'a" where
  "orElse f d = (case f of None \<Rightarrow> d | Some x \<Rightarrow> x)"

definition MessageEncoders_Merge ::
  "('w, 'v) MessageEncoders \<Rightarrow> ('w, 'v) CustomEncoders option \<Rightarrow> ('w, 'v) MessageEncoders"
where
  "MessageEncoders_Merge e other =
     (case other of
        None \<Rightarrow> e
      | Some c \<Rightarrow>
          \<lparr>enc_Bank = orElse (cust_Bank c) (enc_Bank e),
           enc_Custom = orElse (cust_Custom c) (enc_Custom e),
           enc_Distribution = orElse (cust_Distribution c) (enc_Distribution e),
           enc_IBC = orElse (cust_IBC c) (enc_IBC e),
           enc_Staking = orElse (cust_Staking c) (enc_Staking e),
           enc_Any = orElse (cust_Any c) (enc_Any e),
           enc_Wasm = orElse (cust_Wasm c) (enc_Wasm e),
           enc_Gov = orElse (cust_Gov c) (enc_Gov e)\<rparr>)"

text \<open>The case for governance messages does not use the field.\<close>

definition MessageEncoders_Encode ::
  "'w sdk_ops \<Rightarrow> ('w, 'v) MessageEncoders \<Rightarrow> ctx \<Rightarrow> bytes \<Rightarrow> string \<Rightarrow> CosmosMsg \<Rightarrow> ('w, 'v, sdk_Msg list) op"
where
  "MessageEncoders_Encode sdk e ctx contractAddr contractIBCPortID msg =
     (case cm_Bank msg of Some m \<Rightarrow> liftO (enc_Bank e contractAddr m) | None \<Rightarrow>
      case cm_Custom msg of Some m \<Rightarrow> liftO (enc_Custom e contractAddr m) | None \<Rightarrow>
      case cm_Distribution msg of Some m \<Rightarrow> liftO (enc_Distribution e contractAddr m) | None \<Rightarrow>
      case cm_IBC msg of Some m \<Rightarrow> enc_IBC e ctx contractAddr contractIBCPortID m | None \<Rightarrow>
      case cm_Staking msg of Some m \<Rightarrow> liftO (enc_Staking e contractAddr m) | None \<Rightarrow>
      case cm_Any msg of Some m \<Rightarrow> liftO (enc_Any e contractAddr m) | None \<Rightarrow>
      case cm_Wasm msg of Some m \<Rightarrow> liftO (enc_Wasm e contractAddr m) | None \<Rightarrow>
      case cm_Gov msg of Some m \<Rightarrow> liftO (EncodeGovMsg sdk contractAddr m) | None \<Rightarrow>
      failM (WrappedError ''unknown variant of Wasm'' ErrUnknownMsg))"

section \<open>Who sends an encoded message\<close>

fun sent_by :: "string \<Rightarrow> sdk_Msg \<Rightarrow> bool" where
  "sent_by a (ExecuteContractMsg m) \<longleftrightarrow> ec_Sender m = a"
| "sent_by a (InstantiateContractMsg m) \<longleftrightarrow> ic_Sender m = a"
| "sent_by a (InstantiateContract2Msg m) \<longleftrightarrow> i2_Sender m = a \<and> \<not> i2_FixMsg m"
| "sent_by a (MigrateContractMsg m) \<longleftrightarrow> mc_Sender m = a"
| "sent_by a (ClearAdminMessage m) \<longleftrightarrow> ca_Sender m = a"
| "sent_by a (UpdateAdminMessage m) \<longleftrightarrow> ua_Sender m = a"
| "sent_by a (BankSend s _ _) \<longleftrightarrow> s = a"
| "sent_by a (SetWithdrawAddress s _) \<longleftrightarrow> s = a"
| "sent_by a (WithdrawDelegatorReward s _) \<longleftrightarrow> s = a"
| "sent_by a (FundCommunityPool s _) \<longleftrightarrow> s = a"
| "sent_by a (StakingDelegate s _ _) \<longleftrightarrow> s = a"
| "sent_by a (BeginRedelegate s _ _ _) \<longleftrightarrow> s = a"
| "sent_by a (StakingUndelegate s _ _) \<longleftrightarrow> s = a"
| "sent_by a (GovVote s _ _) \<longleftrightarrow> s = a"
| "sent_by a (GovVoteWeighted s _ _) \<longleftrightarrow> s = a"
| "sent_by a (ChannelCloseInit s port _) \<longleftrightarrow> s = a \<and> port = portIDPrefix @ a"
| "sent_by a (IBCTransfer _ _ _ s _ _ _ _) \<longleftrightarrow> s = a"
| "sent_by a (PayPacketFee s _ _ _ _) \<longleftrightarrow> s = a"
| "sent_by a (PayPacketFeeAsync s _ _ _ _ _) \<longleftrightarrow> s = a"
| "sent_by a _ \<longleftrightarrow> False"

abbreviation sent_from :: "'w sdk_ops \<Rightarrow> bytes \<Rightarrow> sdk_Msg list \<Rightarrow> bool" where
  "sent_from sdk contract msgs \<equiv> length msgs \<le> 1 \<and> list_all (sent_by (addr_String (sdk_addr sdk) contract)) msgs"

lemma EncodeBankMsg_sent: "EncodeBankMsg sdk c m = Ok msgs \<Longrightarrow> sent_from sdk c msgs"
  by (auto simp: EncodeBankMsg_def bindO_Ok_iff split: option.splits if_splits)

lemma EncodeDistributionMsg_sent: "EncodeDistributionMsg sdk c m = Ok msgs \<Longrightarrow> sent_from sdk c msgs"
  by (auto simp: EncodeDistributionMsg_def bindO_Ok_iff split: option.splits)

lemma EncodeStakingMsg_sent: "EncodeStakingMsg sdk c m = Ok msgs \<Longrightarrow> sent_from sdk c msgs"
  by (auto simp: EncodeStakingMsg_def Let_def bindO_Ok_iff split: option.splits)

lemma EncodeWasmMsg_sent: "EncodeWasmMsg sdk c m = Ok msgs \<Longrightarrow> sent_from sdk c msgs"
  by (auto simp: EncodeWasmMsg_def Let_def bindO_Ok_iff split: option.splits)

lemma EncodeGovMsg_sent: "EncodeGovMsg sdk c m = Ok msgs \<Longrightarrow> sent_from sdk c msgs"
  by (auto simp: EncodeGovMsg_def Let_def bindO_Ok_iff split: option.splits)

lemma liftX_store: "liftX m w = (r, w') \<Longrightarrow> w_store w' = w_store w \<and> w_vm w' = w_vm w \<and> w_tx w' = w_tx w"
  by (auto simp: liftX_def split: prod.splits)

lemma EncodeIBCMsg_sent:
  assumes "EncodeIBCMsg sdk ctx c port m w = (Ok msgs, w')"
  shows "sent_from sdk c msgs \<and> w_store w' = w_store w"
  using assms
  by (auto simp: EncodeIBCMsg_def Let_def prog_Ok_iffs PortIDForContract_def
      split: option.splits elim!: bindM_Ok_E dest!: liftX_store)

text \<open>
  C40: Whatever message a contract returns (other than a raw \<open>Any\<close>), the default encoders turn it
  into at most one chain message, whose sender is the contract itself; closing a channel names the
  contract's own port, and an address fixed by the message is never asked for. Encoding leaves the
  module's store alone.
\<close>

theorem encoded_messages_sent_by_contract:
  assumes "MessageEncoders_Encode sdk (DefaultEncoders sdk unpackAny unpackInterfaces) ctx contract port msg w
             = (Ok msgs, w')"
    and "cm_Any msg = None"
  shows "length msgs \<le> 1 \<and> list_all (sent_by (addr_String (sdk_addr sdk) contract)) msgs \<and>
         w_store w' = w_store w"
  using assms
  by (auto simp: MessageEncoders_Encode_def DefaultEncoders_def NoCustomMsg_def prog_Ok_iffs
      split: option.splits
      dest!: EncodeBankMsg_sent EncodeDistributionMsg_sent EncodeIBCMsg_sent EncodeStakingMsg_sent
        EncodeWasmMsg_sent EncodeGovMsg_sent)

theorem encoded_messages_sent_by_contract_witness:
  "let msg = \<lparr>cm_Bank = Some \<lparr>bank_Send = Some \<lparr>send_ToAddress = ''bob'',
                 send_Amount = [\<lparr>vcoin_Denom = ''x'', vcoin_Amount = ''1''\<rparr>]\<rparr>, bank_Burn = None\<rparr>,
              cm_Custom = None, cm_Distribution = None, cm_Gov = None, cm_IBC = None,
              cm_Staking = None, cm_Any = None, cm_Wasm = None\<rparr>;
       sent = [BankSend ''contract'' ''bob'' [\<lparr>coin_Denom = ''x'', coin_Amount = 1\<rparr>]]
   in MessageEncoders_Encode sample_sdk (DefaultEncoders sample_sdk (\<lambda>_. None) (\<lambda>_. None)) sample_ctx
        ''contract'' [] msg (sample_world []) = (Ok sent, sample_world []) \<and>
      list_all (sent_by (addr_String (sdk_addr sample_sdk) ''contract'')) sent"
  using encoded_messages_sent_by_contract
    [of sample_sdk "\<lambda>_. None" "\<lambda>_. None" sample_ctx "''contract''" "[]"
        "\<lparr>cm_Bank = Some \<lparr>bank_Send = Some \<lparr>send_ToAddress = ''bob'',
            send_Amount = [\<lparr>vcoin_Denom = ''x'', vcoin_Amount = ''1''\<rparr>]\<rparr>, bank_Burn = None\<rparr>,
          cm_Custom = None, cm_Distribution = None, cm_Gov = None, cm_IBC = None,
          cm_Staking = None, cm_Any = None, cm_Wasm = None\<rparr>"
        "sample_world []" "[BankSend ''contract'' ''bob'' [\<lparr>coin_Denom = ''x'', coin_Amount = 1\<rparr>]]"
        "sample_world []"]
  by (simp add: MessageEncoders_Encode_def DefaultEncoders_def EncodeBankMsg_def liftO_def
      ConvertWasmCoinsToSdkCoins_def ConvertWasmCoinToSdkCoin_def sample_sdk_def sample_codec_def)

end
