(* ===== verification/Dispatcher.thy ===== *)
theory Dispatcher
  imports Keeper_Contracts Encoders
begin

text \<open>
  How the messages of a contract are run: \<open>keeper/msg_dispatcher.go\<close> (submessages with their
  sandbox, gas limit and reply) and \<open>keeper/handler_plugin.go\<close> (the chain of message handlers),
  and the default response handler of \<open>keeper/keeper.go\<close>.
\<close>

section \<open>Submessages\<close>

type_synonym ('w, 'v) replyer = "ctx \<Rightarrow> bytes \<Rightarrow> Reply \<Rightarrow> ('w, 'v, bytes option) op"

primrec DispatchMessages ::
  "('w, 'v) messenger \<Rightarrow> ctx \<Rightarrow> bytes \<Rightarrow> string \<Rightarrow> CosmosMsg list \<Rightarrow> ('w, 'v, unit) op"
where
  "DispatchMessages messenger ctx contractAddr ibcPort [] = returnM ()"
| "DispatchMessages messenger ctx contractAddr ibcPort (msg # msgs) =
     bindM (messenger ctx contractAddr ibcPort msg) (\<lambda>(events, _).
     bindM (emitEvents events) (\<lambda>_.
     DispatchMessages messenger ctx contractAddr ibcPort msgs))"

text \<open>
  A message with a gas limit runs on its own meter, and the caller is charged what it spent.
  Running out of gas, inside or when the caller is charged, is caught: then the whole limit is
  charged and the message has failed. Every other panic goes on.
\<close>

definition runLimited :: "u64 \<Rightarrow> ('w, 'v, 'a) op \<Rightarrow> ('w, 'v, 'a) op" where
  "runLimited gasLimit m = (\<lambda>w.
     let (r, w1) = m (withMeter (NewGasMeter gasLimit) w);
         spent = gm_consumed (es_meter (w_env w1));
         w2 = withMeter (es_meter (w_env w)) w1
     in case r of
          Panic p \<Rightarrow> (r, w2)
        | _ \<Rightarrow>
            (case consumeGas spent ''From limited Sub-Message'' w2 of
               (Panic p, w3) \<Rightarrow> (Panic p, w3)
             | (_, w3) \<Rightarrow> (r, w3)))"

definition recoverOutOfGas :: "u64 \<Rightarrow> ('w, 'v, 'a) op \<Rightarrow> ('w, 'v, 'a) op" where
  "recoverOutOfGas gasLimit m = (\<lambda>w.
     case m w of
       (Panic (PanicOutOfGas d), w1) \<Rightarrow>
         bindM (consumeGas gasLimit ''Sub-Message OutOfGas panic'') (\<lambda>_.
         failM (WrappedError ''SubMsg hit gas limit'' ErrOutOfGas)) w1
     | other \<Rightarrow> other)"

definition dispatchMsgWithGasLimit ::
  "('w, 'v) messenger \<Rightarrow> ctx \<Rightarrow> bytes \<Rightarrow> string \<Rightarrow> CosmosMsg \<Rightarrow> u64 \<Rightarrow> ('w, 'v, dispatch_result) op"
where
  "dispatchMsgWithGasLimit messenger ctx contractAddr ibcPort msg gasLimit =
     recoverOutOfGas gasLimit (runLimited gasLimit (messenger ctx contractAddr ibcPort msg))"

text \<open>
  The sandbox of a submessage: a cached context with an event manager of its own. Its writes to
  the stores are committed on success and dropped on failure; gas spent, contracts marked as used
  in the transaction and the VM's cache are not part of it.
\<close>

definition sandbox ::
  "('w, 'v, dispatch_result) op \<Rightarrow> ('w, 'v, go_error + dispatch_result \<times> Event list) op"
where
  "sandbox m = (\<lambda>w.
     case m (w\<lparr>w_env := (w_env w)\<lparr>es_events := []\<rparr>\<rparr>) of
       (Ok r, w1) \<Rightarrow>
         (Ok (Inr (r, es_events (w_env w1))), w1\<lparr>w_env := (w_env w1)\<lparr>es_events := es_events (w_env w)\<rparr>\<rparr>)
     | (Err err, w1) \<Rightarrow>
         (Ok (Inl err),
          w1\<lparr>w_store := w_store w,
             w_env := (w_env w1)\<lparr>es_ext := es_ext (w_env w), es_events := es_events (w_env w)\<rparr>\<rparr>)
     | (Panic p, w1) \<Rightarrow> (Panic p, w1))"

definition limitGas :: "gas_meter \<Rightarrow> SubMsg \<Rightarrow> u64 option" where
  "limitGas meter msg =
     (case sub_GasLimit msg of
        None \<Rightarrow> None
      | Some l \<Rightarrow> if l < gm_limit meter - gm_consumed meter then Some l else None)"

definition runSubmessage ::
  "('w, 'v) messenger \<Rightarrow> ctx \<Rightarrow> bytes \<Rightarrow> string \<Rightarrow> SubMsg \<Rightarrow>
   ('w, 'v, go_error + dispatch_result \<times> Event list) op"
where
  "runSubmessage messenger ctx contractAddr ibcPort msg =
     bindM readMeter (\<lambda>meter.
     sandbox (case limitGas meter msg of
       Some l \<Rightarrow> dispatchMsgWithGasLimit messenger ctx contractAddr ibcPort (sub_Msg msg) l
     | None \<Rightarrow> messenger ctx contractAddr ibcPort (sub_Msg msg)))"

text \<open>
  The events of a successful submessage. Sorting the attributes for the reply happens in place on
  slices the emitted events share, so what is emitted is sorted too; only the messages of this
  module report events to the contract.
\<close>

definition submessageEvents :: "SubMsg \<Rightarrow> Event list \<Rightarrow> Event list \<Rightarrow> Event list" where
  "submessageEvents msg em events =
     (let filtered = filterEvents (em @ events)
      in if cm_Wasm (sub_Msg msg) = None then filtered else map sortAttributes filtered)"

definition successResult :: "SubMsg \<Rightarrow> Event list \<Rightarrow> dispatch_result \<Rightarrow> SubMsgResult" where
  "successResult msg evs r = (case r of (_, data, msgResponses) \<Rightarrow>
     \<lparr>res_Ok = Some
        \<lparr>smr_Events = (if cm_Wasm (sub_Msg msg) = None then [] else sdkEventsToWasmVMEvents evs),
         smr_Data = (case data of [] \<Rightarrow> None | d # _ \<Rightarrow> d),
         smr_MsgResponses = concat msgResponses\<rparr>,
      res_Err = []\<rparr>)"

definition failureResult :: "'w sdk_ops \<Rightarrow> go_error \<Rightarrow> SubMsgResult" where
  "failureResult sdk err = \<lparr>res_Ok = None, res_Err = sdk_errText sdk (redactError sdk err)\<rparr>"

definition subReply :: "SubMsg \<Rightarrow> SubMsgResult \<Rightarrow> Reply" where
  "subReply msg result =
     \<lparr>reply_GasUsed = 0, reply_ID = sub_ID msg, reply_Result = result, reply_Payload = sub_Payload msg\<rparr>"

definition replyTo ::
  "('w, 'v) replyer \<Rightarrow> ctx \<Rightarrow> bytes \<Rightarrow> SubMsg \<Rightarrow> SubMsgResult \<Rightarrow> bytes option \<Rightarrow> ('w, 'v, bytes option) op"
where
  "replyTo replyer ctx contractAddr msg result rsp =
     bindM (wrapM ''reply'' (replyer ctx contractAddr (subReply msg result))) (\<lambda>rspData.
     returnM (case rspData of None \<Rightarrow> rsp | Some _ \<Rightarrow> rspData))"

definition dispatchSubmessage ::
  "'w sdk_ops \<Rightarrow> ('w, 'v) messenger \<Rightarrow> ('w, 'v) replyer \<Rightarrow> ctx \<Rightarrow> bytes \<Rightarrow> string \<Rightarrow> SubMsg \<Rightarrow>
   bytes option \<Rightarrow> ('w, 'v, bytes option) op"
where
  "dispatchSubmessage sdk messenger replyer ctx contractAddr ibcPort msg rsp =
     bindM (guardM (sub_ReplyOn msg \<noteq> UnsetReplyOn) (WrappedError ''replyOn value'' ErrInvalid)) (\<lambda>_.
     bindM (runSubmessage messenger ctx contractAddr ibcPort msg) (\<lambda>res.
     case res of
       Inr (r, em) \<Rightarrow>
         (let evs = submessageEvents msg em (fst r)
          in bindM (emitEvents evs) (\<lambda>_.
             if sub_ReplyOn msg = ReplyNever \<or> sub_ReplyOn msg = ReplyError then returnM rsp
             else replyTo replyer ctx contractAddr msg (successResult msg evs r) rsp))
     | Inl err \<Rightarrow>
         if sub_ReplyOn msg = ReplySuccess \<or> sub_ReplyOn msg = ReplyNever then failM err
         else replyTo replyer ctx contractAddr msg (failureResult sdk err) rsp))"

primrec dispatchFrom ::
  "'w sdk_ops \<Rightarrow> ('w, 'v) messenger \<Rightarrow> ('w, 'v) replyer \<Rightarrow> ctx \<Rightarrow> bytes \<Rightarrow> string \<Rightarrow> SubMsg list \<Rightarrow>
   bytes option \<Rightarrow> ('w, 'v, bytes option) op"
where
  "dispatchFrom sdk messenger replyer ctx contractAddr ibcPort [] rsp = returnM rsp"
| "dispatchFrom sdk messenger replyer ctx contractAddr ibcPort (msg # msgs) rsp =
     bindM (dispatchSubmessage sdk messenger replyer ctx contractAddr ibcPort msg rsp) (\<lambda>rsp'.
     dispatchFrom sdk messenger replyer ctx contractAddr ibcPort msgs rsp')"

definition DispatchSubmessages ::
  "'w sdk_ops \<Rightarrow> ('w, 'v) messenger \<Rightarrow> ('w, 'v) replyer \<Rightarrow> ctx \<Rightarrow> bytes \<Rightarrow> string \<Rightarrow> SubMsg list \<Rightarrow>
   ('w, 'v, bytes option) op"
where
  "DispatchSubmessages sdk messenger replyer ctx contractAddr ibcPort msgs =
     dispatchFrom sdk messenger replyer ctx contractAddr ibcPort msgs None"

definition DefaultWasmVMContractResponseHandler_Handle ::
  "'w sdk_ops \<Rightarrow> ('w, 'v) messenger \<Rightarrow> ('w, 'v) replyer \<Rightarrow> ctx \<Rightarrow> bytes \<Rightarrow> string \<Rightarrow> SubMsg list \<Rightarrow>
   bytes option \<Rightarrow> ('w, 'v, bytes option) op"
where
  "DefaultWasmVMContractResponseHandler_Handle sdk messenger replyer ctx contractAddr ibcPort messages origRspData =
     bindM (DispatchSubmessages sdk messenger replyer ctx contractAddr ibcPort messages) (\<lambda>rsp.
     returnM (case rsp of None \<Rightarrow> origRspData | Some _ \<Rightarrow> rsp))"

section \<open>Message handlers\<close>

text \<open>
  The router of the chain: an optional stateless check of a message, its signers, and its handler
  if one is registered.
\<close>

record sdk_Result =
  sr_Data :: "bytes option"
  sr_Events :: "Event list"
  sr_MsgResponses :: "MsgResponse list"

record ('w, 'v) message_router =
  rt_ValidateBasic :: "sdk_Msg \<Rightarrow> go_error + unit"
  rt_Signers :: "sdk_Msg \<Rightarrow> go_error + bytes list"
  rt_Handler :: "sdk_Msg \<Rightarrow> (ctx \<Rightarrow> ('w, 'v, sdk_Result) op) option"

definition ErrUnknownRequest :: go_error where "ErrUnknownRequest = sdkErr 6"

definition handleSdkMessage ::
  "('w, 'v) message_router \<Rightarrow> ctx \<Rightarrow> bytes \<Rightarrow> sdk_Msg \<Rightarrow> ('w, 'v, sdk_Result) op"
where
  "handleSdkMessage router ctx contractAddr msg =
     bindM (liftE (rt_ValidateBasic router msg)) (\<lambda>_.
     bindM (liftE (rt_Signers router msg)) (\<lambda>signers.
     bindM (guardM (list_all (\<lambda>acct. contractAddr = acct) signers)
              (WrappedError ''contract doesn't have permission'' ErrUnauthorized)) (\<lambda>_.
     case rt_Handler router msg of
       Some handler \<Rightarrow> handler ctx
     | None \<Rightarrow> failM (WrappedError ''can't route message'' ErrUnknownRequest))))"

primrec handleSdkMessages ::
  "('w, 'v) message_router \<Rightarrow> ctx \<Rightarrow> bytes \<Rightarrow> sdk_Msg list \<Rightarrow> ('w, 'v, dispatch_result) op"
where
  "handleSdkMessages router ctx contractAddr [] = returnM ([], [], [])"
| "handleSdkMessages router ctx contractAddr (m # ms) =
     bindM (handleSdkMessage router ctx contractAddr m) (\<lambda>res.
     bindM (handleSdkMessages router ctx contractAddr ms) (\<lambda>(events, data, msgResponses).
     returnM (sr_Events res @ events, sr_Data res # data, sr_MsgResponses res # msgResponses)))"

definition SDKMessageHandler_DispatchMsg ::
  "'w sdk_ops \<Rightarrow> ('w, 'v) message_router \<Rightarrow> ('w, 'v) MessageEncoders \<Rightarrow> ('w, 'v) messenger"
where
  "SDKMessageHandler_DispatchMsg sdk router encoders = (\<lambda>ctx contractAddr contractIBCPortID msg.
     bindM (MessageEncoders_Encode sdk encoders ctx contractAddr contractIBCPortID msg) (\<lambda>sdkMsgs.
     handleSdkMessages router ctx contractAddr sdkMsgs))"

definition callDepthMessageHandler_DispatchMsg :: "('w, 'v) messenger \<Rightarrow> u32 \<Rightarrow> ('w, 'v) messenger" where
  "callDepthMessageHandler_DispatchMsg messenger maxCallDepth = (\<lambda>ctx contractAddr contractIBCPortID msg.
     bindM (wrapM ''dispatch'' (liftE (checkAndIncreaseCallDepth ctx maxCallDepth))) (\<lambda>ctx'.
     messenger ctx' contractAddr contractIBCPortID msg))"

text \<open>\<open>errors.Is\<close> decides whether the next handler is tried.\<close>

primrec MessageHandlerChain_DispatchMsg :: "('w, 'v) messenger list \<Rightarrow> ('w, 'v) messenger" where
  "MessageHandlerChain_DispatchMsg [] = (\<lambda>ctx contractAddr contractIBCPortID msg.
     failM (WrappedError ''no handler found'' ErrUnknownMsg))"
| "MessageHandlerChain_DispatchMsg (h # hs) = (\<lambda>ctx contractAddr contractIBCPortID msg.
     bindM (tryM (h ctx contractAddr contractIBCPortID msg)) (\<lambda>res.
     case res of
       Inr r \<Rightarrow> returnM r
     | Inl err \<Rightarrow>
         if error_is err ErrUnknownMsg
         then MessageHandlerChain_DispatchMsg hs ctx contractAddr contractIBCPortID msg
         else failM err))"

definition ErrChannelCapabilityNotFound :: go_error where
  "ErrChannelCapabilityNotFound = RegisteredError ''channel'' 9"

text \<open>Protobuf encoding of the one response that has a field.\<close>

function varint :: "nat \<Rightarrow> bytes" where
  "varint n = (if n < 128 then [char_of n] else char_of (n mod 128 + 128) # varint (n div 128))"
  by auto
termination by (relation "measure id") auto

declare varint.simps [simp del]

definition MsgIBCSendResponse_Marshal :: "u64 \<Rightarrow> bytes" where
  "MsgIBCSendResponse_Marshal seq = (if seq = 0 then [] else CHR 0x08 # varint (unat seq))"

definition ibcResponse :: "string \<Rightarrow> bytes \<Rightarrow> dispatch_result" where
  "ibcResponse typeURL val = ([], [Some val], [[\<lparr>mr_TypeURL = typeURL, mr_Value = val\<rparr>]])"

definition channelCapability ::
  "'w sdk_ops \<Rightarrow> string \<Rightarrow> string \<Rightarrow> ('w, 'v, nat) op"
where
  "channelCapability sdk contractIBCPortID contractIBCChannelID =
     bindM (guardM (contractIBCPortID \<noteq> []) (WrappedError ''ibc not supported'' ErrUnsupportedForContract)) (\<lambda>_.
     bindM (guardM (contractIBCChannelID \<noteq> []) (WrappedError ''ibc channel'' ErrEmpty)) (\<lambda>_.
     bindM (liftX (sdk_GetCapability sdk (sdk_ChannelCapabilityPath sdk contractIBCPortID contractIBCChannelID))) (\<lambda>found.
     case found of
       None \<Rightarrow> failM (WrappedError ''module does not own channel capability'' ErrChannelCapabilityNotFound)
     | Some channelCap \<Rightarrow> returnM channelCap)))"

definition IBCRawPacketHandler_DispatchMsg :: "'w sdk_ops \<Rightarrow> ('w, 'v) messenger" where
  "IBCRawPacketHandler_DispatchMsg sdk = (\<lambda>ctx _ contractIBCPortID msg.
     case cm_IBC msg of
       None \<Rightarrow> failM ErrUnknownMsg
     | Some ibc \<Rightarrow>
     case ibc_SendPacket ibc of
       Some sp \<Rightarrow>
         bindM (channelCapability sdk contractIBCPortID (sp_ChannelID sp)) (\<lambda>channelCap.
         bindM (wrapM ''channel'' (liftX (sdk_SendPacket sdk channelCap contractIBCPortID (sp_ChannelID sp)
                  (ConvertWasmIBCTimeoutHeightToCosmosHeight (to_Block (sp_Timeout sp)))
                  (to_Timestamp (sp_Timeout sp)) (sp_Data sp)))) (\<lambda>seq.
         returnM (ibcResponse ''/cosmwasm.wasm.v1.MsgIBCSendResponse'' (MsgIBCSendResponse_Marshal seq))))
     | None \<Rightarrow>
     case ibc_WriteAcknowledgement ibc of
       Some wa \<Rightarrow>
         bindM (channelCapability sdk contractIBCPortID (wa_ChannelID wa)) (\<lambda>channelCap.
         bindM (tryM (LoadAsyncAckPacket contractIBCPortID (wa_ChannelID wa) (wa_PacketSequence wa))) (\<lambda>loaded.
         case loaded of
           Inl _ \<Rightarrow> failM (WrappedError ''packet'' ErrInvalid)
         | Inr packet \<Rightarrow>
             bindM (wrapM ''acknowledgement'' (liftX (sdk_WriteAcknowledgement sdk channelCap packet (wa_Ack wa)))) (\<lambda>_.
             bindM (DeleteAsyncAckPacket contractIBCPortID (wa_ChannelID wa) (wa_PacketSequence wa)) (\<lambda>_.
             returnM (ibcResponse ''/cosmwasm.wasm.v1.MsgIBCWriteAcknowledgementResponse'' [])))))
     | None \<Rightarrow> failM ErrUnknownMsg)"

definition BurnCoinMessageHandler :: "'w sdk_ops \<Rightarrow> ('w, 'v) messenger" where
  "BurnCoinMessageHandler sdk = (\<lambda>ctx contractAddr _ msg.
     case Option.bind (cm_Bank msg) bank_Burn of
       None \<Rightarrow> failM ErrUnknownMsg
     | Some burn \<Rightarrow>
         bindM (liftO (ConvertWasmCoinsToSdkCoins sdk (burn_Amount burn))) (\<lambda>coins.
         bindM (guardM (\<not> Coins_IsZero coins) (WrappedError ''amount'' ErrEmpty)) (\<lambda>_.
         bindM (wrapM ''transfer to module''
                  (liftX (sdk_SendCoinsFromAccountToModule sdk contractAddr ''wasm'' coins))) (\<lambda>_.
         bindM (wrapM ''burn coins'' (liftX (sdk_BurnCoins sdk ''wasm'' coins))) (\<lambda>_.
         returnM ([], [], []))))))"

definition NewDefaultMessageHandler ::
  "'w sdk_ops \<Rightarrow> ('w, 'v) message_router \<Rightarrow> ('w, 'v) MessageEncoders \<Rightarrow> ('w, 'v) CustomEncoders option list \<Rightarrow>
   ('w, 'v) messenger"
where
  "NewDefaultMessageHandler sdk router defaults customEncoders =
     MessageHandlerChain_DispatchMsg
       [SDKMessageHandler_DispatchMsg sdk router (fold (\<lambda>c e. MessageEncoders_Merge e c) customEncoders defaults),
        IBCRawPacketHandler_DispatchMsg sdk,
        BurnCoinMessageHandler sdk]"

end
