(* ===== verification/Msg_Server.thy ===== *)
theory Msg_Server
  imports Dispatcher
begin

text \<open>
  \<open>keeper/msg_server.go\<close>: the handlers of the module's messages.
\<close>

section \<open>Authorization\<close>

definition selectAuthorizationPolicy :: "('w, 'v) Keeper \<Rightarrow> ctx \<Rightarrow> string \<Rightarrow> AuthorizationPolicy" where
  "selectAuthorizationPolicy k ctx actor =
     (if actor = k_authority k then GovAuthorizationPolicy (k_propagateGovAuthorization k)
      else case SubMsgAuthzPolicy ctx of
             Some policy \<Rightarrow> policy
           | None \<Rightarrow> DefaultAuthorizationPolicy)"

definition requireAuthority :: "('w, 'v) Keeper \<Rightarrow> string \<Rightarrow> ('w, 'v, unit) op" where
  "requireAuthority k authority =
     guardM (k_authority k = authority)
       (WrappedError (''invalid authority; expected '' @ k_authority k @ '', got '' @ authority) ErrInvalid)"

definition parseAddr :: "('w, 'v) Keeper \<Rightarrow> string \<Rightarrow> string \<Rightarrow> ('w, 'v, bytes) op" where
  "parseAddr k what s = wrapM what (liftE (AccAddressFromBech32 (k_addr k) s))"

definition parseAdmin :: "('w, 'v) Keeper \<Rightarrow> string \<Rightarrow> ('w, 'v, AccAddress) op" where
  "parseAdmin k s =
     (if s = [] then returnM None else bindM (parseAddr k ''admin'' s) (\<lambda>a. returnM (Some a)))"

section \<open>Handlers\<close>

definition server_StoreCode :: "('w, 'v) Keeper \<Rightarrow> ctx \<Rightarrow> MsgStoreCode \<Rightarrow> ('w, 'v, u64 \<times> bytes) op" where
  "server_StoreCode k ctx msg =
     bindM (liftE (MsgStoreCode_ValidateBasic (k_sdk k) msg)) (\<lambda>_.
     bindM (parseAddr k ''sender'' (sc_Sender msg)) (\<lambda>senderAddr.
     create k ctx (Some senderAddr) (sc_WASMByteCode msg) (sc_InstantiatePermission msg)
       (selectAuthorizationPolicy k ctx (sc_Sender msg))))"

definition server_InstantiateContract ::
  "('w, 'v) Keeper \<Rightarrow> ctx \<Rightarrow> MsgInstantiateContract \<Rightarrow> ('w, 'v, string \<times> bytes option) op"
where
  "server_InstantiateContract k ctx msg =
     bindM (liftE (MsgInstantiateContract_ValidateBasic (k_sdk k) msg)) (\<lambda>_.
     bindM (parseAddr k ''sender'' (ic_Sender msg)) (\<lambda>senderAddr.
     bindM (parseAdmin k (ic_Admin msg)) (\<lambda>adminAddr.
     bindM (instantiate k ctx (ic_CodeID msg) (Some senderAddr) adminAddr (ic_Msg msg) (ic_Label msg)
              (ic_Funds msg) (ClassicAddressGenerator k)
              (selectAuthorizationPolicy k ctx (ic_Sender msg))) (\<lambda>(contractAddr, data).
     returnM (addr_String (k_addr k) contractAddr, data)))))"

definition server_InstantiateContract2 ::
  "('w, 'v) Keeper \<Rightarrow> ctx \<Rightarrow> MsgInstantiateContract2 \<Rightarrow> ('w, 'v, string \<times> bytes option) op"
where
  "server_InstantiateContract2 k ctx msg =
     bindM (liftE (MsgInstantiateContract2_ValidateBasic (k_sdk k) msg)) (\<lambda>_.
     bindM (parseAddr k ''sender'' (i2_Sender msg)) (\<lambda>senderAddr.
     bindM (parseAdmin k (i2_Admin msg)) (\<lambda>adminAddr.
     bindM (instantiate k ctx (i2_CodeID msg) (Some senderAddr) adminAddr (i2_Msg msg) (i2_Label msg)
              (i2_Funds msg)
              (PredictableAddressGenerator k senderAddr (i2_Salt msg) (i2_Msg msg) (i2_FixMsg msg))
              (selectAuthorizationPolicy k ctx (i2_Sender msg))) (\<lambda>(contractAddr, data).
     returnM (addr_String (k_addr k) contractAddr, data)))))"

definition server_ExecuteContract ::
  "('w, 'v) Keeper \<Rightarrow> ctx \<Rightarrow> MsgExecuteContract \<Rightarrow> ('w, 'v, bytes option) op"
where
  "server_ExecuteContract k ctx msg =
     bindM (liftE (MsgExecuteContract_ValidateBasic (k_sdk k) msg)) (\<lambda>_.
     bindM (parseAddr k ''sender'' (ec_Sender msg)) (\<lambda>senderAddr.
     bindM (parseAddr k ''contract'' (ec_Contract msg)) (\<lambda>contractAddr.
     execute k ctx contractAddr senderAddr (ec_Msg msg) (ec_Funds msg))))"

definition server_MigrateContract ::
  "('w, 'v) Keeper \<Rightarrow> ctx \<Rightarrow> MsgMigrateContract \<Rightarrow> ('w, 'v, bytes option) op"
where
  "server_MigrateContract k ctx msg =
     bindM (liftE (MsgMigrateContract_ValidateBasic (k_sdk k) msg)) (\<lambda>_.
     bindM (parseAddr k ''sender'' (mc_Sender msg)) (\<lambda>senderAddr.
     bindM (parseAddr k ''contract'' (mc_Contract msg)) (\<lambda>contractAddr.
     migrate k ctx contractAddr senderAddr (mc_CodeID msg) (mc_Msg msg)
       (selectAuthorizationPolicy k ctx (mc_Sender msg)))))"

definition server_UpdateAdmin :: "('w, 'v) Keeper \<Rightarrow> ctx \<Rightarrow> MsgUpdateAdmin \<Rightarrow> ('w, 'v, unit) op" where
  "server_UpdateAdmin k ctx msg =
     bindM (liftE (MsgUpdateAdmin_ValidateBasic (k_sdk k) msg)) (\<lambda>_.
     bindM (parseAddr k ''sender'' (ua_Sender msg)) (\<lambda>senderAddr.
     bindM (parseAddr k ''contract'' (ua_Contract msg)) (\<lambda>contractAddr.
     bindM (parseAddr k ''new admin'' (ua_NewAdmin msg)) (\<lambda>newAdminAddr.
     setContractAdmin k contractAddr (Some senderAddr) (Some newAdminAddr)
       (selectAuthorizationPolicy k ctx (ua_Sender msg))))))"

definition server_ClearAdmin :: "('w, 'v) Keeper \<Rightarrow> ctx \<Rightarrow> MsgClearAdmin \<Rightarrow> ('w, 'v, unit) op" where
  "server_ClearAdmin k ctx msg =
     bindM (liftE (MsgClearAdmin_ValidateBasic (k_sdk k) msg)) (\<lambda>_.
     bindM (parseAddr k ''sender'' (ca_Sender msg)) (\<lambda>senderAddr.
     bindM (parseAddr k ''contract'' (ca_Contract msg)) (\<lambda>contractAddr.
     setContractAdmin k contractAddr (Some senderAddr) None
       (selectAuthorizationPolicy k ctx (ca_Sender msg)))))"

definition server_UpdateInstantiateConfig ::
  "('w, 'v) Keeper \<Rightarrow> ctx \<Rightarrow> MsgUpdateInstantiateConfig \<Rightarrow> ('w, 'v, unit) op"
where
  "server_UpdateInstantiateConfig k ctx msg =
     bindM (liftE (MsgUpdateInstantiateConfig_ValidateBasic (k_sdk k) msg)) (\<lambda>_.
     bindM (parseAddr k ''sender'' (uic_Sender msg)) (\<lambda>senderAddr.
     bindM (derefM (uic_NewInstantiatePermission msg)) (\<lambda>newConfig.
     setAccessConfig k (uic_CodeID msg) (Some senderAddr) newConfig
       (selectAuthorizationPolicy k ctx (uic_Sender msg)))))"

definition server_UpdateParams :: "('w, 'v) Keeper \<Rightarrow> ctx \<Rightarrow> MsgUpdateParams \<Rightarrow> ('w, 'v, unit) op" where
  "server_UpdateParams k ctx req =
     bindM (liftE (MsgUpdateParams_ValidateBasic (k_sdk k) req)) (\<lambda>_.
     bindM (requireAuthority k (up_Authority req)) (\<lambda>_.
     SetParams (up_Params req)))"

definition server_PinCodes :: "('w, 'v) Keeper \<Rightarrow> ctx \<Rightarrow> MsgPinCodes \<Rightarrow> ('w, 'v, unit) op" where
  "server_PinCodes k ctx req =
     bindM (liftE (MsgPinCodes_ValidateBasic (k_sdk k) req)) (\<lambda>_.
     bindM (requireAuthority k (pin_Authority req)) (\<lambda>_.
     eachM (pinCode k) (pin_CodeIDs req)))"

definition server_UnpinCodes :: "('w, 'v) Keeper \<Rightarrow> ctx \<Rightarrow> MsgUnpinCodes \<Rightarrow> ('w, 'v, unit) op" where
  "server_UnpinCodes k ctx req =
     bindM (liftE (MsgUnpinCodes_ValidateBasic (k_sdk k) req)) (\<lambda>_.
     bindM (requireAuthority k (unpin_Authority req)) (\<lambda>_.
     eachM (unpinCode k) (unpin_CodeIDs req)))"

definition server_SudoContract ::
  "('w, 'v) Keeper \<Rightarrow> ctx \<Rightarrow> MsgSudoContract \<Rightarrow> ('w, 'v, bytes option) op"
where
  "server_SudoContract k ctx req =
     bindM (liftE (MsgSudoContract_ValidateBasic (k_sdk k) req)) (\<lambda>_.
     bindM (requireAuthority k (su_Authority req)) (\<lambda>_.
     bindM (parseAddr k ''contract'' (su_Contract req)) (\<lambda>contractAddr.
     Sudo k ctx contractAddr (su_Msg req))))"

definition server_StoreAndInstantiateContract ::
  "('w, 'v) Keeper \<Rightarrow> ctx \<Rightarrow> MsgStoreAndInstantiateContract \<Rightarrow> ('w, 'v, string \<times> bytes option) op"
where
  "server_StoreAndInstantiateContract k ctx req =
     bindM (liftE (MsgStoreAndInstantiateContract_ValidateBasic (k_sdk k) req)) (\<lambda>_.
     bindM (parseAddr k ''authority'' (si_Authority req)) (\<lambda>authorityAddr.
     bindM (parseAdmin k (si_Admin req)) (\<lambda>adminAddr.
     let policy = selectAuthorizationPolicy k ctx (si_Authority req) in
     bindM (create k ctx (Some authorityAddr) (si_WASMByteCode req) (si_InstantiatePermission req) policy) (\<lambda>(codeID, _).
     bindM (instantiate k ctx codeID (Some authorityAddr) adminAddr (si_Msg req) (si_Label req) (si_Funds req)
              (ClassicAddressGenerator k) policy) (\<lambda>(contractAddr, data).
     returnM (addr_String (k_addr k) contractAddr, data))))))"

primrec addAddresses :: "string list \<Rightarrow> string list \<Rightarrow> string list" where
  "addAddresses addresses [] = addresses"
| "addAddresses addresses (a # as) =
     addAddresses (if a \<in> set addresses then addresses else addresses @ [a]) as"

definition updateUploadAddresses :: "(string list \<Rightarrow> string list) \<Rightarrow> ('w, 'v, unit) op" where
  "updateUploadAddresses f =
     bindM GetParams (\<lambda>params.
     bindM (guardM (Permission (CodeUploadAccess params) = AccessTypeAnyOfAddresses)
              (WrappedError ''permission'' ErrInvalid)) (\<lambda>_.
     SetParams (params\<lparr>CodeUploadAccess :=
       (CodeUploadAccess params)\<lparr>Addresses := f (Addresses (CodeUploadAccess params))\<rparr>\<rparr>)))"

definition server_AddCodeUploadParamsAddresses ::
  "('w, 'v) Keeper \<Rightarrow> ctx \<Rightarrow> MsgAddCodeUploadParamsAddresses \<Rightarrow> ('w, 'v, unit) op"
where
  "server_AddCodeUploadParamsAddresses k ctx req =
     bindM (liftE (MsgAddCodeUploadParamsAddresses_ValidateBasic (k_sdk k) req)) (\<lambda>_.
     bindM (requireAuthority k (add_Authority req)) (\<lambda>_.
     updateUploadAddresses (\<lambda>addresses. addAddresses addresses (add_Addresses req))))"

definition server_RemoveCodeUploadParamsAddresses ::
  "('w, 'v) Keeper \<Rightarrow> ctx \<Rightarrow> MsgRemoveCodeUploadParamsAddresses \<Rightarrow> ('w, 'v, unit) op"
where
  "server_RemoveCodeUploadParamsAddresses k ctx req =
     bindM (liftE (MsgRemoveCodeUploadParamsAddresses_ValidateBasic (k_sdk k) req)) (\<lambda>_.
     bindM (requireAuthority k (rem_Authority req)) (\<lambda>_.
     updateUploadAddresses (filter (\<lambda>a. a \<notin> set (rem_Addresses req)))))"

definition server_StoreAndMigrateContract ::
  "('w, 'v) Keeper \<Rightarrow> ctx \<Rightarrow> MsgStoreAndMigrateContract \<Rightarrow> ('w, 'v, u64 \<times> bytes \<times> bytes option) op"
where
  "server_StoreAndMigrateContract k ctx req =
     bindM (parseAddr k ''authority'' (sm_Authority req)) (\<lambda>authorityAddr.
     bindM (liftE (MsgStoreAndMigrateContract_ValidateBasic (k_sdk k) req)) (\<lambda>_.
     let policy = selectAuthorizationPolicy k ctx (sm_Authority req) in
     bindM (create k ctx (Some authorityAddr) (sm_WASMByteCode req) (sm_InstantiatePermission req) policy) (\<lambda>(codeID, checksum).
     bindM (parseAddr k ''contract'' (sm_Contract req)) (\<lambda>contractAddr.
     bindM (migrate k ctx contractAddr authorityAddr codeID (sm_Msg req) policy) (\<lambda>data.
     returnM (codeID, checksum, data))))))"

definition server_UpdateContractLabel ::
  "('w, 'v) Keeper \<Rightarrow> ctx \<Rightarrow> MsgUpdateContractLabel \<Rightarrow> ('w, 'v, unit) op"
where
  "server_UpdateContractLabel k ctx msg =
     bindM (liftE (MsgUpdateContractLabel_ValidateBasic (k_sdk k) msg)) (\<lambda>_.
     bindM (parseAddr k ''sender'' (ul_Sender msg)) (\<lambda>senderAddr.
     bindM (parseAddr k ''contract'' (ul_Contract msg)) (\<lambda>contractAddr.
     setContractLabel k contractAddr (Some senderAddr) (ul_NewLabel msg)
       (selectAuthorizationPolicy k ctx (ul_Sender msg)))))"

section \<open>The service\<close>

text \<open>A response of the service, with the fields of the generated structs.\<close>

datatype msg_response =
    StoreCodeResponse u64 bytes
  | AddressDataResponse string "bytes option"
  | DataResponse "bytes option"
  | StoreAndMigrateResponse u64 bytes "bytes option"
  | EmptyResponse

fun serveMsg :: "('w, 'v) Keeper \<Rightarrow> ctx \<Rightarrow> sdk_Msg \<Rightarrow> ('w, 'v, msg_response) op option" where
  "serveMsg k ctx (StoreCodeMsg m) =
     Some (bindM (server_StoreCode k ctx m) (\<lambda>(i, c). returnM (StoreCodeResponse i c)))"
| "serveMsg k ctx (InstantiateContractMsg m) =
     Some (bindM (server_InstantiateContract k ctx m) (\<lambda>(a, d). returnM (AddressDataResponse a d)))"
| "serveMsg k ctx (InstantiateContract2Msg m) =
     Some (bindM (server_InstantiateContract2 k ctx m) (\<lambda>(a, d). returnM (AddressDataResponse a d)))"
| "serveMsg k ctx (ExecuteContractMsg m) =
     Some (bindM (server_ExecuteContract k ctx m) (\<lambda>d. returnM (DataResponse d)))"
| "serveMsg k ctx (MigrateContractMsg m) =
     Some (bindM (server_MigrateContract k ctx m) (\<lambda>d. returnM (DataResponse d)))"
| "serveMsg k ctx (UpdateAdminMessage m) =
     Some (bindM (server_UpdateAdmin k ctx m) (\<lambda>_. returnM EmptyResponse))"
| "serveMsg k ctx (ClearAdminMessage m) =
     Some (bindM (server_ClearAdmin k ctx m) (\<lambda>_. returnM EmptyResponse))"
| "serveMsg k ctx (UpdateInstantiateConfigMsg m) =
     Some (bindM (server_UpdateInstantiateConfig k ctx m) (\<lambda>_. returnM EmptyResponse))"
| "serveMsg k ctx (UpdateParamsMsg m) =
     Some (bindM (server_UpdateParams k ctx m) (\<lambda>_. returnM EmptyResponse))"
| "serveMsg k ctx (PinCodesMsg m) =
     Some (bindM (server_PinCodes k ctx m) (\<lambda>_. returnM EmptyResponse))"
| "serveMsg k ctx (UnpinCodesMsg m) =
     Some (bindM (server_UnpinCodes k ctx m) (\<lambda>_. returnM EmptyResponse))"
| "serveMsg k ctx (SudoContractMsg m) =
     Some (bindM (server_SudoContract k ctx m) (\<lambda>d. returnM (DataResponse d)))"
| "serveMsg k ctx (StoreAndInstantiateContractMsg m) =
     Some (bindM (server_StoreAndInstantiateContract k ctx m) (\<lambda>(a, d). returnM (AddressDataResponse a d)))"
| "serveMsg k ctx (AddCodeUploadParamsAddressesMsg m) =
     Some (bindM (server_AddCodeUploadParamsAddresses k ctx m) (\<lambda>_. returnM EmptyResponse))"
| "serveMsg k ctx (RemoveCodeUploadParamsAddressesMsg m) =
     Some (bindM (server_RemoveCodeUploadParamsAddresses k ctx m) (\<lambda>_. returnM EmptyResponse))"
| "serveMsg k ctx (StoreAndMigrateContractMsg m) =
     Some (bindM (server_StoreAndMigrateContract k ctx m) (\<lambda>(i, c, d). returnM (StoreAndMigrateResponse i c d)))"
| "serveMsg k ctx (UpdateContractLabelMsg m) =
     Some (bindM (server_UpdateContractLabel k ctx m) (\<lambda>_. returnM EmptyResponse))"
| "serveMsg k ctx _ = None"

end
