(* ===== verification/Registry_Ops.thy ===== *)
theory Registry_Ops
  imports Registry_Spec Msg_Server
begin

text \<open>
  Every operation of the keeper is a sequence of steps of the registry, whether it succeeds or
  fails: \<open>stepwise m0 f\<close> says that from a store the steps reach from \<open>m0\<close>, \<open>f\<close> ends in one.
\<close>

abbreviation ok_triple :: "store_value items \<Rightarrow> store_value items \<Rightarrow> ('w, 'v, 'a) op \<Rightarrow> bool" where
  "ok_triple m0 m f \<equiv> triple (store_is m) f (\<lambda>_ w. reaches m0 (w_store w)) (\<lambda>w. reaches m0 (w_store w))"

abbreviation stepwise :: "store_value items \<Rightarrow> ('w, 'v, 'a) op \<Rightarrow> bool" where
  "stepwise m0 f \<equiv> keeps (\<lambda>w. reaches m0 (w_store w)) f"

lemma stepwise_run:
  assumes "stepwise (w_store w) f" and "items_ok (w_store w)" and "f w = (r, w')" and "\<not> is_panic r"
  shows "reaches (w_store w) (w_store w')"
  using keepsD [OF assms(1,3) _ assms(4)] assms(2) by (simp add: reaches_refl)

lemma keeps_okI: "(\<And>m. reaches m0 m \<Longrightarrow> ok_triple m0 m f) \<Longrightarrow> stepwise m0 f"
  by (rule keeps_known_store)

lemma ok_tripleI: "stepwise m0 f \<Longrightarrow> reaches m0 m \<Longrightarrow> ok_triple m0 m f"
  unfolding keeps_triple by (erule triple_conseq) simp_all

lemma neutral_keeps_ok: "neutral f \<Longrightarrow> stepwise m0 f"
  by (rule neutral_keeps)

lemmas keeps_reads [keeps_rules] =
  neutral_liftX [THEN neutral_keeps_ok] neutral_store_reads [THEN neutral_keeps_ok]
  neutral_emitEvent [THEN neutral_keeps_ok] neutral_vm [THEN neutral_keeps_ok]
  neutral_GetParams [THEN neutral_keeps_ok] neutral_params [THEN neutral_keeps_ok]
  neutral_readers [THEN neutral_keeps_ok] neutral_contractInstance [THEN neutral_keeps_ok]
  neutral_GetByteCode [THEN neutral_keeps_ok]

lemma ok_emit: "reaches m0 m \<Longrightarrow> ok_triple m0 m (emitEvent d as)"
  by (rule run_end) (rule neutral_rules)

lemma ok_bind_neutral:
  "neutral p \<Longrightarrow> reaches m0 m \<Longrightarrow> (\<And>x. ok_triple m0 m (f x)) \<Longrightarrow> ok_triple m0 m (bindM p f)"
  by (rule run_neutral [where \<Psi> = "reaches m0"]) simp_all

lemma ok_bind_reads:
  assumes "reaches m0 m"
  shows "(\<And>x. ok_triple m0 m (f x)) \<Longrightarrow> ok_triple m0 m (bindM (liftO r) f)"
    and "(\<And>x. ok_triple m0 m (g x)) \<Longrightarrow> ok_triple m0 m (bindM (vmPin k c) g)"
    and "(\<And>x. ok_triple m0 m (g x)) \<Longrightarrow> ok_triple m0 m (bindM (vmUnpin k c) g)"
  by (rule ok_bind_neutral [OF _ assms]; (rule neutral_rules | blast))+

lemma ok_fail: "reaches m0 m \<Longrightarrow> ok_triple m0 m (failM e)"
  by (rule triple_basic) simp

lemma ok_guard: "reaches m0 m \<Longrightarrow> (b \<Longrightarrow> ok_triple m0 m (f ())) \<Longrightarrow> ok_triple m0 m (bindM (guardM b e) f)"
  by (rule triple_bind_guardM) simp_all

section \<open>Reading entries\<close>

lemma run_GetContractInfo:
  assumes "triple (store_is m) (f (contract_at m a)) R E"
  shows "triple (store_is m) (bindM (GetContractInfo a) f) R E"
  using assms
  by (auto simp: triple_def GetContractInfo_def bindM_def storeGet_def liftO_def returnM_def contract_at_def
      look_def split: option.splits store_value.splits)

lemma run_GetCodeInfo:
  assumes "triple (store_is m) (f (code_at m i)) R E"
  shows "triple (store_is m) (bindM (GetCodeInfo i) f) R E"
  using assms
  by (auto simp: triple_def GetCodeInfo_def bindM_def storeGet_def liftO_def returnM_def code_at_def
      look_def split: option.splits store_value.splits)

lemma run_HasContractInfo:
  assumes "triple (store_is m) (f (look m (ContractK a) \<noteq> None)) R E"
  shows "triple (store_is m) (bindM (HasContractInfo a) f) R E"
  using assms by (simp add: triple_def HasContractInfo_def bindM_def storeHas_def look_def kv_has_def)

lemma run_containsCodeInfo:
  assumes "triple (store_is m) (f (look m (CodeK i) \<noteq> None)) R E"
  shows "triple (store_is m) (bindM (containsCodeInfo i) f) R E"
  using assms by (simp add: triple_def containsCodeInfo_def bindM_def storeHas_def look_def kv_has_def)

section \<open>Parameters, sequences, codes\<close>

lemma keeps_SetParams [keeps_rules]: "stepwise m0 (SetParams ps)"
  unfolding SetParams_def
  by (rule keeps_okI, rule run_end, erule reaches_step, rule registry_step.params_set)

lemma next_id_not_Err: "next_id m s \<noteq> Err e"
  by (auto simp: next_id_def BigEndian_Uint64_def split: option.splits if_splits elim!: asUint64.elims)

lemma run_mustAutoIncrementID:
  assumes "\<And>i. next_id m s = Ok i \<Longrightarrow> triple (store_is (bump s i m)) (f i) R E"
  shows "triple (store_is m) (bindM (mustAutoIncrementID s) f) R E"
proof -
  have *: "readSequence s = bindM (storeGet s) (\<lambda>bz. liftO (case bz of None \<Rightarrow> Ok 1 | Some v \<Rightarrow> asUint64 v))"
    unfolding readSequence_def by (rule arg_cong [where f = "bindM _"]) (auto simp: liftO_def returnM_def split: option.split)
  show ?thesis
    unfolding mustAutoIncrementID_def * bindM_assoc
    by (rule run_storeGet, fold next_id_def, rule run_liftO, rule next_id_not_Err, rule run_storeSet)
       (simp add: assms flip: bump_def)
qed

lemma keeps_instance_id [keeps_rules]: "stepwise m0 (mustAutoIncrementID KeySequenceInstanceID)"
proof -
  have "stepwise m0 (bindM (mustAutoIncrementID KeySequenceInstanceID) returnM)"
    by (rule keeps_okI, rule run_mustAutoIncrementID, rule triple_basic)
       (simp add: reaches_step [OF _ registry_step.instance_id])
  then show ?thesis by (simp add: mustAutoIncrementID_def bindM_assoc)
qed

lemma keeps_new_code:
  assumes "\<And>i. stepwise m0 (f i)"
  shows "stepwise m0 (bindM (mustAutoIncrementID KeySequenceCodeID) (\<lambda>i. bindM (mustStoreCodeInfo i c) (\<lambda>_. f i)))"
proof (rule keeps_okI, rule run_mustAutoIncrementID)
  fix m i assume m: "reaches m0 m" and i: "next_id m KeySequenceCodeID = Ok i"
  from reaches_step [OF m registry_step.code_stored [OF i, of c]]
  show "ok_triple m0 (bump KeySequenceCodeID i m) (bindM (mustStoreCodeInfo i c) (\<lambda>_. f i))"
    unfolding mustStoreCodeInfo_def by (intro run_storeSet ok_tripleI assms)
qed

lemma ok_bind_getInstantiateAccessConfig:
  "reaches m0 m \<Longrightarrow> (\<And>x. ok_triple m0 m (f x)) \<Longrightarrow> ok_triple m0 m (bindM getInstantiateAccessConfig f)"
  by (rule ok_bind_neutral) (rule neutral_params)

lemma ok_set_access:
  assumes "reaches m0 m" and "code_at m i = Some c"
  shows "ok_triple m0 m (bindM (mustStoreCodeInfo i (c\<lparr>code_InstantiateConfig := cfg\<rparr>)) (\<lambda>_. emitEvent d as))"
  using reaches_step [OF assms(1) registry_step.access_set [OF assms(2), of cfg]]
  unfolding mustStoreCodeInfo_def by (intro run_storeSet ok_emit)

lemma keeps_setAccessConfig [keeps_rules]: "stepwise m0 (setAccessConfig k i caller cfg authz)"
  unfolding setAccessConfig_def
  by (rule keeps_okI, rule run_GetCodeInfo)
     (auto split: option.split sum.split
       intro!: ok_fail ok_bind_getInstantiateAccessConfig ok_guard triple_basic(3) ok_set_access)

section \<open>Contracts\<close>

lemma ok_update_contract:
  assumes "reaches m0 m" and "contract_at m a = Some c" and "same_contract c c'"
  shows "ok_triple m0 m (mustStoreContractInfo a c')"
  unfolding mustStoreContractInfo_def
  by (rule run_end, rule reaches_step [OF assms(1)], rule registry_step.contract_set [OF assms(2,3)])

lemma ok_update_contract_bind:
  assumes "reaches m0 m" and "contract_at m a = Some c" and "same_contract c c'" and "neutral p"
  shows "ok_triple m0 m (bindM (mustStoreContractInfo a c') (\<lambda>_. p))"
  unfolding mustStoreContractInfo_def
  by (rule run_storeSet, rule run_end(3) [OF assms(4)], rule reaches_step [OF assms(1)],
      rule registry_step.contract_set [OF assms(2,3)])

lemma keeps_setContractAdmin [keeps_rules]: "stepwise m0 (setContractAdmin k a caller newAdmin authZ)"
  unfolding setContractAdmin_def
  by (rule keeps_okI, rule run_GetContractInfo)
     (auto simp: Let_def same_contract_def split: option.split
       intro!: ok_fail ok_bind_reads ok_guard neutral_rules ok_update_contract_bind)

lemma keeps_setContractLabel [keeps_rules]: "stepwise m0 (setContractLabel k a caller newLabel authZ)"
  unfolding setContractLabel_def
  by (rule keeps_okI, rule run_GetContractInfo)
     (auto simp: Let_def same_contract_def split: option.split
       intro!: ok_fail ok_bind_reads ok_guard neutral_rules ok_update_contract_bind)

lemma SetExtension_same: "SetExtension v c x = Inr c' \<Longrightarrow> same_contract c c'"
  by (auto simp: SetExtension_def bindE_Inr_iff same_contract_def split: option.splits)

lemma keeps_setContractInfoExtension [keeps_rules]: "stepwise m0 (setContractInfoExtension k v a x)"
  unfolding setContractInfoExtension_def
  by (rule keeps_okI, rule run_GetContractInfo)
     (auto split: option.split intro!: ok_fail run_liftE ok_update_contract dest: SetExtension_same)

lemma reaches_pins:
  assumes "reaches m0 m" and "code_at m i = Some c"
  shows "reaches m0 (kv_set m (GetPinnedCodeIndexPrefix i) (RawV [CHR 0x01]))"
    and "reaches m0 (kv_delete m (GetPinnedCodeIndexPrefix i))"
  by (rule reaches_step [OF assms(1)], rule registry_step.pinned, simp add: assms(2))
     (rule reaches_step [OF assms(1)], rule registry_step.unpinned, simp add: assms(2))

lemma keeps_pinCode [keeps_rules]: "stepwise m0 (pinCode k i)"
  unfolding pinCode_def
  by (rule keeps_okI, rule run_GetCodeInfo)
     (auto split: option.split intro!: ok_fail ok_bind_reads run_storeSet ok_emit reaches_pins)

lemma keeps_unpinCode [keeps_rules]: "stepwise m0 (unpinCode k i)"
  unfolding unpinCode_def
  by (rule keeps_okI, rule run_GetCodeInfo)
     (auto split: option.split intro!: ok_fail ok_bind_reads run_storeDelete ok_emit reaches_pins)

section \<open>Packets\<close>

lemma keeps_async [keeps_rules]:
  "stepwise m0 (StoreAsyncAckPacket packet)"
  "stepwise m0 (DeleteAsyncAckPacket p c i)"
  unfolding StoreAsyncAckPacket_def DeleteAsyncAckPacket_def
  by (rule keeps_okI, rule run_end, erule reaches_step, rule registry_step.packet_stored)
     (rule keeps_okI, rule run_end, erule reaches_step, rule registry_step.packet_done)

lemma neutral_LoadAsyncAckPacket [neutral_rules]: "neutral (LoadAsyncAckPacket p c i)"
  unfolding LoadAsyncAckPacket_def
  by (intro neutral_rules) (auto split: option.split store_value.split intro: neutral_rules)

section \<open>Running a contract\<close>

lemma neutral_gas [neutral_rules]:
  "neutral (runtimeGasForContract k)" "neutral (consumeRuntimeGas k g)"
  unfolding runtimeGasForContract_def consumeRuntimeGas_def by (intro neutral_rules)+

lemma neutral_checkDiscountEligibility [neutral_rules]: "neutral (checkDiscountEligibility c b)"
  by (auto simp: neutral_def checkDiscountEligibility_def split: option.split)

lemma neutral_chargeSetup [neutral_rules]: "neutral (chargeSetup k i c msg d)"
  unfolding chargeSetup_def by (intro neutral_rules)

lemma neutral_vm_store [neutral_rules]: "neutral (vmStoreCode k c g)" "neutral (vmStoreCodeUnchecked k c)"
  by (auto simp: neutral_def vmStoreCode_def vmStoreCodeUnchecked_def split: prod.split)

lemma neutral_code_helpers [neutral_rules]:
  "neutral (analyzeCode k e c)" "neutral (uncompressCode k c n)" "neutral (derefM x)"
  unfolding analyzeCode_def uncompressCode_def derefM_def by (intro neutral_rules)+

lemma neutral_accounts [neutral_rules]: "neutral (claimAccount k a)" "neutral (depositCoins k f a cs)"
  unfolding claimAccount_def depositCoins_def by (intro neutral_rules)+

lemma neutral_ports [neutral_rules]: "neutral (bindIbcPort k p)" "neutral (ensureIbcPort k a)"
  unfolding bindIbcPort_def ensureIbcPort_def by (intro neutral_rules)+

text \<open>A call of the VM writes to the store of the contract only.\<close>

definition contract_local :: "(store_value items \<Rightarrow> bool) \<Rightarrow> bool" where
  "contract_local \<Phi> \<longleftrightarrow> (\<forall>m a l. \<Phi> m \<longrightarrow> \<Phi> (putContractStore a l m))"

lemma keeps_callVM:
  assumes "contract_local \<Phi>"
  shows "keeps (\<lambda>w. \<Phi> (w_store w)) (callVM k ctx a call g)"
  using assms by (auto simp: keeps_def callVM_def withMeter_def contract_local_def split: prod.split)

lemma keeps_runVM:
  assumes "contract_local \<Phi>"
  shows "keeps (\<lambda>w. \<Phi> (w_store w)) (runVM k ctx a call)"
  unfolding runVM_def
  by (intro keeps_rules keeps_callVM [OF assms] neutral_keeps neutral_gas)

lemma keeps_runContract:
  assumes "contract_local \<Phi>"
  shows "keeps (\<lambda>w. \<Phi> (w_store w)) (runContract k ctx a e call)"
  unfolding runContract_def by (intro keeps_rules keeps_runVM [OF assms])

lemma contract_local_reaches: "contract_local (reaches m0)"
  by (auto simp: contract_local_def intro: reaches_step registry_step.contract_data)

lemma contract_local_conj: "contract_local \<Phi> \<Longrightarrow> contract_local \<Psi> \<Longrightarrow> contract_local (\<lambda>m. \<Phi> m \<and> \<Psi> m)"
  by (simp add: contract_local_def)

lemma contract_local_look:
  "contract_local (\<lambda>m. code_at m i = c)" "contract_local (\<lambda>m. code_at m i \<noteq> None)"
  "contract_local (\<lambda>m. contract_at m a = ci)"
  by (simp_all add: contract_local_def code_at_def contract_at_def look_putContractStore)

lemmas keeps_ok_runVM [keeps_rules] = keeps_runVM [OF contract_local_reaches]
lemmas keeps_ok_runContract [keeps_rules] = keeps_runContract [OF contract_local_reaches]

lemmas keeps_call_helpers [keeps_rules] =
  neutral_gas [THEN neutral_keeps_ok] neutral_chargeSetup [THEN neutral_keeps_ok]
  neutral_vm_store [THEN neutral_keeps_ok] neutral_code_helpers [THEN neutral_keeps_ok]
  neutral_accounts [THEN neutral_keeps_ok] neutral_ports [THEN neutral_keeps_ok]
  neutral_checkDiscountEligibility [THEN neutral_keeps_ok] neutral_LoadAsyncAckPacket [THEN neutral_keeps_ok]

section \<open>Upload\<close>

lemma keeps_create [keeps_rules]: "stepwise m0 (create k ctx creator code access authZ)"
  unfolding create_def by (rule keeps_new_code | rule keeps_rules)+

section \<open>New versions of a contract\<close>

lemma run_appendToContractHistory:
  assumes "items_ok m"
    and "\<And>pos. (\<forall>j. look m (HistoryK a j) \<noteq> None \<longrightarrow> j \<le> pos) \<Longrightarrow> (pos = 0 \<or> look m (HistoryK a pos) \<noteq> None) \<Longrightarrow>
      triple (store_is (kv_set m (GetContractCodeHistoryElementKey a (pos + 1)) (HistoryV e))) (f ()) R E"
  shows "triple (store_is m) (bindM (appendToContractHistory a [e]) f) R E"
  unfolding appendToContractHistory_def bindM_assoc
proof (rule run_storePrefix, rule run_liftO)
  show "lastPosition (strip_prefix (GetContractCodeHistoryElementPrefix a) m) \<noteq> Err err" for err
    using lastPosition_Ok [OF assms(1)] by (metis outcome.distinct(1))
  show "triple (store_is m) (bindM (storeHistory a pos [e]) f) R E"
    if "lastPosition (strip_prefix (GetContractCodeHistoryElementPrefix a) m) = Ok pos" for pos
    using lastPosition_bound [OF assms(1) that] assms(2)
    by (auto simp: bindM_assoc intro!: run_storeSet)
qed

lemma run_addToContractCodeSecondaryIndex:
  assumes "\<And>k p. key_of (ByCodeK (hist_CodeID e) p a) = Ok k \<Longrightarrow> hist_Updated e = Some p \<Longrightarrow>
      triple (store_is (kv_set m k (RawV []))) (f ()) R E"
  shows "triple (store_is m) (bindM (addToContractCodeSecondaryIndex a e) f) R E"
  unfolding addToContractCodeSecondaryIndex_def bindM_assoc
  by (rule run_liftO, rule index_key_cases) (blast intro: run_storeSet assms dest: index_key_cases(2))

lemma run_removeFromContractCodeSecondaryIndex:
  assumes "\<And>k p. key_of (ByCodeK (hist_CodeID e) p a) = Ok k \<Longrightarrow> hist_Updated e = Some p \<Longrightarrow>
      triple (store_is (kv_delete m k)) (f ()) R E"
  shows "triple (store_is m) (bindM (removeFromContractCodeSecondaryIndex a e) f) R E"
  unfolding removeFromContractCodeSecondaryIndex_def bindM_assoc
  by (rule run_liftO, rule index_key_cases) (blast intro: run_storeDelete assms dest: index_key_cases(2))

lemma run_addToContractCreatorSecondaryIndex:
  assumes "\<And>k q. key_of (ByCreatorK c q a) = Ok k \<Longrightarrow> triple (store_is (kv_set m k (RawV []))) (f ()) R E"
  shows "triple (store_is m) (bindM (addToContractCreatorSecondaryIndex c p a) f) R E"
  unfolding addToContractCreatorSecondaryIndex_def bindM_assoc
  by (rule run_liftO, rule creator_key_cases, rule run_liftO, rule creator_key_cases)
     (blast intro: run_storeSet assms dest: creator_key_cases(3))

lemma last_position_index:
  assumes "key_of (ByCodeK i p a) = Ok k"
  shows "last_position (kv_set m k v) b = last_position m b" "last_position (kv_delete m k) b = last_position m b"
  by (simp_all add: fun_eq_iff last_position_def look_index [OF assms])

lemma last_position_creator:
  assumes "key_of (ByCreatorK c q a) = Ok k"
  shows "last_position (kv_set m k v) b = last_position m b"
  by (simp add: fun_eq_iff last_position_def look_creator [OF assms])

lemma ok_persistContract:
  assumes ok: "reaches m0 m" and absent: "look m (ContractK a) = None" and code: "code_at m (con_CodeID c) \<noteq> None"
  shows "ok_triple m0 m (persistContract k creator a c initMsg)"
  unfolding persistContract_def Let_def mustStoreContractInfo_def
proof (rule run_addToContractCodeSecondaryIndex, rule run_addToContractCreatorSecondaryIndex,
    rule run_appendToContractHistory, goal_cases)
  case (1 k1 p k2 q)
  then show ?case using ok by (simp add: reaches_def items_ok_set)
next
  case (2 k1 p k2 q pos)
  have "last_position m a pos"
    using 2(4,5) by (simp add: last_position_def look_index [OF 2(1)] look_creator [OF 2(3)])
  moreover have "con_Created c = Some p" and "key_of (ByCodeK (con_CodeID c) p a) = Ok k1"
    using 2(1,2) by (simp_all add: InitialHistory_def)
  ultimately show ?case
    by (intro run_end reaches_step [OF ok]) (rule registry_step.instantiated [OF code absent _ refl _ 2(3)])
qed

lemma ok_persistMigration:
  assumes ok: "reaches m0 m" and code: "code_at m newCodeID \<noteq> None"
    and contract: "contract_at m a = Some c0" and c: "migrated c0 c"
  shows "ok_triple m0 m (persistMigration k ctx a c newCodeID msg)"
  unfolding persistMigration_def mustStoreContractInfo_def
proof (rule triple_bindM)
  show "triple (store_is m) (mustGetLastContractHistoryEntry a)
      (\<lambda>e w. w_store w = m \<and> (\<exists>i. is_last m a i e)) (\<lambda>w. reaches m0 (w_store w))"
  proof (rule tripleI)
    fix s e s' assume s: "w_store s = m" and run: "mustGetLastContractHistoryEntry a s = (Ok e, s')"
    have "items_ok (w_store s)" using ok s by (simp add: reaches_def)
    from mustGetLast_iff [OF this, of a e s'] run s show "w_store s' = m \<and> (\<exists>i. is_last m a i e)" by auto
  next
    fix s e s' assume s: "w_store s = m" and run: "mustGetLastContractHistoryEntry a s = (Err e, s')"
    from neutralD [OF neutral_readers(8) run] s ok show "reaches m0 (w_store s')" by simp
  qed
  fix old
  let ?rest = "bindM (removeFromContractCodeSecondaryIndex a old) (\<lambda>_.
     bindM (liftO (AddMigration c ctx newCodeID msg)) (\<lambda>(historyEntry, contract).
     bindM (appendToContractHistory a [historyEntry]) (\<lambda>_.
     bindM (addToContractCodeSecondaryIndex a historyEntry) (\<lambda>_.
     storeSet (GetContractAddressKey a) (ContractInfoV contract)))))"
  have "ok_triple m0 m ?rest" if last: "is_last m a i old" for i
  proof (rule run_removeFromContractCodeSecondaryIndex, rule run_liftO, goal_cases)
    case (1 k0 p0 err)
    then show ?case by (simp add: AddMigration_def NewAbsoluteTxPosition_def Let_def)
  next
    case (2 k0 p0 mig)
    obtain e c' where mig: "mig = (e, c')" by (cases mig)
    from 2(3) mig c have e: "hist_CodeID e = con_CodeID c'" "con_CodeID c' = newCodeID" "migrated c0 c'"
      by (auto simp: AddMigration_def bindO_Ok_iff migrated_def)
    show ?case unfolding mig prod.case
    proof (rule run_appendToContractHistory, use ok in \<open>simp add: reaches_def items_ok_delete\<close>,
        rule run_addToContractCodeSecondaryIndex, goal_cases)
      case (1 pos k1 p)
      have "last_position m a pos"
        using 1(1,2) by (simp add: last_position_def look_index [OF 2(1)])
      with 1 2 code contract last e show ?case
        by (intro run_end reaches_step [OF ok])
           (rule registry_step.contract_migrated [where c = c0 and i = i and old = old and pold = p0 and p = p]; simp)
    qed
  qed
  then show "triple (\<lambda>w. w_store w = m \<and> (\<exists>i. is_last m a i old)) ?rest
      (\<lambda>_ w. reaches m0 (w_store w)) (\<lambda>w. reaches m0 (w_store w))"
    by (intro tripleI) (blast dest: tripleD)+
qed

section \<open>Entry points\<close>

text \<open>What the operations assume of the response handler of the keeper they run on.\<close>

definition responses_ok :: "('w, 'v) Keeper \<Rightarrow> bool" where
  "responses_ok k \<longleftrightarrow> (\<forall>m0 ctx a port msgs data. stepwise m0 (k_responseHandler k ctx a port msgs data))"

lemma keeps_handleContractResponse:
  "responses_ok k \<Longrightarrow> stepwise m0 (handleContractResponse k ctx a port msgs attrs data evts)"
  unfolding handleContractResponse_def by (intro keeps_rules) (simp add: responses_ok_def)

lemma keeps_respond: "responses_ok k \<Longrightarrow> stepwise m0 (respond k ctx a port r)"
  unfolding respond_def by (rule keeps_handleContractResponse)

lemma keeps_execute: "responses_ok k \<Longrightarrow> stepwise m0 (execute k ctx a caller msg coins)"
  unfolding execute_def by (intro keeps_rules keeps_respond)

lemma keeps_Sudo: "responses_ok k \<Longrightarrow> stepwise m0 (Sudo k ctx a msg)"
  unfolding Sudo_def by (intro keeps_rules keeps_respond)

lemma keeps_reply: "responses_ok k \<Longrightarrow> stepwise m0 (reply k ctx a rep)"
  unfolding reply_def by (intro keeps_rules keeps_respond)

lemma keeps_QuerySmart: "stepwise m0 (QuerySmart k ctx a req)"
  unfolding QuerySmart_def by (intro keeps_rules)

text \<open>
  Instantiation and migration go through states about which more is known: the code exists, the
  address is free or has a certain contract. \<open>ok_from m0 \<Phi> f\<close>: from a store with \<open>\<Phi>\<close>, \<open>f\<close> ends in
  one the steps reach from \<open>m0\<close>.
\<close>

abbreviation ok_from :: "store_value items \<Rightarrow> (store_value items \<Rightarrow> bool) \<Rightarrow> ('w, 'v, 'a) op \<Rightarrow> bool" where
  "ok_from m0 \<Phi> f \<equiv>
     triple (\<lambda>w. \<Phi> (w_store w)) f (\<lambda>_ w. reaches m0 (w_store w)) (\<lambda>w. reaches m0 (w_store w))"

lemma ok_from_neutral:
  assumes "neutral p" and "\<And>m. \<Phi> m \<Longrightarrow> reaches m0 m" and "\<And>x. ok_from m0 \<Phi> (f x)"
  shows "ok_from m0 \<Phi> (bindM p f)"
  by (rule triple_bind_keeps) (use assms neutral_keeps [OF assms(1), of \<Phi>] in auto)

lemma ok_from_runContract:
  assumes "contract_local \<Phi>" and "\<And>m. \<Phi> m \<Longrightarrow> reaches m0 m" and "\<And>x. ok_from m0 \<Phi> (f x)"
  shows "ok_from m0 \<Phi> (bindM (runContract k ctx b e call) f)"
  by (rule triple_bind_keeps) (use assms keeps_runContract [OF assms(1)] in auto)

lemma ok_from_guard:
  assumes "\<And>m. \<Phi> m \<Longrightarrow> reaches m0 m" and "b \<Longrightarrow> ok_from m0 \<Phi> (f ())"
  shows "ok_from m0 \<Phi> (bindM (guardM b e) f)"
  by (rule triple_bind_guardM) (use assms in auto)

lemma ok_triple_from: "ok_from m0 \<Phi> f \<Longrightarrow> \<Phi> m \<Longrightarrow> ok_triple m0 m f"
  by (erule triple_conseq) simp_all

lemma ok_from_known: "(\<And>m. \<Phi> m \<Longrightarrow> ok_triple m0 m f) \<Longrightarrow> ok_from m0 \<Phi> f"
  by (rule triple_known_store)

text \<open>The situations.\<close>

abbreviation with_code :: "store_value items \<Rightarrow> u64 \<Rightarrow> store_value items \<Rightarrow> bool" where
  "with_code m0 i m \<equiv> reaches m0 m \<and> code_at m i \<noteq> None"

abbreviation fresh_at :: "store_value items \<Rightarrow> bytes \<Rightarrow> u64 \<Rightarrow> store_value items \<Rightarrow> bool" where
  "fresh_at m0 a i m \<equiv> with_code m0 i m \<and> look m (ContractK a) = None"

abbreviation with_contract :: "store_value items \<Rightarrow> bytes \<Rightarrow> ContractInfo \<Rightarrow> u64 \<Rightarrow> store_value items \<Rightarrow> bool" where
  "with_contract m0 a c i m \<equiv> with_code m0 i m \<and> contract_at m a = Some c"

lemma contract_local_situations:
  "contract_local (with_code m0 i)" "contract_local (fresh_at m0 a i)" "contract_local (with_contract m0 a c i)"
proof -
  have "contract_local (\<lambda>m. look m (ContractK a) = None)"
    by (simp add: contract_local_def look_putContractStore)
  then show "contract_local (with_code m0 i)" "contract_local (fresh_at m0 a i)"
    "contract_local (with_contract m0 a c i)"
    by (intro contract_local_conj contract_local_reaches contract_local_look; assumption?)+
qed

definition generates_ok :: "('w, 'v) AddressGenerator \<Rightarrow> bool" where
  "generates_ok gen \<longleftrightarrow> (\<forall>m0 i c j. keeps (\<lambda>w. with_code m0 j (w_store w)) (gen i c))"

lemma ok_from_persistContract:
  assumes "con_CodeID c = i" and "stepwise m0 (f ())"
  shows "ok_from m0 (fresh_at m0 a i) (bindM (persistContract k creator a c msg) f)"
proof (rule triple_bindM [where Q = "\<lambda>_ w. reaches m0 (w_store w)"])
  show "ok_from m0 (fresh_at m0 a i) (persistContract k creator a c msg)"
    by (rule triple_known_store) (rule ok_persistContract, use assms(1) in simp_all)
  show "ok_from m0 (reaches m0) (f u)" for u
    using assms(2) by (simp add: keeps_triple)
qed

lemma ok_from_persistMigration:
  assumes "migrated c0 c" and "stepwise m0 (f ())"
  shows "ok_from m0 (with_contract m0 a c0 i) (bindM (persistMigration k ctx a c i msg) f)"
proof (rule triple_bindM [where Q = "\<lambda>_ w. reaches m0 (w_store w)"])
  show "ok_from m0 (with_contract m0 a c0 i) (persistMigration k ctx a c i msg)"
    by (rule triple_known_store) (rule ok_persistMigration, use assms(1) in simp_all)
  show "ok_from m0 (reaches m0) (f u)" for u
    using assms(2) by (simp add: keeps_triple)
qed

lemma ok_from_free_address:
  assumes "ok_from m0 (fresh_at m0 a i) rest"
  shows "ok_from m0 (with_code m0 i) (bindM (HasContractInfo a) (\<lambda>ex. bindM (guardM (\<not> ex) e) (\<lambda>_. rest)))"
proof (rule ok_from_known, rule run_HasContractInfo, rule ok_guard, goal_cases)
  case (2 m)
  then show ?case using assms by (intro ok_triple_from [OF assms]) simp
qed simp

lemma keeps_with_code:
  assumes "\<And>c. ok_from m0 (with_code m0 i) (f c)"
  shows "stepwise m0 (bindM (GetCodeInfo i) (\<lambda>info. case info of None \<Rightarrow> failM e | Some c \<Rightarrow> f c))"
proof (rule keeps_okI, rule run_GetCodeInfo, goal_cases)
  case (1 m)
  then show ?case
    by (cases "code_at m i") (auto simp: ok_fail intro!: ok_triple_from [OF assms])
qed

lemma ok_from_generate:
  assumes "generates_ok gen" and "\<And>a. ok_from m0 (with_code m0 i) (f a)"
  shows "ok_from m0 (with_code m0 i) (bindM (gen j c) f)"
  by (rule triple_bind_keeps) (use assms in \<open>auto simp: generates_ok_def\<close>)

lemma ok_from_port:
  assumes "\<And>m. \<Phi> m \<Longrightarrow> reaches m0 m" and "\<And>c'. con_CodeID c' = con_CodeID c \<Longrightarrow> ok_from m0 \<Phi> (f c')"
  shows "ok_from m0 \<Phi>
    (bindM (if b then bindM (ensureIbcPort k a) (\<lambda>p. returnM (c\<lparr>con_IBCPortID := p\<rparr>)) else returnM c) f)"
  using assms by (auto simp: bindM_assoc intro!: ok_from_neutral neutral_ports)

lemma NewContractInfo_CodeID: "con_CodeID (NewContractInfo ac i cr ad l p) = i"
  by (simp add: NewContractInfo_def Let_def)

lemma keeps_instantiate:
  assumes responses: "responses_ok k" and gen: "generates_ok gen"
  shows "stepwise m0 (instantiate k ctx codeID creatorAddr admin initMsg label deposit gen authPolicy)"
proof (cases creatorAddr)
  case (Some creator)
  have tail: "ok_from m0 (fresh_at m0 a codeID) (bindM (persistContract k creator a c initMsg) (\<lambda>_.
     bindM (emitEvent ''instantiate'' as) (\<lambda>_.
     bindM (derefM res) (\<lambda>r.
     bindM (wrapM ''dispatch'' (respond k ctx' a port r)) (\<lambda>data.
     returnM (a, data))))))"
    if "con_CodeID c = codeID" for a c as res ctx' port
    by (rule ok_from_persistContract [OF that]) (intro keeps_rules keeps_respond responses)
  have head: "ok_from m0 (with_code m0 codeID)
      (bindM (chargeSetup k codeID h initMsg d) (\<lambda>_.
       bindM (liftO (CanInstantiateContract (k_addr k) authPolicy cfg creator)) (\<lambda>ok.
       bindM (guardM ok err) (\<lambda>_. bindM (gen codeID h) f))))"
    if "\<And>a. ok_from m0 (with_code m0 codeID) (f a)"
    for h d cfg err and f :: "bytes \<Rightarrow> ('a, 'b, bytes \<times> bytes option) op"
    by (rule ok_from_neutral, rule neutral_rules, simp)
       (rule ok_from_neutral, rule neutral_rules, simp, rule ok_from_guard, simp, rule ok_from_generate [OF gen that])
  show ?thesis unfolding instantiate_def Some option.case Let_def
  proof (intro keeps_with_code head ok_from_free_address, goal_cases)
    case (1 codeInfo a)
    show ?case
      by (rule ok_from_neutral, rule neutral_accounts, simp)+
         (rule ok_from_neutral, rule neutral_rules, simp,
          rule ok_from_runContract, rule contract_local_situations, simp,
          rule ok_from_neutral, rule neutral_rules, simp,
          rule ok_from_neutral, rule neutral_rules, simp,
          rule ok_from_port, simp, rule tail, simp add: NewContractInfo_CodeID)
  qed
qed (simp add: instantiate_def keeps_basic)

text \<open>Migration: the contract read first is still the one in the store when the new version is written.\<close>

lemma ok_from_GetCodeInfo:
  assumes "\<And>m. \<Phi> m \<Longrightarrow> reaches m0 m" and "\<And>c. ok_from m0 (\<lambda>m. \<Phi> m \<and> code_at m i \<noteq> None) (f c)"
  shows "ok_from m0 \<Phi> (bindM (GetCodeInfo i) (\<lambda>info. case info of None \<Rightarrow> failM e | Some c \<Rightarrow> f c))"
proof (rule ok_from_known, rule run_GetCodeInfo, goal_cases)
  case (1 m)
  then show ?case
    using assms(1) by (cases "code_at m i") (auto simp: ok_fail intro!: ok_triple_from [OF assms(2)])
qed

lemma keeps_with_contract:
  assumes "\<And>c. ok_from m0 (\<lambda>m. reaches m0 m \<and> contract_at m a = Some c) (f c)"
  shows "stepwise m0 (bindM (GetContractInfo a) (\<lambda>ci. case ci of None \<Rightarrow> failM e | Some c \<Rightarrow> f c))"
proof (rule keeps_okI, rule run_GetContractInfo, goal_cases)
  case (1 m)
  then show ?case
    by (cases "contract_at m a") (auto simp: ok_fail intro!: ok_triple_from [OF assms])
qed

lemma ok_from_migration_port:
  assumes "\<And>m. \<Phi> m \<Longrightarrow> reaches m0 m" and "\<And>c'. migrated c c' \<Longrightarrow> ok_from m0 \<Phi> (f c')"
  shows "ok_from m0 \<Phi>
    (bindM (if b then failM e
            else if b' \<and> con_IBCPortID c = []
            then bindM (ensureIbcPort k a) (\<lambda>p. returnM (c\<lparr>con_IBCPortID := p\<rparr>)) else returnM c) f)"
  using assms
  by (auto simp: bindM_assoc migrated_def intro!: ok_from_neutral neutral_ports triple_basic(2))

lemma keeps_migrate:
  assumes responses: "responses_ok k"
  shows "stepwise m0 (migrate k ctx a caller newCodeID msg authZ)"
  unfolding migrate_def
proof (rule keeps_with_contract, goal_cases)
  case (1 c0)
  let ?\<Phi> = "\<lambda>m. (reaches m0 m \<and> contract_at m a = Some c0) \<and> code_at m newCodeID \<noteq> None"
  have local: "contract_local ?\<Phi>"
    by (intro contract_local_conj contract_local_reaches contract_local_look)
  have tail: "ok_from m0 ?\<Phi> (bindM (persistMigration k ctx a c newCodeID msg) (\<lambda>_.
      bindM (emitEvent ''migrate'' as) (\<lambda>_.
      case response of None \<Rightarrow> returnM None | Some r \<Rightarrow> wrapM ''dispatch'' (respond k ctx' a port r))))"
    if "migrated c0 c" for c as response ctx' port
    by (rule triple_conseq, rule ok_from_persistMigration [OF that])
       (intro keeps_rules keeps_respond responses, auto)
  have call: "keeps (\<lambda>w. ?\<Phi> (w_store w))
      (if b then returnM None else callMigrateEntrypoint k ctx a h msg newCodeID caller v)" for b h v
    unfolding callMigrateEntrypoint_def
    by (intro keeps_cases(1) keeps_basic keeps_bindM keeps_liftO keeps_runContract local)
       (rule neutral_keeps, rule neutral_chargeSetup)
  show ?case
    by (rule ok_from_neutral, rule neutral_basic, simp)
       (rule ok_from_guard, simp, rule ok_from_GetCodeInfo, simp,
        rule ok_from_neutral, rule neutral_basic, simp, rule ok_from_guard, simp,
        rule ok_from_neutral, rule neutral_code_helpers, simp, rule ok_from_migration_port, simp,
        rule ok_from_neutral, rule neutral_readers, simp, rule ok_from_neutral, rule neutral_code_helpers, simp,
        rule ok_from_neutral, rule neutral_code_helpers, simp, rule triple_bind_keeps [OF call], simp, rule tail, assumption)
qed

lemma generates_ok_generators:
  "generates_ok (ClassicAddressGenerator k)" "generates_ok (PredictableAddressGenerator k creator salt m fx)"
proof -
  have "keeps (\<lambda>w. with_code m0 j (w_store w)) (bindM (mustAutoIncrementID KeySequenceInstanceID) returnM)" for m0 j
  proof (rule keeps_known_store, rule run_mustAutoIncrementID, rule triple_basic, goal_cases)
    case (1 m i s)
    then show ?case
      by (auto simp: code_at_def look_bump intro: reaches_step registry_step.instance_id)
  qed
  then have "keeps (\<lambda>w. with_code m0 j (w_store w)) (mustAutoIncrementID KeySequenceInstanceID)" for m0 j
    by (simp add: mustAutoIncrementID_def bindM_assoc)
  then show "generates_ok (ClassicAddressGenerator k)"
    unfolding generates_ok_def ClassicAddressGenerator_def by (intro allI keeps_bindM keeps_liftO)
  show "generates_ok (PredictableAddressGenerator k creator salt m fx)"
    unfolding generates_ok_def PredictableAddressGenerator_def by (intro allI keeps_liftO)
qed

end
