(* ===== verification/Relay.thy ===== *)
theory Relay
  imports Keeper_Contracts
begin

text \<open>
  IBC: how the channel and packet callbacks of ibc-go reach a contract. \<open>x/wasm/ibc.go\<close> (the IBC
  module) and \<open>keeper/relay.go\<close> (the entry points of the keeper). The functions of the IBC module
  carry the prefix \<open>IBCHandler\<close>; an \<open>Order\<close> of a channel is kept as the string its \<open>String\<close> method
  gives.
\<close>

section \<open>Entry points of the keeper\<close>

text \<open>
  What all of them start with: the contract, its environment, a call of the VM, the gas. The
  result of the VM is left to the entry point.
\<close>

definition relayVM ::
  "('w, 'v) Keeper \<Rightarrow> ctx \<Rightarrow> bytes \<Rightarrow> (bytes \<Rightarrow> Env \<Rightarrow> 'r vm_call) \<Rightarrow>
   ('w, 'v, ContractInfo \<times> (string + 'r option)) op"
where
  "relayVM k ctx contractAddr call =
     bindM (contractInstance k contractAddr) (\<lambda>(contractInfo, codeInfo).
     bindM (liftO (NewEnv (k_addr k) ctx contractAddr)) (\<lambda>env.
     bindM (runtimeGasForContract k) (\<lambda>gasLeft.
     bindM (callVM k ctx contractAddr (call (code_CodeHash codeInfo) env) gasLeft) (\<lambda>(res, gasUsed).
     bindM (consumeRuntimeGas k gasUsed) (\<lambda>_.
     returnM (contractInfo, res))))))"

definition OnOpenChannel ::
  "('w, 'v) Keeper \<Rightarrow> ctx \<Rightarrow> bytes \<Rightarrow> IBCChannelOpenMsg \<Rightarrow> ('w, 'v, string) op"
where
  "OnOpenChannel k ctx contractAddr msg =
     bindM (relayVM k ctx contractAddr (\<lambda>checksum env. vm_IBCChannelOpen (k_vm k) checksum env msg)) (\<lambda>(_, res).
     case res of
       Inl execErr \<Rightarrow> failM (WrappedError execErr ErrExecuteFailed)
     | Inr r \<Rightarrow>
         (case Option.bind r open_Ok of
            Some version \<Rightarrow> returnM version
          | None \<Rightarrow> returnM []))"

definition handleIBCBasicContractResponse ::
  "('w, 'v) Keeper \<Rightarrow> ctx \<Rightarrow> bytes \<Rightarrow> string \<Rightarrow> IBCBasicResponse option \<Rightarrow> ('w, 'v, unit) op"
where
  "handleIBCBasicContractResponse k ctx addr ibcPort res =
     bindM (derefM res) (\<lambda>r.
     bindM (handleContractResponse k ctx addr ibcPort (basic_Messages r) (basic_Attributes r) None
              (basic_Events r)) (\<lambda>_.
     returnM ()))"

text \<open>The entry points with a basic response differ only in the call.\<close>

definition relayBasic ::
  "('w, 'v) Keeper \<Rightarrow> ctx \<Rightarrow> bytes \<Rightarrow> (bytes \<Rightarrow> Env \<Rightarrow> IBCBasicResult vm_call) \<Rightarrow> ('w, 'v, unit) op"
where
  "relayBasic k ctx contractAddr call =
     bindM (relayVM k ctx contractAddr call) (\<lambda>(contractInfo, res).
     case res of
       Inl execErr \<Rightarrow> failM (WrappedError execErr ErrExecuteFailed)
     | Inr None \<Rightarrow> failM (WrappedError ''internal wasmvm error'' ErrVMError)
     | Inr (Some r) \<Rightarrow>
         if basic_Err r \<noteq> [] then failM (DeterministicError (WrappedError (basic_Err r) ErrExecuteFailed))
         else handleIBCBasicContractResponse k ctx contractAddr (con_IBCPortID contractInfo) (basic_Ok r))"

definition OnConnectChannel ::
  "('w, 'v) Keeper \<Rightarrow> ctx \<Rightarrow> bytes \<Rightarrow> IBCChannelConnectMsg \<Rightarrow> ('w, 'v, unit) op"
where
  "OnConnectChannel k ctx contractAddr msg =
     relayBasic k ctx contractAddr (\<lambda>checksum env. vm_IBCChannelConnect (k_vm k) checksum env msg)"

definition OnCloseChannel ::
  "('w, 'v) Keeper \<Rightarrow> ctx \<Rightarrow> bytes \<Rightarrow> IBCChannelCloseMsg \<Rightarrow> ('w, 'v, unit) op"
where
  "OnCloseChannel k ctx contractAddr msg =
     relayBasic k ctx contractAddr (\<lambda>checksum env. vm_IBCChannelClose (k_vm k) checksum env msg)"

definition OnAckPacket ::
  "('w, 'v) Keeper \<Rightarrow> ctx \<Rightarrow> bytes \<Rightarrow> IBCPacketAckMsg \<Rightarrow> ('w, 'v, unit) op"
where
  "OnAckPacket k ctx contractAddr msg =
     relayBasic k ctx contractAddr (\<lambda>checksum env. vm_IBCPacketAck (k_vm k) checksum env msg)"

definition OnTimeoutPacket ::
  "('w, 'v) Keeper \<Rightarrow> ctx \<Rightarrow> bytes \<Rightarrow> IBCPacketTimeoutMsg \<Rightarrow> ('w, 'v, unit) op"
where
  "OnTimeoutPacket k ctx contractAddr msg =
     relayBasic k ctx contractAddr (\<lambda>checksum env. vm_IBCPacketTimeout (k_vm k) checksum env msg)"

definition IBCSourceCallback ::
  "('w, 'v) Keeper \<Rightarrow> ctx \<Rightarrow> bytes \<Rightarrow> IBCSourceCallbackMsg \<Rightarrow> ('w, 'v, unit) op"
where
  "IBCSourceCallback k ctx contractAddr msg =
     relayBasic k ctx contractAddr (\<lambda>checksum env. vm_IBCSourceCallback (k_vm k) checksum env msg)"

definition IBCDestinationCallback ::
  "('w, 'v) Keeper \<Rightarrow> ctx \<Rightarrow> bytes \<Rightarrow> IBCDestinationCallbackMsg \<Rightarrow> ('w, 'v, unit) op"
where
  "IBCDestinationCallback k ctx contractAddr msg =
     relayBasic k ctx contractAddr (\<lambda>checksum env. vm_IBCDestinationCallback (k_vm k) checksum env msg)"

definition convertPacket :: "IBCPacket \<Rightarrow> Packet" where
  "convertPacket packet =
     \<lparr>packet_Sequence = pkt_Sequence packet,
      packet_SourcePort = ep_PortID (pkt_Src packet),
      packet_SourceChannel = ep_ChannelID (pkt_Src packet),
      packet_DestinationPort = ep_PortID (pkt_Dest packet),
      packet_DestinationChannel = ep_ChannelID (pkt_Dest packet),
      packet_Data = pkt_Data packet,
      packet_TimeoutHeight =
        (case to_Block (pkt_Timeout packet) of
           None \<Rightarrow> (0, 0)
         | Some b \<Rightarrow> (tb_Revision b, tb_Height b)),
      packet_TimeoutTimestamp = to_Timestamp (pkt_Timeout packet)\<rparr>"

text \<open>The two kinds of acknowledgement; a nil acknowledgement is \<open>None\<close>.\<close>

datatype Acknowledgement = ErrorAck string | ContractConfirmStateAck bytes

fun Acknowledgement_Success :: "Acknowledgement \<Rightarrow> bool" where
  "Acknowledgement_Success (ErrorAck _) = False"
| "Acknowledgement_Success (ContractConfirmStateAck _) = True"

definition OnRecvPacket ::
  "('w, 'v) Keeper \<Rightarrow> ctx \<Rightarrow> bytes \<Rightarrow> IBCPacketReceiveMsg \<Rightarrow> ('w, 'v, Acknowledgement option) op"
where
  "OnRecvPacket k ctx contractAddr msg =
     bindM (relayVM k ctx contractAddr (\<lambda>checksum env. vm_IBCPacketReceive (k_vm k) checksum env msg)) (\<lambda>(contractInfo, res).
     case res of
       Inl execErr \<Rightarrow> panicM PanicOther
     | Inr None \<Rightarrow> failM (WrappedError ''internal wasmvm error'' ErrVMError)
     | Inr (Some r) \<Rightarrow>
         if recv_Err r \<noteq> [] then returnM (Some (ErrorAck (recv_Err r)))
         else
           bindM (derefM (recv_Ok r)) (\<lambda>ok.
           bindM (handleContractResponse k ctx contractAddr (con_IBCPortID contractInfo) (recv_Messages ok)
                    (recv_Attributes ok) (recv_Acknowledgement ok) (recv_Events ok)) (\<lambda>data.
           case data of
             None \<Rightarrow>
               bindM (StoreAsyncAckPacket (convertPacket (prm_Packet msg))) (\<lambda>_.
               returnM None)
           | Some ack \<Rightarrow> returnM (Some (ContractConfirmStateAck ack)))))"

section \<open>The IBC module\<close>

definition ErrMaxIBCChannels :: go_error where "ErrMaxIBCChannels = RegisteredError ''wasm'' 16"

definition ValidateChannelParams :: "'w sdk_ops \<Rightarrow> string \<Rightarrow> go_error + unit" where
  "ValidateChannelParams sdk channelID =
     bindE (sdk_ParseChannelSequence sdk channelID) (\<lambda>channelSequence.
     requireE (channelSequence \<le> 0xFFFFFFFF) (WrappedError ''channel sequence'' ErrMaxIBCChannels))"

definition headHop :: "string list \<Rightarrow> string outcome" where
  "headHop hops = (case hops of [] \<Rightarrow> Panic PanicOther | h # _ \<Rightarrow> Ok h)"

definition toWasmVMChannel :: "string \<Rightarrow> string \<Rightarrow> Channel \<Rightarrow> string \<Rightarrow> IBCChannel outcome" where
  "toWasmVMChannel portID channelID channelInfo appVersion =
     bindO (headHop (chan_ConnectionHops channelInfo)) (\<lambda>hop.
     Ok \<lparr>ch_Endpoint = \<lparr>ep_PortID = portID, ep_ChannelID = channelID\<rparr>,
         ch_CounterpartyEndpoint = \<lparr>ep_PortID = chan_CounterpartyPortId channelInfo,
                                    ep_ChannelID = chan_CounterpartyChannelId channelInfo\<rparr>,
         ch_Order = chan_Ordering channelInfo,
         ch_Version = appVersion,
         ch_ConnectionID = hop\<rparr>)"

definition newIBCPacket :: "Packet \<Rightarrow> IBCPacket" where
  "newIBCPacket packet =
     \<lparr>pkt_Data = packet_Data packet,
      pkt_Src = \<lparr>ep_PortID = packet_SourcePort packet, ep_ChannelID = packet_SourceChannel packet\<rparr>,
      pkt_Dest = \<lparr>ep_PortID = packet_DestinationPort packet, ep_ChannelID = packet_DestinationChannel packet\<rparr>,
      pkt_Sequence = packet_Sequence packet,
      pkt_Timeout =
        \<lparr>to_Block =
           (if packet_TimeoutHeight packet = (0, 0) then None
            else Some \<lparr>tb_Revision = fst (packet_TimeoutHeight packet),
                       tb_Height = snd (packet_TimeoutHeight packet)\<rparr>),
         to_Timestamp = packet_TimeoutTimestamp packet\<rparr>\<rparr>"

definition contractOfPort :: "('w, 'v) Keeper \<Rightarrow> string \<Rightarrow> ('w, 'v, bytes) op" where
  "contractOfPort k portID = wrapM ''contract port id'' (liftE (ContractFromPortID (k_addr k) portID))"

definition claimChannel ::
  "('w, 'v) Keeper \<Rightarrow> nat \<Rightarrow> string \<Rightarrow> string \<Rightarrow> ('w, 'v, unit) op"
where
  "claimChannel k chanCap portID channelID =
     wrapM ''claim capability''
       (liftX (sdk_ClaimCapability (k_sdk k) chanCap (sdk_ChannelCapabilityPath (k_sdk k) portID channelID)))"

definition IBCHandler_OnChanOpenInit ::
  "('w, 'v) Keeper \<Rightarrow> ctx \<Rightarrow> string \<Rightarrow> string list \<Rightarrow> string \<Rightarrow> string \<Rightarrow> nat \<Rightarrow> IBCEndpoint \<Rightarrow> string \<Rightarrow>
   ('w, 'v, string) op"
where
  "IBCHandler_OnChanOpenInit k ctx order connectionHops portID channelID chanCap counterParty version =
     bindM (liftE (ValidateChannelParams (k_sdk k) channelID)) (\<lambda>_.
     bindM (contractOfPort k portID) (\<lambda>contractAddr.
     bindM (liftO (headHop connectionHops)) (\<lambda>hop.
     bindM (OnOpenChannel k ctx contractAddr
              (OpenInit \<lparr>ch_Endpoint = \<lparr>ep_PortID = portID, ep_ChannelID = channelID\<rparr>,
                         ch_CounterpartyEndpoint = counterParty, ch_Order = order,
                         ch_Version = version, ch_ConnectionID = hop\<rparr>)) (\<lambda>accepted.
     bindM (guardM (accepted \<noteq> [] \<or> version \<noteq> []) (WrappedError ''version'' ErrEmpty)) (\<lambda>_.
     bindM (claimChannel k chanCap portID channelID) (\<lambda>_.
     returnM (if accepted = [] then version else accepted)))))))"

definition IBCHandler_OnChanOpenTry ::
  "('w, 'v) Keeper \<Rightarrow> ctx \<Rightarrow> string \<Rightarrow> string list \<Rightarrow> string \<Rightarrow> string \<Rightarrow> nat \<Rightarrow> IBCEndpoint \<Rightarrow> string \<Rightarrow>
   ('w, 'v, string) op"
where
  "IBCHandler_OnChanOpenTry k ctx order connectionHops portID channelID chanCap counterParty counterpartyVersion =
     bindM (liftE (ValidateChannelParams (k_sdk k) channelID)) (\<lambda>_.
     bindM (contractOfPort k portID) (\<lambda>contractAddr.
     bindM (liftO (headHop connectionHops)) (\<lambda>hop.
     bindM (OnOpenChannel k ctx contractAddr
              (OpenTry \<lparr>ch_Endpoint = \<lparr>ep_PortID = portID, ep_ChannelID = channelID\<rparr>,
                        ch_CounterpartyEndpoint = counterParty, ch_Order = order,
                        ch_Version = counterpartyVersion, ch_ConnectionID = hop\<rparr> counterpartyVersion)) (\<lambda>accepted.
     bindM (liftX (sdk_AuthenticateCapability (k_sdk k) chanCap
                     (sdk_ChannelCapabilityPath (k_sdk k) portID channelID))) (\<lambda>owned.
     bindM (if owned then returnM () else claimChannel k chanCap portID channelID) (\<lambda>_.
     returnM (if accepted = [] then counterpartyVersion else accepted)))))))"

text \<open>The channel of a callback, as the contract sees it.\<close>

definition channelOf ::
  "('w, 'v) Keeper \<Rightarrow> string \<Rightarrow> string \<Rightarrow> (Channel \<Rightarrow> Channel) \<Rightarrow> ('w, 'v, bytes \<times> IBCChannel) op"
where
  "channelOf k portID channelID update =
     bindM (contractOfPort k portID) (\<lambda>contractAddr.
     bindM (liftX (sdk_GetChannel (k_sdk k) portID channelID)) (\<lambda>found.
     case found of
       None \<Rightarrow> failM (WrappedError ''channel'' (sdk_ErrChannelNotFound (k_sdk k)))
     | Some channelInfo \<Rightarrow>
     bindM (liftX (sdk_GetAppVersion (k_sdk k) portID channelID)) (\<lambda>version.
     case version of
       None \<Rightarrow> failM (WrappedError ''channel'' (sdk_ErrInvalidChannelVersion (k_sdk k)))
     | Some appVersion \<Rightarrow>
     bindM (liftO (toWasmVMChannel portID channelID (update channelInfo) appVersion)) (\<lambda>channel.
     returnM (contractAddr, channel)))))"

definition IBCHandler_OnChanOpenAck ::
  "('w, 'v) Keeper \<Rightarrow> ctx \<Rightarrow> string \<Rightarrow> string \<Rightarrow> string \<Rightarrow> string \<Rightarrow> ('w, 'v, unit) op"
where
  "IBCHandler_OnChanOpenAck k ctx portID channelID counterpartyChannelID counterpartyVersion =
     bindM (channelOf k portID channelID (\<lambda>c. c\<lparr>chan_CounterpartyChannelId := counterpartyChannelID\<rparr>)) (\<lambda>(contractAddr, channel).
     OnConnectChannel k ctx contractAddr (OpenAck channel counterpartyVersion))"

definition IBCHandler_OnChanOpenConfirm ::
  "('w, 'v) Keeper \<Rightarrow> ctx \<Rightarrow> string \<Rightarrow> string \<Rightarrow> ('w, 'v, unit) op"
where
  "IBCHandler_OnChanOpenConfirm k ctx portID channelID =
     bindM (channelOf k portID channelID id) (\<lambda>(contractAddr, channel).
     OnConnectChannel k ctx contractAddr (OpenConfirm channel))"

definition IBCHandler_OnChanCloseInit ::
  "('w, 'v) Keeper \<Rightarrow> ctx \<Rightarrow> string \<Rightarrow> string \<Rightarrow> ('w, 'v, unit) op"
where
  "IBCHandler_OnChanCloseInit k ctx portID channelID =
     bindM (channelOf k portID channelID id) (\<lambda>(contractAddr, channel).
     OnCloseChannel k ctx contractAddr (CloseInit channel))"

definition IBCHandler_OnChanCloseConfirm ::
  "('w, 'v) Keeper \<Rightarrow> ctx \<Rightarrow> string \<Rightarrow> string \<Rightarrow> ('w, 'v, unit) op"
where
  "IBCHandler_OnChanCloseConfirm k ctx portID channelID =
     bindM (channelOf k portID channelID id) (\<lambda>(contractAddr, channel).
     OnCloseChannel k ctx contractAddr (CloseConfirm channel))"

definition EmitAcknowledgementEvent ::
  "('w, 'v) Keeper \<Rightarrow> bytes \<Rightarrow> Acknowledgement option \<Rightarrow> go_error option \<Rightarrow> ('w, 'v, unit) op"
where
  "EmitAcknowledgementEvent k contractAddr ack err =
     (let success = (err = None \<and> (case ack of None \<Rightarrow> True | Some a \<Rightarrow> Acknowledgement_Success a))
      in emitEvent ''ibc_packet_received''
           ([attr ''module'' ''wasm'',
             attr AttributeKeyContractAddr (addr_String (k_addr k) contractAddr),
             attr ''success'' (if success then ''true'' else ''false'')] @
            (case err of None \<Rightarrow> [] | Some e \<Rightarrow> [attr ''error'' (sdk_errText (k_sdk k) e)])))"

text \<open>
  The packet runs with an event manager of its own; its events are passed on only when the
  acknowledgement reports success. Rolling back the state is left to ibc-go.
\<close>

definition withEvents :: "('w, 'v, 'a) op \<Rightarrow> ('w, 'v, (go_error + 'a) \<times> Event list) op" where
  "withEvents m = (\<lambda>w.
     case tryM m (w\<lparr>w_env := (w_env w)\<lparr>es_events := []\<rparr>\<rparr>) of
       (Ok r, w1) \<Rightarrow>
         (Ok (r, es_events (w_env w1)), w1\<lparr>w_env := (w_env w1)\<lparr>es_events := es_events (w_env w)\<rparr>\<rparr>)
     | (Err e, w1) \<Rightarrow> (Err e, w1)
     | (Panic p, w1) \<Rightarrow> (Panic p, w1))"

definition IBCHandler_OnRecvPacket ::
  "('w, 'v) Keeper \<Rightarrow> ctx \<Rightarrow> Packet \<Rightarrow> bytes \<Rightarrow> ('w, 'v, Acknowledgement option) op"
where
  "IBCHandler_OnRecvPacket k ctx packet relayer =
     (case ContractFromPortID (k_addr k) (packet_DestinationPort packet) of
        Inl err \<Rightarrow> panicM PanicOther
      | Inr contractAddr \<Rightarrow>
          bindM (withEvents (OnRecvPacket k ctx contractAddr
                   \<lparr>prm_Packet = newIBCPacket packet, prm_Relayer = addr_String (k_addr k) relayer\<rparr>)) (\<lambda>(res, em).
          case res of
            Inl err \<Rightarrow>
              (let ack = Some (ErrorAck (sdk_NewErrorAcknowledgement (k_sdk k) err))
               in bindM (EmitAcknowledgementEvent k contractAddr ack (Some err)) (\<lambda>_. returnM ack))
          | Inr ack \<Rightarrow>
              bindM (if (case ack of None \<Rightarrow> True | Some a \<Rightarrow> Acknowledgement_Success a)
                     then emitEvents em else returnM ()) (\<lambda>_.
              bindM (EmitAcknowledgementEvent k contractAddr ack None) (\<lambda>_. returnM ack))))"

definition IBCHandler_OnAcknowledgementPacket ::
  "('w, 'v) Keeper \<Rightarrow> ctx \<Rightarrow> Packet \<Rightarrow> bytes \<Rightarrow> bytes \<Rightarrow> ('w, 'v, unit) op"
where
  "IBCHandler_OnAcknowledgementPacket k ctx packet acknowledgement relayer =
     bindM (contractOfPort k (packet_SourcePort packet)) (\<lambda>contractAddr.
     wrapM ''on ack'' (OnAckPacket k ctx contractAddr
       \<lparr>pam_Acknowledgement = acknowledgement, pam_OriginalPacket = newIBCPacket packet,
        pam_Relayer = addr_String (k_addr k) relayer\<rparr>))"

definition IBCHandler_OnTimeoutPacket ::
  "('w, 'v) Keeper \<Rightarrow> ctx \<Rightarrow> Packet \<Rightarrow> bytes \<Rightarrow> ('w, 'v, unit) op"
where
  "IBCHandler_OnTimeoutPacket k ctx packet relayer =
     bindM (contractOfPort k (packet_SourcePort packet)) (\<lambda>contractAddr.
     wrapM ''on timeout'' (OnTimeoutPacket k ctx contractAddr
       \<lparr>ptm_Packet = newIBCPacket packet, ptm_Relayer = addr_String (k_addr k) relayer\<rparr>))"

section \<open>Callbacks of the callbacks middleware\<close>

definition validateSender :: "addr_codec \<Rightarrow> string \<Rightarrow> string \<Rightarrow> go_error + bytes" where
  "validateSender ac contractAddr senderAddr =
     bindE (wrapE ''contract address'' (AccAddressFromBech32 ac contractAddr)) (\<lambda>contractAddress.
     bindE (wrapE ''packet sender address'' (AccAddressFromBech32 ac senderAddr)) (\<lambda>senderAddress.
     if contractAddress = senderAddress then Inr contractAddress
     else Inl (WrappedError ''contract address does not match packet sender'' ErrExecuteFailed)))"

definition IBCHandler_IBCSendPacketCallback ::
  "('w, 'v) Keeper \<Rightarrow> ctx \<Rightarrow> string \<Rightarrow> string \<Rightarrow> ('w, 'v, unit) op"
where
  "IBCHandler_IBCSendPacketCallback k ctx contractAddress packetSenderAddress =
     bindM (liftE (validateSender (k_addr k) contractAddress packetSenderAddress)) (\<lambda>_. returnM ())"

definition IBCHandler_IBCOnAcknowledgementPacketCallback ::
  "('w, 'v) Keeper \<Rightarrow> ctx \<Rightarrow> Packet \<Rightarrow> bytes \<Rightarrow> bytes \<Rightarrow> string \<Rightarrow> string \<Rightarrow> ('w, 'v, unit) op"
where
  "IBCHandler_IBCOnAcknowledgementPacketCallback k ctx packet acknowledgement relayer contractAddress packetSenderAddress =
     bindM (liftE (validateSender (k_addr k) contractAddress packetSenderAddress)) (\<lambda>contractAddr.
     wrapM ''on source chain callback ack''
       (IBCSourceCallback k ctx contractAddr
          (AckCallback acknowledgement (newIBCPacket packet) (addr_String (k_addr k) relayer))))"

definition IBCHandler_IBCOnTimeoutPacketCallback ::
  "('w, 'v) Keeper \<Rightarrow> ctx \<Rightarrow> Packet \<Rightarrow> bytes \<Rightarrow> string \<Rightarrow> string \<Rightarrow> ('w, 'v, unit) op"
where
  "IBCHandler_IBCOnTimeoutPacketCallback k ctx packet relayer contractAddress packetSenderAddress =
     bindM (liftE (validateSender (k_addr k) contractAddress packetSenderAddress)) (\<lambda>contractAddr.
     wrapM ''on source chain callback timeout''
       (IBCSourceCallback k ctx contractAddr
          (TimeoutCallback (newIBCPacket packet) (addr_String (k_addr k) relayer))))"

definition IBCHandler_IBCReceivePacketCallback ::
  "('w, 'v) Keeper \<Rightarrow> ctx \<Rightarrow> Packet \<Rightarrow> bytes \<Rightarrow> string \<Rightarrow> ('w, 'v, unit) op"
where
  "IBCHandler_IBCReceivePacketCallback k ctx packet ack contractAddress =
     bindM (liftE (AccAddressFromBech32 (k_addr k) contractAddress)) (\<lambda>contractAddr.
     wrapM ''on destination chain callback''
       (IBCDestinationCallback k ctx contractAddr \<lparr>dcm_Ack = ack, dcm_Packet = newIBCPacket packet\<rparr>))"

section \<open>The interface of the module towards ibc-go\<close>

text \<open>All calls of ibc-go into the module.\<close>

datatype ibc_call =
    ChanOpenInit string "string list" string string nat IBCEndpoint string
  | ChanOpenTry string "string list" string string nat IBCEndpoint string
  | ChanOpenAck string string string string
  | ChanOpenConfirm string string
  | ChanCloseInit string string
  | ChanCloseConfirm string string
  | RecvPacket Packet bytes
  | AcknowledgementPacket Packet bytes bytes
  | TimeoutPacket Packet bytes
  | SendPacketCallback string string
  | AcknowledgementPacketCallback Packet bytes bytes string string
  | TimeoutPacketCallback Packet bytes string string
  | ReceivePacketCallback Packet bytes string

primrec handleIBC :: "('w, 'v) Keeper \<Rightarrow> ctx \<Rightarrow> ibc_call \<Rightarrow> ('w, 'v, Acknowledgement option) op" where
  "handleIBC k ctx (ChanOpenInit order hops p c n cp v) =
     bindM (IBCHandler_OnChanOpenInit k ctx order hops p c n cp v) (\<lambda>_. returnM None)"
| "handleIBC k ctx (ChanOpenTry order hops p c n cp v) =
     bindM (IBCHandler_OnChanOpenTry k ctx order hops p c n cp v) (\<lambda>_. returnM None)"
| "handleIBC k ctx (ChanOpenAck p c cc v) =
     bindM (IBCHandler_OnChanOpenAck k ctx p c cc v) (\<lambda>_. returnM None)"
| "handleIBC k ctx (ChanOpenConfirm p c) =
     bindM (IBCHandler_OnChanOpenConfirm k ctx p c) (\<lambda>_. returnM None)"
| "handleIBC k ctx (ChanCloseInit p c) =
     bindM (IBCHandler_OnChanCloseInit k ctx p c) (\<lambda>_. returnM None)"
| "handleIBC k ctx (ChanCloseConfirm p c) =
     bindM (IBCHandler_OnChanCloseConfirm k ctx p c) (\<lambda>_. returnM None)"
| "handleIBC k ctx (RecvPacket pkt r) = IBCHandler_OnRecvPacket k ctx pkt r"
| "handleIBC k ctx (AcknowledgementPacket pkt ack r) =
     bindM (IBCHandler_OnAcknowledgementPacket k ctx pkt ack r) (\<lambda>_. returnM None)"
| "handleIBC k ctx (TimeoutPacket pkt r) =
     bindM (IBCHandler_OnTimeoutPacket k ctx pkt r) (\<lambda>_. returnM None)"
| "handleIBC k ctx (SendPacketCallback c s) =
     bindM (IBCHandler_IBCSendPacketCallback k ctx c s) (\<lambda>_. returnM None)"
| "handleIBC k ctx (AcknowledgementPacketCallback pkt ack r c s) =
     bindM (IBCHandler_IBCOnAcknowledgementPacketCallback k ctx pkt ack r c s) (\<lambda>_. returnM None)"
| "handleIBC k ctx (TimeoutPacketCallback pkt r c s) =
     bindM (IBCHandler_IBCOnTimeoutPacketCallback k ctx pkt r c s) (\<lambda>_. returnM None)"
| "handleIBC k ctx (ReceivePacketCallback pkt ack c) =
     bindM (IBCHandler_IBCReceivePacketCallback k ctx pkt ack c) (\<lambda>_. returnM None)"

end
