(* ===== verification/Contract_Keeper.thy ===== *)
theory Contract_Keeper
  imports Keeper_Contracts
begin

text \<open>
  \<open>keeper/contract_keeper.go\<close>: the keeper bound to one authorization policy, as other modules and
  governance use it.
\<close>

record ('w, 'v) PermissionedKeeper =
  pk_authZPolicy :: AuthorizationPolicy
  pk_nested :: "('w, 'v) Keeper"

definition NewPermissionedKeeper :: "('w, 'v) Keeper \<Rightarrow> AuthorizationPolicy \<Rightarrow> ('w, 'v) PermissionedKeeper" where
  "NewPermissionedKeeper k policy = \<lparr>pk_authZPolicy = policy, pk_nested = k\<rparr>"

definition NewGovPermissionKeeper :: "('w, 'v) Keeper \<Rightarrow> ('w, 'v) PermissionedKeeper" where
  "NewGovPermissionKeeper k = NewPermissionedKeeper k (GovAuthorizationPolicy {})"

definition NewDefaultPermissionKeeper :: "('w, 'v) Keeper \<Rightarrow> ('w, 'v) PermissionedKeeper" where
  "NewDefaultPermissionKeeper k = NewPermissionedKeeper k DefaultAuthorizationPolicy"

definition pk_Create ::
  "('w, 'v) PermissionedKeeper \<Rightarrow> ctx \<Rightarrow> AccAddress \<Rightarrow> bytes \<Rightarrow> AccessConfig option \<Rightarrow> ('w, 'v, u64 \<times> bytes) op"
where
  "pk_Create p ctx creator wasmCode instantiateAccess =
     create (pk_nested p) ctx creator wasmCode instantiateAccess (pk_authZPolicy p)"

definition pk_Instantiate ::
  "('w, 'v) PermissionedKeeper \<Rightarrow> ctx \<Rightarrow> u64 \<Rightarrow> AccAddress \<Rightarrow> AccAddress \<Rightarrow> bytes \<Rightarrow> string \<Rightarrow> sdk_Coin list \<Rightarrow>
   ('w, 'v, bytes \<times> bytes option) op"
where
  "pk_Instantiate p ctx codeID creator admin initMsg label deposit =
     instantiate (pk_nested p) ctx codeID creator admin initMsg label deposit
       (ClassicAddressGenerator (pk_nested p)) (pk_authZPolicy p)"

definition pk_Instantiate2 ::
  "('w, 'v) PermissionedKeeper \<Rightarrow> ctx \<Rightarrow> u64 \<Rightarrow> AccAddress \<Rightarrow> AccAddress \<Rightarrow> bytes \<Rightarrow> string \<Rightarrow> sdk_Coin list \<Rightarrow>
   bytes \<Rightarrow> bool \<Rightarrow> ('w, 'v, bytes \<times> bytes option) op"
where
  "pk_Instantiate2 p ctx codeID creator admin initMsg label deposit salt fixMsg =
     instantiate (pk_nested p) ctx codeID creator admin initMsg label deposit
       (PredictableAddressGenerator (pk_nested p) (addr_bytes creator) salt initMsg fixMsg) (pk_authZPolicy p)"

definition pk_Migrate ::
  "('w, 'v) PermissionedKeeper \<Rightarrow> ctx \<Rightarrow> bytes \<Rightarrow> bytes \<Rightarrow> u64 \<Rightarrow> bytes \<Rightarrow> ('w, 'v, bytes option) op"
where
  "pk_Migrate p ctx contractAddress caller newCodeID msg =
     migrate (pk_nested p) ctx contractAddress caller newCodeID msg (pk_authZPolicy p)"

definition pk_UpdateContractAdmin ::
  "('w, 'v) PermissionedKeeper \<Rightarrow> bytes \<Rightarrow> AccAddress \<Rightarrow> AccAddress \<Rightarrow> ('w, 'v, unit) op"
where
  "pk_UpdateContractAdmin p contractAddress caller newAdmin =
     setContractAdmin (pk_nested p) contractAddress caller newAdmin (pk_authZPolicy p)"

definition pk_ClearContractAdmin ::
  "('w, 'v) PermissionedKeeper \<Rightarrow> bytes \<Rightarrow> AccAddress \<Rightarrow> ('w, 'v, unit) op"
where
  "pk_ClearContractAdmin p contractAddress caller =
     setContractAdmin (pk_nested p) contractAddress caller None (pk_authZPolicy p)"

definition pk_SetAccessConfig ::
  "('w, 'v) PermissionedKeeper \<Rightarrow> u64 \<Rightarrow> AccAddress \<Rightarrow> AccessConfig \<Rightarrow> ('w, 'v, unit) op"
where
  "pk_SetAccessConfig p codeID caller newConfig =
     setAccessConfig (pk_nested p) codeID caller newConfig (pk_authZPolicy p)"

definition pk_Execute ::
  "('w, 'v) PermissionedKeeper \<Rightarrow> ctx \<Rightarrow> bytes \<Rightarrow> bytes \<Rightarrow> bytes \<Rightarrow> sdk_Coin list \<Rightarrow> ('w, 'v, bytes option) op"
where
  "pk_Execute p ctx contractAddress caller msg coins =
     execute (pk_nested p) ctx contractAddress caller msg coins"

definition pk_Sudo ::
  "('w, 'v) PermissionedKeeper \<Rightarrow> ctx \<Rightarrow> bytes \<Rightarrow> bytes \<Rightarrow> ('w, 'v, bytes option) op"
where
  "pk_Sudo p ctx contractAddress msg = Sudo (pk_nested p) ctx contractAddress msg"

definition pk_PinCode :: "('w, 'v) PermissionedKeeper \<Rightarrow> u64 \<Rightarrow> ('w, 'v, unit) op" where
  "pk_PinCode p codeID = pinCode (pk_nested p) codeID"

definition pk_UnpinCode :: "('w, 'v) PermissionedKeeper \<Rightarrow> u64 \<Rightarrow> ('w, 'v, unit) op" where
  "pk_UnpinCode p codeID = unpinCode (pk_nested p) codeID"

definition pk_SetContractInfoExtension ::
  "('w, 'v) PermissionedKeeper \<Rightarrow> (bytes \<Rightarrow> go_error + unit) \<Rightarrow> bytes \<Rightarrow> bytes option \<Rightarrow> ('w, 'v, unit) op"
where
  "pk_SetContractInfoExtension p validate contract extra =
     setContractInfoExtension (pk_nested p) validate contract extra"

section \<open>The interface of other modules\<close>

text \<open>The operations of the interface \<open>ContractOpsKeeper\<close>, with their results dropped.\<close>

datatype contract_op =
    OpCreate AccAddress bytes "AccessConfig option"
  | OpInstantiate u64 AccAddress AccAddress bytes string "sdk_Coin list"
  | OpInstantiate2 u64 AccAddress AccAddress bytes string "sdk_Coin list" bytes bool
  | OpExecute bytes bytes bytes "sdk_Coin list"
  | OpMigrate bytes bytes u64 bytes
  | OpSudo bytes bytes
  | OpUpdateContractAdmin bytes AccAddress AccAddress
  | OpClearContractAdmin bytes AccAddress
  | OpPinCode u64
  | OpUnpinCode u64
  | OpSetContractInfoExtension "bytes \<Rightarrow> go_error + unit" bytes "bytes option"
  | OpSetAccessConfig u64 AccAddress AccessConfig

definition dropResult :: "('s, 'a) prog \<Rightarrow> ('s, unit) prog" where
  "dropResult f = bindM f (\<lambda>_. returnM ())"

primrec runContractOp :: "('w, 'v) PermissionedKeeper \<Rightarrow> ctx \<Rightarrow> contract_op \<Rightarrow> ('w, 'v, unit) op" where
  "runContractOp p ctx (OpCreate creator code access) = dropResult (pk_Create p ctx creator code access)"
| "runContractOp p ctx (OpInstantiate codeID creator admin msg label deposit) =
     dropResult (pk_Instantiate p ctx codeID creator admin msg label deposit)"
| "runContractOp p ctx (OpInstantiate2 codeID creator admin msg label deposit salt fixMsg) =
     dropResult (pk_Instantiate2 p ctx codeID creator admin msg label deposit salt fixMsg)"
| "runContractOp p ctx (OpExecute a caller msg coins) = dropResult (pk_Execute p ctx a caller msg coins)"
| "runContractOp p ctx (OpMigrate a caller codeID msg) = dropResult (pk_Migrate p ctx a caller codeID msg)"
| "runContractOp p ctx (OpSudo a msg) = dropResult (pk_Sudo p ctx a msg)"
| "runContractOp p ctx (OpUpdateContractAdmin a caller newAdmin) = pk_UpdateContractAdmin p a caller newAdmin"
| "runContractOp p ctx (OpClearContractAdmin a caller) = pk_ClearContractAdmin p a caller"
| "runContractOp p ctx (OpPinCode i) = pk_PinCode p i"
| "runContractOp p ctx (OpUnpinCode i) = pk_UnpinCode p i"
| "runContractOp p ctx (OpSetContractInfoExtension validate a ext) = pk_SetContractInfoExtension p validate a ext"
| "runContractOp p ctx (OpSetAccessConfig i caller cfg) = pk_SetAccessConfig p i caller cfg"

end
