(* ===== verification/Proposals.thy ===== *)
theory Proposals
  imports Contract_Keeper Msg_Server
begin

text \<open>
  The governance proposals of the module in the old style: their validation
  (\<open>types/proposal_legacy.go\<close>) and their handlers (\<open>keeper/proposal_handler_legacy.go\<close>), which run on
  a permissioned keeper. The \<open>String\<close> and \<open>MarshalYAML\<close> methods are left out.
\<close>

section \<open>Proposals\<close>

record StoreCodeProposal =
  scp_Title :: string
  scp_Description :: string
  scp_RunAs :: string
  scp_WASMByteCode :: bytes
  scp_InstantiatePermission :: "AccessConfig option"
  scp_UnpinCode :: bool
  scp_Source :: string
  scp_Builder :: string
  scp_CodeHash :: "bytes option"

record InstantiateContractProposal =
  icp_Title :: string
  icp_Description :: string
  icp_RunAs :: string
  icp_Admin :: string
  icp_CodeID :: u64
  icp_Label :: string
  icp_Msg :: bytes
  icp_Funds :: "sdk_Coin list"

record InstantiateContract2Proposal =
  i2p_Title :: string
  i2p_Description :: string
  i2p_RunAs :: string
  i2p_Admin :: string
  i2p_CodeID :: u64
  i2p_Label :: string
  i2p_Msg :: bytes
  i2p_Funds :: "sdk_Coin list"
  i2p_Salt :: bytes
  i2p_FixMsg :: bool

record StoreAndInstantiateContractProposal =
  sip_Title :: string
  sip_Description :: string
  sip_RunAs :: string
  sip_WASMByteCode :: bytes
  sip_InstantiatePermission :: "AccessConfig option"
  sip_UnpinCode :: bool
  sip_Admin :: string
  sip_Label :: string
  sip_Msg :: bytes
  sip_Funds :: "sdk_Coin list"
  sip_Source :: string
  sip_Builder :: string
  sip_CodeHash :: "bytes option"

record MigrateContractProposal =
  mcp_Title :: string
  mcp_Description :: string
  mcp_Contract :: string
  mcp_CodeID :: u64
  mcp_Msg :: bytes

record SudoContractProposal =
  sup_Title :: string
  sup_Description :: string
  sup_Contract :: string
  sup_Msg :: bytes

record ExecuteContractProposal =
  ecp_Title :: string
  ecp_Description :: string
  ecp_RunAs :: string
  ecp_Contract :: string
  ecp_Msg :: bytes
  ecp_Funds :: "sdk_Coin list"

record UpdateAdminProposal =
  uap_Title :: string
  uap_Description :: string
  uap_NewAdmin :: string
  uap_Contract :: string

record ClearAdminProposal =
  cap_Title :: string
  cap_Description :: string
  cap_Contract :: string

record PinCodesProposal =
  pcp_Title :: string
  pcp_Description :: string
  pcp_CodeIDs :: "u64 list"

record UnpinCodesProposal =
  ucp_Title :: string
  ucp_Description :: string
  ucp_CodeIDs :: "u64 list"

record AccessConfigUpdate =
  acu_CodeID :: u64
  acu_InstantiatePermission :: AccessConfig

record UpdateInstantiateConfigProposal =
  uip_Title :: string
  uip_Description :: string
  uip_AccessConfigUpdates :: "AccessConfigUpdate list"

datatype Content =
    StoreCodeContent StoreCodeProposal
  | InstantiateContractContent InstantiateContractProposal
  | InstantiateContract2Content InstantiateContract2Proposal
  | MigrateContractContent MigrateContractProposal
  | SudoContractContent SudoContractProposal
  | ExecuteContractContent ExecuteContractProposal
  | UpdateAdminContent UpdateAdminProposal
  | ClearAdminContent ClearAdminProposal
  | PinCodesContent PinCodesProposal
  | UnpinCodesContent UnpinCodesProposal
  | UpdateInstantiateConfigContent UpdateInstantiateConfigProposal
  | StoreAndInstantiateContent StoreAndInstantiateContractProposal
  | OtherContent string

primrec ProposalType :: "Content \<Rightarrow> string" where
  "ProposalType (StoreCodeContent _) = ''StoreCode''"
| "ProposalType (InstantiateContractContent _) = ''InstantiateContract''"
| "ProposalType (InstantiateContract2Content _) = ''InstantiateContract2''"
| "ProposalType (MigrateContractContent _) = ''MigrateContract''"
| "ProposalType (SudoContractContent _) = ''SudoContract''"
| "ProposalType (ExecuteContractContent _) = ''ExecuteContract''"
| "ProposalType (UpdateAdminContent _) = ''UpdateAdmin''"
| "ProposalType (ClearAdminContent _) = ''ClearAdmin''"
| "ProposalType (PinCodesContent _) = ''PinCodes''"
| "ProposalType (UnpinCodesContent _) = ''UnpinCodes''"
| "ProposalType (UpdateInstantiateConfigContent _) = ''UpdateInstantiateConfig''"
| "ProposalType (StoreAndInstantiateContent _) = ''StoreAndInstantiateContract''"
| "ProposalType (OtherContent t) = t"

definition EnableAllProposals :: "string list" where
  "EnableAllProposals =
     [''StoreCode'', ''InstantiateContract'', ''InstantiateContract2'', ''MigrateContract'', ''SudoContract'',
      ''ExecuteContract'', ''UpdateAdmin'', ''ClearAdmin'', ''PinCodes'', ''UnpinCodes'',
      ''UpdateInstantiateConfig'', ''StoreAndInstantiateContract'']"

section \<open>Validation\<close>

definition validateProposalCommons :: "'w sdk_ops \<Rightarrow> string \<Rightarrow> string \<Rightarrow> go_error + unit" where
  "validateProposalCommons sdk title description =
     (if sdk_TrimSpace sdk title \<noteq> title
      then Inl (WrappedError ''proposal title must not start/end with white spaces'' (sdk_ErrInvalidProposalContent sdk))
      else if title = []
      then Inl (WrappedError ''proposal title cannot be blank'' (sdk_ErrInvalidProposalContent sdk))
      else if length title > sdk_MaxTitleLength sdk
      then Inl (WrappedError ''proposal title is longer than max length'' (sdk_ErrInvalidProposalContent sdk))
      else if sdk_TrimSpace sdk description \<noteq> description
      then Inl (WrappedError ''proposal description must not start/end with white spaces'' (sdk_ErrInvalidProposalContent sdk))
      else if description = []
      then Inl (WrappedError ''proposal description cannot be blank'' (sdk_ErrInvalidProposalContent sdk))
      else if length description > sdk_MaxDescriptionLength sdk
      then Inl (WrappedError ''proposal description is longer than max length'' (sdk_ErrInvalidProposalContent sdk))
      else Inr ())"

text \<open>The checks on parts of a proposal; \<open>Funds.IsValid()\<close> is \<open>Validate() == nil\<close>.\<close>

definition proposalCode :: "'w sdk_ops \<Rightarrow> bytes \<Rightarrow> go_error + unit" where
  "proposalCode sdk code =
     (case validateWasmCode code MaxProposalWasmSize of
        Inl err \<Rightarrow> Inl (WrappedError (''code bytes '' @ sdk_errText sdk err) ErrInvalidRequest)
      | Inr _ \<Rightarrow> Inr ())"

definition proposalFunds :: "'w sdk_ops \<Rightarrow> sdk_Coin list \<Rightarrow> go_error + unit" where
  "proposalFunds sdk funds = (case sdk_Coins_Validate sdk funds of Inl _ \<Rightarrow> Inl ErrInvalidCoins | Inr _ \<Rightarrow> Inr ())"

definition proposalAdmin :: "'w sdk_ops \<Rightarrow> string \<Rightarrow> go_error + unit" where
  "proposalAdmin sdk admin =
     (if admin \<noteq> [] then bindE (AccAddressFromBech32 (sdk_addr sdk) admin) (\<lambda>_. Inr ()) else Inr ())"

definition proposalRunAs :: "'w sdk_ops \<Rightarrow> string \<Rightarrow> go_error + unit" where
  "proposalRunAs sdk runAs =
     (case AccAddressFromBech32 (sdk_addr sdk) runAs of
        Inl _ \<Rightarrow> Inl (WrappedError ''run as'' ErrInvalidRequest)
      | Inr _ \<Rightarrow> Inr ())"

definition StoreCodeProposal_ValidateBasic :: "'w sdk_ops \<Rightarrow> StoreCodeProposal \<Rightarrow> go_error + unit" where
  "StoreCodeProposal_ValidateBasic sdk p =
     bindE (validateProposalCommons sdk (scp_Title p) (scp_Description p)) (\<lambda>_.
     bindE (checkAddr sdk ''run as'' (scp_RunAs p)) (\<lambda>_.
     bindE (proposalCode sdk (scp_WASMByteCode p)) (\<lambda>_.
     bindE (checkPermission sdk (scp_InstantiatePermission p)) (\<lambda>_.
     wrapE ''code verification info''
       (ValidateVerificationInfo sdk (scp_Source p) (scp_Builder p) (scp_CodeHash p))))))"

definition InstantiateContractProposal_ValidateBasic ::
  "'w sdk_ops \<Rightarrow> InstantiateContractProposal \<Rightarrow> go_error + unit"
where
  "InstantiateContractProposal_ValidateBasic sdk p =
     bindE (validateProposalCommons sdk (icp_Title p) (icp_Description p)) (\<lambda>_.
     bindE (proposalRunAs sdk (icp_RunAs p)) (\<lambda>_.
     bindE (checkCodeID (icp_CodeID p)) (\<lambda>_.
     bindE (ValidateLabel sdk (icp_Label p)) (\<lambda>_.
     bindE (proposalFunds sdk (icp_Funds p)) (\<lambda>_.
     bindE (proposalAdmin sdk (icp_Admin p)) (\<lambda>_.
     checkPayload sdk (icp_Msg p)))))))"

definition InstantiateContract2Proposal_ValidateBasic ::
  "'w sdk_ops \<Rightarrow> InstantiateContract2Proposal \<Rightarrow> go_error + unit"
where
  "InstantiateContract2Proposal_ValidateBasic sdk p =
     bindE (validateProposalCommons sdk (i2p_Title p) (i2p_Description p)) (\<lambda>_.
     bindE (proposalRunAs sdk (i2p_RunAs p)) (\<lambda>_.
     bindE (proposalAdmin sdk (i2p_Admin p)) (\<lambda>_.
     bindE (checkCodeID (i2p_CodeID p)) (\<lambda>_.
     bindE (ValidateLabel sdk (i2p_Label p)) (\<lambda>_.
     bindE (checkPayload sdk (i2p_Msg p)) (\<lambda>_.
     bindE (proposalFunds sdk (i2p_Funds p)) (\<lambda>_.
     requireE (i2p_Salt p \<noteq> []) (WrappedError ''salt is required'' ErrInvalidRequest))))))))"

definition StoreAndInstantiateContractProposal_ValidateBasic ::
  "'w sdk_ops \<Rightarrow> StoreAndInstantiateContractProposal \<Rightarrow> go_error + unit"
where
  "StoreAndInstantiateContractProposal_ValidateBasic sdk p =
     bindE (validateProposalCommons sdk (sip_Title p) (sip_Description p)) (\<lambda>_.
     bindE (checkAddr sdk ''run as'' (sip_RunAs p)) (\<lambda>_.
     bindE (proposalCode sdk (sip_WASMByteCode p)) (\<lambda>_.
     bindE (wrapE ''code info''
              (ValidateVerificationInfo sdk (sip_Source p) (sip_Builder p) (sip_CodeHash p))) (\<lambda>_.
     bindE (checkPermission sdk (sip_InstantiatePermission p)) (\<lambda>_.
     bindE (ValidateLabel sdk (sip_Label p)) (\<lambda>_.
     bindE (proposalFunds sdk (sip_Funds p)) (\<lambda>_.
     bindE (proposalAdmin sdk (sip_Admin p)) (\<lambda>_.
     checkPayload sdk (sip_Msg p)))))))))"

definition MigrateContractProposal_ValidateBasic ::
  "'w sdk_ops \<Rightarrow> MigrateContractProposal \<Rightarrow> go_error + unit"
where
  "MigrateContractProposal_ValidateBasic sdk p =
     bindE (validateProposalCommons sdk (mcp_Title p) (mcp_Description p)) (\<lambda>_.
     bindE (requireE (mcp_CodeID p \<noteq> 0) (WrappedError ''code_id is required'' ErrInvalidRequest)) (\<lambda>_.
     bindE (checkAddr sdk ''contract'' (mcp_Contract p)) (\<lambda>_.
     checkPayload sdk (mcp_Msg p))))"

definition SudoContractProposal_ValidateBasic :: "'w sdk_ops \<Rightarrow> SudoContractProposal \<Rightarrow> go_error + unit" where
  "SudoContractProposal_ValidateBasic sdk p =
     bindE (validateProposalCommons sdk (sup_Title p) (sup_Description p)) (\<lambda>_.
     bindE (checkAddr sdk ''contract'' (sup_Contract p)) (\<lambda>_.
     checkPayload sdk (sup_Msg p)))"

definition ExecuteContractProposal_ValidateBasic ::
  "'w sdk_ops \<Rightarrow> ExecuteContractProposal \<Rightarrow> go_error + unit"
where
  "ExecuteContractProposal_ValidateBasic sdk p =
     bindE (validateProposalCommons sdk (ecp_Title p) (ecp_Description p)) (\<lambda>_.
     bindE (checkAddr sdk ''contract'' (ecp_Contract p)) (\<lambda>_.
     bindE (checkAddr sdk ''run as'' (ecp_RunAs p)) (\<lambda>_.
     bindE (proposalFunds sdk (ecp_Funds p)) (\<lambda>_.
     checkPayload sdk (ecp_Msg p)))))"

definition UpdateAdminProposal_ValidateBasic :: "'w sdk_ops \<Rightarrow> UpdateAdminProposal \<Rightarrow> go_error + unit" where
  "UpdateAdminProposal_ValidateBasic sdk p =
     bindE (validateProposalCommons sdk (uap_Title p) (uap_Description p)) (\<lambda>_.
     bindE (checkAddr sdk ''contract'' (uap_Contract p)) (\<lambda>_.
     checkAddr sdk ''new admin'' (uap_NewAdmin p)))"

definition ClearAdminProposal_ValidateBasic :: "'w sdk_ops \<Rightarrow> ClearAdminProposal \<Rightarrow> go_error + unit" where
  "ClearAdminProposal_ValidateBasic sdk p =
     bindE (validateProposalCommons sdk (cap_Title p) (cap_Description p)) (\<lambda>_.
     checkAddr sdk ''contract'' (cap_Contract p))"

definition PinCodesProposal_ValidateBasic :: "'w sdk_ops \<Rightarrow> PinCodesProposal \<Rightarrow> go_error + unit" where
  "PinCodesProposal_ValidateBasic sdk p =
     bindE (validateProposalCommons sdk (pcp_Title p) (pcp_Description p)) (\<lambda>_.
     requireE (pcp_CodeIDs p \<noteq> []) (WrappedError ''code ids'' ErrEmpty))"

definition UnpinCodesProposal_ValidateBasic :: "'w sdk_ops \<Rightarrow> UnpinCodesProposal \<Rightarrow> go_error + unit" where
  "UnpinCodesProposal_ValidateBasic sdk p =
     bindE (validateProposalCommons sdk (ucp_Title p) (ucp_Description p)) (\<lambda>_.
     requireE (ucp_CodeIDs p \<noteq> []) (WrappedError ''code ids'' ErrEmpty))"

primrec checkUpdates :: "'w sdk_ops \<Rightarrow> u64 set \<Rightarrow> AccessConfigUpdate list \<Rightarrow> go_error + unit" where
  "checkUpdates sdk dedup [] = Inr ()"
| "checkUpdates sdk dedup (u # us) =
     (if acu_CodeID u \<in> dedup
      then Inl (WrappedError (''duplicate code: '' @ fmt_u64 (acu_CodeID u)) ErrDuplicate)
      else bindE (wrapE ''instantiate permission''
                    (AccessConfig_ValidateBasic (sdk_addr sdk) (acu_InstantiatePermission u))) (\<lambda>_.
           checkUpdates sdk (insert (acu_CodeID u) dedup) us))"

definition UpdateInstantiateConfigProposal_ValidateBasic ::
  "'w sdk_ops \<Rightarrow> UpdateInstantiateConfigProposal \<Rightarrow> go_error + unit"
where
  "UpdateInstantiateConfigProposal_ValidateBasic sdk p =
     bindE (validateProposalCommons sdk (uip_Title p) (uip_Description p)) (\<lambda>_.
     bindE (requireE (uip_AccessConfigUpdates p \<noteq> []) (WrappedError ''code updates'' ErrEmpty)) (\<lambda>_.
     checkUpdates sdk {} (uip_AccessConfigUpdates p)))"

section \<open>Handlers\<close>

definition emitResult :: "bytes option \<Rightarrow> ('w, 'v, unit) op" where
  "emitResult data =
     emitEvent ''gov_contract_result''
       [attr ''result'' (hex_encode (case data of None \<Rightarrow> [] | Some d \<Rightarrow> d))]"

definition handleStoreCodeProposal ::
  "('w, 'v) PermissionedKeeper \<Rightarrow> ctx \<Rightarrow> StoreCodeProposal \<Rightarrow> ('w, 'v, unit) op"
where
  "handleStoreCodeProposal k ctx p =
     bindM (liftE (StoreCodeProposal_ValidateBasic (k_sdk (pk_nested k)) p)) (\<lambda>_.
     bindM (parseAddr (pk_nested k) ''run as address'' (scp_RunAs p)) (\<lambda>runAsAddr.
     bindM (pk_Create k ctx (Some runAsAddr) (scp_WASMByteCode p) (scp_InstantiatePermission p)) (\<lambda>(codeID, checksum).
     let codeHash = (case scp_CodeHash p of None \<Rightarrow> [] | Some h \<Rightarrow> h) in
     bindM (guardM (codeHash = [] \<or> checksum = codeHash) (PlainError ''code-hash mismatch'')) (\<lambda>_.
     if scp_UnpinCode p then returnM () else pk_PinCode k codeID))))"

definition handleInstantiateProposal ::
  "('w, 'v) PermissionedKeeper \<Rightarrow> ctx \<Rightarrow> InstantiateContractProposal \<Rightarrow> ('w, 'v, unit) op"
where
  "handleInstantiateProposal k ctx p =
     bindM (liftE (InstantiateContractProposal_ValidateBasic (k_sdk (pk_nested k)) p)) (\<lambda>_.
     bindM (parseAddr (pk_nested k) ''run as address'' (icp_RunAs p)) (\<lambda>runAsAddr.
     bindM (parseAdmin (pk_nested k) (icp_Admin p)) (\<lambda>adminAddr.
     bindM (pk_Instantiate k ctx (icp_CodeID p) (Some runAsAddr) adminAddr (icp_Msg p) (icp_Label p) (icp_Funds p)) (\<lambda>(_, data).
     emitResult data))))"

definition handleInstantiate2Proposal ::
  "('w, 'v) PermissionedKeeper \<Rightarrow> ctx \<Rightarrow> InstantiateContract2Proposal \<Rightarrow> ('w, 'v, unit) op"
where
  "handleInstantiate2Proposal k ctx p =
     bindM (liftE (InstantiateContract2Proposal_ValidateBasic (k_sdk (pk_nested k)) p)) (\<lambda>_.
     bindM (parseAddr (pk_nested k) ''run as address'' (i2p_RunAs p)) (\<lambda>runAsAddr.
     bindM (parseAdmin (pk_nested k) (i2p_Admin p)) (\<lambda>adminAddr.
     bindM (pk_Instantiate2 k ctx (i2p_CodeID p) (Some runAsAddr) adminAddr (i2p_Msg p) (i2p_Label p)
              (i2p_Funds p) (i2p_Salt p) (i2p_FixMsg p)) (\<lambda>(_, data).
     emitResult data))))"

definition handleStoreAndInstantiateContractProposal ::
  "('w, 'v) PermissionedKeeper \<Rightarrow> ctx \<Rightarrow> StoreAndInstantiateContractProposal \<Rightarrow> ('w, 'v, unit) op"
where
  "handleStoreAndInstantiateContractProposal k ctx p =
     bindM (liftE (StoreAndInstantiateContractProposal_ValidateBasic (k_sdk (pk_nested k)) p)) (\<lambda>_.
     bindM (parseAddr (pk_nested k) ''run as address'' (sip_RunAs p)) (\<lambda>runAsAddr.
     bindM (parseAdmin (pk_nested k) (sip_Admin p)) (\<lambda>adminAddr.
     bindM (pk_Create k ctx (Some runAsAddr) (sip_WASMByteCode p) (sip_InstantiatePermission p)) (\<lambda>(codeID, checksum).
     bindM (guardM (sip_CodeHash p = None \<or> sip_CodeHash p = Some checksum)
              (WrappedError ''code-hash mismatch'' (PlainError ''code-hash mismatch''))) (\<lambda>_.
     bindM (if sip_UnpinCode p then returnM () else pk_PinCode k codeID) (\<lambda>_.
     bindM (pk_Instantiate k ctx codeID (Some runAsAddr) adminAddr (sip_Msg p) (sip_Label p) (sip_Funds p)) (\<lambda>(_, data).
     emitResult data)))))))"

definition handleMigrateProposal ::
  "('w, 'v) PermissionedKeeper \<Rightarrow> ctx \<Rightarrow> MigrateContractProposal \<Rightarrow> ('w, 'v, unit) op"
where
  "handleMigrateProposal k ctx p =
     bindM (liftE (MigrateContractProposal_ValidateBasic (k_sdk (pk_nested k)) p)) (\<lambda>_.
     bindM (parseAddr (pk_nested k) ''contract'' (mcp_Contract p)) (\<lambda>contractAddr.
     bindM (pk_Migrate k ctx contractAddr contractAddr (mcp_CodeID p) (mcp_Msg p)) (\<lambda>data.
     emitResult data)))"

definition handleSudoProposal ::
  "('w, 'v) PermissionedKeeper \<Rightarrow> ctx \<Rightarrow> SudoContractProposal \<Rightarrow> ('w, 'v, unit) op"
where
  "handleSudoProposal k ctx p =
     bindM (liftE (SudoContractProposal_ValidateBasic (k_sdk (pk_nested k)) p)) (\<lambda>_.
     bindM (parseAddr (pk_nested k) ''contract'' (sup_Contract p)) (\<lambda>contractAddr.
     bindM (pk_Sudo k ctx contractAddr (sup_Msg p)) (\<lambda>data.
     emitResult data)))"

definition handleExecuteProposal ::
  "('w, 'v) PermissionedKeeper \<Rightarrow> ctx \<Rightarrow> ExecuteContractProposal \<Rightarrow> ('w, 'v, unit) op"
where
  "handleExecuteProposal k ctx p =
     bindM (liftE (ExecuteContractProposal_ValidateBasic (k_sdk (pk_nested k)) p)) (\<lambda>_.
     bindM (parseAddr (pk_nested k) ''contract'' (ecp_Contract p)) (\<lambda>contractAddr.
     bindM (parseAddr (pk_nested k) ''run as address'' (ecp_RunAs p)) (\<lambda>runAsAddr.
     bindM (pk_Execute k ctx contractAddr runAsAddr (ecp_Msg p) (ecp_Funds p)) (\<lambda>data.
     emitResult data))))"

definition handleUpdateAdminProposal ::
  "('w, 'v) PermissionedKeeper \<Rightarrow> ctx \<Rightarrow> UpdateAdminProposal \<Rightarrow> ('w, 'v, unit) op"
where
  "handleUpdateAdminProposal k ctx p =
     bindM (liftE (UpdateAdminProposal_ValidateBasic (k_sdk (pk_nested k)) p)) (\<lambda>_.
     bindM (parseAddr (pk_nested k) ''contract'' (uap_Contract p)) (\<lambda>contractAddr.
     bindM (parseAddr (pk_nested k) ''run as address'' (uap_NewAdmin p)) (\<lambda>newAdminAddr.
     pk_UpdateContractAdmin k contractAddr None (Some newAdminAddr))))"

definition handleClearAdminProposal ::
  "('w, 'v) PermissionedKeeper \<Rightarrow> ctx \<Rightarrow> ClearAdminProposal \<Rightarrow> ('w, 'v, unit) op"
where
  "handleClearAdminProposal k ctx p =
     bindM (liftE (ClearAdminProposal_ValidateBasic (k_sdk (pk_nested k)) p)) (\<lambda>_.
     bindM (parseAddr (pk_nested k) ''contract'' (cap_Contract p)) (\<lambda>contractAddr.
     pk_ClearContractAdmin k contractAddr None))"

definition handlePinCodesProposal ::
  "('w, 'v) PermissionedKeeper \<Rightarrow> ctx \<Rightarrow> PinCodesProposal \<Rightarrow> ('w, 'v, unit) op"
where
  "handlePinCodesProposal k ctx p =
     bindM (liftE (PinCodesProposal_ValidateBasic (k_sdk (pk_nested k)) p)) (\<lambda>_.
     eachM (\<lambda>v. wrapM (''code id: '' @ fmt_u64 v) (pk_PinCode k v)) (pcp_CodeIDs p))"

definition handleUnpinCodesProposal ::
  "('w, 'v) PermissionedKeeper \<Rightarrow> ctx \<Rightarrow> UnpinCodesProposal \<Rightarrow> ('w, 'v, unit) op"
where
  "handleUnpinCodesProposal k ctx p =
     bindM (liftE (UnpinCodesProposal_ValidateBasic (k_sdk (pk_nested k)) p)) (\<lambda>_.
     eachM (\<lambda>v. wrapM (''code id: '' @ fmt_u64 v) (pk_UnpinCode k v)) (ucp_CodeIDs p))"

definition handleUpdateInstantiateConfigProposal ::
  "('w, 'v) PermissionedKeeper \<Rightarrow> ctx \<Rightarrow> UpdateInstantiateConfigProposal \<Rightarrow> ('w, 'v, unit) op"
where
  "handleUpdateInstantiateConfigProposal k ctx p =
     bindM (liftE (UpdateInstantiateConfigProposal_ValidateBasic (k_sdk (pk_nested k)) p)) (\<lambda>_.
     eachM (\<lambda>u. wrapM (''code id: '' @ fmt_u64 (acu_CodeID u))
              (pk_SetAccessConfig k (acu_CodeID u) None (acu_InstantiatePermission u)))
       (uip_AccessConfigUpdates p))"

fun handleProposal :: "('w, 'v) PermissionedKeeper \<Rightarrow> ctx \<Rightarrow> Content \<Rightarrow> ('w, 'v, unit) op" where
  "handleProposal k ctx (StoreCodeContent c) = handleStoreCodeProposal k ctx c"
| "handleProposal k ctx (InstantiateContractContent c) = handleInstantiateProposal k ctx c"
| "handleProposal k ctx (InstantiateContract2Content c) = handleInstantiate2Proposal k ctx c"
| "handleProposal k ctx (MigrateContractContent c) = handleMigrateProposal k ctx c"
| "handleProposal k ctx (SudoContractContent c) = handleSudoProposal k ctx c"
| "handleProposal k ctx (ExecuteContractContent c) = handleExecuteProposal k ctx c"
| "handleProposal k ctx (UpdateAdminContent c) = handleUpdateAdminProposal k ctx c"
| "handleProposal k ctx (ClearAdminContent c) = handleClearAdminProposal k ctx c"
| "handleProposal k ctx (PinCodesContent c) = handlePinCodesProposal k ctx c"
| "handleProposal k ctx (UnpinCodesContent c) = handleUnpinCodesProposal k ctx c"
| "handleProposal k ctx (UpdateInstantiateConfigContent c) = handleUpdateInstantiateConfigProposal k ctx c"
| "handleProposal k ctx (StoreAndInstantiateContent c) = handleStoreAndInstantiateContractProposal k ctx c"
| "handleProposal k ctx (OtherContent t) =
     failM (WrappedError ''unrecognized wasm proposal content type'' ErrUnknownRequest)"

definition NewLegacyWasmProposalHandlerX ::
  "('w, 'v) PermissionedKeeper \<Rightarrow> string list \<Rightarrow> ctx \<Rightarrow> Content option \<Rightarrow> ('w, 'v, unit) op"
where
  "NewLegacyWasmProposalHandlerX k enabledProposalTypes ctx content =
     (case content of
        None \<Rightarrow> failM (WrappedError ''content must not be empty'' ErrUnknownRequest)
      | Some c \<Rightarrow>
          bindM (guardM (ProposalType c \<in> set enabledProposalTypes)
                   (WrappedError (''unsupported wasm proposal content type: '' @ ProposalType c) ErrUnknownRequest)) (\<lambda>_.
          handleProposal k ctx c))"

definition NewLegacyWasmProposalHandler ::
  "('w, 'v) Keeper \<Rightarrow> string list \<Rightarrow> ctx \<Rightarrow> Content option \<Rightarrow> ('w, 'v, unit) op"
where
  "NewLegacyWasmProposalHandler k enabledProposalTypes =
     NewLegacyWasmProposalHandlerX (NewGovPermissionKeeper k) enabledProposalTypes"

end
