(* ===== verification/Registry_Runs.thy ===== *)
theory Registry_Runs
  imports Registry_Ops Relay Proposals
begin

text \<open>
  The dispatcher, the message handlers, the IBC entry points and the message server move the store
  by steps of the registry only, for a keeper whose response handler does.
\<close>

section \<open>Submessages\<close>

definition messenger_ok :: "('w, 'v) messenger \<Rightarrow> bool" where
  "messenger_ok h \<longleftrightarrow> (\<forall>m0 ctx a port msg. stepwise m0 (h ctx a port msg))"

definition replyer_ok :: "('w, 'v) replyer \<Rightarrow> bool" where
  "replyer_ok h \<longleftrightarrow> (\<forall>m0 ctx a rep. stepwise m0 (h ctx a rep))"

text \<open>
  Inside the sandbox only a success has to be made of steps: a failure, also one that comes from a
  recovered panic, is undone.
\<close>

abbreviation ok_on_success :: "store_value items \<Rightarrow> ('w, 'v, 'a) op \<Rightarrow> bool" where
  "ok_on_success m0 f \<equiv> triple (\<lambda>w. reaches m0 (w_store w)) f (\<lambda>_ w. reaches m0 (w_store w)) (\<lambda>_. True)"

lemma ok_on_success_keeps: "stepwise m0 f \<Longrightarrow> ok_on_success m0 f"
  unfolding keeps_triple by (erule triple_conseq) simp_all

lemma withMeter_store [simp]: "w_store (withMeter g w) = w_store w"
  by (simp add: withMeter_def)

lemma consumeGas_store: "consumeGas n d w = (r, w') \<Longrightarrow> w_store w' = w_store w"
  by (rule neutralD [OF neutral_store_reads(6)])

lemma ok_on_success_runLimited:
  assumes "ok_on_success m0 f"
  shows "ok_on_success m0 (runLimited l f)"
proof (rule tripleI)
  fix s x s' assume ok: "reaches m0 (w_store s)" and run: "runLimited l f s = (Ok x, s')"
  obtain r w1 where f: "f (withMeter (NewGasMeter l) s) = (r, w1)" by fastforce
  with run have r: "r = Ok x" and st: "w_store s' = w_store w1"
    by (auto simp: runLimited_def Let_def split: outcome.splits prod.splits dest: consumeGas_store)
  from tripleD(1) [OF assms _ f [unfolded r]] ok st show "reaches m0 (w_store s')" by simp
qed simp

lemma ok_on_success_recover: "ok_on_success m0 f \<Longrightarrow> ok_on_success m0 (recoverOutOfGas l f)"
  unfolding triple_def recoverOutOfGas_def
  by (auto simp: bindM_def failM_def split: prod.splits outcome.splits go_panic.splits)

lemma ok_on_success_dispatchMsgWithGasLimit:
  "messenger_ok h \<Longrightarrow> ok_on_success m0 (dispatchMsgWithGasLimit h ctx a port msg l)"
  unfolding dispatchMsgWithGasLimit_def
  by (intro ok_on_success_recover ok_on_success_runLimited ok_on_success_keeps) (simp add: messenger_ok_def)

lemma keeps_sandbox:
  assumes "ok_on_success m0 f"
  shows "stepwise m0 (sandbox f)"
proof (rule keepsI)
  fix s r s' assume ok: "reaches m0 (w_store s)" and run: "sandbox f s = (r, s')" and r: "\<not> is_panic r"
  obtain q w1 where f: "f (s\<lparr>w_env := (w_env s)\<lparr>es_events := []\<rparr>\<rparr>) = (q, w1)" by fastforce
  show "reaches m0 (w_store s')"
  proof (cases q)
    case (Ok x)
    with tripleD(1) [OF assms _ f [unfolded Ok]] ok run f show ?thesis by (auto simp: sandbox_def)
  qed (use run f ok r in \<open>auto simp: sandbox_def\<close>)
qed

lemma keeps_runSubmessage:
  assumes "messenger_ok h"
  shows "stepwise m0 (runSubmessage h ctx a port msg)"
proof -
  have "ok_on_success m0 (case v of None \<Rightarrow> h ctx a port m | Some l \<Rightarrow> dispatchMsgWithGasLimit h ctx a port m l)" for v m
    using assms ok_on_success_dispatchMsgWithGasLimit [OF assms]
    by (cases v) (auto simp: messenger_ok_def intro: ok_on_success_keeps)
  then show ?thesis
    unfolding runSubmessage_def by (intro keeps_bindM keeps_reads keeps_sandbox)
qed

lemma keeps_replyTo: "replyer_ok h \<Longrightarrow> stepwise m0 (replyTo h ctx a msg res rsp)"
  unfolding replyTo_def by (intro keeps_rules) (simp add: replyer_ok_def)

lemma keeps_dispatchSubmessage:
  assumes "messenger_ok h" and "replyer_ok g"
  shows "stepwise m0 (dispatchSubmessage sdk h g ctx a port msg rsp)"
  unfolding dispatchSubmessage_def
  by (intro keeps_rules keeps_runSubmessage keeps_replyTo assms)

lemma keeps_dispatchFrom:
  assumes "messenger_ok h" and "replyer_ok g"
  shows "stepwise m0 (dispatchFrom sdk h g ctx a port msgs rsp)"
  by (induction msgs arbitrary: rsp) (auto intro!: keeps_rules keeps_dispatchSubmessage assms)

lemma keeps_Handle:
  assumes "messenger_ok h" and "replyer_ok g"
  shows "stepwise m0 (DefaultWasmVMContractResponseHandler_Handle sdk h g ctx a port msgs data)"
  unfolding DefaultWasmVMContractResponseHandler_Handle_def DispatchSubmessages_def
  by (intro keeps_rules keeps_dispatchFrom assms)

section \<open>Message handlers\<close>

definition router_ok :: "('w, 'v) message_router \<Rightarrow> bool" where
  "router_ok router \<longleftrightarrow> (\<forall>msg h. rt_Handler router msg = Some h \<longrightarrow> (\<forall>m0 ctx. stepwise m0 (h ctx)))"

lemma keeps_handleSdkMessage:
  assumes "router_ok router"
  shows "stepwise m0 (handleSdkMessage router ctx a msg)"
  unfolding handleSdkMessage_def using assms
  by (cases "rt_Handler router msg") (auto simp: router_ok_def intro!: keeps_rules)

lemma keeps_handleSdkMessages:
  assumes "router_ok router"
  shows "stepwise m0 (handleSdkMessages router ctx a msgs)"
  by (induction msgs) (auto intro!: keeps_rules keeps_handleSdkMessage assms)

definition encoders_ok :: "('w, 'v) MessageEncoders \<Rightarrow> bool" where
  "encoders_ok e \<longleftrightarrow> (\<forall>m0 sdk ctx a port msg. stepwise m0 (MessageEncoders_Encode sdk e ctx a port msg))"

lemma messenger_ok_SDK:
  assumes "router_ok router" and "encoders_ok e"
  shows "messenger_ok (SDKMessageHandler_DispatchMsg sdk router e)"
  using assms(2) unfolding messenger_ok_def SDKMessageHandler_DispatchMsg_def encoders_ok_def
  by (auto intro!: keeps_rules keeps_handleSdkMessages assms(1))

lemma messenger_ok_callDepth: "messenger_ok h \<Longrightarrow> messenger_ok (callDepthMessageHandler_DispatchMsg h n)"
  unfolding messenger_ok_def callDepthMessageHandler_DispatchMsg_def by (auto intro!: keeps_rules)

lemma messenger_ok_chain: "(\<And>h. h \<in> set hs \<Longrightarrow> messenger_ok h) \<Longrightarrow> messenger_ok (MessageHandlerChain_DispatchMsg hs)"
  unfolding messenger_ok_def by (induction hs) (auto intro!: keeps_rules)

lemma keeps_channelCapability [keeps_rules]: "stepwise m0 (channelCapability sdk p c)"
  unfolding channelCapability_def by (intro keeps_rules)

lemma messenger_ok_IBCRaw: "messenger_ok (IBCRawPacketHandler_DispatchMsg sdk)"
  unfolding messenger_ok_def IBCRawPacketHandler_DispatchMsg_def by (intro allI keeps_rules)

lemma messenger_ok_Burn: "messenger_ok (BurnCoinMessageHandler sdk)"
  unfolding messenger_ok_def BurnCoinMessageHandler_def by (intro allI keeps_rules)

lemma messenger_ok_default:
  assumes "router_ok router" and "encoders_ok (fold (\<lambda>c e. MessageEncoders_Merge e c) customEncoders defaults)"
  shows "messenger_ok (NewDefaultMessageHandler sdk router defaults customEncoders)"
  unfolding NewDefaultMessageHandler_def
  by (rule messenger_ok_chain)
     (auto intro: messenger_ok_SDK [OF assms] messenger_ok_IBCRaw messenger_ok_Burn)

lemma keeps_EncodeIBCMsg [keeps_rules]: "stepwise m0 (EncodeIBCMsg sdk ctx a port msg)"
  unfolding EncodeIBCMsg_def by (intro keeps_rules)

lemma encoders_ok_default: "encoders_ok (DefaultEncoders sdk unpackAny unpackInterfaces)"
  unfolding encoders_ok_def MessageEncoders_Encode_def DefaultEncoders_def MessageEncoders.simps
  by (intro allI keeps_rules)

section \<open>IBC entry points\<close>

lemma keeps_callVM_ok [keeps_rules]: "stepwise m0 (callVM k ctx a call g)"
  by (rule keeps_callVM [OF contract_local_reaches])

lemma keeps_relayVM [keeps_rules]: "stepwise m0 (relayVM k ctx a call)"
  unfolding relayVM_def by (intro keeps_rules)

lemma keeps_OnOpenChannel [keeps_rules]: "stepwise m0 (OnOpenChannel k ctx a msg)"
  unfolding OnOpenChannel_def by (intro keeps_rules)

lemma keeps_relayBasic: "responses_ok k \<Longrightarrow> stepwise m0 (relayBasic k ctx a call)"
  unfolding relayBasic_def handleIBCBasicContractResponse_def
  by (intro keeps_rules keeps_handleContractResponse)

lemma keeps_relay_basic:
  assumes "responses_ok k"
  shows "stepwise m0 (OnConnectChannel k ctx a m1)" "stepwise m0 (OnCloseChannel k ctx a m2)"
    "stepwise m0 (OnAckPacket k ctx a m3)" "stepwise m0 (OnTimeoutPacket k ctx a m4)"
    "stepwise m0 (IBCSourceCallback k ctx a m5)" "stepwise m0 (IBCDestinationCallback k ctx a m6)"
  unfolding OnConnectChannel_def OnCloseChannel_def OnAckPacket_def OnTimeoutPacket_def
    IBCSourceCallback_def IBCDestinationCallback_def
  by (intro keeps_relayBasic assms)+

lemma keeps_OnRecvPacket: "responses_ok k \<Longrightarrow> stepwise m0 (OnRecvPacket k ctx a msg)"
  unfolding OnRecvPacket_def by (intro keeps_rules keeps_handleContractResponse)

lemma keeps_withEvents:
  assumes "stepwise m0 f"
  shows "stepwise m0 (withEvents f)"
proof (rule keepsI)
  fix s r s' assume ok: "reaches m0 (w_store s)" and run: "withEvents f s = (r, s')" and r: "\<not> is_panic r"
  obtain q w1 where f: "tryM f (s\<lparr>w_env := (w_env s)\<lparr>es_events := []\<rparr>\<rparr>) = (q, w1)" by fastforce
  from run f r have "\<not> is_panic q" "w_store s' = w_store w1"
    by (auto simp: withEvents_def split: outcome.splits)
  with keepsD [OF keeps_tryM [OF assms] f] ok show "reaches m0 (w_store s')" by simp
qed

lemma keeps_ibc_helpers [keeps_rules]:
  "stepwise m0 (contractOfPort k p)" "stepwise m0 (claimChannel k n p c)" "stepwise m0 (channelOf k p c u)"
  "stepwise m0 (EmitAcknowledgementEvent k a ack e)"
  unfolding contractOfPort_def claimChannel_def channelOf_def EmitAcknowledgementEvent_def
  by (intro keeps_rules)+

lemmas IBCHandler_defs = IBCHandler_OnChanOpenInit_def IBCHandler_OnChanOpenTry_def
  IBCHandler_OnChanOpenAck_def IBCHandler_OnChanOpenConfirm_def IBCHandler_OnChanCloseInit_def
  IBCHandler_OnChanCloseConfirm_def IBCHandler_OnRecvPacket_def IBCHandler_OnAcknowledgementPacket_def
  IBCHandler_OnTimeoutPacket_def IBCHandler_IBCSendPacketCallback_def
  IBCHandler_IBCOnAcknowledgementPacketCallback_def IBCHandler_IBCOnTimeoutPacketCallback_def
  IBCHandler_IBCReceivePacketCallback_def

lemma keeps_handleIBC:
  assumes "responses_ok k"
  shows "stepwise m0 (handleIBC k ctx call)"
  by (cases call; simp only: handleIBC.simps IBCHandler_defs;
      intro keeps_rules keeps_relay_basic keeps_withEvents keeps_OnRecvPacket assms)

section \<open>The message server\<close>

lemma keeps_server_helpers [keeps_rules]:
  "stepwise m0 (requireAuthority k a)" "stepwise m0 (parseAddr k d s)" "stepwise m0 (parseAdmin k s)"
  "stepwise m0 (updateUploadAddresses f)"
  unfolding requireAuthority_def parseAddr_def parseAdmin_def updateUploadAddresses_def
  by (intro keeps_rules)+

lemmas server_defs = server_StoreCode_def server_InstantiateContract_def server_InstantiateContract2_def
  server_ExecuteContract_def server_MigrateContract_def server_UpdateAdmin_def server_ClearAdmin_def
  server_UpdateInstantiateConfig_def server_UpdateParams_def server_PinCodes_def server_UnpinCodes_def
  server_SudoContract_def server_StoreAndInstantiateContract_def server_AddCodeUploadParamsAddresses_def
  server_RemoveCodeUploadParamsAddresses_def server_StoreAndMigrateContract_def server_UpdateContractLabel_def

lemma keeps_serveMsg:
  assumes "responses_ok k" and "serveMsg k ctx msg = Some f"
  shows "stepwise m0 f"
proof -
  note rules = keeps_rules keeps_instantiate keeps_execute keeps_migrate keeps_Sudo generates_ok_generators assms(1)
  show ?thesis
    using assms(2)
    by (cases msg; simp only: serveMsg.simps option.inject server_defs option.distinct;
        hypsubst; intro rules)
qed

section \<open>The permissioned keeper\<close>

lemma keeps_dropResult [keeps_rules]: "stepwise m0 f \<Longrightarrow> stepwise m0 (dropResult f)"
  unfolding dropResult_def by (intro keeps_rules)

lemmas pk_defs = pk_Create_def pk_Instantiate_def pk_Instantiate2_def pk_Execute_def pk_Migrate_def pk_Sudo_def
  pk_UpdateContractAdmin_def pk_ClearContractAdmin_def pk_PinCode_def pk_UnpinCode_def
  pk_SetContractInfoExtension_def pk_SetAccessConfig_def

lemma keeps_runContractOp:
  assumes "responses_ok (pk_nested p)"
  shows "stepwise m0 (runContractOp p ctx oper)"
  by (cases oper; simp only: runContractOp.simps pk_defs;
      intro keeps_rules keeps_instantiate keeps_execute keeps_migrate keeps_Sudo generates_ok_generators assms)

section \<open>Proposals\<close>

lemma keeps_emitResult [keeps_rules]: "stepwise m0 (emitResult d)"
  unfolding emitResult_def by (intro keeps_rules)

lemmas proposal_defs = handleStoreCodeProposal_def handleInstantiateProposal_def handleInstantiate2Proposal_def
  handleStoreAndInstantiateContractProposal_def handleMigrateProposal_def handleSudoProposal_def
  handleExecuteProposal_def handleUpdateAdminProposal_def handleClearAdminProposal_def
  handlePinCodesProposal_def handleUnpinCodesProposal_def handleUpdateInstantiateConfigProposal_def

lemma keeps_handleProposal:
  assumes "responses_ok (pk_nested p)"
  shows "stepwise m0 (handleProposal p ctx c)"
  by (cases c; simp only: handleProposal.simps proposal_defs pk_defs;
      intro keeps_rules keeps_instantiate keeps_execute keeps_migrate keeps_Sudo generates_ok_generators assms)

lemma keeps_LegacyProposal:
  assumes "responses_ok k"
  shows "stepwise m0 (NewLegacyWasmProposalHandler k enabled ctx content)"
  unfolding NewLegacyWasmProposalHandler_def NewLegacyWasmProposalHandlerX_def
  by (intro keeps_rules keeps_handleProposal)
     (simp add: NewGovPermissionKeeper_def NewPermissionedKeeper_def assms)

end
