(* ===== verification/Registry_Views.thy ===== *)
theory Registry_Views
  imports Registry_Ops
begin

text \<open>
  What the reading operations of \<open>keeper/keeper.go\<close> return on a consistent registry: lookups of
  codes and contracts, and the three iterators over prefixes of the store.
\<close>

section \<open>Lookups\<close>

lemma eval_GetCodeInfo:
  assumes "registry_ok (w_store w)"
  shows "GetCodeInfo i w = (Ok (code_at (w_store w) i), w)"
proof -
  have "look (w_store w) (CodeK i) = kv_get (w_store w) (GetCodeKey i)" by (simp add: look_def)
  with assms show ?thesis unfolding registry_ok_def well_typed_def
    by (cases "kv_get (w_store w) (GetCodeKey i)")
       (fastforce simp: GetCodeInfo_def code_at_def bindM_def storeGet_def liftO_def returnM_def)+
qed

lemma eval_GetContractInfo:
  assumes "registry_ok (w_store w)"
  shows "GetContractInfo a w = (Ok (contract_at (w_store w) a), w)"
proof -
  have "look (w_store w) (ContractK a) = kv_get (w_store w) (GetContractAddressKey a)" by (simp add: look_def)
  with assms show ?thesis unfolding registry_ok_def well_typed_def
    by (cases "kv_get (w_store w) (GetContractAddressKey a)")
       (fastforce simp: GetContractInfo_def contract_at_def bindM_def storeGet_def liftO_def returnM_def)+
qed

lemma eval_contractInstance:
  assumes "registry_ok (w_store w)"
  shows "contractInstance k a w =
     (case contract_at (w_store w) a of
        None \<Rightarrow> (Err (WrappedError (''address '' @ addr_String (k_addr k) a)
                        (ErrNoSuchContractFn (addr_String (k_addr k) a))), w)
      | Some c \<Rightarrow> (Ok (c, the (code_at (w_store w) (con_CodeID c))), w))"
proof -
  have "\<exists>code. code_at (w_store w) (con_CodeID c) = Some code" if "contract_at (w_store w) a = Some c" for c
    using assms that unfolding registry_ok_def by blast
  then show ?thesis
    by (auto simp: contractInstance_def bindM_def eval_GetContractInfo [OF assms] eval_GetCodeInfo [OF assms]
        failM_def returnM_def split: option.split)
qed

section \<open>Every key is the key of an entry\<close>

definition keys_ok :: "store_value items \<Rightarrow> bool" where
  "keys_ok m \<longleftrightarrow> (\<forall>k. kv_get m k \<noteq> None \<longrightarrow> (\<exists>sk. key_of sk = Ok k))"

lemma keys_ok_set: "keys_ok m \<Longrightarrow> key_of sk = Ok k \<Longrightarrow> keys_ok (kv_set m k v)"
  unfolding keys_ok_def by (metis kv_get_set)

lemma keys_ok_delete: "keys_ok m \<Longrightarrow> keys_ok (kv_delete m k)"
  unfolding keys_ok_def by (simp add: kv_get_delete)

lemma keys_ok_filter: "keys_ok m \<Longrightarrow> keys_ok (filter (\<lambda>(k, _). P k) m)"
proof -
  have "kv_get m k \<noteq> None" if "kv_get (filter (\<lambda>(k, _). P k) m) k \<noteq> None" for k
    using that by (induction m) (auto split: if_splits)
  then show "keys_ok m \<Longrightarrow> keys_ok (filter (\<lambda>(k, _). P k) m)" unfolding keys_ok_def by blast
qed

lemma keys_ok_putContractStore:
  assumes "keys_ok m"
  shows "keys_ok (putContractStore a l m)"
proof -
  have "keys_ok (fold (\<lambda>(k, v) m'. kv_set m' (GetContractStorePrefix a @ k) (RawV v)) l m')"
    if "keys_ok m'" for m'
    using that
  proof (induction l arbitrary: m')
    case (Cons kv l)
    obtain k v where kv: "kv = (k, v)" by (cases kv)
    have "keys_ok (kv_set m' (GetContractStorePrefix a @ k) (RawV v))"
      using Cons.prems by (rule keys_ok_set [where sk = "StoreK a k"]) simp
    with Cons.IH kv show ?case by simp
  qed simp
  then show ?thesis using assms by (simp add: putContractStore_def keys_ok_filter)
qed

lemma registry_step_keys_ok: "registry_step m m' \<Longrightarrow> keys_ok m \<Longrightarrow> keys_ok m'"
proof (induction rule: registry_step.induct)
  case (instantiated m c a p e msg kc creator q kr pos)
  show ?case
    by (rule keys_ok_set [where sk = "ContractK a"], rule keys_ok_set [where sk = "HistoryK a (pos + 1)"],
        rule keys_ok_set [OF _ instantiated(6)], rule keys_ok_set [OF _ instantiated(5)]) (use instantiated in auto)
next
  case (contract_migrated m c' a c i old pold kold e p kc pos)
  show ?case
    by (rule keys_ok_set [where sk = "ContractK a"], rule keys_ok_set [OF _ contract_migrated(9)],
        rule keys_ok_set [where sk = "HistoryK a (pos + 1)"], rule keys_ok_delete) (use contract_migrated in auto)
next
  case (packet_stored m p ch i pkt)
  then show ?case by (rule keys_ok_set [OF _ key_of_asyncAckKey])
next
  case (instance_id m i)
  then show ?case unfolding bump_def by (intro keys_ok_set [where sk = SequenceInstanceK]) simp_all
next
  case (code_stored m i c)
  then show ?case unfolding bump_def
    by (intro keys_ok_set [where sk = SequenceCodeK] keys_ok_set [where sk = "CodeK i"]) simp_all
next
  case (params_set m p)
  then show ?case by (rule keys_ok_set [where sk = ParamsK]) simp
next
  case (tx_counted m v)
  then show ?case by (rule keys_ok_set [where sk = TXCounterK]) simp
next
  case (access_set m i c cfg)
  then show ?case by (intro keys_ok_set [where sk = "CodeK i"]) simp_all
next
  case (contract_set m a c c')
  then show ?case by (intro keys_ok_set [where sk = "ContractK a"]) simp_all
next
  case (pinned m i)
  then show ?case by (intro keys_ok_set [where sk = "PinnedK i"]) simp_all
qed (simp_all add: keys_ok_putContractStore keys_ok_delete)

interpretation keyed: registry_stable keys_ok
  by unfold_locales (rule registry_step_keys_ok)

lemma keys_ok_Nil: "keys_ok []"
  by (simp add: keys_ok_def)

text \<open>The entries behind a prefix of one byte are those of the kind of that byte.\<close>

lemma kind_key:
  assumes "keys_ok m" and "kv_get m (c # k) = Some v"
  obtains sk where "key_of sk = Ok (c # k)" and "of_char c = key_kind sk"
proof -
  from assms obtain sk where sk: "key_of sk = Ok (c # k)" unfolding keys_ok_def by blast
  with key_of_kind [OF sk] that show ?thesis by auto
qed

section \<open>Iterators\<close>

lemma iterateM_map: "iterateM (\<lambda>x. cb (f x)) xs = iterateM cb (map f xs)"
  by (induction xs) (simp_all cong: if_cong)

lemma iterateM_cong: "(\<And>x. x \<in> set xs \<Longrightarrow> cb x = cb' x) \<Longrightarrow> iterateM cb xs = iterateM cb' xs"
  by (induction xs) (simp_all cong: if_cong)

lemma bindM_liftO_Ok: "r = Ok x \<Longrightarrow> bindM (liftO r) f = f x"
  by (simp add: fun_eq_iff bindM_def liftO_def)

text \<open>\<open>IterateContractsByCode\<close>: the contracts of a code, each once, oldest position first.\<close>

definition contracts_of :: "store_value items \<Rightarrow> u64 \<Rightarrow> bytes list" where
  "contracts_of m i =
     map (\<lambda>(k, v). drop AbsoluteTxPositionLen k) (strip_prefix (GetContractByCodeIDSecondaryIndexPrefix i) m)"

lemma index_entry:
  assumes "registry_ok m" and "(k, v) \<in> set (strip_prefix (GetContractByCodeIDSecondaryIndexPrefix i) m)"
  obtains p a where "k = position_bytes p @ a" and "look m (ByCodeK i p a) \<noteq> None"
proof -
  let ?key = "GetContractByCodeIDSecondaryIndexPrefix i @ k"
  have get: "kv_get m ?key = Some v"
    using assms memdb.strip_prefix_lookup [of m k v] by (simp add: registry_ok_def)
  have "prefix ContractByCodeIDAndCreatedSecondaryIndexPrefix ?key"
    by (simp add: GetContractByCodeIDSecondaryIndexPrefix_def)
  with get assms(1) obtain j p a where key: "key_of (ByCodeK j p a) = Ok ?key"
    unfolding registry_ok_def well_typed_def by blast
  then have "j = i" and "k = position_bytes p @ a"
    by (auto simp: GetContractByCreatedSecondaryIndexKey_def GetContractByCodeIDSecondaryIndexPrefix_def
        AbsoluteTxPosition_Bytes_def)
  with key get that show ?thesis by (auto simp: look_def simp del: key_of.simps)
qed

lemma eval_IterateContractsByCode:
  assumes "registry_ok (w_store w)"
  shows "IterateContractsByCode i cb w = iterateM cb (contracts_of (w_store w) i) w"
proof -
  let ?items = "strip_prefix (GetContractByCodeIDSecondaryIndexPrefix i) (w_store w)"
  have "iterateM (\<lambda>(key, _). bindM (liftO (indexAddress key)) cb) ?items =
      iterateM (\<lambda>kv. cb ((\<lambda>(k, v). drop AbsoluteTxPositionLen k) kv)) ?items"
  proof (rule iterateM_cong)
    fix kv assume kv: "kv \<in> set ?items"
    obtain k v where k: "kv = (k, v)" by (cases kv)
    obtain p a where "k = position_bytes p @ a" using index_entry [OF assms] kv k by blast
    then have "indexAddress k = Ok (drop AbsoluteTxPositionLen k)"
      by (simp add: indexAddress_def AbsoluteTxPositionLen_def)
    then show "(case kv of (key, _) \<Rightarrow> bindM (liftO (indexAddress key)) cb) =
        cb ((\<lambda>(k, v). drop AbsoluteTxPositionLen k) kv)"
      by (simp add: k bindM_liftO_Ok)
  qed
  then show ?thesis
    by (simp add: IterateContractsByCode_def bindM_def storePrefix_def contracts_of_def flip: iterateM_map)
qed

lemma contracts_of_listed:
  assumes "registry_ok m" and "\<not> history_full m"
  shows "set (contracts_of m i) = {a. \<exists>c. contract_at m a = Some c \<and> con_CodeID c = i}" (is "_ = ?R")
    and "distinct (contracts_of m i)"
proof -
  have ok: "histories_ok m" and items: "items_ok m" using assms by (simp_all add: registry_ok_def)
  let ?items = "strip_prefix (GetContractByCodeIDSecondaryIndexPrefix i) m"
  have listed: "listed m i p a \<longleftrightarrow> look m (ByCodeK i p a) \<noteq> None" for p a
    using ok by (simp add: histories_ok_def)
  have code: "\<exists>c. contract_at m a = Some c \<and> con_CodeID c = i" if li: "listed m i p a" for p a
  proof -
    from li obtain c j e where c: "contract_at m a = Some c" "is_last m a j e" "hist_CodeID e = i"
      by (auto simp: listed_def)
    moreover from c ok obtain j' e' where "is_last m a j' e'" "hist_CodeID e' = con_CodeID c"
      unfolding histories_ok_def contract_ok_def by blast
    ultimately show ?thesis using is_last_unique [of m a j e j' e'] by auto
  qed
  show "set (contracts_of m i) = ?R"
  proof (intro equalityI subsetI)
    fix a assume "a \<in> set (contracts_of m i)"
    then obtain k v where kv: "(k, v) \<in> set ?items" and a: "a = drop AbsoluteTxPositionLen k"
      by (auto simp: contracts_of_def)
    from index_entry [OF assms(1) kv] obtain p b where "k = position_bytes p @ b" and "look m (ByCodeK i p b) \<noteq> None"
      by blast
    then have "listed m i p a" using a by (simp add: listed AbsoluteTxPositionLen_def)
    then show "a \<in> ?R" using code by simp
  next
    fix a assume "a \<in> ?R"
    then obtain c where c: "contract_at m a = Some c" "con_CodeID c = i" by blast
    with ok obtain j e p where "is_last m a j e" "hist_CodeID e = i" "hist_Updated e = Some p"
      unfolding histories_ok_def contract_ok_def by blast
    with c have "listed m i p a" by (auto simp: listed_def)
    then obtain v where "look m (ByCodeK i p a) = Some v" using listed by blast
    then have "kv_get m (GetContractByCodeIDSecondaryIndexPrefix i @ position_bytes p @ a) = Some v"
      by (simp add: look_def GetContractByCreatedSecondaryIndexKey_def AbsoluteTxPosition_Bytes_def)
    then have "(position_bytes p @ a, v) \<in> set ?items"
      using memdb.strip_prefix_lookup [OF items] by blast
    then show "a \<in> set (contracts_of m i)"
      by (force simp: contracts_of_def AbsoluteTxPositionLen_def)
  qed
  show "distinct (contracts_of m i)"
    unfolding contracts_of_def distinct_map
  proof
    show "distinct ?items"
      using memdb.strip_prefix_sorted [OF items] by (metis distinct_map strict_sorted_iff)
    show "inj_on (\<lambda>(k, v). drop AbsoluteTxPositionLen k) (set ?items)"
    proof (rule inj_onI)
      fix x y assume xy: "x \<in> set ?items" "y \<in> set ?items"
        and eq: "(\<lambda>(k, v). drop AbsoluteTxPositionLen k) x = (\<lambda>(k, v). drop AbsoluteTxPositionLen k) y"
      obtain k v l u where x: "x = (k, v)" and y: "y = (l, u)" by (cases x, cases y)
      from index_entry [OF assms(1)] xy x obtain p a where k: "k = position_bytes p @ a"
        and p: "look m (ByCodeK i p a) \<noteq> None" by metis
      from index_entry [OF assms(1)] xy y obtain q b where l: "l = position_bytes q @ b"
        and q: "look m (ByCodeK i q b) \<noteq> None" by metis
      from eq x y k l have "a = b" by (simp add: AbsoluteTxPositionLen_def)
      with p q listed have "listed m i p a" and "listed m i q a" by simp_all
      then have "p = q" by (auto simp: listed_def dest: is_last_unique)
      with \<open>a = b\<close> k l have "k = l" by simp
      moreover have "kv_get m (GetContractByCodeIDSecondaryIndexPrefix i @ k) = Some v"
        and "kv_get m (GetContractByCodeIDSecondaryIndexPrefix i @ l) = Some u"
        using xy x y memdb.strip_prefix_lookup [OF items] by blast+
      ultimately show "x = y" using x y by simp
    qed
  qed
qed

text \<open>\<open>InitializePinnedCodes\<close> pins every code of the index, once.\<close>

lemma pinned_entry:
  assumes "registry_ok m" and "keys_ok m" and "(k, v) \<in> set (strip_prefix PinnedCodeIndexPrefix m)"
  obtains i c where "k = Uint64ToBigEndian i" and "look m (PinnedK i) \<noteq> None" and "code_at m i = Some c"
proof -
  have get: "kv_get m (CHR 0x07 # k) = Some v"
    using assms memdb.strip_prefix_lookup [of m k v] by (simp add: registry_ok_def PinnedCodeIndexPrefix_def)
  obtain sk where sk: "key_of sk = Ok (CHR 0x07 # k)" and "of_char (CHR 0x07) = key_kind sk"
    by (rule kind_key [OF assms(2) get])
  then have "key_kind sk = 7" by simp
  then obtain i where i: "sk = PinnedK i" by (cases sk) auto
  with sk have "k = Uint64ToBigEndian i" by (simp add: GetPinnedCodeIndexPrefix_def PinnedCodeIndexPrefix_def)
  moreover have "look m (PinnedK i) \<noteq> None" using sk i get by (simp add: look_def)
  ultimately show ?thesis using that assms(1) unfolding registry_ok_def by blast
qed

lemma eachM_Ok:
  assumes "\<And>x w. x \<in> set xs \<Longrightarrow> I w \<Longrightarrow> \<exists>w'. f x w = (Ok (), w') \<and> I w'" and "I w"
  shows "\<exists>w'. eachM f xs w = (Ok (), w') \<and> I w'"
  using assms
proof (induction xs arbitrary: w)
  case (Cons x xs)
  then obtain w1 where "f x w = (Ok (), w1)" and "I w1" by fastforce
  moreover then obtain w' where "eachM f xs w1 = (Ok (), w')" and "I w'" using Cons by fastforce
  ultimately show ?case by (auto simp: bindM_def)
qed (simp add: returnM_def)

lemma pin_every_code:
  assumes ok: "registry_ok (w_store w)" and keys: "keys_ok (w_store w)" and start: "J (w_vm w)"
    and vm: "\<And>i c v. code_at (w_store w) i = Some c \<Longrightarrow> J v \<Longrightarrow> \<exists>v'. vm_Pin (k_vm k) (code_CodeHash c) v = (None, v') \<and> J v'"
  shows "\<exists>w'. InitializePinnedCodes k w = (Ok (), w') \<and> w_store w' = w_store w \<and> J (w_vm w')"
proof -
  let ?pin = "\<lambda>(key, _). bindM (liftO (ParsePinnedCodeIndex key)) (\<lambda>codeID.
       bindM (GetCodeInfo codeID) (\<lambda>ci.
       case ci of
         None \<Rightarrow> failM (noSuchCode codeID)
       | Some codeInfo \<Rightarrow>
           bindM (vmPin k (code_CodeHash codeInfo)) (\<lambda>err.
           case err of
             Some e \<Rightarrow> failM (WrappedError e ErrPinContractFailed)
           | None \<Rightarrow> returnM ())))"
  let ?items = "strip_prefix PinnedCodeIndexPrefix (w_store w)"
  let ?I = "\<lambda>w1. w_store w1 = w_store w \<and> J (w_vm w1)"
  have "\<exists>w2. ?pin kv w1 = (Ok (), w2) \<and> ?I w2"
    if kv: "kv \<in> set ?items" and w1: "?I w1" for kv w1
  proof -
    obtain key v where key: "kv = (key, v)" by (cases kv)
    from pinned_entry [OF ok keys] kv key obtain i c
      where i: "key = Uint64ToBigEndian i" and c: "code_at (w_store w) i = Some c" by metis
    have parse: "ParsePinnedCodeIndex key = Ok i"
      using unat_u64_less [of i]
      by (auto simp: ParsePinnedCodeIndex_def BigEndianToUint64_def i) (simp_all add: Uint64ToBigEndian_def)
    have get: "GetCodeInfo i w1 = (Ok (Some c), w1)" using eval_GetCodeInfo [of w1 i] ok c w1 by simp
    obtain v' where "vm_Pin (k_vm k) (code_CodeHash c) (w_vm w1) = (None, v')" and "J v'" using vm [OF c] w1 by blast
    then show ?thesis using w1 by (simp add: key parse liftO_def bindM_def get vmPin_def returnM_def)
  qed
  from eachM_Ok [where I = ?I and f = ?pin, OF this, of ?items w] start show ?thesis
    by (simp add: InitializePinnedCodes_def bindM_def storePrefix_def)
qed

lemma eval_InitializePinnedCodes:
  assumes ok: "registry_ok (w_store w)" and keys: "keys_ok (w_store w)"
    and vm: "\<And>checksum v. fst (vm_Pin (k_vm k) checksum v) = None"
  shows "\<exists>w'. InitializePinnedCodes k w = (Ok (), w') \<and> w_store w' = w_store w"
proof -
  have "\<exists>v'. vm_Pin (k_vm k) c v = (None, v') \<and> True" for c v
    using vm [of c v] by (cases "vm_Pin (k_vm k) c v") simp
  with pin_every_code [OF ok keys, of "\<lambda>_. True" k] show ?thesis by blast
qed

text \<open>\<open>GetContractHistory\<close> lists the entries of a contract in the order of their positions.\<close>

definition positions_of :: "store_value items \<Rightarrow> bytes \<Rightarrow> (bytes \<times> store_value) list" where
  "positions_of m a = filter isPosition (strip_prefix (GetContractCodeHistoryElementPrefix a) m)"

lemma positions_sorted: "items_ok m \<Longrightarrow> sorted_wrt (<) (map fst (positions_of m a))"
  unfolding positions_of_def
  by (drule memdb.strip_prefix_sorted [of _ "GetContractCodeHistoryElementPrefix a"])
     (simp add: sorted_wrt_map sorted_wrt_filter)

lemma positions_entry:
  assumes "registry_ok m"
  shows "(k, v) \<in> set (positions_of m a) \<longleftrightarrow>
    (\<exists>i e. k = Uint64ToBigEndian i \<and> v = HistoryV e \<and> history_at m a i = Some e)"
proof -
  have items: "items_ok m" and typed: "\<And>i v. look m (HistoryK a i) = Some v \<Longrightarrow> \<exists>e. v = HistoryV e"
    using assms by (auto simp: registry_ok_def well_typed_def)
  show ?thesis
  proof
    assume kv: "(k, v) \<in> set (positions_of m a)"
    let ?i = "word_of_nat (be_val k) :: u64"
    from kv have k: "k = Uint64ToBigEndian ?i"
      by (simp add: positions_of_def isPosition_def position_key)
    with kv have "(Uint64ToBigEndian ?i, v) \<in> set (strip_prefix (GetContractCodeHistoryElementPrefix a) m)"
      by (simp add: positions_of_def)
    then have look: "look m (HistoryK a ?i) = Some v" using history_items [OF items] by blast
    with typed obtain e where "v = HistoryV e" by blast
    with k look show "\<exists>i e. k = Uint64ToBigEndian i \<and> v = HistoryV e \<and> history_at m a i = Some e"
      by (auto simp: at_iffs)
  next
    assume "\<exists>i e. k = Uint64ToBigEndian i \<and> v = HistoryV e \<and> history_at m a i = Some e"
    then show "(k, v) \<in> set (positions_of m a)"
      by (auto simp: positions_of_def isPosition_def history_items [OF items] at_iffs)
  qed
qed

fun entry_of :: "store_value \<Rightarrow> ContractCodeHistoryEntry" where
  "entry_of (HistoryV e) = e"
| "entry_of _ = undefined"

lemma eval_GetContractHistory:
  assumes "registry_ok (w_store w)"
  shows "GetContractHistory a w = (Ok (map (entry_of \<circ> snd) (positions_of (w_store w) a)), w)"
proof -
  have "decodeHistory items = Ok (map (entry_of \<circ> snd) (filter isPosition items))"
    if "\<And>k v. (k, v) \<in> set (filter isPosition items) \<Longrightarrow> \<exists>e. v = HistoryV e" for items
    using that by (induction items rule: decodeHistory.induct) fastforce+
  moreover have "\<exists>e. v = HistoryV e" if "(k, v) \<in> set (positions_of (w_store w) a)" for k v
    using that positions_entry [OF assms] by blast
  ultimately show ?thesis
    by (simp add: GetContractHistory_def bindM_def storePrefix_def liftO_def positions_of_def)
qed

lemma sorted_prefix:
  assumes "sorted_wrt (<) (map fst xs)" and "sorted_wrt (<) (map fst ys)" and "set xs \<subseteq> set ys"
    and above: "\<And>x y. x \<in> set xs \<Longrightarrow> y \<in> set ys - set xs \<Longrightarrow> fst x < (fst y :: bytes)"
  shows "prefix xs ys"
proof -
  let ?rest = "filter (\<lambda>y. y \<notin> set xs) ys"
  have "sorted_wrt (<) (map fst (xs @ ?rest))"
    using assms(1,2) above by (auto simp: sorted_wrt_append sorted_wrt_map sorted_wrt_filter)
  moreover have "set (xs @ ?rest) = set ys" using assms(3) by auto
  ultimately have keys: "map fst (xs @ ?rest) = map fst ys"
    using assms(2) by (metis set_map strict_sorted_equal)
  have "inj_on fst (set ys)" using assms(2) by (metis distinct_map strict_sorted_iff)
  then have "xs @ ?rest = ys"
    using keys assms(3) by (intro map_inj_on [OF keys]) (auto intro: inj_on_subset)
  then show ?thesis by (metis prefixI)
qed

lemma history_prefix:
  assumes "registry_ok m" and "registry_ok m'" and "history_at m a \<subseteq>\<^sub>m history_at m' a"
    and above: "\<And>i j. i \<in> dom (history_at m a) \<Longrightarrow> j \<in> dom (history_at m' a) - dom (history_at m a) \<Longrightarrow> i < j"
  shows "prefix (positions_of m a) (positions_of m' a)"
proof (rule sorted_prefix)
  show "sorted_wrt (<) (map fst (positions_of m a))" "sorted_wrt (<) (map fst (positions_of m' a))"
    using assms(1,2) by (simp_all add: positions_sorted registry_ok_def)
  show "set (positions_of m a) \<subseteq> set (positions_of m' a)"
    using assms(3) by (auto simp: positions_entry [OF assms(1)] positions_entry [OF assms(2)] map_le_def dom_def)
  fix x y assume x: "x \<in> set (positions_of m a)" and y: "y \<in> set (positions_of m' a) - set (positions_of m a)"
  obtain k v l u where xy: "x = (k, v)" "y = (l, u)" by (cases x, cases y)
  from x xy obtain i e where i: "k = Uint64ToBigEndian i" "history_at m a i = Some e"
    by (auto simp: positions_entry [OF assms(1)])
  from y xy obtain j f where j: "l = Uint64ToBigEndian j" "u = HistoryV f" "history_at m' a j = Some f"
    by (auto simp: positions_entry [OF assms(2)])
  have "history_at m a j = None"
  proof (rule ccontr)
    assume "history_at m a j \<noteq> None"
    then obtain g where "history_at m a j = Some g" by blast
    moreover with assms(3) j(3) have "g = f" by (auto simp: map_le_def dom_def)
    ultimately have "y \<in> set (positions_of m a)" using j xy by (auto simp: positions_entry [OF assms(1)])
    with y show False by simp
  qed
  with above [of i j] i j have "i < j" by auto
  then show "fst x < fst y" using xy i j by simp
qed

section \<open>Uploads\<close>

lemma run_pass:
  assumes "neutral p" and "\<And>x. triple (store_is m) (f x) R (\<lambda>_. True)"
  shows "triple (store_is m) (bindM p f) R (\<lambda>_. True)"
  by (rule run_neutral [where \<Psi> = "\<lambda>_. True"]) (simp_all add: assms)

lemma create_effect:
  "triple (store_is m) (create k ctx (Some creator) code access authZ)
     (\<lambda>(i, h) w'. next_id m KeySequenceCodeID = Ok i \<and>
        (\<exists>c. w_store w' = kv_set (bump KeySequenceCodeID i m) (GetCodeKey i) (CodeInfoV c) \<and>
             code_CodeHash c = h \<and> code_Creator c = addr_String (k_addr k) creator))
     (\<lambda>_. True)"
  (is "triple _ _ ?Q _")
proof -
  have new: "triple (store_is m) (bindM (mustAutoIncrementID KeySequenceCodeID) (\<lambda>codeID.
     bindM (mustStoreCodeInfo codeID (NewCodeInfo (k_addr k) h (Some creator) acc)) (\<lambda>_.
     bindM (emitEvent ev (as codeID)) (\<lambda>_. returnM (codeID, h))))) ?Q (\<lambda>_. True)" for h acc ev as
  proof (rule run_mustAutoIncrementID, unfold mustStoreCodeInfo_def, rule run_storeSet, rule run_pass)
    show "neutral (emitEvent ev (as i))" for i by (rule neutral_rules)
  qed (rule triple_basic, auto simp: NewCodeInfo_def addr_bytes_def)
  have vm: "triple (store_is m)
     (case v of Some e \<Rightarrow> failM (WrappedError e ErrCreateFailed) | None \<Rightarrow> f) ?Q (\<lambda>_. True)"
    if "triple (store_is m) f ?Q (\<lambda>_. True)" for v and f :: "('a, 'b, u64 \<times> bytes) op"
    using that by (auto simp: triple_basic split: option.split)
  show ?thesis
    unfolding create_def option.case Let_def
    by (rule run_pass, (intro neutral_rules; fail))+
       (clarsimp split: prod.split, (rule run_pass vm new | (intro neutral_rules; fail))+)
qed

end
