(* ===== verification/Genesis.thy ===== *)
theory Genesis
  imports Registry_Runs Registry_Views
begin

text \<open>
  Genesis: the validation of \<open>types/genesis.go\<close> with the \<open>ValidateBasic\<close> methods of \<open>types/types.go\<close> it
  calls, and import and export of \<open>keeper/genesis.go\<close>. The lemmas show what an import establishes: from
  an empty store a genesis that is accepted leads to a consistent registry whose next code identifier
  is free, provided the two things the import does not check itself (\<open>genesis_ok\<close>).
\<close>

section \<open>Data and validation\<close>

record Code =
  gen_CodeID :: u64
  gen_CodeInfo :: CodeInfo
  gen_CodeBytes :: bytes
  gen_Pinned :: bool

record Contract =
  gen_ContractAddress :: string
  gen_ContractInfo :: ContractInfo
  gen_ContractState :: "Model list"
  gen_ContractCodeHistory :: "ContractCodeHistoryEntry list"

record Sequence =
  gen_IDKey :: bytes
  gen_Value :: u64

record GenesisState =
  gen_Params :: Params
  gen_Codes :: "Code list"
  gen_Contracts :: "Contract list"
  gen_Sequences :: "Sequence list"

definition Sequence_ValidateBasic :: "Sequence \<Rightarrow> go_error + unit" where
  "Sequence_ValidateBasic s = requireE (gen_IDKey s \<noteq> []) (WrappedError ''id key'' ErrEmpty)"

definition Model_ValidateBasic :: "Model \<Rightarrow> go_error + unit" where
  "Model_ValidateBasic m = requireE (model_Key m \<noteq> []) (WrappedError ''key'' ErrEmpty)"

definition CodeInfo_ValidateBasic :: "'w sdk_ops \<Rightarrow> CodeInfo \<Rightarrow> go_error + unit" where
  "CodeInfo_ValidateBasic sdk c =
     bindE (requireE (code_CodeHash c \<noteq> []) (WrappedError ''code hash'' ErrEmpty)) (\<lambda>_.
     bindE (checkAddr sdk ''creator'' (code_Creator c)) (\<lambda>_.
     wrapE ''instantiate config'' (AccessConfig_ValidateBasic (sdk_addr sdk) (code_InstantiateConfig c))))"

text \<open>The optional \<open>ValidateBasic\<close> of an extension is the argument \<open>validate\<close>.\<close>

definition ContractInfo_ValidateBasic ::
  "'w sdk_ops \<Rightarrow> (bytes \<Rightarrow> go_error + unit) \<Rightarrow> ContractInfo \<Rightarrow> go_error + unit"
where
  "ContractInfo_ValidateBasic sdk validate c =
     bindE (requireE (con_CodeID c \<noteq> 0) (WrappedError ''code id'' ErrEmpty)) (\<lambda>_.
     bindE (checkAddr sdk ''creator'' (con_Creator c)) (\<lambda>_.
     bindE (checkAdmin sdk (con_Admin c)) (\<lambda>_.
     bindE (wrapE ''label'' (ValidateLabel sdk (con_Label c))) (\<lambda>_.
     case con_Extension c of
       None \<Rightarrow> Inr ()
     | Some e \<Rightarrow> wrapE ''extension'' (validate e)))))"

definition ContractCodeHistoryEntry_ValidateBasic ::
  "'w sdk_ops \<Rightarrow> ContractCodeHistoryEntry \<Rightarrow> go_error + unit"
where
  "ContractCodeHistoryEntry_ValidateBasic sdk c =
     bindE (requireE (hist_Operation c \<in> {OperationTypeGenesis, OperationTypeInit, OperationTypeMigrate})
              (WrappedError ''operation'' ErrInvalid)) (\<lambda>_.
     bindE (requireE (hist_CodeID c \<noteq> 0) (WrappedError ''code id'' ErrEmpty)) (\<lambda>_.
     bindE (requireE (hist_Updated c \<noteq> None) (WrappedError ''updated'' ErrEmpty)) (\<lambda>_.
     wrapE ''msg'' (RawContractMessage_ValidateBasic sdk (Some (hist_Msg c))))))"

definition Code_ValidateBasic :: "'w sdk_ops \<Rightarrow> Code \<Rightarrow> go_error + unit" where
  "Code_ValidateBasic sdk c =
     bindE (requireE (gen_CodeID c \<noteq> 0) (WrappedError ''code id'' ErrEmpty)) (\<lambda>_.
     bindE (wrapE ''code info'' (CodeInfo_ValidateBasic sdk (gen_CodeInfo c))) (\<lambda>_.
     wrapE ''code bytes'' (validateWasmCode (gen_CodeBytes c) MaxProposalWasmSize)))"

definition Contract_ValidateBasic ::
  "'w sdk_ops \<Rightarrow> (bytes \<Rightarrow> go_error + unit) \<Rightarrow> Contract \<Rightarrow> go_error + unit"
where
  "Contract_ValidateBasic sdk validate c =
     bindE (checkAddr sdk ''contract address'' (gen_ContractAddress c)) (\<lambda>_.
     bindE (wrapE ''contract info'' (ContractInfo_ValidateBasic sdk validate (gen_ContractInfo c))) (\<lambda>_.
     bindE (requireE (con_Created (gen_ContractInfo c) \<noteq> None) (WrappedError ''created must not be empty'' ErrInvalid)) (\<lambda>_.
     bindE (validateEach ''contract state '' Model_ValidateBasic 0 (gen_ContractState c)) (\<lambda>_.
     bindE (requireE (gen_ContractCodeHistory c \<noteq> []) (WrappedError ''code history'' ErrEmpty)) (\<lambda>_.
     validateEach ''code history element '' (ContractCodeHistoryEntry_ValidateBasic sdk) 0
       (gen_ContractCodeHistory c))))))"

definition GenesisState_ValidateBasic ::
  "'w sdk_ops \<Rightarrow> (bytes \<Rightarrow> go_error + unit) \<Rightarrow> GenesisState \<Rightarrow> go_error + unit"
where
  "GenesisState_ValidateBasic sdk validate s =
     bindE (wrapE ''params'' (Params_ValidateBasic (sdk_addr sdk) (gen_Params s))) (\<lambda>_.
     bindE (validateEach ''code: '' (Code_ValidateBasic sdk) 0 (gen_Codes s)) (\<lambda>_.
     bindE (validateEach ''contract: '' (Contract_ValidateBasic sdk validate) 0 (gen_Contracts s)) (\<lambda>_.
     validateEach ''sequence: '' Sequence_ValidateBasic 0 (gen_Sequences s))))"

definition ValidateGenesis ::
  "'w sdk_ops \<Rightarrow> (bytes \<Rightarrow> go_error + unit) \<Rightarrow> GenesisState \<Rightarrow> go_error + unit"
where
  "ValidateGenesis sdk validate data = GenesisState_ValidateBasic sdk validate data"

section \<open>Import\<close>

primrec importCodes ::
  "('w, 'v) Keeper \<Rightarrow> nat \<Rightarrow> u64 \<Rightarrow> Code list \<Rightarrow> ('w, 'v, u64) op"
where
  "importCodes k i maxCodeID [] = returnM maxCodeID"
| "importCodes k i maxCodeID (code # codes) =
     bindM (wrapM (''code '' @ dec_string i @ '' with id: '' @ fmt_u64 (gen_CodeID code))
              (importCode k (gen_CodeID code) (gen_CodeInfo code) (gen_CodeBytes code))) (\<lambda>_.
     bindM (if gen_Pinned code
            then wrapM (''contract number '' @ dec_string i)
                   (pk_PinCode (NewGovPermissionKeeper k) (gen_CodeID code))
            else returnM ()) (\<lambda>_.
     importCodes k (Suc i) (if gen_CodeID code > maxCodeID then gen_CodeID code else maxCodeID) codes))"

primrec importContracts :: "('w, 'v) Keeper \<Rightarrow> nat \<Rightarrow> Contract list \<Rightarrow> ('w, 'v, unit) op" where
  "importContracts k i [] = returnM ()"
| "importContracts k i (contract # contracts) =
     bindM (wrapM (''address in contract number '' @ dec_string i)
              (liftE (AccAddressFromBech32 (k_addr k) (gen_ContractAddress contract)))) (\<lambda>contractAddr.
     bindM (wrapM (''contract number '' @ dec_string i)
              (importContract k contractAddr (gen_ContractInfo contract) (gen_ContractState contract)
                 (gen_ContractCodeHistory contract))) (\<lambda>_.
     importContracts k (Suc i) contracts))"

primrec importSequences :: "nat \<Rightarrow> Sequence list \<Rightarrow> ('w, 'v, unit) op" where
  "importSequences i [] = returnM ()"
| "importSequences i (seq # seqs) =
     bindM (wrapM (''sequence number '' @ dec_string i) (importAutoIncrementID (gen_IDKey seq) (gen_Value seq))) (\<lambda>_.
     importSequences (Suc i) seqs)"

text \<open>What runs on a cached context leaves the state alone.\<close>

definition onCacheContext :: "('w, 'v, 'a) op \<Rightarrow> ('w, 'v, 'a) op" where
  "onCacheContext m = (\<lambda>w. (fst (m w), w))"

text \<open>
  The instance sequence is passed as the code of the classic address; the generator reads it a second
  time for the instance.
\<close>

definition InitGenesis :: "('w, 'v) Keeper \<Rightarrow> GenesisState \<Rightarrow> ('w, 'v, unit) op" where
  "InitGenesis k data =
     bindM (wrapM ''set params'' (SetParams (gen_Params data))) (\<lambda>_.
     bindM (importCodes k 0 0 (gen_Codes data)) (\<lambda>maxCodeID.
     bindM (importContracts k 0 (gen_Contracts data)) (\<lambda>_.
     bindM (importSequences 0 (gen_Sequences data)) (\<lambda>_.
     bindM (PeekAutoIncrementID KeySequenceCodeID) (\<lambda>seqVal.
     bindM (guardM (seqVal > maxCodeID)
              (WrappedError (''seq '' @ KeySequenceCodeID @ '' with value: '' @ fmt_u64 seqVal @
                 '' must be greater than: '' @ fmt_u64 maxCodeID @ '' '') ErrInvalid)) (\<lambda>_.
     bindM (onCacheContext (bindM (PeekAutoIncrementID KeySequenceInstanceID) (\<lambda>seqVal.
              bindM (ClassicAddressGenerator k seqVal []) (\<lambda>addr. returnM (seqVal, addr))))) (\<lambda>(seqVal, addr).
     bindM (HasContractInfo addr) (\<lambda>used.
     guardM (\<not> used)
       (WrappedError (''value: '' @ fmt_u64 seqVal @ '' for seq '' @ KeySequenceInstanceID @ '' was used already'')
          ErrInvalid)))))))))"

section \<open>Export\<close>

primrec collectM :: "('a \<Rightarrow> ('s, 'b) prog) \<Rightarrow> 'a list \<Rightarrow> ('s, 'b list) prog" where
  "collectM f [] = returnM []"
| "collectM f (x # xs) = bindM (f x) (\<lambda>y. bindM (collectM f xs) (\<lambda>ys. returnM (y # ys)))"

text \<open>An error while exporting is a panic.\<close>

definition mustM :: "('s, 'a) prog \<Rightarrow> ('s, 'a) prog" where
  "mustM m = bindM (tryM m) (\<lambda>r. case r of Inl _ \<Rightarrow> panicM PanicOther | Inr x \<Rightarrow> returnM x)"

text \<open>
  The callbacks append to the exported lists and never stop the iteration, so each iteration yields the
  list of what its callback appends.
\<close>

definition exportCode :: "('w, 'v) Keeper \<Rightarrow> u64 \<Rightarrow> CodeInfo \<Rightarrow> ('w, 'v, Code) op" where
  "exportCode k codeID info =
     bindM (mustM (GetByteCode k codeID)) (\<lambda>bytecode.
     bindM (IsPinnedCode codeID) (\<lambda>pinned.
     returnM \<lparr>gen_CodeID = codeID, gen_CodeInfo = info,
              gen_CodeBytes = (case bytecode of None \<Rightarrow> [] | Some b \<Rightarrow> b), gen_Pinned = pinned\<rparr>))"

definition exportContract :: "('w, 'v) Keeper \<Rightarrow> bytes \<Rightarrow> ContractInfo \<Rightarrow> ('w, 'v, Contract) op" where
  "exportContract k addr contract =
     bindM getM (\<lambda>w.
     bindM (GetContractHistory addr) (\<lambda>contractCodeHistory.
     returnM \<lparr>gen_ContractAddress = addr_String (k_addr k) addr, gen_ContractInfo = contract,
              gen_ContractState = map (\<lambda>(key, value). \<lparr>model_Key = key, model_Value = value\<rparr>)
                (contractStore (w_store w) addr),
              gen_ContractCodeHistory = contractCodeHistory\<rparr>))"

definition exportSequence :: "bytes \<Rightarrow> ('w, 'v, Sequence) op" where
  "exportSequence key = bindM (mustM (PeekAutoIncrementID key)) (\<lambda>id.
     returnM \<lparr>gen_IDKey = key, gen_Value = id\<rparr>)"

definition ExportGenesis :: "('w, 'v) Keeper \<Rightarrow> ('w, 'v, GenesisState) op" where
  "ExportGenesis k =
     bindM GetParams (\<lambda>params.
     bindM (storePrefix CodeKeyPrefix) (\<lambda>codeItems.
     bindM (collectM (\<lambda>(key, value).
       bindM (liftO (asCodeInfo value)) (\<lambda>c.
       bindM (liftO (BigEndian_Uint64 key)) (\<lambda>codeID. exportCode k codeID c))) codeItems) (\<lambda>codes.
     bindM (storePrefix ContractKeyPrefix) (\<lambda>contractItems.
     bindM (collectM (\<lambda>(key, value).
       bindM (liftO (asContractInfo value)) (\<lambda>c. exportContract k key c)) contractItems) (\<lambda>contracts.
     bindM (collectM exportSequence [KeySequenceCodeID, KeySequenceInstanceID]) (\<lambda>sequences.
     returnM \<lparr>gen_Params = params, gen_Codes = codes, gen_Contracts = contracts, gen_Sequences = sequences\<rparr>))))))"

section \<open>What an import establishes\<close>

text \<open>
  What the import relies on without checking it: the last entry of the history of a contract names the
  code the contract runs, and the sequences are the two of the module.
\<close>

definition genesis_ok :: "GenesisState \<Rightarrow> bool" where
  "genesis_ok data \<longleftrightarrow>
     (\<forall>c \<in> set (gen_Contracts data).
        hist_CodeID (last (gen_ContractCodeHistory c)) = con_CodeID (gen_ContractInfo c)) \<and>
     (\<forall>s \<in> set (gen_Sequences data). gen_IDKey s \<in> {KeySequenceCodeID, KeySequenceInstanceID})"

subsection \<open>The history of a contract that is not there yet\<close>

lemma registry_ok_set_history:
  assumes "registry_ok m" and absent: "contract_at m a = None"
  shows "registry_ok (kv_set m (GetContractCodeHistoryElementKey a i) (HistoryV e))"
proof -
  let ?m = "kv_set m (GetContractCodeHistoryElementKey a i) (HistoryV e)"
  have at: "code_at ?m = code_at m" "contract_at ?m = contract_at m"
    by (simp_all add: fun_eq_iff code_at_def contract_at_def look_sets)
  have last_b: "is_last ?m b = is_last m b" if "b \<noteq> a" for b
    using that by (simp add: fun_eq_iff is_last_def history_at_def look_sets)
  have "well_typed ?m"
    using assms(1) unfolding registry_ok_def well_typed_def
    by (auto simp: look_sets kv_get_index_other [of _ "HistoryK a i"])
  moreover have "history_full ?m \<or> histories_ok ?m"
  proof (cases "history_full m")
    case True
    then show ?thesis by (auto simp: history_full_def look_sets)
  next
    case False
    then have ok: "histories_ok m" using assms(1) by (simp add: registry_ok_def)
    have "contract_ok ?m b d" if d: "contract_at m b = Some d" for b d
    proof -
      from d absent have "b \<noteq> a" by auto
      with d ok show ?thesis by (simp add: contract_ok_def last_b histories_ok_def)
    qed
    moreover have "listed ?m x q b = listed m x q b" for x q b
      using absent by (cases "b = a") (auto simp: listed_def last_b at)
    ultimately have "histories_ok ?m" using ok by (simp add: histories_ok_def at look_sets)
    then show ?thesis ..
  qed
  ultimately show ?thesis
    using assms(1) by (auto simp: registry_ok_def at look_sets items_ok_set)
qed

primrec history_written ::
  "bytes \<Rightarrow> u64 \<Rightarrow> ContractCodeHistoryEntry list \<Rightarrow> store_value items \<Rightarrow> store_value items"
where
  "history_written a pos [] m = m"
| "history_written a pos (e # es) m =
     history_written a (pos + 1) es (kv_set m (GetContractCodeHistoryElementKey a (pos + 1)) (HistoryV e))"

lemma storeHistory_run:
  "storeHistory a pos es w = (Ok (), w\<lparr>w_store := history_written a pos es (w_store w)\<rparr>)"
  by (induction es arbitrary: pos w) (simp_all add: storeSet_def prog_simps)

lemma history_written_append:
  "history_written a pos (es @ [e]) m =
     kv_set (history_written a pos es m) (GetContractCodeHistoryElementKey a (pos + word_of_nat (length es) + 1)) (HistoryV e)"
  by (induction es arbitrary: pos m) (simp_all add: ac_simps)

lemma look_history_written:
  assumes "\<And>i. sk \<noteq> HistoryK a i"
  shows "look (history_written a pos es m) sk = look m sk"
  using assms by (induction es arbitrary: pos m) (simp_all add: look_sets)

lemma history_written_ok:
  assumes "registry_ok m" and "keys_ok m" and "contract_at m a = None"
  shows "registry_ok (history_written a pos es m) \<and> keys_ok (history_written a pos es m)"
  using assms
proof (induction es arbitrary: pos m)
  case (Cons e es)
  let ?m = "kv_set m (GetContractCodeHistoryElementKey a (pos + 1)) (HistoryV e)"
  have "registry_ok ?m" using Cons.prems(1,3) by (rule registry_ok_set_history)
  moreover have "keys_ok ?m" using Cons.prems(2) by (rule keys_ok_set [where sk = "HistoryK a (pos + 1)"]) simp
  moreover have "contract_at ?m a = None" using Cons.prems(3) by (simp add: contract_at_def look_sets)
  ultimately show ?case using Cons.IH by simp
qed simp

lemma history_written_full: "history_full m \<Longrightarrow> history_full (history_written a pos es m)"
proof (induction es arbitrary: pos m)
  case (Cons e es)
  then have "history_full (kv_set m (GetContractCodeHistoryElementKey a (pos + 1)) (HistoryV e))"
    by (auto simp: history_full_def look_sets)
  then show ?case using Cons.IH by simp
qed simp

lemma history_written_last:
  assumes "last_position m a pos" and "\<not> history_full (history_written a pos es m)"
  shows "last_position (history_written a pos es m) a (pos + word_of_nat (length es))"
  using assms
proof (induction es arbitrary: pos m)
  case (Cons e es)
  have "\<not> history_full m" using Cons.prems(2) history_written_full by blast
  then have "pos \<noteq> - 1" using Cons.prems(1) by (auto simp: last_position_def history_full_def)
  then have "pos < pos + 1" by (rule word_less_Suc)
  then have "last_position (kv_set m (GetContractCodeHistoryElementKey a (pos + 1)) (HistoryV e)) a (pos + 1)"
    using Cons.prems(1) by (auto simp: last_position_def look_sets intro: order_trans less_imp_le)
  from Cons.IH [OF this] Cons.prems(2) show ?case by (simp add: ac_simps)
qed simp

subsection \<open>Contracts\<close>

lemma registry_ok_imported:
  assumes ok: "registry_ok m" and code: "code_at m (con_CodeID c) \<noteq> None" and absent: "contract_at m a = None"
    and e: "hist_CodeID e = con_CodeID c" "hist_Updated e = Some p"
    and k1: "key_of (ByCodeK (con_CodeID c) p a) = Ok k1" and k2: "key_of (ByCreatorK creator q a) = Ok k2"
    and pos: "\<not> history_full m \<Longrightarrow> last_position m a pos"
  shows "registry_ok (kv_set (kv_set (kv_set (kv_set m
          (GetContractCodeHistoryElementKey a (pos + 1)) (HistoryV e))
          (GetContractAddressKey a) (ContractInfoV c)) k1 (RawV [])) k2 (RawV []))"
    (is "registry_ok ?m")
proof -
  note look = look_index [OF k1] look_creator [OF k2] look_sets
  note absent' = index_of_absent [OF ok _ absent]
  have "new_version m a c e pos ?m"
    unfolding new_version_def
  proof (intro conjI allI impI)
    show "items_ok ?m" using ok by (simp add: registry_ok_def items_ok_set)
    show "look ?m sk = (if sk = ContractK a then Some (ContractInfoV c)
          else if sk = HistoryK a (pos + 1) then Some (HistoryV e) else look m sk)"
      if "relevant sk" and "key_kind sk \<noteq> 6" for sk
      using that by (auto simp: look)
    show "look ?m (ByCodeK x y b) = look m (ByCodeK x y b)" if "b \<noteq> a" for x y b
      using that by (simp add: look)
    show "look ?m (ByCodeK x y a) \<noteq> None \<longleftrightarrow> x = hist_CodeID e \<and> hist_Updated e = Some y"
      if "\<not> history_full m" for x y
      using absent' [OF that] e by (auto simp: look)
    show "kv_get m b \<noteq> None \<or> (\<exists>x y d. key_of (ByCodeK x y d) = Ok b)"
      if v: "kv_get ?m b = Some v" and b: "prefix ContractByCodeIDAndCreatedSecondaryIndexPrefix b" for b v
    proof (cases "b = k1")
      case True
      with k1 show ?thesis by blast
    next
      case False
      with v have "kv_get m b = Some v"
        unfolding kv_get_set_index(3) [OF b k2] kv_get_set [of _ k1] by (simp add: kv_get_set_index [OF b])
      then show ?thesis by simp
    qed
  qed
  from registry_ok_new_version [OF ok this code e] pos show ?thesis by (simp add: last_position_def)
qed

lemma importContractState_ok:
  assumes "importContractState a models w = (Ok u, w')" and "registry_ok (w_store w)" and "keys_ok (w_store w)"
  shows "registry_ok (w_store w') \<and> keys_ok (w_store w') \<and>
    (\<forall>sk. registry_key sk \<longrightarrow> look (w_store w') sk = look (w_store w) sk)"
  using assms
proof (induction models arbitrary: w)
  case Nil
  then show ?case by (simp add: prog_Ok_iffs)
next
  case (Cons model models)
  let ?k = "GetContractStorePrefix a @ model_Key model"
  let ?w = "w\<lparr>w_store := kv_set (w_store w) ?k (RawV (model_Value model))\<rparr>"
  have k: "key_of (StoreK a (model_Key model)) = Ok ?k" by simp
  from Cons.prems(1) have "importContractState a models ?w = (Ok u, w')"
    by (auto simp: storeHas_def storeSet_def Let_def prog_simps prog_Ok_iffs split: if_splits elim!: bindM_Ok_E)
  moreover have "registry_ok (w_store ?w)" using registry_ok_set_other [OF Cons.prems(2) k] by simp
  moreover have "keys_ok (w_store ?w)" using keys_ok_set [OF Cons.prems(3) k] by simp
  moreover have "look (w_store ?w) sk = look (w_store w) sk" if "registry_key sk" for sk
    using look_set [OF k, of sk] that by auto
  ultimately show ?case using Cons.IH by simp
qed

definition contract_written ::
  "bytes \<Rightarrow> ContractInfo \<Rightarrow> ContractCodeHistoryEntry list \<Rightarrow> u64 \<Rightarrow> bytes \<Rightarrow> bytes \<Rightarrow> store_value items \<Rightarrow> store_value items"
where
  "contract_written a c hs pos kc kr m =
     kv_set (kv_set (kv_set (history_written a pos hs m) (GetContractAddressKey a) (ContractInfoV c)) kc (RawV [])) kr (RawV [])"

lemma importContract_E:
  assumes "importContract k a c st hs w = (Ok u, w')" and "items_ok (w_store w)"
  obtains pos p kc creator q kr where
    "look (w_store w) (CodeK (con_CodeID c)) \<noteq> None" and "look (w_store w) (ContractK a) = None" and "hs \<noteq> []"
    and "last_position (w_store w) a pos" and "hist_Updated (last hs) = Some p"
    and "key_of (ByCodeK (hist_CodeID (last hs)) p a) = Ok kc" and "key_of (ByCreatorK creator q a) = Ok kr"
    and "importContractState a st (w\<lparr>w_store := contract_written a c hs pos kc kr (w_store w)\<rparr>) = (Ok u, w')"
proof -
  from assms(1) obtain creator pos kc posb kr where known: "kv_has (w_store w) (GetCodeKey (con_CodeID c))"
    and absent: "\<not> kv_has (w_store w) (GetContractAddressKey a)" and ne: "hs \<noteq> []"
    and pos: "lastPosition (strip_prefix (GetContractCodeHistoryElementPrefix a) (w_store w)) = Ok pos"
    and kc: "GetContractByCreatedSecondaryIndexKey a (last hs) = Ok kc"
    and posb: "AbsoluteTxPosition_Bytes (hist_Updated (hd hs)) = Ok posb"
    and kr: "GetContractByCreatorSecondaryIndexKey creator posb a = Ok kr"
    and st: "importContractState a st (w\<lparr>w_store := contract_written a c hs pos kc kr (w_store w)\<rparr>) = (Ok u, w')"
    by (auto simp: importContract_def containsCodeInfo_def HasContractInfo_def storeHas_def appendToContractHistory_def
        storePrefix_def mustStoreContractInfo_def addToContractCodeSecondaryIndex_def storeHistory_run contract_written_def
        addToContractCreatorSecondaryIndex_def storeSet_def prog_simps prog_Ok_iffs elim!: bindM_Ok_E)
  from kc obtain p where "hist_Updated (last hs) = Some p" and "key_of (ByCodeK (hist_CodeID (last hs)) p a) = Ok kc"
    by (auto dest: index_key_cases(2))
  moreover from posb kr obtain q where "key_of (ByCreatorK creator q a) = Ok kr"
    by (auto dest: creator_key_cases(3))
  moreover have "last_position (w_store w) a pos"
    using lastPosition_bound [OF assms(2) pos] by (simp add: last_position_def)
  ultimately show thesis
    using known absent ne st by (intro that) (auto simp: look_def kv_has_def)
qed

lemma importContract_ok:
  assumes run: "importContract k a c st hs w = (Ok u, w')" and ok: "registry_ok (w_store w)" and keys: "keys_ok (w_store w)"
    and last: "hist_CodeID (last hs) = con_CodeID c"
  shows "registry_ok (w_store w') \<and> keys_ok (w_store w') \<and>
    (\<forall>i. look (w_store w') (CodeK i) = look (w_store w) (CodeK i)) \<and>
    look (w_store w') SequenceCodeK = look (w_store w) SequenceCodeK"
proof -
  let ?m = "w_store w"
  have items: "items_ok ?m" and typed: "well_typed ?m" using ok by (simp_all add: registry_ok_def)
  from importContract_E [OF run items] obtain pos p kc creator q kr where
    known: "look ?m (CodeK (con_CodeID c)) \<noteq> None" and absent: "look ?m (ContractK a) = None" and ne: "hs \<noteq> []"
    and pos: "last_position ?m a pos" and p: "hist_Updated (last hs) = Some p"
    and kc: "key_of (ByCodeK (hist_CodeID (last hs)) p a) = Ok kc" and kr: "key_of (ByCreatorK creator q a) = Ok kr"
    and st: "importContractState a st (w\<lparr>w_store := contract_written a c hs pos kc kr ?m\<rparr>) = (Ok u, w')" .
  let ?b = "history_written a pos (butlast hs) ?m"
  let ?pos = "pos + word_of_nat (length (butlast hs))"
  let ?c = "contract_written a c hs pos kc kr ?m"
  have absent': "contract_at ?m a = None" using absent by (simp add: contract_at_def)
  have b: "registry_ok ?b" "keys_ok ?b" using history_written_ok [OF ok keys absent'] by blast+
  have hs: "history_written a pos hs ?m =
      kv_set ?b (GetContractCodeHistoryElementKey a (?pos + 1)) (HistoryV (last hs))"
    using ne history_written_append [of a pos "butlast hs" "last hs" ?m] by simp
  have "registry_ok ?c"
    unfolding contract_written_def hs
  proof (rule registry_ok_imported [OF b(1)])
    show "code_at ?b (con_CodeID c) \<noteq> None"
      using known at_None_iffs(1) [OF typed] by (simp add: code_at_def look_history_written)
    show "contract_at ?b a = None" using absent by (simp add: contract_at_def look_history_written)
    show "last_position ?b a ?pos" if "\<not> history_full ?b" using history_written_last [OF pos that] .
  qed (use last p kc kr in simp_all)
  moreover have "keys_ok ?c"
    unfolding contract_written_def hs
    by (rule keys_ok_set [OF _ kr], rule keys_ok_set [OF _ kc], rule keys_ok_set [where sk = "ContractK a"],
        rule keys_ok_set [where sk = "HistoryK a (?pos + 1)", OF b(2)]) simp_all
  moreover have "look ?c sk = look ?m sk" if "sk = SequenceCodeK \<or> (\<exists>i. sk = CodeK i)" for sk
    using that unfolding contract_written_def
    by (auto simp: look_creator [OF kr] look_index [OF kc] look_sets look_history_written)
  ultimately show ?thesis using importContractState_ok [OF st] by simp
qed

subsection \<open>Codes\<close>

lemma vmStore_store: "vmStoreCodeUnchecked k code w = (r, w') \<Longrightarrow> w_store w' = w_store w"
  by (rule neutralD [OF neutral_vm_store(2)])

lemma importCode_E:
  assumes "importCode k i info code w = (Ok u, w')"
  shows "look (w_store w) (CodeK i) = None" and "w_store w' = kv_set (w_store w) (GetCodeKey i) (CodeInfoV info)"
proof -
  from assms obtain r w1 where "vmStoreCodeUnchecked k r w = (Ok (Inr (code_CodeHash info)), w1)"
    and "\<not> kv_has (w_store w1) (GetCodeKey i)"
    and "w' = w1\<lparr>w_store := kv_set (w_store w1) (GetCodeKey i) (CodeInfoV info)\<rparr>"
    by (fastforce simp: importCode_def uncompressCode_def containsCodeInfo_def storeHas_def mustStoreCodeInfo_def
        storeSet_def prog_Ok_iffs split: if_splits sum.splits elim!: bindM_Ok_E)
  then show "look (w_store w) (CodeK i) = None" and "w_store w' = kv_set (w_store w) (GetCodeKey i) (CodeInfoV info)"
    by (auto simp: vmStore_store look_def kv_has_def)
qed

lemma pinCode_E:
  assumes "pinCode k i w = (Ok u, w')"
  shows "w_store w' = kv_set (w_store w) (GetPinnedCodeIndexPrefix i) (RawV [CHR 0x01])"
  using assms
  by (auto simp: pinCode_def GetCodeInfo_def storeGet_def vmPin_def storeSet_def emitEvent_def emitEvents_def
      prog_Ok_iffs split: option.splits prod.splits elim!: bindM_Ok_E)

text \<open>What the imported codes add to the store.\<close>

definition codes_in :: "Code list \<Rightarrow> u64 \<rightharpoonup> store_value" where
  "codes_in codes = map_of (map (\<lambda>c. (gen_CodeID c, CodeInfoV (gen_CodeInfo c))) codes)"

definition pinned_in :: "Code list \<Rightarrow> u64 set" where
  "pinned_in codes = {gen_CodeID c | c. c \<in> set codes \<and> gen_Pinned c}"

lemma import_distinct:
  assumes "importCodes k n mx codes w = (Ok mx', w')" and "c \<in> set codes"
  shows "look (w_store w) (CodeK (gen_CodeID c)) = None"
  using assms
proof (induction codes arbitrary: n mx w)
  case (Cons d codes)
  from Cons.prems(1) obtain w1 w2 mx1 where c1: "importCode k (gen_CodeID d) (gen_CodeInfo d) (gen_CodeBytes d) w = (Ok (), w1)"
    and c2: "(if gen_Pinned d then pinCode k (gen_CodeID d) else returnM ()) w1 = (Ok (), w2)"
    and rest: "importCodes k (Suc n) mx1 codes w2 = (Ok mx', w')"
    by (auto simp: prog_Ok_iffs pk_PinCode_def NewGovPermissionKeeper_def NewPermissionedKeeper_def
        split: if_splits elim!: bindM_Ok_E)
  note w1 = importCode_E [OF c1]
  have "look (w_store w2) (CodeK i) = look (w_store w1) (CodeK i)" for i
    using c2 by (auto simp: prog_Ok_iffs look_sets dest: pinCode_E split: if_splits)
  then have "look (w_store w2) (CodeK (gen_CodeID c)) = None \<Longrightarrow> look (w_store w) (CodeK (gen_CodeID c)) = None"
    using w1 by (auto simp: look_sets split: if_splits)
  with Cons.IH [OF rest] Cons.prems(2) w1(1) show ?case by auto
qed simp

lemma importCodes_ok:
  assumes "importCodes k n mx codes w = (Ok mx', w')" and "registry_ok (w_store w)" and "keys_ok (w_store w)"
  shows "registry_ok (w_store w') \<and> keys_ok (w_store w') \<and> mx \<le> mx' \<and> (\<forall>i \<in> dom (codes_in codes). i \<le> mx') \<and>
    (\<forall>i. look (w_store w') (CodeK i) = (case codes_in codes i of None \<Rightarrow> look (w_store w) (CodeK i) | v \<Rightarrow> v)) \<and>
    (\<forall>i. look (w_store w') (PinnedK i) \<noteq> None \<longleftrightarrow> look (w_store w) (PinnedK i) \<noteq> None \<or> i \<in> pinned_in codes) \<and>
    (\<forall>sk. key_kind sk \<noteq> 1 \<longrightarrow> key_kind sk \<noteq> 7 \<longrightarrow> look (w_store w') sk = look (w_store w) sk)"
  using assms
proof (induction codes arbitrary: n mx w)
  case Nil
  then show ?case by (auto simp: prog_Ok_iffs codes_in_def pinned_in_def)
next
  case (Cons c codes)
  let ?i = "gen_CodeID c"
  let ?m1 = "kv_set (w_store w) (GetCodeKey ?i) (CodeInfoV (gen_CodeInfo c))"
  let ?m2 = "if gen_Pinned c then kv_set ?m1 (GetPinnedCodeIndexPrefix ?i) (RawV [CHR 0x01]) else ?m1"
  let ?mx = "if ?i > mx then ?i else mx"
  from Cons.prems(1) obtain w1 w2 where c1: "importCode k ?i (gen_CodeInfo c) (gen_CodeBytes c) w = (Ok (), w1)"
    and c2: "(if gen_Pinned c then pinCode k ?i else returnM ()) w1 = (Ok (), w2)"
    and rest: "importCodes k (Suc n) ?mx codes w2 = (Ok mx', w')"
    by (auto simp: prog_Ok_iffs pk_PinCode_def NewGovPermissionKeeper_def NewPermissionedKeeper_def
        split: if_splits elim!: bindM_Ok_E)
  have absent: "look (w_store w) (CodeK ?i) = None" and w1: "w_store w1 = ?m1" using importCode_E [OF c1] by blast+
  have w2: "w_store w2 = ?m2" using c2 w1 by (auto simp: prog_Ok_iffs dest: pinCode_E split: if_splits)
  have "registry_ok ?m1" using Cons.prems(2) by (rule registry_ok_set_code)
  then have "registry_ok (w_store w2)"
    unfolding w2 by (auto intro!: registry_ok_pin(1) simp: code_at_def look_sets)
  moreover have "keys_ok ?m1" by (rule keys_ok_set [OF Cons.prems(3), where sk = "CodeK ?i"]) simp
  then have "keys_ok (w_store w2)"
    unfolding w2 using keys_ok_set [where sk = "PinnedK ?i"] by simp
  ultimately have IH: "registry_ok (w_store w')" "keys_ok (w_store w')" "?mx \<le> mx'" "\<forall>i \<in> dom (codes_in codes). i \<le> mx'"
    "\<And>i. look (w_store w') (CodeK i) = (case codes_in codes i of None \<Rightarrow> look ?m2 (CodeK i) | v \<Rightarrow> v)"
    "\<And>i. look (w_store w') (PinnedK i) \<noteq> None \<longleftrightarrow> look ?m2 (PinnedK i) \<noteq> None \<or> i \<in> pinned_in codes"
    "\<And>sk. key_kind sk \<noteq> 1 \<Longrightarrow> key_kind sk \<noteq> 7 \<Longrightarrow> look (w_store w') sk = look ?m2 sk"
    using Cons.IH [OF rest] unfolding w2 by blast+
  have codes: "codes_in (c # codes) = (codes_in codes)(?i \<mapsto> CodeInfoV (gen_CodeInfo c))"
    by (simp add: codes_in_def)
  have pinned: "pinned_in (c # codes) = (if gen_Pinned c then {?i} else {}) \<union> pinned_in codes"
    by (auto simp: pinned_in_def)
  have "codes_in codes ?i = None"
  proof (rule ccontr)
    assume "codes_in codes ?i \<noteq> None"
    then obtain d where "d \<in> set codes" and "gen_CodeID d = ?i" unfolding codes_in_def
      by (auto simp: map_of_eq_None_iff)
    then have "look ?m2 (CodeK ?i) = None" using import_distinct [OF rest, of d] w2 by simp
    then show False by (simp add: look_sets split: if_splits)
  qed
  then show ?case
    using IH codes pinned by (auto simp: look_sets split: if_splits option.splits)
qed

subsection \<open>Contracts, sequences and the whole import\<close>

lemma importContracts_ok:
  assumes "importContracts k n contracts w = (Ok u, w')" and "registry_ok (w_store w)" and "keys_ok (w_store w)"
    and "\<forall>c \<in> set contracts. hist_CodeID (last (gen_ContractCodeHistory c)) = con_CodeID (gen_ContractInfo c)"
  shows "registry_ok (w_store w') \<and> keys_ok (w_store w') \<and>
    (\<forall>i. look (w_store w') (CodeK i) = look (w_store w) (CodeK i)) \<and>
    look (w_store w') SequenceCodeK = look (w_store w) SequenceCodeK"
  using assms
proof (induction contracts arbitrary: n w)
  case Nil
  then show ?case by (simp add: prog_Ok_iffs)
next
  case (Cons c contracts)
  from Cons.prems(1) obtain a w1 where
    c: "importContract k a (gen_ContractInfo c) (gen_ContractState c) (gen_ContractCodeHistory c) w = (Ok (), w1)"
    and rest: "importContracts k (Suc n) contracts w1 = (Ok u, w')"
    by (auto simp: prog_Ok_iffs elim!: bindM_Ok_E)
  note step = importContract_ok [OF c Cons.prems(2,3)]
  with Cons.IH [OF rest] Cons.prems(4) show ?case by simp
qed

lemma importSequences_ok:
  assumes "importSequences n seqs w = (Ok u, w')" and "registry_ok (w_store w)" and "keys_ok (w_store w)"
    and "\<forall>s \<in> set seqs. gen_IDKey s \<in> {KeySequenceCodeID, KeySequenceInstanceID}"
  shows "registry_ok (w_store w') \<and> keys_ok (w_store w') \<and>
    (\<forall>sk. sk \<notin> {SequenceCodeK, SequenceInstanceK} \<longrightarrow> look (w_store w') sk = look (w_store w) sk)"
  using assms
proof (induction seqs arbitrary: n w)
  case Nil
  then show ?case by (simp add: prog_Ok_iffs)
next
  case (Cons s seqs)
  let ?m = "kv_set (w_store w) (gen_IDKey s) (RawV (Uint64ToBigEndian (gen_Value s)))"
  from Cons.prems(1) have rest: "importSequences (Suc n) seqs (w\<lparr>w_store := ?m\<rparr>) = (Ok u, w')"
    by (auto simp: importAutoIncrementID_def storeHas_def storeSet_def prog_Ok_iffs split: if_splits elim!: bindM_Ok_E)
  obtain sk where sk: "key_of sk = Ok (gen_IDKey s)" "sk \<in> {SequenceCodeK, SequenceInstanceK}"
    using Cons.prems(4) by force
  then have "registry_ok ?m" "keys_ok ?m"
    using registry_ok_set_other [OF Cons.prems(2) sk(1)] keys_ok_set [OF Cons.prems(3) sk(1)] by auto
  moreover have "look ?m sk' = look (w_store w) sk'" if "sk' \<notin> {SequenceCodeK, SequenceInstanceK}" for sk'
    using look_set [OF sk(1), of sk'] sk(2) that by auto
  ultimately show ?case using Cons.IH [OF rest] Cons.prems(4) by simp
qed

lemma readSequence_E: "readSequence key w = (Ok n, w') \<Longrightarrow> next_id (w_store w) key = Ok n \<and> w' = w"
  by (auto simp: readSequence_def storeGet_def next_id_def prog_Ok_iffs split: option.splits elim!: bindM_Ok_E)

lemma InitGenesis_E:
  fixes w :: "('w, 'v) world"
  assumes "InitGenesis k data w = (Ok u, w')" and "w_store w = []"
  obtains mx w1 w2 w3 n where
    "importCodes k 0 0 (gen_Codes data) (w\<lparr>w_store := [(ParamsKey, ParamsV (gen_Params data))]\<rparr>) = (Ok mx, w1)"
    and "importContracts k 0 (gen_Contracts data) w1 = (Ok (), w2)"
    and "importSequences 0 (gen_Sequences data) w2 = (Ok (), w3)"
    and "readSequence KeySequenceCodeID w3 = (Ok n, w3)" and "mx < n" and "w_store w' = w_store w3"
  using assms
  by (auto simp: InitGenesis_def SetParams_def storeSet_def prog_Ok_iffs PeekAutoIncrementID_def onCacheContext_def
      HasContractInfo_def storeHas_def dest!: readSequence_E elim!: bindM_Ok_E)
     (auto simp: readSequence_def storeGet_def next_id_def prog_simps liftO_def split: option.splits)

text \<open>The store the import starts from.\<close>

lemma params_store:
  "registry_ok [(ParamsKey, ParamsV ps)]"
  "keys_ok [(ParamsKey, ParamsV ps)]"
  "look [(ParamsKey, ParamsV ps)] sk = (if sk = ParamsK then Some (ParamsV ps) else None)"
  using registry_ok_set_other [of "[]" ParamsK ParamsKey "ParamsV ps"] registry_ok_Nil
    keys_ok_set [of "[]" ParamsK ParamsKey "ParamsV ps"] keys_ok_Nil
    look_set [of ParamsK ParamsKey sk "[]" "ParamsV ps"]
  by (simp_all add: look_def [of "[]"] split: outcome.splits)

lemma imported_first:
  assumes "importCodes k 0 0 codes (w\<lparr>w_store := [(ParamsKey, ParamsV ps)]\<rparr>) = (Ok mx, w1)"
  shows "registry_ok (w_store w1)" and "keys_ok (w_store w1)" and "\<forall>i \<in> dom (codes_in codes). i \<le> mx"
    and "look (w_store w1) (CodeK i) = codes_in codes i"
    and "look (w_store w1) (PinnedK i) \<noteq> None \<longleftrightarrow> i \<in> pinned_in codes"
    and "key_kind sk \<noteq> 1 \<Longrightarrow> key_kind sk \<noteq> 7 \<Longrightarrow> look (w_store w1) sk = (if sk = ParamsK then Some (ParamsV ps) else None)"
  using importCodes_ok [OF assms] by (auto simp: params_store split: option.splits)

lemma InitGenesis_ok:
  assumes run: "InitGenesis k data w = (Ok u, w')" and "w_store w = []" and ok: "genesis_ok data"
  shows "registry_ok (w_store w') \<and> keys_ok (w_store w') \<and> codes_below_next (registry_of (w_store w'))"
proof -
  from InitGenesis_E [OF assms(1,2)] obtain mx w1 w2 w3 n where
    codes: "importCodes k 0 0 (gen_Codes data) (w\<lparr>w_store := [(ParamsKey, ParamsV (gen_Params data))]\<rparr>) = (Ok mx, w1)"
    and contracts: "importContracts k 0 (gen_Contracts data) w1 = (Ok (), w2)"
    and seqs: "importSequences 0 (gen_Sequences data) w2 = (Ok (), w3)"
    and peek: "readSequence KeySequenceCodeID w3 = (Ok n, w3)" and n: "mx < n" and w': "w_store w' = w_store w3" .
  have 1: "registry_ok (w_store w1)" "keys_ok (w_store w1)" "\<And>i. look (w_store w1) (CodeK i) \<noteq> None \<Longrightarrow> i \<le> mx"
    using imported_first [OF codes] by (auto simp: domIff)
  have 2: "registry_ok (w_store w2)" "keys_ok (w_store w2)" "\<And>i. look (w_store w2) (CodeK i) = look (w_store w1) (CodeK i)"
    using importContracts_ok [OF contracts 1(1,2)] ok by (auto simp: genesis_ok_def)
  have 3: "registry_ok (w_store w3)" "keys_ok (w_store w3)" "\<And>i. look (w_store w3) (CodeK i) = look (w_store w2) (CodeK i)"
    using importSequences_ok [OF seqs 2(1,2)] ok by (auto simp: genesis_ok_def)
  have "i < n" if "code_at (w_store w3) i = Some c" for i c
    using that 1(3) [of i] 2(3) 3(3) n by (auto simp: at_iffs)
  then have "codes_below_next (registry_of (w_store w3))"
    using readSequence_E [OF peek] by (auto simp: codes_below_next_def registry_of_def)
  with 3 show ?thesis by (simp add: w')
qed

end
