(* ===== verification/Json.thy ===== *)
theory Json
  imports Prelude
begin

text \<open>
  The part of \<open>encoding/json\<close> the answers to queries go through: JSON values and the text
  \<open>json.Marshal\<close> writes for them, with its escapes in strings and base64 for byte slices.
  Struct tags become the names of the members; a member with \<open>omitempty\<close> is left out by the
  function that builds the value.
\<close>

datatype json =
    JNull
  | JBool bool
  | JNum nat
  | JStr string
  | JArr "json list"
  | JObj "(string \<times> json) list"

section \<open>Strings\<close>

text \<open>
  The bytes of the first character of a text that is not ASCII, as \<open>utf8.DecodeRuneInString\<close>
  delimits it; 0 for bytes that are no UTF-8.
\<close>

definition in_range :: "nat \<Rightarrow> nat \<Rightarrow> char \<Rightarrow> bool" where
  "in_range lo hi c \<longleftrightarrow> lo \<le> of_char c \<and> of_char c \<le> (hi :: nat)"

fun rune_size :: "string \<Rightarrow> nat" where
  "rune_size (a # b # c # d # _) =
     (if in_range 0xC2 0xDF a \<and> in_range 0x80 0xBF b then 2
      else if ((in_range 0xE0 0xE0 a \<and> in_range 0xA0 0xBF b) \<or> (in_range 0xE1 0xEC a \<and> in_range 0x80 0xBF b) \<or>
               (in_range 0xED 0xED a \<and> in_range 0x80 0x9F b) \<or> (in_range 0xEE 0xEF a \<and> in_range 0x80 0xBF b)) \<and>
              in_range 0x80 0xBF c then 3
      else if ((in_range 0xF0 0xF0 a \<and> in_range 0x90 0xBF b) \<or> (in_range 0xF1 0xF3 a \<and> in_range 0x80 0xBF b) \<or>
               (in_range 0xF4 0xF4 a \<and> in_range 0x80 0x8F b)) \<and>
              in_range 0x80 0xBF c \<and> in_range 0x80 0xBF d then 4
      else 0)"
| "rune_size [a, b, c] =
     (if in_range 0xC2 0xDF a \<and> in_range 0x80 0xBF b then 2
      else if ((in_range 0xE0 0xE0 a \<and> in_range 0xA0 0xBF b) \<or> (in_range 0xE1 0xEC a \<and> in_range 0x80 0xBF b) \<or>
               (in_range 0xED 0xED a \<and> in_range 0x80 0x9F b) \<or> (in_range 0xEE 0xEF a \<and> in_range 0x80 0xBF b)) \<and>
              in_range 0x80 0xBF c then 3
      else 0)"
| "rune_size [a, b] = (if in_range 0xC2 0xDF a \<and> in_range 0x80 0xBF b then 2 else 0)"
| "rune_size _ = 0"

definition escape_ascii :: "char \<Rightarrow> string" where
  "escape_ascii c =
     (let n = of_char c :: nat in
      if c = CHR 0x5C \<or> c = CHR 0x22 then [CHR 0x5C, c]
      else if n = 8 then [CHR 0x5C, CHR ''b'']
      else if n = 12 then [CHR 0x5C, CHR ''f'']
      else if n = 10 then [CHR 0x5C, CHR ''n'']
      else if n = 13 then [CHR 0x5C, CHR ''r'']
      else if n = 9 then [CHR 0x5C, CHR ''t'']
      else if n < 32 \<or> c = CHR ''<'' \<or> c = CHR ''>'' \<or> c = CHR ''&''
      then CHR 0x5C # ''u00'' @ [hex_digit (n div 16), hex_digit (n mod 16)]
      else [c])"

text \<open>U+2028 and U+2029 are escaped, bytes that are no UTF-8 become U+FFFD.\<close>

function escape :: "string \<Rightarrow> string" where
  "escape [] = []"
| "escape (c # cs) =
     (if of_char c < (128 :: nat) then escape_ascii c @ escape cs
      else let n = rune_size (c # cs) in
        if n = 0 then CHR 0x5C # ''ufffd'' @ escape cs
        else if take 3 (c # cs) = [CHR 0xE2, CHR 0x80, CHR 0xA8] then CHR 0x5C # ''u2028'' @ escape (drop 2 cs)
        else if take 3 (c # cs) = [CHR 0xE2, CHR 0x80, CHR 0xA9] then CHR 0x5C # ''u2029'' @ escape (drop 2 cs)
        else take n (c # cs) @ escape (drop (n - 1) cs))"
  by pat_completeness auto
termination by (relation "measure length") auto

definition json_string :: "string \<Rightarrow> string" where
  "json_string s = CHR 0x22 # escape s @ [CHR 0x22]"

section \<open>Values\<close>

fun Marshal :: "json \<Rightarrow> bytes" where
  "Marshal JNull = ''null''"
| "Marshal (JBool b) = (if b then ''true'' else ''false'')"
| "Marshal (JNum n) = dec_string n"
| "Marshal (JStr s) = json_string s"
| "Marshal (JArr vs) = ''['' @ join '','' (map Marshal vs) @ '']''"
| "Marshal (JObj ms) = ''{'' @ join '','' (map (\<lambda>(k, v). json_string k @ '':'' @ Marshal v) ms) @ ''}''"

section \<open>Base64\<close>

definition base64_digit :: "nat \<Rightarrow> char" where
  "base64_digit n =
     (if n < 26 then char_of (65 + n) else if n < 52 then char_of (71 + n)
      else if n < 62 then char_of (n - 4) else if n = 62 then CHR ''+'' else CHR ''/'')"

fun base64 :: "bytes \<Rightarrow> string" where
  "base64 (a # b # c # rest) =
     (let n = of_char a * 65536 + of_char b * 256 + of_char c :: nat
      in [base64_digit (n div 262144), base64_digit (n div 4096 mod 64), base64_digit (n div 64 mod 64),
          base64_digit (n mod 64)] @ base64 rest)"
| "base64 [a, b] =
     (let n = of_char a * 65536 + of_char b * 256 :: nat
      in [base64_digit (n div 262144), base64_digit (n div 4096 mod 64), base64_digit (n div 64 mod 64), CHR ''='']) "
| "base64 [a] =
     (let n = of_char a * 65536 :: nat
      in [base64_digit (n div 262144), base64_digit (n div 4096 mod 64), CHR ''='', CHR ''=''])"
| "base64 [] = []"

section \<open>Members\<close>

definition omitEmptyString :: "string \<Rightarrow> string \<Rightarrow> (string \<times> json) list" where
  "omitEmptyString name s = (if s = [] then [] else [(name, JStr s)])"

definition omitNil :: "string \<Rightarrow> json option \<Rightarrow> (string \<times> json) list" where
  "omitNil name v = (case v of None \<Rightarrow> [] | Some j \<Rightarrow> [(name, j)])"

end
