(* ===== verification/Query_Types.thy ===== *)
theory Query_Types
  imports World Json
begin

text \<open>
  The answers to queries of contracts (\<open>wasmvm/types/queries.go\<close>, \<open>types.go\<close>, \<open>checksum.go\<close>) and what
  the other modules of the chain answer to the query plugins. A response struct appears as the JSON
  value it is written as: the members in the order of the fields, with the names of the tags.
\<close>

section \<open>Data of other modules\<close>

text \<open>Decimals (\<open>LegacyDec\<close>) appear by the integer they are stored as.\<close>

record sdk_DenomUnit =
  du_Denom :: string
  du_Exponent :: u32
  du_Aliases :: "string list option"

record sdk_Metadata =
  md_Description :: string
  md_DenomUnits :: "sdk_DenomUnit list"
  md_Base :: string
  md_Display :: string
  md_Name :: string
  md_Symbol :: string
  md_URI :: string
  md_URIHash :: string

record sdk_PageRequest =
  pr_Key :: bytes
  pr_Limit :: u64
  pr_Reverse :: bool

record sdk_Validator =
  sv_OperatorAddress :: string
  sv_Rate :: int
  sv_MaxRate :: int
  sv_MaxChangeRate :: int
  sv_Tokens :: int
  sv_DelegatorShares :: int

record sdk_Delegation =
  sd_DelegatorAddress :: string
  sd_ValidatorAddress :: string
  sd_Shares :: int

record sdk_DecCoin =
  dc_Denom :: string
  dc_Amount :: int

record IdentifiedChannel = Channel +
  ich_PortId :: string
  ich_ChannelId :: string

section \<open>What the query plugins call\<close>

text \<open>
  The query methods of bank, staking, distribution and ibc-go, the texts of decimals, the router of
  gRPC queries and the codec. A protobuf message appears by its encoding.
\<close>

record 'w query_ops =
  q_GetAllBalances :: "bytes \<Rightarrow> ('w env_state, sdk_Coin list) prog"
  q_GetSupply :: "string \<Rightarrow> ('w env_state, sdk_Coin) prog"
  q_GetDenomMetaData :: "string \<Rightarrow> ('w env_state, sdk_Metadata option) prog"
  q_DenomsMetadata :: "sdk_PageRequest option \<Rightarrow> ('w env_state, sdk_Metadata list \<times> bytes) prog"
  q_BondDenom :: "('w env_state, string) prog"
  q_GetBondedValidatorsByPower :: "('w env_state, sdk_Validator list) prog"
  q_GetValidator :: "bytes \<Rightarrow> ('w env_state, sdk_Validator) prog"
  q_GetAllDelegatorDelegations :: "bytes \<Rightarrow> ('w env_state, sdk_Delegation list) prog"
  q_GetDelegation :: "bytes \<Rightarrow> bytes \<Rightarrow> ('w env_state, sdk_Delegation) prog"
  q_HasReceivingRedelegation :: "bytes \<Rightarrow> bytes \<Rightarrow> ('w env_state, bool) prog"
  q_IsNoValidatorFound :: "go_error \<Rightarrow> bool"
  q_IsNoDelegation :: "go_error \<Rightarrow> bool"
  q_ValAddressFromBech32 :: "string \<Rightarrow> go_error + bytes"
  q_ValAddressString :: "bytes \<Rightarrow> string"
  q_TokensFromShares :: "sdk_Validator \<Rightarrow> int \<Rightarrow> int"
  q_TruncateInt :: "int \<Rightarrow> int"
  q_DecString :: "int \<Rightarrow> string"
  q_NewCoin :: "string \<Rightarrow> int \<Rightarrow> sdk_Coin outcome"
  q_DelegatorWithdrawAddress :: "string \<Rightarrow> ('w env_state, string) prog"
  q_DelegationRewards :: "string \<Rightarrow> string \<Rightarrow> ('w env_state, sdk_DecCoin list) prog"
  q_DelegationTotalRewards ::
    "string \<Rightarrow> ('w env_state, (string \<times> sdk_DecCoin list) list \<times> sdk_DecCoin list) prog"
  q_DelegatorValidators :: "string \<Rightarrow> ('w env_state, string list option) prog"
  q_GetAllChannelsWithPortPrefix :: "string \<Rightarrow> ('w env_state, IdentifiedChannel list) prog"

section \<open>Coins, metadata, validators, delegations\<close>

record DenomUnit =
  unit_Denom :: string
  unit_Exponent :: u32
  unit_Aliases :: "string list option"

record DenomMetadata =
  meta_Description :: string
  meta_DenomUnits :: "DenomUnit list"
  meta_Base :: string
  meta_Display :: string
  meta_Name :: string
  meta_Symbol :: string
  meta_URI :: string
  meta_URIHash :: string

record DecCoin =
  decc_Amount :: string
  decc_Denom :: string

record Validator =
  val_Address :: string
  val_Commission :: string
  val_MaxCommission :: string
  val_MaxChangeRate :: string

record Delegation =
  del_Delegator :: string
  del_Validator :: string
  del_Amount :: Coin

record FullDelegation =
  full_Delegator :: string
  full_Validator :: string
  full_Amount :: Coin
  full_AccumulatedRewards :: "Coin list"
  full_CanRedelegate :: Coin

record DelegatorReward =
  rew_Reward :: "DecCoin list"
  rew_ValidatorAddress :: string

text \<open>A slice that may be nil, and the type \<open>Array\<close>, which is never written as \<open>null\<close>.\<close>

definition json_slice :: "('a \<Rightarrow> json) \<Rightarrow> 'a list option \<Rightarrow> json" where
  "json_slice f xs = (case xs of None \<Rightarrow> JNull | Some ys \<Rightarrow> JArr (map f ys))"

definition Array_MarshalJSON :: "('a \<Rightarrow> json) \<Rightarrow> 'a list \<Rightarrow> json" where
  "Array_MarshalJSON f xs = JArr (map f xs)"

definition Checksum_MarshalJSON :: "bytes \<Rightarrow> json" where
  "Checksum_MarshalJSON cs = JStr (hex_encode cs)"

definition json_Coin :: "Coin \<Rightarrow> json" where
  "json_Coin c = JObj [(''denom'', JStr (vcoin_Denom c)), (''amount'', JStr (vcoin_Amount c))]"

definition json_DecCoin :: "DecCoin \<Rightarrow> json" where
  "json_DecCoin c = JObj [(''amount'', JStr (decc_Amount c)), (''denom'', JStr (decc_Denom c))]"

definition json_DenomUnit :: "DenomUnit \<Rightarrow> json" where
  "json_DenomUnit u = JObj [(''denom'', JStr (unit_Denom u)), (''exponent'', JNum (unat (unit_Exponent u))),
     (''aliases'', json_slice JStr (unit_Aliases u))]"

definition json_DenomMetadata :: "DenomMetadata \<Rightarrow> json" where
  "json_DenomMetadata m = JObj [(''description'', JStr (meta_Description m)),
     (''denom_units'', JArr (map json_DenomUnit (meta_DenomUnits m))), (''base'', JStr (meta_Base m)),
     (''display'', JStr (meta_Display m)), (''name'', JStr (meta_Name m)), (''symbol'', JStr (meta_Symbol m)),
     (''uri'', JStr (meta_URI m)), (''uri_hash'', JStr (meta_URIHash m))]"

definition json_Validator :: "Validator \<Rightarrow> json" where
  "json_Validator v = JObj [(''address'', JStr (val_Address v)), (''commission'', JStr (val_Commission v)),
     (''max_commission'', JStr (val_MaxCommission v)), (''max_change_rate'', JStr (val_MaxChangeRate v))]"

definition json_Delegation :: "Delegation \<Rightarrow> json" where
  "json_Delegation d = JObj [(''delegator'', JStr (del_Delegator d)), (''validator'', JStr (del_Validator d)),
     (''amount'', json_Coin (del_Amount d))]"

definition json_FullDelegation :: "FullDelegation \<Rightarrow> json" where
  "json_FullDelegation d = JObj [(''delegator'', JStr (full_Delegator d)), (''validator'', JStr (full_Validator d)),
     (''amount'', json_Coin (full_Amount d)),
     (''accumulated_rewards'', Array_MarshalJSON json_Coin (full_AccumulatedRewards d)),
     (''can_redelegate'', json_Coin (full_CanRedelegate d))]"

definition json_DelegatorReward :: "DelegatorReward \<Rightarrow> json" where
  "json_DelegatorReward r = JObj [(''reward'', JArr (map json_DecCoin (rew_Reward r))),
     (''validator_address'', JStr (rew_ValidatorAddress r))]"

definition json_IBCEndpoint :: "IBCEndpoint \<Rightarrow> json" where
  "json_IBCEndpoint e = JObj [(''port_id'', JStr (ep_PortID e)), (''channel_id'', JStr (ep_ChannelID e))]"

definition json_IBCChannel :: "IBCChannel \<Rightarrow> json" where
  "json_IBCChannel c = JObj [(''endpoint'', json_IBCEndpoint (ch_Endpoint c)),
     (''counterparty_endpoint'', json_IBCEndpoint (ch_CounterpartyEndpoint c)), (''order'', JStr (ch_Order c)),
     (''version'', JStr (ch_Version c)), (''connection_id'', JStr (ch_ConnectionID c))]"

section \<open>Responses\<close>

definition SupplyResponse :: "Coin \<Rightarrow> json" where
  "SupplyResponse amount = JObj [(''amount'', json_Coin amount)]"

definition BalanceResponse :: "Coin \<Rightarrow> json" where
  "BalanceResponse amount = JObj [(''amount'', json_Coin amount)]"

definition AllBalancesResponse :: "Coin list \<Rightarrow> json" where
  "AllBalancesResponse amount = JObj [(''amount'', Array_MarshalJSON json_Coin amount)]"

definition DenomMetadataResponse :: "DenomMetadata \<Rightarrow> json" where
  "DenomMetadataResponse metadata = JObj [(''metadata'', json_DenomMetadata metadata)]"

definition AllDenomMetadataResponse :: "DenomMetadata list \<Rightarrow> bytes \<Rightarrow> json" where
  "AllDenomMetadataResponse metadata nextKey =
     JObj ((''metadata'', JArr (map json_DenomMetadata metadata)) #
           (if nextKey = [] then [] else [(''next_key'', JStr (base64 nextKey))]))"

definition PortIDResponse :: "string \<Rightarrow> json" where
  "PortIDResponse portID = JObj [(''port_id'', JStr portID)]"

definition ListChannelsResponse :: "IBCChannel list \<Rightarrow> json" where
  "ListChannelsResponse channels = JObj [(''channels'', Array_MarshalJSON json_IBCChannel channels)]"

definition ChannelResponse :: "IBCChannel option \<Rightarrow> json" where
  "ChannelResponse channel = JObj (omitNil ''channel'' (map_option json_IBCChannel channel))"

definition BondedDenomResponse :: "string \<Rightarrow> json" where
  "BondedDenomResponse denom = JObj [(''denom'', JStr denom)]"

definition AllValidatorsResponse :: "Validator list \<Rightarrow> json" where
  "AllValidatorsResponse validators = JObj [(''validators'', Array_MarshalJSON json_Validator validators)]"

definition ValidatorResponse :: "Validator option \<Rightarrow> json" where
  "ValidatorResponse v = JObj [(''validator'', case v of None \<Rightarrow> JNull | Some x \<Rightarrow> json_Validator x)]"

definition AllDelegationsResponse :: "Delegation list \<Rightarrow> json" where
  "AllDelegationsResponse delegations = JObj [(''delegations'', Array_MarshalJSON json_Delegation delegations)]"

definition DelegationResponse :: "FullDelegation option \<Rightarrow> json" where
  "DelegationResponse d = JObj (omitNil ''delegation'' (map_option json_FullDelegation d))"

definition DelegatorWithdrawAddressResponse :: "string \<Rightarrow> json" where
  "DelegatorWithdrawAddressResponse address = JObj [(''withdraw_address'', JStr address)]"

definition DelegationRewardsResponse :: "DecCoin list \<Rightarrow> json" where
  "DelegationRewardsResponse rewards = JObj [(''rewards'', JArr (map json_DecCoin rewards))]"

definition DelegationTotalRewardsResponse :: "DelegatorReward list \<Rightarrow> DecCoin list \<Rightarrow> json" where
  "DelegationTotalRewardsResponse rewards totals =
     JObj [(''rewards'', JArr (map json_DelegatorReward rewards)), (''total'', JArr (map json_DecCoin totals))]"

definition DelegatorValidatorsResponse :: "string list option \<Rightarrow> json" where
  "DelegatorValidatorsResponse validators = JObj [(''validators'', json_slice JStr validators)]"

record ContractInfoResponse =
  cir_CodeID :: u64
  cir_Creator :: string
  cir_Admin :: string
  cir_Pinned :: bool
  cir_IBCPort :: string

definition json_ContractInfoResponse :: "ContractInfoResponse \<Rightarrow> json" where
  "json_ContractInfoResponse r =
     JObj ([(''code_id'', JNum (unat (cir_CodeID r))), (''creator'', JStr (cir_Creator r))] @
           omitEmptyString ''admin'' (cir_Admin r) @ [(''pinned'', JBool (cir_Pinned r))] @
           omitEmptyString ''ibc_port'' (cir_IBCPort r))"

record CodeInfoResponse =
  codr_CodeID :: u64
  codr_Creator :: string
  codr_Checksum :: bytes

definition json_CodeInfoResponse :: "CodeInfoResponse \<Rightarrow> json" where
  "json_CodeInfoResponse r = JObj [(''code_id'', JNum (unat (codr_CodeID r))), (''creator'', JStr (codr_Creator r)),
     (''checksum'', Checksum_MarshalJSON (codr_Checksum r))]"

section \<open>Results as the contract receives them\<close>

text \<open>\<open>ToQuerierResult\<close>: a system error, or the result of the query.\<close>

definition ToQuerierResult :: "(go_error \<Rightarrow> string) \<Rightarrow> go_error + bytes \<Rightarrow> system_error + QueryResult" where
  "ToQuerierResult errText r =
     (case r of
        Inr response \<Rightarrow> Inr \<lparr>qres_Ok = response, qres_Err = []\<rparr>
      | Inl err \<Rightarrow>
          (case ToSystemError err of
             Some syserr \<Rightarrow> Inl syserr
           | None \<Rightarrow> Inr \<lparr>qres_Ok = [], qres_Err = errText err\<rparr>))"

definition QueryResult_MarshalJSON :: "QueryResult \<Rightarrow> bytes" where
  "QueryResult_MarshalJSON q =
     (if qres_Ok q = [] \<and> qres_Err q = [] then Marshal (JObj [(''ok'', JStr [])])
      else Marshal (JObj ((if qres_Ok q = [] then [] else [(''ok'', JStr (base64 (qres_Ok q)))]) @
                          omitEmptyString ''error'' (qres_Err q))))"

end
