(* ===== verification/Query_Plugins.thy ===== *)
theory Query_Plugins
  imports Query_Types Encoders Relay
begin

text \<open>
  The query plugins of \<open>keeper/query_plugins.go\<close>: what a contract learns when it queries bank, IBC,
  staking, distribution, other contracts or, on chains that allow it, a gRPC service.
\<close>

definition channel_OPEN :: nat where "channel_OPEN = 3"

definition sdkErrNotFound :: go_error where "sdkErrNotFound = sdkErr 38"

definition invalidAddress :: "string \<Rightarrow> go_error" where
  "invalidAddress s = WrappedError s ErrInvalidAddress"

definition unsupported :: "string \<Rightarrow> ('s, 'a) prog" where
  "unsupported kind = failM (SystemError (UnsupportedRequest kind))"

definition queryAddr :: "addr_codec \<Rightarrow> string \<Rightarrow> ('s, bytes) prog" where
  "queryAddr ac s = (case AccAddressFromBech32 ac s of Inl _ \<Rightarrow> failM (invalidAddress s) | Inr a \<Rightarrow> returnM a)"

text \<open>The gas the VM sees as used, before and after each query.\<close>

definition QueryHandler_GasConsumed :: "('w, 'v) Keeper \<Rightarrow> ('w, 'v, u64) op" where
  "QueryHandler_GasConsumed k = bindM readMeter (\<lambda>meter. liftO (ToWasmVMGas (k_gasRegister k) (gm_consumed meter)))"

section \<open>Conversions\<close>

definition ConvertSdkCoinToWasmCoin :: "sdk_Coin \<Rightarrow> Coin" where
  "ConvertSdkCoinToWasmCoin coin =
     \<lparr>vcoin_Denom = coin_Denom coin, vcoin_Amount = int_string (coin_Amount coin)\<rparr>"

definition ConvertSdkCoinsToWasmCoins :: "sdk_Coin list \<Rightarrow> Coin list" where
  "ConvertSdkCoinsToWasmCoins coins = map ConvertSdkCoinToWasmCoin coins"

definition ConvertSDKDecCoinsToWasmDecCoins :: "'w query_ops \<Rightarrow> sdk_DecCoin list \<Rightarrow> DecCoin list" where
  "ConvertSDKDecCoinsToWasmDecCoins q src =
     map (\<lambda>v. \<lparr>decc_Amount = q_DecString q (dc_Amount v), decc_Denom = dc_Denom v\<rparr>) src"

definition ConvertSDKDelegatorRewardsToWasmRewards ::
  "'w query_ops \<Rightarrow> (string \<times> sdk_DecCoin list) list \<Rightarrow> DelegatorReward list"
where
  "ConvertSDKDelegatorRewardsToWasmRewards q rewards =
     map (\<lambda>(validator, reward). \<lparr>rew_Reward = ConvertSDKDecCoinsToWasmDecCoins q reward,
            rew_ValidatorAddress = validator\<rparr>) rewards"

definition ConvertToDenomsMetadataRequest :: "PageRequest option \<Rightarrow> sdk_PageRequest option" where
  "ConvertToDenomsMetadataRequest pagination =
     map_option (\<lambda>p. \<lparr>pr_Key = page_Key p, pr_Limit = ucast (page_Limit p), pr_Reverse = page_Reverse p\<rparr>) pagination"

definition ConvertSdkDenomUnitsToWasmDenomUnits :: "sdk_DenomUnit list \<Rightarrow> DenomUnit list" where
  "ConvertSdkDenomUnitsToWasmDenomUnits denomUnits =
     map (\<lambda>u. \<lparr>unit_Denom = du_Denom u, unit_Exponent = du_Exponent u, unit_Aliases = du_Aliases u\<rparr>) denomUnits"

definition ConvertSdkDenomMetadataToWasmDenomMetadata :: "sdk_Metadata \<Rightarrow> DenomMetadata" where
  "ConvertSdkDenomMetadataToWasmDenomMetadata metadata =
     \<lparr>meta_Description = md_Description metadata,
      meta_DenomUnits = ConvertSdkDenomUnitsToWasmDenomUnits (md_DenomUnits metadata),
      meta_Base = md_Base metadata, meta_Display = md_Display metadata, meta_Name = md_Name metadata,
      meta_Symbol = md_Symbol metadata, meta_URI = md_URI metadata, meta_URIHash = md_URIHash metadata\<rparr>"

definition ConvertSdkDenomMetadatasToWasmDenomMetadatas :: "sdk_Metadata list \<Rightarrow> DenomMetadata list" where
  "ConvertSdkDenomMetadatasToWasmDenomMetadatas metadata = map ConvertSdkDenomMetadataToWasmDenomMetadata metadata"

section \<open>Bank\<close>

definition BankQuerier :: "'w sdk_ops \<Rightarrow> 'w query_ops \<Rightarrow> BankQuery \<Rightarrow> ('w, 'v, bytes) op" where
  "BankQuerier sdk q request =
     (case bq_AllBalances request of Some address \<Rightarrow>
        bindM (queryAddr (sdk_addr sdk) address) (\<lambda>addr.
        bindM (liftX (q_GetAllBalances q addr)) (\<lambda>coins.
        returnM (Marshal (AllBalancesResponse (ConvertSdkCoinsToWasmCoins coins)))))
      | None \<Rightarrow>
      case bq_Balance request of Some (address, denom) \<Rightarrow>
        bindM (queryAddr (sdk_addr sdk) address) (\<lambda>addr.
        bindM (liftX (sdk_GetBalance sdk addr denom)) (\<lambda>coin.
        returnM (Marshal (BalanceResponse (ConvertSdkCoinToWasmCoin coin)))))
      | None \<Rightarrow>
      case bq_Supply request of Some denom \<Rightarrow>
        bindM (liftX (q_GetSupply q denom)) (\<lambda>coin.
        returnM (Marshal (SupplyResponse (ConvertSdkCoinToWasmCoin coin))))
      | None \<Rightarrow>
      case bq_DenomMetadata request of Some denom \<Rightarrow>
        bindM (liftX (q_GetDenomMetaData q denom)) (\<lambda>found.
        case found of
          None \<Rightarrow> failM (WrappedError denom sdkErrNotFound)
        | Some denomMetadata \<Rightarrow>
            returnM (Marshal (DenomMetadataResponse (ConvertSdkDenomMetadataToWasmDenomMetadata denomMetadata))))
      | None \<Rightarrow>
      case bq_AllDenomMetadata request of Some pagination \<Rightarrow>
        bindM (tryM (liftX (q_DenomsMetadata q (ConvertToDenomsMetadataRequest pagination)))) (\<lambda>r.
        case r of
          Inl _ \<Rightarrow> failM ErrInvalidRequest
        | Inr (metadatas, nextKey) \<Rightarrow>
            returnM (Marshal (AllDenomMetadataResponse
              (ConvertSdkDenomMetadatasToWasmDenomMetadatas metadatas) nextKey)))
      | None \<Rightarrow> unsupported ''unknown BankQuery variant'')"

definition NoCustomQuerier :: "bytes \<Rightarrow> ('s, bytes) prog" where
  "NoCustomQuerier request = unsupported ''custom''"

section \<open>IBC\<close>

text \<open>The contract is looked up and used without a check that it exists.\<close>

definition portOfCaller :: "bytes \<Rightarrow> ('w, 'v, string) op" where
  "portOfCaller caller =
     bindM (GetContractInfo caller) (\<lambda>info.
     bindM (derefM info) (\<lambda>contractInfo.
     returnM (con_IBCPortID contractInfo)))"

primrec openChannels :: "IdentifiedChannel list \<Rightarrow> IBCChannel list outcome" where
  "openChannels [] = Ok []"
| "openChannels (ch # chs) =
     (if chan_State ch \<noteq> channel_OPEN then openChannels chs
      else bindO (headHop (chan_ConnectionHops ch)) (\<lambda>hop.
           bindO (openChannels chs) (\<lambda>rest.
           Ok (\<lparr>ch_Endpoint = \<lparr>ep_PortID = ich_PortId ch, ep_ChannelID = ich_ChannelId ch\<rparr>,
                ch_CounterpartyEndpoint = \<lparr>ep_PortID = chan_CounterpartyPortId ch,
                                           ep_ChannelID = chan_CounterpartyChannelId ch\<rparr>,
                ch_Order = chan_Ordering ch, ch_Version = chan_Version ch, ch_ConnectionID = hop\<rparr> # rest))))"

definition IBCQuerier :: "'w sdk_ops \<Rightarrow> 'w query_ops \<Rightarrow> bytes \<Rightarrow> IBCQuery \<Rightarrow> ('w, 'v, bytes) op" where
  "IBCQuerier sdk q caller request =
     (if iq_PortID request then
        bindM (portOfCaller caller) (\<lambda>portID. returnM (Marshal (PortIDResponse portID)))
      else case iq_ListChannels request of Some requested \<Rightarrow>
        bindM (if requested = [] then portOfCaller caller else returnM requested) (\<lambda>portID.
        bindM (if portID = [] then returnM []
               else bindM (liftX (q_GetAllChannelsWithPortPrefix q portID)) (\<lambda>got. liftO (openChannels got))) (\<lambda>channels.
        returnM (Marshal (ListChannelsResponse channels))))
      | None \<Rightarrow>
      case iq_Channel request of Some (requested, channelID) \<Rightarrow>
        bindM (if requested = [] then portOfCaller caller else returnM requested) (\<lambda>portID.
        bindM (liftX (sdk_GetChannel sdk portID channelID)) (\<lambda>found.
        bindM (case found of
                 None \<Rightarrow> returnM None
               | Some got \<Rightarrow>
                   if chan_State got \<noteq> channel_OPEN then returnM None
                   else bindM (liftO (headHop (chan_ConnectionHops got))) (\<lambda>hop.
                     returnM (Some \<lparr>ch_Endpoint = \<lparr>ep_PortID = portID, ep_ChannelID = channelID\<rparr>,
                       ch_CounterpartyEndpoint = \<lparr>ep_PortID = chan_CounterpartyPortId got,
                                                  ep_ChannelID = chan_CounterpartyChannelId got\<rparr>,
                       ch_Order = chan_Ordering got, ch_Version = chan_Version got, ch_ConnectionID = hop\<rparr>))) (\<lambda>channel.
        returnM (Marshal (ChannelResponse channel)))))
      | None \<Rightarrow> unsupported ''unknown IBCQuery variant'')"

section \<open>Stargate and gRPC\<close>

definition RejectGrpcQuerier :: "ctx \<Rightarrow> GrpcQuery \<Rightarrow> ('s, bytes) prog" where
  "RejectGrpcQuerier ctx request = unsupported ''gRPC queries are disabled''"

definition RejectStargateQuerier :: "ctx \<Rightarrow> GrpcQuery \<Rightarrow> ('s, bytes) prog" where
  "RejectStargateQuerier ctx request = unsupported ''Stargate queries are disabled''"

text \<open>
  The accept list maps paths to the types of responses. The router of gRPC queries and the codec
  are parameters: the codec decodes a response into a message of the expected type, shown by its
  encoding, and writes such a message as JSON.
\<close>

type_synonym AcceptedQueries = "(string \<times> string) list"

record ('w, 'v) grpc_services =
  grpc_Route :: "string \<Rightarrow> (ctx \<Rightarrow> bytes \<Rightarrow> ('w, 'v, bytes) op) option"
  cdc_Unmarshal :: "string \<Rightarrow> bytes \<Rightarrow> go_error + bytes"
  cdc_MarshalJSON :: "string \<Rightarrow> bytes \<Rightarrow> go_error + bytes"

definition routeQuery ::
  "AcceptedQueries \<Rightarrow> ('w, 'v) grpc_services \<Rightarrow> ctx \<Rightarrow> GrpcQuery \<Rightarrow> ('w, 'v, string \<times> bytes) op"
where
  "routeQuery acceptList services ctx request =
     (case map_of acceptList (gq_Path request) of
        None \<Rightarrow> unsupported (CHR 0x27 # gq_Path request @ CHR 0x27 # '' path is not allowed from the contract'')
      | Some protoResponse \<Rightarrow>
          (case grpc_Route services (gq_Path request) of
             None \<Rightarrow> unsupported (''No route to query '' @ CHR 0x27 # gq_Path request @ [CHR 0x27])
           | Some handler \<Rightarrow>
               bindM (handler ctx (gq_Data request)) (\<lambda>res. returnM (protoResponse, res))))"

definition AcceptListGrpcQuerier ::
  "AcceptedQueries \<Rightarrow> ('w, 'v) grpc_services \<Rightarrow> ctx \<Rightarrow> GrpcQuery \<Rightarrow> ('w, 'v, bytes) op"
where
  "AcceptListGrpcQuerier acceptList services ctx request =
     bindM (routeQuery acceptList services ctx request) (\<lambda>(protoResponse, res).
     liftE (cdc_Unmarshal services protoResponse res))"

definition ConvertProtoToJSONMarshal :: "('w, 'v) grpc_services \<Rightarrow> string \<Rightarrow> bytes \<Rightarrow> go_error + bytes" where
  "ConvertProtoToJSONMarshal services protoResponse bz =
     bindE (wrapE ''to proto'' (cdc_Unmarshal services protoResponse bz)) (\<lambda>msg.
     wrapE ''to json'' (cdc_MarshalJSON services protoResponse msg))"

definition AcceptListStargateQuerier ::
  "AcceptedQueries \<Rightarrow> ('w, 'v) grpc_services \<Rightarrow> ctx \<Rightarrow> GrpcQuery \<Rightarrow> ('w, 'v, bytes) op"
where
  "AcceptListStargateQuerier acceptList services ctx request =
     bindM (routeQuery acceptList services ctx request) (\<lambda>(protoResponse, res).
     liftE (ConvertProtoToJSONMarshal services protoResponse res))"

section \<open>Staking\<close>

definition wasmValidator :: "'w query_ops \<Rightarrow> sdk_Validator \<Rightarrow> Validator" where
  "wasmValidator q v = \<lparr>val_Address = sv_OperatorAddress v, val_Commission = q_DecString q (sv_Rate v),
     val_MaxCommission = q_DecString q (sv_MaxRate v), val_MaxChangeRate = q_DecString q (sv_MaxChangeRate v)\<rparr>"

primrec convertDelegations ::
  "'w sdk_ops \<Rightarrow> 'w query_ops \<Rightarrow> string \<Rightarrow> sdk_Delegation list \<Rightarrow> ('w env_state, Delegation list) prog"
where
  "convertDelegations sdk q bondDenom [] = returnM []"
| "convertDelegations sdk q bondDenom (d # ds) =
     bindM (wrapM ''delegator address'' (liftE (AccAddressFromBech32 (sdk_addr sdk) (sd_DelegatorAddress d)))) (\<lambda>delAddr.
     bindM (wrapM ''validator address'' (liftE (q_ValAddressFromBech32 q (sd_ValidatorAddress d)))) (\<lambda>valAddr.
     bindM (wrapM (''can'' @ CHR 0x27 # ''t load validator for delegation'') (q_GetValidator q valAddr)) (\<lambda>val.
     bindM (liftO (q_NewCoin q bondDenom (q_TruncateInt q (q_TokensFromShares q val (sd_Shares d))))) (\<lambda>amount.
     bindM (convertDelegations sdk q bondDenom ds) (\<lambda>rest.
     returnM (\<lparr>del_Delegator = addr_String (sdk_addr sdk) delAddr, del_Validator = q_ValAddressString q valAddr,
       del_Amount = ConvertSdkCoinToWasmCoin amount\<rparr> # rest))))))"

definition sdkToDelegations ::
  "'w sdk_ops \<Rightarrow> 'w query_ops \<Rightarrow> sdk_Delegation list \<Rightarrow> ('w env_state, Delegation list) prog"
where
  "sdkToDelegations sdk q delegations =
     bindM (wrapM ''bond denom'' (q_BondDenom q)) (\<lambda>bondDenom.
     convertDelegations sdk q bondDenom delegations)"

text \<open>The rewards are computed on a cached context, which is dropped.\<close>

definition onCache :: "('w env_state, 'a) prog \<Rightarrow> ('w env_state, 'a) prog" where
  "onCache m = (\<lambda>e. case m e of (r, e') \<Rightarrow> (r, e\<lparr>es_meter := es_meter e'\<rparr>))"

definition getAccumulatedRewards ::
  "'w query_ops \<Rightarrow> sdk_Delegation \<Rightarrow> ('w env_state, Coin list) prog"
where
  "getAccumulatedRewards q delegation =
     bindM (onCache (q_DelegationRewards q (sd_DelegatorAddress delegation) (sd_ValidatorAddress delegation))) (\<lambda>rewards.
     returnM (map (\<lambda>r. \<lparr>vcoin_Denom = dc_Denom r, vcoin_Amount = int_string (q_TruncateInt q (dc_Amount r))\<rparr>) rewards))"

definition sdkToFullDelegation ::
  "'w sdk_ops \<Rightarrow> 'w query_ops \<Rightarrow> sdk_Delegation \<Rightarrow> ('w env_state, FullDelegation) prog"
where
  "sdkToFullDelegation sdk q delegation =
     bindM (wrapM ''delegator address'' (liftE (AccAddressFromBech32 (sdk_addr sdk) (sd_DelegatorAddress delegation)))) (\<lambda>delAddr.
     bindM (wrapM ''validator address'' (liftE (q_ValAddressFromBech32 q (sd_ValidatorAddress delegation)))) (\<lambda>valAddr.
     bindM (wrapM (''can'' @ CHR 0x27 # ''t load validator for delegation'') (q_GetValidator q valAddr)) (\<lambda>val.
     bindM (wrapM ''bond denom'' (q_BondDenom q)) (\<lambda>bondDenom.
     bindM (liftO (q_NewCoin q bondDenom (q_TruncateInt q (q_TokensFromShares q val (sd_Shares delegation))))) (\<lambda>amount.
     bindM (q_HasReceivingRedelegation q delAddr valAddr) (\<lambda>found.
     bindM (getAccumulatedRewards q delegation) (\<lambda>accRewards.
     let delegationCoins = ConvertSdkCoinToWasmCoin amount in
     returnM \<lparr>full_Delegator = addr_String (sdk_addr sdk) delAddr, full_Validator = q_ValAddressString q valAddr,
       full_Amount = delegationCoins, full_AccumulatedRewards = accRewards,
       full_CanRedelegate = (if found then \<lparr>vcoin_Denom = bondDenom, vcoin_Amount = ''0''\<rparr> else delegationCoins)\<rparr>)))))))"

definition StakingQuerier :: "'w sdk_ops \<Rightarrow> 'w query_ops \<Rightarrow> StakingQuery \<Rightarrow> ('w, 'v, bytes) op" where
  "StakingQuerier sdk q request =
     (if sq_BondedDenom request then
        bindM (liftX (wrapM ''bond denom'' (q_BondDenom q))) (\<lambda>denom.
        returnM (Marshal (BondedDenomResponse denom)))
      else if sq_AllValidators request then
        bindM (liftX (q_GetBondedValidatorsByPower q)) (\<lambda>validators.
        returnM (Marshal (AllValidatorsResponse (map (wasmValidator q) validators))))
      else case sq_Validator request of Some address \<Rightarrow>
        bindM (liftE (q_ValAddressFromBech32 q address)) (\<lambda>valAddr.
        bindM (tryM (liftX (q_GetValidator q valAddr))) (\<lambda>r.
        case r of
          Inl err \<Rightarrow> if q_IsNoValidatorFound q err then returnM (Marshal (ValidatorResponse None)) else failM err
        | Inr v \<Rightarrow> returnM (Marshal (ValidatorResponse (Some (wasmValidator q v))))))
      | None \<Rightarrow>
      case sq_AllDelegations request of Some address \<Rightarrow>
        bindM (queryAddr (sdk_addr sdk) address) (\<lambda>delegator.
        bindM (liftX (q_GetAllDelegatorDelegations q delegator)) (\<lambda>sdkDels.
        bindM (liftX (sdkToDelegations sdk q sdkDels)) (\<lambda>delegations.
        returnM (Marshal (AllDelegationsResponse delegations)))))
      | None \<Rightarrow>
      case sq_Delegation request of Some (delegatorText, validatorText) \<Rightarrow>
        bindM (queryAddr (sdk_addr sdk) delegatorText) (\<lambda>delegator.
        bindM (case q_ValAddressFromBech32 q validatorText of
                 Inl _ \<Rightarrow> failM (invalidAddress validatorText) | Inr a \<Rightarrow> returnM a) (\<lambda>validator.
        bindM (tryM (liftX (q_GetDelegation q delegator validator))) (\<lambda>r.
        case r of
          Inl err \<Rightarrow> if q_IsNoDelegation q err then returnM (Marshal (DelegationResponse None)) else failM err
        | Inr d \<Rightarrow>
            bindM (liftX (sdkToFullDelegation sdk q d)) (\<lambda>full.
            returnM (Marshal (DelegationResponse (Some full)))))))
      | None \<Rightarrow> unsupported ''unknown Staking variant'')"

section \<open>Distribution\<close>

definition DistributionQuerier :: "'w query_ops \<Rightarrow> DistributionQuery \<Rightarrow> ('w, 'v, bytes) op" where
  "DistributionQuerier q req =
     (case dq_DelegatorWithdrawAddress req of Some delegator \<Rightarrow>
        bindM (liftX (q_DelegatorWithdrawAddress q delegator)) (\<lambda>address.
        returnM (Marshal (DelegatorWithdrawAddressResponse address)))
      | None \<Rightarrow>
      case dq_DelegationRewards req of Some (delegator, validator) \<Rightarrow>
        bindM (liftX (q_DelegationRewards q delegator validator)) (\<lambda>rewards.
        returnM (Marshal (DelegationRewardsResponse (ConvertSDKDecCoinsToWasmDecCoins q rewards))))
      | None \<Rightarrow>
      case dq_DelegationTotalRewards req of Some delegator \<Rightarrow>
        bindM (liftX (q_DelegationTotalRewards q delegator)) (\<lambda>(rewards, totals).
        returnM (Marshal (DelegationTotalRewardsResponse (ConvertSDKDelegatorRewardsToWasmRewards q rewards)
          (ConvertSDKDecCoinsToWasmDecCoins q totals))))
      | None \<Rightarrow>
      case dq_DelegatorValidators req of Some delegator \<Rightarrow>
        bindM (liftX (q_DelegatorValidators q delegator)) (\<lambda>validators.
        returnM (Marshal (DelegatorValidatorsResponse validators)))
      | None \<Rightarrow> unsupported ''unknown distribution query'')"

section \<open>Contracts\<close>

definition WasmQuerier :: "('w, 'v) Keeper \<Rightarrow> ctx \<Rightarrow> WasmQuery \<Rightarrow> ('w, 'v, bytes) op" where
  "WasmQuerier k ctx request =
     (case wq_Smart request of Some smart \<Rightarrow>
        bindM (queryAddr (k_addr k) (smart_ContractAddr smart)) (\<lambda>addr.
        bindM (liftE (wrapE ''json msg'' (RawContractMessage_ValidateBasic (k_sdk k) (smart_Msg smart)))) (\<lambda>_.
        QuerySmart k ctx addr (case smart_Msg smart of None \<Rightarrow> [] | Some m \<Rightarrow> m)))
      | None \<Rightarrow>
      case wq_Raw request of Some raw \<Rightarrow>
        bindM (queryAddr (k_addr k) (raw_ContractAddr raw)) (\<lambda>addr.
        bindM (QueryRaw addr (raw_Key raw)) (\<lambda>value.
        returnM (case value of None \<Rightarrow> [] | Some v \<Rightarrow> v)))
      | None \<Rightarrow>
      case wq_ContractInfo request of Some contractAddr \<Rightarrow>
        bindM (queryAddr (k_addr k) contractAddr) (\<lambda>addr.
        bindM (GetContractInfo addr) (\<lambda>found.
        case found of
          None \<Rightarrow> failM (WrappedError (''address '' @ contractAddr) (ErrNoSuchContractFn contractAddr))
        | Some info \<Rightarrow>
            bindM (IsPinnedCode (con_CodeID info)) (\<lambda>pinned.
            returnM (Marshal (json_ContractInfoResponse
              \<lparr>cir_CodeID = con_CodeID info, cir_Creator = con_Creator info, cir_Admin = con_Admin info,
               cir_Pinned = pinned, cir_IBCPort = con_IBCPortID info\<rparr>)))))
      | None \<Rightarrow>
      case wq_CodeInfo request of Some codeID \<Rightarrow>
        if codeID = 0 then failM (WrappedError ''code id'' ErrEmpty)
        else bindM (GetCodeInfo codeID) (\<lambda>found.
          case found of
            None \<Rightarrow> failM (noSuchCode codeID)
          | Some info \<Rightarrow>
              returnM (Marshal (json_CodeInfoResponse
                \<lparr>codr_CodeID = codeID, codr_Creator = code_Creator info, codr_Checksum = code_CodeHash info\<rparr>)))
      | None \<Rightarrow> unsupported ''unknown WasmQuery variant'')"

section \<open>The plugins\<close>

record ('w, 'v) QueryPlugins =
  plug_Bank :: "ctx \<Rightarrow> BankQuery \<Rightarrow> ('w, 'v, bytes) op"
  plug_Custom :: "ctx \<Rightarrow> bytes \<Rightarrow> ('w, 'v, bytes) op"
  plug_IBC :: "ctx \<Rightarrow> bytes \<Rightarrow> IBCQuery \<Rightarrow> ('w, 'v, bytes) op"
  plug_Staking :: "ctx \<Rightarrow> StakingQuery \<Rightarrow> ('w, 'v, bytes) op"
  plug_Stargate :: "ctx \<Rightarrow> GrpcQuery \<Rightarrow> ('w, 'v, bytes) op"
  plug_Grpc :: "ctx \<Rightarrow> GrpcQuery \<Rightarrow> ('w, 'v, bytes) op"
  plug_Wasm :: "ctx \<Rightarrow> WasmQuery \<Rightarrow> ('w, 'v, bytes) op"
  plug_Distribution :: "ctx \<Rightarrow> DistributionQuery \<Rightarrow> ('w, 'v, bytes) op"

definition DefaultQueryPlugins :: "'w query_ops \<Rightarrow> ('w, 'v) Keeper \<Rightarrow> ('w, 'v) QueryPlugins" where
  "DefaultQueryPlugins q wasm = \<lparr>
     plug_Bank = (\<lambda>_. BankQuerier (k_sdk wasm) q),
     plug_Custom = (\<lambda>_. NoCustomQuerier),
     plug_IBC = (\<lambda>_. IBCQuerier (k_sdk wasm) q),
     plug_Staking = (\<lambda>_. StakingQuerier (k_sdk wasm) q),
     plug_Stargate = RejectStargateQuerier,
     plug_Grpc = RejectGrpcQuerier,
     plug_Wasm = WasmQuerier wasm,
     plug_Distribution = (\<lambda>_. DistributionQuerier q)\<rparr>"

record ('w, 'v) CustomQueryPlugins =
  cplug_Bank :: "(ctx \<Rightarrow> BankQuery \<Rightarrow> ('w, 'v, bytes) op) option"
  cplug_Custom :: "(ctx \<Rightarrow> bytes \<Rightarrow> ('w, 'v, bytes) op) option"
  cplug_IBC :: "(ctx \<Rightarrow> bytes \<Rightarrow> IBCQuery \<Rightarrow> ('w, 'v, bytes) op) option"
  cplug_Staking :: "(ctx \<Rightarrow> StakingQuery \<Rightarrow> ('w, 'v, bytes) op) option"
  cplug_Stargate :: "(ctx \<Rightarrow> GrpcQuery \<Rightarrow> ('w, 'v, bytes) op) option"
  cplug_Grpc :: "(ctx \<Rightarrow> GrpcQuery \<Rightarrow> ('w, 'v, bytes) op) option"
  cplug_Wasm :: "(ctx \<Rightarrow> WasmQuery \<Rightarrow> ('w, 'v, bytes) op) option"
  cplug_Distribution :: "(ctx \<Rightarrow> DistributionQuery \<Rightarrow> ('w, 'v, bytes) op) option"

definition QueryPlugins_Merge ::
  "('w, 'v) QueryPlugins \<Rightarrow> ('w, 'v) CustomQueryPlugins option \<Rightarrow> ('w, 'v) QueryPlugins"
where
  "QueryPlugins_Merge e other =
     (case other of
        None \<Rightarrow> e
      | Some c \<Rightarrow>
          \<lparr>plug_Bank = orElse (cplug_Bank c) (plug_Bank e),
           plug_Custom = orElse (cplug_Custom c) (plug_Custom e),
           plug_IBC = orElse (cplug_IBC c) (plug_IBC e),
           plug_Staking = orElse (cplug_Staking c) (plug_Staking e),
           plug_Stargate = orElse (cplug_Stargate c) (plug_Stargate e),
           plug_Grpc = orElse (cplug_Grpc c) (plug_Grpc e),
           plug_Wasm = orElse (cplug_Wasm c) (plug_Wasm e),
           plug_Distribution = orElse (cplug_Distribution c) (plug_Distribution e)\<rparr>)"

definition QueryPlugins_HandleQuery ::
  "('w, 'v) QueryPlugins \<Rightarrow> ctx \<Rightarrow> bytes \<Rightarrow> QueryRequest \<Rightarrow> ('w, 'v, bytes) op"
where
  "QueryPlugins_HandleQuery e ctx caller req =
     (case qr_Bank req of Some r \<Rightarrow> plug_Bank e ctx r | None \<Rightarrow>
      case qr_Custom req of Some r \<Rightarrow> plug_Custom e ctx r | None \<Rightarrow>
      case qr_IBC req of Some r \<Rightarrow> plug_IBC e ctx caller r | None \<Rightarrow>
      case qr_Staking req of Some r \<Rightarrow> plug_Staking e ctx r | None \<Rightarrow>
      case qr_Stargate req of Some r \<Rightarrow> plug_Stargate e ctx r | None \<Rightarrow>
      case qr_Grpc req of Some r \<Rightarrow> plug_Grpc e ctx r | None \<Rightarrow>
      case qr_Wasm req of Some r \<Rightarrow> plug_Wasm e ctx r | None \<Rightarrow>
      case qr_Distribution req of Some r \<Rightarrow> plug_Distribution e ctx r | None \<Rightarrow>
        failM (SystemError UnknownSystem))"

end
