(* ===== verification/Chain.thy ===== *)
theory Chain
  imports Genesis Query_Plugins
begin

text \<open>
  The keeper as \<open>NewKeeper\<close> wires it, with its messenger, its response handler and its query plugins
  referring back to the keeper, and the states a chain with this module can reach.

  Messages of a contract run contracts that return messages, and queries run contracts that query, so
  the wiring is recursive. \<open>NewKeeper\<close> unrolls it a given number of times: running the messages, the
  reply or a query of a contract uses one level, and a run that needs more levels than it was given panics, which ends the transaction as
  an exhausted stack does. All results hold for every number of levels.
\<close>

section \<open>Wiring\<close>

text \<open>
  \<open>app_router\<close> is the message router of the chain, given the services of this module:
  the other modules and \<open>baseapp\<close> are behind it.
\<close>

record ('w, 'v) app =
  app_keeper :: "('w, 'v) Keeper"
  app_router :: "(ctx \<Rightarrow> sdk_Msg \<Rightarrow> ('w, 'v, msg_response) op option) \<Rightarrow> ('w, 'v) message_router"
  app_unpackAny :: "AnyMsg \<Rightarrow> sdk_Msg option"
  app_unpackInterfaces :: "sdk_Msg \<Rightarrow> string option"
  app_queries :: "'w query_ops"

primrec NewKeeper :: "('w, 'v) app \<Rightarrow> nat \<Rightarrow> ('w, 'v) Keeper" where
  "NewKeeper app 0 = (app_keeper app)
     \<lparr>k_messenger := (\<lambda>ctx contractAddr contractIBCPortID msg. panicM PanicOther),
      k_responseHandler := (\<lambda>ctx contractAddr ibcPort messages origRspData. panicM PanicOther),
      k_queryHandler := (\<lambda>ctx caller request. panicM PanicOther)\<rparr>"
| "NewKeeper app (Suc n) =
     (let k = app_keeper app;
          nested = NewKeeper app n;
          messenger = callDepthMessageHandler_DispatchMsg
            (NewDefaultMessageHandler (k_sdk k) (app_router app (serveMsg nested))
               (DefaultEncoders (k_sdk k) (app_unpackAny app) (app_unpackInterfaces app)) [])
            (k_maxCallDepth k)
      in k\<lparr>k_messenger := messenger,
           k_responseHandler := DefaultWasmVMContractResponseHandler_Handle (k_sdk k) messenger (reply nested),
           k_queryHandler := QueryPlugins_HandleQuery (DefaultQueryPlugins (app_queries app) nested)\<rparr>)"

text \<open>
  The other modules reach the store of this module through its services only: what all services
  keep of the store, every handler keeps.
\<close>

definition isolated :: "('w, 'v) app \<Rightarrow> bool" where
  "isolated app \<longleftrightarrow> (\<forall>services \<Phi>.
     (\<forall>ctx msg f. services ctx msg = Some f \<longrightarrow> keeps (\<lambda>w. \<Phi> (w_store w)) f) \<longrightarrow>
     (\<forall>msg h ctx. rt_Handler (app_router app services) msg = Some h \<longrightarrow> keeps (\<lambda>w. \<Phi> (w_store w)) (h ctx)))"

lemma responses_ok_NewKeeper:
  assumes "isolated app"
  shows "responses_ok (NewKeeper app n)"
proof (induction n)
  case 0
  show ?case by (simp add: responses_ok_def keeps_basic)
next
  case (Suc n)
  let ?services = "serveMsg (NewKeeper app n)"
  have router: "router_ok (app_router app ?services)"
    unfolding router_ok_def
  proof (intro allI impI)
    fix msg h m0 ctx assume h: "rt_Handler (app_router app ?services) msg = Some h"
    have "keeps (\<lambda>w. reaches m0 (w_store w)) f" if "?services ctx' msg' = Some f" for ctx' msg' f
      using Suc that by (rule keeps_serveMsg)
    with assms h show "stepwise m0 (h ctx)" unfolding isolated_def by blast
  qed
  have replyer: "replyer_ok (reply (NewKeeper app n))"
    unfolding replyer_ok_def by (intro allI keeps_reply Suc)
  show ?case
    unfolding responses_ok_def NewKeeper.simps Let_def Keeper.simps Keeper.update_convs
    by (simp, intro allI keeps_Handle messenger_ok_callDepth messenger_ok_default replyer router)
       (simp add: encoders_ok_default)
qed

section \<open>Reachable states\<close>

text \<open>
  A chain starts with an empty store, or with a genesis imported into one (\<open>genesis_ok\<close> is what the import
  does not check). Its state changes when a message is delivered, when ibc-go
  calls the module, when another module uses the permissioned keeper, when a proposal in
  the old style is executed, and when anything
  else happens that leaves the store of this module alone: other modules, blocks, failed
  transactions, the cache of the VM. What fails is rolled back.
\<close>

inductive chain_step :: "('w, 'v) app \<Rightarrow> ('w, 'v) world \<Rightarrow> ('w, 'v) world \<Rightarrow> bool" for app where
  deliver: "serveMsg (NewKeeper app n) ctx msg = Some f \<Longrightarrow> f w = (Ok r, w') \<Longrightarrow> chain_step app w w'"
| ibc: "handleIBC (NewKeeper app n) ctx call w = (Ok ack, w') \<Longrightarrow> chain_step app w w'"
| contract_ops: "runContractOp (NewPermissionedKeeper (NewKeeper app n) policy) ctx oper w = (Ok u, w') \<Longrightarrow>
    chain_step app w w'"
| proposal: "NewLegacyWasmProposalHandler (NewKeeper app n) enabled ctx content w = (Ok u, w') \<Longrightarrow>
    chain_step app w w'"
| genesis_params: "SetParams ps w = (Ok u, w') \<Longrightarrow> chain_step app w w'"
| elsewhere: "w_store w' = w_store w \<Longrightarrow> chain_step app w w'"

inductive reachable :: "('w, 'v) app \<Rightarrow> ('w, 'v) world \<Rightarrow> bool" for app where
  start: "w_store w = [] \<Longrightarrow> reachable app w"
| genesis: "w_store w = [] \<Longrightarrow> genesis_ok data \<Longrightarrow> InitGenesis (NewKeeper app n) data w = (Ok u, w') \<Longrightarrow> reachable app w'"
| step: "reachable app w \<Longrightarrow> chain_step app w w' \<Longrightarrow> reachable app w'"

lemma chain_step_reaches:
  assumes "isolated app" and "chain_step app w w'" and "items_ok (w_store w)"
  shows "reaches (w_store w) (w_store w')"
proof -
  note k = responses_ok_NewKeeper [OF assms(1)]
  from assms(2) show ?thesis
  proof cases
    case (deliver n ctx msg f r)
    show ?thesis by (rule stepwise_run [OF keeps_serveMsg [OF k deliver(1)] assms(3) deliver(2)]) simp
  next
    case (ibc n ctx call ack)
    show ?thesis by (rule stepwise_run [OF keeps_handleIBC [OF k] assms(3) ibc]) simp
  next
    case (contract_ops n policy ctx oper u)
    have "stepwise (w_store w) (runContractOp (NewPermissionedKeeper (NewKeeper app n) policy) ctx oper)"
      by (rule keeps_runContractOp) (simp add: NewPermissionedKeeper_def k)
    from stepwise_run [OF this assms(3) contract_ops] show ?thesis by simp
  next
    case (proposal n enabled ctx content u)
    show ?thesis by (rule stepwise_run [OF keeps_LegacyProposal [OF k] assms(3) proposal]) simp
  next
    case (genesis_params ps u)
    show ?thesis by (rule stepwise_run [OF keeps_SetParams assms(3) genesis_params]) simp
  next
    case elsewhere
    then show ?thesis using assms(3) by (simp add: reaches_refl)
  qed
qed

lemma run_reaches:
  assumes "isolated app" and "(chain_step app)\<^sup>*\<^sup>* w w'" and "items_ok (w_store w)"
  shows "reaches (w_store w) (w_store w')"
  using assms(2)
proof induction
  case base
  show ?case using assms(3) by (rule reaches_refl)
next
  case (step w1 w2)
  moreover have "items_ok (w_store w1)" using step.IH by (simp add: reaches_def)
  ultimately show ?case by (blast intro: reaches_trans chain_step_reaches assms(1))
qed

lemma codes_below_next_Nil: "codes_below_next (registry_of [])"
proof -
  have "code_at [] = Map.empty" by (simp add: fun_eq_iff code_at_def look_def split: outcome.split)
  then show ?thesis by (simp add: codes_below_next_def registry_of_def next_id_def)
qed

lemma reachable_inv:
  assumes "isolated app" and "reachable app w"
  shows "registry_ok (w_store w) \<and> keys_ok (w_store w) \<and> codes_below_next (registry_of (w_store w))"
  using assms(2)
proof induction
  case (start w)
  then show ?case by (simp add: registry_ok_Nil keys_ok_Nil codes_below_next_Nil)
next
  case (genesis w data n u w')
  from InitGenesis_ok [OF genesis(3,1,2)] show ?case .
next
  case (step w w')
  then have items: "items_ok (w_store w)" by (simp add: registry_ok_def)
  have "reaches (w_store w) (w_store w')" using assms(1) step(2) items by (rule chain_step_reaches)
  with step.IH items show ?case
    using consistent.reaches_stable keyed.reaches_stable code_ids.store.reaches_stable by blast
qed

lemmas reachable_ok = reachable_inv [THEN conjunct1]
  and reachable_keys = reachable_inv [THEN conjunct2, THEN conjunct1]
  and reachable_ids = reachable_inv [THEN conjunct2, THEN conjunct2]

lemma reachable_run: "reachable app w \<Longrightarrow> (chain_step app)\<^sup>*\<^sup>* w w' \<Longrightarrow> reachable app w'"
  by (rotate_tac, induction rule: rtranclp_induct) (auto intro: reachable.step)

lemma registry_run_refines:
  assumes "registry_step\<^sup>*\<^sup>* m m'" and "registry_ok m"
  shows "spec_step\<^sup>*\<^sup>* (registry_of m) (registry_of m') \<and> registry_ok m'"
  using assms(1)
proof (induction rule: rtranclp_induct)
  case (step m1 m2)
  then show ?case
    using registry_step_refines [of m1 m2] registry_step_ok [of m1 m2]
    by (metis rtranclp.rtrancl_into_rtrancl)
qed (simp add: assms(2))

text \<open>An invariant of the abstract registry holds on in every later state.\<close>

context spec_invariant
begin

lemma run_stable:
  assumes "isolated app" and "reachable app w" and "K (registry_of (w_store w))" and "(chain_step app)\<^sup>*\<^sup>* w w'"
  shows "K (registry_of (w_store w'))"
proof -
  have ok: "registry_ok (w_store w)" using assms(1,2) by (rule reachable_ok)
  then have items: "items_ok (w_store w)" by (simp add: registry_ok_def)
  from store.reaches_stable [OF items _ run_reaches [OF assms(1,4) items]] ok assms(3)
  show ?thesis by simp
qed

end

end
