(* ===== verification/Sample_App.thy ===== *)
theory Sample_App
  imports Chain Sample_Chain
begin

text \<open>
  The sample chain with its message router, and a short run of it: parameters are set, two codes
  are uploaded, a contract is created from the first and migrated to the second, which is pinned.
\<close>

definition sample_router ::
  "(ctx \<Rightarrow> sdk_Msg \<Rightarrow> (unit, unit, msg_response) op option) \<Rightarrow> (unit, unit) message_router"
where
  "sample_router services = \<lparr>
     rt_ValidateBasic = (\<lambda>_. Inr ()),
     rt_Signers = (\<lambda>msg. case msg of
        ExecuteContractMsg m \<Rightarrow> Inr [ec_Sender m]
      | _ \<Rightarrow> Inr []),
     rt_Handler = (\<lambda>msg. Some (\<lambda>ctx. case services ctx msg of
        None \<Rightarrow> failM (PlainError ''no service'')
      | Some f \<Rightarrow> bindM f (\<lambda>_. returnM \<lparr>sr_Data = None, sr_Events = [], sr_MsgResponses = []\<rparr>)))\<rparr>"

definition sample_queries :: "unit query_ops" where
  "sample_queries = \<lparr>
     q_GetAllBalances = (\<lambda>_. returnM [\<lparr>coin_Denom = ''token'', coin_Amount = 7\<rparr>]),
     q_GetSupply = (\<lambda>d. returnM \<lparr>coin_Denom = d, coin_Amount = 100\<rparr>),
     q_GetDenomMetaData = (\<lambda>_. returnM None),
     q_DenomsMetadata = (\<lambda>_. returnM ([], [])),
     q_BondDenom = returnM ''stake'',
     q_GetBondedValidatorsByPower = returnM [],
     q_GetValidator = (\<lambda>_. failM (PlainError ''no validator'')),
     q_GetAllDelegatorDelegations = (\<lambda>_. returnM []),
     q_GetDelegation = (\<lambda>_ _. failM (PlainError ''no delegation'')),
     q_HasReceivingRedelegation = (\<lambda>_ _. returnM False),
     q_IsNoValidatorFound = (\<lambda>e. e = PlainError ''no validator''),
     q_IsNoDelegation = (\<lambda>e. e = PlainError ''no delegation''),
     q_ValAddressFromBech32 = Inr,
     q_ValAddressString = (\<lambda>a. a),
     q_TokensFromShares = (\<lambda>_ n. n),
     q_TruncateInt = (\<lambda>n. n div 10 ^ 18),
     q_DecString = int_string,
     q_NewCoin = (\<lambda>d n. Ok \<lparr>coin_Denom = d, coin_Amount = n\<rparr>),
     q_DelegatorWithdrawAddress = (\<lambda>a. returnM a),
     q_DelegationRewards = (\<lambda>_ _. returnM []),
     q_DelegationTotalRewards = (\<lambda>_. returnM ([], [])),
     q_DelegatorValidators = (\<lambda>_. returnM None),
     q_GetAllChannelsWithPortPrefix = (\<lambda>_. returnM [])\<rparr>"

definition sample_app :: "(unit, unit) app" where
  "sample_app = \<lparr>app_keeper = sample_keeper, app_router = sample_router,
     app_unpackAny = (\<lambda>_. None), app_unpackInterfaces = (\<lambda>_. None), app_queries = sample_queries\<rparr>"

lemma sample_isolated: "isolated sample_app"
  by (auto simp: isolated_def sample_app_def sample_router_def intro!: keeps_rules split: option.split)

definition sample_params :: Params where
  "sample_params = \<lparr>CodeUploadAccess = AllowEverybody, InstantiateDefaultPermission = AccessTypeEverybody\<rparr>"

definition sample_k :: "(unit, unit) Keeper" where
  "sample_k = NewKeeper sample_app 1"

definition sample_run :: "contract_op \<Rightarrow> (unit, unit, unit) op" where
  "sample_run = runContractOp (NewPermissionedKeeper sample_k DefaultAuthorizationPolicy) sample_ctx"

definition sample_hash :: bytes where
  "sample_hash = ''wasm'' @ replicate 28 (CHR 0x00)"

definition sample_contract :: bytes where
  "sample_contract = be_bytes 8 1 @ be_bytes 8 1 @ replicate 16 (CHR 0x00)"

lemma sample_k_simps:
  "k_sdk sample_k = sample_sdk" "k_vm sample_k = sample_vm" "k_gasRegister sample_k = DefaultGasRegisterConfig"
  "k_bank sample_k = (\<lambda>_ _ _. returnM ())" "k_acceptedAccountTypes sample_k = {''base''}"
  "k_responseHandler sample_k ctx a port [] d = returnM d" "k_authority sample_k = ''gov''"
  by (simp_all add: sample_k_def sample_app_def sample_keeper_def Let_def
      DefaultWasmVMContractResponseHandler_Handle_def DispatchSubmessages_def)

lemma sample_sdk_simps:
  "sdk_addr sample_sdk = sample_codec"
  "sdk_IsOutOfGas sample_sdk = (\<lambda>m. gm_consumed m \<ge> gm_limit m)"
  "sdk_GasConsumedToLimit sample_sdk = (\<lambda>m. min (gm_consumed m) (gm_limit m))"
  "sdk_TrimSpace sample_sdk = (\<lambda>s. s)"
  "sdk_address_Module sample_sdk = (\<lambda>_ key. take 32 (key @ replicate 32 (CHR 0x00)))"
  "sdk_GetAccount sample_sdk = (\<lambda>_. returnM None)"
  "sdk_NewAccountWithAddress sample_sdk = (\<lambda>a. returnM (sample_account a))"
  "sdk_SetAccount sample_sdk = (\<lambda>_. returnM ())"
  by (simp_all add: sample_sdk_def)

lemma sample_vm_simps:
  "vm_StoreCode sample_vm = (\<lambda>code _ v. ((take 32 (code @ replicate 32 (CHR 0x00)), 1, None), v))"
  "vm_AnalyzeCode sample_vm = (\<lambda>_ _. Inr sample_report)"
  "vm_Pin sample_vm = (\<lambda>_ v. (None, v))"
  "vm_Instantiate sample_vm = (\<lambda>_ _ _ _. sample_call \<lparr>cr_Ok = Some sample_response, cr_Err = []\<rparr>)"
  "vm_MigrateWithInfo sample_vm = (\<lambda>_ _ _ _. sample_call \<lparr>cr_Ok = Some sample_response, cr_Err = []\<rparr>)"
  by (simp_all add: sample_vm_def Let_def)

lemmas sample_monad =
  bindM_def returnM_def liftO_def guardM_def failM_def modifyM_def getM_def wrapM_def derefM_def
  storeGet_def storeSet_def storeHas_def storeDelete_def storePrefix_def readMeter_def
  consumeGas_def liftX_def liftGas_def ConsumeGas_def addUint64Overflow_def emitEvent_def emitEvents_def
  dropResult_def

lemmas sample_keys =
  ParamsKey_def KeySequenceCodeID_def KeySequenceInstanceID_def SequenceKeyPrefix_def GetCodeKey_def
  CodeKeyPrefix_def GetPinnedCodeIndexPrefix_def PinnedCodeIndexPrefix_def GetContractAddressKey_def
  ContractKeyPrefix_def Uint64ToBigEndian_def

lemmas sample_gas =
  runtimeGasForContract_def consumeRuntimeGas_def NewGasMeter_def ToWasmVMGas_def FromWasmVMGas_def
  DefaultGasRegisterConfig_def

lemmas sample_run_defs =
  sample_run_def NewPermissionedKeeper_def sample_k_simps sample_sdk_simps sample_vm_simps
  sample_monad sample_gas sample_codec_def sample_report_def sample_params_def

lemma append_less: "(xs :: bytes) @ ys < xs @ zs \<longleftrightarrow> ys < zs"
  by (induction xs) auto

lemma be_bytes_8:
  "a < 2 ^ 64 \<Longrightarrow> b < 2 ^ 64 \<Longrightarrow> be_bytes 8 a = be_bytes 8 b \<longleftrightarrow> a = b"
  "a < 2 ^ 64 \<Longrightarrow> b < 2 ^ 64 \<Longrightarrow> be_bytes 8 a < be_bytes 8 b \<longleftrightarrow> a < b"
  "a < 2 ^ 64 \<Longrightarrow> word_of_nat (be_val (be_bytes 8 a)) = (word_of_nat a :: u64)"
  "be_bytes 8 a \<noteq> []"
  using be_bytes_inj [of a 8 b] be_bytes_less_iff [of a 8 b] length_be_bytes [of 8 a] by fastforce+

lemmas sample_bytes = append_less be_bytes_8

definition sample_code :: CodeInfo where
  "sample_code = \<lparr>code_CodeHash = sample_hash, code_Creator = ''alice'', code_InstantiateConfig = AllowEverybody\<rparr>"

definition sample_info :: "u64 \<Rightarrow> ContractInfo" where
  "sample_info codeID = NewContractInfo sample_codec codeID (Some ''alice'') (Some ''alice'') ''label''
     (Some \<lparr>pos_BlockHeight = 7, pos_TxIndex = 5\<rparr>)"

definition sample_entry :: ContractCodeHistoryEntry where
  "sample_entry = InitialHistory (sample_info 1) ''init''"

definition sample_store1 :: "store_value items" where
  "sample_store1 = [(ParamsKey, ParamsV sample_params)]"

definition sample_store2 :: "store_value items" where
  "sample_store2 = [(GetCodeKey 1, CodeInfoV sample_code), (KeySequenceCodeID, RawV (be_bytes 8 2)),
     (ParamsKey, ParamsV sample_params)]"

definition sample_store3 :: "store_value items" where
  "sample_store3 = [(GetCodeKey 1, CodeInfoV sample_code), (GetCodeKey 2, CodeInfoV sample_code),
     (KeySequenceCodeID, RawV (be_bytes 8 3)), (ParamsKey, ParamsV sample_params)]"

lemmas sample_create_defs = sample_run_defs sample_keys sample_world_def sample_code_def sample_hash_def
  AllowEverybody_def Let_def pk_Create_def create_def getInstantiateAccessConfig_def
  GetParams_def getUploadAccessConfig_def Allowed_def AccessConfig_IsSubset_def
  IsGzip_def gzipIdent_def vmStoreCode_def analyzeCode_def mustAutoIncrementID_def readSequence_def
  BigEndian_Uint64_def sample_bytes mustStoreCodeInfo_def NewCodeInfo_def addr_bytes_def

definition sample_result :: "contract_op \<Rightarrow> store_value items \<Rightarrow> unit outcome \<times> store_value items" where
  "sample_result oper m = (case sample_run oper (sample_world m) of (r, w) \<Rightarrow> (r, w_store w))"

lemma sample_create1: "sample_result (OpCreate (Some ''alice'') ''wasm'' None) sample_store1 = (Ok (), sample_store2)"
  by (simp add: sample_result_def sample_store1_def sample_store2_def sample_create_defs)

lemma sample_create2: "sample_result (OpCreate (Some ''alice'') ''wasm'' None) sample_store2 = (Ok (), sample_store3)"
  by (simp add: sample_result_def sample_store2_def sample_store3_def sample_create_defs)

definition sample_position :: bytes where
  "sample_position = be_bytes 8 7 @ be_bytes 8 5"

definition sample_creator_key :: bytes where
  "sample_creator_key = CHR 0x09 # char_of (length ''alice'') # ''alice'' @ sample_position @ sample_contract"

definition sample_code_key :: "u64 \<Rightarrow> bytes" where
  "sample_code_key i = CHR 0x06 # be_bytes 8 (unat i) @ sample_position @ sample_contract"

definition sample_migration :: ContractCodeHistoryEntry where
  "sample_migration = \<lparr>hist_Operation = OperationTypeMigrate, hist_CodeID = 2,
     hist_Updated = Some \<lparr>pos_BlockHeight = 7, pos_TxIndex = 5\<rparr>, hist_Msg = ''m''\<rparr>"

definition sample_store4 :: "store_value items" where
  "sample_store4 = [(GetCodeKey 1, CodeInfoV sample_code), (GetCodeKey 2, CodeInfoV sample_code),
     (GetContractAddressKey sample_contract, ContractInfoV (sample_info 1)),
     (KeySequenceCodeID, RawV (be_bytes 8 3)), (KeySequenceInstanceID, RawV (be_bytes 8 2)),
     (GetContractCodeHistoryElementKey sample_contract 1, HistoryV sample_entry),
     (sample_code_key 1, RawV []), (sample_creator_key, RawV []), (ParamsKey, ParamsV sample_params)]"

definition sample_store5 :: "store_value items" where
  "sample_store5 = [(GetCodeKey 1, CodeInfoV sample_code), (GetCodeKey 2, CodeInfoV sample_code),
     (GetContractAddressKey sample_contract, ContractInfoV (sample_info 2)),
     (KeySequenceCodeID, RawV (be_bytes 8 3)), (KeySequenceInstanceID, RawV (be_bytes 8 2)),
     (GetContractCodeHistoryElementKey sample_contract 1, HistoryV sample_entry),
     (GetContractCodeHistoryElementKey sample_contract 2, HistoryV sample_migration),
     (sample_code_key 2, RawV []), (sample_creator_key, RawV []), (ParamsKey, ParamsV sample_params)]"

definition sample_store6 :: "store_value items" where
  "sample_store6 = [(GetCodeKey 1, CodeInfoV sample_code), (GetCodeKey 2, CodeInfoV sample_code),
     (GetContractAddressKey sample_contract, ContractInfoV (sample_info 2)),
     (KeySequenceCodeID, RawV (be_bytes 8 3)), (KeySequenceInstanceID, RawV (be_bytes 8 2)),
     (GetContractCodeHistoryElementKey sample_contract 1, HistoryV sample_entry),
     (GetContractCodeHistoryElementKey sample_contract 2, HistoryV sample_migration),
     (sample_code_key 2, RawV []), (GetPinnedCodeIndexPrefix 2, RawV [CHR 0x01]),
     (sample_creator_key, RawV []), (ParamsKey, ParamsV sample_params)]"

lemmas sample_store_defs =
  sample_store1_def sample_store2_def sample_store3_def sample_store4_def sample_store5_def sample_store6_def
  sample_code_def sample_hash_def sample_info_def sample_entry_def sample_contract_def sample_position_def
  sample_creator_key_def sample_code_key_def sample_migration_def NewContractInfo_def InitialHistory_def
  AllowEverybody_def addr_bytes_def sample_keys
  GetContractCodeHistoryElementKey_def GetContractCodeHistoryElementPrefix_def ContractCodeHistoryElementPrefix_def

lemmas sample_call_defs = sample_result_def sample_world_def sample_run_defs Let_def
  kv_has_def kv_delete_def sample_bytes GetCodeInfo_def GetContractInfo_def chargeSetup_def IsPinnedCode_def
  checkDiscountEligibility_def TxContracts_Exists_def SetupContractCost_def Allowed_def
  NewEnv_def sample_ctx_def runContract_def runVM_def callVM_def sample_call_def withMeter_def
  contractStore_def putContractStore_def strip_prefix_def GetContractStorePrefix_def ContractStorePrefix_def
  sample_response_def NewAbsoluteTxPosition_def analyzeCode_def
  addToContractCodeSecondaryIndex_def GetContractByCreatedSecondaryIndexKey_def
  GetContractByCodeIDSecondaryIndexPrefix_def ContractByCodeIDAndCreatedSecondaryIndexPrefix_def
  AbsoluteTxPosition_Bytes_def AbsoluteTxPositionLen_def position_bytes_def
  appendToContractHistory_def lastPosition_def mustStoreContractInfo_def
  respond_def handleContractResponse_def EventCosts_def eventAttributeCosts_def storedBytes_def calcWithFreeTier_def

lemma sample_instantiate:
  "sample_result (OpInstantiate 1 (Some ''alice'') (Some ''alice'') ''init'' ''label'' []) sample_store3 =
     (Ok (), sample_store4)"
  by (simp add: sample_call_defs sample_store_defs pk_Instantiate_def instantiate_def
    ClassicAddressGenerator_def mustAutoIncrementID_def readSequence_def
    BuildContractAddressClassic_def moduleAddress_def ContractAddrLen_def HasContractInfo_def
    claimAccount_def depositCoins_def Coins_IsZero_def persistContract_def
    addToContractCreatorSecondaryIndex_def GetContractByCreatorSecondaryIndexKey_def
    GetContractsByCreatorPrefix_def MustLengthPrefix_def ContractsByCreatorPrefix_def)

lemma sample_migrate:
  "sample_result (OpMigrate sample_contract ''alice'' 2 ''m'') sample_store4 = (Ok (), sample_store5)"
  by (simp add: sample_call_defs sample_store_defs pk_Migrate_def migrate_def AdminAddr_def addr_Equals_def
      sameMigrateVersion_def callMigrateEntrypoint_def persistMigration_def mustGetLastContractHistoryEntry_def
      removeFromContractCodeSecondaryIndex_def AddMigration_def isPosition_def BigEndianToUint64_def)

lemma sample_pin: "sample_result (OpPinCode 2) sample_store5 = (Ok (), sample_store6)"
  by (simp add: sample_call_defs sample_store_defs pk_PinCode_def pinCode_def vmPin_def)

lemma sample_step:
  assumes "sample_result oper m = (Ok (), m')"
  shows "(chain_step sample_app)\<^sup>*\<^sup>* (sample_world m) (sample_world m')"
proof -
  obtain w where run: "sample_run oper (sample_world m) = (Ok (), w)" and w: "w_store w = m'"
    using assms by (cases "sample_run oper (sample_world m)") (simp add: sample_result_def)
  have "chain_step sample_app (sample_world m) w"
    using run unfolding sample_run_def sample_k_def by (rule chain_step.contract_ops)
  moreover have "chain_step sample_app w (sample_world m')"
    by (rule chain_step.elsewhere) (simp add: w sample_world_def)
  ultimately show ?thesis by simp
qed

lemma sample_reachable1: "reachable sample_app (sample_world sample_store1)"
proof (rule reachable.step)
  show "reachable sample_app (sample_world [])" by (rule reachable.start) (simp add: sample_world_def)
  show "chain_step sample_app (sample_world []) (sample_world sample_store1)"
    by (rule chain_step.genesis_params [of sample_params])
       (simp add: SetParams_def storeSet_def modifyM_def sample_world_def sample_store1_def)
qed

lemmas sample_reachable2 = reachable_run [OF sample_reachable1 sample_step [OF sample_create1]]
lemmas sample_reachable3 = reachable_run [OF sample_reachable2 sample_step [OF sample_create2]]
lemmas sample_reachable4 = reachable_run [OF sample_reachable3 sample_step [OF sample_instantiate]]
lemmas sample_reachable5 = reachable_run [OF sample_reachable4 sample_step [OF sample_migrate]]
lemmas sample_reachable6 = reachable_run [OF sample_reachable5 sample_step [OF sample_pin]]

section \<open>The final states by kind of entry\<close>

lemma look_Cons:
  assumes "key_of sk' = Ok k" and "registry_key sk'"
  shows "look ((k, v) # m) sk = (if sk = sk' then Some v else look m sk)"
proof (cases "key_of sk")
  case (Ok b)
  then show ?thesis using key_eq_iff [OF assms(1) Ok] assms(2) by (simp add: look_def)
qed (use assms(1) in \<open>auto simp: look_def\<close>)

lemma sample_index_keys:
  "key_of (ByCodeK 1 \<lparr>pos_BlockHeight = 7, pos_TxIndex = 5\<rparr> sample_contract) = Ok (sample_code_key 1)"
  "key_of (ByCodeK 2 \<lparr>pos_BlockHeight = 7, pos_TxIndex = 5\<rparr> sample_contract) = Ok (sample_code_key 2)"
  "key_of (ByCreatorK ''alice'' \<lparr>pos_BlockHeight = 7, pos_TxIndex = 5\<rparr> sample_contract) = Ok sample_creator_key"
  by (simp_all add: GetContractByCreatedSecondaryIndexKey_def GetContractByCodeIDSecondaryIndexPrefix_def
      ContractByCodeIDAndCreatedSecondaryIndexPrefix_def AbsoluteTxPosition_Bytes_def position_bytes_def
      Uint64ToBigEndian_def sample_code_key_def sample_position_def sample_creator_key_def
      GetContractByCreatorSecondaryIndexKey_def GetContractsByCreatorPrefix_def MustLengthPrefix_def
      ContractsByCreatorPrefix_def AbsoluteTxPositionLen_def)

lemma sample_looks:
  "look ((GetCodeKey i, v) # m) sk = (if sk = CodeK i then Some v else look m sk)"
  "look ((GetContractAddressKey a, v) # m) sk = (if sk = ContractK a then Some v else look m sk)"
  "look ((KeySequenceCodeID, v) # m) sk = (if sk = SequenceCodeK then Some v else look m sk)"
  "look ((KeySequenceInstanceID, v) # m) sk = (if sk = SequenceInstanceK then Some v else look m sk)"
  "look ((GetContractCodeHistoryElementKey a i, v) # m) sk = (if sk = HistoryK a i then Some v else look m sk)"
  "look ((GetPinnedCodeIndexPrefix i, v) # m) sk = (if sk = PinnedK i then Some v else look m sk)"
  "look ((ParamsKey, v) # m) sk = (if sk = ParamsK then Some v else look m sk)"
  "look [] sk = None"
  by (rule look_Cons, simp, simp)+ (simp add: look_def split: outcome.split)

lemmas sample_look = sample_looks sample_index_keys(1,2) [THEN look_Cons, simplified registry_key.simps]
  sample_index_keys(3) [THEN look_Cons, simplified registry_key.simps]

lemma sample_views4:
  "code_at sample_store4 i = (if i = 1 \<or> i = 2 then Some sample_code else None)"
  "contract_at sample_store4 a = (if a = sample_contract then Some (sample_info 1) else None)"
  "\<not> history_full sample_store4"
  "\<not> ids_used_up (registry_of sample_store4)"
  by (auto simp: sample_store4_def sample_look code_at_def contract_at_def history_full_def ids_used_up_def
      registry_of_def split: if_splits)

lemma sample_views6:
  "code_at sample_store6 i = (if i = 1 \<or> i = 2 then Some sample_code else None)"
  "contract_at sample_store6 a = (if a = sample_contract then Some (sample_info 2) else None)"
  "\<not> history_full sample_store6"
  "\<not> ids_used_up (registry_of sample_store6)"
  by (auto simp: sample_store6_def sample_look code_at_def contract_at_def history_full_def ids_used_up_def
      registry_of_def split: if_splits)

lemmas sample_run46 = rtranclp_trans [OF sample_step [OF sample_migrate] sample_step [OF sample_pin]]

lemma sample_world_store: "w_store (sample_world m) = m"
  by (simp add: sample_world_def)

lemma sample_reads:
  "GetContractInfo a (sample_world sample_store4) =
     (Ok (contract_at sample_store4 a), sample_world sample_store4)"
  "GetCodeInfo i (sample_world sample_store4) = (Ok (code_at sample_store4 i), sample_world sample_store4)"
  "GetContractInfo a (sample_world sample_store6) =
     (Ok (contract_at sample_store6 a), sample_world sample_store6)"
  "GetCodeInfo i (sample_world sample_store6) = (Ok (code_at sample_store6 i), sample_world sample_store6)"
  using reachable_ok [OF sample_isolated sample_reachable4] reachable_ok [OF sample_isolated sample_reachable6]
  by (simp_all add: eval_GetContractInfo eval_GetCodeInfo sample_world_store)

lemma sample_views2: "\<not> ids_used_up (registry_of sample_store2)"
  by (auto simp: sample_store2_def sample_look code_at_def ids_used_up_def registry_of_def split: if_splits)

lemma sample_upload:
  "\<exists>w'. server_StoreCode sample_k sample_ctx
       \<lparr>sc_Sender = ''alice'', sc_WASMByteCode = ''wasm'', sc_InstantiatePermission = None\<rparr>
       (sample_world sample_store2) = (Ok (2, sample_hash), w')"
  by (simp add: server_StoreCode_def MsgStoreCode_ValidateBasic_def checkCode_def validateWasmCode_def MaxWasmSize_def
      checkPermission_def parseAddr_def liftE_def selectAuthorizationPolicy_def SubMsgAuthzPolicy_def sample_ctx_def
      sample_store2_def sample_create_defs)

end
