(* ===== verification/Authorization.thy ===== *)
theory Authorization
  imports Sample_App
begin

text \<open>
  Who may do what through the message server of \<open>keeper/msg_server.go\<close>: messages reserved for the
  governance authority, changes of a contract by its admin, and creation of contracts under the
  access configuration of their code.
\<close>

section \<open>The messages by the right they need\<close>

fun authority_of :: "sdk_Msg \<Rightarrow> string option" where
  "authority_of (UpdateParamsMsg m) = Some (up_Authority m)"
| "authority_of (PinCodesMsg m) = Some (pin_Authority m)"
| "authority_of (UnpinCodesMsg m) = Some (unpin_Authority m)"
| "authority_of (SudoContractMsg m) = Some (su_Authority m)"
| "authority_of (AddCodeUploadParamsAddressesMsg m) = Some (add_Authority m)"
| "authority_of (RemoveCodeUploadParamsAddressesMsg m) = Some (rem_Authority m)"
| "authority_of _ = None"

fun modification_of :: "sdk_Msg \<Rightarrow> (string \<times> string) option" where
  "modification_of (MigrateContractMsg m) = Some (mc_Sender m, mc_Contract m)"
| "modification_of (UpdateAdminMessage m) = Some (ua_Sender m, ua_Contract m)"
| "modification_of (ClearAdminMessage m) = Some (ca_Sender m, ca_Contract m)"
| "modification_of (UpdateContractLabelMsg m) = Some (ul_Sender m, ul_Contract m)"
| "modification_of _ = None"

section \<open>Lemmas\<close>

lemma requireAuthority_refuses:
  "a \<noteq> k_authority k \<Longrightarrow> \<exists>err. requireAuthority k a w = (Err err, w)"
  by (auto simp: requireAuthority_def guardM_def basic_apply)

lemma validated_then_refused:
  "(\<And>w. \<exists>err. f w = (Err err, w)) \<Longrightarrow> \<exists>err. bindM (liftE r) (\<lambda>_. f) w = (Err err, w)"
  by (cases r) (auto simp: liftE_def basic_apply)

lemma bindM_refused: "\<exists>err. m w = (Err err, w) \<Longrightarrow> \<exists>err. bindM m f w = (Err err, w)"
  by (auto simp: bindM_def)

lemma parseAddr_Ok_iff: "parseAddr k d s w = (Ok a, w') \<longleftrightarrow> AccAddressFromBech32 (k_addr k) s = Inr a \<and> w' = w"
  by (auto simp: parseAddr_def prog_Ok_iffs)

definition modifiable_by :: "('w, 'v) Keeper \<Rightarrow> ('w, 'v) world \<Rightarrow> bytes \<Rightarrow> bytes \<Rightarrow> bool" where
  "modifiable_by k w actor a \<longleftrightarrow> (\<exists>info. GetContractInfo a w = (Ok (Some info), w) \<and>
     con_Admin info \<noteq> [] \<and> AccAddressFromBech32 (k_addr k) (con_Admin info) = Inr actor)"

lemma GetContractInfo_Ok: "GetContractInfo a w = (Ok ci, w') \<Longrightarrow> w' = w"
  by (auto simp: GetContractInfo_def storeGet_def prog_Ok_iffs elim!: bindM_Ok_E split: option.splits)

lemma admin_checked:
  assumes "bindM (GetContractInfo a) (\<lambda>ci. case ci of None \<Rightarrow> failM e
       | Some info \<Rightarrow> bindM (liftO (AdminAddr (k_addr k) info)) (\<lambda>admin.
           bindM (guardM (CanModifyContract DefaultAuthorizationPolicy admin (Some caller)) e') (f info admin))) w = (Ok r, w')"
    and "caller \<noteq> []"
  shows "modifiable_by k w caller a"
proof -
  obtain info admin where info: "GetContractInfo a w = (Ok (Some info), w)"
    and admin: "AdminAddr (k_addr k) info = Ok admin" "CanModifyContract DefaultAuthorizationPolicy admin (Some caller)"
    using assms(1)
    by (auto simp: prog_Ok_iffs elim!: bindM_Ok_E split: option.splits dest: GetContractInfo_Ok) (metis GetContractInfo_Ok)
  from admin assms(2) have "con_Admin info \<noteq> []" and "AccAddressFromBech32 (k_addr k) (con_Admin info) = Inr caller"
    by (auto simp: AdminAddr_def addr_Equals_def addr_bytes_def split: if_splits sum.splits option.splits)
  with info show ?thesis by (auto simp: modifiable_by_def)
qed

lemma modifications_checked:
  assumes "caller \<noteq> []"
  shows "setContractAdmin k a (Some caller) newAdmin DefaultAuthorizationPolicy w = (Ok r, w') \<Longrightarrow> modifiable_by k w caller a"
    and "setContractLabel k a (Some caller) label DefaultAuthorizationPolicy w = (Ok r, w') \<Longrightarrow> modifiable_by k w caller a"
    and "migrate k ctx a caller codeID msg DefaultAuthorizationPolicy w = (Ok d, w') \<Longrightarrow> modifiable_by k w caller a"
  unfolding setContractAdmin_def setContractLabel_def migrate_def
  by (erule admin_checked [OF _ assms])+

text \<open>Creating a contract.\<close>

lemma persistContract_effect:
  "persistContract k creator a c msg w = (Ok u, w') \<Longrightarrow> contract_at (w_store w') a = Some c"
  by (auto simp: persistContract_def Let_def mustStoreContractInfo_def storeSet_def prog_Ok_iffs modifyM_def
      contract_at_def look_sets elim!: bindM_Ok_E)

lemma persistContract_indexes:
  assumes "persistContract k creator a c msg w = (Ok u, w')"
  shows "created_by (w_store w') creator a"
proof -
  let ?e = "InitialHistory c msg"
  from assms obtain wa wb wc where "addToContractCreatorSecondaryIndex creator (hist_Updated ?e) a wa = (Ok (), wb)"
    and hist: "appendToContractHistory a [?e] wb = (Ok (), wc)" and "mustStoreContractInfo a c wc = (Ok u, w')"
    by (auto simp: persistContract_def Let_def elim!: bindM_Ok_E)
  then obtain b key where "AbsoluteTxPosition_Bytes (hist_Updated ?e) = Ok b"
    and "GetContractByCreatorSecondaryIndexKey creator b a = Ok key"
    and wb: "w_store wb = kv_set (w_store wa) key (RawV [])"
    and w': "w_store w' = kv_set (w_store wc) (GetContractAddressKey a) (ContractInfoV c)"
    by (auto simp: addToContractCreatorSecondaryIndex_def mustStoreContractInfo_def storeSet_def prog_Ok_iffs elim!: bindM_Ok_E)
  then obtain q where q: "key_of (ByCreatorK creator q a) = Ok key" using creator_key_cases(3) by blast
  from hist have "\<exists>pos. w_store wc = kv_set (w_store wb) (GetContractCodeHistoryElementKey a pos) (HistoryV ?e)"
    by (auto simp: appendToContractHistory_def storePrefix_def storeSet_def Let_def prog_Ok_iffs elim!: bindM_Ok_E)
  then have "look (w_store w') (ByCreatorK creator q a) = Some (RawV [])"
    by (auto simp: w' wb look_sets look_creator [OF q])
  then show ?thesis by (auto simp: created_by_def)
qed

lemma contract_kept:
  assumes "registry_ok m" and "reaches m m'" and "contract_at m a = Some c"
  shows "\<exists>c'. contract_at m' a = Some c' \<and> con_Creator c' = con_Creator c"
proof -
  have "contract_is a (con_Creator c) (con_Created c) (con_IBCPortID c) (registry_of m)"
    using assms(3) by (simp add: contract_is_def registry_of_def)
  with assms(1) have "contract_is a (con_Creator c) (con_Created c) (con_IBCPortID c) (registry_of m')"
    using contract_fixed.store.reaches_stable [OF _ _ assms(2)] by (auto simp: registry_ok_def)
  then show ?thesis by (auto simp: contract_is_def registry_of_def)
qed

abbreviation yields ::
  "(store_value items \<Rightarrow> bool) \<Rightarrow> ('w, 'v, 'a) op \<Rightarrow> ('a \<Rightarrow> store_value items \<Rightarrow> bool) \<Rightarrow> bool"
where
  "yields \<Phi> f Q \<equiv> triple (\<lambda>w. \<Phi> (w_store w)) f (\<lambda>x w. Q x (w_store w)) (\<lambda>_. True)"

lemma yields_keeps:
  "keeps (\<lambda>w. \<Phi> (w_store w)) p \<Longrightarrow> (\<And>x. yields \<Phi> (f x) Q) \<Longrightarrow> yields \<Phi> (bindM p f) Q"
  by (rule triple_bind_keeps) auto

lemma yields_neutral: "neutral p \<Longrightarrow> (\<And>x. yields \<Phi> (f x) Q) \<Longrightarrow> yields \<Phi> (bindM p f) Q"
  by (rule yields_keeps [OF neutral_keeps])

lemma yields_guard: "(b \<Longrightarrow> yields \<Phi> (f ()) Q) \<Longrightarrow> yields \<Phi> (bindM (guardM b e) f) Q"
  by (rule triple_bind_guardM) simp_all

lemma yields_liftO: "(\<And>x. r = Ok x \<Longrightarrow> yields \<Phi> (f x) Q) \<Longrightarrow> yields \<Phi> (bindM (liftO r) f) Q"
  by (cases r) (auto simp: triple_def bindM_def liftO_def)

lemma yields_known: "yields \<Phi> f Q \<Longrightarrow> \<Phi> m \<Longrightarrow> triple (store_is m) f (\<lambda>x w. Q x (w_store w)) (\<lambda>_. True)"
  by (erule triple_conseq) simp_all

lemma yields_found:
  "(\<And>x. r = Some x \<Longrightarrow> triple P (f x) Q (\<lambda>_. True)) \<Longrightarrow>
   triple P (case r of None \<Rightarrow> failM e | Some x \<Rightarrow> f x) Q (\<lambda>_. True)"
  by (cases r) (simp_all add: triple_basic)

lemma yields_persistContract:
  assumes "registry_ok m0" and "con_CodeID c = i" and "\<And>m. reaches m m \<Longrightarrow> stepwise m (f ())"
    and "\<And>w1 x w2. f () w1 = (Ok x, w2) \<Longrightarrow> R x"
    and "\<And>x m. R x \<Longrightarrow> contract_at m a \<noteq> None \<Longrightarrow> con_Creator (the (contract_at m a)) = con_Creator c \<Longrightarrow>
      created_by m creator a \<Longrightarrow> Q x m"
  shows "yields (fresh_at m0 a i) (bindM (persistContract k creator a c msg) f) Q"
proof (rule tripleI)
  fix w x w' assume fresh: "fresh_at m0 a i (w_store w)"
    and "bindM (persistContract k creator a c msg) f w = (Ok x, w')"
  then obtain w1 where persist: "persistContract k creator a c msg w = (Ok (), w1)" and f: "f () w1 = (Ok x, w')"
    by (auto elim!: bindM_Ok_E)
  have "ok_triple m0 (w_store w) (persistContract k creator a c msg)"
    using fresh assms(2) by (intro ok_persistContract) auto
  from tripleD(1) [OF this _ persist] have reached: "reaches m0 (w_store w1)" by simp
  then have refl: "reaches (w_store w1) (w_store w1)" by (auto simp: reaches_def)
  have ok: "registry_ok (w_store w1)"
    using consistent.reaches_stable [OF _ assms(1) reached] assms(1) by (simp add: registry_ok_def)
  have reached: "reaches (w_store w1) (w_store w')" using keepsD [OF assms(3) [OF refl] f] refl by simp
  have "created_by (w_store w') creator a"
    using creator_index.reaches_stable [OF _ persistContract_indexes [OF persist] reached] ok by (simp add: registry_ok_def)
  with contract_kept [OF ok reached persistContract_effect [OF persist]] show "Q x (w_store w')"
    by (auto intro: assms(5) assms(4) [OF f])
qed simp

lemma instantiate_effect:
  assumes responses: "responses_ok k" and gen: "generates_ok gen" and ok: "registry_ok m0"
  shows "yields ((=) m0) (instantiate k ctx codeID (Some creator) admin initMsg label deposit gen policy)
     (\<lambda>(a, d) m'. (\<exists>ci. code_at m0 codeID = Some ci \<and>
          CanInstantiateContract (k_addr k) policy (code_InstantiateConfig ci) creator = Ok True) \<and>
        contract_at m0 a = None \<and>
        contract_at m' a \<noteq> None \<and> con_Creator (the (contract_at m' a)) = addr_String (k_addr k) creator \<and>
        created_by m' creator a)"
    (is "yields _ _ ?Q")
proof -
  have items: "items_ok m0" using ok by (simp add: registry_ok_def)
  have absent: "contract_at m0 a = None" if "fresh_at m0 a codeID m" for a m
    using contract_kept [OF ok, of m a] that by (cases "contract_at m0 a") (auto simp: contract_at_def)
  have tail: "yields (fresh_at m0 a codeID) (bindM (persistContract k creator a c initMsg) (\<lambda>_.
     bindM (emitEvent ''instantiate'' as) (\<lambda>_.
     bindM (derefM res) (\<lambda>r.
     bindM (wrapM ''dispatch'' (respond k ctx' a port r)) (\<lambda>data.
     returnM (a, data)))))) ?Q"
    if "\<exists>ci. code_at m0 codeID = Some ci \<and>
          CanInstantiateContract (k_addr k) policy (code_InstantiateConfig ci) creator = Ok True"
      and "con_CodeID c = codeID" and "con_Creator c = addr_String (k_addr k) creator" for a c as res ctx' port
  proof (rule triple_pre [OF absent], assumption)
    assume none: "contract_at m0 a = None"
    show ?thesis
    proof (rule yields_persistContract [OF ok that(2), where R = "\<lambda>x. fst x = a"], goal_cases)
      case 1 show ?case by (intro keeps_rules keeps_respond responses)
    next
      case 2 then show ?case by (auto simp: prog_Ok_iffs elim!: bindM_Ok_E)
    next
      case (3 x m) then show ?case using that none by (cases x) auto
    qed
  qed
  have fresh: "yields (with_code m0 codeID) (bindM (HasContractInfo a) (\<lambda>ex. bindM (guardM (\<not> ex) e) (\<lambda>_. f))) Q"
    if "yields (fresh_at m0 a codeID) f Q" for a e Q and f :: "('a, 'b, bytes \<times> bytes option) op"
  proof (rule triple_known_store, rule run_HasContractInfo, rule triple_bind_guardM, simp, goal_cases)
    case (1 m) then show ?case by (intro triple_conseq [OF that]) auto
  qed
  have head: "yields (with_code m0 codeID)
      (bindM (chargeSetup k codeID h initMsg d) (\<lambda>_.
       bindM (liftO can) (\<lambda>ok. bindM (guardM ok err) (\<lambda>_. bindM (gen codeID h) f)))) Q"
    if "\<And>a. can = Ok True \<Longrightarrow> yields (with_code m0 codeID) (f a) Q"
    for h d can err Q and f :: "bytes \<Rightarrow> ('a, 'b, bytes \<times> bytes option) op"
    by (rule yields_neutral, rule neutral_rules, rule yields_liftO, rule yields_guard, rule yields_keeps)
       (use gen that in \<open>auto simp: generates_ok_def\<close>)
  have port: "yields \<Phi> (bindM (if b then bindM (ensureIbcPort k a) (\<lambda>p. returnM (c\<lparr>con_IBCPortID := p\<rparr>)) else returnM c) f) Q"
    if "\<And>c'. con_CodeID c' = con_CodeID c \<Longrightarrow> con_Creator c' = con_Creator c \<Longrightarrow> yields \<Phi> (f c') Q"
    for \<Phi> b a c Q and f :: "ContractInfo \<Rightarrow> ('a, 'b, bytes \<times> bytes option) op"
    using that by (auto simp: bindM_assoc intro!: yields_neutral neutral_ports)
  show ?thesis unfolding instantiate_def option.case Let_def
  proof (rule triple_known_store, hypsubst, rule run_GetCodeInfo, rule yields_found,
      rule yields_known [where \<Phi> = "with_code m0 codeID"], intro head fresh, goal_cases)
    case (1 _ ci a)
    then have "\<exists>ci. code_at m0 codeID = Some ci \<and>
        CanInstantiateContract (k_addr k) policy (code_InstantiateConfig ci) creator = Ok True" by blast
    note tail = tail [OF this]
    show ?case
      by (rule yields_neutral, rule neutral_accounts)+
         (rule yields_liftO, rule yields_keeps [OF keeps_runContract [OF contract_local_situations(2)]],
          rule yields_liftO, rule yields_neutral, rule neutral_code_helpers,
          rule port, rule tail, simp_all add: NewContractInfo_def addr_bytes_def)
  qed (use items in \<open>simp_all add: reaches_refl\<close>)
qed

lemma sample_bech32: "bech32_ok (k_addr sample_k)"
  by (simp add: bech32_ok_def sample_k_simps sample_sdk_simps sample_codec_def)

lemma sample_clear:
  "\<exists>w'. server_ClearAdmin sample_k sample_ctx \<lparr>ca_Sender = ''alice'', ca_Contract = sample_contract\<rparr>
     (sample_world sample_store4) = (Ok (), w')"
  by (simp add: server_ClearAdmin_def MsgClearAdmin_ValidateBasic_def checkAddr_def wrapE_def parseAddr_def liftE_def selectAuthorizationPolicy_def
      SubMsgAuthzPolicy_def setContractAdmin_def AdminAddr_def addr_Equals_def mustStoreContractInfo_def
      sample_call_defs sample_store_defs)

definition sample_creation :: MsgInstantiateContract where
  "sample_creation = \<lparr>ic_Sender = ''alice'', ic_Admin = [], ic_CodeID = 1, ic_Label = ''label'', ic_Msg = ''init'', ic_Funds = []\<rparr>"

lemma sample_creation_valid: "MsgInstantiateContract_ValidateBasic sample_sdk sample_creation = Inr ()"
  by (simp add: sample_creation_def MsgInstantiateContract_ValidateBasic_def checkAddr_def wrapE_def requireE_def
    checkCodeID_def ValidateLabel_def checkPayload_def RawContractMessage_ValidateBasic_def MaxLabelSize_def
    checkFunds_def checkAdmin_def sample_sdk_def sample_codec_def)

lemma sample_creation_runs:
  "\<exists>address data w'. server_InstantiateContract sample_k sample_ctx sample_creation (sample_world sample_store3) =
     (Ok (address, data), w')"
  by (simp add: server_InstantiateContract_def sample_creation_valid sample_k_simps)
    (simp add: sample_creation_def parseAddr_def parseAdmin_def liftE_def selectAuthorizationPolicy_def SubMsgAuthzPolicy_def
    sample_call_defs sample_store_defs instantiate_def
    ClassicAddressGenerator_def mustAutoIncrementID_def readSequence_def
    BuildContractAddressClassic_def moduleAddress_def ContractAddrLen_def HasContractInfo_def
    claimAccount_def depositCoins_def Coins_IsZero_def persistContract_def
    addToContractCreatorSecondaryIndex_def GetContractByCreatorSecondaryIndexKey_def
    GetContractsByCreatorPrefix_def MustLengthPrefix_def ContractsByCreatorPrefix_def)

definition sample_closed :: Params where
  "sample_closed = \<lparr>CodeUploadAccess = \<lparr>Permission = AccessTypeAnyOfAddresses, Addresses = [''alice'']\<rparr>,
     InstantiateDefaultPermission = AccessTypeEverybody\<rparr>"

definition sample_long_salt :: InstantiateContract2Proposal where
  "sample_long_salt = \<lparr>i2p_Title = ''t'', i2p_Description = ''d'', i2p_RunAs = ''alice'', i2p_Admin = [], i2p_CodeID = 1,
     i2p_Label = ''label'', i2p_Msg = ''init'', i2p_Funds = [], i2p_Salt = replicate 65 (CHR ''s''), i2p_FixMsg = False\<rparr>"

section \<open>Properties\<close>

text \<open>
  C16: Messages of governance are refused from anyone else: parameters, pinning, sudo calls and the
  list of uploaders change only in a message of the configured authority; otherwise the message
  fails and nothing happens.
\<close>

theorem governance_messages_refused:
  assumes "serveMsg k ctx msg = Some f" and "authority_of msg = Some a" and "a \<noteq> k_authority k"
  shows "\<exists>err. f w = (Err err, w)"
  using assms
  by (cases msg)
     (auto simp: server_UpdateParams_def server_PinCodes_def server_UnpinCodes_def server_SudoContract_def
       server_AddCodeUploadParamsAddresses_def server_RemoveCodeUploadParamsAddresses_def
       intro!: bindM_refused validated_then_refused requireAuthority_refuses)

theorem governance_messages_refused_witness:
  "\<exists>f err. serveMsg sample_k sample_ctx (PinCodesMsg \<lparr>pin_Authority = ''alice'', pin_CodeIDs = [2]\<rparr>) = Some f \<and>
     f (sample_world sample_store5) = (Err err, sample_world sample_store5)"
  using governance_messages_refused [of sample_k sample_ctx "PinCodesMsg \<lparr>pin_Authority = ''alice'', pin_CodeIDs = [2]\<rparr>"]
  by (simp add: sample_k_simps)



lemma InstantiateContract_E:
  assumes "ic_Sender msg \<noteq> k_authority k" and "SubMsgAuthzPolicy ctx = None"
    and "server_InstantiateContract k ctx msg w = (Ok (address, data), w')"
  obtains actor admin a where "AccAddressFromBech32 (k_addr k) (ic_Sender msg) = Inr actor"
    and "instantiate k ctx (ic_CodeID msg) (Some actor) admin (ic_Msg msg) (ic_Label msg) (ic_Funds msg)
       (ClassicAddressGenerator k) DefaultAuthorizationPolicy w = (Ok (a, data), w')"
    and "address = addr_String (k_addr k) a"
  using assms
  by (auto simp: server_InstantiateContract_def parseAddr_Ok_iff parseAdmin_def prog_Ok_iffs
      selectAuthorizationPolicy_def elim!: bindM_Ok_E split: if_splits)

lemma InstantiateContract_step:
  assumes "server_InstantiateContract (NewKeeper app n) ctx msg w = (Ok (address, data), w')"
  shows "chain_step app w w'"
proof -
  let ?k = "NewKeeper app n"
  have "serveMsg ?k ctx (InstantiateContractMsg msg) = Some (bindM (server_InstantiateContract ?k ctx msg)
      (\<lambda>(a, d). returnM (AddressDataResponse a d)))" by simp
  then show ?thesis by (rule chain_step.deliver) (use assms in \<open>simp add: bindM_apply basic_apply\<close>)
qed



text \<open>
  Governance can leave the list of uploaders empty: the message that removes upload addresses
  checks only itself, so removing all of them succeeds and stores parameters that
  \<open>Params.ValidateBasic\<close> rejects.
\<close>

theorem removing_all_uploaders_invalidates_params:
  assumes "GetParams w = (Ok p, w)" and "Permission (CodeUploadAccess p) = AccessTypeAnyOfAddresses"
    and "set (Addresses (CodeUploadAccess p)) \<subseteq> set (rem_Addresses req)"
    and "rem_Authority req = k_authority k"
    and "MsgRemoveCodeUploadParamsAddresses_ValidateBasic (k_sdk k) req = Inr ()"
  shows "\<exists>w' p'. server_RemoveCodeUploadParamsAddresses k ctx req w = (Ok (), w') \<and>
     GetParams w' = (Ok p', w') \<and> Params_ValidateBasic (k_addr k) p' \<noteq> Inr ()"
proof -
  have none: "filter (\<lambda>a. a \<notin> set (rem_Addresses req)) (Addresses (CodeUploadAccess p)) = []"
    using assms(3) by (auto simp: filter_empty_conv)
  let ?p = "p\<lparr>CodeUploadAccess := (CodeUploadAccess p)\<lparr>Addresses := []\<rparr>\<rparr>"
  let ?w = "w\<lparr>w_store := kv_set (w_store w) ParamsKey (ParamsV ?p)\<rparr>"
  have "server_RemoveCodeUploadParamsAddresses k ctx req w = (Ok (), ?w)"
    using assms none
    by (simp add: server_RemoveCodeUploadParamsAddresses_def liftE_def requireAuthority_def guardM_def
        updateUploadAddresses_def bindM_apply SetParams_def storeSet_def modifyM_def)
  moreover have "GetParams ?w = (Ok ?p, ?w)"
    by (simp add: GetParams_def bindM_apply storeGet_def basic_apply kv_get_set)
  moreover have "Params_ValidateBasic (k_addr k) ?p \<noteq> Inr ()"
    using assms(2)
    by (simp add: Params_ValidateBasic_def bindE_Inr_iff AccessConfig_ValidateBasic_def validateBech32Addresses_def)
  ultimately show ?thesis by blast
qed

theorem removing_all_uploaders_invalidates_params_witness:
  "\<exists>w' p'. server_RemoveCodeUploadParamsAddresses sample_k sample_ctx
       \<lparr>rem_Authority = ''gov'', rem_Addresses = [''alice'']\<rparr> (sample_world [(ParamsKey, ParamsV sample_closed)]) = (Ok (), w') \<and>
     GetParams w' = (Ok p', w') \<and> Params_ValidateBasic (k_addr sample_k) p' \<noteq> Inr () \<and>
     Params_ValidateBasic (k_addr sample_k) sample_closed = Inr ()"
proof -
  have "GetParams (sample_world [(ParamsKey, ParamsV sample_closed)]) =
      (Ok sample_closed, sample_world [(ParamsKey, ParamsV sample_closed)])"
    by (simp add: GetParams_def bindM_apply storeGet_def basic_apply sample_world_def)
  from removing_all_uploaders_invalidates_params [OF this, of "\<lparr>rem_Authority = ''gov'', rem_Addresses = [''alice'']\<rparr>" sample_k sample_ctx]
  show ?thesis
    by (auto simp: sample_closed_def sample_k_simps sample_sdk_simps MsgRemoveCodeUploadParamsAddresses_ValidateBasic_def
        checkAddr_def wrapE_def validateBech32Addresses_def MaxAddressCount_def sample_codec_def
        Params_ValidateBasic_def validateAccessType_def AllAccessTypes_def AccessConfig_ValidateBasic_def)
qed

text \<open>
  A proposal to instantiate with a salt of more than 64 bytes passes its validation and can
  never be executed: building the address panics.
\<close>

theorem long_salt_proposal_never_executes:
  assumes "length (i2p_Salt p) > 64"
  shows "\<nexists>w'. handleInstantiate2Proposal pk ctx p w = (Ok (), w')"
proof
  assume "\<exists>w'. handleInstantiate2Proposal pk ctx p w = (Ok (), w')"
  then show False
    using assms
    by (auto simp: handleInstantiate2Proposal_def pk_Instantiate2_def instantiate_def
        PredictableAddressGenerator_def BuildContractAddressPredictable_def ValidateSalt_def MaxSaltSize_def
        prog_Ok_iffs elim!: bindM_Ok_E split: if_splits option.splits)
qed

theorem long_salt_proposal_never_executes_witness:
  "InstantiateContract2Proposal_ValidateBasic sample_sdk sample_long_salt = Inr () \<and>
   (\<nexists>w'. handleInstantiate2Proposal (NewPermissionedKeeper sample_k DefaultAuthorizationPolicy) sample_ctx sample_long_salt
      (sample_world sample_store4) = (Ok (), w'))"
proof
  show "InstantiateContract2Proposal_ValidateBasic sample_sdk sample_long_salt = Inr ()"
    by (simp add: InstantiateContract2Proposal_ValidateBasic_def sample_long_salt_def validateProposalCommons_def
        proposalRunAs_def proposalAdmin_def checkCodeID_def ValidateLabel_def checkPayload_def proposalFunds_def
        RawContractMessage_ValidateBasic_def MaxLabelSize_def checkAddr_def wrapE_def requireE_def sample_sdk_def sample_codec_def)
  show "\<nexists>w'. handleInstantiate2Proposal (NewPermissionedKeeper sample_k DefaultAuthorizationPolicy) sample_ctx sample_long_salt
      (sample_world sample_store4) = (Ok (), w')"
    by (rule long_salt_proposal_never_executes) (simp add: sample_long_salt_def)
qed

end
