(* ===== verification/Packets.thy ===== *)
theory Packets
  imports Sample_App
begin

text \<open>
  The life of a packet in \<open>x/wasm/ibc.go\<close>, \<open>keeper/relay.go\<close> and \<open>keeper/handler_plugin.go\<close>: its
  conversion for the contract and back, the acknowledgement that is delayed and written later, and
  who receives callbacks.
\<close>

lemma packet_conv: "convertPacket (newIBCPacket packet) = packet"
  by (cases packet) (auto simp: convertPacket_def newIBCPacket_def)

section \<open>Delayed acknowledgements\<close>

lemma LoadAsyncAckPacket_stored:
  "kv_get (w_store w) (asyncAckKey p c i) = Some (PacketV pkt) \<Longrightarrow> LoadAsyncAckPacket p c i w = (Ok pkt, w)"
  by (simp add: LoadAsyncAckPacket_def bindM_def storeGet_def returnM_def)

lemma LoadAsyncAckPacket_missing:
  "kv_get (w_store w) (asyncAckKey p c i) = None \<Longrightarrow>
     LoadAsyncAckPacket p c i w = (Err (WrappedError ''packet'' ErrNotFound), w)"
  by (simp add: LoadAsyncAckPacket_def bindM_def storeGet_def failM_def)

lemma StoreAsyncAckPacket_Ok:
  "StoreAsyncAckPacket pkt w = (r, w') \<Longrightarrow>
     kv_get (w_store w') (asyncAckKey (packet_DestinationPort pkt) (packet_DestinationChannel pkt) (packet_Sequence pkt)) =
       Some (PacketV pkt)"
  by (auto simp: StoreAsyncAckPacket_def storeSet_def modifyM_def kv_get_set)

lemma LoadAsyncAckPacket_Ok_iff:
  "LoadAsyncAckPacket p c i w = (Ok pkt, w') \<longleftrightarrow> kv_get (w_store w) (asyncAckKey p c i) = Some (PacketV pkt) \<and> w' = w"
  by (auto simp: LoadAsyncAckPacket_def bindM_def storeGet_def returnM_def failM_def
      split: option.splits store_value.splits)

lemma OnRecvPacket_None:
  assumes "OnRecvPacket k ctx contractAddr msg w = (Ok None, w')"
  shows "\<exists>w1. StoreAsyncAckPacket (convertPacket (prm_Packet msg)) w1 = (Ok (), w')"
  using assms unfolding OnRecvPacket_def
  by (elim bindM_Ok_E)
     (auto simp: basic_Ok_iff elim!: bindM_Ok_E split: prod.splits sum.splits option.splits if_splits, blast)

lemma neutral_channelCapability: "neutral (channelCapability sdk p c)"
  unfolding channelCapability_def by (intro neutral_rules)

lemma WriteAcknowledgement_Ok:
  assumes "IBCRawPacketHandler_DispatchMsg sdk ctx contractAddr portID msg w = (Ok r, w')"
    and "cm_IBC msg = Some ibc" and "ibc_SendPacket ibc = None" and "ibc_WriteAcknowledgement ibc = Some wa"
  shows "\<exists>packet w1. kv_get (w_store w) (asyncAckKey portID (wa_ChannelID wa) (wa_PacketSequence wa)) = Some (PacketV packet) \<and>
     DeleteAsyncAckPacket portID (wa_ChannelID wa) (wa_PacketSequence wa) w1 = (Ok (), w')"
proof -
  obtain cap w1 packet w2 w3 where "channelCapability sdk portID (wa_ChannelID wa) w = (Ok cap, w1)"
    and "LoadAsyncAckPacket portID (wa_ChannelID wa) (wa_PacketSequence wa) w1 = (Ok packet, w2)"
    and "DeleteAsyncAckPacket portID (wa_ChannelID wa) (wa_PacketSequence wa) w3 = (Ok (), w')"
    using assms unfolding IBCRawPacketHandler_DispatchMsg_def
    by (auto simp: basic_Ok_iff tryM_Ok_iff elim!: bindM_Ok_E split: sum.splits)
  then show ?thesis using neutralD [OF neutral_channelCapability] by (fastforce simp: LoadAsyncAckPacket_Ok_iff)
qed

section \<open>Sample packets\<close>

definition sample_packet :: Packet where
  "sample_packet = \<lparr>packet_Sequence = 9, packet_SourcePort = ''transfer'', packet_SourceChannel = ''channel-7'',
     packet_DestinationPort = ''wasm.contract'', packet_DestinationChannel = ''channel-0'',
     packet_Data = ''data'', packet_TimeoutHeight = (0, 0), packet_TimeoutTimestamp = 5\<rparr>"

definition sample_ack :: CosmosMsg where
  "sample_ack = \<lparr>cm_Bank = None, cm_Custom = None, cm_Distribution = None, cm_Gov = None,
     cm_IBC = Some \<lparr>ibc_Transfer = None, ibc_SendPacket = None,
       ibc_WriteAcknowledgement = Some \<lparr>wa_Ack = ''ack'', wa_ChannelID = ''channel-0'', wa_PacketSequence = 9\<rparr>,
       ibc_CloseChannel = None, ibc_PayPacketFee = None, ibc_PayPacketFeeAsync = None\<rparr>,
     cm_Staking = None, cm_Any = None, cm_Wasm = None\<rparr>"

lemma sample_recv: "vm_IBCPacketReceive sample_vm = (\<lambda>_ _ _. sample_call
    \<lparr>recv_Ok = Some \<lparr>recv_Acknowledgement = None, recv_Messages = [], recv_Attributes = [], recv_Events = []\<rparr>,
     recv_Err = []\<rparr>)"
  by (simp add: sample_vm_def Let_def)

definition sample_ibc_world :: "(unit, unit) world" where
  "sample_ibc_world = sample_world [(GetCodeKey 1, CodeInfoV sample_code),
     (GetContractAddressKey ''contract'', ContractInfoV (sample_info 1))]"

lemma sample_ibc_events: "sample_ibc_world\<lparr>w_env := (w_env sample_ibc_world)\<lparr>es_events := []\<rparr>\<rparr> = sample_ibc_world"
  by (simp add: sample_ibc_world_def sample_world_def)

lemma sample_relay:
  "relayVM sample_k sample_ctx ''contract'' (\<lambda>checksum env. vm_IBCPacketReceive sample_vm checksum env msg) sample_ibc_world =
     (Ok (sample_info 1, Inr (Some
       \<lparr>recv_Ok = Some \<lparr>recv_Acknowledgement = None, recv_Messages = [], recv_Attributes = [], recv_Events = []\<rparr>,
        recv_Err = []\<rparr>)), sample_ibc_world)"
  by (simp add: relayVM_def contractInstance_def sample_ibc_world_def sample_recv sample_call_defs sample_keys
      sample_info_def NewContractInfo_def)

lemma sample_response_handled:
  "handleContractResponse sample_k sample_ctx ''contract'' port [] [] None [] sample_ibc_world = (Ok None, sample_ibc_world)"
  by (simp add: handleContractResponse_def sample_k_simps sample_monad EventCosts_def eventAttributeCosts_def storedBytes_def
      calcWithFreeTier_def sample_ibc_world_def sample_world_def NewGasMeter_def DefaultGasRegisterConfig_def)

lemma sample_receive:
  "\<exists>w'. IBCHandler_OnRecvPacket sample_k sample_ctx sample_packet ''relayer'' sample_ibc_world = (Ok None, w')"
  by (simp add: IBCHandler_OnRecvPacket_def sample_packet_def ContractFromPortID_def portIDPrefix_def sample_k_simps
      sample_sdk_simps sample_codec_def withEvents_def tryM_def bindM_def sample_ibc_events OnRecvPacket_def sample_relay
      derefM_def returnM_def sample_response_handled StoreAsyncAckPacket_def storeSet_def emitEvents_def modifyM_def
      EmitAcknowledgementEvent_def emitEvent_def)

section \<open>Properties\<close>

definition sample_refusing :: "(unit, unit) Keeper" where
  "sample_refusing = sample_k\<lparr>k_vm := sample_vm\<lparr>vm_IBCChannelOpen :=
     (\<lambda>_ _ _. sample_call \<lparr>open_Ok = None, open_Err = ''refused''\<rparr>)\<rparr>\<rparr>"

definition sample_channel :: IBCChannel where
  "sample_channel = \<lparr>ch_Endpoint = \<lparr>ep_PortID = ''port'', ep_ChannelID = ''channel-0''\<rparr>,
     ch_CounterpartyEndpoint = \<lparr>ep_PortID = ''other'', ep_ChannelID = ''channel-1''\<rparr>, ch_Order = ''ORDER_UNORDERED'',
     ch_Version = ''v1'', ch_ConnectionID = ''connection-0''\<rparr>"

lemma sample_refusal:
  "\<exists>info w'. relayVM sample_refusing sample_ctx sample_contract
      (\<lambda>checksum env. vm_IBCChannelOpen (k_vm sample_refusing) checksum env (OpenInit sample_channel)) (sample_world sample_store4) =
       (Ok (info, Inr (Some \<lparr>open_Ok = None, open_Err = ''refused''\<rparr>)), w')"
proof -
  have "contractInstance sample_refusing sample_contract (sample_world sample_store4) =
      (Ok (sample_info 1, sample_code), sample_world sample_store4)"
    using reachable_ok [OF sample_isolated sample_reachable4]
    by (simp add: eval_contractInstance sample_world_store sample_views4 sample_info_def NewContractInfo_def)
  then show ?thesis
    by (simp add: relayVM_def bindM_apply)
       (simp add: sample_refusing_def sample_run_defs NewEnv_def sample_ctx_def callVM_def sample_call_def withMeter_def
         sample_world_def)
qed

text \<open>
  The packet a contract leaves unacknowledged is the packet that arrived: converting a packet for
  the contract and back is the identity, also for packets without a timeout height.
\<close>

theorem packet_conversion_roundtrip: "convertPacket (newIBCPacket packet) = packet"
  by (rule packet_conv)

text \<open>
  C38: When a contract returns no acknowledgement, the packet is kept: it is found under its port,
  channel and sequence, unchanged.
\<close>

theorem unacknowledged_packet_kept:
  assumes "IBCHandler_OnRecvPacket k ctx packet relayer w = (Ok None, w')"
  shows "LoadAsyncAckPacket (packet_DestinationPort packet) (packet_DestinationChannel packet)
           (packet_Sequence packet) w' = (Ok packet, w')"
proof -
  obtain contractAddr w0 w1 where recv: "OnRecvPacket k ctx contractAddr
      \<lparr>prm_Packet = newIBCPacket packet, prm_Relayer = addr_String (k_addr k) relayer\<rparr> w0 = (Ok None, w1)"
    and w': "w_store w' = w_store w1"
    using assms unfolding IBCHandler_OnRecvPacket_def
    by (auto simp: withEvents_def tryM_def bindM_def returnM_def panicM_def EmitAcknowledgementEvent_def emitEvent_def
        emitEvents_def modifyM_def Let_def split: sum.splits prod.splits outcome.splits option.splits if_splits)
  from OnRecvPacket_None [OF recv] StoreAsyncAckPacket_Ok packet_conv show ?thesis
    by (intro LoadAsyncAckPacket_stored) (fastforce simp: w')
qed

theorem unacknowledged_packet_kept_witness:
  "\<exists>w'. IBCHandler_OnRecvPacket sample_k sample_ctx sample_packet ''relayer'' sample_ibc_world = (Ok None, w') \<and>
     LoadAsyncAckPacket ''wasm.contract'' ''channel-0'' 9 w' = (Ok sample_packet, w')"
proof -
  obtain w' where w': "IBCHandler_OnRecvPacket sample_k sample_ctx sample_packet ''relayer'' sample_ibc_world = (Ok None, w')"
    using sample_receive by blast
  from unacknowledged_packet_kept [OF w'] w' show ?thesis by (simp add: sample_packet_def)
qed

text \<open>
  C39: A delayed acknowledgement is written at most once, and only for a packet that waits for it:
  after a contract has written it, the packet is gone.
\<close>

theorem acknowledgement_written_once:
  assumes "IBCRawPacketHandler_DispatchMsg sdk ctx contractAddr portID msg w = (Ok r, w')"
    and "cm_IBC msg = Some ibc" and "ibc_SendPacket ibc = None" and "ibc_WriteAcknowledgement ibc = Some wa"
  shows "(\<exists>packet. LoadAsyncAckPacket portID (wa_ChannelID wa) (wa_PacketSequence wa) w = (Ok packet, w)) \<and>
         LoadAsyncAckPacket portID (wa_ChannelID wa) (wa_PacketSequence wa) w' =
           (Err (WrappedError ''packet'' ErrNotFound), w')"
proof -
  from WriteAcknowledgement_Ok [OF assms] obtain packet w1
    where stored: "kv_get (w_store w) (asyncAckKey portID (wa_ChannelID wa) (wa_PacketSequence wa)) = Some (PacketV packet)"
      and gone: "DeleteAsyncAckPacket portID (wa_ChannelID wa) (wa_PacketSequence wa) w1 = (Ok (), w')" by blast
  from gone have "kv_get (w_store w') (asyncAckKey portID (wa_ChannelID wa) (wa_PacketSequence wa)) = None"
    by (auto simp: DeleteAsyncAckPacket_def storeDelete_def modifyM_def kv_get_delete)
  with stored show ?thesis by (auto simp: LoadAsyncAckPacket_missing LoadAsyncAckPacket_Ok_iff)
qed

theorem acknowledgement_written_once_witness:
  "\<exists>r w'. IBCRawPacketHandler_DispatchMsg sample_sdk sample_ctx ''contract'' ''port'' sample_ack
       (sample_world [(asyncAckKey ''port'' ''channel-0'' 9, PacketV sample_packet)]) = (Ok r, w') \<and>
     LoadAsyncAckPacket ''port'' ''channel-0'' 9 w' = (Err (WrappedError ''packet'' ErrNotFound), w')"
proof -
  obtain r w' where run: "IBCRawPacketHandler_DispatchMsg sample_sdk sample_ctx ''contract'' ''port'' sample_ack
       (sample_world [(asyncAckKey ''port'' ''channel-0'' 9, PacketV sample_packet)]) = (Ok r, w')"
    by (simp add: IBCRawPacketHandler_DispatchMsg_def sample_ack_def channelCapability_def LoadAsyncAckPacket_def
        DeleteAsyncAckPacket_def tryM_def sample_monad sample_sdk_def sample_world_def)
  have ibc: "cm_IBC sample_ack = Some (the (cm_IBC sample_ack))" by (simp add: sample_ack_def)
  from acknowledgement_written_once [OF run ibc] run show ?thesis by (fastforce simp: sample_ack_def)
qed

text \<open>
  Only the sender of a packet is called back about it: a callback for another address fails
  before any contract runs.
\<close>

theorem callbacks_reach_sender_only:
  assumes "AccAddressFromBech32 (k_addr k) contractAddress = Inr a"
    and "AccAddressFromBech32 (k_addr k) packetSender = Inr b" and "a \<noteq> b"
  shows "\<exists>err. IBCHandler_IBCOnAcknowledgementPacketCallback k ctx packet ack relayer contractAddress packetSender w = (Err err, w) \<and>
     IBCHandler_IBCOnTimeoutPacketCallback k ctx packet relayer contractAddress packetSender w = (Err err, w) \<and>
     IBCHandler_IBCSendPacketCallback k ctx contractAddress packetSender w = (Err err, w)"
  using assms
  by (simp add: IBCHandler_IBCOnAcknowledgementPacketCallback_def IBCHandler_IBCOnTimeoutPacketCallback_def
      IBCHandler_IBCSendPacketCallback_def validateSender_def wrapE_def liftE_def basic_apply)

theorem callbacks_reach_sender_only_witness:
  "\<exists>err. IBCHandler_IBCOnAcknowledgementPacketCallback sample_k sample_ctx sample_packet ''ack'' ''relayer'' ''alice'' ''bob''
     (sample_world []) = (Err err, sample_world [])"
  using callbacks_reach_sender_only [of sample_k "''alice''" "''alice''" "''bob''" "''bob''" sample_ctx sample_packet
      "''ack''" "''relayer''" "sample_world []"]
  by (auto simp: sample_k_simps sample_sdk_simps sample_codec_def)

text \<open>
  A contract cannot refuse a channel by an error of its own: whatever error it returns to the
  opening of a channel is dropped, and the channel is accepted with the empty version, which stands
  for the proposed one.
\<close>

theorem channel_refusal_ignored:
  assumes "relayVM k ctx contractAddr (\<lambda>checksum env. vm_IBCChannelOpen (k_vm k) checksum env msg) w =
       (Ok (info, Inr (Some \<lparr>open_Ok = None, open_Err = refusal\<rparr>)), w')"
  shows "OnOpenChannel k ctx contractAddr msg w = (Ok [], w')"
  using assms by (simp add: OnOpenChannel_def bindM_apply basic_apply)

theorem channel_refusal_ignored_witness:
  "\<exists>w'. OnOpenChannel sample_refusing sample_ctx sample_contract (OpenInit sample_channel) (sample_world sample_store4) = (Ok [], w')"
proof -
  obtain info w' where "relayVM sample_refusing sample_ctx sample_contract
      (\<lambda>checksum env. vm_IBCChannelOpen (k_vm sample_refusing) checksum env (OpenInit sample_channel)) (sample_world sample_store4) =
       (Ok (info, Inr (Some \<lparr>open_Ok = None, open_Err = ''refused''\<rparr>)), w')"
    using sample_refusal by blast
  from channel_refusal_ignored [OF this] show ?thesis by blast
qed

end
