(* ===== verification/Submessages.thy ===== *)
theory Submessages
  imports Dispatcher Sample_Chain
begin

text \<open>
  What the dispatcher of \<open>keeper/msg_dispatcher.go\<close> and the handlers of
  \<open>keeper/handler_plugin.go\<close> guarantee for the messages of a contract, whatever handler runs
  them: rollback of failed submessages, their gas limit, what an error tells the contract, and
  that no message runs in the name of another account.
\<close>

section \<open>Gas of a limited submessage\<close>

text \<open>
  The meter discipline a message handler keeps: a run that does not panic leaves the meter within
  the limit it started with. The gas meter of the SDK panics as soon as it is beyond its limit.
\<close>

definition metered :: "('w, 'v, 'a) op \<Rightarrow> bool" where
  "metered m \<longleftrightarrow> (\<forall>w r w'. m w = (r, w') \<longrightarrow> \<not> is_panic r \<longrightarrow>
     gm_consumed (es_meter (w_env w')) \<le> gm_limit (es_meter (w_env w)))"

abbreviation meter_of :: "('w, 'v) world \<Rightarrow> gas_meter" where
  "meter_of w \<equiv> es_meter (w_env w)"

lemma meter_withMeter [simp]: "meter_of (withMeter g w) = g"
  by (simp add: withMeter_def)

lemma consumeGas_within:
  assumes "gm_consumed (meter_of w) \<le> gm_limit (meter_of w)"
    and "amount \<le> gm_limit (meter_of w) - gm_consumed (meter_of w)"
  shows "\<exists>w'. consumeGas amount d w = (Ok (), w') \<and>
     meter_of w' = (meter_of w)\<lparr>gm_consumed := gm_consumed (meter_of w) + amount\<rparr> \<and>
     unat (gm_consumed (meter_of w) + amount) = unat (gm_consumed (meter_of w)) + unat amount \<and>
     gm_consumed (meter_of w) + amount \<le> gm_limit (meter_of w)"
proof -
  let ?c = "gm_consumed (meter_of w)" and ?l = "gm_limit (meter_of w)"
  have diff: "unat (?l - ?c) = unat ?l - unat ?c" using assms(1) by (rule unat_sub)
  then have sum: "unat ?c + unat amount \<le> unat ?l"
    using assms by (simp add: word_le_nat_alt)
  also have "\<dots> < 2 ^ 64" using unsigned_less [of ?l] by simp
  finally have add: "unat (?c + amount) = unat ?c + unat amount"
    by (simp add: unat_word_ariths)
  have max: "unat (- 1 - ?c) = 2 ^ 64 - 1 - unat ?c"
    by (subst unat_sub) (simp_all add: unsigned_minus_1_eq_mask mask_eq_exp_minus_1)
  have "\<not> - 1 - ?c < amount"
    using sum unat_u64_less [of ?l] by (simp add: word_less_nat_alt max)
  moreover have within: "?c + amount \<le> ?l" using sum add by (simp add: word_le_nat_alt)
  ultimately show ?thesis
    using add by (simp add: consumeGas_def liftX_def liftGas_def ConsumeGas_def addUint64Overflow_def Let_def not_less)
qed

lemma limitGas_room:
  assumes "limitGas meter msg = Some l"
  shows "l \<le> gm_limit meter - gm_consumed meter"
  using assms by (auto simp: limitGas_def split: option.splits if_splits)

lemma meter_sandbox:
  "sandbox m w = (r, w') \<Longrightarrow> \<exists>q w1. m (w\<lparr>w_env := (w_env w)\<lparr>es_events := []\<rparr>\<rparr>) = (q, w1) \<and>
     meter_of w' = meter_of w1 \<and> (is_panic r \<longleftrightarrow> is_panic q) \<and> (\<forall>p. r = Panic p \<longleftrightarrow> q = Panic p)"
  by (auto simp: sandbox_def split: prod.splits outcome.splits)

lemma dispatch_within_limit:
  assumes "metered (messenger ctx contractAddr ibcPort msg)"
    and within: "gm_consumed (meter_of w) \<le> gm_limit (meter_of w)"
    and room: "l \<le> gm_limit (meter_of w) - gm_consumed (meter_of w)"
    and run: "dispatchMsgWithGasLimit messenger ctx contractAddr ibcPort msg l w = (r, w')"
  shows "r \<noteq> Panic (PanicOutOfGas d) \<and> (is_panic r \<or>
     gm_limit (meter_of w') = gm_limit (meter_of w) \<and> gm_consumed (meter_of w') \<le> gm_limit (meter_of w) \<and>
     unat (gm_consumed (meter_of w')) \<le> unat (gm_consumed (meter_of w)) + unat l)"
proof -
  let ?m = "messenger ctx contractAddr ibcPort msg"
  obtain q w1 where m: "?m (withMeter (NewGasMeter l) w) = (q, w1)" by fastforce
  define w2 where "w2 = withMeter (meter_of w) w1"
  have charge: "\<exists>w3. consumeGas n e w2 = (Ok (), w3) \<and> gm_limit (meter_of w3) = gm_limit (meter_of w) \<and>
      gm_consumed (meter_of w3) \<le> gm_limit (meter_of w) \<and>
      unat (gm_consumed (meter_of w3)) = unat (gm_consumed (meter_of w)) + unat n"
    if "n \<le> l" for n e
    using consumeGas_within [of w2 n e] within room that by (fastforce simp: w2_def)
  show ?thesis
  proof (cases "is_panic q")
    case True
    then obtain p where q: "q = Panic p" by (cases q) auto
    then have limited: "runLimited l ?m w = (Panic p, w2)"
      using m by (simp add: runLimited_def w2_def)
    show ?thesis
    proof (cases "\<exists>e. p = PanicOutOfGas e")
      case True
      then obtain e where e: "p = PanicOutOfGas e" ..
      obtain w3 where w3: "consumeGas l ''Sub-Message OutOfGas panic'' w2 = (Ok (), w3)"
        "gm_limit (meter_of w3) = gm_limit (meter_of w)" "gm_consumed (meter_of w3) \<le> gm_limit (meter_of w)"
        "unat (gm_consumed (meter_of w3)) = unat (gm_consumed (meter_of w)) + unat l"
        using charge [of l] by fastforce
      with run limited e show ?thesis
        by (auto simp: dispatchMsgWithGasLimit_def recoverOutOfGas_def bindM_def failM_def)
    next
      case False
      with run limited show ?thesis
        by (cases p) (auto simp: dispatchMsgWithGasLimit_def recoverOutOfGas_def)
    qed
  next
    case False
    have "gm_consumed (meter_of w1) \<le> l"
      using assms(1) m False unfolding metered_def by (fastforce simp: NewGasMeter_def)
    from charge [OF this, of "''From limited Sub-Message''"] obtain w3
      where w3: "consumeGas (gm_consumed (meter_of w1)) ''From limited Sub-Message'' w2 = (Ok (), w3)"
        "gm_limit (meter_of w3) = gm_limit (meter_of w)" "gm_consumed (meter_of w3) \<le> gm_limit (meter_of w)"
        "unat (gm_consumed (meter_of w3)) = unat (gm_consumed (meter_of w)) + unat (gm_consumed (meter_of w1))"
      by blast
    have "runLimited l ?m w = (q, w3)"
      using m False w3(1) by (cases q) (simp_all add: runLimited_def flip: w2_def)
    then have "r = q" and "w' = w3"
      using run False by (cases q; simp add: dispatchMsgWithGasLimit_def recoverOutOfGas_def)+
    with False w3 \<open>gm_consumed (meter_of w1) \<le> l\<close> show ?thesis by (auto simp: word_le_nat_alt)
  qed
qed

section \<open>A sample submessage\<close>

definition sample_submessage :: "u64 option \<Rightarrow> SubMsg" where
  "sample_submessage limit =
     \<lparr>sub_ID = 1,
      sub_Msg = \<lparr>cm_Bank = None, cm_Custom = None, cm_Distribution = None, cm_Gov = None, cm_IBC = None,
                 cm_Staking = None, cm_Any = None, cm_Wasm = None\<rparr>,
      sub_Payload = [], sub_GasLimit = limit, sub_ReplyOn = ReplyError\<rparr>"

text \<open>A handler that writes to the store, spends gas and fails.\<close>

definition sample_failing :: "(unit, unit) messenger" where
  "sample_failing ctx a port msg =
     bindM (storeSet ''key'' (RawV ''value'')) (\<lambda>_. bindM (consumeGas 70 ''sample'') (\<lambda>_. failM ErrInvalid))"

lemmas sample_failing_defs = sample_failing_def sample_submessage_def sample_world_def runSubmessage_def sandbox_def
  bindM_def storeSet_def modifyM_def failM_def readMeter_def limitGas_def consumeGas_def liftX_def liftGas_def
  ConsumeGas_def addUint64Overflow_def NewGasMeter_def

lemma sample_failing_metered: "metered (sample_failing ctx a port msg)"
  unfolding metered_def
  by (auto simp: sample_failing_def bindM_def storeSet_def modifyM_def failM_def consumeGas_def liftX_def
      liftGas_def ConsumeGas_def Let_def split: if_splits prod.splits)

section \<open>Properties\<close>





text \<open>
  What a contract learns about a failed submessage does not depend on the wording of errors: two
  runs that end in the same state with errors of one codespace and code, neither of them marked as
  deterministic, go on in the same way.
\<close>

theorem redacted_errors_agree:
  assumes "runSubmessage messenger ctx contractAddr ibcPort msg w = (Ok (Inl err), w1)"
    and "runSubmessage messenger' ctx contractAddr ibcPort msg w = (Ok (Inl err'), w1)"
    and "ToSystemError err = None" and "\<not> isDeterministic err"
    and "ToSystemError err' = None" and "\<not> isDeterministic err'"
    and "sdk_ABCIInfo sdk err = sdk_ABCIInfo sdk err'"
    and "sub_ReplyOn msg = ReplyError \<or> sub_ReplyOn msg = ReplyAlways"
  shows "dispatchSubmessage sdk messenger replyer ctx contractAddr ibcPort msg rsp w =
         dispatchSubmessage sdk messenger' replyer ctx contractAddr ibcPort msg rsp w"
proof -
  have "failureResult sdk err = failureResult sdk err'"
    using assms(3-7) by (simp add: failureResult_def redactError_def)
  then show ?thesis
    using assms(1,2,8) by (auto simp: dispatchSubmessage_def bindM_def guardM_def returnM_def)
qed

theorem redacted_errors_agree_witness:
  "dispatchSubmessage sample_sdk (\<lambda>_ _ _ _. failM (WrappedError ''one wording'' ErrInvalid)) (\<lambda>_ _ _. returnM (Some ''data''))
     sample_ctx ''contract'' [] (sample_submessage None) None (sample_world []) =
   dispatchSubmessage sample_sdk (\<lambda>_ _ _ _. failM (WrappedError ''another'' ErrInvalid)) (\<lambda>_ _ _. returnM (Some ''data''))
     sample_ctx ''contract'' [] (sample_submessage None) None (sample_world [])"
proof -
  have run: "runSubmessage (\<lambda>_ _ _ _. failM (WrappedError t ErrInvalid)) sample_ctx ''contract'' [] (sample_submessage None)
      (sample_world []) = (Ok (Inl (WrappedError t ErrInvalid)), sample_world [])" for t
    by (simp add: sample_failing_defs)
  show ?thesis
    by (rule redacted_errors_agree [OF run run])
       (simp_all add: sample_sdk_def sample_submessage_def ErrInvalid_def wasmErr_def)
qed

text \<open>
  C32: No contract acts for another account: a message that another account has to sign fails and
  its handler is not run; a message that was handled was signed by the contract alone.
\<close>

theorem contract_signs_its_messages:
  assumes "handleSdkMessage router ctx contractAddr msg w = (res, w')"
    and "rt_Signers router msg = Inr signers"
  shows "set signers \<subseteq> {contractAddr} \<or> w' = w \<and> (\<exists>err. res = Err err)"
proof (cases "list_all (\<lambda>acct. contractAddr = acct) signers")
  case True
  then show ?thesis by (auto simp: list_all_iff)
next
  case False
  with assms show ?thesis
    by (cases "rt_ValidateBasic router msg")
       (auto simp: handleSdkMessage_def bindM_def liftE_def guardM_def failM_def returnM_def)
qed

definition sample_handler_router :: "(unit, unit) message_router" where
  "sample_handler_router = \<lparr>rt_ValidateBasic = (\<lambda>_. Inr ()), rt_Signers = (\<lambda>_. Inr [''alice'', ''bob'']),
     rt_Handler = (\<lambda>_. Some (\<lambda>_. bindM (storeSet ''key'' (RawV [])) (\<lambda>_.
       returnM \<lparr>sr_Data = None, sr_Events = [], sr_MsgResponses = []\<rparr>)))\<rparr>"

theorem contract_signs_its_messages_witness:
  "\<exists>err. handleSdkMessage sample_handler_router sample_ctx ''alice''
     (ClearAdminMessage \<lparr>ca_Sender = ''alice'', ca_Contract = ''contract''\<rparr>) (sample_world []) = (Err err, sample_world [])"
proof -
  obtain res w' where run: "handleSdkMessage sample_handler_router sample_ctx ''alice''
     (ClearAdminMessage \<lparr>ca_Sender = ''alice'', ca_Contract = ''contract''\<rparr>) (sample_world []) = (res, w')" by fastforce
  from contract_signs_its_messages [OF run, of "[''alice'', ''bob'']"] run show ?thesis
    by (auto simp: sample_handler_router_def)
qed

end
