(* ===== verification/Addresses.thy ===== *)
theory Addresses
  imports Keeper_Calls Sample_Chain
begin

text \<open>
  Addresses of contracts (\<open>keeper/addresses.go\<close>). An address is the hash of a key, and the keys of
  both ways to build one determine what they were built from.
\<close>

definition classic_key :: "u64 \<Rightarrow> u64 \<Rightarrow> bytes" where
  "classic_key codeID instanceID = Uint64ToBigEndian codeID @ Uint64ToBigEndian instanceID"

definition predictable_key :: "bytes \<Rightarrow> bytes \<Rightarrow> bytes \<Rightarrow> bytes \<Rightarrow> bytes" where
  "predictable_key checksum creator salt initMsg =
     UInt64LengthPrefix checksum @ UInt64LengthPrefix creator @ UInt64LengthPrefix salt @ UInt64LengthPrefix initMsg"

lemma classic_key_inj: "classic_key i n = classic_key j m \<longleftrightarrow> i = j \<and> n = m"
  by (simp add: classic_key_def)

lemma length_prefix_inj:
  assumes "length a < 2 ^ 64" and "length b < 2 ^ 64" and "UInt64LengthPrefix a @ s = UInt64LengthPrefix b @ t"
  shows "a = b \<and> s = t"
proof -
  have "(word_of_nat (length a) :: u64) = word_of_nat (length b)" and rest: "a @ s = b @ t"
    using assms(3) by (simp_all add: UInt64LengthPrefix_def)
  then have "length a = length b"
    using assms(1,2) by (simp add: word_of_nat_eq_iff take_bit_nat_eq_self)
  with rest show ?thesis by simp
qed

lemma predictable_key_inj:
  assumes "length c < 2 ^ 64" "length c' < 2 ^ 64" "length a < 2 ^ 64" "length a' < 2 ^ 64"
    "length s < 2 ^ 64" "length s' < 2 ^ 64" and "predictable_key c a s m = predictable_key c' a' s' m'"
  shows "c = c' \<and> a = a' \<and> s = s' \<and> m = m'"
proof -
  note eq = assms(7) [unfolded predictable_key_def]
  from length_prefix_inj [OF assms(1,2) eq] have c: "c = c'" and
    "UInt64LengthPrefix a @ UInt64LengthPrefix s @ UInt64LengthPrefix m =
     UInt64LengthPrefix a' @ UInt64LengthPrefix s' @ UInt64LengthPrefix m'" by auto
  from length_prefix_inj [OF assms(3,4) this(2)] have a: "a = a'" and
    "UInt64LengthPrefix s @ UInt64LengthPrefix m = UInt64LengthPrefix s' @ UInt64LengthPrefix m'" by auto
  from length_prefix_inj [OF assms(5,6) this(2)] have s: "s = s'" and "UInt64LengthPrefix m = UInt64LengthPrefix m'" by auto
  then show ?thesis using c a
    by (simp add: UInt64LengthPrefix_def)
qed

lemma predictable_key_long: "length checksum = 32 \<Longrightarrow> predictable_key checksum creator salt msg \<noteq> classic_key i n"
proof
  assume "length checksum = 32" and "predictable_key checksum creator salt msg = classic_key i n"
  from arg_cong [OF this(2), of length] this(1) show False
    by (simp add: predictable_key_def classic_key_def UInt64LengthPrefix_def)
qed

text \<open>
  C35: Two contracts get the same address only by a collision of the hash: an address is the hash of
  a key, different inputs of \<open>instantiate2\<close> have different keys, and so have different pairs of
  code and instance of \<open>instantiate\<close>; the keys of one are never keys of the other.
\<close>

theorem addresses_collide_only_by_hash:
  assumes "\<And>a. sdk_VerifyAddressFormat sdk a \<Longrightarrow> length a \<le> 255"
    and "BuildContractAddressPredictable sdk checksum creator salt initMsg = Ok x"
    and "BuildContractAddressPredictable sdk checksum' creator' salt' initMsg' = Ok y"
    and "BuildContractAddressClassic sdk i n = Ok z" and "BuildContractAddressClassic sdk j m = Ok z'"
  shows "\<exists>kx ky kz kz'. moduleAddress sdk kx = Ok x \<and> moduleAddress sdk ky = Ok y \<and>
     moduleAddress sdk kz = Ok z \<and> moduleAddress sdk kz' = Ok z' \<and>
     (kx = ky \<longleftrightarrow> (checksum, creator, salt, initMsg) = (checksum', creator', salt', initMsg')) \<and>
     (kz = kz' \<longleftrightarrow> (i, n) = (j, m)) \<and> kx \<noteq> kz"
proof -
  have valid: "length c = 32 \<and> length a < 2 ^ 64 \<and> length s < 2 ^ 64 \<and> moduleAddress sdk (predictable_key c a s msg) = Ok r"
    if "BuildContractAddressPredictable sdk c a s msg = Ok r" for c a s msg r
    using that assms(1) [of a]
    by (auto simp: BuildContractAddressPredictable_def predictable_key_def ValidateSalt_def MaxSaltSize_def split: if_splits)
  note x = valid [OF assms(2)] and y = valid [OF assms(3)]
  have "predictable_key checksum creator salt initMsg = predictable_key checksum' creator' salt' initMsg' \<longleftrightarrow>
     (checksum, creator, salt, initMsg) = (checksum', creator', salt', initMsg')"
    using x y predictable_key_inj [of checksum checksum' creator creator' salt salt' initMsg initMsg'] by auto
  then show ?thesis
    using x y assms(4,5) predictable_key_long [of checksum creator salt initMsg i n]
    unfolding BuildContractAddressClassic_def classic_key_def [symmetric]
    by (intro exI [of _ "predictable_key checksum creator salt initMsg"]
          exI [of _ "predictable_key checksum' creator' salt' initMsg'"] exI [of _ "classic_key i n"]
          exI [of _ "classic_key j m"]) (simp add: classic_key_inj)
qed

lemma sample_module_address: "\<exists>x. moduleAddress sample_sdk key = Ok x"
  by (simp add: moduleAddress_def ContractAddrLen_def sample_sdk_def)

lemma sample_addresses:
  assumes "salt \<noteq> []" and "length salt \<le> 64"
  shows "\<exists>x. BuildContractAddressPredictable sample_sdk (replicate 32 (CHR ''c'')) ''alice'' salt [] = Ok x"
proof -
  have "sdk_VerifyAddressFormat sample_sdk ''alice''" by (simp add: sample_sdk_def)
  with assms sample_module_address show ?thesis
    by (simp add: BuildContractAddressPredictable_def ValidateSalt_def MaxSaltSize_def)
qed

lemma sample_classic: "\<exists>x. BuildContractAddressClassic sample_sdk i n = Ok x"
  unfolding BuildContractAddressClassic_def by (rule sample_module_address)

theorem addresses_collide_only_by_hash_witness:
  "\<exists>x y kx ky. BuildContractAddressPredictable sample_sdk (replicate 32 (CHR ''c'')) ''alice'' ''1'' [] = Ok x \<and>
     BuildContractAddressPredictable sample_sdk (replicate 32 (CHR ''c'')) ''alice'' ''2'' [] = Ok y \<and>
     moduleAddress sample_sdk kx = Ok x \<and> moduleAddress sample_sdk ky = Ok y \<and> kx \<noteq> ky"
proof -
  obtain x y z where
    x: "BuildContractAddressPredictable sample_sdk (replicate 32 (CHR ''c'')) ''alice'' ''1'' [] = Ok x" and
    y: "BuildContractAddressPredictable sample_sdk (replicate 32 (CHR ''c'')) ''alice'' ''2'' [] = Ok y" and
    z: "BuildContractAddressClassic sample_sdk 1 1 = Ok z"
    using sample_addresses [of "''1''"] sample_addresses [of "''2''"] sample_classic [of 1 1] by auto
  have "sdk_VerifyAddressFormat sample_sdk a \<Longrightarrow> length a \<le> 255" for a by (simp add: sample_sdk_def)
  from addresses_collide_only_by_hash [OF this x y z z] x y show ?thesis by auto
qed

end
