(* ===== verification/Queries.thy ===== *)
theory Queries
  imports Sample_App
begin

text \<open>
  What contracts can reach. Queries between contracts: the counter of nested queries bounds their
  depth, so unrolling the wiring deeper than the limit changes no answer. Calls: while the VM runs a
  contract, only the entries below the prefix of that contract change.
\<close>

section \<open>Keepers that agree on what a query reads\<close>

definition same_keeper :: "('w, 'v) Keeper \<Rightarrow> ('w, 'v) Keeper \<Rightarrow> bool" where
  "same_keeper k k' \<longleftrightarrow> k_sdk k = k_sdk k' \<and> k_vm k = k_vm k' \<and> k_gasRegister k = k_gasRegister k' \<and>
     k_maxQueryStackSize k = k_maxQueryStackSize k'"

lemma NewKeeper_fields:
  "k_sdk (NewKeeper app n) = k_sdk (app_keeper app)" "k_vm (NewKeeper app n) = k_vm (app_keeper app)"
  "k_gasRegister (NewKeeper app n) = k_gasRegister (app_keeper app)"
  "k_maxQueryStackSize (NewKeeper app n) = k_maxQueryStackSize (app_keeper app)"
  by (cases n; simp add: Let_def)+

lemma same_keeper_NewKeeper: "same_keeper (NewKeeper app n) (NewKeeper app m)"
  by (simp add: same_keeper_def NewKeeper_fields)

lemma same_keeperD:
  assumes "same_keeper k k'"
  shows "k_sdk k = k_sdk k'" "k_vm k = k_vm k'" "k_gasRegister k = k_gasRegister k'"
    "k_maxQueryStackSize k = k_maxQueryStackSize k'"
  using assms by (simp_all add: same_keeper_def)

lemma runVM_cong:
  assumes "same_keeper k k'" and handler: "k_queryHandler k ctx = k_queryHandler k' ctx"
  shows "runVM k ctx = runVM k' ctx"
proof -
  note same = same_keeperD [OF assms(1)]
  have query: "QueryHandler_Query k ctx = QueryHandler_Query k' ctx"
    by (intro ext) (unfold QueryHandler_Query_def same handler, rule refl)
  have callback: "queryCallback k ctx = queryCallback k' ctx"
    by (intro ext) (unfold queryCallback_def query, rule refl)
  have call: "callVM k ctx = callVM k' ctx"
    by (intro ext) (unfold callVM_def callback, rule refl)
  show ?thesis
    by (intro ext) (unfold runVM_def call runtimeGasForContract_def consumeRuntimeGas_def same, rule refl)
qed

abbreviation query_depth :: "ctx \<Rightarrow> u32" where
  "query_depth ctx \<equiv> fst (QueryStackSize ctx)"

lemma QuerySmart_cong:
  assumes same: "same_keeper k k'"
    and handler: "\<And>ctx'. checkAndIncreaseQueryStackSize ctx (k_maxQueryStackSize k') = Inr ctx' \<Longrightarrow>
      k_queryHandler k ctx' = k_queryHandler k' ctx'"
  shows "QuerySmart k ctx = QuerySmart k' ctx"
proof (cases "checkAndIncreaseQueryStackSize ctx (k_maxQueryStackSize k')")
  case (Inl e)
  then show ?thesis using same by (intro ext) (simp add: QuerySmart_def same_keeper_def liftE_def)
next
  case (Inr ctx')
  have run: "runVM k ctx' = runVM k' ctx'" using same handler [OF Inr] by (rule runVM_cong)
  show ?thesis
    by (intro ext)
       (unfold QuerySmart_def contractInstance_def chargeSetup_def same_keeperD [OF same] Inr liftE_def sum.case bindM_basic run,
        rule refl)
qed

lemma deeper_query:
  assumes "checkAndIncreaseQueryStackSize ctx limit = Inr ctx'" and "limit \<noteq> - 1" and "query_depth ctx \<le> limit"
  shows "query_depth ctx' \<le> limit \<and> unat (query_depth ctx') = Suc (unat (query_depth ctx))"
proof -
  have "query_depth ctx \<noteq> - 1" using assms(2,3) by (metis word_order.extremum_unique)
  then have "unat (query_depth ctx + 1) = Suc (unat (query_depth ctx))"
    using unatSuc [of "query_depth ctx"] by (metis add.commute eq_neg_iff_add_eq_0)
  with assms(1) show ?thesis
    by (auto simp: checkAndIncreaseQueryStackSize_def Let_def WithQueryStackSize_def QueryStackSize_def
        split: if_splits)
qed

lemma queries_settle:
  assumes "k_maxQueryStackSize (app_keeper app) \<noteq> - 1"
    and "query_depth ctx \<le> k_maxQueryStackSize (app_keeper app)"
    and "unat (k_maxQueryStackSize (app_keeper app)) - unat (query_depth ctx) = d" and "d < n" and "d < m"
  shows "k_queryHandler (NewKeeper app n) ctx = k_queryHandler (NewKeeper app m) ctx"
  using assms(2-5)
proof (induction d arbitrary: ctx n m rule: less_induct)
  case (less d)
  let ?limit = "k_maxQueryStackSize (app_keeper app)"
  obtain n' m' where nm: "n = Suc n'" "m = Suc m'" using less.prems(3,4) by (metis less_imp_Suc_add)
  have "QuerySmart (NewKeeper app n') ctx = QuerySmart (NewKeeper app m') ctx"
  proof (rule QuerySmart_cong [OF same_keeper_NewKeeper])
    fix ctx' assume "checkAndIncreaseQueryStackSize ctx (k_maxQueryStackSize (NewKeeper app m')) = Inr ctx'"
    then have step: "checkAndIncreaseQueryStackSize ctx ?limit = Inr ctx'" by (simp add: NewKeeper_fields)
    note deep = deeper_query [OF step assms(1) less.prems(1)]
    then have "unat ?limit - unat (query_depth ctx') < d"
      using less.prems(2) by (auto simp: word_le_nat_alt)
    then show "k_queryHandler (NewKeeper app n') ctx' = k_queryHandler (NewKeeper app m') ctx'"
      using deep less.prems(3,4) nm by (intro less.IH) auto
  qed
  then have "WasmQuerier (NewKeeper app n') ctx = WasmQuerier (NewKeeper app m') ctx"
    by (intro ext) (unfold WasmQuerier_def NewKeeper_fields, simp only:)
  then show ?case
    by (intro ext) (simp add: nm Let_def QueryPlugins_HandleQuery_def DefaultQueryPlugins_def NewKeeper_fields
        cong: option.case_cong)
qed

section \<open>The stores of contracts\<close>

lemma filter_kv_set: "\<not> P k \<Longrightarrow> filter (\<lambda>(k, _). P k) (kv_set m k v) = filter (\<lambda>(k, _). P k) m"
  by (induction m k v rule: kv_set.induct) auto

lemma filter_fold_set:
  "(\<And>k. \<not> P (p @ k)) \<Longrightarrow>
   filter (\<lambda>(k, _). P k) (fold (\<lambda>(k, v) m'. kv_set m' (p @ k) (RawV v)) local m) = filter (\<lambda>(k, _). P k) m"
  by (induction local arbitrary: m) (auto simp: filter_kv_set)

lemma contract_prefixes_apart:
  assumes "length a = length b" and "a \<noteq> b" and "prefix (GetContractStorePrefix b) k"
  shows "\<not> prefix (GetContractStorePrefix a) k"
  using assms by (auto simp: GetContractStorePrefix_def ContractStorePrefix_def prefix_def append_eq_append_conv)

lemma contractStore_other:
  assumes "length a = length b" and "a \<noteq> b"
  shows "contractStore (putContractStore a local m) b = contractStore m b"
proof -
  have "\<not> prefix (GetContractStorePrefix b) (GetContractStorePrefix a @ k)" for k
    using contract_prefixes_apart [OF assms] by (meson prefixI)
  then have "filter (\<lambda>(k, _). prefix (GetContractStorePrefix b) k) (putContractStore a local m) =
      filter (\<lambda>(k, _). prefix (GetContractStorePrefix b) k)
        (filter (\<lambda>(k, _). \<not> prefix (GetContractStorePrefix a) k) m)"
    unfolding putContractStore_def by (rule filter_fold_set)
  also have "\<dots> = filter (\<lambda>(k, _). prefix (GetContractStorePrefix b) k) m"
    using contract_prefixes_apart [OF assms] by (auto simp: filter_filter intro!: filter_cong)
  finally show ?thesis by (simp add: contractStore_def strip_prefix_def)
qed

definition sample_port_query :: QueryRequest where
  "sample_port_query = \<lparr>qr_Bank = None, qr_Custom = None,
     qr_IBC = Some \<lparr>iq_PortID = True, iq_ListChannels = None, iq_Channel = None, iq_FeeEnabledChannel = None\<rparr>,
     qr_Staking = None, qr_Distribution = None, qr_Stargate = None, qr_Grpc = None, qr_Wasm = None\<rparr>"

section \<open>Properties\<close>

text \<open>
  C26: Nested queries end: with a limit below the largest 32-bit number, a keeper unrolled more
  often than the limit allows queries to nest gives every query the answer of a keeper unrolled
  arbitrarily often, so no query runs into the end of the unrolling.
\<close>

theorem nested_queries_end:
  assumes "k_maxQueryStackSize (app_keeper app) \<noteq> - 1"
    and "query_depth ctx \<le> k_maxQueryStackSize (app_keeper app)"
    and "unat (k_maxQueryStackSize (app_keeper app)) - unat (query_depth ctx) < n" and "n \<le> m"
  shows "k_queryHandler (NewKeeper app m) ctx caller request w = k_queryHandler (NewKeeper app n) ctx caller request w"
  using queries_settle [OF assms(1,2) refl, of m n] assms(3,4) by simp

theorem nested_queries_end_witness:
  "k_maxQueryStackSize (app_keeper sample_app) = 10 \<and>
   k_queryHandler (NewKeeper sample_app 50) sample_ctx ''caller'' sample_port_query (sample_world []) =
   k_queryHandler (NewKeeper sample_app 11) sample_ctx ''caller'' sample_port_query (sample_world [])"
  using nested_queries_end [of sample_app sample_ctx 11 50 "''caller''" sample_port_query "sample_world []"]
  by (simp add: sample_app_def sample_keeper_def QueryStackSize_def sample_ctx_def)



text \<open>
  A contract that asks for its own IBC port before it is stored makes the query panic: the
  plugin uses the contract it does not find. This is the state while the instantiation of the
  contract runs.
\<close>

theorem port_query_before_creation_panics:
  assumes "GetContractInfo caller w = (Ok None, w)" and "qr_Bank req = None" and "qr_Custom req = None"
    and "qr_IBC req = Some ibc" and "iq_PortID ibc"
  shows "k_queryHandler (NewKeeper app (Suc n)) ctx caller req w = (Panic PanicOther, w)"
  using assms
  by (simp add: Let_def QueryPlugins_HandleQuery_def DefaultQueryPlugins_def IBCQuerier_def portOfCaller_def
      bindM_apply derefM_def basic_apply)

theorem port_query_before_creation_panics_witness:
  "k_queryHandler (NewKeeper sample_app 1) sample_ctx sample_contract sample_port_query (sample_world sample_store3) =
     (Panic PanicOther, sample_world sample_store3)"
proof -
  have "GetContractInfo sample_contract (sample_world sample_store3) = (Ok None, sample_world sample_store3)"
    using reachable_ok [OF sample_isolated sample_reachable3]
    by (simp add: eval_GetContractInfo sample_world_store, simp add: sample_store3_def contract_at_def sample_look)
  from port_query_before_creation_panics [OF this, of sample_port_query _ sample_app 0 sample_ctx] show ?thesis
    by (simp add: sample_port_query_def)
qed

end
