(* ===== verification/Authz.thy ===== *)
theory Authz
  imports Keeper_Calls Encoders Json
begin

text \<open>
  Authorizations a user grants to another account through the authz module: \<open>types/authz.go\<close> with
  \<open>types/json_matching.go\<close>, and \<open>CreateChecksum\<close> of \<open>wasmvm/lib.go\<close>. A grant to execute or
  migrate a contract has a limit, which the use of the grant lowers, and a filter on the payload.

  What the code calls outside this repository is the parameter \<open>authz_ops\<close>: the coin arithmetic of
  the SDK, SHA-256, the Unicode tables and the decoder of \<open>encoding/json\<close>, of which only the keys
  of the outermost object matter. A packed value (\<open>codectypes.Any\<close>) is the value it holds; a missing
  one, or one of another type, is \<open>None\<close>.
\<close>

section \<open>Called code\<close>

text \<open>
  \<open>az_foldEq\<close> tells whether \<open>unicode.SimpleFold\<close> leads from the smaller of two different runes to the
  larger one, which is no ASCII character.
\<close>

record authz_ops =
  az_foldEq :: "nat \<Rightarrow> nat \<Rightarrow> bool"
  az_ToLower :: "string \<Rightarrow> string"
  az_Quote :: "string \<Rightarrow> string"
  az_sha256 :: "bytes \<Rightarrow> bytes"
  az_json_Unmarshal :: "bytes \<Rightarrow> string + string list option"
  az_IsAllLTE :: "sdk_Coin list \<Rightarrow> sdk_Coin list \<Rightarrow> bool"
  az_Sub :: "sdk_Coin list \<Rightarrow> sdk_Coin list \<Rightarrow> sdk_Coin list outcome"
  az_NewCoins :: "sdk_Coin list \<Rightarrow> sdk_Coin list outcome"

definition sdk_ErrNotFound :: go_error where "sdk_ErrNotFound = sdkErr 38"

section \<open>Comparison of text without regard to case\<close>

text \<open>\<open>utf8.DecodeRune\<close>: bytes that are no UTF-8 are U+FFFD, one at a time.\<close>

definition DecodeRune :: "bytes \<Rightarrow> nat \<times> nat" where
  "DecodeRune s =
     (if of_char (hd s) < (128 :: nat) then (of_char (hd s), 1)
      else let b = (\<lambda>i. of_char (s ! i) :: nat) in
           if rune_size s = 2 then (b 0 mod 32 * 64 + b 1 mod 64, 2)
           else if rune_size s = 3 then (b 0 mod 16 * 4096 + b 1 mod 64 * 64 + b 2 mod 64, 3)
           else if rune_size s = 4
           then (b 0 mod 8 * 262144 + b 1 mod 64 * 4096 + b 2 mod 64 * 64 + b 3 mod 64, 4)
           else (0xFFFD, 1))"

lemma DecodeRune_size: "0 < snd (DecodeRune s)"
  by (simp add: DecodeRune_def Let_def)

definition rune_fold :: "authz_ops \<Rightarrow> nat \<Rightarrow> nat \<Rightarrow> bool" where
  "rune_fold az sr tr =
     (let lo = min sr tr; hi = max sr tr
      in sr = tr \<or>
         (if hi < 128 then 65 \<le> lo \<and> lo \<le> 90 \<and> hi = lo + 32 else az_foldEq az lo hi))"

text \<open>
  \<open>strings.EqualFold\<close> and \<open>bytes.EqualFold\<close>: ASCII characters are their own runes, so the loop for
  ASCII text is the general one.
\<close>

function EqualFold :: "authz_ops \<Rightarrow> bytes \<Rightarrow> bytes \<Rightarrow> bool" where
  "EqualFold az s t =
     (if s = [] \<or> t = [] then s = t
      else case (DecodeRune s, DecodeRune t) of
             ((sr, n), (tr, m)) \<Rightarrow> rune_fold az sr tr \<and> EqualFold az (drop n s) (drop m t))"
  by auto
termination
  by (relation "measure (\<lambda>(az, s, t). length s)")
     (auto, metis DecodeRune_size diff_less length_greater_0_conv snd_conv)

declare EqualFold.simps [simp del]

section \<open>Permission to upload code\<close>

record CodeGrant =
  cg_CodeHash :: bytes
  cg_InstantiatePermission :: "AccessConfig option"

definition NewCodeGrant :: "bytes \<Rightarrow> AccessConfig option \<Rightarrow> CodeGrant" where
  "NewCodeGrant codeHash instantiatePermission =
     \<lparr>cg_CodeHash = codeHash, cg_InstantiatePermission = instantiatePermission\<rparr>"

definition CodehashWildcard :: string where "CodehashWildcard = ''*''"

definition CodeGrant_ValidateBasic :: "'w sdk_ops \<Rightarrow> CodeGrant \<Rightarrow> go_error + unit" where
  "CodeGrant_ValidateBasic sdk g =
     (if cg_CodeHash g = [] then Inl (WrappedError ''code hash'' ErrEmpty)
      else case cg_InstantiatePermission g of
             None \<Rightarrow> Inr ()
           | Some p \<Rightarrow> AccessConfig_ValidateBasic (sdk_addr sdk) p)"

text \<open>\<open>permission.IsSubset\<close> dereferences a permission the message may lack.\<close>

definition CodeGrant_Accept ::
  "authz_ops \<Rightarrow> CodeGrant \<Rightarrow> bytes \<Rightarrow> AccessConfig option \<Rightarrow> bool outcome"
where
  "CodeGrant_Accept az g checksum permission =
     (if \<not> EqualFold az (cg_CodeHash g) CodehashWildcard \<and> \<not> EqualFold az (cg_CodeHash g) checksum
      then Ok False
      else case cg_InstantiatePermission g of
             None \<Rightarrow> Ok True
           | Some granted \<Rightarrow>
               (case permission of
                  None \<Rightarrow> Panic PanicOther
                | Some p \<Rightarrow> Ok (AccessConfig_IsSubset p granted)))"

definition CreateChecksum :: "authz_ops \<Rightarrow> bytes \<Rightarrow> go_error + bytes" where
  "CreateChecksum az wasm =
     (if wasm = [] then Inl (PlainError ''Wasm bytes nil or empty'')
      else if length wasm < 4 then Inl (PlainError ''Wasm bytes shorter than 4 bytes'')
      else if take 4 wasm \<noteq> [CHR 0x00, CHR 0x61, CHR 0x73, CHR 0x6D]
      then Inl (PlainError ''Wasm bytes do not start with Wasm magic number'')
      else Inr (az_sha256 az wasm))"

section \<open>Limits\<close>

datatype ContractAuthzLimitX =
    UndefinedLimit
  | MaxCallsLimit u64
  | MaxFundsLimit "sdk_Coin list"
  | CombinedLimit u64 "sdk_Coin list"

record AuthzableWasmMsg =
  am_Funds :: "sdk_Coin list"
  am_Msg :: bytes
  am_Contract :: string
  am_ValidateBasic :: "go_error + unit"

record ContractAuthzLimitAcceptResult =
  lr_Accepted :: bool
  lr_DeleteLimit :: bool
  lr_UpdateLimit :: "ContractAuthzLimitX option"

definition notApplicable :: ContractAuthzLimitAcceptResult where
  "notApplicable = \<lparr>lr_Accepted = False, lr_DeleteLimit = False, lr_UpdateLimit = None\<rparr>"

definition accepted :: ContractAuthzLimitAcceptResult where
  "accepted = \<lparr>lr_Accepted = True, lr_DeleteLimit = False, lr_UpdateLimit = None\<rparr>"

definition lastUse :: ContractAuthzLimitAcceptResult where
  "lastUse = accepted\<lparr>lr_DeleteLimit := True\<rparr>"

definition NewMaxFundsLimit :: "authz_ops \<Rightarrow> sdk_Coin list \<Rightarrow> ContractAuthzLimitX outcome" where
  "NewMaxFundsLimit az maxAmounts = bindO (az_NewCoins az maxAmounts) (\<lambda>amounts. Ok (MaxFundsLimit amounts))"

definition NewCombinedLimit :: "authz_ops \<Rightarrow> u64 \<Rightarrow> sdk_Coin list \<Rightarrow> ContractAuthzLimitX outcome" where
  "NewCombinedLimit az maxCalls maxAmounts =
     bindO (az_NewCoins az maxAmounts) (\<lambda>amounts. Ok (CombinedLimit maxCalls amounts))"

definition MaxCallsLimit_Accept ::
  "u64 \<Rightarrow> AuthzableWasmMsg \<Rightarrow> ContractAuthzLimitAcceptResult option outcome"
where
  "MaxCallsLimit_Accept remaining msg =
     (if am_Funds msg \<noteq> [] then Ok (Some notApplicable)
      else if remaining = 0 then Err (WrappedError ''no calls left'' ErrUnauthorized)
      else if remaining = 1 then Ok (Some lastUse)
      else Ok (Some (accepted\<lparr>lr_UpdateLimit := Some (MaxCallsLimit (remaining - 1))\<rparr>)))"

definition MaxFundsLimit_Accept ::
  "authz_ops \<Rightarrow> sdk_Coin list \<Rightarrow> AuthzableWasmMsg \<Rightarrow> ContractAuthzLimitAcceptResult option outcome"
where
  "MaxFundsLimit_Accept az amounts msg =
     (if am_Funds msg = [] then Ok (Some accepted)
      else if \<not> az_IsAllLTE az (am_Funds msg) amounts then Ok (Some notApplicable)
      else bindO (az_Sub az amounts (am_Funds msg)) (\<lambda>newAmounts.
           if Coins_IsZero newAmounts then Ok (Some lastUse)
           else Ok (Some (accepted\<lparr>lr_UpdateLimit := Some (MaxFundsLimit newAmounts)\<rparr>))))"

definition CombinedLimit_Accept ::
  "authz_ops \<Rightarrow> u64 \<Rightarrow> sdk_Coin list \<Rightarrow> AuthzableWasmMsg \<Rightarrow> ContractAuthzLimitAcceptResult option outcome"
where
  "CombinedLimit_Accept az callsRemaining amounts msg =
     (if \<not> az_IsAllLTE az (am_Funds msg) amounts then Ok (Some notApplicable)
      else if callsRemaining = 0 then Err (WrappedError ''no calls left'' ErrUnauthorized)
      else if callsRemaining = 1 then Ok (Some lastUse)
      else bindO (az_Sub az amounts (am_Funds msg)) (\<lambda>remainingAmounts.
           if Coins_IsZero remainingAmounts then Ok (Some lastUse)
           else bindO (NewCombinedLimit az (callsRemaining - 1) remainingAmounts) (\<lambda>limit.
                Ok (Some (accepted\<lparr>lr_UpdateLimit := Some limit\<rparr>)))))"

fun limit_Accept ::
  "authz_ops \<Rightarrow> ContractAuthzLimitX \<Rightarrow> AuthzableWasmMsg \<Rightarrow> ContractAuthzLimitAcceptResult option outcome"
where
  "limit_Accept az UndefinedLimit msg = Err (WrappedError ''undefined filter'' sdk_ErrNotFound)"
| "limit_Accept az (MaxCallsLimit remaining) msg = MaxCallsLimit_Accept remaining msg"
| "limit_Accept az (MaxFundsLimit amounts) msg = MaxFundsLimit_Accept az amounts msg"
| "limit_Accept az (CombinedLimit calls amounts) msg = CombinedLimit_Accept az calls amounts msg"

fun limit_ValidateBasic :: "'w sdk_ops \<Rightarrow> ContractAuthzLimitX \<Rightarrow> go_error + unit" where
  "limit_ValidateBasic sdk UndefinedLimit = Inl (WrappedError ''undefined limit'' ErrInvalidType)"
| "limit_ValidateBasic sdk (MaxCallsLimit remaining) =
     requireE (remaining \<noteq> 0) (WrappedError ''remaining calls'' ErrEmpty)"
| "limit_ValidateBasic sdk (MaxFundsLimit amounts) =
     bindE (sdk_Coins_Validate sdk amounts) (\<lambda>_.
     requireE (\<not> Coins_IsZero amounts) (WrappedError ''amounts'' ErrEmpty))"
| "limit_ValidateBasic sdk (CombinedLimit calls amounts) =
     bindE (requireE (calls \<noteq> 0) (WrappedError ''remaining calls'' ErrEmpty)) (\<lambda>_.
     bindE (requireE (\<not> Coins_IsZero amounts) (WrappedError ''amounts'' ErrEmpty)) (\<lambda>_.
     wrapE ''amounts'' (sdk_Coins_Validate sdk amounts)))"

section \<open>Filters\<close>

datatype ContractAuthzFilterX =
    UndefinedFilter
  | AllowAllMessagesFilter
  | AcceptedMessageKeysFilter "string list"
  | AcceptedMessagesFilter "bytes list"

text \<open>The map of the decoded document has one entry for every distinct key.\<close>

definition isJSONObjectWithTopLevelKey ::
  "'w sdk_ops \<Rightarrow> authz_ops \<Rightarrow> bytes \<Rightarrow> string list \<Rightarrow> go_error + bool"
where
  "isJSONObjectWithTopLevelKey sdk az jsonBytes allowedKeys =
     bindE (RawContractMessage_ValidateBasic sdk (Some jsonBytes)) (\<lambda>_.
     case az_json_Unmarshal az jsonBytes of
       Inl err \<Rightarrow> Inl (PlainError err)
     | Inr None \<Rightarrow> Inr False
     | Inr (Some keys) \<Rightarrow>
         (case remdups keys of
            [topLevelKey] \<Rightarrow> Inr (topLevelKey \<in> set allowedKeys)
          | _ \<Rightarrow> Inr False))"

definition gasDeserializationCostPerByte :: u64 where "gasDeserializationCostPerByte = 1"

definition AcceptedMessageKeysFilter_Accept ::
  "'w sdk_ops \<Rightarrow> authz_ops \<Rightarrow> string list \<Rightarrow> bytes \<Rightarrow> ('w, 'v, bool) op"
where
  "AcceptedMessageKeysFilter_Accept sdk az keys msg =
     bindM (consumeGas (gasDeserializationCostPerByte * word_of_nat (length msg)) ''contract authorization'') (\<lambda>_.
     case isJSONObjectWithTopLevelKey sdk az msg keys of
       Inl err \<Rightarrow> failM (WrappedError (''not an allowed msg: '' @ sdk_errText sdk err) ErrUnauthorized)
     | Inr ok \<Rightarrow> returnM ok)"

fun filter_Accept ::
  "'w sdk_ops \<Rightarrow> authz_ops \<Rightarrow> ContractAuthzFilterX \<Rightarrow> bytes \<Rightarrow> ('w, 'v, bool) op"
where
  "filter_Accept sdk az UndefinedFilter msg = failM (WrappedError ''undefined filter'' sdk_ErrNotFound)"
| "filter_Accept sdk az AllowAllMessagesFilter msg =
     bindM (liftE (RawContractMessage_ValidateBasic sdk (Some msg))) (\<lambda>_. returnM True)"
| "filter_Accept sdk az (AcceptedMessageKeysFilter keys) msg = AcceptedMessageKeysFilter_Accept sdk az keys msg"
| "filter_Accept sdk az (AcceptedMessagesFilter messages) msg = returnM (msg \<in> set messages)"

fun validateKeys :: "'w sdk_ops \<Rightarrow> authz_ops \<Rightarrow> string set \<Rightarrow> string list \<Rightarrow> go_error + unit" where
  "validateKeys sdk az idx [] = Inr ()"
| "validateKeys sdk az idx (m # ms) =
     (if m = [] then Inl (WrappedError ''key'' ErrEmpty)
      else if m \<noteq> sdk_TrimSpace sdk m
      then Inl (WrappedError (''key '' @ az_Quote az m @ '' contains whitespaces'') ErrInvalid)
      else if m \<in> idx then Inl (WrappedError (''key '' @ az_Quote az m) ErrDuplicate)
      else validateKeys sdk az (insert m idx) ms)"

fun validateMessages :: "'w sdk_ops \<Rightarrow> bytes set \<Rightarrow> bytes list \<Rightarrow> go_error + unit" where
  "validateMessages sdk idx [] = Inr ()"
| "validateMessages sdk idx (m # ms) =
     (if m = [] then Inl (WrappedError ''message'' ErrEmpty)
      else bindE (RawContractMessage_ValidateBasic sdk (Some m)) (\<lambda>_.
           if m \<in> idx then Inl (WrappedError ''message'' ErrDuplicate)
           else validateMessages sdk (insert m idx) ms))"

fun filter_ValidateBasic :: "'w sdk_ops \<Rightarrow> authz_ops \<Rightarrow> ContractAuthzFilterX \<Rightarrow> go_error + unit" where
  "filter_ValidateBasic sdk az UndefinedFilter = Inl (WrappedError ''undefined filter'' ErrInvalidType)"
| "filter_ValidateBasic sdk az AllowAllMessagesFilter = Inr ()"
| "filter_ValidateBasic sdk az (AcceptedMessageKeysFilter keys) =
     (if keys = [] then Inl (WrappedError ''keys'' ErrEmpty) else validateKeys sdk az {} keys)"
| "filter_ValidateBasic sdk az (AcceptedMessagesFilter messages) =
     (if messages = [] then Inl (WrappedError ''messages'' ErrEmpty) else validateMessages sdk {} messages)"

section \<open>Grants on contracts\<close>

record ContractGrant =
  grant_Contract :: string
  grant_Limit :: "ContractAuthzLimitX option"
  grant_Filter :: "ContractAuthzFilterX option"

definition GetLimit :: "ContractGrant \<Rightarrow> ContractAuthzLimitX" where
  "GetLimit g = (case grant_Limit g of None \<Rightarrow> UndefinedLimit | Some l \<Rightarrow> l)"

definition GetFilter :: "ContractGrant \<Rightarrow> ContractAuthzFilterX" where
  "GetFilter g = (case grant_Filter g of None \<Rightarrow> UndefinedFilter | Some f \<Rightarrow> f)"

definition WithNewLimits :: "ContractGrant \<Rightarrow> ContractAuthzLimitX \<Rightarrow> go_error + ContractGrant" where
  "WithNewLimits g limit =
     (if limit = UndefinedLimit then Inl (WrappedError ''limit is not a proto type'' ErrInvalidType)
      else Inr \<lparr>grant_Contract = grant_Contract g, grant_Limit = Some limit, grant_Filter = grant_Filter g\<rparr>)"

definition NewContractGrant ::
  "addr_codec \<Rightarrow> bytes \<Rightarrow> ContractAuthzLimitX \<Rightarrow> ContractAuthzFilterX \<Rightarrow> go_error + ContractGrant"
where
  "NewContractGrant ac contract limit fltr =
     (if fltr = UndefinedFilter then Inl (WrappedError ''filter is not a proto type'' ErrInvalidType)
      else WithNewLimits \<lparr>grant_Contract = addr_String ac contract, grant_Limit = None, grant_Filter = Some fltr\<rparr>
             limit)"

definition ContractGrant_ValidateBasic ::
  "'w sdk_ops \<Rightarrow> authz_ops \<Rightarrow> ContractGrant \<Rightarrow> go_error + unit"
where
  "ContractGrant_ValidateBasic sdk az g =
     bindE (checkAddr sdk ''contract'' (grant_Contract g)) (\<lambda>_.
     bindE (wrapE ''limit'' (limit_ValidateBasic sdk (GetLimit g))) (\<lambda>_.
     wrapE ''filter'' (filter_ValidateBasic sdk az (GetFilter g))))"

definition validateGrants :: "'w sdk_ops \<Rightarrow> authz_ops \<Rightarrow> ContractGrant list \<Rightarrow> go_error + unit" where
  "validateGrants sdk az g =
     (if g = [] then Inl (WrappedError ''grants'' ErrEmpty)
      else validateEach ''position '' (ContractGrant_ValidateBasic sdk az) 0 g)"

section \<open>Authorizations\<close>

datatype Authorization =
    StoreCodeAuthorization "CodeGrant list"
  | ContractExecutionAuthorization "ContractGrant list"
  | ContractMigrationAuthorization "ContractGrant list"

record AcceptResponse =
  ar_Accept :: bool
  ar_Delete :: bool
  ar_Updated :: "Authorization option"

definition acceptResponse :: "bool \<Rightarrow> AcceptResponse" where
  "acceptResponse ok = \<lparr>ar_Accept = ok, ar_Delete = False, ar_Updated = None\<rparr>"

fun checkGrants :: "'w sdk_ops \<Rightarrow> authz_ops \<Rightarrow> nat \<Rightarrow> CodeGrant list \<Rightarrow> go_error + unit" where
  "checkGrants sdk az i [] = Inr ()"
| "checkGrants sdk az i (grant # grants) =
     (if EqualFold az (cg_CodeHash grant) CodehashWildcard
      then Inl (WrappedError ''cannot have multiple grants when wildcard grant is one of them'' ErrInvalidRequest)
      else bindE (wrapE (''position '' @ dec_string i) (CodeGrant_ValidateBasic sdk grant)) (\<lambda>_.
           checkGrants sdk az (Suc i) grants))"

fun Authorization_ValidateBasic :: "'w sdk_ops \<Rightarrow> authz_ops \<Rightarrow> Authorization \<Rightarrow> go_error + unit" where
  "Authorization_ValidateBasic sdk az (StoreCodeAuthorization grants) =
     (case grants of
        [] \<Rightarrow> Inl (WrappedError ''grants'' ErrEmpty)
      | [grant] \<Rightarrow> wrapE ''position 0'' (CodeGrant_ValidateBasic sdk grant)
      | _ \<Rightarrow>
          bindE (checkGrants sdk az 0 grants) (\<lambda>_.
          requireE (distinct (map (az_ToLower az \<circ> cg_CodeHash) grants))
            (WrappedError ''cannot have multiple grants with same code hash'' ErrInvalidRequest)))"
| "Authorization_ValidateBasic sdk az (ContractExecutionAuthorization grants) = validateGrants sdk az grants"
| "Authorization_ValidateBasic sdk az (ContractMigrationAuthorization grants) = validateGrants sdk az grants"

fun acceptsCode :: "authz_ops \<Rightarrow> bytes \<Rightarrow> AccessConfig option \<Rightarrow> CodeGrant list \<Rightarrow> bool outcome" where
  "acceptsCode az checksum permission [] = Ok False"
| "acceptsCode az checksum permission (grant # grants) =
     bindO (CodeGrant_Accept az grant checksum permission) (\<lambda>ok.
     if ok then Ok True else acceptsCode az checksum permission grants)"

text \<open>The gas register is a value the context may lack.\<close>

definition StoreCodeAuthorization_Accept ::
  "'w sdk_ops \<Rightarrow> authz_ops \<Rightarrow> WasmGasRegisterConfig option \<Rightarrow> CodeGrant list \<Rightarrow> sdk_Msg \<Rightarrow>
   ('w, 'v, AcceptResponse) op"
where
  "StoreCodeAuthorization_Accept sdk az gasRegister grants msg =
     (case msg of
        StoreCodeMsg storeMsg \<Rightarrow>
          bindM (let code = sc_WASMByteCode storeMsg in
            if IsGzip code
            then (case gasRegister of
                    None \<Rightarrow> failM (WrappedError ''gas register'' sdk_ErrNotFound)
                  | Some gr \<Rightarrow>
                      bindM (liftO (UncompressCosts gr (int (length code)))) (\<lambda>cost.
                      bindM (consumeGas cost ''Uncompress gzip bytecode'') (\<lambda>_.
                      case Uncompress sdk code MaxWasmSize of
                        Inl _ \<Rightarrow> failM (WrappedError ''uncompress wasm archive'' ErrInvalidRequest)
                      | Inr wasmCode \<Rightarrow> returnM wasmCode)))
            else returnM code) (\<lambda>code.
          case CreateChecksum az code of
            Inl _ \<Rightarrow> failM (WrappedError ''checksum'' ErrInvalidRequest)
          | Inr checksum \<Rightarrow>
              bindM (liftO (acceptsCode az checksum (sc_InstantiatePermission storeMsg) grants)) (\<lambda>ok.
              returnM (acceptResponse ok)))
      | _ \<Rightarrow> failM (WrappedError ''unknown msg type'' ErrInvalidRequest))"

text \<open>The messages that implement \<open>AuthzableWasmMsg\<close>, by the type the authorization is for.\<close>

fun asMsgExecuteContract :: "'w sdk_ops \<Rightarrow> sdk_Msg \<Rightarrow> AuthzableWasmMsg option" where
  "asMsgExecuteContract sdk (ExecuteContractMsg msg) =
     Some \<lparr>am_Funds = ec_Funds msg, am_Msg = ec_Msg msg, am_Contract = ec_Contract msg,
           am_ValidateBasic = MsgExecuteContract_ValidateBasic sdk msg\<rparr>"
| "asMsgExecuteContract sdk _ = None"

fun asMsgMigrateContract :: "'w sdk_ops \<Rightarrow> sdk_Msg \<Rightarrow> AuthzableWasmMsg option" where
  "asMsgMigrateContract sdk (MigrateContractMsg msg) =
     Some \<lparr>am_Funds = [], am_Msg = mc_Msg msg, am_Contract = mc_Contract msg,
           am_ValidateBasic = MsgMigrateContract_ValidateBasic sdk msg\<rparr>"
| "asMsgMigrateContract sdk _ = None"

text \<open>
  The loop over the grants: \<open>before\<close> are those already passed over. The slices the source builds
  with \<open>append\<close> reuse the array of the grants, which nothing reads afterwards.
\<close>

definition updatedAuthz ::
  "'w sdk_ops \<Rightarrow> authz_ops \<Rightarrow> Authorization \<Rightarrow> ('w, 'v, AcceptResponse) op"
where
  "updatedAuthz sdk az newAuthz =
     (case Authorization_ValidateBasic sdk az newAuthz of
        Inl err \<Rightarrow> failM (WrappedError (''new grant state: '' @ sdk_errText sdk err) ErrInvalid)
      | Inr _ \<Rightarrow> returnM \<lparr>ar_Accept = True, ar_Delete = False, ar_Updated = Some newAuthz\<rparr>)"

definition applyResult ::
  "'w sdk_ops \<Rightarrow> authz_ops \<Rightarrow> (ContractGrant list \<Rightarrow> Authorization) \<Rightarrow> ContractGrant list \<Rightarrow> ContractGrant \<Rightarrow>
   ContractGrant list \<Rightarrow> ContractAuthzLimitAcceptResult \<Rightarrow> ('w, 'v, AcceptResponse) op"
where
  "applyResult sdk az NewAuthz before g after result =
     (if lr_DeleteLimit result
      then if before @ after = [] then returnM \<lparr>ar_Accept = True, ar_Delete = True, ar_Updated = None\<rparr>
           else updatedAuthz sdk az (NewAuthz (before @ after))
      else case lr_UpdateLimit result of
             Some limit \<Rightarrow>
               bindM (liftE (WithNewLimits g limit)) (\<lambda>obj.
               updatedAuthz sdk az (NewAuthz (before @ obj # after)))
           | None \<Rightarrow> returnM (acceptResponse True))"

fun acceptGrants ::
  "'w sdk_ops \<Rightarrow> authz_ops \<Rightarrow> (ContractGrant list \<Rightarrow> Authorization) \<Rightarrow> AuthzableWasmMsg \<Rightarrow> ContractGrant list \<Rightarrow>
   ContractGrant list \<Rightarrow> ('w, 'v, AcceptResponse) op"
where
  "acceptGrants sdk az NewAuthz exec before [] = returnM (acceptResponse False)"
| "acceptGrants sdk az NewAuthz exec before (g # after) =
     (if grant_Contract g \<noteq> am_Contract exec then acceptGrants sdk az NewAuthz exec (before @ [g]) after
      else bindM (wrapM ''limit'' (liftO (limit_Accept az (GetLimit g) exec))) (\<lambda>res.
           case res of
             None \<Rightarrow> failM (WrappedError ''limit result must not be nil'' ErrInvalidType)
           | Some result \<Rightarrow>
               if \<not> lr_Accepted result then acceptGrants sdk az NewAuthz exec (before @ [g]) after
               else bindM (wrapM ''filter'' (filter_Accept sdk az (GetFilter g) (am_Msg exec))) (\<lambda>ok.
                    if \<not> ok then acceptGrants sdk az NewAuthz exec (before @ [g]) after
                    else applyResult sdk az NewAuthz before g after result)))"

text \<open>A payload without bytes is nil.\<close>

definition AcceptGrantedMessage ::
  "'w sdk_ops \<Rightarrow> authz_ops \<Rightarrow> (sdk_Msg \<Rightarrow> AuthzableWasmMsg option) \<Rightarrow> (ContractGrant list \<Rightarrow> Authorization) \<Rightarrow>
   ContractGrant list \<Rightarrow> sdk_Msg \<Rightarrow> ('w, 'v, AcceptResponse) op"
where
  "AcceptGrantedMessage sdk az asT NewAuthz grants msg =
     (case asT msg of
        None \<Rightarrow> failM (WrappedError ''type mismatch'' ErrInvalidType)
      | Some exec \<Rightarrow>
          if am_Msg exec = [] then failM (WrappedError ''empty message'' ErrInvalidType)
          else bindM (liftE (am_ValidateBasic exec)) (\<lambda>_.
               acceptGrants sdk az NewAuthz exec [] grants))"

fun Authorization_Accept ::
  "'w sdk_ops \<Rightarrow> authz_ops \<Rightarrow> WasmGasRegisterConfig option \<Rightarrow> Authorization \<Rightarrow> sdk_Msg \<Rightarrow>
   ('w, 'v, AcceptResponse) op"
where
  "Authorization_Accept sdk az gr (StoreCodeAuthorization grants) msg =
     StoreCodeAuthorization_Accept sdk az gr grants msg"
| "Authorization_Accept sdk az gr (ContractExecutionAuthorization grants) msg =
     AcceptGrantedMessage sdk az (asMsgExecuteContract sdk) ContractExecutionAuthorization grants msg"
| "Authorization_Accept sdk az gr (ContractMigrationAuthorization grants) msg =
     AcceptGrantedMessage sdk az (asMsgMigrateContract sdk) ContractMigrationAuthorization grants msg"

text \<open>\<open>MsgTypeURL\<close>: the message an authorization is for.\<close>

fun MsgTypeURL :: "Authorization \<Rightarrow> string" where
  "MsgTypeURL (StoreCodeAuthorization _) = ''/cosmwasm.wasm.v1.MsgStoreCode''"
| "MsgTypeURL (ContractExecutionAuthorization _) = ''/cosmwasm.wasm.v1.MsgExecuteContract''"
| "MsgTypeURL (ContractMigrationAuthorization _) = ''/cosmwasm.wasm.v1.MsgMigrateContract''"

end
