(* ===== verification/Grants.thy ===== *)
theory Grants
  imports Authz Sample_Chain
begin

text \<open>
  What the limits of a grant guarantee over any number of uses. The authz module stores the updated
  authorization a use returns and removes one that is used up (\<open>after_use\<close>); \<open>uses\<close> are the sequences of
  messages an authorization accepts this way, with anything happening in between. A quantity that every
  accepted message takes from the limit that accepted it (locale \<open>limit_measure\<close>) bounds what the whole
  sequence can take; it is interpreted on the amount of a denomination and on the number of calls.
\<close>

section \<open>Sequences of uses\<close>

fun after_use :: "Authorization \<Rightarrow> AcceptResponse \<Rightarrow> Authorization option" where
  "after_use a r = (if ar_Delete r then None else case ar_Updated r of None \<Rightarrow> Some a | Some a' \<Rightarrow> Some a')"

inductive uses ::
  "('w, 'v) Keeper \<Rightarrow> authz_ops \<Rightarrow> Authorization \<Rightarrow> sdk_Msg list \<Rightarrow> Authorization option \<Rightarrow> bool"
  for k :: "('w, 'v) Keeper" and az where
  unused: "uses k az a [] (Some a)"
| used_up: "Authorization_Accept (k_sdk k) az gr a msg (w :: ('w, 'v) world) = (Ok r, w') \<Longrightarrow> ar_Accept r \<Longrightarrow> after_use a r = None \<Longrightarrow>
    uses k az a [msg] None"
| used: "Authorization_Accept (k_sdk k) az gr a msg (w :: ('w, 'v) world) = (Ok r, w') \<Longrightarrow> ar_Accept r \<Longrightarrow> after_use a r = Some a' \<Longrightarrow>
    uses k az a' msgs b \<Longrightarrow> uses k az a (msg # msgs) b"

fun contract_grants :: "Authorization \<Rightarrow> ContractGrant list" where
  "contract_grants (StoreCodeAuthorization _) = []"
| "contract_grants (ContractExecutionAuthorization gs) = gs"
| "contract_grants (ContractMigrationAuthorization gs) = gs"

fun authzable :: "'w sdk_ops \<Rightarrow> Authorization \<Rightarrow> sdk_Msg \<Rightarrow> AuthzableWasmMsg option" where
  "authzable sdk (StoreCodeAuthorization _) msg = None"
| "authzable sdk (ContractExecutionAuthorization _) msg = asMsgExecuteContract sdk msg"
| "authzable sdk (ContractMigrationAuthorization _) msg = asMsgMigrateContract sdk msg"

lemma validateGrants_limits:
  assumes "validateGrants sdk az gs = Inr ()" and "g \<in> set gs"
  shows "limit_ValidateBasic sdk (GetLimit g) = Inr ()"
  using assms by (auto simp: validateGrants_def validateEach_iff ContractGrant_ValidateBasic_def bindE_Inr_iff
      split: if_splits)

text \<open>The grant an accepted message is charged to.\<close>

inductive charged ::
  "authz_ops \<Rightarrow> AuthzableWasmMsg \<Rightarrow> ContractGrant list \<Rightarrow> ContractGrant list \<Rightarrow> bool"
  for az exec where
  lapsed: "limit_Accept az (GetLimit g) exec = Ok (Some result) \<Longrightarrow> lr_Accepted result \<Longrightarrow> lr_DeleteLimit result \<Longrightarrow>
    charged az exec (before @ g # after) (before @ after)"
| lowered: "limit_Accept az (GetLimit g) exec = Ok (Some result) \<Longrightarrow> lr_Accepted result \<Longrightarrow>
    \<not> lr_DeleteLimit result \<Longrightarrow> lr_UpdateLimit result = Some l \<Longrightarrow> WithNewLimits g l = Inr g' \<Longrightarrow>
    charged az exec (before @ g # after) (before @ g' # after)"
| kept: "limit_Accept az (GetLimit g) exec = Ok (Some result) \<Longrightarrow> lr_Accepted result \<Longrightarrow>
    \<not> lr_DeleteLimit result \<Longrightarrow> lr_UpdateLimit result = None \<Longrightarrow>
    charged az exec (before @ g # after) (before @ g # after)"

definition outcome_of_use ::
  "'w sdk_ops \<Rightarrow> authz_ops \<Rightarrow> (ContractGrant list \<Rightarrow> Authorization) \<Rightarrow> ContractGrant list \<Rightarrow> AcceptResponse \<Rightarrow>
   ContractGrant list \<Rightarrow> bool"
where
  "outcome_of_use sdk az NewAuthz gs r gs' \<longleftrightarrow>
     (gs' = [] \<and> after_use (NewAuthz gs) r = None) \<or>
     (after_use (NewAuthz gs) r = Some (NewAuthz gs') \<and>
      (gs' = gs \<or> Authorization_ValidateBasic sdk az (NewAuthz gs') = Inr ()))"

lemma updatedAuthz_outcome:
  assumes "updatedAuthz sdk az (NewAuthz gs') w = (Ok r, w')"
  shows "outcome_of_use sdk az NewAuthz gs r gs'"
  using assms by (auto simp: updatedAuthz_def outcome_of_use_def prog_Ok_iffs split: sum.splits)

lemma applyResult_charged:
  assumes "applyResult sdk az NewAuthz before g after result w = (Ok r, w')"
    and "limit_Accept az (GetLimit g) exec = Ok (Some result)" and "lr_Accepted result"
  shows "\<exists>gs'. charged az exec (before @ g # after) gs' \<and> outcome_of_use sdk az NewAuthz (before @ g # after) r gs'"
proof (cases "lr_DeleteLimit result")
  case True
  then have "charged az exec (before @ g # after) (before @ after)"
    using assms(2,3) by (rule charged.lapsed [rotated -1])
  moreover have "outcome_of_use sdk az NewAuthz (before @ g # after) r (before @ after)"
    using assms(1) True
    by (auto simp: applyResult_def prog_Ok_iffs updatedAuthz_outcome split: if_splits)
       (auto simp: outcome_of_use_def)
  ultimately show ?thesis by blast
next
  case False
  show ?thesis
  proof (cases "lr_UpdateLimit result")
    case None
    then have "charged az exec (before @ g # after) (before @ g # after)"
      using assms(2,3) False by (intro charged.kept)
    moreover have "outcome_of_use sdk az NewAuthz (before @ g # after) r (before @ g # after)"
      using assms(1) False None by (auto simp: applyResult_def prog_Ok_iffs outcome_of_use_def acceptResponse_def)
    ultimately show ?thesis by blast
  next
    case (Some l)
    with assms(1) False obtain g' where g': "WithNewLimits g l = Inr g'"
      and run: "updatedAuthz sdk az (NewAuthz (before @ g' # after)) w = (Ok r, w')"
      by (auto simp: applyResult_def prog_Ok_iffs elim!: bindM_Ok_E)
    have "charged az exec (before @ g # after) (before @ g' # after)"
      using assms(2,3) False Some g' by (rule charged.lowered)
    with updatedAuthz_outcome [where NewAuthz = NewAuthz, OF run] show ?thesis by blast
  qed
qed

lemma acceptGrants_charged:
  assumes "acceptGrants sdk az NewAuthz exec before gs w = (Ok r, w')" and "ar_Accept r"
  shows "\<exists>gs'. charged az exec (before @ gs) gs' \<and> outcome_of_use sdk az NewAuthz (before @ gs) r gs'"
  using assms
proof (induction gs arbitrary: before w)
  case Nil
  then show ?case by (simp add: prog_Ok_iffs acceptResponse_def)
next
  case (Cons g after)
  note next_grant = Cons.IH [of "before @ [g]", OF _ Cons.prems(2)]
  show ?case
  proof (cases "grant_Contract g = am_Contract exec")
    case False
    with Cons.prems(1) next_grant show ?thesis by simp
  next
    case True
    with Cons.prems(1) obtain res where res: "limit_Accept az (GetLimit g) exec = Ok (Some res)"
      and run: "(if \<not> lr_Accepted res then acceptGrants sdk az NewAuthz exec (before @ [g]) after
         else bindM (wrapM ''filter'' (filter_Accept sdk az (GetFilter g) (am_Msg exec))) (\<lambda>ok.
              if \<not> ok then acceptGrants sdk az NewAuthz exec (before @ [g]) after
              else applyResult sdk az NewAuthz before g after res)) w = (Ok r, w')"
      by (auto simp: prog_Ok_iffs split: option.splits elim!: bindM_Ok_E)
    show ?thesis
    proof (cases "lr_Accepted res")
      case False
      with run next_grant show ?thesis by simp
    next
      case acc: True
      with run obtain ok u where "(if \<not> ok then acceptGrants sdk az NewAuthz exec (before @ [g]) after
              else applyResult sdk az NewAuthz before g after res) u = (Ok r, w')"
        by (auto elim!: bindM_Ok_E)
      then show ?thesis
        using next_grant applyResult_charged [OF _ res acc] by (cases ok) simp_all
    qed
  qed
qed

lemma Accept_charged:
  assumes "Authorization_Accept sdk az gr a msg w = (Ok r, w')" and "ar_Accept r"
    and "authzable sdk a msg \<noteq> None \<or> contract_grants a \<noteq> []"
  obtains exec gs' where "authzable sdk a msg = Some exec" and "am_ValidateBasic exec = Inr ()"
    and "charged az exec (contract_grants a) gs'"
    and "(gs' = [] \<and> after_use a r = None) \<or>
         (\<exists>a'. after_use a r = Some a' \<and> contract_grants a' = gs' \<and>
           (\<forall>m. authzable sdk a' m = authzable sdk a m) \<and>
           (a' = a \<or> Authorization_ValidateBasic sdk az a' = Inr ()))"
proof -
  have *: "\<exists>exec gs'. asT msg = Some exec \<and> am_ValidateBasic exec = Inr () \<and> charged az exec gs gs' \<and>
      outcome_of_use sdk az NewAuthz gs r gs'"
    if "AcceptGrantedMessage sdk az asT NewAuthz gs msg w = (Ok r, w')" for asT NewAuthz gs
    using that acceptGrants_charged [where before = "[]", OF _ assms(2)]
    by (fastforce simp: AcceptGrantedMessage_def prog_Ok_iffs split: option.splits if_splits elim!: bindM_Ok_E)
  show thesis
  proof (cases a)
    case (StoreCodeAuthorization x1)
    with assms(3) show ?thesis by simp
  next
    case (ContractExecutionAuthorization gs)
    with assms(1) * [of "asMsgExecuteContract sdk" ContractExecutionAuthorization gs]
    obtain exec gs' where "asMsgExecuteContract sdk msg = Some exec" "am_ValidateBasic exec = Inr ()"
      "charged az exec gs gs'" "outcome_of_use sdk az ContractExecutionAuthorization gs r gs'" by auto
    then show ?thesis
      using ContractExecutionAuthorization by (intro that [of exec gs']) (auto simp: outcome_of_use_def)
  next
    case (ContractMigrationAuthorization gs)
    with assms(1) * [of "asMsgMigrateContract sdk" ContractMigrationAuthorization gs]
    obtain exec gs' where "asMsgMigrateContract sdk msg = Some exec" "am_ValidateBasic exec = Inr ()"
      "charged az exec gs gs'" "outcome_of_use sdk az ContractMigrationAuthorization gs r gs'" by auto
    then show ?thesis
      using ContractMigrationAuthorization by (intro that [of exec gs']) (auto simp: outcome_of_use_def)
  qed
qed

section \<open>Quantities a limit bounds\<close>

abbreviation valid_limit :: "'w sdk_ops \<Rightarrow> ContractGrant \<Rightarrow> bool" where
  "valid_limit sdk g \<equiv> limit_ValidateBasic sdk (GetLimit g) = Inr ()"

locale limit_measure =
  fixes k :: "('w, 'v) Keeper" and az :: authz_ops
    and good :: "ContractAuthzLimitX \<Rightarrow> bool" and msg_ok :: "AuthzableWasmMsg \<Rightarrow> bool"
    and level :: "ContractAuthzLimitX \<Rightarrow> int" and cost :: "AuthzableWasmMsg \<Rightarrow> int"
  assumes level_nonneg: "good l \<Longrightarrow> limit_ValidateBasic (k_sdk k) l = Inr () \<Longrightarrow> 0 \<le> level l"
    and lapse: "good l \<Longrightarrow> limit_ValidateBasic (k_sdk k) l = Inr () \<Longrightarrow> msg_ok exec \<Longrightarrow>
      limit_Accept az l exec = Ok (Some r) \<Longrightarrow> lr_Accepted r \<Longrightarrow> lr_DeleteLimit r \<Longrightarrow> cost exec \<le> level l"
    and lower: "good l \<Longrightarrow> limit_ValidateBasic (k_sdk k) l = Inr () \<Longrightarrow> msg_ok exec \<Longrightarrow>
      limit_Accept az l exec = Ok (Some r) \<Longrightarrow> lr_Accepted r \<Longrightarrow> \<not> lr_DeleteLimit r \<Longrightarrow>
      lr_UpdateLimit r = Some l' \<Longrightarrow> good l' \<and> level l' + cost exec \<le> level l"
    and keep: "good l \<Longrightarrow> limit_ValidateBasic (k_sdk k) l = Inr () \<Longrightarrow> msg_ok exec \<Longrightarrow>
      limit_Accept az l exec = Ok (Some r) \<Longrightarrow> lr_Accepted r \<Longrightarrow> \<not> lr_DeleteLimit r \<Longrightarrow>
      lr_UpdateLimit r = None \<Longrightarrow> cost exec \<le> 0"
begin

abbreviation total :: "ContractGrant list \<Rightarrow> int" where
  "total gs \<equiv> sum_list (map (\<lambda>g. level (GetLimit g)) gs)"

lemma total_nonneg:
  "(\<And>g. g \<in> set gs \<Longrightarrow> good (GetLimit g) \<and> valid_limit (k_sdk k) g) \<Longrightarrow> 0 \<le> total gs"
  by (rule sum_list_nonneg) (auto intro: level_nonneg)

lemma charged_total:
  assumes "charged az exec gs gs'" and "msg_ok exec"
    and "\<And>g. g \<in> set gs \<Longrightarrow> good (GetLimit g) \<and> valid_limit (k_sdk k) g"
  shows "total gs' + cost exec \<le> total gs \<and> (\<forall>g \<in> set gs'. good (GetLimit g))"
  using assms
proof cases
  case (lapsed g result before after)
  with assms(2,3) lapse [of "GetLimit g" exec result] show ?thesis by auto
next
  case (lowered g result l g' before after)
  then have "GetLimit g' = l" by (auto simp: WithNewLimits_def GetLimit_def split: if_splits)
  with lowered assms(2,3) lower [of "GetLimit g" exec result l] show ?thesis by auto
next
  case (kept g result before after)
  with assms(2,3) keep [of "GetLimit g" exec result] show ?thesis by auto
qed

lemma uses_total:
  assumes "uses k az a msgs b" and "Authorization_ValidateBasic (k_sdk k) az a = Inr ()" and "contract_grants a \<noteq> []"
    and "\<And>g. g \<in> set (contract_grants a) \<Longrightarrow> good (GetLimit g)"
    and "\<And>m exec. authzable (k_sdk k) a m = Some exec \<Longrightarrow> am_ValidateBasic exec = Inr () \<Longrightarrow> msg_ok exec"
  shows "sum_list (map (\<lambda>m. case authzable (k_sdk k) a m of None \<Rightarrow> 0 | Some exec \<Rightarrow> cost exec) msgs)
    \<le> total (contract_grants a) \<and> (\<forall>m \<in> set msgs. authzable (k_sdk k) a m \<noteq> None)"
  using assms
proof (induction rule: uses.induct)
  case (unused a)
  then have "validateGrants (k_sdk k) az (contract_grants a) = Inr ()" by (cases a) simp_all
  with unused show ?case by (auto intro!: total_nonneg validateGrants_limits)
next
  case (used_up gr a msg w r w')
  then have v: "validateGrants (k_sdk k) az (contract_grants a) = Inr ()" by (cases a) simp_all
  from used_up(1,2,5) obtain exec gs' where e: "authzable (k_sdk k) a msg = Some exec" "am_ValidateBasic exec = Inr ()"
    and ch: "charged az exec (contract_grants a) gs'" and "gs' = [] \<or> after_use a r \<noteq> None"
    by (elim Accept_charged) auto
  with charged_total [OF ch] used_up(3,6,7) validateGrants_limits [OF v] show ?case by auto
next
  case (used gr a msg w r w' a' msgs b)
  then have v: "validateGrants (k_sdk k) az (contract_grants a) = Inr ()" by (cases a) simp_all
  from used(1,2,7) obtain exec gs' where e: "authzable (k_sdk k) a msg = Some exec" "am_ValidateBasic exec = Inr ()"
    and ch: "charged az exec (contract_grants a) gs'" and gs': "contract_grants a' = gs'"
    and same: "\<forall>m. authzable (k_sdk k) a' m = authzable (k_sdk k) a m"
    and val: "a' = a \<or> Authorization_ValidateBasic (k_sdk k) az a' = Inr ()"
    using used(3) by (elim Accept_charged) auto
  have step: "total gs' + cost exec \<le> total (contract_grants a)" "\<forall>g \<in> set gs'. good (GetLimit g)"
    using charged_total [OF ch] used(8,9) e validateGrants_limits [OF v] by blast+
  have "Authorization_ValidateBasic (k_sdk k) az a' = Inr ()" using val used(6) by blast
  moreover from this have "contract_grants a' \<noteq> []"
    using same [rule_format, of msg] e(1) by (cases a') (auto simp: validateGrants_def)
  ultimately have "sum_list (map (\<lambda>m. case authzable (k_sdk k) a m of None \<Rightarrow> 0 | Some exec \<Rightarrow> cost exec) msgs) \<le> total gs'
      \<and> (\<forall>m \<in> set msgs. authzable (k_sdk k) a m \<noteq> None)"
    using used.IH step(2) used(9) same gs' by simp
  with step(1) e(1) show ?case by simp
qed

end

section \<open>The two measures\<close>

definition amount :: "sdk_Coin list \<Rightarrow> string \<Rightarrow> int" where
  "amount coins d = sum_list (map coin_Amount (filter (\<lambda>c. coin_Denom c = d) coins))"

text \<open>
  What the coin arithmetic of the SDK promises: validated coins have no negative amounts,
  \<open>IsAllLTE\<close> compares and \<open>Sub\<close> subtracts them denomination by denomination, \<open>NewCoins\<close> keeps the amounts,
  and no coins are valid.
\<close>

definition coins_ok :: "'w sdk_ops \<Rightarrow> authz_ops \<Rightarrow> bool" where
  "coins_ok sdk az \<longleftrightarrow>
     sdk_Coins_Validate sdk [] = Inr () \<and>
     (\<forall>a d. sdk_Coins_Validate sdk a = Inr () \<longrightarrow> 0 \<le> amount a d) \<and>
     (\<forall>a b d. sdk_Coins_Validate sdk a = Inr () \<longrightarrow> sdk_Coins_Validate sdk b = Inr () \<longrightarrow> az_IsAllLTE az a b \<longrightarrow>
        amount a d \<le> amount b d) \<and>
     (\<forall>a b c d. sdk_Coins_Validate sdk a = Inr () \<longrightarrow> sdk_Coins_Validate sdk b = Inr () \<longrightarrow> az_Sub az a b = Ok c \<longrightarrow>
        amount c d = amount a d - amount b d) \<and>
     (\<forall>a c d. az_NewCoins az a = Ok c \<longrightarrow> amount c d = amount a d)"

fun limit_amount :: "string \<Rightarrow> ContractAuthzLimitX \<Rightarrow> int" where
  "limit_amount d (MaxFundsLimit amounts) = amount amounts d"
| "limit_amount d (CombinedLimit calls amounts) = amount amounts d"
| "limit_amount d _ = 0"

fun limit_calls :: "ContractAuthzLimitX \<Rightarrow> int" where
  "limit_calls (MaxCallsLimit n) = uint n"
| "limit_calls (CombinedLimit n amounts) = uint n"
| "limit_calls _ = 0"

fun counts_calls :: "ContractAuthzLimitX \<Rightarrow> bool" where
  "counts_calls (MaxFundsLimit _) = False"
| "counts_calls _ = True"

lemma amount_Nil [simp]: "amount [] d = 0"
  by (simp add: amount_def)

lemma uint_pred:
  assumes "n \<noteq> (0 :: u64)"
  shows "uint (n - 1) + 1 = uint n"
proof -
  have "unat (n - 1) = unat n - 1" using assms by (rule unat_minus_one)
  moreover have "0 < unat n" using assms by (simp add: unat_gt_0)
  ultimately have "int (unat (n - 1)) + 1 = int (unat n)" by linarith
  then show ?thesis by (metis uint_nat)
qed

lemmas limit_Accept_defs = MaxCallsLimit_Accept_def MaxFundsLimit_Accept_def CombinedLimit_Accept_def
  NewCombinedLimit_def notApplicable_def accepted_def lastUse_def

interpretation funds: limit_measure k az "\<lambda>_. coins_ok (k_sdk k) az"
  "\<lambda>exec. sdk_Coins_Validate (k_sdk k) (am_Funds exec) = Inr ()" "limit_amount d" "\<lambda>exec. amount (am_Funds exec) d"
  for k az d
proof unfold_locales
  fix l exec r l'
  assume ok: "coins_ok (k_sdk k) az" and v: "limit_ValidateBasic (k_sdk k) l = Inr ()"
  show "0 \<le> limit_amount d l"
    using ok v by (cases l) (auto simp: coins_ok_def bindE_Inr_iff)
  assume m: "sdk_Coins_Validate (k_sdk k) (am_Funds exec) = Inr ()" and r: "limit_Accept az l exec = Ok (Some r)" "lr_Accepted r"
  show "lr_DeleteLimit r \<Longrightarrow> amount (am_Funds exec) d \<le> limit_amount d l"
    using ok v m r by (cases l) (auto simp: coins_ok_def bindE_Inr_iff limit_Accept_defs bindO_Ok_iff split: if_splits)
  assume n: "\<not> lr_DeleteLimit r"
  show "lr_UpdateLimit r = Some l' \<Longrightarrow> coins_ok (k_sdk k) az \<and> limit_amount d l' + amount (am_Funds exec) d \<le> limit_amount d l"
    using ok v m r n by (cases l) (auto simp: coins_ok_def bindE_Inr_iff limit_Accept_defs bindO_Ok_iff split: if_splits)
  show "lr_UpdateLimit r = None \<Longrightarrow> amount (am_Funds exec) d \<le> 0"
    using ok v m r n by (cases l) (auto simp: limit_Accept_defs bindO_Ok_iff split: if_splits)
qed

interpretation calls: limit_measure k az counts_calls "\<lambda>_. True" limit_calls "\<lambda>_. 1" for k az
proof unfold_locales
  fix l exec r l'
  assume ok: "counts_calls l" and v: "limit_ValidateBasic (k_sdk k) l = Inr ()"
  show "0 \<le> limit_calls l" by (cases l) simp_all
  have pos: "n \<noteq> 0 \<Longrightarrow> 1 \<le> uint n" for n :: u64 using uint_pred [of n] uint_nonnegative [of "n - 1"] by linarith
  assume r: "limit_Accept az l exec = Ok (Some r)" "lr_Accepted r"
  show "lr_DeleteLimit r \<Longrightarrow> 1 \<le> limit_calls l"
    using ok v r by (cases l) (auto simp: limit_Accept_defs bindO_Ok_iff bindE_Inr_iff intro!: pos split: if_splits)
  assume n: "\<not> lr_DeleteLimit r"
  show "lr_UpdateLimit r = Some l' \<Longrightarrow> counts_calls l' \<and> limit_calls l' + 1 \<le> limit_calls l"
    using ok v r n by (cases l) (auto simp: limit_Accept_defs bindO_Ok_iff bindE_Inr_iff uint_pred split: if_splits)
  show "lr_UpdateLimit r = None \<Longrightarrow> 1 \<le> (0 :: int)"
    using ok v r n by (cases l) (auto simp: limit_Accept_defs bindO_Ok_iff split: if_splits)
qed

section \<open>What a grant bounds\<close>

fun sent_funds :: "sdk_Msg \<Rightarrow> sdk_Coin list" where
  "sent_funds (ExecuteContractMsg msg) = ec_Funds msg"
| "sent_funds _ = []"

lemma authzable_sent: "asMsgExecuteContract sdk m = Some exec \<Longrightarrow> am_Funds exec = sent_funds m"
  by (cases m) auto



section \<open>Checksums in grants\<close>

lemma rune_size_continuation:
  assumes "128 \<le> (of_char c :: nat)" and "of_char c \<le> (191 :: nat)"
  shows "rune_size (c # cs) = 0"
  using assms by (cases "c # cs" rule: rune_size.cases) (auto simp: in_range_def)

lemma EqualFold_no_text:
  assumes "length s = length t" and "list_all (\<lambda>c. 128 \<le> (of_char c :: nat) \<and> of_char c \<le> (191 :: nat)) (s @ t)"
  shows "EqualFold az s t"
  using assms
proof (induction s t rule: list_induct2)
  case Nil
  show ?case by (simp add: EqualFold.simps)
next
  case (Cons c s d t)
  then have "DecodeRune (c # s) = (0xFFFD, 1)" and "DecodeRune (d # t) = (0xFFFD, 1)"
    by (auto simp: DecodeRune_def rune_size_continuation)
  with Cons show ?case by (subst EqualFold.simps) (simp add: rune_fold_def)
qed

text \<open>
  A grant to upload code with a given checksum also accepts other checksums: both are compared as
  text, where every byte that is no UTF-8 is the same character. Two checksums of one length made of
  continuation bytes are never told apart.
\<close>

theorem code_grant_confuses_checksums:
  assumes "length codeHash = length checksum"
    and "list_all (\<lambda>c. 128 \<le> (of_char c :: nat) \<and> of_char c \<le> (191 :: nat)) (codeHash @ checksum)"
  shows "CodeGrant_Accept az (NewCodeGrant codeHash None) checksum permission = Ok True"
  using EqualFold_no_text [OF assms, of az] by (simp add: CodeGrant_Accept_def NewCodeGrant_def)

section \<open>A concrete use\<close>

definition sample_coins_valid :: "sdk_Coin list \<Rightarrow> bool" where
  "sample_coins_valid cs \<longleftrightarrow> distinct (map coin_Denom cs) \<and> list_all (\<lambda>c. 0 < coin_Amount c) cs"

definition sample_granter :: "(unit, unit) Keeper" where
  "sample_granter = sample_keeper\<lparr>k_sdk := sample_sdk\<lparr>sdk_Coins_Validate :=
     (\<lambda>cs. if sample_coins_valid cs then Inr () else Inl (PlainError ''invalid coins''))\<rparr>\<rparr>"

definition sample_az :: authz_ops where
  "sample_az = \<lparr>az_foldEq = (\<lambda>_ _. False), az_ToLower = (\<lambda>s. s), az_Quote = (\<lambda>s. s), az_sha256 = (\<lambda>b. take 32 b),
     az_json_Unmarshal = (\<lambda>_. Inr None),
     az_IsAllLTE = (\<lambda>a b. list_all (\<lambda>c. coin_Amount c \<le> amount b (coin_Denom c)) a),
     az_Sub = (\<lambda>a b. if list_all (\<lambda>c. coin_Denom c \<in> set (map coin_Denom a)) b
       then Ok (filter (\<lambda>c. coin_Amount c \<noteq> 0)
         (map (\<lambda>c. c\<lparr>coin_Amount := coin_Amount c - amount b (coin_Denom c)\<rparr>) a))
       else Panic PanicOther),
     az_NewCoins = Ok\<rparr>"

lemma amount_Cons: "amount (c # cs) d = (if coin_Denom c = d then coin_Amount c else 0) + amount cs d"
  by (simp add: amount_def)

lemma amount_absent: "d \<notin> set (map coin_Denom cs) \<Longrightarrow> amount cs d = 0"
  by (induction cs) (auto simp: amount_Cons)

lemma amount_distinct: "distinct (map coin_Denom cs) \<Longrightarrow> c \<in> set cs \<Longrightarrow> amount cs (coin_Denom c) = coin_Amount c"
  by (induction cs) (auto simp: amount_Cons amount_absent image_iff)

lemma amount_nonzero: "amount (filter (\<lambda>c. coin_Amount c \<noteq> 0) cs) d = amount cs d"
  by (induction cs) (auto simp: amount_Cons)

lemma amount_sub:
  assumes "distinct (map coin_Denom cs)"
  shows "amount (map (\<lambda>c. c\<lparr>coin_Amount := coin_Amount c - f (coin_Denom c)\<rparr>) cs) d =
    amount cs d - (if d \<in> set (map coin_Denom cs) then f d else 0)"
  using assms by (induction cs) (auto simp: amount_Cons image_iff)

lemma amount_nonneg: "list_all (\<lambda>c. 0 < coin_Amount c) cs \<Longrightarrow> 0 \<le> amount cs d"
  by (induction cs) (auto simp: amount_Cons)

lemma sample_coins_ok: "coins_ok (k_sdk sample_granter) sample_az"
proof -
  have le: "amount a d \<le> amount b d"
    if a: "sample_coins_valid a" and b: "sample_coins_valid b"
      and le: "list_all (\<lambda>c. coin_Amount c \<le> amount b (coin_Denom c)) a" for a b d
  proof (cases "d \<in> set (map coin_Denom a)")
    case True
    then obtain c where "c \<in> set a" and "d = coin_Denom c" by auto
    with a le show ?thesis by (simp add: amount_distinct sample_coins_valid_def list_all_iff)
  next
    case False
    with b show ?thesis by (simp add: amount_absent amount_nonneg sample_coins_valid_def)
  qed
  have sub: "amount b d = 0" if "list_all (\<lambda>c. coin_Denom c \<in> set (map coin_Denom a)) b" "d \<notin> set (map coin_Denom a)" for a b d
    using that by (intro amount_absent) (auto simp: list_all_iff)
  show ?thesis
    using le sub
    by (auto simp: coins_ok_def sample_granter_def sample_az_def amount_nonzero amount_sub sample_coins_valid_def
        amount_nonneg split: if_splits)
qed

definition sample_limit_grant :: "ContractAuthzLimitX \<Rightarrow> ContractGrant" where
  "sample_limit_grant l = \<lparr>grant_Contract = ''contract'', grant_Limit = Some l, grant_Filter = Some AllowAllMessagesFilter\<rparr>"

definition sample_transfer :: "sdk_Coin list \<Rightarrow> sdk_Msg" where
  "sample_transfer cs = ExecuteContractMsg \<lparr>ec_Sender = ''alice'', ec_Contract = ''contract'', ec_Msg = ''{}'', ec_Funds = cs\<rparr>"

definition stake :: "int \<Rightarrow> sdk_Coin" where
  "stake n = \<lparr>coin_Denom = ''stake'', coin_Amount = n\<rparr>"

lemmas sample_grant_simps = sample_granter_def sample_az_def sample_defs sample_limit_grant_def sample_transfer_def
  stake_def AcceptGrantedMessage_def MsgExecuteContract_ValidateBasic_def checkAddr_def checkFunds_def checkPayload_def
  RawContractMessage_ValidateBasic_def sample_coins_valid_def wrapE_def GetLimit_def GetFilter_def limit_Accept_defs
  Coins_IsZero_def amount_def applyResult_def updatedAuthz_def validateGrants_def ContractGrant_ValidateBasic_def
  requireE_def WithNewLimits_def acceptResponse_def liftO_def liftE_def wrapM_def prog_simps

lemma sample_spends:
  "uses sample_granter sample_az (ContractExecutionAuthorization [sample_limit_grant (MaxFundsLimit [stake 5])])
     [sample_transfer [stake 3], sample_transfer [stake 2]] None"
  by (rule uses.used [where gr = None and w = "sample_world []" and w' = "sample_world []" and
        a' = "ContractExecutionAuthorization [sample_limit_grant (MaxFundsLimit [stake 2])]" and
        r = "\<lparr>ar_Accept = True, ar_Delete = False, ar_Updated =
          Some (ContractExecutionAuthorization [sample_limit_grant (MaxFundsLimit [stake 2])])\<rparr>"],
      simp_all add: sample_grant_simps,
      rule uses.used_up [where gr = None and w = "sample_world []" and w' = "sample_world []" and
        r = "\<lparr>ar_Accept = True, ar_Delete = True, ar_Updated = None\<rparr>"],
      simp_all add: sample_grant_simps)


lemma sample_calls:
  "uses sample_granter sample_az (ContractExecutionAuthorization [sample_limit_grant (MaxCallsLimit 1)])
     [sample_transfer []] None"
  by (rule uses.used_up [where gr = None and w = "sample_world []" and w' = "sample_world []" and
        r = "\<lparr>ar_Accept = True, ar_Delete = True, ar_Updated = None\<rparr>"])
     (simp_all add: sample_grant_simps)


theorem code_grant_confuses_checksums_witness:
  "replicate 32 (CHR 0x80) \<noteq> replicate 32 (CHR 0x81) \<and>
   CodeGrant_Accept sample_az (NewCodeGrant (replicate 32 (CHR 0x80)) None) (replicate 32 (CHR 0x81)) None = Ok True"
  using code_grant_confuses_checksums [of "replicate 32 (CHR 0x80)" "replicate 32 (CHR 0x81)" sample_az None]
  by (simp add: list_all_iff)

end
