(* ===== verification/Ante.thy ===== *)
theory Ante
  imports Keeper_Calls Sample_Chain
begin

text \<open>
  The decorators of \<open>keeper/ante.go\<close> that prepare the context of a transaction, the handler
  \<open>app/ante.go\<close> chains them into, and the values of \<open>types/context.go\<close> they set.

  A context is a \<open>tx_ctx\<close>: the values of \<open>ctx\<close>, the gas register and the gas limit of a block in the
  consensus parameters (\<open>None\<close> when they have no block section). The gas meter and the contracts of the
  transaction are parts of the state; a decorator that puts new ones into the context it hands on
  replaces them there.
\<close>

section \<open>Contexts\<close>

record tx_ctx =
  tc_ctx :: ctx
  tc_GasRegister :: "WasmGasRegisterConfig option"
  tc_MaxGas :: "int option"

type_synonym ('w, 'v, 'tx) AnteHandler = "tx_ctx \<Rightarrow> 'tx \<Rightarrow> bool \<Rightarrow> ('w, 'v, tx_ctx) op"
type_synonym ('w, 'v, 'tx) AnteDecorator = "('w, 'v, 'tx) AnteHandler \<Rightarrow> ('w, 'v, 'tx) AnteHandler"

definition WithGasRegister :: "tx_ctx \<Rightarrow> WasmGasRegisterConfig \<Rightarrow> tx_ctx" where
  "WithGasRegister c gr = c\<lparr>tc_GasRegister := Some gr\<rparr>"

definition GasRegisterFromContext :: "tx_ctx \<Rightarrow> WasmGasRegisterConfig option" where
  "GasRegisterFromContext c = tc_GasRegister c"

definition WithGasMeter :: "gas_meter \<Rightarrow> ('w, 'v, unit) op" where
  "WithGasMeter g = modifyM (withMeter g)"

definition WithTxContracts :: "TxContracts \<Rightarrow> ('w, 'v, unit) op" where
  "WithTxContracts tc = modifyM (\<lambda>w. w\<lparr>w_tx := Some tc\<rparr>)"

section \<open>Counting the transactions of a block\<close>

definition encodeHeightCounter :: "int \<Rightarrow> u32 \<Rightarrow> bytes" where
  "encodeHeightCounter height counter = Uint64ToBigEndian (word_of_int height) @ PutUint32 counter"

definition decodeHeightCounter :: "bytes \<Rightarrow> (int \<times> u32) outcome" where
  "decodeHeightCounter bz =
     (if length bz < 12 then Panic PanicOther
      else bindO (BigEndianToUint64 (take 8 bz)) (\<lambda>height.
           Ok (sint height, word_of_nat (be_val (take 4 (drop 8 bz))))))"

fun asRaw :: "store_value \<Rightarrow> bytes outcome" where
  "asRaw (RawV b) = Ok b"
| "asRaw _ = Panic PanicOther"

definition CountTXDecorator_AnteHandle :: "('w, 'v, 'tx) AnteDecorator" where
  "CountTXDecorator_AnteHandle nextAnte = (\<lambda>ctx tx simulate.
     if simulate then nextAnte ctx tx simulate
     else let currentHeight = ctx_BlockHeight (tc_ctx ctx) in
       bindM (bindM (storeGet TXCounterPrefix) (\<lambda>bz.
         case bz of
           None \<Rightarrow> returnM 0
         | Some v \<Rightarrow>
             bindM (liftO (bindO (asRaw v) decodeHeightCounter)) (\<lambda>(lastHeight, val).
             returnM (if currentHeight = lastHeight then val else 0)))) (\<lambda>txCounter.
       bindM (storeSet TXCounterPrefix (RawV (encodeHeightCounter currentHeight (txCounter + 1)))) (\<lambda>_.
       nextAnte (ctx\<lparr>tc_ctx := WithTXCounter (tc_ctx ctx) txCounter\<rparr>) tx simulate)))"

section \<open>The other decorators\<close>

definition NewLimitSimulationGasDecorator :: "u64 option \<Rightarrow> u64 option outcome" where
  "NewLimitSimulationGasDecorator gasLimit = (if gasLimit = Some 0 then Panic PanicOther else Ok gasLimit)"

definition LimitSimulationGasDecorator_AnteHandle :: "u64 option \<Rightarrow> ('w, 'v, 'tx) AnteDecorator" where
  "LimitSimulationGasDecorator_AnteHandle gasLimit nextAnte = (\<lambda>ctx tx simulate.
     if \<not> simulate then nextAnte ctx tx simulate
     else case gasLimit of
            Some limit \<Rightarrow> bindM (WithGasMeter (NewGasMeter limit)) (\<lambda>_. nextAnte ctx tx simulate)
          | None \<Rightarrow>
              (case tc_MaxGas ctx of
                 None \<Rightarrow> panicM PanicOther
               | Some maxGas \<Rightarrow>
                   if maxGas > 0
                   then bindM (WithGasMeter (NewGasMeter (word_of_int maxGas))) (\<lambda>_. nextAnte ctx tx simulate)
                   else nextAnte ctx tx simulate))"

definition GasRegisterDecorator_AnteHandle :: "WasmGasRegisterConfig \<Rightarrow> ('w, 'v, 'tx) AnteDecorator" where
  "GasRegisterDecorator_AnteHandle gasRegister nextAnte = (\<lambda>ctx tx simulate.
     nextAnte (WithGasRegister ctx gasRegister) tx simulate)"

definition TxContractsDecorator_AnteHandle :: "('w, 'v, 'tx) AnteDecorator" where
  "TxContractsDecorator_AnteHandle nextAnte = (\<lambda>ctx tx simulate.
     bindM (WithTxContracts NewTxContracts) (\<lambda>_. nextAnte ctx tx simulate))"

section \<open>The handler of the application\<close>

text \<open>
  The options of \<open>NewAnteHandler\<close>: which of the required ones are set, the values the decorators of this
  module get, and the decorators of the SDK and ibc-go made from the rest: the one that sets up the
  context, which is first, and those behind the decorators of this module.
\<close>

record ('w, 'v, 'tx) HandlerOptions =
  ho_AccountKeeper :: bool
  ho_BankKeeper :: bool
  ho_SignModeHandler :: bool
  ho_SimulationGasLimit :: "u64 option option"
  ho_TXCounterStoreService :: bool
  ho_CircuitKeeper :: bool
  ho_gasRegister :: WasmGasRegisterConfig
  ho_SetUpContext :: "('w, 'v, 'tx) AnteDecorator"
  ho_behind :: "('w, 'v, 'tx) AnteDecorator list"

text \<open>
  \<open>ChainAnteDecorators\<close> of the SDK is the argument \<open>chain\<close>. A limit of zero panics while the handler is made.
\<close>

definition NewAnteHandler ::
  "(('w, 'v, 'tx) AnteDecorator list \<Rightarrow> ('w, 'v, 'tx) AnteHandler) \<Rightarrow> ('w, 'v, 'tx) HandlerOptions \<Rightarrow>
   ('w, 'v, 'tx) AnteHandler outcome"
where
  "NewAnteHandler chain options =
     (if \<not> ho_AccountKeeper options then Err (PlainError ''account keeper is required for ante builder'')
      else if \<not> ho_BankKeeper options then Err (PlainError ''bank keeper is required for ante builder'')
      else if \<not> ho_SignModeHandler options then Err (PlainError ''sign mode handler is required for ante builder'')
      else case ho_SimulationGasLimit options of
             None \<Rightarrow> Err (PlainError ''wasm config is required for ante builder'')
           | Some simulationGasLimit \<Rightarrow>
               if \<not> ho_TXCounterStoreService options
               then Err (PlainError ''wasm store service is required for ante builder'')
               else if \<not> ho_CircuitKeeper options
               then Err (PlainError ''circuit keeper is required for ante builder'')
               else bindO (NewLimitSimulationGasDecorator simulationGasLimit) (\<lambda>limit.
                    Ok (chain ([ho_SetUpContext options,
                                LimitSimulationGasDecorator_AnteHandle limit,
                                CountTXDecorator_AnteHandle,
                                GasRegisterDecorator_AnteHandle (ho_gasRegister options),
                                TxContractsDecorator_AnteHandle] @ ho_behind options))))"

section \<open>The counters of a block\<close>

lemma decode_encode:
  assumes "- (2 ^ 63) \<le> height" and "height < 2 ^ 63"
  shows "decodeHeightCounter (encodeHeightCounter height counter) = Ok (height, counter)"
proof -
  have "sint (word_of_int height :: u64) = height"
    using assms by (simp add: signed_take_bit_int_eq_self sint_sbintrunc')
  moreover have "be_val (PutUint32 counter) = unat counter"
    using unat_u32_less [of counter] by (simp add: PutUint32_def)
  ultimately show ?thesis by (simp add: decodeHeightCounter_def encodeHeightCounter_def)
qed

definition stored_counter :: "int \<Rightarrow> ('w, 'v) world \<Rightarrow> u32 option" where
  "stored_counter height w =
     (case kv_get (w_store w) TXCounterPrefix of
        Some (RawV bz) \<Rightarrow>
          (case decodeHeightCounter bz of Ok (h, n) \<Rightarrow> if h = height then Some n else None | _ \<Rightarrow> None)
      | _ \<Rightarrow> None)"

text \<open>What the decorators behind it leave alone.\<close>

definition passes_counter :: "('w, 'v, 'tx) AnteHandler \<Rightarrow> bool" where
  "passes_counter nextAnte \<longleftrightarrow> (\<forall>c tx s w c' w'. nextAnte c tx s w = (Ok c', w') \<longrightarrow>
     ctx_TXCounter (tc_ctx c') = ctx_TXCounter (tc_ctx c) \<and>
     kv_get (w_store w') TXCounterPrefix = kv_get (w_store w) TXCounterPrefix)"

text \<open>
  The transactions of a block with the counters their contexts get. A block starts with no counter of its
  height in the store; besides the decorator nothing touches the entry.
\<close>

inductive block_txs ::
  "('w, 'v, 'tx) AnteHandler \<Rightarrow> int \<Rightarrow> u32 list \<Rightarrow> ('w, 'v) world \<Rightarrow> bool" for nextAnte height where
  begin_block: "stored_counter height w = None \<Longrightarrow> block_txs nextAnte height [] w"
| deliver_tx: "block_txs nextAnte height ns w \<Longrightarrow> ctx_BlockHeight (tc_ctx c) = height \<Longrightarrow>
    CountTXDecorator_AnteHandle nextAnte c tx False w = (Ok c', w') \<Longrightarrow> ctx_TXCounter (tc_ctx c') = Some n \<Longrightarrow>
    block_txs nextAnte height (ns @ [n]) w'"
| other: "block_txs nextAnte height ns w \<Longrightarrow>
    kv_get (w_store w') TXCounterPrefix = kv_get (w_store w) TXCounterPrefix \<Longrightarrow> block_txs nextAnte height ns w'"

lemma CountTX_run:
  assumes "CountTXDecorator_AnteHandle nextAnte c tx False w = (Ok c', w')" and "passes_counter nextAnte"
    and "- (2 ^ 63) \<le> ctx_BlockHeight (tc_ctx c)" and "ctx_BlockHeight (tc_ctx c) < 2 ^ 63"
  shows "ctx_TXCounter (tc_ctx c') =
      Some (case stored_counter (ctx_BlockHeight (tc_ctx c)) w of None \<Rightarrow> 0 | Some n \<Rightarrow> n) \<and>
    stored_counter (ctx_BlockHeight (tc_ctx c)) w' =
      Some ((case stored_counter (ctx_BlockHeight (tc_ctx c)) w of None \<Rightarrow> 0 | Some n \<Rightarrow> n) + 1)"
proof -
  let ?h = "ctx_BlockHeight (tc_ctx c)"
  let ?n = "case stored_counter ?h w of None \<Rightarrow> 0 | Some n \<Rightarrow> n"
  let ?c = "c\<lparr>tc_ctx := WithTXCounter (tc_ctx c) ?n\<rparr>"
  let ?w = "w\<lparr>w_store := kv_set (w_store w) TXCounterPrefix (RawV (encodeHeightCounter ?h (?n + 1)))\<rparr>"
  have "nextAnte ?c tx False ?w = (Ok c', w')"
    using assms(1)
    by (auto simp: CountTXDecorator_AnteHandle_def stored_counter_def storeGet_def storeSet_def Let_def
        prog_Ok_iffs bindO_Ok_iff split: option.splits store_value.splits outcome.splits if_splits elim!: bindM_Ok_E)
  with assms(2) have "ctx_TXCounter (tc_ctx c') = Some ?n"
    and "kv_get (w_store w') TXCounterPrefix = Some (RawV (encodeHeightCounter ?h (?n + 1)))"
    by (auto simp: passes_counter_def WithTXCounter_def kv_get_set)
  then show ?thesis using decode_encode [OF assms(3,4)] by (simp add: stored_counter_def)
qed

lemma block_counters:
  assumes "block_txs nextAnte height ns w" and "passes_counter nextAnte" and "- (2 ^ 63) \<le> height" and "height < 2 ^ 63"
  shows "ns = map word_of_nat [0..<length ns] \<and>
    stored_counter height w = (if ns = [] then None else Some (word_of_nat (length ns)))"
  using assms(1)
proof induction
  case (begin_block w)
  then show ?case by simp
next
  case (deliver_tx ns w c tx c' w' n)
  with CountTX_run [OF deliver_tx(3) assms(2)] assms(3,4) have "n = word_of_nat (length ns)"
    and "stored_counter height w' = Some (word_of_nat (Suc (length ns)))"
    by (auto split: if_splits)
  with deliver_tx.IH show ?case by simp
next
  case (other ns w w')
  then show ?case by (simp add: stored_counter_def)
qed

text \<open>
  C37: The transactions of a block are numbered from zero in the order they are delivered, and as long as
  there are no more of them than 32-bit numbers no two get the same number.
\<close>

theorem block_transactions_numbered:
  assumes "block_txs nextAnte height ns w" and "passes_counter nextAnte" and "0 \<le> height" and "height < 2 ^ 63"
    and "length ns \<le> 2 ^ 32"
  shows "ns = map word_of_nat [0..<length ns] \<and> distinct ns"
proof -
  have ns: "ns = map word_of_nat [0..<length ns]"
    using block_counters [OF assms(1,2)] assms(3,4) by simp
  have "inj_on (word_of_nat :: nat \<Rightarrow> u32) {0..<length ns}"
    using assms(5) by (auto simp: inj_on_def word_of_nat_eq_iff take_bit_nat_eq_self)
  then have "distinct (map (word_of_nat :: nat \<Rightarrow> u32) [0..<length ns])" by (simp add: distinct_map)
  with ns show ?thesis by (metis (no_types, lifting))
qed

definition sample_tx_ctx :: tx_ctx where
  "sample_tx_ctx = \<lparr>tc_ctx = sample_ctx, tc_GasRegister = None, tc_MaxGas = None\<rparr>"

definition sample_next :: "(unit, unit, unit) AnteHandler" where
  "sample_next = (\<lambda>c tx s. returnM c)"

lemma sample_block:
  "block_txs sample_next 7 [0] (snd (CountTXDecorator_AnteHandle sample_next sample_tx_ctx () False (sample_world [])))"
  using block_txs.deliver_tx [where c = sample_tx_ctx and c' = "sample_tx_ctx\<lparr>tc_ctx := WithTXCounter sample_ctx 0\<rparr>" and
      n = 0 and tx = "()" and w' = "snd (CountTXDecorator_AnteHandle sample_next sample_tx_ctx () False (sample_world []))",
    OF block_txs.begin_block [where w = "sample_world []" and height = 7 and nextAnte = sample_next]]
  by (simp add: stored_counter_def sample_world_def sample_tx_ctx_def sample_ctx_def WithTXCounter_def sample_next_def
      CountTXDecorator_AnteHandle_def storeGet_def storeSet_def Let_def prog_simps)

theorem block_transactions_numbered_witness:
  "passes_counter sample_next \<and> [0 :: u32] = map word_of_nat [0..<length [0 :: u32]] \<and> distinct [0 :: u32]"
proof -
  have "passes_counter sample_next" by (simp add: passes_counter_def prog_Ok_iffs sample_next_def)
  with block_transactions_numbered [OF sample_block this] show ?thesis by simp
qed

end
