(* ===== verification/Genesis_Roundtrip.thy ===== *)
theory Genesis_Roundtrip
  imports Sample_App
begin

text \<open>
  Export followed by import: what \<open>ExportGenesis\<close> lists, what \<open>InitGenesis\<close> writes for each listed code,
  contract and sequence, and that a registry exported and imported into an empty store is the same
  registry: the same codes, contracts, histories, pinned codes, sequences and parameters.
\<close>

section \<open>What the import writes for a contract\<close>

lemma look_history_positions:
  assumes "unat pos + length es < 2 ^ 64"
  shows "look (history_written a pos es m) (HistoryK a i) =
    (if unat pos < unat i \<and> unat i \<le> unat pos + length es then Some (HistoryV (es ! (unat i - unat pos - 1)))
     else look m (HistoryK a i))"
  using assms
proof (induction es arbitrary: pos m)
  case (Cons e es)
  have less: "unat pos + 1 < 2 ^ 64" using Cons.prems by simp
  have suc: "unat (pos + 1) = unat pos + 1" using less by (simp add: unat_word_ariths(1))
  have "i = pos + 1 \<longleftrightarrow> unat i = unat pos + 1" by (metis suc word_eq_iff_unsigned)
  then show ?case
    using Cons.IH [of "pos + 1" "kv_set m (GetContractCodeHistoryElementKey a (pos + 1)) (HistoryV e)"] Cons.prems
    by (auto simp: suc look_sets nth_Cons')
qed auto

lemma importContractState_look:
  assumes "importContractState a models w = (Ok u, w')" and "registry_key sk"
  shows "look (w_store w') sk = look (w_store w) sk"
  using assms(1)
proof (induction models arbitrary: w)
  case (Cons model models)
  let ?k = "GetContractStorePrefix a @ model_Key model"
  let ?w = "w\<lparr>w_store := kv_set (w_store w) ?k (RawV (model_Value model))\<rparr>"
  from Cons.prems have "importContractState a models ?w = (Ok u, w')"
    by (auto simp: storeHas_def storeSet_def Let_def prog_Ok_iffs split: if_splits elim!: bindM_Ok_E)
  moreover have "look (w_store ?w) sk = look (w_store w) sk"
    using look_set [of "StoreK a (model_Key model)" ?k sk] assms(2) by auto
  ultimately show ?case using Cons.IH by simp
qed (simp add: prog_Ok_iffs)

text \<open>The entries of the registry that hold an imported contract.\<close>

definition holds_contract :: "store_value items \<Rightarrow> bytes \<Rightarrow> Contract \<Rightarrow> bool" where
  "holds_contract m a c \<longleftrightarrow>
     look m (ContractK a) = Some (ContractInfoV (gen_ContractInfo c)) \<and>
     (\<forall>i. look m (HistoryK a i) =
        (if i \<noteq> 0 \<and> unat i \<le> length (gen_ContractCodeHistory c)
         then Some (HistoryV (gen_ContractCodeHistory c ! (unat i - 1))) else None))"

definition no_stray_history :: "store_value items \<Rightarrow> bool" where
  "no_stray_history m \<longleftrightarrow> (\<forall>a i. look m (ContractK a) = None \<longrightarrow> look m (HistoryK a i) = None)"

lemma importContract_views:
  assumes run: "importContract k a (gen_ContractInfo c) st (gen_ContractCodeHistory c) w = (Ok u, w')"
    and ok: "registry_ok (w_store w)" "keys_ok (w_store w)" and stray: "no_stray_history (w_store w)"
    and last: "hist_CodeID (last (gen_ContractCodeHistory c)) = con_CodeID (gen_ContractInfo c)"
    and len: "length (gen_ContractCodeHistory c) < 2 ^ 64"
  shows "look (w_store w) (ContractK a) = None \<and> holds_contract (w_store w') a c \<and> no_stray_history (w_store w') \<and>
    (\<forall>sk. registry_key sk \<longrightarrow> key_kind sk \<noteq> 6 \<longrightarrow> key_kind sk \<noteq> 9 \<longrightarrow> sk \<noteq> ContractK a \<longrightarrow>
       (\<forall>i. sk \<noteq> HistoryK a i) \<longrightarrow> look (w_store w') sk = look (w_store w) sk)"
proof -
  let ?m = "w_store w" and ?hs = "gen_ContractCodeHistory c"
  have items: "items_ok ?m" using ok by (simp add: registry_ok_def)
  from importContract_E [OF run items] obtain pos p kc creator q kr where
    absent: "look ?m (ContractK a) = None" and pos: "last_position ?m a pos"
    and kc: "key_of (ByCodeK (hist_CodeID (last ?hs)) p a) = Ok kc" and kr: "key_of (ByCreatorK creator q a) = Ok kr"
    and st: "importContractState a st (w\<lparr>w_store := contract_written a (gen_ContractInfo c) ?hs pos kc kr ?m\<rparr>) = (Ok u, w')" .
  have none: "look ?m (HistoryK a i) = None" for i using stray absent by (simp add: no_stray_history_def)
  then have "pos = 0" using pos by (simp add: last_position_def)
  let ?c = "contract_written a (gen_ContractInfo c) ?hs 0 kc kr ?m"
  have c: "look ?c sk = (if sk = ContractK a then Some (ContractInfoV (gen_ContractInfo c))
      else look (history_written a 0 ?hs ?m) sk)" if "key_kind sk \<noteq> 6" "key_kind sk \<noteq> 9" for sk
    using that unfolding contract_written_def by (auto simp: look_creator [OF kr] look_index [OF kc] look_sets)
  have "look (w_store w') sk = look ?c sk" if "registry_key sk" for sk
    using importContractState_look [OF st that] \<open>pos = 0\<close> by simp
  then have "look (w_store w') sk = (if sk = ContractK a then Some (ContractInfoV (gen_ContractInfo c))
      else look (history_written a 0 ?hs ?m) sk)" if "registry_key sk" "key_kind sk \<noteq> 6" "key_kind sk \<noteq> 9" for sk
    using c that by simp
  then show ?thesis
    using absent stray none len look_history_positions [of 0 ?hs a ?m]
    by (auto simp: holds_contract_def no_stray_history_def look_history_written unat_gt_0 unat_eq_zero)
qed

abbreviation contract_addr :: "('w, 'v) Keeper \<Rightarrow> Contract \<Rightarrow> go_error + bytes" where
  "contract_addr k c \<equiv> AccAddressFromBech32 (k_addr k) (gen_ContractAddress c)"

lemma importContracts_views:
  assumes "importContracts k n contracts w = (Ok u, w')"
    and "registry_ok (w_store w)" and "keys_ok (w_store w)" and "no_stray_history (w_store w)"
    and "\<forall>c \<in> set contracts. hist_CodeID (last (gen_ContractCodeHistory c)) = con_CodeID (gen_ContractInfo c) \<and>
      length (gen_ContractCodeHistory c) < 2 ^ 64"
  shows "(\<forall>c \<in> set contracts. \<exists>a. contract_addr k c = Inr a \<and> look (w_store w) (ContractK a) = None \<and>
       holds_contract (w_store w') a c) \<and>
     (\<forall>sk. registry_key sk \<longrightarrow> key_kind sk \<noteq> 6 \<longrightarrow> key_kind sk \<noteq> 9 \<longrightarrow>
       (\<forall>c \<in> set contracts. \<forall>a i. contract_addr k c = Inr a \<longrightarrow> sk \<noteq> ContractK a \<and> sk \<noteq> HistoryK a i) \<longrightarrow>
       look (w_store w') sk = look (w_store w) sk)"
  using assms
proof (induction contracts arbitrary: n w)
  case Nil
  then show ?case by (simp add: prog_Ok_iffs)
next
  case (Cons c contracts)
  from Cons.prems(1) obtain a w1 where a: "contract_addr k c = Inr a"
    and c: "importContract k a (gen_ContractInfo c) (gen_ContractState c) (gen_ContractCodeHistory c) w = (Ok (), w1)"
    and rest: "importContracts k (Suc n) contracts w1 = (Ok u, w')"
    by (auto simp: prog_Ok_iffs elim!: bindM_Ok_E)
  have ok: "registry_ok (w_store w1)" "keys_ok (w_store w1)"
    using importContract_ok [OF c Cons.prems(2,3)] Cons.prems(5) by auto
  have first: "look (w_store w) (ContractK a) = None" "holds_contract (w_store w1) a c" "no_stray_history (w_store w1)"
    and other1: "\<And>sk. registry_key sk \<Longrightarrow> key_kind sk \<noteq> 6 \<Longrightarrow> key_kind sk \<noteq> 9 \<Longrightarrow> sk \<noteq> ContractK a \<Longrightarrow>
       (\<forall>i. sk \<noteq> HistoryK a i) \<Longrightarrow> look (w_store w1) sk = look (w_store w) sk"
    using importContract_views [OF c Cons.prems(2-4)] Cons.prems(5) by simp_all
  have IH: "\<And>d. d \<in> set contracts \<Longrightarrow> \<exists>b. contract_addr k d = Inr b \<and> look (w_store w1) (ContractK b) = None \<and>
       holds_contract (w_store w') b d"
    and other2: "\<And>sk. registry_key sk \<Longrightarrow> key_kind sk \<noteq> 6 \<Longrightarrow> key_kind sk \<noteq> 9 \<Longrightarrow>
       (\<forall>d \<in> set contracts. \<forall>b i. contract_addr k d = Inr b \<longrightarrow> sk \<noteq> ContractK b \<and> sk \<noteq> HistoryK b i) \<Longrightarrow>
       look (w_store w') sk = look (w_store w1) sk"
    using Cons.IH [OF rest ok first(3)] Cons.prems(5) by simp_all
  have fresh: "b \<noteq> a" if "d \<in> set contracts" "contract_addr k d = Inr b" for d b
    using IH [OF that(1)] that(2) first(2) by (auto simp: holds_contract_def)
  have "holds_contract (w_store w') a c"
  proof -
    have neq: "\<forall>d \<in> set contracts. \<forall>b. contract_addr k d = Inr b \<longrightarrow> a \<noteq> b" using fresh by blast
    have "look (w_store w') (ContractK a) = look (w_store w1) (ContractK a)"
      and "\<And>i. look (w_store w') (HistoryK a i) = look (w_store w1) (HistoryK a i)"
      using neq by (auto intro!: other2)
    with first(2) show ?thesis by (simp add: holds_contract_def)
  qed
  moreover have "look (w_store w) (ContractK b) = None" if "d \<in> set contracts" "contract_addr k d = Inr b" for d b
    using IH [OF that(1)] that other1 [of "ContractK b"] fresh [OF that] by auto
  ultimately show ?case
    using a first(1) IH other1 other2 by (auto, blast)
qed

section \<open>What the import writes into the stores of the contracts\<close>

text \<open>What is stored at a key of the contracts' stores; the address comes first.\<close>

abbreviation stored :: "store_value items \<Rightarrow> bytes \<Rightarrow> store_value option" where
  "stored m k \<equiv> look m (StoreK [] k)"

lemma stored_key: "stored m (a @ k) = kv_get m (GetContractStorePrefix a @ k)"
  by (simp add: look_def GetContractStorePrefix_def)

lemma importContractState_stored:
  assumes "importContractState a models w = (Ok u, w')"
  shows "(\<forall>k v. stored (w_store w') k = Some v \<longleftrightarrow> stored (w_store w) k = Some v \<or>
      (\<exists>md \<in> set models. k = a @ model_Key md \<and> v = RawV (model_Value md))) \<and>
    (\<forall>md \<in> set models. stored (w_store w) (a @ model_Key md) = None)"
  using assms
proof (induction models arbitrary: w)
  case (Cons model models)
  let ?w = "w\<lparr>w_store := kv_set (w_store w) (GetContractStorePrefix a @ model_Key model) (RawV (model_Value model))\<rparr>"
  have set: "stored (w_store ?w) j = (if j = a @ model_Key model then Some (RawV (model_Value model)) else stored (w_store w) j)" for j
    by (auto simp: look_def kv_get_set GetContractStorePrefix_def)
  from Cons.prems have run: "importContractState a models ?w = (Ok u, w')" and "stored (w_store w) (a @ model_Key model) = None"
    by (auto simp: storeHas_def storeSet_def Let_def prog_Ok_iffs kv_has_def stored_key split: if_splits elim!: bindM_Ok_E)
  with Cons.IH [OF run] show ?case unfolding set by (auto split: if_splits)
qed (simp add: prog_Ok_iffs)

lemma importContract_stored:
  assumes "importContract k a c st hs w = (Ok u, w')" and "items_ok (w_store w)"
  shows "stored (w_store w') key = Some v \<longleftrightarrow> stored (w_store w) key = Some v \<or>
      (\<exists>md \<in> set st. key = a @ model_Key md \<and> v = RawV (model_Value md))"
proof -
  from importContract_E [OF assms] obtain pos p kc creator q kr where
    kc: "key_of (ByCodeK (hist_CodeID (last hs)) p a) = Ok kc" and kr: "key_of (ByCreatorK creator q a) = Ok kr"
    and st: "importContractState a st (w\<lparr>w_store := contract_written a c hs pos kc kr (w_store w)\<rparr>) = (Ok u, w')" .
  have "stored (contract_written a c hs pos kc kr (w_store w)) key = stored (w_store w) key"
    by (simp add: contract_written_def look_creator [OF kr] look_index [OF kc] look_sets look_history_written)
  with importContractState_stored [OF st] show ?thesis by simp
qed

lemma importContracts_stored:
  assumes "importContracts k n contracts w = (Ok u, w')"
    and "registry_ok (w_store w)" and "keys_ok (w_store w)"
    and "\<forall>c \<in> set contracts. hist_CodeID (last (gen_ContractCodeHistory c)) = con_CodeID (gen_ContractInfo c)"
  shows "stored (w_store w') key = Some v \<longleftrightarrow> stored (w_store w) key = Some v \<or>
      (\<exists>c \<in> set contracts. \<exists>a. contract_addr k c = Inr a \<and>
        (\<exists>md \<in> set (gen_ContractState c). key = a @ model_Key md \<and> v = RawV (model_Value md)))"
  using assms
proof (induction contracts arbitrary: n w)
  case Nil
  then show ?case by (simp add: prog_Ok_iffs)
next
  case (Cons c contracts)
  from Cons.prems(1) obtain a w1 where a: "contract_addr k c = Inr a"
    and c: "importContract k a (gen_ContractInfo c) (gen_ContractState c) (gen_ContractCodeHistory c) w = (Ok (), w1)"
    and rest: "importContracts k (Suc n) contracts w1 = (Ok u, w')"
    by (auto simp: prog_Ok_iffs elim!: bindM_Ok_E)
  have ok: "registry_ok (w_store w1)" "keys_ok (w_store w1)"
    using importContract_ok [OF c Cons.prems(2,3)] Cons.prems(4) by auto
  have "items_ok (w_store w)" using Cons.prems(2) by (simp add: registry_ok_def)
  with Cons.IH [OF rest ok] Cons.prems(4) importContract_stored [OF c] a show ?case by auto
qed

section \<open>Histories as lists\<close>

lemma positions_of_imported:
  assumes "registry_ok m" and "holds_contract m a c" and "length (gen_ContractCodeHistory c) < 2 ^ 64"
  shows "map (entry_of \<circ> snd) (positions_of m a) = gen_ContractCodeHistory c"
proof -
  let ?hs = "gen_ContractCodeHistory c"
  let ?ys = "map (\<lambda>j. (Uint64ToBigEndian (word_of_nat (Suc j)), HistoryV (?hs ! j))) [0..<length ?hs]"
  have unat: "unat (word_of_nat (Suc j) :: u64) = Suc j" if "j < length ?hs" for j
    using that assms(3) by (simp add: unat_of_nat del: of_nat_Suc)
  have "(k, v) \<in> set (positions_of m a) \<longleftrightarrow> (k, v) \<in> set ?ys" for k v
  proof -
    have "(\<exists>i. k = Uint64ToBigEndian i \<and> v = HistoryV e \<and> history_at m a i = Some e) \<longleftrightarrow>
        (\<exists>j < length ?hs. k = Uint64ToBigEndian (word_of_nat (Suc j)) \<and> v = HistoryV e \<and> e = ?hs ! j)" for e
    proof
      assume "\<exists>i. k = Uint64ToBigEndian i \<and> v = HistoryV e \<and> history_at m a i = Some e"
      then obtain i where i: "k = Uint64ToBigEndian i" "v = HistoryV e" "i \<noteq> 0" "unat i \<le> length ?hs" "e = ?hs ! (unat i - 1)"
        using assms(2) by (auto simp: at_iffs holds_contract_def split: if_splits)
      then have "Suc (unat i - 1) = unat i" by (simp add: unat_gt_0)
      with i show "\<exists>j < length ?hs. k = Uint64ToBigEndian (word_of_nat (Suc j)) \<and> v = HistoryV e \<and> e = ?hs ! j"
        by (intro exI [of _ "unat i - 1"]) auto
    next
      assume "\<exists>j < length ?hs. k = Uint64ToBigEndian (word_of_nat (Suc j)) \<and> v = HistoryV e \<and> e = ?hs ! j"
      then obtain j where j: "j < length ?hs" "k = Uint64ToBigEndian (word_of_nat (Suc j))" "v = HistoryV e" "e = ?hs ! j"
        by blast
      have "(word_of_nat (Suc j) :: u64) \<noteq> 0" using unat [OF j(1)] by (metis Zero_not_Suc unat_0)
      with j unat [OF j(1)] assms(2) show "\<exists>i. k = Uint64ToBigEndian i \<and> v = HistoryV e \<and> history_at m a i = Some e"
        by (intro exI [of _ "word_of_nat (Suc j)"]) (simp add: at_iffs holds_contract_def del: of_nat_Suc)
    qed
    moreover have "(k, v) \<in> set ?ys \<longleftrightarrow>
        (\<exists>e. \<exists>j < length ?hs. k = Uint64ToBigEndian (word_of_nat (Suc j)) \<and> v = HistoryV e \<and> e = ?hs ! j)"
      by (auto simp del: of_nat_Suc)
    ultimately show ?thesis using positions_entry [OF assms(1), of k v a] by (simp del: of_nat_Suc) blast
  qed
  then have same: "set (positions_of m a) = set ?ys" by auto
  have "sorted_wrt (<) (map fst ?ys)"
    using unat by (auto simp: sorted_wrt_iff_nth_less word_less_nat_alt simp del: of_nat_Suc)
  moreover have "sorted_wrt (<) (map fst (positions_of m a))"
    using assms(1) by (simp add: positions_sorted registry_ok_def)
  ultimately have "prefix (positions_of m a) ?ys" and "prefix ?ys (positions_of m a)"
    using same by (auto intro!: sorted_prefix simp del: set_map)
  then have "positions_of m a = ?ys" by (rule prefix_order.antisym)
  then show ?thesis by (simp add: comp_def map_nth)
qed

section \<open>What the export lists\<close>

lemma collectM_Ok:
  assumes "collectM f xs w = (Ok ys, w')" and "\<And>x u y u'. f x u = (Ok y, u') \<Longrightarrow> u' = u"
  shows "w' = w \<and> list_all2 (\<lambda>x y. f x w = (Ok y, w)) xs ys"
  using assms(1)
proof (induction xs arbitrary: ys w)
  case Nil
  then show ?case by (simp add: prog_Ok_iffs)
next
  case (Cons x xs)
  then obtain y zs u where "f x w = (Ok y, u)" and "collectM f xs u = (Ok zs, w')" and "ys = y # zs"
    by (auto simp: prog_Ok_iffs elim!: bindM_Ok_E)
  with assms(2) [of x w y u] Cons.IH [of u zs] show ?case by simp
qed

lemma mustM_Ok_iff: "mustM m w = (Ok x, w') \<longleftrightarrow> m w = (Ok x, w')"
  by (auto simp: mustM_def bindM_def tryM_def panicM_def returnM_def split: prod.splits outcome.splits sum.splits)

lemma GetByteCode_pure: "GetByteCode k i w = (Ok b, w') \<Longrightarrow> w' = w"
  by (auto simp: GetByteCode_def GetCodeInfo_def storeGet_def prog_Ok_iffs split: option.splits sum.splits elim!: bindM_Ok_E)

lemma exportCode_E:
  assumes "exportCode k i info w = (Ok c, w')"
  shows "w' = w \<and> gen_CodeID c = i \<and> gen_CodeInfo c = info \<and> (gen_Pinned c \<longleftrightarrow> look (w_store w) (PinnedK i) \<noteq> None)"
proof -
  obtain b u where b: "GetByteCode k i w = (Ok b, u)"
    and c: "c = \<lparr>gen_CodeID = i, gen_CodeInfo = info, gen_CodeBytes = (case b of None \<Rightarrow> [] | Some b \<Rightarrow> b),
      gen_Pinned = kv_has (w_store u) (GetPinnedCodeIndexPrefix i)\<rparr>" and "w' = u"
    using assms
    by (auto simp: exportCode_def mustM_Ok_iff IsPinnedCode_def storeHas_def prog_Ok_iffs elim!: bindM_Ok_E)
  with GetByteCode_pure [OF b] show ?thesis by (simp add: kv_has_def look_def)
qed

definition models_of :: "store_value items \<Rightarrow> bytes \<Rightarrow> Model list" where
  "models_of m a = map (\<lambda>(key, value). \<lparr>model_Key = key, model_Value = value\<rparr>) (contractStore m a)"

lemma exportContract_E:
  assumes "exportContract k a info w = (Ok c, w')"
  shows "w' = w \<and> gen_ContractAddress c = addr_String (k_addr k) a \<and> gen_ContractInfo c = info \<and>
    gen_ContractState c = models_of (w_store w) a \<and> GetContractHistory a w = (Ok (gen_ContractCodeHistory c), w)"
  using assms
  by (auto simp: exportContract_def models_of_def GetContractHistory_def storePrefix_def prog_Ok_iffs elim!: bindM_Ok_E)
     (auto simp: bindM_def liftO_def)

lemma exportSequence_E: "exportSequence key w = (Ok s, w') \<Longrightarrow> w' = w \<and> gen_IDKey s = key \<and> next_id (w_store w) key = Ok (gen_Value s)"
  by (auto simp: exportSequence_def mustM_Ok_iff PeekAutoIncrementID_def prog_Ok_iffs dest: readSequence_E elim!: bindM_Ok_E)

lemma code_entry:
  assumes "items_ok m" and "keys_ok m"
  shows "(k, v) \<in> set (strip_prefix CodeKeyPrefix m) \<longleftrightarrow> (\<exists>i. k = Uint64ToBigEndian i \<and> look m (CodeK i) = Some v)"
proof -
  have get: "(k, v) \<in> set (strip_prefix CodeKeyPrefix m) \<longleftrightarrow> kv_get m (CHR 0x01 # k) = Some v"
    using memdb.strip_prefix_lookup [OF assms(1)] by (simp add: CodeKeyPrefix_def)
  have "\<exists>i. k = Uint64ToBigEndian i" if some: "kv_get m (CHR 0x01 # k) = Some v"
  proof -
    obtain sk where sk: "key_of sk = Ok (CHR 0x01 # k)" and "of_char (CHR 0x01) = key_kind sk"
      by (rule kind_key [OF assms(2) some])
    then have "key_kind sk = 1" by simp
    then obtain i where "sk = CodeK i" by (cases sk) auto
    with sk show ?thesis by (auto simp: GetCodeKey_def CodeKeyPrefix_def)
  qed
  then show ?thesis unfolding get by (auto simp: look_def GetCodeKey_def CodeKeyPrefix_def)
qed

lemma contract_entry:
  assumes "items_ok m"
  shows "(a, v) \<in> set (strip_prefix ContractKeyPrefix m) \<longleftrightarrow> look m (ContractK a) = Some v"
  using memdb.strip_prefix_lookup [OF assms] by (simp add: look_def GetContractAddressKey_def)

lemma asUint64_key: "BigEndian_Uint64 (Uint64ToBigEndian i) = Ok i"
  using asUint64_roundtrip by simp

definition exported :: "('w, 'v) Keeper \<Rightarrow> ('w, 'v) world \<Rightarrow> GenesisState \<Rightarrow> bool" where
  "exported k w data \<longleftrightarrow>
     look (w_store w) ParamsK = Some (ParamsV (gen_Params data)) \<and>
     (\<forall>i. codes_in (gen_Codes data) i = look (w_store w) (CodeK i)) \<and>
     pinned_in (gen_Codes data) = {i. look (w_store w) (PinnedK i) \<noteq> None} \<and>
     (\<forall>c \<in> set (gen_Contracts data). \<exists>a. gen_ContractAddress c = addr_String (k_addr k) a \<and>
        contract_at (w_store w) a = Some (gen_ContractInfo c) \<and> gen_ContractState c = models_of (w_store w) a \<and>
        gen_ContractCodeHistory c = map (entry_of \<circ> snd) (positions_of (w_store w) a)) \<and>
     (\<forall>a. contract_at (w_store w) a \<noteq> None \<longrightarrow>
        (\<exists>c \<in> set (gen_Contracts data). gen_ContractAddress c = addr_String (k_addr k) a \<and>
           contract_at (w_store w) a = Some (gen_ContractInfo c))) \<and>
     (\<exists>n n'. next_id (w_store w) KeySequenceCodeID = Ok n \<and> next_id (w_store w) KeySequenceInstanceID = Ok n' \<and>
        gen_Sequences data = [\<lparr>gen_IDKey = KeySequenceCodeID, gen_Value = n\<rparr>, \<lparr>gen_IDKey = KeySequenceInstanceID, gen_Value = n'\<rparr>])"

lemma exported_codes:
  assumes ok: "registry_ok m" and keys: "keys_ok m"
    and all: "list_all2 (\<lambda>(key, value) c. \<exists>info. value = CodeInfoV info \<and> BigEndian_Uint64 key = Ok (gen_CodeID c) \<and>
      gen_CodeInfo c = info \<and> (gen_Pinned c \<longleftrightarrow> look m (PinnedK (gen_CodeID c)) \<noteq> None)) (strip_prefix CodeKeyPrefix m) codes"
  shows "codes_in codes i = look m (CodeK i)" and "pinned_in codes = {i. look m (PinnedK i) \<noteq> None}"
proof -
  let ?items = "strip_prefix CodeKeyPrefix m"
  have items: "items_ok m" using ok by (simp add: registry_ok_def)
  note entry = code_entry [OF items keys]
  have eq: "list_all2 (\<lambda>(key, value) c. key = Uint64ToBigEndian (gen_CodeID c) \<and> value = CodeInfoV (gen_CodeInfo c) \<and>
      (gen_Pinned c \<longleftrightarrow> look m (PinnedK (gen_CodeID c)) \<noteq> None)) ?items codes"
    using all by (rule list.rel_mono_strong) (auto simp: entry asUint64_key)
  then have keys': "map (\<lambda>c. (Uint64ToBigEndian (gen_CodeID c), CodeInfoV (gen_CodeInfo c))) codes = ?items"
    by (induction rule: list_all2_induct) auto
  have "distinct (map fst ?items)"
    using memdb.strip_prefix_sorted [OF items, of CodeKeyPrefix] by (metis strict_sorted_iff)
  then have "distinct (map (Uint64ToBigEndian \<circ> gen_CodeID) codes)"
    unfolding keys' [symmetric] by (simp add: comp_def)
  then have dist: "distinct (map gen_CodeID codes)" by (metis distinct_map map_map)
  have mem: "(\<exists>c \<in> set codes. gen_CodeID c = j \<and> CodeInfoV (gen_CodeInfo c) = v) \<longleftrightarrow> look m (CodeK j) = Some v" for j v
  proof -
    have "(Uint64ToBigEndian j, v) \<in> set ?items \<longleftrightarrow> look m (CodeK j) = Some v" by (auto simp: entry)
    then show ?thesis unfolding keys' [symmetric] by auto
  qed
  have "codes_in codes i = Some v \<longleftrightarrow> look m (CodeK i) = Some v" for v
    using mem [of i v] dist unfolding codes_in_def by (subst map_of_eq_Some_iff) (auto simp: comp_def)
  then show "codes_in codes i = look m (CodeK i)" by (metis not_Some_eq)
  have pinned: "gen_Pinned c \<longleftrightarrow> look m (PinnedK (gen_CodeID c)) \<noteq> None" if "c \<in> set codes" for c
    using eq that by (induction rule: list_all2_induct) auto
  have "look m (CodeK j) \<noteq> None" if "look m (PinnedK j) \<noteq> None" for j
    using ok that unfolding registry_ok_def by (metis at_iffs(1) not_Some_eq)
  then have "\<exists>c \<in> set codes. gen_CodeID c = j" if "look m (PinnedK j) \<noteq> None" for j
    using that mem by (metis not_Some_eq)
  with pinned show "pinned_in codes = {i. look m (PinnedK i) \<noteq> None}" by (fastforce simp: pinned_in_def)
qed

lemma exported_contracts:
  assumes ok: "registry_ok m"
    and all: "list_all2 (\<lambda>(a, value) c. \<exists>info. value = ContractInfoV info \<and> gen_ContractAddress c = addr_String codec a \<and>
      gen_ContractInfo c = info \<and> gen_ContractState c = models_of m a \<and>
      gen_ContractCodeHistory c = map (entry_of \<circ> snd) (positions_of m a))
      (strip_prefix ContractKeyPrefix m) contracts"
  shows "\<forall>c \<in> set contracts. \<exists>a. gen_ContractAddress c = addr_String codec a \<and>
       contract_at m a = Some (gen_ContractInfo c) \<and> gen_ContractState c = models_of m a \<and>
       gen_ContractCodeHistory c = map (entry_of \<circ> snd) (positions_of m a)"
    and "\<forall>a. contract_at m a \<noteq> None \<longrightarrow> (\<exists>c \<in> set contracts. gen_ContractAddress c = addr_String codec a \<and>
       contract_at m a = Some (gen_ContractInfo c))"
proof -
  have items: "items_ok m" using ok by (simp add: registry_ok_def)
  note entry = contract_entry [OF items]
  have "\<exists>x \<in> set (strip_prefix ContractKeyPrefix m). case x of (a, value) \<Rightarrow> value = ContractInfoV (gen_ContractInfo c) \<and>
      gen_ContractAddress c = addr_String codec a \<and> gen_ContractState c = models_of m a \<and>
      gen_ContractCodeHistory c = map (entry_of \<circ> snd) (positions_of m a)"
    if "c \<in> set contracts" for c
    using all that by (induction rule: list_all2_induct) auto
  then show "\<forall>c \<in> set contracts. \<exists>a. gen_ContractAddress c = addr_String codec a \<and>
       contract_at m a = Some (gen_ContractInfo c) \<and> gen_ContractState c = models_of m a \<and>
       gen_ContractCodeHistory c = map (entry_of \<circ> snd) (positions_of m a)"
    by (fastforce simp: entry at_iffs)
  have listed: "\<exists>c \<in> set contracts. v = ContractInfoV (gen_ContractInfo c) \<and> gen_ContractAddress c = addr_String codec a"
    if "(a, v) \<in> set (strip_prefix ContractKeyPrefix m)" for a v
    using all that by (induction rule: list_all2_induct) auto
  show "\<forall>a. contract_at m a \<noteq> None \<longrightarrow> (\<exists>c \<in> set contracts. gen_ContractAddress c = addr_String codec a \<and>
       contract_at m a = Some (gen_ContractInfo c))"
  proof (intro allI impI)
    fix a assume "contract_at m a \<noteq> None"
    then obtain ci where "look m (ContractK a) = Some (ContractInfoV ci)" by (auto simp: at_iffs)
    then have "(a, ContractInfoV ci) \<in> set (strip_prefix ContractKeyPrefix m)" by (simp add: entry)
    from listed [OF this] \<open>look m (ContractK a) = _\<close>
    show "\<exists>c \<in> set contracts. gen_ContractAddress c = addr_String codec a \<and> contract_at m a = Some (gen_ContractInfo c)"
      by (auto simp: at_iffs)
  qed
qed

lemma ExportGenesis_ok:
  assumes ok: "registry_ok (w_store w)" and keys: "keys_ok (w_store w)"
    and run: "ExportGenesis k w = (Ok data, w')"
  shows "w' = w \<and> exported k w data"
proof -
  let ?m = "w_store w"
  let ?code = "\<lambda>(key, value). bindM (liftO (asCodeInfo value)) (\<lambda>c.
    bindM (liftO (BigEndian_Uint64 key)) (\<lambda>codeID. exportCode k codeID c))"
  let ?contract = "\<lambda>(key, value). bindM (liftO (asContractInfo value)) (\<lambda>c. exportContract k key c)"
  have code: "u' = u \<and> (\<exists>info. snd x = CodeInfoV info \<and> BigEndian_Uint64 (fst x) = Ok (gen_CodeID c) \<and>
      gen_CodeInfo c = info \<and> (gen_Pinned c \<longleftrightarrow> look (w_store u) (PinnedK (gen_CodeID c)) \<noteq> None))"
    if "?code x u = (Ok c, u')" for x u c u'
    using that by (cases x; cases "snd x") (auto simp: prog_Ok_iffs dest!: exportCode_E elim!: bindM_Ok_E)
  have contract: "u' = u \<and> (\<exists>info. snd x = ContractInfoV info \<and> gen_ContractAddress c = addr_String (k_addr k) (fst x) \<and>
      gen_ContractInfo c = info \<and> gen_ContractState c = models_of (w_store u) (fst x) \<and>
      GetContractHistory (fst x) u = (Ok (gen_ContractCodeHistory c), u))"
    if "?contract x u = (Ok c, u')" for x u c u'
    using that by (cases x; cases "snd x") (auto simp: prog_Ok_iffs dest!: exportContract_E elim!: bindM_Ok_E)
  from run obtain params codes contracts seqs u1 u2 u3 u4 where p: "GetParams w = (Ok params, u1)"
    and c: "collectM ?code (strip_prefix CodeKeyPrefix (w_store u1)) u1 = (Ok codes, u2)"
    and d: "collectM ?contract (strip_prefix ContractKeyPrefix (w_store u2)) u2 = (Ok contracts, u3)"
    and s: "collectM exportSequence [KeySequenceCodeID, KeySequenceInstanceID] u3 = (Ok seqs, u4)" and w': "w' = u4"
    and data: "data = \<lparr>gen_Params = params, gen_Codes = codes, gen_Contracts = contracts, gen_Sequences = seqs\<rparr>"
    unfolding ExportGenesis_def by (auto simp: prog_Ok_iffs storePrefix_def simp del: collectM.simps elim!: bindM_Ok_E)
  have p: "u1 = w \<and> look ?m ParamsK = Some (ParamsV params)"
    using p by (auto simp: GetParams_def storeGet_def look_def prog_Ok_iffs split: option.splits store_value.splits elim!: bindM_Ok_E)
  have c: "u2 = w" "list_all2 (\<lambda>x y. ?code x w = (Ok y, w)) (strip_prefix CodeKeyPrefix ?m) codes"
    using collectM_Ok [OF c] code p by auto
  have d: "u3 = w" "list_all2 (\<lambda>x y. ?contract x w = (Ok y, w)) (strip_prefix ContractKeyPrefix ?m) contracts"
    using collectM_Ok [OF d] contract c(1) by auto
  have s: "w' = w" "list_all2 (\<lambda>x y. exportSequence x w = (Ok y, w)) [KeySequenceCodeID, KeySequenceInstanceID] seqs"
    using collectM_Ok [OF s] exportSequence_E d(1) w' by auto
  have "list_all2 (\<lambda>(key, value) c. \<exists>info. value = CodeInfoV info \<and> BigEndian_Uint64 key = Ok (gen_CodeID c) \<and>
      gen_CodeInfo c = info \<and> (gen_Pinned c \<longleftrightarrow> look ?m (PinnedK (gen_CodeID c)) \<noteq> None)) (strip_prefix CodeKeyPrefix ?m) codes"
  proof (rule list_all2_mono [OF c(2)])
    fix x y assume "?code x w = (Ok y, w)"
    from code [OF this] show "(case x of (key, value) \<Rightarrow> \<lambda>c. \<exists>info. value = CodeInfoV info \<and> BigEndian_Uint64 key = Ok (gen_CodeID c) \<and>
      gen_CodeInfo c = info \<and> (gen_Pinned c \<longleftrightarrow> look ?m (PinnedK (gen_CodeID c)) \<noteq> None)) y"
      by (cases x) simp
  qed
  note codes = exported_codes [OF ok keys this]
  have "list_all2 (\<lambda>(a, value) c. \<exists>info. value = ContractInfoV info \<and> gen_ContractAddress c = addr_String (k_addr k) a \<and>
      gen_ContractInfo c = info \<and> gen_ContractState c = models_of ?m a \<and>
      gen_ContractCodeHistory c = map (entry_of \<circ> snd) (positions_of ?m a))
      (strip_prefix ContractKeyPrefix ?m) contracts"
  proof (rule list_all2_mono [OF d(2)])
    fix x y assume "?contract x w = (Ok y, w)"
    from contract [OF this] show "(case x of (a, value) \<Rightarrow> \<lambda>c. \<exists>info. value = ContractInfoV info \<and>
      gen_ContractAddress c = addr_String (k_addr k) a \<and> gen_ContractInfo c = info \<and>
      gen_ContractState c = models_of ?m a \<and> gen_ContractCodeHistory c = map (entry_of \<circ> snd) (positions_of ?m a)) y"
      by (cases x) (simp add: eval_GetContractHistory [OF ok])
  qed
  note contracts = exported_contracts [OF ok this]
  obtain n n' where "next_id ?m KeySequenceCodeID = Ok n" "next_id ?m KeySequenceInstanceID = Ok n'"
    "seqs = [\<lparr>gen_IDKey = KeySequenceCodeID, gen_Value = n\<rparr>, \<lparr>gen_IDKey = KeySequenceInstanceID, gen_Value = n'\<rparr>]"
    using s(2) by (auto simp: list_all2_Cons1 dest!: exportSequence_E intro!: that)
  with s(1) p codes contracts show ?thesis by (simp add: exported_def data)
qed

section \<open>What an exported history says\<close>

lemma exported_history:
  assumes ok: "registry_ok m" and "\<not> history_full m" and at: "contract_at m a = Some c"
  shows "hist_CodeID (last (map (entry_of \<circ> snd) (positions_of m a))) = con_CodeID c"
    and "length (positions_of m a) < 2 ^ 64"
proof -
  let ?ps = "positions_of m a"
  note entry = positions_entry [OF ok]
  have sorted: "sorted_wrt (<) (map fst ?ps)" using ok by (simp add: positions_sorted registry_ok_def)
  from assms obtain i e where i: "is_last m a i e" "hist_CodeID e = con_CodeID c"
    unfolding registry_ok_def histories_ok_def contract_ok_def by blast
  then have mem: "(Uint64ToBigEndian i, HistoryV e) \<in> set ?ps" by (auto simp: entry is_last_def)
  then have ne: "?ps \<noteq> []" by auto
  then obtain j f where j: "last ?ps = (Uint64ToBigEndian j, HistoryV f)" "history_at m a j = Some f"
    using last_in_set [OF ne] entry [of "fst (last ?ps)" "snd (last ?ps)" a] by (metis prod.collapse)
  have "j \<le> i" using i(1) j(2) by (auto simp: is_last_def at_iffs)
  moreover have "i \<le> j"
  proof -
    obtain xs where xs: "?ps = xs @ [last ?ps]" using ne by (metis append_butlast_last_id)
    with mem j(1) have "(Uint64ToBigEndian i, HistoryV e) \<in> set (xs @ [(Uint64ToBigEndian j, HistoryV f)])" by metis
    moreover have "sorted_wrt (<) (map fst (xs @ [(Uint64ToBigEndian j, HistoryV f)]))" using sorted xs j(1) by metis
    ultimately have "i < j \<or> i = j" by (fastforce simp: sorted_wrt_append)
    then show ?thesis by auto
  qed
  ultimately have "i = j" by simp
  with i j ne show "hist_CodeID (last (map (entry_of \<circ> snd) ?ps)) = con_CodeID c"
    by (simp add: last_map is_last_def)
  have "set (map fst ?ps) \<subseteq> Uint64ToBigEndian ` (UNIV - {- 1})"
    using assms(2) by (force simp: entry history_full_def at_iffs intro!: imageI)
  then have "card (set (map fst ?ps)) \<le> card (Uint64ToBigEndian ` (UNIV - {- 1 :: u64}))"
    by (intro card_mono) auto
  also have "\<dots> \<le> card (UNIV - {- 1 :: u64})" by (rule card_image_le) simp
  also have "\<dots> < 2 ^ 64" by (simp add: card_Diff_singleton card_word)
  finally show "length ?ps < 2 ^ 64"
    using sorted by (metis distinct_card length_map strict_sorted_iff)
qed

section \<open>The same contract store\<close>

lemma raw_items_mem: "(k, v) \<in> set (raw_items m) \<longleftrightarrow> (k, RawV v) \<in> set m"
  by (induction m rule: raw_items.induct) auto

lemma raw_items_sorted: "sorted_wrt (<) (map fst m) \<Longrightarrow> sorted_wrt (<) (map fst (raw_items m))"
proof (induction m rule: raw_items.induct)
  case (2 k v m)
  then show ?case by (force simp: raw_items_mem)
qed auto

lemma contractStore_mem: "items_ok m \<Longrightarrow> (k, v) \<in> set (contractStore m a) \<longleftrightarrow> stored m (a @ k) = Some (RawV v)"
  using memdb.strip_prefix_lookup [of m k "RawV v" "GetContractStorePrefix a"]
  by (simp add: contractStore_def raw_items_mem stored_key)

lemma contractStore_eqI:
  assumes "items_ok m" and "items_ok m'"
    and "\<And>k v. stored m (a @ k) = Some (RawV v) \<longleftrightarrow> stored m' (a @ k) = Some (RawV v)"
  shows "contractStore m a = contractStore m' a"
proof -
  have sorted: "sorted_wrt (<) (map fst (contractStore m'' a))" if "items_ok m''" for m''
    unfolding contractStore_def using memdb.strip_prefix_sorted [OF that] by (simp add: raw_items_sorted)
  have same: "set (contractStore m a) = set (contractStore m' a)"
    using assms by (auto simp: contractStore_mem)
  with sorted [OF assms(1)] sorted [OF assms(2)]
  have "prefix (contractStore m a) (contractStore m' a)" and "prefix (contractStore m' a) (contractStore m a)"
    by (auto intro!: sorted_prefix)
  then show ?thesis by (rule prefix_order.antisym)
qed

section \<open>Export, then import\<close>

text \<open>The contracts of a list, by the address their text parses to.\<close>

definition lists_contracts :: "addr_codec \<Rightarrow> store_value items \<Rightarrow> Contract list \<Rightarrow> bool" where
  "lists_contracts codec m contracts \<longleftrightarrow>
     (\<forall>c \<in> set contracts. \<exists>a. AccAddressFromBech32 codec (gen_ContractAddress c) = Inr a \<and>
        contract_at m a = Some (gen_ContractInfo c) \<and> gen_ContractState c = models_of m a \<and>
        gen_ContractCodeHistory c = map (entry_of \<circ> snd) (positions_of m a)) \<and>
     (\<forall>a. contract_at m a \<noteq> None \<longrightarrow>
        (\<exists>c \<in> set contracts. AccAddressFromBech32 codec (gen_ContractAddress c) = Inr a))"

lemma exported_lists_contracts:
  assumes "exported k w data" and "bech32_ok (k_addr k)"
    and "\<forall>a. contract_at (w_store w) a \<noteq> None \<longrightarrow> a \<noteq> [] \<and> length a \<le> 255"
  shows "lists_contracts (k_addr k) (w_store w) (gen_Contracts data)"
proof -
  have parse: "AccAddressFromBech32 (k_addr k) (addr_String (k_addr k) a) = Inr a" if "contract_at (w_store w) a \<noteq> None" for a
    using that assms(2,3) by (auto simp: bech32_ok_def)
  show ?thesis
    using assms(1) parse unfolding exported_def lists_contracts_def by (metis option.distinct(1))
qed

lemma imported_contracts:
  assumes listed: "lists_contracts (k_addr k) m contracts" and ok: "registry_ok m" and full: "\<not> history_full m"
    and run: "importContracts k n contracts w = (Ok u, w')"
    and ok': "registry_ok (w_store w)" "keys_ok (w_store w)"
    and none: "\<forall>sk. key_kind sk \<in> {2, 3, 5} \<longrightarrow> look (w_store w) sk = None"
  shows "contract_at (w_store w') = contract_at m"
    and "contract_at m a \<noteq> None \<Longrightarrow> map (entry_of \<circ> snd) (positions_of (w_store w') a) = map (entry_of \<circ> snd) (positions_of m a)"
    and "contract_at m a \<noteq> None \<Longrightarrow> contractStore (w_store w') a = contractStore m a"
    and "registry_key sk \<Longrightarrow> key_kind sk \<notin> {2, 5, 6, 9} \<Longrightarrow> look (w_store w') sk = look (w_store w) sk"
proof -
  have each: "hist_CodeID (last (gen_ContractCodeHistory c)) = con_CodeID (gen_ContractInfo c)"
    "length (gen_ContractCodeHistory c) < 2 ^ 64" if "c \<in> set contracts" for c
    using listed that exported_history [OF ok full] by (auto simp: lists_contracts_def)
  have final: "registry_ok (w_store w')" using importContracts_ok [OF run ok'] each by auto
  have stray: "no_stray_history (w_store w)" by (simp add: no_stray_history_def none)
  have holds: "\<And>c. c \<in> set contracts \<Longrightarrow> \<exists>a. contract_addr k c = Inr a \<and> holds_contract (w_store w') a c"
    and other: "\<And>sk. registry_key sk \<Longrightarrow> key_kind sk \<noteq> 6 \<Longrightarrow> key_kind sk \<noteq> 9 \<Longrightarrow>
       (\<forall>c \<in> set contracts. \<forall>a i. contract_addr k c = Inr a \<longrightarrow> sk \<noteq> ContractK a \<and> sk \<noteq> HistoryK a i) \<Longrightarrow>
       look (w_store w') sk = look (w_store w) sk"
    using importContracts_views [OF run ok' stray] each by auto
  show "registry_key sk \<Longrightarrow> key_kind sk \<notin> {2, 5, 6, 9} \<Longrightarrow> look (w_store w') sk = look (w_store w) sk" for sk
    by (rule other) auto
  have lists: "contract_at m b = Some (gen_ContractInfo c) \<and> gen_ContractState c = models_of m b \<and>
      gen_ContractCodeHistory c = map (entry_of \<circ> snd) (positions_of m b) \<and> holds_contract (w_store w') b c"
    if "c \<in> set contracts" "contract_addr k c = Inr b" for b c
    using listed holds [OF that(1)] that unfolding lists_contracts_def by (metis sum.inject(2))
  have entry: "\<exists>c \<in> set contracts. contract_addr k c = Inr b" if "contract_at m b \<noteq> None" for b
    using listed that by (auto simp: lists_contracts_def)
  show "contract_at (w_store w') = contract_at m"
  proof
    fix b
    show "contract_at (w_store w') b = contract_at m b"
    proof (cases "contract_at m b")
      case None
      then have "look (w_store w') (ContractK b) = look (w_store w) (ContractK b)"
        using lists by (intro other) auto
      with None show ?thesis by (simp add: none contract_at_def [of "w_store w'"])
    next
      case (Some ci)
      then obtain c where "c \<in> set contracts" "contract_addr k c = Inr b" using entry by blast
      from lists [OF this] show ?thesis by (simp add: holds_contract_def contract_at_def [of "w_store w'"])
    qed
  qed
  show "map (entry_of \<circ> snd) (positions_of (w_store w') a) = map (entry_of \<circ> snd) (positions_of m a)" if at: "contract_at m a \<noteq> None"
  proof -
    obtain c where c: "c \<in> set contracts" "contract_addr k c = Inr a" using entry [OF at] by blast
    show ?thesis using lists [OF c] positions_of_imported [OF final _ each(2) [OF c(1)], of a] by simp
  qed
  show "contractStore (w_store w') a = contractStore m a" if at: "contract_at m a \<noteq> None"
  proof (rule contractStore_eqI)
    show "items_ok (w_store w')" and items: "items_ok m" using final ok by (simp_all add: registry_ok_def)
    fix key v
    obtain c where c: "c \<in> set contracts" "contract_addr k c = Inr a" using entry [OF at] by blast
    have md: "md \<in> set (models_of m b) \<longleftrightarrow> stored m (b @ model_Key md) = Some (RawV (model_Value md))" for md b
      by (cases md) (auto simp: models_of_def contractStore_mem [OF items, symmetric])
    have "stored (w_store w') (a @ key) = Some (RawV v) \<longleftrightarrow> (\<exists>c \<in> set contracts. \<exists>b. contract_addr k c = Inr b \<and>
        (\<exists>md \<in> set (gen_ContractState c). a @ key = b @ model_Key md \<and> v = model_Value md))"
      using importContracts_stored [OF run ok'] each none by simp
    also have "\<dots> \<longleftrightarrow> stored m (a @ key) = Some (RawV v)"
    proof
      assume "stored m (a @ key) = Some (RawV v)"
      then have "\<lparr>model_Key = key, model_Value = v\<rparr> \<in> set (gen_ContractState c)"
        using lists [OF c] md [of "\<lparr>model_Key = key, model_Value = v\<rparr>" a] by simp
      with c show "\<exists>c \<in> set contracts. \<exists>b. contract_addr k c = Inr b \<and>
          (\<exists>md \<in> set (gen_ContractState c). a @ key = b @ model_Key md \<and> v = model_Value md)"
        by (metis Model.select_convs(1,2))
    qed (use lists md in metis)
    finally show "stored (w_store w') (a @ key) = Some (RawV v) \<longleftrightarrow> stored m (a @ key) = Some (RawV v)" .
  qed
qed

lemma exported_genesis_ok:
  assumes "exported k w data" and "registry_ok (w_store w)" and "\<not> history_full (w_store w)"
  shows "genesis_ok data"
  using assms(1) exported_history(1) [OF assms(2,3)] by (fastforce simp: exported_def genesis_ok_def)

lemma positions_cong:
  assumes "registry_ok m" and "registry_ok m'" and "\<And>i. look m (HistoryK a i) = look m' (HistoryK a i)"
  shows "positions_of m a = positions_of m' a"
proof -
  have "history_at m a = history_at m' a" using assms(3) by (simp add: fun_eq_iff history_at_def)
  then show ?thesis
    using history_prefix [OF assms(1,2), of a] history_prefix [OF assms(2,1), of a]
    by (simp add: prefix_order.antisym)
qed

lemma imported_sequences:
  assumes "importSequences 0 [\<lparr>gen_IDKey = KeySequenceCodeID, gen_Value = n\<rparr>, \<lparr>gen_IDKey = KeySequenceInstanceID, gen_Value = n'\<rparr>] w = (Ok u, w')"
  shows "next_id (w_store w') KeySequenceCodeID = Ok n" and "next_id (w_store w') KeySequenceInstanceID = Ok n'"
    and "sk \<notin> {SequenceCodeK, SequenceInstanceK} \<Longrightarrow> look (w_store w') sk = look (w_store w) sk"
proof -
  have w': "w_store w' = kv_set (kv_set (w_store w) KeySequenceCodeID (RawV (Uint64ToBigEndian n)))
      KeySequenceInstanceID (RawV (Uint64ToBigEndian n'))"
    using assms by (auto simp: importAutoIncrementID_def storeHas_def storeSet_def prog_Ok_iffs split: if_splits elim!: bindM_Ok_E)
  have neq: "KeySequenceCodeID \<noteq> KeySequenceInstanceID" by (simp add: KeySequenceCodeID_def KeySequenceInstanceID_def)
  show "next_id (w_store w') KeySequenceCodeID = Ok n" and "next_id (w_store w') KeySequenceInstanceID = Ok n'"
    using neq by (simp_all add: w' next_id_def kv_get_set asUint64_key)
  show "look (w_store w') sk = look (w_store w) sk" if "sk \<notin> {SequenceCodeK, SequenceInstanceK}"
    using that look_set [of SequenceCodeK KeySequenceCodeID sk] look_set [of SequenceInstanceK KeySequenceInstanceID sk]
    by (simp add: w')
qed

section \<open>A genesis state of the sample chain\<close>

definition sample_genesis :: GenesisState where
  "sample_genesis = \<lparr>gen_Params = sample_params,
     gen_Codes = [\<lparr>gen_CodeID = 1, gen_CodeInfo = sample_code, gen_CodeBytes = sample_hash, gen_Pinned = False\<rparr>,
       \<lparr>gen_CodeID = 2, gen_CodeInfo = sample_code, gen_CodeBytes = sample_hash, gen_Pinned = True\<rparr>],
     gen_Contracts = [\<lparr>gen_ContractAddress = sample_contract, gen_ContractInfo = sample_info 2, gen_ContractState = [],
       gen_ContractCodeHistory = [sample_entry, sample_migration]\<rparr>],
     gen_Sequences = [\<lparr>gen_IDKey = KeySequenceCodeID, gen_Value = 3\<rparr>, \<lparr>gen_IDKey = KeySequenceInstanceID, gen_Value = 2\<rparr>]\<rparr>"

lemma sample_vm_code:
  "vm_StoreCodeUnchecked sample_vm = (\<lambda>code v. (Inr (take 32 (code @ replicate 32 (CHR 0x00))), v))"
  "vm_GetCode sample_vm = (\<lambda>c _. Inr c)"
  by (simp_all add: sample_vm_def Let_def)

lemma sample_export:
  "ExportGenesis sample_k (sample_world sample_store6) = (Ok sample_genesis, sample_world sample_store6)"
  by (simp add: ExportGenesis_def exportCode_def exportContract_def exportSequence_def mustM_def tryM_def sample_genesis_def
      GetByteCode_def GetContractHistory_def PeekAutoIncrementID_def readSequence_def GetParams_def sample_store_defs sample_call_defs
      sample_vm_code BigEndian_Uint64_def isPosition_def)

lemma sample_import:
  "\<exists>v'. InitGenesis sample_k sample_genesis (sample_world []) = (Ok (), v')"
  by (simp add: InitGenesis_def sample_genesis_def importCode_def uncompressCode_def IsGzip_def gzipIdent_def
      vmStoreCodeUnchecked_def containsCodeInfo_def mustStoreCodeInfo_def SetParams_def pk_PinCode_def
      NewGovPermissionKeeper_def pinCode_def vmPin_def importContract_def importAutoIncrementID_def onCacheContext_def liftE_def
      PeekAutoIncrementID_def sample_store_defs sample_call_defs sample_vm_code
    ClassicAddressGenerator_def mustAutoIncrementID_def readSequence_def BigEndian_Uint64_def
    BuildContractAddressClassic_def moduleAddress_def ContractAddrLen_def HasContractInfo_def
    addToContractCreatorSecondaryIndex_def GetContractByCreatorSecondaryIndexKey_def
    GetContractsByCreatorPrefix_def MustLengthPrefix_def ContractsByCreatorPrefix_def)

text \<open>
  C6: Export and import are inverse on everything the module keeps about codes and contracts. The genesis
  state exported from a reachable state, when its import into an empty store succeeds, gives back the same
  codes, the same pinned codes, the same contracts with the same code history and the same storage, the same
  parameters and the same two counters.
\<close>

theorem genesis_roundtrip:
  assumes "isolated app" and "reachable app w" and "\<not> history_full (w_store w)" and "bech32_ok (k_addr k)"
    and "\<forall>a. contract_at (w_store w) a \<noteq> None \<longrightarrow> a \<noteq> [] \<and> length a \<le> 255"
    and "ExportGenesis k w = (Ok data, w1)" and "w_store v = []" and "InitGenesis k data v = (Ok u, v')"
  shows "w1 = w \<and> code_at (w_store v') = code_at (w_store w) \<and> contract_at (w_store v') = contract_at (w_store w) \<and>
    (\<forall>i. look (w_store v') (PinnedK i) = None \<longleftrightarrow> look (w_store w) (PinnedK i) = None) \<and>
    (\<forall>a. contract_at (w_store w) a = None \<or>
       fst (GetContractHistory a v') = fst (GetContractHistory a w) \<and>
       contractStore (w_store v') a = contractStore (w_store w) a) \<and>
    fst (GetParams v') = fst (GetParams w) \<and>
    next_id (w_store v') KeySequenceCodeID = next_id (w_store w) KeySequenceCodeID \<and>
    next_id (w_store v') KeySequenceInstanceID = next_id (w_store w) KeySequenceInstanceID"
proof -
  note ok = reachable_ok [OF assms(1,2)] and keys = reachable_keys [OF assms(1,2)]
  from ExportGenesis_ok [OF ok keys assms(6)] have w1: "w1 = w" and e: "exported k w data" by simp_all
  note contracts = exported_lists_contracts [OF e assms(4,5)]
  from e obtain n n' where params: "look (w_store w) ParamsK = Some (ParamsV (gen_Params data))"
    and codes: "\<And>i. codes_in (gen_Codes data) i = look (w_store w) (CodeK i)"
    and pinned: "pinned_in (gen_Codes data) = {i. look (w_store w) (PinnedK i) \<noteq> None}"
    and ids: "next_id (w_store w) KeySequenceCodeID = Ok n" "next_id (w_store w) KeySequenceInstanceID = Ok n'"
    and seqs: "gen_Sequences data = [\<lparr>gen_IDKey = KeySequenceCodeID, gen_Value = n\<rparr>, \<lparr>gen_IDKey = KeySequenceInstanceID, gen_Value = n'\<rparr>]"
    unfolding exported_def by blast
  from InitGenesis_E [OF assms(8,7)] obtain mx v1 v2 v3 n where
    1: "importCodes k 0 0 (gen_Codes data) (v\<lparr>w_store := [(ParamsKey, ParamsV (gen_Params data))]\<rparr>) = (Ok mx, v1)"
    and 2: "importContracts k 0 (gen_Contracts data) v1 = (Ok (), v2)"
    and 3: "importSequences 0 (gen_Sequences data) v2 = (Ok (), v3)" and v': "w_store v' = w_store v3" .
  note first = imported_first [OF 1]
  have none: "\<forall>sk. key_kind sk \<in> {2, 3, 5} \<longrightarrow> look (w_store v1) sk = None" by (auto simp: first(6))
  note second = imported_contracts [OF contracts ok assms(3) 2 first(1,2) none]
  note third = imported_sequences [OF 3 [unfolded seqs]]
  have final: "registry_ok (w_store v')" and ok2: "registry_ok (w_store v2)"
    using InitGenesis_ok [OF assms(8,7) exported_genesis_ok [OF e ok assms(3)]] importContracts_ok [OF 2 first(1,2)]
      exported_genesis_ok [OF e ok assms(3)] by (auto simp: genesis_ok_def)
  have look': "look (w_store v') sk = look (w_store v1) sk"
    if "registry_key sk" "key_kind sk \<notin> {2, 5, 6, 9}" "sk \<notin> {SequenceCodeK, SequenceInstanceK}" for sk
    using that by (simp add: v' third(3) second(4))
  have codes': "code_at (w_store v') = code_at (w_store w)"
    by (simp add: fun_eq_iff code_at_def look' first(4) codes)
  have contracts': "contract_at (w_store v') = contract_at (w_store w)"
    using second(1) by (simp add: fun_eq_iff contract_at_def v' third(3))
  have pinned': "look (w_store v') (PinnedK i) = None \<longleftrightarrow> look (w_store w) (PinnedK i) = None" for i
    using first(5) [of i] by (simp add: look' pinned) (metis not_Some_eq)
  have history': "fst (GetContractHistory a v') = fst (GetContractHistory a w)" if "contract_at (w_store w) a \<noteq> None" for a
    using second(2) [OF that] positions_cong [OF final ok2, of a]
    by (simp add: eval_GetContractHistory [OF final] eval_GetContractHistory [OF ok])
       (simp add: v' third(3))
  have store': "contractStore (w_store v') a = contractStore (w_store w) a" if "contract_at (w_store w) a \<noteq> None" for a
  proof -
    have "contractStore (w_store v') a = contractStore (w_store v2) a"
      using final ok2 by (intro contractStore_eqI) (simp_all add: registry_ok_def v' third(3))
    with second(3) [OF that] show ?thesis by simp
  qed
  have "look (w_store v') ParamsK = look (w_store w) ParamsK" by (simp add: look' first(6) params)
  then have params': "fst (GetParams v') = fst (GetParams w)"
    by (simp add: GetParams_def storeGet_def look_def prog_simps params [unfolded look_def, simplified])
  show ?thesis
    using w1 codes' contracts' pinned' history' store' params' ids third(1,2) by (auto simp: v')
qed


theorem genesis_roundtrip_witness:
  "\<exists>data v'. ExportGenesis sample_k (sample_world sample_store6) = (Ok data, sample_world sample_store6) \<and>
     InitGenesis sample_k data (sample_world []) = (Ok (), v') \<and>
     contract_at (w_store v') sample_contract = Some (sample_info 2) \<and> code_at (w_store v') 1 = Some sample_code \<and>
     fst (GetContractHistory sample_contract v') = fst (GetContractHistory sample_contract (sample_world sample_store6))"
proof -
  obtain v' where v': "InitGenesis sample_k sample_genesis (sample_world []) = (Ok (), v')" using sample_import by blast
  have "sample_contract \<noteq> [] \<and> length sample_contract \<le> 255" by (simp add: sample_contract_def)
  then have "\<forall>a. contract_at (w_store (sample_world sample_store6)) a \<noteq> None \<longrightarrow> a \<noteq> [] \<and> length a \<le> 255"
    by (simp add: sample_world_store sample_views6)
  moreover have "bech32_ok (k_addr sample_k)"
    by (simp add: bech32_ok_def sample_k_simps sample_sdk_simps sample_codec_def)
  moreover have "\<not> history_full (w_store (sample_world sample_store6))" by (simp add: sample_world_store sample_views6)
  moreover have "w_store (sample_world []) = []" by (simp add: sample_world_store)
  ultimately show ?thesis
    using genesis_roundtrip [OF sample_isolated sample_reachable6 _ _ _ sample_export _ v'] sample_export v'
    by (auto simp: sample_world_store sample_views6 dest!: spec [of _ sample_contract])
qed

text \<open>
  An imported contract is listed by code under the code of the last entry of its imported history. The
  import does not compare that code with the code of the contract, so a genesis state in which the two differ
  is imported and leaves the contract listed under a code it does not run.
\<close>

theorem import_lists_by_history:
  assumes "importContract k a c st hs w = (Ok u, w')" and "items_ok (w_store w)"
  shows "contract_at (w_store w') a = Some c \<and>
    (\<exists>p. hist_Updated (last hs) = Some p \<and> look (w_store w') (ByCodeK (hist_CodeID (last hs)) p a) \<noteq> None)"
proof -
  from importContract_E [OF assms] obtain pos p kc creator q kr where p: "hist_Updated (last hs) = Some p"
    and kc: "key_of (ByCodeK (hist_CodeID (last hs)) p a) = Ok kc" and kr: "key_of (ByCreatorK creator q a) = Ok kr"
    and st: "importContractState a st (w\<lparr>w_store := contract_written a c hs pos kc kr (w_store w)\<rparr>) = (Ok u, w')" .
  have "look (w_store w') sk = look (contract_written a c hs pos kc kr (w_store w)) sk" if "registry_key sk" for sk
    using importContractState_look [OF st that] by simp
  with p show ?thesis
    by (simp add: at_iffs contract_written_def look_creator [OF kr] look_index [OF kc] look_sets)
qed

theorem import_lists_by_history_witness:
  "\<exists>w' p. importContract sample_k sample_contract (sample_info 2) [] [sample_entry] (sample_world sample_store3) = (Ok (), w') \<and>
     (\<exists>c. contract_at (w_store w') sample_contract = Some c \<and> con_CodeID c = 2) \<and>
     look (w_store w') (ByCodeK 1 p sample_contract) \<noteq> None"
proof -
  have "\<exists>w'. importContract sample_k sample_contract (sample_info 2) [] [sample_entry] (sample_world sample_store3) = (Ok (), w')"
    by (simp add: importContract_def containsCodeInfo_def sample_store_defs sample_call_defs liftE_def HasContractInfo_def
      addToContractCreatorSecondaryIndex_def GetContractByCreatorSecondaryIndexKey_def
      GetContractsByCreatorPrefix_def MustLengthPrefix_def ContractsByCreatorPrefix_def)
  then obtain w' where w': "importContract sample_k sample_contract (sample_info 2) [] [sample_entry] (sample_world sample_store3) = (Ok (), w')"
    by blast
  moreover have "items_ok (w_store (sample_world sample_store3))"
    using reachable_ok [OF sample_isolated sample_reachable3] by (simp add: registry_ok_def)
  moreover have "con_CodeID (sample_info 2) = 2" "hist_CodeID sample_entry = 1"
    by (simp_all add: sample_info_def sample_entry_def NewContractInfo_def InitialHistory_def)
  ultimately show ?thesis using import_lists_by_history [OF w'] by auto
qed

text \<open>
  Every entry of a reachable store is under a key of the module's layout, and under the keys of codes,
  contracts and histories it has the type the reader decodes; so the readers never fail to unmarshal and
  leave the state as it is.
\<close>

theorem reachable_store_typed:
  assumes "isolated app" and "reachable app w"
  shows "keys_ok (w_store w) \<and> well_typed (w_store w) \<and>
    GetCodeInfo i w = (Ok (code_at (w_store w) i), w) \<and>
    GetContractInfo a w = (Ok (contract_at (w_store w) a), w) \<and>
    (\<exists>history. GetContractHistory a w = (Ok history, w))"
  using reachable_ok [OF assms] reachable_keys [OF assms]
  by (auto simp: registry_ok_def eval_GetCodeInfo eval_GetContractInfo eval_GetContractHistory)

theorem reachable_store_typed_witness:
  "GetCodeInfo 2 (sample_world sample_store6) = (Ok (Some sample_code), sample_world sample_store6) \<and>
   GetContractInfo sample_contract (sample_world sample_store6) = (Ok (Some (sample_info 2)), sample_world sample_store6)"
  using reachable_store_typed [OF sample_isolated sample_reachable6, of 2 sample_contract]
  by (simp add: sample_world_store sample_views6)

end
