(* ===== verification/Grpc_Querier.thy ===== *)
theory Grpc_Querier
  imports Chain
begin

text \<open>
  The query service of the module, \<open>keeper/querier.go\<close>. The page reader of the SDK,
  \<open>query.FilteredPaginate\<close>, is a parameter: given the entries of a prefix store and a page request it
  yields the entries its callback accumulates and the page response. The callbacks of the source take every
  entry, so which entries they see depends on the request alone.
\<close>

section \<open>Requests and pages\<close>

record QueryPageRequest =
  page_Key :: bytes
  page_Offset :: u64
  page_Limit :: u64
  page_CountTotal :: bool
  page_Reverse :: bool

record PageResponse =
  page_NextKey :: bytes
  page_Total :: u64

record WasmLimits =
  InitialMemoryLimitPages :: "u32 option"
  TableSizeLimitElements :: "u32 option"
  MaxImports :: "u32 option"
  MaxFunctions :: "u32 option"
  MaxFunctionParams :: "u32 option"
  MaxTotalFunctionParams :: "u32 option"
  MaxFunctionResults :: "u32 option"

text \<open>The limits are a field of the keeper that only the service shows.\<close>

record GrpcQuerier =
  q_queryGasLimit :: u64
  q_wasmLimits :: WasmLimits
  q_DefaultLimit :: u64
  q_FilteredPaginate :: "store_value items \<Rightarrow> QueryPageRequest \<Rightarrow> go_error + store_value items \<times> PageResponse"

text \<open>\<open>status.Error(codes.InvalidArgument, ...)\<close>\<close>

definition InvalidArgument :: "string \<Rightarrow> go_error" where
  "InvalidArgument msg = PlainError (''rpc error: code = InvalidArgument desc = '' @ msg)"

definition requestM :: "'r option \<Rightarrow> ('r \<Rightarrow> ('w, 'v, 'a) op) \<Rightarrow> ('w, 'v, 'a) op" where
  "requestM req f = (case req of None \<Rightarrow> failM (InvalidArgument ''empty request'') | Some r \<Rightarrow> f r)"

definition maxResultEntries :: u64 where "maxResultEntries = 100"

definition ensurePaginationParams :: "GrpcQuerier \<Rightarrow> QueryPageRequest option \<Rightarrow> go_error + QueryPageRequest" where
  "ensurePaginationParams q req =
     (case req of
        None \<Rightarrow> Inr \<lparr>page_Key = [], page_Offset = 0, page_Limit = q_DefaultLimit q, page_CountTotal = False,
                      page_Reverse = False\<rparr>
      | Some r \<Rightarrow>
          if page_Offset r \<noteq> 0 \<or> page_CountTotal r
          then Inl (InvalidArgument ''offset and count queries not supported'')
          else if page_Limit r > maxResultEntries \<or> page_Limit r \<le> 0
          then Inr (r\<lparr>page_Limit := maxResultEntries\<rparr>)
          else Inr r)"

text \<open>A page of a prefix store; the callback turns each entry into an item of the answer.\<close>

definition pageM ::
  "GrpcQuerier \<Rightarrow> QueryPageRequest \<Rightarrow> bytes \<Rightarrow> (bytes \<times> store_value \<Rightarrow> 'a outcome) \<Rightarrow> ('w, 'v, 'a list \<times> PageResponse) op"
where
  "pageM q pagination p onResult =
     bindM (storePrefix p) (\<lambda>items.
     bindM (liftE (q_FilteredPaginate q items pagination)) (\<lambda>(page, pageRes).
     bindM (collectM (\<lambda>kv. liftO (onResult kv)) page) (\<lambda>r.
     returnM (r, pageRes))))"

text \<open>\<open>cdc.Unmarshal\<close>, which reports an error where the keeper's \<open>MustUnmarshal\<close> panics.\<close>

definition unmarshalled :: "'a outcome \<Rightarrow> 'a outcome" where
  "unmarshalled r = (case r of Ok x \<Rightarrow> Ok x | _ \<Rightarrow> Err (PlainError ''unmarshal''))"

definition indexedContract :: "addr_codec \<Rightarrow> bytes \<times> store_value \<Rightarrow> string outcome" where
  "indexedContract ac kv = bindO (indexAddress (fst kv)) (\<lambda>contractAddr. Ok (addr_String ac contractAddr))"

section \<open>Contracts\<close>

definition noSuchContract :: "addr_codec \<Rightarrow> bytes \<Rightarrow> go_error" where
  "noSuchContract ac contractAddr =
     WrappedError (''address '' @ addr_String ac contractAddr) (ErrNoSuchContractFn (addr_String ac contractAddr))"

definition queryContractInfo :: "('w, 'v) Keeper \<Rightarrow> bytes \<Rightarrow> ('w, 'v, string \<times> ContractInfo) op" where
  "queryContractInfo k addr =
     bindM (GetContractInfo addr) (\<lambda>info.
     case info of
       None \<Rightarrow> failM (noSuchContract (k_addr k) addr)
     | Some c \<Rightarrow> returnM (addr_String (k_addr k) addr, c))"

definition querier_ContractInfo :: "('w, 'v) Keeper \<Rightarrow> string option \<Rightarrow> ('w, 'v, string \<times> ContractInfo) op" where
  "querier_ContractInfo k req = requestM req (\<lambda>address.
     bindM (liftE (AccAddressFromBech32 (k_addr k) address)) (\<lambda>contractAddr.
     queryContractInfo k contractAddr))"

definition querier_ContractHistory ::
  "GrpcQuerier \<Rightarrow> ('w, 'v) Keeper \<Rightarrow> (string \<times> QueryPageRequest option) option \<Rightarrow>
   ('w, 'v, ContractCodeHistoryEntry list \<times> PageResponse) op"
where
  "querier_ContractHistory q k req = requestM req (\<lambda>(address, pagination).
     bindM (liftE (AccAddressFromBech32 (k_addr k) address)) (\<lambda>contractAddr.
     bindM (liftE (ensurePaginationParams q pagination)) (\<lambda>paginationParams.
     pageM q paginationParams (GetContractCodeHistoryElementPrefix contractAddr) (\<lambda>(_, value). unmarshalled (asHistory value)))))"

definition querier_ContractsByCode ::
  "GrpcQuerier \<Rightarrow> ('w, 'v) Keeper \<Rightarrow> (u64 \<times> QueryPageRequest option) option \<Rightarrow> ('w, 'v, string list \<times> PageResponse) op"
where
  "querier_ContractsByCode q k req = requestM req (\<lambda>(codeId, pagination).
     bindM (guardM (codeId \<noteq> 0) (WrappedError ''code id'' ErrInvalid)) (\<lambda>_.
     bindM (liftE (ensurePaginationParams q pagination)) (\<lambda>paginationParams.
     pageM q paginationParams (GetContractByCodeIDSecondaryIndexPrefix codeId) (indexedContract (k_addr k)))))"

definition querier_ContractsByCreator ::
  "GrpcQuerier \<Rightarrow> ('w, 'v) Keeper \<Rightarrow> (string \<times> QueryPageRequest option) option \<Rightarrow> ('w, 'v, string list \<times> PageResponse) op"
where
  "querier_ContractsByCreator q k req = requestM req (\<lambda>(creator, pagination).
     bindM (liftE (ensurePaginationParams q pagination)) (\<lambda>paginationParams.
     bindM (liftE (AccAddressFromBech32 (k_addr k) creator)) (\<lambda>creatorAddress.
     bindM (liftO (GetContractsByCreatorPrefix creatorAddress)) (\<lambda>p.
     pageM q paginationParams p (indexedContract (k_addr k))))))"

text \<open>The state of a contract; \<open>raw_items\<close> takes the bytes of the entries.\<close>

definition querier_AllContractState ::
  "GrpcQuerier \<Rightarrow> ('w, 'v) Keeper \<Rightarrow> (string \<times> QueryPageRequest option) option \<Rightarrow> ('w, 'v, Model list \<times> PageResponse) op"
where
  "querier_AllContractState q k req = requestM req (\<lambda>(address, pagination).
     bindM (liftE (AccAddressFromBech32 (k_addr k) address)) (\<lambda>contractAddr.
     bindM (liftE (ensurePaginationParams q pagination)) (\<lambda>paginationParams.
     bindM (HasContractInfo contractAddr) (\<lambda>has.
     bindM (guardM has (noSuchContract (k_addr k) contractAddr)) (\<lambda>_.
     bindM (pageM q paginationParams (GetContractStorePrefix contractAddr) Ok) (\<lambda>(page, pageRes).
     returnM (map (\<lambda>(key, value). \<lparr>model_Key = key, model_Value = value\<rparr>) (raw_items page), pageRes)))))))"

definition querier_RawContractState ::
  "('w, 'v) Keeper \<Rightarrow> (string \<times> bytes option) option \<Rightarrow> ('w, 'v, bytes option) op"
where
  "querier_RawContractState k req = requestM req (\<lambda>(address, queryData).
     bindM (liftE (AccAddressFromBech32 (k_addr k) address)) (\<lambda>contractAddr.
     bindM (HasContractInfo contractAddr) (\<lambda>has.
     bindM (guardM has (noSuchContract (k_addr k) contractAddr)) (\<lambda>_.
     QueryRaw contractAddr queryData))))"

definition ErrPanic :: go_error where "ErrPanic = RegisteredError ''undefined'' 111222"

text \<open>
  The recovery from a panic of a smart query that runs on a meter of its own: out of gas becomes an error
  with limit and consumption of that meter, every other panic an error without a text of its own.
\<close>

definition recoverQuery :: "u64 \<Rightarrow> ('w, 'v, 'a) op \<Rightarrow> ('w, 'v, 'a) op" where
  "recoverQuery gasLimit m = (\<lambda>w.
     let (r, w1) = m (withMeter (NewGasMeter gasLimit) w);
         meter = es_meter (w_env w1)
     in (case r of
           Panic (PanicOutOfGas d) \<Rightarrow>
             Err (WrappedError (''out of gas in location: '' @ d @ ''; gasWanted: '' @ fmt_u64 (gm_limit meter) @
                    '', gasUsed: '' @ fmt_u64 (gm_consumed meter)) ErrOutOfGas)
         | Panic _ \<Rightarrow> Err ErrPanic
         | other \<Rightarrow> other,
         withMeter (es_meter (w_env w)) w1))"

text \<open>The answer of the VM to a query carries the bytes or an error, so the slice is never nil.\<close>

definition querier_SmartContractState ::
  "GrpcQuerier \<Rightarrow> ('w, 'v) Keeper \<Rightarrow> ctx \<Rightarrow> (string \<times> bytes option) option \<Rightarrow> ('w, 'v, bytes) op"
where
  "querier_SmartContractState q k ctx req = requestM req (\<lambda>(address, queryData).
     bindM (case RawContractMessage_ValidateBasic (k_sdk k) queryData of
              Inl _ \<Rightarrow> failM (InvalidArgument ''invalid query data'')
            | Inr _ \<Rightarrow> returnM (case queryData of None \<Rightarrow> [] | Some d \<Rightarrow> d)) (\<lambda>msg.
     bindM (liftE (AccAddressFromBech32 (k_addr k) address)) (\<lambda>contractAddr.
     recoverQuery (q_queryGasLimit q) (QuerySmart k ctx contractAddr msg))))"

section \<open>Codes\<close>

record QueriedCode =
  qc_CodeID :: u64
  qc_Creator :: string
  qc_DataHash :: bytes
  qc_InstantiatePermission :: AccessConfig

definition queriedCode :: "u64 \<Rightarrow> CodeInfo \<Rightarrow> QueriedCode" where
  "queriedCode codeID c = \<lparr>qc_CodeID = codeID, qc_Creator = code_Creator c, qc_DataHash = code_CodeHash c,
     qc_InstantiatePermission = code_InstantiateConfig c\<rparr>"

definition queryCodeInfo :: "u64 \<Rightarrow> ('w, 'v, QueriedCode option) op" where
  "queryCodeInfo codeID =
     (if codeID = 0 then returnM None
      else bindM (GetCodeInfo codeID) (\<lambda>res. returnM (map_option (queriedCode codeID) res)))"

definition queryCode :: "('w, 'v) Keeper \<Rightarrow> u64 \<Rightarrow> ('w, 'v, (QueriedCode \<times> bytes option) option) op" where
  "queryCode k codeID =
     bindM (queryCodeInfo codeID) (\<lambda>info.
     case info of
       None \<Rightarrow> returnM None
     | Some i \<Rightarrow> bindM (wrapM ''loading wasm code'' (GetByteCode k codeID)) (\<lambda>code. returnM (Some (i, code))))"

definition querier_Code :: "('w, 'v) Keeper \<Rightarrow> u64 option \<Rightarrow> ('w, 'v, QueriedCode \<times> bytes option) op" where
  "querier_Code k req = requestM req (\<lambda>codeId.
     bindM (guardM (codeId \<noteq> 0) (WrappedError ''code id'' ErrInvalid)) (\<lambda>_.
     bindM (queryCode k codeId) (\<lambda>rsp.
     case rsp of None \<Rightarrow> failM (noSuchCode codeId) | Some r \<Rightarrow> returnM r)))"

definition querier_CodeInfo :: "u64 option \<Rightarrow> ('w, 'v, QueriedCode) op" where
  "querier_CodeInfo req = requestM req (\<lambda>codeId.
     bindM (guardM (codeId \<noteq> 0) (WrappedError ''code id'' ErrInvalid)) (\<lambda>_.
     bindM (queryCodeInfo codeId) (\<lambda>info.
     case info of None \<Rightarrow> failM (noSuchCode codeId) | Some i \<Rightarrow> returnM i)))"

definition listedCode :: "bytes \<times> store_value \<Rightarrow> QueriedCode outcome" where
  "listedCode kv =
     bindO (unmarshalled (asCodeInfo (snd kv))) (\<lambda>c.
     bindO (BigEndian_Uint64 (fst kv)) (\<lambda>codeID. Ok (queriedCode codeID c)))"

definition querier_Codes ::
  "GrpcQuerier \<Rightarrow> QueryPageRequest option option \<Rightarrow> ('w, 'v, QueriedCode list \<times> PageResponse) op"
where
  "querier_Codes q req = requestM req (\<lambda>pagination.
     bindM (liftE (ensurePaginationParams q pagination)) (\<lambda>paginationParams.
     pageM q paginationParams CodeKeyPrefix listedCode))"

definition querier_PinnedCodes ::
  "GrpcQuerier \<Rightarrow> QueryPageRequest option option \<Rightarrow> ('w, 'v, u64 list \<times> PageResponse) op"
where
  "querier_PinnedCodes q req = requestM req (\<lambda>pagination.
     bindM (liftE (ensurePaginationParams q pagination)) (\<lambda>paginationParams.
     pageM q paginationParams PinnedCodeIndexPrefix (\<lambda>(key, _). BigEndianToUint64 key)))"

section \<open>Parameters, limits and addresses\<close>

definition querier_Params :: "('w, 'v, Params) op" where
  "querier_Params = GetParams"

definition omitEmptyNumber :: "string \<Rightarrow> u32 option \<Rightarrow> (string \<times> json) list" where
  "omitEmptyNumber name n = (case n of None \<Rightarrow> [] | Some i \<Rightarrow> [(name, JNum (unat i))])"

definition json_WasmLimits :: "WasmLimits \<Rightarrow> json" where
  "json_WasmLimits l = JObj
     (omitEmptyNumber ''initial_memory_limit_pages'' (InitialMemoryLimitPages l) @
      omitEmptyNumber ''table_size_limit_elements'' (TableSizeLimitElements l) @
      omitEmptyNumber ''max_imports'' (MaxImports l) @
      omitEmptyNumber ''max_functions'' (MaxFunctions l) @
      omitEmptyNumber ''max_function_params'' (MaxFunctionParams l) @
      omitEmptyNumber ''max_total_function_params'' (MaxTotalFunctionParams l) @
      omitEmptyNumber ''max_function_results'' (MaxFunctionResults l))"

definition querier_WasmLimitsConfig :: "GrpcQuerier \<Rightarrow> ('w, 'v, string) op" where
  "querier_WasmLimitsConfig q = returnM (Marshal (json_WasmLimits (q_wasmLimits q)))"

text \<open>\<open>hex.DecodeString\<close>\<close>

definition hex_value :: "char \<Rightarrow> nat option" where
  "hex_value c =
     (let n = of_char c :: nat in
      if 48 \<le> n \<and> n \<le> 57 then Some (n - 48)
      else if 97 \<le> n \<and> n \<le> 102 then Some (n - 87)
      else if 65 \<le> n \<and> n \<le> 70 then Some (n - 55)
      else None)"

fun hex_DecodeString :: "string \<Rightarrow> go_error + bytes" where
  "hex_DecodeString [] = Inr []"
| "hex_DecodeString [p] =
     (if hex_value p = None then Inl (PlainError ''encoding/hex: invalid byte'')
      else Inl (PlainError ''encoding/hex: odd length hex string''))"
| "hex_DecodeString (p # q # src) =
     (case (hex_value p, hex_value q) of
        (Some a, Some b) \<Rightarrow> bindE (hex_DecodeString src) (\<lambda>dst. Inr (char_of (16 * a + b) # dst))
      | _ \<Rightarrow> Inl (PlainError ''encoding/hex: invalid byte''))"

record QueryBuildAddressRequest =
  ba_CodeHash :: string
  ba_CreatorAddress :: string
  ba_Salt :: string
  ba_InitArgs :: "bytes option"

definition DefaultGasCostBuildAddress :: u64 where "DefaultGasCostBuildAddress = 10"

text \<open>A deferred charge is made however the function ends.\<close>

definition deferGas :: "u64 \<Rightarrow> string \<Rightarrow> ('w, 'v, 'a) op \<Rightarrow> ('w, 'v, 'a) op" where
  "deferGas amount descriptor m = (\<lambda>w.
     case m w of (r, w1) \<Rightarrow>
       case consumeGas amount descriptor w1 of
         (Ok _, w2) \<Rightarrow> (r, w2)
       | (Err e, w2) \<Rightarrow> (Err e, w2)
       | (Panic p, w2) \<Rightarrow> (Panic p, w2))"

definition querier_BuildAddress :: "('w, 'v) Keeper \<Rightarrow> QueryBuildAddressRequest option \<Rightarrow> ('w, 'v, string) op" where
  "querier_BuildAddress k req = requestM req (\<lambda>r.
     bindM (liftE (wrapE ''invalid code hash'' (hex_DecodeString (ba_CodeHash r)))) (\<lambda>codeHash.
     bindM (liftE (wrapE ''invalid creator address'' (AccAddressFromBech32 (k_addr k) (ba_CreatorAddress r)))) (\<lambda>creator.
     bindM (liftE (wrapE ''invalid salt'' (hex_DecodeString (ba_Salt r)))) (\<lambda>salt.
     bindM (guardM (salt \<noteq> []) (InvalidArgument ''empty salt'')) (\<lambda>_.
     deferGas DefaultGasCostBuildAddress ''build address''
       (bindM (case ba_InitArgs r of
                 None \<Rightarrow> returnM []
               | Some initMsg \<Rightarrow>
                   bindM (liftE (RawContractMessage_ValidateBasic (k_sdk k) (Some initMsg))) (\<lambda>_. returnM initMsg)) (\<lambda>initMsg.
        bindM (liftO (BuildContractAddressPredictable (k_sdk k) codeHash creator salt initMsg)) (\<lambda>addr.
        returnM (addr_String (k_addr k) addr)))))))))"

end
