(* ===== verification/Listings.thy ===== *)
theory Listings
  imports Grpc_Querier Authorization
begin

text \<open>
  What a client of the query service sees that follows the pages of a listing: every entry once, in the
  order of the store, after finitely many requests. What \<open>query.FilteredPaginate\<close> documents for
  requests by key is the hypothesis \<open>paginates\<close>.
\<close>

section \<open>Pages by key\<close>

definition from_key :: "bytes \<Rightarrow> 'v items \<Rightarrow> 'v items" where
  "from_key k items = dropWhile (\<lambda>(x, _). x < k) items"

definition next_key :: "'v items \<Rightarrow> bytes" where
  "next_key items = (case items of [] \<Rightarrow> [] | kv # _ \<Rightarrow> fst kv)"

text \<open>
  A forward request by key, or from the start, reads up to the limit from the first key that is not
  smaller, and names the key of the entry after the page, or none at the end.
\<close>

definition paginates :: "GrpcQuerier \<Rightarrow> bool" where
  "paginates q \<longleftrightarrow> (\<forall>items key limit. sorted_wrt (<) (map fst items) \<and> 0 < limit \<longrightarrow>
     (\<exists>total. q_FilteredPaginate q items
        \<lparr>page_Key = key, page_Offset = 0, page_Limit = limit, page_CountTotal = False, page_Reverse = False\<rparr> =
      Inr (take (unat limit) (from_key key items),
           \<lparr>page_NextKey = next_key (drop (unat limit) (from_key key items)), page_Total = total\<rparr>)))"

definition pageFrom :: "u64 \<Rightarrow> bytes \<Rightarrow> QueryPageRequest" where
  "pageFrom limit key =
     \<lparr>page_Key = key, page_Offset = 0, page_Limit = limit, page_CountTotal = False, page_Reverse = False\<rparr>"

text \<open>A client that asks for the next page until there is none, at most \<open>n\<close> times.\<close>

primrec followPages ::
  "nat \<Rightarrow> (bytes \<Rightarrow> ('w, 'v, 'a list \<times> PageResponse) op) \<Rightarrow> bytes \<Rightarrow> ('w, 'v, 'a list) op"
where
  "followPages 0 fetch key = failM (PlainError ''more pages'')"
| "followPages (Suc n) fetch key =
     bindM (fetch key) (\<lambda>(xs, res).
     if page_NextKey res = [] then returnM xs
     else bindM (followPages n fetch (page_NextKey res)) (\<lambda>ys. returnM (xs @ ys)))"

lemma from_key_Nil: "from_key [] items = items"
  by (cases items) (auto simp: from_key_def)

lemma from_key_next:
  assumes "sorted_wrt (<) (map fst items)" and "drop n items = kv # rest"
  shows "from_key (fst kv) items = kv # rest"
proof -
  have items: "items = take n items @ kv # rest" using assms(2) by (metis append_take_drop_id)
  then have "sorted_wrt (<) (map fst (take n items) @ fst kv # map fst rest)"
    using assms(1) by (metis list.simps(9) map_append)
  then have "\<forall>x \<in> set (take n items). fst x < fst kv" by (auto simp: sorted_wrt_append)
  then have "dropWhile (\<lambda>(x, _). x < fst kv) (take n items @ kv # rest) = kv # rest"
    by (subst dropWhile_append2) (auto split: prod.splits)
  then show ?thesis using items by (simp add: from_key_def)
qed

lemma from_key_suffix: "\<exists>n. from_key k items = drop n items"
  unfolding from_key_def by (metis dropWhile_eq_drop)

lemma later_key_nonempty:
  assumes "sorted_wrt (<) (map fst items)" and "0 < n" and "drop n items = kv # rest"
  shows "fst kv \<noteq> ([] :: bytes)"
proof -
  have "n < length items" using assms(3) by (metis drop_eq_Nil list.distinct(1) not_le)
  moreover have "kv = items ! n" using assms(3) \<open>n < length items\<close> by (metis hd_drop_conv_nth list.sel(1))
  ultimately have "fst (items ! 0) < fst kv" using assms(1,2) by (auto simp: sorted_wrt_iff_nth_less)
  then show ?thesis by auto
qed

lemma collectM_pure:
  assumes "\<And>x. x \<in> set xs \<Longrightarrow> g x = Ok (f x)"
  shows "collectM (\<lambda>x. liftO (g x)) xs w = (Ok (map f xs), w)"
  using assms by (induction xs) (simp_all add: bindM_apply basic_apply liftO_def)

lemma pageM_from:
  assumes "paginates q" and "0 < limit" and "items_ok (w_store w)"
    and "\<And>kv. kv \<in> set (strip_prefix p (w_store w)) \<Longrightarrow> onResult kv = Ok (f kv)"
  shows "\<exists>total. pageM q (pageFrom limit key) p onResult w =
    (Ok (map f (take (unat limit) (from_key key (strip_prefix p (w_store w)))),
         \<lparr>page_NextKey = next_key (drop (unat limit) (from_key key (strip_prefix p (w_store w)))), page_Total = total\<rparr>), w)"
proof -
  let ?items = "strip_prefix p (w_store w)"
  let ?rest = "from_key key ?items"
  have "sorted_wrt (<) (map fst ?items)" using memdb.strip_prefix_sorted [OF assms(3)] by simp
  with assms(1,2) obtain total where page: "q_FilteredPaginate q ?items (pageFrom limit key) =
      Inr (take (unat limit) ?rest, \<lparr>page_NextKey = next_key (drop (unat limit) ?rest), page_Total = total\<rparr>)"
    unfolding paginates_def pageFrom_def by blast
  have "set (take (unat limit) ?rest) \<subseteq> set ?items"
    using set_take_subset [of "unat limit" ?rest] set_drop_subset from_key_suffix [of key ?items] by (metis order_trans)
  then have "collectM (\<lambda>kv. liftO (onResult kv)) (take (unat limit) ?rest) w = (Ok (map f (take (unat limit) ?rest)), w)"
    using assms(4) by (intro collectM_pure) blast
  then show ?thesis by (simp add: pageM_def bindM_apply storePrefix_def page liftE_def basic_apply)
qed

lemma followPages_all:
  assumes "paginates q" and limit: "0 < limit" and items: "items_ok (w_store w)"
    and f: "\<And>kv. kv \<in> set (strip_prefix p (w_store w)) \<Longrightarrow> onResult kv = Ok (f kv)"
    and "length (strip_prefix p (w_store w)) < n"
  shows "followPages n (\<lambda>key. pageM q (pageFrom limit key) p onResult) [] w = (Ok (map f (strip_prefix p (w_store w))), w)"
proof -
  let ?items = "strip_prefix p (w_store w)"
  let ?fetch = "\<lambda>key. pageM q (pageFrom limit key) p onResult"
  have sorted: "sorted_wrt (<) (map fst ?items)" using memdb.strip_prefix_sorted [OF items] by simp
  have "followPages n ?fetch key w = (Ok (map f (from_key key ?items)), w)" if "length (from_key key ?items) < n" for key
    using that
  proof (induction n arbitrary: key)
    case (Suc n)
    let ?rest = "from_key key ?items"
    obtain total where page: "?fetch key w = (Ok (map f (take (unat limit) ?rest),
         \<lparr>page_NextKey = next_key (drop (unat limit) ?rest), page_Total = total\<rparr>), w)"
      using pageM_from [OF assms(1) limit items, of p onResult f key] f by blast
    have pos: "0 < unat limit" using limit by (simp add: unat_gt_0 word_neq_0_conv)
    show ?case
    proof (cases "drop (unat limit) ?rest")
      case Nil
      then show ?thesis using page by (simp add: bindM_apply basic_apply next_key_def)
    next
      case (Cons kv rest)
      obtain m where m: "?rest = drop m ?items" using from_key_suffix by blast
      with Cons have dropped: "drop (unat limit + m) ?items = kv # rest" by (simp add: add.commute)
      have next': "from_key (fst kv) ?items = drop (unat limit) ?rest"
        using from_key_next [OF sorted dropped] Cons by simp
      have "fst kv \<noteq> []" using later_key_nonempty [OF sorted _ dropped] pos by simp
      moreover have "length ?rest - unat limit = Suc (length rest)" using Cons by (metis length_Cons length_drop)
      then have "length (from_key (fst kv) ?items) < n" using Suc.prems pos unfolding next' by simp
      then have "followPages n ?fetch (fst kv) w = (Ok (map f (drop (unat limit) ?rest)), w)"
        using Suc.IH [of "fst kv"] next' by simp
      moreover have "map f (take (unat limit) ?rest) @ f kv # map f rest = map f ?rest"
        using Cons by (metis append_take_drop_id list.simps(9) map_append)
      ultimately show ?thesis using page Cons by (simp add: bindM_apply basic_apply next_key_def)
    qed
  qed simp
  from this [of "[]"] assms(5) show ?thesis by (simp add: from_key_Nil)
qed

section \<open>Listings of the service\<close>

lemma ensurePaginationParams_from:
  "0 < limit \<Longrightarrow> limit \<le> maxResultEntries \<Longrightarrow> ensurePaginationParams q (Some (pageFrom limit key)) = Inr (pageFrom limit key)"
  by (auto simp: ensurePaginationParams_def pageFrom_def)

lemma strip_prefix_length: "length (strip_prefix p m) \<le> length m"
  by (simp add: strip_prefix_def)


definition sample_paginate :: "store_value items \<Rightarrow> QueryPageRequest \<Rightarrow> go_error + store_value items \<times> PageResponse" where
  "sample_paginate items r =
     (let rest = from_key (page_Key r) items
      in Inr (take (unat (page_Limit r)) rest,
              \<lparr>page_NextKey = next_key (drop (unat (page_Limit r)) rest), page_Total = 0\<rparr>))"

definition sample_querier :: GrpcQuerier where
  "sample_querier = \<lparr>q_queryGasLimit = 1000,
     q_wasmLimits = \<lparr>InitialMemoryLimitPages = None, TableSizeLimitElements = None, MaxImports = Some 100,
       MaxFunctions = None, MaxFunctionParams = None, MaxTotalFunctionParams = None, MaxFunctionResults = None\<rparr>,
     q_DefaultLimit = 100, q_FilteredPaginate = sample_paginate\<rparr>"

lemma sample_paginates: "paginates sample_querier"
  by (auto simp: paginates_def sample_querier_def sample_paginate_def Let_def)


section \<open>The contracts of a creator\<close>

lemma creator_prefix_entry:
  assumes keys: "keys_ok m" and "items_ok m" and p: "GetContractsByCreatorPrefix creator = Ok p"
    and "(k, v) \<in> set (strip_prefix p m)"
  obtains q a where "k = position_bytes q @ a" and "look m (ByCreatorK creator q a) \<noteq> None"
proof -
  have get: "kv_get m (p @ k) = Some v" using memdb.strip_prefix_lookup [OF assms(2)] assms(4) by blast
  have len: "length creator \<le> 255" and prefix: "p = CHR 0x09 # char_of (length creator) # creator"
    using p by (auto simp: GetContractsByCreatorPrefix_def MustLengthPrefix_def ContractsByCreatorPrefix_def split: if_splits)
  obtain sk where sk: "key_of sk = Ok (p @ k)" and "of_char (CHR 0x09) = key_kind sk"
    using kind_key [OF keys, of "CHR 0x09"] get unfolding prefix by auto
  then have "key_kind sk = 9" by simp
  then obtain d q a where d: "sk = ByCreatorK d q a" by (cases sk) auto
  with sk have len': "length d \<le> 255"
    and "char_of (length d) # d @ position_bytes q @ a = char_of (length creator) # creator @ k"
    by (auto simp: prefix GetContractByCreatorSecondaryIndexKey_def GetContractsByCreatorPrefix_def MustLengthPrefix_def
        ContractsByCreatorPrefix_def AbsoluteTxPositionLen_def split: if_splits)
  from creator_key_inj [OF this(2) len' len] have "d = creator" and "k = position_bytes q @ a" by simp_all
  with sk d get that show ?thesis by (auto simp: look_def simp del: key_of.simps)
qed

lemma created_by_entry:
  assumes "items_ok m" and "created_by m creator a"
  obtains p q v where "GetContractsByCreatorPrefix creator = Ok p" and "(position_bytes q @ a, v) \<in> set (strip_prefix p m)"
proof -
  from assms(2) obtain q v where v: "look m (ByCreatorK creator q a) = Some v" by (auto simp: created_by_def)
  then obtain p where p: "GetContractsByCreatorPrefix creator = Ok p" "kv_get m (p @ position_bytes q @ a) = Some v"
    by (cases "GetContractsByCreatorPrefix creator")
       (auto simp: look_def GetContractByCreatorSecondaryIndexKey_def AbsoluteTxPositionLen_def)
  then have "(position_bytes q @ a, v) \<in> set (strip_prefix p m)" using memdb.strip_prefix_lookup [OF assms(1)] by blast
  with p that show ?thesis by blast
qed



end
