(* ===== verification/Vm_Callbacks.thy ===== *)
theory Vm_Callbacks
  imports Query_Types Gas_Register KV_Store
begin

text \<open>
  The Go side of the VM bindings (\<open>wasmvm/internal/api\<close>): the frames that keep the iterators of the
  running contract calls (\<open>iterator.go\<close>) and the functions the Rust library calls back into
  (\<open>callbacks.go\<close>).

  What a contract call gets from its caller is an interface value in Go and a record of functions
  here: the store and its iterators, the gas meter, the address functions and the querier. They work on
  a state of their own, \<open>api_host\<close>. A query may start further contract calls, so the querier works on the
  whole state.

  The Rust library is the caller of these functions and a parameter. What it does between the start and
  the end of a call is a tree: it finishes with a result, or it calls back and goes on with the answer.
\<close>

section \<open>State and interfaces\<close>

text \<open>
  \<open>iteratorFrames\<close> and \<open>latestCallID\<close> are global variables. The counter is kept without bound;
  \<open>latestCallID\<close> is its value in 64 bits.
\<close>

record ('s, 'i) api_state =
  iteratorFrames :: "u64 \<rightharpoonup> 'i list"
  startedCalls :: nat
  api_host :: 's

definition latestCallID :: "('s, 'i) api_state \<Rightarrow> u64" where
  "latestCallID s = word_of_nat (startedCalls s)"

record ('s, 'i) KVStore =
  kv_Get :: "bytes option \<Rightarrow> ('s, bytes option) prog"
  kv_Set :: "bytes option \<Rightarrow> bytes option \<Rightarrow> ('s, unit) prog"
  kv_Delete :: "bytes option \<Rightarrow> ('s, unit) prog"
  kv_Iterator :: "bytes option \<Rightarrow> bytes option \<Rightarrow> ('s, 'i) prog"
  kv_ReverseIterator :: "bytes option \<Rightarrow> bytes option \<Rightarrow> ('s, 'i) prog"

record ('s, 'i) Iterator =
  itr_Valid :: "'i \<Rightarrow> 's \<Rightarrow> bool"
  itr_Next :: "'i \<Rightarrow> ('s, unit) prog"
  itr_Key :: "'i \<Rightarrow> ('s, bytes option) prog"
  itr_Value :: "'i \<Rightarrow> ('s, bytes option) prog"
  itr_Close :: "'i \<Rightarrow> ('s, unit) prog"

record GoAPI =
  api_HumanizeAddress :: "(bytes \<Rightarrow> u64 \<times> (go_error + string)) option"
  api_CanonicalizeAddress :: "(string \<Rightarrow> u64 \<times> (go_error + bytes)) option"
  api_ValidateAddress :: "(string \<Rightarrow> u64 \<times> (go_error + unit)) option"

text \<open>The querier, with the decoder of \<open>encoding/json\<close> for requests.\<close>

record ('s, 'i) Querier =
  qr_Query :: "QueryRequest \<Rightarrow> u64 \<Rightarrow> (('s, 'i) api_state, bytes) prog"
  qr_GasConsumed :: "'s \<Rightarrow> u64"
  qr_Unmarshal :: "bytes \<Rightarrow> string + QueryRequest"
  qr_errText :: "go_error \<Rightarrow> string"

record ('s, 'i) call_host =
  ho_store :: "('s, 'i) KVStore"
  ho_iterator :: "('s, 'i) Iterator"
  ho_GasConsumed :: "'s \<Rightarrow> u64"
  ho_api :: GoAPI
  ho_querier :: "('s, 'i) Querier"

definition onHost :: "('s, 'a) prog \<Rightarrow> (('s, 'i) api_state, 'a) prog" where
  "onHost m = (\<lambda>s. case m (api_host s) of (r, h) \<Rightarrow> (r, s\<lparr>api_host := h\<rparr>))"

section \<open>Frames\<close>

definition frame_of :: "('s, 'i) api_state \<Rightarrow> u64 \<Rightarrow> 'i list" where
  "frame_of s callID = (case iteratorFrames s callID of None \<Rightarrow> [] | Some f \<Rightarrow> f)"

definition startCall :: "(('s, 'i) api_state, u64) prog" where
  "startCall = bindM (modifyM (\<lambda>s. s\<lparr>startedCalls := Suc (startedCalls s)\<rparr>)) (\<lambda>_.
     bindM getM (\<lambda>s. returnM (latestCallID s)))"

definition removeFrame :: "u64 \<Rightarrow> (('s, 'i) api_state, 'i list) prog" where
  "removeFrame callID = bindM getM (\<lambda>s.
     bindM (modifyM (\<lambda>s. s\<lparr>iteratorFrames := (iteratorFrames s)(callID := None)\<rparr>)) (\<lambda>_.
     returnM (frame_of s callID)))"

text \<open>The error of \<open>Close\<close> is ignored.\<close>

definition endCall :: "('s, 'i) Iterator \<Rightarrow> u64 \<Rightarrow> (('s, 'i) api_state, unit) prog" where
  "endCall it callID = bindM (removeFrame callID) (\<lambda>remove. 
     eachM (\<lambda>iter. bindM (tryM (onHost (itr_Close it iter))) (\<lambda>_. returnM ())) remove)"

text \<open>\<open>math.MaxInt32\<close> bounds both conversions; the second value of the code is the option here.\<close>

definition iteratorIdToIndex :: "u64 \<Rightarrow> nat option" where
  "iteratorIdToIndex i = (if i < 1 \<or> 2147483647 < i then None else Some (unat i - 1))"

definition indexToIteratorID :: "nat \<Rightarrow> u64 option" where
  "indexToIteratorID index = (if 2147483647 < index then None else Some (word_of_nat index + 1))"

definition storeIterator :: "u64 \<Rightarrow> 'i \<Rightarrow> nat \<Rightarrow> (('s, 'i) api_state, u64) prog" where
  "storeIterator callID it frameLenLimit = bindM getM (\<lambda>s.
     let new_index = length (frame_of s callID) in
     if frameLenLimit \<le> new_index
     then failM (PlainError (''Reached iterator limit ('' @ dec_string frameLenLimit @ '')''))
     else bindM (modifyM (\<lambda>s. s\<lparr>iteratorFrames := (iteratorFrames s)(callID \<mapsto> frame_of s callID @ [it])\<rparr>)) (\<lambda>_.
       case indexToIteratorID new_index of
         None \<Rightarrow> failM (PlainError ''could not convert index to iterator ID'')
       | Some iterator_id \<Rightarrow> returnM iterator_id))"

definition retrieveIterator :: "('s, 'i) api_state \<Rightarrow> u64 \<Rightarrow> u64 \<Rightarrow> 'i option" where
  "retrieveIterator s callID iteratorID =
     (case iteratorIdToIndex iteratorID of
        None \<Rightarrow> None
      | Some indexInFrame \<Rightarrow>
          (case iteratorFrames s callID of
             None \<Rightarrow> None
           | Some myFrame \<Rightarrow> if length myFrame \<le> indexInFrame then None else Some (myFrame ! indexInFrame)))"

section \<open>Callbacks\<close>

datatype GoError =
    GoError_None
  | GoError_Panic
  | GoError_BadArgument
  | GoError_CannotSerialize
  | GoError_User
  | GoError_OutOfGas

record IteratorReference =
  ref_call_id :: u64
  ref_iterator_id :: u64

text \<open>
  What a callback hands back: its return value and what it wrote to its output parameters. A parameter
  that is not written keeps the value of the caller, zero or none.
\<close>

record answer =
  ans_ret :: GoError
  ans_usedGas :: u64
  ans_out :: "bytes option"
  ans_value :: "bytes option"
  ans_iter :: "IteratorReference option"
  ans_errOut :: "bytes option"

definition answered :: "GoError \<Rightarrow> u64 \<Rightarrow> answer" where
  "answered ret gas = \<lparr>ans_ret = ret, ans_usedGas = gas, ans_out = None, ans_value = None, ans_iter = None, ans_errOut = None\<rparr>"

text \<open>
  \<open>defer recoverPanic(&ret)\<close>: a panic becomes a return value. No callback returns a Go error, so the
  case of one does not arise.
\<close>

definition recoverPanic :: "('t, answer) prog \<Rightarrow> 't \<Rightarrow> answer \<times> 't" where
  "recoverPanic m = (\<lambda>s. case m s of
      (Ok a, s') \<Rightarrow> (a, s')
    | (Panic (PanicOutOfGas _), s') \<Rightarrow> (answered GoError_OutOfGas 0, s')
    | (_, s') \<Rightarrow> (answered GoError_Panic 0, s'))"

text \<open>
  The pointers of a callback: whether one that has to be set is nil, and whether an output vector that is
  about to be overwritten still holds something.
\<close>

record call_ptrs =
  ptr_nil :: bool
  ptr_dirty :: bool

definition checkPtrs :: "call_ptrs \<Rightarrow> ('t, answer) prog \<Rightarrow> ('t, answer) prog" where
  "checkPtrs p m =
     (if ptr_nil p then returnM (answered GoError_BadArgument 0)
      else if ptr_dirty p then panicM PanicOther
      else m)"

text \<open>The gas meter before and after.\<close>

definition meteredCall :: "('s \<Rightarrow> u64) \<Rightarrow> (('s, 'i) api_state, 'a) prog \<Rightarrow> (('s, 'i) api_state, 'a \<times> u64) prog" where
  "meteredCall consumed m = bindM getM (\<lambda>before.
     bindM m (\<lambda>x. bindM getM (\<lambda>after.
     returnM (x, consumed (api_host after) - consumed (api_host before)))))"

definition cGet :: "('s, 'i) call_host \<Rightarrow> call_ptrs \<Rightarrow> bytes option \<Rightarrow> ('s, 'i) api_state \<Rightarrow> answer \<times> ('s, 'i) api_state" where
  "cGet h p key = recoverPanic (checkPtrs p
     (bindM (meteredCall (ho_GasConsumed h) (onHost (kv_Get (ho_store h) key))) (\<lambda>(v, gas).
      returnM ((answered GoError_None gas)\<lparr>ans_out := v\<rparr>))))"

text \<open>The output vector for errors is not used and not checked by the next two.\<close>

definition cSet ::
  "('s, 'i) call_host \<Rightarrow> call_ptrs \<Rightarrow> bytes option \<Rightarrow> bytes option \<Rightarrow> ('s, 'i) api_state \<Rightarrow> answer \<times> ('s, 'i) api_state"
where
  "cSet h p key val = recoverPanic (checkPtrs (p\<lparr>ptr_dirty := False\<rparr>)
     (bindM (meteredCall (ho_GasConsumed h) (onHost (kv_Set (ho_store h) key val))) (\<lambda>(_, gas).
      returnM (answered GoError_None gas))))"

definition cDelete :: "('s, 'i) call_host \<Rightarrow> call_ptrs \<Rightarrow> bytes option \<Rightarrow> ('s, 'i) api_state \<Rightarrow> answer \<times> ('s, 'i) api_state" where
  "cDelete h p key = recoverPanic (checkPtrs (p\<lparr>ptr_dirty := False\<rparr>)
     (bindM (meteredCall (ho_GasConsumed h) (onHost (kv_Delete (ho_store h) key))) (\<lambda>(_, gas).
      returnM (answered GoError_None gas))))"

definition frameLenLimit :: nat where "frameLenLimit = 32768"

definition buildIterator :: "u64 \<Rightarrow> 'i \<Rightarrow> (('s, 'i) api_state, IteratorReference) prog" where
  "buildIterator callID it = bindM (storeIterator callID it frameLenLimit) (\<lambda>iteratorID.
     returnM \<lparr>ref_call_id = callID, ref_iterator_id = iteratorID\<rparr>)"

definition cScan ::
  "('s, 'i) call_host \<Rightarrow> u64 \<Rightarrow> call_ptrs \<Rightarrow> bytes option \<Rightarrow> bytes option \<Rightarrow> 32 word \<Rightarrow> ('s, 'i) api_state \<Rightarrow>
   answer \<times> ('s, 'i) api_state"
where
  "cScan h callID p start stop order = recoverPanic (checkPtrs p
     (if order \<noteq> 1 \<and> order \<noteq> 2 then returnM (answered GoError_BadArgument 0)
      else bindM (meteredCall (ho_GasConsumed h) (onHost
          (if order = 1 then kv_Iterator (ho_store h) start stop else kv_ReverseIterator (ho_store h) start stop)))
        (\<lambda>(iter, gas).
          bindM (tryM (buildIterator callID iter)) (\<lambda>built.
          case built of
            Inl err \<Rightarrow> returnM ((answered GoError_User gas)\<lparr>ans_errOut := Some (qr_errText (ho_querier h) err)\<rparr>)
          | Inr iteratorRef \<Rightarrow> returnM ((answered GoError_None gas)\<lparr>ans_iter := Some iteratorRef\<rparr>)))))"

text \<open>A reference to no iterator is a panic; an exhausted iterator answers with no key.\<close>

definition withIterator ::
  "('s, 'i) call_host \<Rightarrow> call_ptrs \<Rightarrow> IteratorReference \<Rightarrow> ('i \<Rightarrow> (('s, 'i) api_state, answer) prog) \<Rightarrow>
   ('s, 'i) api_state \<Rightarrow> answer \<times> ('s, 'i) api_state"
where
  "withIterator h p ref f = recoverPanic (checkPtrs (p\<lparr>ptr_nil := ptr_nil p \<or> ref_call_id ref = 0\<rparr>)
     (bindM getM (\<lambda>s. case retrieveIterator s (ref_call_id ref) (ref_iterator_id ref) of
        None \<Rightarrow> panicM PanicOther
      | Some iter \<Rightarrow>
          if \<not> itr_Valid (ho_iterator h) iter (api_host s) then returnM (answered GoError_None 0)
          else f iter)))"

definition cNext ::
  "('s, 'i) call_host \<Rightarrow> call_ptrs \<Rightarrow> IteratorReference \<Rightarrow> ('s, 'i) api_state \<Rightarrow> answer \<times> ('s, 'i) api_state"
where
  "cNext h p ref = withIterator h p ref (\<lambda>iter.
     bindM (meteredCall (ho_GasConsumed h) (onHost
        (bindM (itr_Key (ho_iterator h) iter) (\<lambda>k.
         bindM (itr_Value (ho_iterator h) iter) (\<lambda>v.
         bindM (itr_Next (ho_iterator h) iter) (\<lambda>_. returnM (k, v)))))))
       (\<lambda>((k, v), gas). returnM ((answered GoError_None gas)\<lparr>ans_out := k, ans_value := v\<rparr>)))"

definition nextPart ::
  "('s, 'i) call_host \<Rightarrow> call_ptrs \<Rightarrow> IteratorReference \<Rightarrow> ('i \<Rightarrow> ('s, bytes option) prog) \<Rightarrow> ('s, 'i) api_state \<Rightarrow>
   answer \<times> ('s, 'i) api_state"
where
  "nextPart h p ref valFn = withIterator h p ref (\<lambda>iter.
     bindM (meteredCall (ho_GasConsumed h) (onHost
        (bindM (valFn iter) (\<lambda>out. bindM (itr_Next (ho_iterator h) iter) (\<lambda>_. returnM out)))))
       (\<lambda>(out, gas). returnM ((answered GoError_None gas)\<lparr>ans_out := out\<rparr>)))"

definition cNextKey ::
  "('s, 'i) call_host \<Rightarrow> call_ptrs \<Rightarrow> IteratorReference \<Rightarrow> ('s, 'i) api_state \<Rightarrow> answer \<times> ('s, 'i) api_state"
where
  "cNextKey h p ref = nextPart h p ref (itr_Key (ho_iterator h))"

definition cNextValue ::
  "('s, 'i) call_host \<Rightarrow> call_ptrs \<Rightarrow> IteratorReference \<Rightarrow> ('s, 'i) api_state \<Rightarrow> answer \<times> ('s, 'i) api_state"
where
  "cNextValue h p ref = nextPart h p ref (itr_Value (ho_iterator h))"

text \<open>
  The address callbacks write the gas cost before they look at the result, so it is kept when an empty
  result makes them panic. A nil slice is converted to an empty one; calling a function that is nil panics.
\<close>

definition orEmpty :: "bytes option \<Rightarrow> bytes" where
  "orEmpty b = (case b of None \<Rightarrow> [] | Some x \<Rightarrow> x)"

definition addressAnswer ::
  "('s, 'i) call_host \<Rightarrow> (bytes \<Rightarrow> u64 \<times> (go_error + bytes)) option \<Rightarrow> bytes option \<Rightarrow> (('s, 'i) api_state, answer) prog"
where
  "addressAnswer h f src = (case map_option (\<lambda>g. g (orEmpty src)) f of
     None \<Rightarrow> panicM PanicOther
   | Some (cost, Inl err) \<Rightarrow> returnM ((answered GoError_User cost)\<lparr>ans_errOut := Some (qr_errText (ho_querier h) err)\<rparr>)
   | Some (cost, Inr out) \<Rightarrow>
       if out = [] then returnM (answered GoError_Panic cost)
       else returnM ((answered GoError_None cost)\<lparr>ans_out := Some out\<rparr>))"

definition cHumanizeAddress ::
  "('s, 'i) call_host \<Rightarrow> call_ptrs \<Rightarrow> bytes option \<Rightarrow> ('s, 'i) api_state \<Rightarrow> answer \<times> ('s, 'i) api_state"
where
  "cHumanizeAddress h p src = recoverPanic (checkPtrs p (addressAnswer h (api_HumanizeAddress (ho_api h)) src))"

definition cCanonicalizeAddress ::
  "('s, 'i) call_host \<Rightarrow> call_ptrs \<Rightarrow> bytes option \<Rightarrow> ('s, 'i) api_state \<Rightarrow> answer \<times> ('s, 'i) api_state"
where
  "cCanonicalizeAddress h p src = recoverPanic (checkPtrs p (addressAnswer h (api_CanonicalizeAddress (ho_api h)) src))"

definition cValidateAddress ::
  "('s, 'i) call_host \<Rightarrow> call_ptrs \<Rightarrow> bytes option \<Rightarrow> ('s, 'i) api_state \<Rightarrow> answer \<times> ('s, 'i) api_state"
where
  "cValidateAddress h p src = recoverPanic (checkPtrs p
     (case map_option (\<lambda>g. g (orEmpty src)) (api_ValidateAddress (ho_api h)) of
        None \<Rightarrow> panicM PanicOther
      | Some (cost, Inl err) \<Rightarrow> returnM ((answered GoError_User cost)\<lparr>ans_errOut := Some (qr_errText (ho_querier h) err)\<rparr>)
      | Some (cost, Inr _) \<Rightarrow> returnM (answered GoError_None cost)))"

section \<open>Queries\<close>

definition json_SystemError :: "system_error \<Rightarrow> json" where
  "json_SystemError e = JObj [case e of
     InvalidRequest err req \<Rightarrow> (''invalid_request'', JObj [(''error'', JStr err), (''request'', JStr (base64 req))])
   | InvalidResponse err resp \<Rightarrow> (''invalid_response'', JObj [(''error'', JStr err), (''response'', JStr (base64 resp))])
   | NoSuchContract addr \<Rightarrow> (''no_such_contract'', JObj (omitEmptyString ''addr'' addr))
   | NoSuchCode codeID \<Rightarrow> (''no_such_code'', JObj (if codeID = 0 then [] else [(''code_id'', JNum (unat codeID))]))
   | UnknownSystem \<Rightarrow> (''unknown'', JObj [])
   | UnsupportedRequest kind \<Rightarrow> (''unsupported_request'', JObj (omitEmptyString ''kind'' kind))]"

definition json_QueryResult :: "QueryResult \<Rightarrow> json" where
  "json_QueryResult q =
     (if qres_Ok q = [] \<and> qres_Err q = [] then JObj [(''ok'', JStr [])]
      else JObj ((if qres_Ok q = [] then [] else [(''ok'', JStr (base64 (qres_Ok q)))]) @
                 omitEmptyString ''error'' (qres_Err q)))"

definition json_QuerierResult :: "system_error + QueryResult \<Rightarrow> json" where
  "json_QuerierResult r =
     JObj [case r of Inr ok \<Rightarrow> (''ok'', json_QueryResult ok) | Inl err \<Rightarrow> (''error'', json_SystemError err)]"

definition RustQuery ::
  "('s, 'i) Querier \<Rightarrow> bytes \<Rightarrow> u64 \<Rightarrow> (('s, 'i) api_state, system_error + QueryResult) prog"
where
  "RustQuery q binRequest gasLimit =
     (case qr_Unmarshal q binRequest of
        Inl err \<Rightarrow> returnM (Inl (InvalidRequest err binRequest))
      | Inr request \<Rightarrow>
          bindM (tryM (qr_Query q request gasLimit)) (\<lambda>r. returnM (ToQuerierResult (qr_errText q) r)))"

definition cQueryExternal ::
  "('s, 'i) call_host \<Rightarrow> call_ptrs \<Rightarrow> u64 \<Rightarrow> bytes option \<Rightarrow> ('s, 'i) api_state \<Rightarrow> answer \<times> ('s, 'i) api_state"
where
  "cQueryExternal h p gasLimit request = recoverPanic (checkPtrs p
     (bindM (meteredCall (qr_GasConsumed (ho_querier h)) (RustQuery (ho_querier h) (orEmpty request) gasLimit))
       (\<lambda>(res, gas). returnM ((answered GoError_None gas)\<lparr>ans_out := Some (Marshal (json_QuerierResult res))\<rparr>))))"

section \<open>What the library does during a call\<close>

datatype rust_request =
    ReadDb "bytes option"
  | WriteDb "bytes option" "bytes option"
  | RemoveDb "bytes option"
  | ScanDb "bytes option" "bytes option" "32 word"
  | NextItem IteratorReference
  | NextKey IteratorReference
  | NextValue IteratorReference
  | HumanizeAddress "bytes option"
  | CanonicalizeAddress "bytes option"
  | ValidateAddress "bytes option"
  | QueryExternal u64 "bytes option"

datatype 'r rust =
    Finish 'r
  | Callback call_ptrs rust_request "answer \<Rightarrow> 'r rust"

text \<open>The tables of callbacks that \<open>buildDB\<close>, \<open>buildIterator\<close>, \<open>buildAPI\<close> and \<open>buildQuerier\<close> hand out.\<close>

fun vtable ::
  "('s, 'i) call_host \<Rightarrow> u64 \<Rightarrow> call_ptrs \<Rightarrow> rust_request \<Rightarrow> ('s, 'i) api_state \<Rightarrow> answer \<times> ('s, 'i) api_state"
where
  "vtable h callID p (ReadDb key) = cGet h p key"
| "vtable h callID p (WriteDb key val) = cSet h p key val"
| "vtable h callID p (RemoveDb key) = cDelete h p key"
| "vtable h callID p (ScanDb start stop order) = cScan h callID p start stop order"
| "vtable h callID p (NextItem ref) = cNext h p ref"
| "vtable h callID p (NextKey ref) = cNextKey h p ref"
| "vtable h callID p (NextValue ref) = cNextValue h p ref"
| "vtable h callID p (HumanizeAddress src) = cHumanizeAddress h p src"
| "vtable h callID p (CanonicalizeAddress src) = cCanonicalizeAddress h p src"
| "vtable h callID p (ValidateAddress src) = cValidateAddress h p src"
| "vtable h callID p (QueryExternal gasLimit request) = cQueryExternal h p gasLimit request"

primrec serve :: "('s, 'i) call_host \<Rightarrow> u64 \<Rightarrow> 'r rust \<Rightarrow> ('s, 'i) api_state \<Rightarrow> 'r \<times> ('s, 'i) api_state" where
  "serve h callID (Finish r) s = (r, s)"
| "serve h callID (Callback p req k) s =
     serve h callID (k (fst (vtable h callID p req s))) (snd (vtable h callID p req s))"

end
