(* ===== verification/Vm_Library.thy ===== *)
theory Vm_Library
  imports Vm_Callbacks
begin

text \<open>
  The calls into the Rust library (\<open>wasmvm/internal/api/lib.go\<close>) and the VM on top of them
  (\<open>wasmvm/lib_libwasmvm.go\<close>): the code cache and one entry point per kind of contract call, with the
  gas for decoding the result and the limit on the payloads of submessages.

  The symbols of the library are the record \<open>c_library\<close>, a parameter; memory views and vectors shared
  with it are the bytes they hold, none for a nil slice. The encoders and decoders of \<open>encoding/json\<close> for
  the messages exchanged with contracts are the record \<open>vm_codec\<close>, also a parameter. The lock file and
  the directory of the cache are left out, and so is keeping slices alive and pinned.
\<close>

section \<open>The library\<close>

record GasReport =
  gr_Limit :: u64
  gr_Remaining :: u64
  gr_UsedExternally :: u64
  gr_UsedInternally :: u64

definition EmptyGasReport :: "u64 \<Rightarrow> GasReport" where
  "EmptyGasReport limit = \<lparr>gr_Limit = limit, gr_Remaining = limit, gr_UsedExternally = 0, gr_UsedInternally = 0\<rparr>"

record c_result =
  c_errno :: nat
  c_out :: "bytes option"
  c_gasReport :: GasReport
  c_errmsg :: "bytes option"

record c_report =
  c_has_ibc_entry_points :: bool
  c_required_capabilities :: bytes
  c_entrypoints :: bytes
  c_contract_migrate_version :: "u64 option"

record Metrics =
  HitsPinnedMemoryCache :: u32
  HitsMemoryCache :: u32
  HitsFsCache :: u32
  Misses :: u32
  ElementsPinnedMemoryCache :: u64
  ElementsMemoryCache :: u64
  SizePinnedMemoryCache :: u64
  SizeMemoryCache :: u64

text \<open>
  A function on the code cache yields the number of its error, zero for success, with the error message
  and the value; a contract call gets its arguments, the gas limit and whether to print debug output.
\<close>

type_synonym 'a c_status = "nat \<times> bytes option \<times> 'a"
type_synonym c_call = "u64 \<Rightarrow> bool \<Rightarrow> c_result rust"

record 'v c_library =
  c_save_wasm :: "bytes option \<Rightarrow> bool \<Rightarrow> 'v \<Rightarrow> bytes option c_status \<times> 'v"
  c_remove_wasm :: "bytes option \<Rightarrow> 'v \<Rightarrow> unit c_status \<times> 'v"
  c_load_wasm :: "bytes option \<Rightarrow> 'v \<Rightarrow> bytes option c_status"
  c_pin :: "bytes option \<Rightarrow> 'v \<Rightarrow> unit c_status \<times> 'v"
  c_unpin :: "bytes option \<Rightarrow> 'v \<Rightarrow> unit c_status \<times> 'v"
  c_analyze_code :: "bytes option \<Rightarrow> 'v \<Rightarrow> c_report c_status"
  c_get_metrics :: "'v \<Rightarrow> Metrics c_status"
  c_get_pinned_metrics :: "'v \<Rightarrow> bytes option c_status"
  c_instantiate :: "bytes option \<Rightarrow> bytes option \<Rightarrow> bytes option \<Rightarrow> bytes option \<Rightarrow> c_call"
  c_execute :: "bytes option \<Rightarrow> bytes option \<Rightarrow> bytes option \<Rightarrow> bytes option \<Rightarrow> c_call"
  c_migrate :: "bytes option \<Rightarrow> bytes option \<Rightarrow> bytes option \<Rightarrow> c_call"
  c_migrate_with_info :: "bytes option \<Rightarrow> bytes option \<Rightarrow> bytes option \<Rightarrow> bytes option \<Rightarrow> c_call"
  c_sudo :: "bytes option \<Rightarrow> bytes option \<Rightarrow> bytes option \<Rightarrow> c_call"
  c_reply :: "bytes option \<Rightarrow> bytes option \<Rightarrow> bytes option \<Rightarrow> c_call"
  c_query :: "bytes option \<Rightarrow> bytes option \<Rightarrow> bytes option \<Rightarrow> c_call"
  c_ibc_channel_open :: "bytes option \<Rightarrow> bytes option \<Rightarrow> bytes option \<Rightarrow> c_call"
  c_ibc_channel_connect :: "bytes option \<Rightarrow> bytes option \<Rightarrow> bytes option \<Rightarrow> c_call"
  c_ibc_channel_close :: "bytes option \<Rightarrow> bytes option \<Rightarrow> bytes option \<Rightarrow> c_call"
  c_ibc_packet_receive :: "bytes option \<Rightarrow> bytes option \<Rightarrow> bytes option \<Rightarrow> c_call"
  c_ibc_packet_ack :: "bytes option \<Rightarrow> bytes option \<Rightarrow> bytes option \<Rightarrow> c_call"
  c_ibc_packet_timeout :: "bytes option \<Rightarrow> bytes option \<Rightarrow> bytes option \<Rightarrow> c_call"
  c_ibc_source_callback :: "bytes option \<Rightarrow> bytes option \<Rightarrow> bytes option \<Rightarrow> c_call"
  c_ibc_destination_callback :: "bytes option \<Rightarrow> bytes option \<Rightarrow> bytes option \<Rightarrow> c_call"
  errno_text :: "nat \<Rightarrow> string"

section \<open>Calls\<close>

definition OutOfGasError :: go_error where "OutOfGasError = PlainError ''Out of gas''"

definition errorWithMessage :: "'v c_library \<Rightarrow> nat \<Rightarrow> bytes option \<Rightarrow> go_error" where
  "errorWithMessage lib errno b =
     (if errno = 2 then OutOfGasError
      else case b of None \<Rightarrow> PlainError (errno_text lib errno) | Some msg \<Rightarrow> PlainError msg)"

definition cacheResult :: "'v c_library \<Rightarrow> 'a c_status \<Rightarrow> 'a outcome" where
  "cacheResult lib r = (case r of (errno, errmsg, x) \<Rightarrow>
     if errno \<noteq> 0 then Err (errorWithMessage lib errno errmsg) else Ok x)"

definition cacheUpdate :: "'v c_library \<Rightarrow> ('v \<Rightarrow> 'a c_status \<times> 'v) \<Rightarrow> ('v, 'a) prog" where
  "cacheUpdate lib f = (\<lambda>v. case f v of (r, v') \<Rightarrow> (cacheResult lib r, v'))"

definition cacheRead :: "'v c_library \<Rightarrow> ('v \<Rightarrow> 'a c_status) \<Rightarrow> ('v, 'a) prog" where
  "cacheRead lib f = (\<lambda>v. (cacheResult lib (f v), v))"

definition api_StoreCode :: "'v c_library \<Rightarrow> bytes option \<Rightarrow> ('v, bytes option) prog" where
  "api_StoreCode lib wasm = cacheUpdate lib (c_save_wasm lib wasm False)"

definition api_StoreCodeUnchecked :: "'v c_library \<Rightarrow> bytes option \<Rightarrow> ('v, bytes option) prog" where
  "api_StoreCodeUnchecked lib wasm = cacheUpdate lib (c_save_wasm lib wasm True)"

definition api_RemoveCode :: "'v c_library \<Rightarrow> bytes option \<Rightarrow> ('v, unit) prog" where
  "api_RemoveCode lib checksum = cacheUpdate lib (c_remove_wasm lib checksum)"

definition api_GetCode :: "'v c_library \<Rightarrow> bytes option \<Rightarrow> ('v, bytes option) prog" where
  "api_GetCode lib checksum = cacheRead lib (c_load_wasm lib checksum)"

definition api_Pin :: "'v c_library \<Rightarrow> bytes option \<Rightarrow> ('v, unit) prog" where
  "api_Pin lib checksum = cacheUpdate lib (c_pin lib checksum)"

definition api_Unpin :: "'v c_library \<Rightarrow> bytes option \<Rightarrow> ('v, unit) prog" where
  "api_Unpin lib checksum = cacheUpdate lib (c_unpin lib checksum)"

definition api_AnalyzeCode :: "'v c_library \<Rightarrow> bytes option \<Rightarrow> ('v, AnalysisReport) prog" where
  "api_AnalyzeCode lib checksum = bindM (cacheRead lib (c_analyze_code lib checksum)) (\<lambda>report.
     returnM \<lparr>rep_HasIBCEntryPoints = c_has_ibc_entry_points report,
       rep_RequiredCapabilities = c_required_capabilities report,
       rep_Entrypoints = split_on CHR '','' (c_entrypoints report),
       rep_ContractMigrateVersion = c_contract_migrate_version report\<rparr>)"

definition api_GetMetrics :: "'v c_library \<Rightarrow> ('v, Metrics) prog" where
  "api_GetMetrics lib = cacheRead lib (c_get_metrics lib)"

text \<open>The decoder of MessagePack is a parameter.\<close>

definition api_GetPinnedMetrics :: "(bytes option \<Rightarrow> go_error + 'p) \<Rightarrow> 'v c_library \<Rightarrow> ('v, 'p) prog" where
  "api_GetPinnedMetrics unmarshal lib = bindM (cacheRead lib (c_get_pinned_metrics lib)) (\<lambda>metrics. liftE (unmarshal metrics))"

record ('s, 'i) call_args =
  arg_store :: "('s, 'i) KVStore"
  arg_iterator :: "('s, 'i) Iterator"
  arg_GasConsumed :: "'s \<Rightarrow> u64"
  arg_api :: "GoAPI option"
  arg_querier :: "('s, 'i) Querier option"

definition checkAndPinAPI :: "GoAPI option \<Rightarrow> ('t, GoAPI) prog" where
  "checkAndPinAPI api = (case api of
     None \<Rightarrow> panicM PanicOther
   | Some a \<Rightarrow>
       if api_HumanizeAddress a = None \<or> api_CanonicalizeAddress a = None \<or> api_ValidateAddress a = None
       then panicM PanicOther else returnM a)"

definition checkAndPinQuerier :: "('s, 'i) Querier option \<Rightarrow> ('t, ('s, 'i) Querier) prog" where
  "checkAndPinQuerier querier = (case querier of None \<Rightarrow> panicM PanicOther | Some q \<Rightarrow> returnM q)"

definition callResult :: "'v c_library \<Rightarrow> c_result \<Rightarrow> GasReport \<times> (go_error + bytes option)" where
  "callResult lib r = (c_gasReport r,
     if c_errno r \<noteq> 0 then Inl (errorWithMessage lib (c_errno r) (c_errmsg r)) else Inr (c_out r))"

text \<open>What the functions for contract calls share: \<open>endCall\<close> is deferred.\<close>

definition apiCall ::
  "'v c_library \<Rightarrow> ('s, 'i) call_args \<Rightarrow> c_result rust \<Rightarrow> (('s, 'i) api_state, GasReport \<times> (go_error + bytes option)) prog"
where
  "apiCall lib a f =
     bindM (checkAndPinAPI (arg_api a)) (\<lambda>api.
     bindM (checkAndPinQuerier (arg_querier a)) (\<lambda>querier.
     bindM startCall (\<lambda>callID s.
       case serve \<lparr>ho_store = arg_store a, ho_iterator = arg_iterator a, ho_GasConsumed = arg_GasConsumed a,
                   ho_api = api, ho_querier = querier\<rparr> callID f s of
         (res, s') \<Rightarrow> bindM (endCall (arg_iterator a) callID) (\<lambda>_. returnM (callResult lib res)) s')))"

type_synonym ('s, 'i) api_call = "(('s, 'i) api_state, GasReport \<times> (go_error + bytes option)) prog"

definition api_Instantiate ::
  "'v c_library \<Rightarrow> ('s, 'i) call_args \<Rightarrow> bytes option \<Rightarrow> bytes option \<Rightarrow> bytes option \<Rightarrow> bytes option \<Rightarrow> u64 \<Rightarrow> bool \<Rightarrow> ('s, 'i) api_call"
where
  "api_Instantiate lib a checksum env info msg gasLimit printDebug = apiCall lib a (c_instantiate lib checksum env info msg gasLimit printDebug)"

definition api_Execute ::
  "'v c_library \<Rightarrow> ('s, 'i) call_args \<Rightarrow> bytes option \<Rightarrow> bytes option \<Rightarrow> bytes option \<Rightarrow> bytes option \<Rightarrow> u64 \<Rightarrow> bool \<Rightarrow> ('s, 'i) api_call"
where
  "api_Execute lib a checksum env info msg gasLimit printDebug = apiCall lib a (c_execute lib checksum env info msg gasLimit printDebug)"

definition api_Migrate ::
  "'v c_library \<Rightarrow> ('s, 'i) call_args \<Rightarrow> bytes option \<Rightarrow> bytes option \<Rightarrow> bytes option \<Rightarrow> u64 \<Rightarrow> bool \<Rightarrow> ('s, 'i) api_call"
where
  "api_Migrate lib a checksum env msg gasLimit printDebug = apiCall lib a (c_migrate lib checksum env msg gasLimit printDebug)"

definition api_MigrateWithInfo ::
  "'v c_library \<Rightarrow> ('s, 'i) call_args \<Rightarrow> bytes option \<Rightarrow> bytes option \<Rightarrow> bytes option \<Rightarrow> bytes option \<Rightarrow> u64 \<Rightarrow> bool \<Rightarrow> ('s, 'i) api_call"
where
  "api_MigrateWithInfo lib a checksum env msg migrateInfo gasLimit printDebug = apiCall lib a (c_migrate_with_info lib checksum env msg migrateInfo gasLimit printDebug)"

definition api_Sudo ::
  "'v c_library \<Rightarrow> ('s, 'i) call_args \<Rightarrow> bytes option \<Rightarrow> bytes option \<Rightarrow> bytes option \<Rightarrow> u64 \<Rightarrow> bool \<Rightarrow> ('s, 'i) api_call"
where
  "api_Sudo lib a checksum env msg gasLimit printDebug = apiCall lib a (c_sudo lib checksum env msg gasLimit printDebug)"

definition api_Reply ::
  "'v c_library \<Rightarrow> ('s, 'i) call_args \<Rightarrow> bytes option \<Rightarrow> bytes option \<Rightarrow> bytes option \<Rightarrow> u64 \<Rightarrow> bool \<Rightarrow> ('s, 'i) api_call"
where
  "api_Reply lib a checksum env reply gasLimit printDebug = apiCall lib a (c_reply lib checksum env reply gasLimit printDebug)"

definition api_Query ::
  "'v c_library \<Rightarrow> ('s, 'i) call_args \<Rightarrow> bytes option \<Rightarrow> bytes option \<Rightarrow> bytes option \<Rightarrow> u64 \<Rightarrow> bool \<Rightarrow> ('s, 'i) api_call"
where
  "api_Query lib a checksum env msg gasLimit printDebug = apiCall lib a (c_query lib checksum env msg gasLimit printDebug)"

definition api_IBCChannelOpen ::
  "'v c_library \<Rightarrow> ('s, 'i) call_args \<Rightarrow> bytes option \<Rightarrow> bytes option \<Rightarrow> bytes option \<Rightarrow> u64 \<Rightarrow> bool \<Rightarrow> ('s, 'i) api_call"
where
  "api_IBCChannelOpen lib a checksum env msg gasLimit printDebug = apiCall lib a (c_ibc_channel_open lib checksum env msg gasLimit printDebug)"

definition api_IBCChannelConnect ::
  "'v c_library \<Rightarrow> ('s, 'i) call_args \<Rightarrow> bytes option \<Rightarrow> bytes option \<Rightarrow> bytes option \<Rightarrow> u64 \<Rightarrow> bool \<Rightarrow> ('s, 'i) api_call"
where
  "api_IBCChannelConnect lib a checksum env msg gasLimit printDebug = apiCall lib a (c_ibc_channel_connect lib checksum env msg gasLimit printDebug)"

definition api_IBCChannelClose ::
  "'v c_library \<Rightarrow> ('s, 'i) call_args \<Rightarrow> bytes option \<Rightarrow> bytes option \<Rightarrow> bytes option \<Rightarrow> u64 \<Rightarrow> bool \<Rightarrow> ('s, 'i) api_call"
where
  "api_IBCChannelClose lib a checksum env msg gasLimit printDebug = apiCall lib a (c_ibc_channel_close lib checksum env msg gasLimit printDebug)"

definition api_IBCPacketReceive ::
  "'v c_library \<Rightarrow> ('s, 'i) call_args \<Rightarrow> bytes option \<Rightarrow> bytes option \<Rightarrow> bytes option \<Rightarrow> u64 \<Rightarrow> bool \<Rightarrow> ('s, 'i) api_call"
where
  "api_IBCPacketReceive lib a checksum env msg gasLimit printDebug = apiCall lib a (c_ibc_packet_receive lib checksum env msg gasLimit printDebug)"

definition api_IBCPacketAck ::
  "'v c_library \<Rightarrow> ('s, 'i) call_args \<Rightarrow> bytes option \<Rightarrow> bytes option \<Rightarrow> bytes option \<Rightarrow> u64 \<Rightarrow> bool \<Rightarrow> ('s, 'i) api_call"
where
  "api_IBCPacketAck lib a checksum env msg gasLimit printDebug = apiCall lib a (c_ibc_packet_ack lib checksum env msg gasLimit printDebug)"

definition api_IBCPacketTimeout ::
  "'v c_library \<Rightarrow> ('s, 'i) call_args \<Rightarrow> bytes option \<Rightarrow> bytes option \<Rightarrow> bytes option \<Rightarrow> u64 \<Rightarrow> bool \<Rightarrow> ('s, 'i) api_call"
where
  "api_IBCPacketTimeout lib a checksum env msg gasLimit printDebug = apiCall lib a (c_ibc_packet_timeout lib checksum env msg gasLimit printDebug)"

definition api_IBCSourceCallback ::
  "'v c_library \<Rightarrow> ('s, 'i) call_args \<Rightarrow> bytes option \<Rightarrow> bytes option \<Rightarrow> bytes option \<Rightarrow> u64 \<Rightarrow> bool \<Rightarrow> ('s, 'i) api_call"
where
  "api_IBCSourceCallback lib a checksum env msg gasLimit printDebug = apiCall lib a (c_ibc_source_callback lib checksum env msg gasLimit printDebug)"

definition api_IBCDestinationCallback ::
  "'v c_library \<Rightarrow> ('s, 'i) call_args \<Rightarrow> bytes option \<Rightarrow> bytes option \<Rightarrow> bytes option \<Rightarrow> u64 \<Rightarrow> bool \<Rightarrow> ('s, 'i) api_call"
where
  "api_IBCDestinationCallback lib a checksum env msg gasLimit printDebug = apiCall lib a (c_ibc_destination_callback lib checksum env msg gasLimit printDebug)"

section \<open>The VM: codes\<close>

record 'v VM =
  vm_lib :: "'v c_library"
  vm_printDebug :: bool

definition compileCost :: "bytes option \<Rightarrow> u64" where
  "compileCost code = 3 * 140000 * word_of_nat (length (orEmpty code))"

text \<open>Besides the checksum or the error the cost is returned.\<close>

definition VM_StoreCode :: "'v VM \<Rightarrow> bytes option \<Rightarrow> u64 \<Rightarrow> ('v, (go_error + bytes option) \<times> u64) prog" where
  "VM_StoreCode vm code gasLimit =
     (let gasCost = compileCost code in
      if gasLimit < gasCost then returnM (Inl OutOfGasError, gasCost)
      else bindM (tryM (api_StoreCode (vm_lib vm) code)) (\<lambda>r. returnM (r, gasCost)))"

definition VM_StoreCodeUnchecked :: "'v VM \<Rightarrow> bytes option \<Rightarrow> ('v, bytes option) prog" where
  "VM_StoreCodeUnchecked vm code = api_StoreCodeUnchecked (vm_lib vm) code"

definition VM_RemoveCode :: "'v VM \<Rightarrow> bytes option \<Rightarrow> ('v, unit) prog" where
  "VM_RemoveCode vm checksum = api_RemoveCode (vm_lib vm) checksum"

definition VM_GetCode :: "'v VM \<Rightarrow> bytes option \<Rightarrow> ('v, bytes option) prog" where
  "VM_GetCode vm checksum = api_GetCode (vm_lib vm) checksum"

definition VM_Pin :: "'v VM \<Rightarrow> bytes option \<Rightarrow> ('v, unit) prog" where
  "VM_Pin vm checksum = api_Pin (vm_lib vm) checksum"

definition VM_Unpin :: "'v VM \<Rightarrow> bytes option \<Rightarrow> ('v, unit) prog" where
  "VM_Unpin vm checksum = api_Unpin (vm_lib vm) checksum"

definition VM_AnalyzeCode :: "'v VM \<Rightarrow> bytes option \<Rightarrow> ('v, AnalysisReport) prog" where
  "VM_AnalyzeCode vm checksum = api_AnalyzeCode (vm_lib vm) checksum"

definition VM_GetMetrics :: "'v VM \<Rightarrow> ('v, Metrics) prog" where
  "VM_GetMetrics vm = api_GetMetrics (vm_lib vm)"

definition VM_GetPinnedMetrics :: "(bytes option \<Rightarrow> go_error + 'p) \<Rightarrow> 'v VM \<Rightarrow> ('v, 'p) prog" where
  "VM_GetPinnedMetrics unmarshal vm = api_GetPinnedMetrics unmarshal (vm_lib vm)"

section \<open>The VM: contract calls\<close>

record vm_codec =
  json_Env :: "Env \<Rightarrow> go_error + bytes"
  json_MessageInfo :: "MessageInfo \<Rightarrow> go_error + bytes"
  json_MigrateInfo :: "MigrateInfo \<Rightarrow> go_error + bytes"
  json_Reply :: "Reply \<Rightarrow> go_error + bytes"
  json_IBCChannelOpenMsg :: "IBCChannelOpenMsg \<Rightarrow> go_error + bytes"
  json_IBCChannelConnectMsg :: "IBCChannelConnectMsg \<Rightarrow> go_error + bytes"
  json_IBCChannelCloseMsg :: "IBCChannelCloseMsg \<Rightarrow> go_error + bytes"
  json_IBCPacketReceiveMsg :: "IBCPacketReceiveMsg \<Rightarrow> go_error + bytes"
  json_IBCPacketAckMsg :: "IBCPacketAckMsg \<Rightarrow> go_error + bytes"
  json_IBCPacketTimeoutMsg :: "IBCPacketTimeoutMsg \<Rightarrow> go_error + bytes"
  json_IBCSourceCallbackMsg :: "IBCSourceCallbackMsg \<Rightarrow> go_error + bytes"
  json_IBCDestinationCallbackMsg :: "IBCDestinationCallbackMsg \<Rightarrow> go_error + bytes"
  parse_ContractResult :: "bytes \<Rightarrow> go_error + ContractResult"
  parse_QueryResult :: "bytes \<Rightarrow> go_error + QueryResult"
  parse_IBCChannelOpenResult :: "bytes \<Rightarrow> go_error + IBCChannelOpenResult"
  parse_IBCBasicResult :: "bytes \<Rightarrow> go_error + IBCBasicResult"
  parse_IBCReceiveResult :: "bytes \<Rightarrow> go_error + IBCReceiveResult"

definition IBCBasicResult_SubMessages :: "IBCBasicResult \<Rightarrow> SubMsg list" where
  "IBCBasicResult_SubMessages r = (case basic_Ok r of None \<Rightarrow> [] | Some ok \<Rightarrow> basic_Messages ok)"

definition IBCReceiveResult_SubMessages :: "IBCReceiveResult \<Rightarrow> SubMsg list" where
  "IBCReceiveResult_SubMessages r = (case recv_Ok r of None \<Rightarrow> [] | Some ok \<Rightarrow> recv_Messages ok)"

definition ReplyPayloadMaxBytes :: nat where "ReplyPayloadMaxBytes = 128 * 1024"

fun checkPayloads :: "nat \<Rightarrow> SubMsg list \<Rightarrow> go_error + unit" where
  "checkPayloads i [] = Inr ()"
| "checkPayloads i (m # ms) =
     (if ReplyPayloadMaxBytes < length (sub_Payload m)
      then Inl (PlainError (''reply contains submessage at index '' @ dec_string i @ '' with payload larger than '' @
        dec_string ReplyPayloadMaxBytes @ '' bytes: '' @ dec_string (length (sub_Payload m)) @ '' bytes''))
      else checkPayloads (Suc i) ms)"

text \<open>
  A result type without submessages skips the check: its list is empty. The report is returned updated.
\<close>

definition DeserializeResponse ::
  "u64 \<Rightarrow> UFraction \<Rightarrow> GasReport \<Rightarrow> bytes \<Rightarrow> (bytes \<Rightarrow> go_error + 'r) \<Rightarrow> ('r \<Rightarrow> SubMsg list) \<Rightarrow>
   (GasReport \<times> (go_error + 'r)) outcome"
where
  "DeserializeResponse gasLimit deserCost gasReport data unmarshal subMessages =
     bindO (UFraction_Floor (UFraction_Mul deserCost (word_of_nat (length data)))) (\<lambda>gasForDeserialization.
     if gasLimit < gasForDeserialization + gr_UsedInternally gasReport
     then Ok (gasReport, Inl (PlainError (''Insufficient gas left to deserialize contract execution result ('' @
       dec_string (length data) @ '' bytes)'')))
     else
       let gasReport' = gasReport\<lparr>gr_UsedInternally := gr_UsedInternally gasReport + gasForDeserialization,
         gr_Remaining := gr_Remaining gasReport - gasForDeserialization\<rparr>
       in Ok (gasReport', bindE (unmarshal data) (\<lambda>response.
            bindE (checkPayloads 0 (subMessages response)) (\<lambda>_. Inr response))))"

text \<open>
  The end every entry point has: the error of the call, or the decoded result, with the gas used.
  \<open>marshalled\<close> is the start: an encoder that fails ends the call with no gas used.
\<close>

definition decodeResult ::
  "u64 \<Rightarrow> UFraction \<Rightarrow> (bytes \<Rightarrow> go_error + 'r) \<Rightarrow> ('r \<Rightarrow> SubMsg list) \<Rightarrow> GasReport \<times> (go_error + bytes option) \<Rightarrow>
   ('t, (go_error + 'r) \<times> u64) prog"
where
  "decodeResult gasLimit deserCost unmarshal subMessages res = (case res of
     (gasReport, Inl err) \<Rightarrow> returnM (Inl err, gr_UsedInternally gasReport)
   | (gasReport, Inr data) \<Rightarrow>
       bindM (liftO (DeserializeResponse gasLimit deserCost gasReport (orEmpty data) unmarshal subMessages))
         (\<lambda>(gasReport', r). returnM (r, gr_UsedInternally gasReport')))"

definition marshalled ::
  "go_error + bytes \<Rightarrow> (bytes \<Rightarrow> ('t, (go_error + 'r) \<times> u64) prog) \<Rightarrow> ('t, (go_error + 'r) \<times> u64) prog"
where
  "marshalled r f = (case r of Inl err \<Rightarrow> returnM (Inl err, 0) | Inr bin \<Rightarrow> f bin)"

type_synonym ('s, 'i, 'r) contract_call = "u64 \<Rightarrow> UFraction \<Rightarrow> (('s, 'i) api_state, (go_error + 'r) \<times> u64) prog"

definition VM_Instantiate ::
  "'v VM \<Rightarrow> vm_codec \<Rightarrow> ('s, 'i) call_args \<Rightarrow> bytes option \<Rightarrow> Env \<Rightarrow> MessageInfo \<Rightarrow> bytes option \<Rightarrow> ('s, 'i, ContractResult) contract_call"
where
  "VM_Instantiate vm cd a checksum env info initMsg gasLimit deserCost =
     marshalled (json_Env cd env) (\<lambda>envBin.
     marshalled (json_MessageInfo cd info) (\<lambda>infoBin.
     bindM (api_Instantiate (vm_lib vm) a checksum (Some envBin) (Some infoBin) initMsg gasLimit (vm_printDebug vm))
       (decodeResult gasLimit deserCost (parse_ContractResult cd) SubMessages)))"

definition VM_Execute ::
  "'v VM \<Rightarrow> vm_codec \<Rightarrow> ('s, 'i) call_args \<Rightarrow> bytes option \<Rightarrow> Env \<Rightarrow> MessageInfo \<Rightarrow> bytes option \<Rightarrow> ('s, 'i, ContractResult) contract_call"
where
  "VM_Execute vm cd a checksum env info executeMsg gasLimit deserCost =
     marshalled (json_Env cd env) (\<lambda>envBin.
     marshalled (json_MessageInfo cd info) (\<lambda>infoBin.
     bindM (api_Execute (vm_lib vm) a checksum (Some envBin) (Some infoBin) executeMsg gasLimit (vm_printDebug vm))
       (decodeResult gasLimit deserCost (parse_ContractResult cd) SubMessages)))"

definition VM_Query ::
  "'v VM \<Rightarrow> vm_codec \<Rightarrow> ('s, 'i) call_args \<Rightarrow> bytes option \<Rightarrow> Env \<Rightarrow> bytes option \<Rightarrow> ('s, 'i, QueryResult) contract_call"
where
  "VM_Query vm cd a checksum env queryMsg gasLimit deserCost =
     marshalled (json_Env cd env) (\<lambda>envBin.
     bindM (api_Query (vm_lib vm) a checksum (Some envBin) queryMsg gasLimit (vm_printDebug vm))
       (decodeResult gasLimit deserCost (parse_QueryResult cd) (\<lambda>_. [])))"

definition VM_Migrate ::
  "'v VM \<Rightarrow> vm_codec \<Rightarrow> ('s, 'i) call_args \<Rightarrow> bytes option \<Rightarrow> Env \<Rightarrow> bytes option \<Rightarrow> ('s, 'i, ContractResult) contract_call"
where
  "VM_Migrate vm cd a checksum env migrateMsg gasLimit deserCost =
     marshalled (json_Env cd env) (\<lambda>envBin.
     bindM (api_Migrate (vm_lib vm) a checksum (Some envBin) migrateMsg gasLimit (vm_printDebug vm))
       (decodeResult gasLimit deserCost (parse_ContractResult cd) SubMessages))"

definition VM_MigrateWithInfo ::
  "'v VM \<Rightarrow> vm_codec \<Rightarrow> ('s, 'i) call_args \<Rightarrow> bytes option \<Rightarrow> Env \<Rightarrow> bytes option \<Rightarrow> MigrateInfo \<Rightarrow> ('s, 'i, ContractResult) contract_call"
where
  "VM_MigrateWithInfo vm cd a checksum env migrateMsg migrateInfo gasLimit deserCost =
     marshalled (json_Env cd env) (\<lambda>envBin.
     marshalled (json_MigrateInfo cd migrateInfo) (\<lambda>migrateBin.
     bindM (api_MigrateWithInfo (vm_lib vm) a checksum (Some envBin) migrateMsg (Some migrateBin) gasLimit (vm_printDebug vm))
       (decodeResult gasLimit deserCost (parse_ContractResult cd) SubMessages)))"

definition VM_Sudo ::
  "'v VM \<Rightarrow> vm_codec \<Rightarrow> ('s, 'i) call_args \<Rightarrow> bytes option \<Rightarrow> Env \<Rightarrow> bytes option \<Rightarrow> ('s, 'i, ContractResult) contract_call"
where
  "VM_Sudo vm cd a checksum env sudoMsg gasLimit deserCost =
     marshalled (json_Env cd env) (\<lambda>envBin.
     bindM (api_Sudo (vm_lib vm) a checksum (Some envBin) sudoMsg gasLimit (vm_printDebug vm))
       (decodeResult gasLimit deserCost (parse_ContractResult cd) SubMessages))"

definition VM_Reply ::
  "'v VM \<Rightarrow> vm_codec \<Rightarrow> ('s, 'i) call_args \<Rightarrow> bytes option \<Rightarrow> Env \<Rightarrow> Reply \<Rightarrow> ('s, 'i, ContractResult) contract_call"
where
  "VM_Reply vm cd a checksum env reply gasLimit deserCost =
     marshalled (json_Env cd env) (\<lambda>envBin.
     marshalled (json_Reply cd reply) (\<lambda>replyBin.
     bindM (api_Reply (vm_lib vm) a checksum (Some envBin) (Some replyBin) gasLimit (vm_printDebug vm))
       (decodeResult gasLimit deserCost (parse_ContractResult cd) SubMessages)))"

definition VM_IBCChannelOpen ::
  "'v VM \<Rightarrow> vm_codec \<Rightarrow> ('s, 'i) call_args \<Rightarrow> bytes option \<Rightarrow> Env \<Rightarrow> IBCChannelOpenMsg \<Rightarrow> ('s, 'i, IBCChannelOpenResult) contract_call"
where
  "VM_IBCChannelOpen vm cd a checksum env msg gasLimit deserCost =
     marshalled (json_Env cd env) (\<lambda>envBin.
     marshalled (json_IBCChannelOpenMsg cd msg) (\<lambda>msgBin.
     bindM (api_IBCChannelOpen (vm_lib vm) a checksum (Some envBin) (Some msgBin) gasLimit (vm_printDebug vm))
       (decodeResult gasLimit deserCost (parse_IBCChannelOpenResult cd) (\<lambda>_. []))))"

definition VM_IBCChannelConnect ::
  "'v VM \<Rightarrow> vm_codec \<Rightarrow> ('s, 'i) call_args \<Rightarrow> bytes option \<Rightarrow> Env \<Rightarrow> IBCChannelConnectMsg \<Rightarrow> ('s, 'i, IBCBasicResult) contract_call"
where
  "VM_IBCChannelConnect vm cd a checksum env msg gasLimit deserCost =
     marshalled (json_Env cd env) (\<lambda>envBin.
     marshalled (json_IBCChannelConnectMsg cd msg) (\<lambda>msgBin.
     bindM (api_IBCChannelConnect (vm_lib vm) a checksum (Some envBin) (Some msgBin) gasLimit (vm_printDebug vm))
       (decodeResult gasLimit deserCost (parse_IBCBasicResult cd) IBCBasicResult_SubMessages)))"

definition VM_IBCChannelClose ::
  "'v VM \<Rightarrow> vm_codec \<Rightarrow> ('s, 'i) call_args \<Rightarrow> bytes option \<Rightarrow> Env \<Rightarrow> IBCChannelCloseMsg \<Rightarrow> ('s, 'i, IBCBasicResult) contract_call"
where
  "VM_IBCChannelClose vm cd a checksum env msg gasLimit deserCost =
     marshalled (json_Env cd env) (\<lambda>envBin.
     marshalled (json_IBCChannelCloseMsg cd msg) (\<lambda>msgBin.
     bindM (api_IBCChannelClose (vm_lib vm) a checksum (Some envBin) (Some msgBin) gasLimit (vm_printDebug vm))
       (decodeResult gasLimit deserCost (parse_IBCBasicResult cd) IBCBasicResult_SubMessages)))"

definition VM_IBCPacketReceive ::
  "'v VM \<Rightarrow> vm_codec \<Rightarrow> ('s, 'i) call_args \<Rightarrow> bytes option \<Rightarrow> Env \<Rightarrow> IBCPacketReceiveMsg \<Rightarrow> ('s, 'i, IBCReceiveResult) contract_call"
where
  "VM_IBCPacketReceive vm cd a checksum env msg gasLimit deserCost =
     marshalled (json_Env cd env) (\<lambda>envBin.
     marshalled (json_IBCPacketReceiveMsg cd msg) (\<lambda>msgBin.
     bindM (api_IBCPacketReceive (vm_lib vm) a checksum (Some envBin) (Some msgBin) gasLimit (vm_printDebug vm))
       (decodeResult gasLimit deserCost (parse_IBCReceiveResult cd) IBCReceiveResult_SubMessages)))"

definition VM_IBCPacketAck ::
  "'v VM \<Rightarrow> vm_codec \<Rightarrow> ('s, 'i) call_args \<Rightarrow> bytes option \<Rightarrow> Env \<Rightarrow> IBCPacketAckMsg \<Rightarrow> ('s, 'i, IBCBasicResult) contract_call"
where
  "VM_IBCPacketAck vm cd a checksum env msg gasLimit deserCost =
     marshalled (json_Env cd env) (\<lambda>envBin.
     marshalled (json_IBCPacketAckMsg cd msg) (\<lambda>msgBin.
     bindM (api_IBCPacketAck (vm_lib vm) a checksum (Some envBin) (Some msgBin) gasLimit (vm_printDebug vm))
       (decodeResult gasLimit deserCost (parse_IBCBasicResult cd) IBCBasicResult_SubMessages)))"

definition VM_IBCPacketTimeout ::
  "'v VM \<Rightarrow> vm_codec \<Rightarrow> ('s, 'i) call_args \<Rightarrow> bytes option \<Rightarrow> Env \<Rightarrow> IBCPacketTimeoutMsg \<Rightarrow> ('s, 'i, IBCBasicResult) contract_call"
where
  "VM_IBCPacketTimeout vm cd a checksum env msg gasLimit deserCost =
     marshalled (json_Env cd env) (\<lambda>envBin.
     marshalled (json_IBCPacketTimeoutMsg cd msg) (\<lambda>msgBin.
     bindM (api_IBCPacketTimeout (vm_lib vm) a checksum (Some envBin) (Some msgBin) gasLimit (vm_printDebug vm))
       (decodeResult gasLimit deserCost (parse_IBCBasicResult cd) IBCBasicResult_SubMessages)))"

definition VM_IBCSourceCallback ::
  "'v VM \<Rightarrow> vm_codec \<Rightarrow> ('s, 'i) call_args \<Rightarrow> bytes option \<Rightarrow> Env \<Rightarrow> IBCSourceCallbackMsg \<Rightarrow> ('s, 'i, IBCBasicResult) contract_call"
where
  "VM_IBCSourceCallback vm cd a checksum env msg gasLimit deserCost =
     marshalled (json_Env cd env) (\<lambda>envBin.
     marshalled (json_IBCSourceCallbackMsg cd msg) (\<lambda>msgBin.
     bindM (api_IBCSourceCallback (vm_lib vm) a checksum (Some envBin) (Some msgBin) gasLimit (vm_printDebug vm))
       (decodeResult gasLimit deserCost (parse_IBCBasicResult cd) IBCBasicResult_SubMessages)))"

definition VM_IBCDestinationCallback ::
  "'v VM \<Rightarrow> vm_codec \<Rightarrow> ('s, 'i) call_args \<Rightarrow> bytes option \<Rightarrow> Env \<Rightarrow> IBCDestinationCallbackMsg \<Rightarrow> ('s, 'i, IBCBasicResult) contract_call"
where
  "VM_IBCDestinationCallback vm cd a checksum env msg gasLimit deserCost =
     marshalled (json_Env cd env) (\<lambda>envBin.
     marshalled (json_IBCDestinationCallbackMsg cd msg) (\<lambda>msgBin.
     bindM (api_IBCDestinationCallback (vm_lib vm) a checksum (Some envBin) (Some msgBin) gasLimit (vm_printDebug vm))
       (decodeResult gasLimit deserCost (parse_IBCBasicResult cd) IBCBasicResult_SubMessages)))"

end
