(* ===== verification/Libwasmvm.thy ===== *)
theory Libwasmvm
  imports Vm_Library
begin

text \<open>
  The Rust library behind the bindings (\<open>wasmvm/libwasmvm/src\<close>): what a contract sees as its storage, its
  address functions and its querier is made of the callbacks into Go (\<open>storage.rs\<close>, \<open>iterator.rs\<close>,
  \<open>api.rs\<close>, \<open>querier.rs\<close>), with the status of a callback turned into a result (\<open>error/go.rs\<close>); the
  exported functions (\<open>calls.rs\<close>, \<open>cache.rs\<close>) read their arguments, run the VM and turn its result into a
  value, an error number and a message (\<open>error/rust.rs\<close>).

  The VM itself, the crate \<open>cosmwasm-vm\<close>, is a parameter: the cache of compiled codes, and for each entry
  point a run, which is a tree like that of \<open>Vm_Callbacks\<close> but over the traits the crate declares for its
  host. A panic of the VM ends its run as \<open>Unwound\<close>.
\<close>

section \<open>Text\<close>

text \<open>
  One step of the decoder of UTF-8: how many bytes the next character takes, or the part of one that is not
  valid. \<open>from_utf8_lossy\<close> replaces each such part by U+FFFD.
\<close>

definition byteOf :: "char \<Rightarrow> nat" where
  "byteOf c = of_char c"

definition continuation :: "bytes \<Rightarrow> nat \<Rightarrow> bool" where
  "continuation bs i \<longleftrightarrow> i < length bs \<and> 128 \<le> byteOf (bs ! i) \<and> byteOf (bs ! i) \<le> 191"

definition secondInRange :: "nat \<Rightarrow> bytes \<Rightarrow> bool" where
  "secondInRange b bs \<longleftrightarrow> 1 < length bs \<and>
     (let lo = (if b = 224 then 160 else if b = 240 then 144 else 128);
          hi = (if b = 237 then 159 else if b = 244 then 143 else 191)
      in lo \<le> byteOf (bs ! 1) \<and> byteOf (bs ! 1) \<le> hi)"

definition utf8_chunk :: "bytes \<Rightarrow> nat \<times> bool" where
  "utf8_chunk bs = (let b = byteOf (hd bs) in
     if b < 128 then (1, True)
     else if 194 \<le> b \<and> b \<le> 223 then (if continuation bs 1 then (2, True) else (1, False))
     else if 224 \<le> b \<and> b \<le> 239 then
       (if \<not> secondInRange b bs then (1, False)
        else if \<not> continuation bs 2 then (2, False) else (3, True))
     else if 240 \<le> b \<and> b \<le> 244 then
       (if \<not> secondInRange b bs then (1, False)
        else if \<not> continuation bs 2 then (2, False)
        else if \<not> continuation bs 3 then (3, False) else (4, True))
     else (1, False))"

lemma utf8_chunk_pos: "(n, valid) = utf8_chunk bs \<Longrightarrow> 0 < n"
  by (auto simp: utf8_chunk_def Let_def split: if_splits)

function from_utf8_lossy :: "bytes \<Rightarrow> string" where
  "from_utf8_lossy [] = []"
| "from_utf8_lossy (b # bs) =
     (case utf8_chunk (b # bs) of (n, valid) \<Rightarrow>
        (if valid then take n (b # bs) else [CHR 0xEF, CHR 0xBF, CHR 0xBD]) @ from_utf8_lossy (drop n (b # bs)))"
  by pat_completeness auto
termination by (relation "measure length") (auto dest!: utf8_chunk_pos)

function valid_utf8 :: "bytes \<Rightarrow> bool" where
  "valid_utf8 [] = True"
| "valid_utf8 (b # bs) = (case utf8_chunk (b # bs) of (n, valid) \<Rightarrow> valid \<and> valid_utf8 (drop n (b # bs)))"
  by pat_completeness auto
termination by (relation "measure length") (auto dest!: utf8_chunk_pos)

section \<open>Results of callbacks\<close>

datatype backend_error =
    ForeignPanic
  | BadArgument
  | IteratorDoesNotExist u32
  | OutOfGas
  | UserErr string
  | UnknownErr string
  | InvalidUtf8

record gas_info =
  gi_cost :: u64
  gi_externally_used :: u64

type_synonym 'a backend_result = "(backend_error + 'a) \<times> gas_info"

definition with_externally_used :: "u64 \<Rightarrow> gas_info" where
  "with_externally_used amount = \<lparr>gi_cost = 0, gi_externally_used = amount\<rparr>"

definition with_cost :: "u64 \<Rightarrow> gas_info" where
  "with_cost amount = \<lparr>gi_cost = amount, gi_externally_used = 0\<rparr>"

definition free_gas :: gas_info where
  "free_gas = \<lparr>gi_cost = 0, gi_externally_used = 0\<rparr>"

definition MAX_ERROR_LEN :: nat where "MAX_ERROR_LEN = 8 * 1024"

text \<open>None is success. The message is read for the last two cases only.\<close>

definition into_result :: "GoError \<Rightarrow> bytes option \<Rightarrow> string \<Rightarrow> backend_error option" where
  "into_result e error_msg default_error_msg =
     (let build_error_msg = (case error_msg of
            Some data \<Rightarrow> from_utf8_lossy (take MAX_ERROR_LEN data)
          | None \<Rightarrow> default_error_msg)
      in case e of
           GoError_None \<Rightarrow> None
         | GoError_Panic \<Rightarrow> Some ForeignPanic
         | GoError_BadArgument \<Rightarrow> Some BadArgument
         | GoError_OutOfGas \<Rightarrow> Some OutOfGas
         | GoError_User \<Rightarrow> Some (UserErr build_error_msg)
         | GoError_CannotSerialize \<Rightarrow> Some (UnknownErr build_error_msg))"

definition goResult :: "answer \<Rightarrow> string \<Rightarrow> backend_error + 'a \<Rightarrow> backend_error + 'a" where
  "goResult a default_msg ok = (case into_result (ans_ret a) (ans_errOut a) default_msg of Some err \<Rightarrow> Inl err | None \<Rightarrow> ok)"

section \<open>What the VM asks of its host\<close>

datatype Order = Ascending | Descending

fun order_number :: "Order \<Rightarrow> 32 word" where
  "order_number Ascending = 1"
| "order_number Descending = 2"

datatype backend_request =
    Storage_get bytes
  | Storage_scan "bytes option" "bytes option" Order
  | Storage_next u32
  | Storage_next_key u32
  | Storage_next_value u32
  | Storage_set bytes bytes
  | Storage_remove bytes
  | Api_addr_canonicalize string
  | Api_addr_humanize bytes
  | Api_addr_validate string
  | Querier_query_raw bytes u64

datatype backend_response =
    OptBytes "bytes option backend_result"
  | Iter "u32 backend_result"
  | Record "(bytes \<times> bytes) option backend_result"
  | Unit "unit backend_result"
  | Bytes "bytes backend_result"
  | Answered "(system_error + QueryResult) backend_result"

datatype 'r wasm_run =
    Return 'r
  | Ask backend_request "backend_response \<Rightarrow> 'r wasm_run"

text \<open>Functions of other crates: debug output of optional text, capital hexadecimal digits and the JSON decoder.\<close>

record rust_env =
  fmt_debug :: "string option \<Rightarrow> string"
  hex_upper :: "bytes \<Rightarrow> string"
  from_slice :: "bytes \<Rightarrow> string + (system_error + QueryResult)"

text \<open>The library passes pointers to its own variables and empty vectors to write to.\<close>

definition rust_ptrs :: call_ptrs where "rust_ptrs = \<lparr>ptr_nil = False, ptr_dirty = False\<rparr>"

definition GoStorage_get :: "bytes \<Rightarrow> (backend_response \<Rightarrow> 'r rust) \<Rightarrow> 'r rust" where
  "GoStorage_get key k = Callback rust_ptrs (ReadDb (Some key)) (\<lambda>a.
     k (OptBytes (goResult a (''Failed to read a key in the db: '' @ from_utf8_lossy key) (Inr (ans_out a)),
       with_externally_used (ans_usedGas a))))"

text \<open>The iterators of the storage are numbered in the order in which they are opened.\<close>

definition GoStorage_scan ::
  "rust_env \<Rightarrow> IteratorReference list \<Rightarrow> bytes option \<Rightarrow> bytes option \<Rightarrow> Order \<Rightarrow>
   (backend_response \<Rightarrow> IteratorReference list \<Rightarrow> 'r rust) \<Rightarrow> 'r rust"
where
  "GoStorage_scan e its start stop order k = Callback rust_ptrs (ScanDb start stop (order_number order)) (\<lambda>a.
     let gas_info = with_externally_used (ans_usedGas a);
         default_msg = ''Failed to read the next key between '' @ fmt_debug e (map_option from_utf8_lossy start) @
           '' and '' @ fmt_debug e (map_option from_utf8_lossy stop);
         stub = \<lparr>ref_call_id = 0, ref_iterator_id = 0\<rparr>
     in case goResult a default_msg (Inr (case ans_iter a of None \<Rightarrow> stub | Some r \<Rightarrow> r)) of
          Inl err \<Rightarrow> k (Iter (Inl err, gas_info)) its
        | Inr iter \<Rightarrow> k (Iter (Inr (word_of_nat (length its)), gas_info)) (its @ [iter]))"

definition GoIter_next :: "IteratorReference \<Rightarrow> (backend_response \<Rightarrow> 'r rust) \<Rightarrow> 'r rust" where
  "GoIter_next ref k = Callback rust_ptrs (NextItem ref) (\<lambda>a.
     k (Record (goResult a ''Failed to fetch next item from iterator''
         (case ans_out a of
            None \<Rightarrow> Inr None
          | Some key \<Rightarrow> (case ans_value a of
              Some value \<Rightarrow> Inr (Some (key, value))
            | None \<Rightarrow> Inl (UnknownErr ''Failed to read value while reading the next key in the db''))),
       with_externally_used (ans_usedGas a))))"

definition next_key_or_val :: "rust_request \<Rightarrow> (backend_response \<Rightarrow> 'r rust) \<Rightarrow> 'r rust" where
  "next_key_or_val next_part k = Callback rust_ptrs next_part (\<lambda>a.
     k (OptBytes (goResult a ''Failed to fetch next item from iterator'' (Inr (ans_out a)),
       with_externally_used (ans_usedGas a))))"

definition withIter ::
  "IteratorReference list \<Rightarrow> u32 \<Rightarrow> (backend_error \<times> gas_info \<Rightarrow> 'r rust) \<Rightarrow> (IteratorReference \<Rightarrow> 'r rust) \<Rightarrow> 'r rust"
where
  "withIter its iterator_id missing f =
     (if unat iterator_id < length its then f (its ! unat iterator_id)
      else missing (IteratorDoesNotExist iterator_id, free_gas))"

definition GoStorage_next :: "IteratorReference list \<Rightarrow> u32 \<Rightarrow> (backend_response \<Rightarrow> 'r rust) \<Rightarrow> 'r rust" where
  "GoStorage_next its iterator_id k =
     withIter its iterator_id (\<lambda>(err, gas). k (Record (Inl err, gas))) (\<lambda>ref. GoIter_next ref k)"

definition GoStorage_next_key :: "IteratorReference list \<Rightarrow> u32 \<Rightarrow> (backend_response \<Rightarrow> 'r rust) \<Rightarrow> 'r rust" where
  "GoStorage_next_key its iterator_id k =
     withIter its iterator_id (\<lambda>(err, gas). k (OptBytes (Inl err, gas))) (\<lambda>ref. next_key_or_val (NextKey ref) k)"

definition GoStorage_next_value :: "IteratorReference list \<Rightarrow> u32 \<Rightarrow> (backend_response \<Rightarrow> 'r rust) \<Rightarrow> 'r rust" where
  "GoStorage_next_value its iterator_id k =
     withIter its iterator_id (\<lambda>(err, gas). k (OptBytes (Inl err, gas))) (\<lambda>ref. next_key_or_val (NextValue ref) k)"

definition GoStorage_set :: "bytes \<Rightarrow> bytes \<Rightarrow> (backend_response \<Rightarrow> 'r rust) \<Rightarrow> 'r rust" where
  "GoStorage_set key val k = Callback rust_ptrs (WriteDb (Some key) (Some val)) (\<lambda>a.
     k (Unit (goResult a (''Failed to set a key in the db: '' @ from_utf8_lossy key) (Inr ()),
       with_externally_used (ans_usedGas a))))"

definition GoStorage_remove :: "bytes \<Rightarrow> (backend_response \<Rightarrow> 'r rust) \<Rightarrow> 'r rust" where
  "GoStorage_remove key k = Callback rust_ptrs (RemoveDb (Some key)) (\<lambda>a.
     k (Unit (goResult a (''Failed to delete a key in the db: '' @ from_utf8_lossy key) (Inr ()),
       with_externally_used (ans_usedGas a))))"

definition outputOr :: "bytes option \<Rightarrow> backend_error + bytes" where
  "outputOr out = (case out of None \<Rightarrow> Inl (UnknownErr ''Unset output'') | Some x \<Rightarrow> Inr x)"

definition GoApi_addr_canonicalize :: "string \<Rightarrow> (backend_response \<Rightarrow> 'r rust) \<Rightarrow> 'r rust" where
  "GoApi_addr_canonicalize human k = Callback rust_ptrs (CanonicalizeAddress (Some human)) (\<lambda>a.
     k (Bytes (goResult a (''Failed to canonicalize the address: '' @ human) (outputOr (ans_out a)),
       with_cost (ans_usedGas a))))"

definition GoApi_addr_humanize :: "rust_env \<Rightarrow> bytes \<Rightarrow> (backend_response \<Rightarrow> 'r rust) \<Rightarrow> 'r rust" where
  "GoApi_addr_humanize e canonical k = Callback rust_ptrs (HumanizeAddress (Some canonical)) (\<lambda>a.
     k (Bytes (goResult a (''Failed to humanize the address: '' @ hex_upper e canonical)
         (case outputOr (ans_out a) of
            Inl err \<Rightarrow> Inl err
          | Inr human_data \<Rightarrow> if valid_utf8 human_data then Inr human_data else Inl InvalidUtf8),
       with_cost (ans_usedGas a))))"

definition GoApi_addr_validate :: "string \<Rightarrow> (backend_response \<Rightarrow> 'r rust) \<Rightarrow> 'r rust" where
  "GoApi_addr_validate input k = Callback rust_ptrs (ValidateAddress (Some input)) (\<lambda>a.
     k (Unit (goResult a (''Failed to validate the address: '' @ input) (Inr ()), with_cost (ans_usedGas a))))"

definition GoQuerier_query_raw :: "rust_env \<Rightarrow> bytes \<Rightarrow> u64 \<Rightarrow> (backend_response \<Rightarrow> 'r rust) \<Rightarrow> 'r rust" where
  "GoQuerier_query_raw e request gas_limit k = Callback rust_ptrs (QueryExternal gas_limit (Some request)) (\<lambda>a.
     k (Answered (goResult a (''Failed to query another contract with this request: '' @ from_utf8_lossy request)
         (Inr (let bin_result = orEmpty (ans_out a) in
            case from_slice e bin_result of
              Inr sys_result \<Rightarrow> sys_result
            | Inl err \<Rightarrow> Inl (InvalidResponse (''Parsing Go response: '' @ err) bin_result))),
       with_externally_used (ans_usedGas a))))"

text \<open>\<open>into_backend\<close>: the storage with its iterators, the address functions and the querier.\<close>

fun backend ::
  "rust_env \<Rightarrow> IteratorReference list \<Rightarrow> backend_request \<Rightarrow> (backend_response \<Rightarrow> IteratorReference list \<Rightarrow> 'r rust) \<Rightarrow> 'r rust"
where
  "backend e its (Storage_get key) k = GoStorage_get key (\<lambda>r. k r its)"
| "backend e its (Storage_scan start stop order) k = GoStorage_scan e its start stop order k"
| "backend e its (Storage_next i) k = GoStorage_next its i (\<lambda>r. k r its)"
| "backend e its (Storage_next_key i) k = GoStorage_next_key its i (\<lambda>r. k r its)"
| "backend e its (Storage_next_value i) k = GoStorage_next_value its i (\<lambda>r. k r its)"
| "backend e its (Storage_set key val) k = GoStorage_set key val (\<lambda>r. k r its)"
| "backend e its (Storage_remove key) k = GoStorage_remove key (\<lambda>r. k r its)"
| "backend e its (Api_addr_canonicalize human) k = GoApi_addr_canonicalize human (\<lambda>r. k r its)"
| "backend e its (Api_addr_humanize canonical) k = GoApi_addr_humanize e canonical (\<lambda>r. k r its)"
| "backend e its (Api_addr_validate input) k = GoApi_addr_validate input (\<lambda>r. k r its)"
| "backend e its (Querier_query_raw request gas_limit) k = GoQuerier_query_raw e request gas_limit (\<lambda>r. k r its)"

primrec drive :: "rust_env \<Rightarrow> 'r wasm_run \<Rightarrow> IteratorReference list \<Rightarrow> 'r rust" where
  "drive e (Return r) its = Finish r"
| "drive e (Ask q k) its = backend e its q (\<lambda>resp its'. drive e (k resp) its')"

section \<open>Errors\<close>

datatype RustError =
    EmptyArg string
  | RustInvalidUtf8 string
  | MessagePack string
  | RustJson string
  | RustOutOfGas
  | RustPanic
  | UnsetArg string
  | ChecksumError
  | VmErr string

fun RustError_text :: "RustError \<Rightarrow> string" where
  "RustError_text (EmptyArg name) = ''Empty argument: '' @ name"
| "RustError_text (RustInvalidUtf8 msg) = ''Cannot decode UTF8 bytes into string: '' @ msg"
| "RustError_text (MessagePack msg) = ''Cannot deserialize from MessagePack: '' @ msg"
| "RustError_text (RustJson msg) = ''Cannot serialize to / deserialize from JSON: '' @ msg"
| "RustError_text RustOutOfGas = ''Ran out of gas''"
| "RustError_text RustPanic = ''Caught panic''"
| "RustError_text (UnsetArg name) = ''Null/Nil argument: '' @ name"
| "RustError_text ChecksumError = ''Checksum not of length 32''"
| "RustError_text (VmErr msg) = ''Error calling the VM: '' @ msg"

text \<open>An error of the VM: gas depletion, or another one with its text.\<close>

datatype vm_error = GasDepletion | OtherVmError string

fun from_VmError :: "vm_error \<Rightarrow> RustError" where
  "from_VmError GasDepletion = RustOutOfGas"
| "from_VmError (OtherVmError msg) = VmErr msg"

definition set_error :: "RustError \<Rightarrow> nat \<times> bytes" where
  "set_error err = (if err = RustOutOfGas then 2 else 1, RustError_text err)"

text \<open>\<open>handle_c_error_binary\<close> and \<open>handle_c_error_default\<close> differ in the value for an error only.\<close>

definition handle_c_error :: "'a \<Rightarrow> RustError + 'a \<Rightarrow> 'a c_status" where
  "handle_c_error default_value r = (case r of
     Inr x \<Rightarrow> (0, None, x)
   | Inl err \<Rightarrow> (fst (set_error err), Some (snd (set_error err)), default_value))"

datatype 'a unwind = Returned 'a | Unwound

definition catch_unwind :: "(RustError + 'a) unwind \<Rightarrow> RustError + 'a" where
  "catch_unwind r = (case r of Returned x \<Rightarrow> x | Unwound \<Rightarrow> Inl RustPanic)"

section \<open>The VM\<close>

record cw_report =
  cw_has_ibc_entry_points :: bool
  cw_required_capabilities :: "string list"
  cw_entrypoints :: "string list"
  cw_contract_migrate_version :: "u64 option"

type_synonym vm_run = "((vm_error + bytes) \<times> GasReport) unwind wasm_run"

text \<open>
  The sets of a report are listed in their order. A run gets the checksum and the gas limit of its instance
  and the arguments of the entry point.
\<close>

record 'v cosmwasm_vm =
  cw_env :: rust_env
  cw_save_wasm :: "bytes \<Rightarrow> 'v \<Rightarrow> (vm_error + bytes) unwind \<times> 'v"
  cw_save_wasm_unchecked :: "bytes \<Rightarrow> 'v \<Rightarrow> (vm_error + bytes) unwind \<times> 'v"
  cw_remove_wasm :: "bytes \<Rightarrow> 'v \<Rightarrow> (vm_error + unit) unwind \<times> 'v"
  cw_load_wasm :: "bytes \<Rightarrow> 'v \<Rightarrow> (vm_error + bytes) unwind"
  cw_pin :: "bytes \<Rightarrow> 'v \<Rightarrow> (vm_error + unit) unwind \<times> 'v"
  cw_unpin :: "bytes \<Rightarrow> 'v \<Rightarrow> (vm_error + unit) unwind \<times> 'v"
  cw_analyze :: "bytes \<Rightarrow> 'v \<Rightarrow> (vm_error + cw_report) unwind"
  cw_metrics :: "'v \<Rightarrow> Metrics"
  cw_pinned_metrics :: "'v \<Rightarrow> (string + bytes)"
  cw_get_instance :: "bytes \<Rightarrow> u64 \<Rightarrow> (vm_error + unit) unwind"
  cw_call_instantiate_raw :: "bytes \<Rightarrow> u64 \<Rightarrow> bytes \<Rightarrow> bytes \<Rightarrow> bytes \<Rightarrow> vm_run"
  cw_call_execute_raw :: "bytes \<Rightarrow> u64 \<Rightarrow> bytes \<Rightarrow> bytes \<Rightarrow> bytes \<Rightarrow> vm_run"
  cw_call_migrate_with_info_raw :: "bytes \<Rightarrow> u64 \<Rightarrow> bytes \<Rightarrow> bytes \<Rightarrow> bytes \<Rightarrow> vm_run"
  cw_call_migrate_raw :: "bytes \<Rightarrow> u64 \<Rightarrow> bytes \<Rightarrow> bytes \<Rightarrow> vm_run"
  cw_call_sudo_raw :: "bytes \<Rightarrow> u64 \<Rightarrow> bytes \<Rightarrow> bytes \<Rightarrow> vm_run"
  cw_call_reply_raw :: "bytes \<Rightarrow> u64 \<Rightarrow> bytes \<Rightarrow> bytes \<Rightarrow> vm_run"
  cw_call_query_raw :: "bytes \<Rightarrow> u64 \<Rightarrow> bytes \<Rightarrow> bytes \<Rightarrow> vm_run"
  cw_call_ibc_channel_open_raw :: "bytes \<Rightarrow> u64 \<Rightarrow> bytes \<Rightarrow> bytes \<Rightarrow> vm_run"
  cw_call_ibc_channel_connect_raw :: "bytes \<Rightarrow> u64 \<Rightarrow> bytes \<Rightarrow> bytes \<Rightarrow> vm_run"
  cw_call_ibc_channel_close_raw :: "bytes \<Rightarrow> u64 \<Rightarrow> bytes \<Rightarrow> bytes \<Rightarrow> vm_run"
  cw_call_ibc_packet_receive_raw :: "bytes \<Rightarrow> u64 \<Rightarrow> bytes \<Rightarrow> bytes \<Rightarrow> vm_run"
  cw_call_ibc_packet_ack_raw :: "bytes \<Rightarrow> u64 \<Rightarrow> bytes \<Rightarrow> bytes \<Rightarrow> vm_run"
  cw_call_ibc_packet_timeout_raw :: "bytes \<Rightarrow> u64 \<Rightarrow> bytes \<Rightarrow> bytes \<Rightarrow> vm_run"
  cw_call_ibc_source_callback_raw :: "bytes \<Rightarrow> u64 \<Rightarrow> bytes \<Rightarrow> bytes \<Rightarrow> vm_run"
  cw_call_ibc_destination_callback_raw :: "bytes \<Rightarrow> u64 \<Rightarrow> bytes \<Rightarrow> bytes \<Rightarrow> vm_run"

section \<open>The code cache\<close>

definition vmResult :: "(vm_error + 'a) unwind \<Rightarrow> (RustError + 'a) unwind" where
  "vmResult r = (case r of
     Returned (Inl err) \<Rightarrow> Returned (Inl (from_VmError err))
   | Returned (Inr x) \<Rightarrow> Returned (Inr x)
   | Unwound \<Rightarrow> Unwound)"

text \<open>\<open>checksum.read().ok_or_else(..)?.try_into()?\<close>\<close>

definition readChecksum :: "bytes option \<Rightarrow> RustError + bytes" where
  "readChecksum checksum = (case checksum of
     None \<Rightarrow> Inl (UnsetArg ''checksum'')
   | Some c \<Rightarrow> if length c = 32 then Inr c else Inl ChecksumError)"

definition readArg :: "string \<Rightarrow> bytes option \<Rightarrow> RustError + bytes" where
  "readArg name arg = (case arg of None \<Rightarrow> Inl (UnsetArg name) | Some x \<Rightarrow> Inr x)"

definition do_save_wasm :: "'v cosmwasm_vm \<Rightarrow> bytes option \<Rightarrow> bool \<Rightarrow> 'v \<Rightarrow> (RustError + bytes) unwind \<times> 'v" where
  "do_save_wasm cw wasm unchecked v = (case readArg ''wasm'' wasm of
     Inl err \<Rightarrow> (Returned (Inl err), v)
   | Inr w \<Rightarrow> apfst vmResult (if unchecked then cw_save_wasm_unchecked cw w v else cw_save_wasm cw w v))"

definition save_wasm :: "'v cosmwasm_vm \<Rightarrow> bytes option \<Rightarrow> bool \<Rightarrow> 'v \<Rightarrow> bytes option c_status \<times> 'v" where
  "save_wasm cw wasm unchecked v =
     apfst (\<lambda>r. handle_c_error (Some []) (map_sum id Some (catch_unwind r))) (do_save_wasm cw wasm unchecked v)"

definition withChecksum ::
  "bytes option \<Rightarrow> (bytes \<Rightarrow> 'v \<Rightarrow> (vm_error + 'a) unwind \<times> 'v) \<Rightarrow> 'v \<Rightarrow> (RustError + 'a) unwind \<times> 'v"
where
  "withChecksum checksum f v = (case readChecksum checksum of
     Inl err \<Rightarrow> (Returned (Inl err), v)
   | Inr c \<Rightarrow> apfst vmResult (f c v))"

definition remove_wasm :: "'v cosmwasm_vm \<Rightarrow> bytes option \<Rightarrow> 'v \<Rightarrow> unit c_status \<times> 'v" where
  "remove_wasm cw checksum v = apfst (handle_c_error () \<circ> catch_unwind) (withChecksum checksum (cw_remove_wasm cw) v)"

definition load_wasm :: "'v cosmwasm_vm \<Rightarrow> bytes option \<Rightarrow> 'v \<Rightarrow> bytes option c_status" where
  "load_wasm cw checksum v = handle_c_error (Some []) (map_sum id Some (catch_unwind
     (fst (withChecksum checksum (\<lambda>c v. (cw_load_wasm cw c v, v)) v))))"

definition pin :: "'v cosmwasm_vm \<Rightarrow> bytes option \<Rightarrow> 'v \<Rightarrow> unit c_status \<times> 'v" where
  "pin cw checksum v = apfst (handle_c_error () \<circ> catch_unwind) (withChecksum checksum (cw_pin cw) v)"

definition unpin :: "'v cosmwasm_vm \<Rightarrow> bytes option \<Rightarrow> 'v \<Rightarrow> unit c_status \<times> 'v" where
  "unpin cw checksum v = apfst (handle_c_error () \<circ> catch_unwind) (withChecksum checksum (cw_unpin cw) v)"

definition set_to_csv :: "string list \<Rightarrow> string" where
  "set_to_csv xs = join '','' xs"

definition from_AnalysisReport :: "cw_report \<Rightarrow> c_report" where
  "from_AnalysisReport r = \<lparr>c_has_ibc_entry_points = cw_has_ibc_entry_points r,
     c_required_capabilities = set_to_csv (cw_required_capabilities r), c_entrypoints = set_to_csv (cw_entrypoints r),
     c_contract_migrate_version = cw_contract_migrate_version r\<rparr>"

definition default_report :: c_report where
  "default_report = \<lparr>c_has_ibc_entry_points = False, c_required_capabilities = [], c_entrypoints = [],
     c_contract_migrate_version = None\<rparr>"

definition analyze_code :: "'v cosmwasm_vm \<Rightarrow> bytes option \<Rightarrow> 'v \<Rightarrow> c_report c_status" where
  "analyze_code cw checksum v = handle_c_error default_report (map_sum id from_AnalysisReport (catch_unwind
     (fst (withChecksum checksum (\<lambda>c v. (cw_analyze cw c v, v)) v))))"

definition get_metrics :: "'v cosmwasm_vm \<Rightarrow> 'v \<Rightarrow> Metrics c_status" where
  "get_metrics cw v = (0, None, cw_metrics cw v)"

definition get_pinned_metrics :: "'v cosmwasm_vm \<Rightarrow> 'v \<Rightarrow> bytes option c_status" where
  "get_pinned_metrics cw v = handle_c_error None (case cw_pinned_metrics cw v of
     Inl err \<Rightarrow> Inl (MessagePack err) | Inr b \<Rightarrow> Inr (Some b))"

section \<open>Calls\<close>

text \<open>The report starts with zeros and is written once the VM has run.\<close>

definition zero_report :: GasReport where
  "zero_report = \<lparr>gr_Limit = 0, gr_Remaining = 0, gr_UsedExternally = 0, gr_UsedInternally = 0\<rparr>"

definition runInstance ::
  "'v cosmwasm_vm \<Rightarrow> bytes \<Rightarrow> u64 \<Rightarrow> vm_run \<Rightarrow> ((RustError + bytes) unwind \<times> GasReport) rust"
where
  "runInstance cw c gas_limit run = (case cw_get_instance cw c gas_limit of
     Unwound \<Rightarrow> Finish (Unwound, zero_report)
   | Returned (Inl err) \<Rightarrow> Finish (Returned (Inl (from_VmError err)), zero_report)
   | Returned (Inr _) \<Rightarrow> map_rust (\<lambda>r. case r of
       Unwound \<Rightarrow> (Unwound, zero_report)
     | Returned (res, gas_report) \<Rightarrow> (vmResult (Returned res), gas_report)) (drive (cw_env cw) run []))"

definition do_call_2_args ::
  "'v cosmwasm_vm \<Rightarrow> (bytes \<Rightarrow> u64 \<Rightarrow> bytes \<Rightarrow> bytes \<Rightarrow> vm_run) \<Rightarrow> bytes option \<Rightarrow> bytes option \<Rightarrow> bytes option \<Rightarrow> u64 \<Rightarrow>
   ((RustError + bytes) unwind \<times> GasReport) rust"
where
  "do_call_2_args cw vm_fn checksum arg1 arg2 gas_limit =
     (case readChecksum checksum of Inl err \<Rightarrow> Finish (Returned (Inl err), zero_report) | Inr c \<Rightarrow>
      case readArg ''arg1'' arg1 of Inl err \<Rightarrow> Finish (Returned (Inl err), zero_report) | Inr a1 \<Rightarrow>
      case readArg ''arg2'' arg2 of Inl err \<Rightarrow> Finish (Returned (Inl err), zero_report) | Inr a2 \<Rightarrow>
      runInstance cw c gas_limit (vm_fn c gas_limit a1 a2))"

definition do_call_3_args ::
  "'v cosmwasm_vm \<Rightarrow> (bytes \<Rightarrow> u64 \<Rightarrow> bytes \<Rightarrow> bytes \<Rightarrow> bytes \<Rightarrow> vm_run) \<Rightarrow> bytes option \<Rightarrow> bytes option \<Rightarrow> bytes option \<Rightarrow>
   bytes option \<Rightarrow> u64 \<Rightarrow> ((RustError + bytes) unwind \<times> GasReport) rust"
where
  "do_call_3_args cw vm_fn checksum arg1 arg2 arg3 gas_limit =
     (case readChecksum checksum of Inl err \<Rightarrow> Finish (Returned (Inl err), zero_report) | Inr c \<Rightarrow>
      case readArg ''arg1'' arg1 of Inl err \<Rightarrow> Finish (Returned (Inl err), zero_report) | Inr a1 \<Rightarrow>
      case readArg ''arg2'' arg2 of Inl err \<Rightarrow> Finish (Returned (Inl err), zero_report) | Inr a2 \<Rightarrow>
      case readArg ''arg3'' arg3 of Inl err \<Rightarrow> Finish (Returned (Inl err), zero_report) | Inr a3 \<Rightarrow>
      runInstance cw c gas_limit (vm_fn c gas_limit a1 a2 a3))"

definition callReturn :: "(RustError + bytes) unwind \<times> GasReport \<Rightarrow> c_result" where
  "callReturn r = (case r of (res, gas_report) \<Rightarrow>
     case handle_c_error [] (catch_unwind res) of (errno, errmsg, data) \<Rightarrow>
       \<lparr>c_errno = errno, c_out = Some data, c_gasReport = gas_report, c_errmsg = errmsg\<rparr>)"

definition call_2_args ::
  "'v cosmwasm_vm \<Rightarrow> (bytes \<Rightarrow> u64 \<Rightarrow> bytes \<Rightarrow> bytes \<Rightarrow> vm_run) \<Rightarrow> bytes option \<Rightarrow> bytes option \<Rightarrow> bytes option \<Rightarrow> c_call"
where
  "call_2_args cw vm_fn checksum arg1 arg2 gas_limit print_debug =
     map_rust callReturn (do_call_2_args cw vm_fn checksum arg1 arg2 gas_limit)"

definition call_3_args ::
  "'v cosmwasm_vm \<Rightarrow> (bytes \<Rightarrow> u64 \<Rightarrow> bytes \<Rightarrow> bytes \<Rightarrow> bytes \<Rightarrow> vm_run) \<Rightarrow> bytes option \<Rightarrow> bytes option \<Rightarrow> bytes option \<Rightarrow>
   bytes option \<Rightarrow> c_call"
where
  "call_3_args cw vm_fn checksum arg1 arg2 arg3 gas_limit print_debug =
     map_rust callReturn (do_call_3_args cw vm_fn checksum arg1 arg2 arg3 gas_limit)"

text \<open>The entry points of \<open>calls.rs\<close>, by the names they are exported with.\<close>

definition extern_instantiate :: "'v cosmwasm_vm \<Rightarrow> bytes option \<Rightarrow> bytes option \<Rightarrow> bytes option \<Rightarrow> bytes option \<Rightarrow> c_call" where
  "extern_instantiate cw checksum env info msg = call_3_args cw (cw_call_instantiate_raw cw) checksum env info msg"

definition extern_execute :: "'v cosmwasm_vm \<Rightarrow> bytes option \<Rightarrow> bytes option \<Rightarrow> bytes option \<Rightarrow> bytes option \<Rightarrow> c_call" where
  "extern_execute cw checksum env info msg = call_3_args cw (cw_call_execute_raw cw) checksum env info msg"

definition extern_migrate :: "'v cosmwasm_vm \<Rightarrow> bytes option \<Rightarrow> bytes option \<Rightarrow> bytes option \<Rightarrow> c_call" where
  "extern_migrate cw checksum env msg = call_2_args cw (cw_call_migrate_raw cw) checksum env msg"

definition extern_migrate_with_info :: "'v cosmwasm_vm \<Rightarrow> bytes option \<Rightarrow> bytes option \<Rightarrow> bytes option \<Rightarrow> bytes option \<Rightarrow> c_call" where
  "extern_migrate_with_info cw checksum env msg migrate_info = call_3_args cw (cw_call_migrate_with_info_raw cw) checksum env msg migrate_info"

definition extern_sudo :: "'v cosmwasm_vm \<Rightarrow> bytes option \<Rightarrow> bytes option \<Rightarrow> bytes option \<Rightarrow> c_call" where
  "extern_sudo cw checksum env msg = call_2_args cw (cw_call_sudo_raw cw) checksum env msg"

definition extern_reply :: "'v cosmwasm_vm \<Rightarrow> bytes option \<Rightarrow> bytes option \<Rightarrow> bytes option \<Rightarrow> c_call" where
  "extern_reply cw checksum env msg = call_2_args cw (cw_call_reply_raw cw) checksum env msg"

definition extern_query :: "'v cosmwasm_vm \<Rightarrow> bytes option \<Rightarrow> bytes option \<Rightarrow> bytes option \<Rightarrow> c_call" where
  "extern_query cw checksum env msg = call_2_args cw (cw_call_query_raw cw) checksum env msg"

definition extern_ibc_channel_open :: "'v cosmwasm_vm \<Rightarrow> bytes option \<Rightarrow> bytes option \<Rightarrow> bytes option \<Rightarrow> c_call" where
  "extern_ibc_channel_open cw checksum env msg = call_2_args cw (cw_call_ibc_channel_open_raw cw) checksum env msg"

definition extern_ibc_channel_connect :: "'v cosmwasm_vm \<Rightarrow> bytes option \<Rightarrow> bytes option \<Rightarrow> bytes option \<Rightarrow> c_call" where
  "extern_ibc_channel_connect cw checksum env msg = call_2_args cw (cw_call_ibc_channel_connect_raw cw) checksum env msg"

definition extern_ibc_channel_close :: "'v cosmwasm_vm \<Rightarrow> bytes option \<Rightarrow> bytes option \<Rightarrow> bytes option \<Rightarrow> c_call" where
  "extern_ibc_channel_close cw checksum env msg = call_2_args cw (cw_call_ibc_channel_close_raw cw) checksum env msg"

definition extern_ibc_packet_receive :: "'v cosmwasm_vm \<Rightarrow> bytes option \<Rightarrow> bytes option \<Rightarrow> bytes option \<Rightarrow> c_call" where
  "extern_ibc_packet_receive cw checksum env msg = call_2_args cw (cw_call_ibc_packet_receive_raw cw) checksum env msg"

definition extern_ibc_packet_ack :: "'v cosmwasm_vm \<Rightarrow> bytes option \<Rightarrow> bytes option \<Rightarrow> bytes option \<Rightarrow> c_call" where
  "extern_ibc_packet_ack cw checksum env msg = call_2_args cw (cw_call_ibc_packet_ack_raw cw) checksum env msg"

definition extern_ibc_packet_timeout :: "'v cosmwasm_vm \<Rightarrow> bytes option \<Rightarrow> bytes option \<Rightarrow> bytes option \<Rightarrow> c_call" where
  "extern_ibc_packet_timeout cw checksum env msg = call_2_args cw (cw_call_ibc_packet_timeout_raw cw) checksum env msg"

definition extern_ibc_source_callback :: "'v cosmwasm_vm \<Rightarrow> bytes option \<Rightarrow> bytes option \<Rightarrow> bytes option \<Rightarrow> c_call" where
  "extern_ibc_source_callback cw checksum env msg = call_2_args cw (cw_call_ibc_source_callback_raw cw) checksum env msg"

definition extern_ibc_destination_callback :: "'v cosmwasm_vm \<Rightarrow> bytes option \<Rightarrow> bytes option \<Rightarrow> bytes option \<Rightarrow> c_call" where
  "extern_ibc_destination_callback cw checksum env msg = call_2_args cw (cw_call_ibc_destination_callback_raw cw) checksum env msg"

text \<open>The symbols the Go side links against.\<close>

definition libwasmvm :: "(nat \<Rightarrow> string) \<Rightarrow> 'v cosmwasm_vm \<Rightarrow> 'v c_library" where
  "libwasmvm strerror cw = \<lparr>
     c_save_wasm = save_wasm cw, c_remove_wasm = remove_wasm cw, c_load_wasm = load_wasm cw,
     c_pin = pin cw, c_unpin = unpin cw, c_analyze_code = analyze_code cw,
     c_get_metrics = get_metrics cw, c_get_pinned_metrics = get_pinned_metrics cw,
     c_instantiate = extern_instantiate cw,
     c_execute = extern_execute cw,
     c_migrate = extern_migrate cw,
     c_migrate_with_info = extern_migrate_with_info cw,
     c_sudo = extern_sudo cw,
     c_reply = extern_reply cw,
     c_query = extern_query cw,
     c_ibc_channel_open = extern_ibc_channel_open cw,
     c_ibc_channel_connect = extern_ibc_channel_connect cw,
     c_ibc_channel_close = extern_ibc_channel_close cw,
     c_ibc_packet_receive = extern_ibc_packet_receive cw,
     c_ibc_packet_ack = extern_ibc_packet_ack cw,
     c_ibc_packet_timeout = extern_ibc_packet_timeout cw,
     c_ibc_source_callback = extern_ibc_source_callback cw,
     c_ibc_destination_callback = extern_ibc_destination_callback cw,
     errno_text = strerror\<rparr>"

end
