(* ===== verification/Vm_Calls.thy ===== *)
theory Vm_Calls
  imports Vm_Library
begin

text \<open>
  What the bindings guarantee around a contract call. Frames: whatever the library does during a call, the
  iterators of other calls stay as they are, those of the call stay reachable under the number they got, and
  when the call ends nothing of it is left. Results: a call that succeeds stays within its gas limit and its
  payloads are bounded.

  A callback may answer a query by starting further calls. That the querier leaves the frames alone is an
  assumption on it; the same statement is what is proved of a call, so it holds at any depth of nesting.
\<close>

section \<open>Relations between the states before and after\<close>

definition stays :: "('t \<Rightarrow> 't \<Rightarrow> bool) \<Rightarrow> ('t, 'a) prog \<Rightarrow> bool" where
  "stays R m \<longleftrightarrow> (\<forall>s. R s (snd (m s)))"

named_theorems stays_rules \<open>programs whose runs stay within a relation\<close>

locale transitions =
  fixes R :: "'t \<Rightarrow> 't \<Rightarrow> bool"
  assumes R_refl: "R s s"
    and R_trans: "R s t \<Longrightarrow> R t u \<Longrightarrow> R s u"
begin

lemma stays_bindM [stays_rules]:
  assumes "stays R m" and "\<And>x. stays R (f x)"
  shows "stays R (bindM m f)"
  unfolding stays_def
proof
  fix s
  show "R s (snd (bindM m f s))"
    using assms R_trans unfolding stays_def
    by (auto simp: bindM_def split: prod.splits outcome.splits) (metis snd_conv)+
qed

lemma stays_basic [stays_rules]:
  "stays R (returnM x)" "stays R (failM e)" "stays R (panicM p)" "stays R getM" "stays R (liftO r)"
  by (simp_all add: stays_def basic_apply liftO_def R_refl)

lemma stays_tryM [stays_rules]: "stays R m \<Longrightarrow> stays R (tryM m)"
  unfolding stays_def tryM_def by (metis (mono_tags, lifting) case_prod_beta outcome.exhaust outcome.simps(10-12) snd_conv)

lemma stays_eachM [stays_rules]: "(\<And>x. stays R (f x)) \<Longrightarrow> stays R (eachM f xs)"
  by (induction xs) (simp_all add: stays_basic stays_bindM)

lemma stays_cases [stays_rules]:
  "(b \<Longrightarrow> stays R m) \<Longrightarrow> (\<not> b \<Longrightarrow> stays R m') \<Longrightarrow> stays R (if b then m else m')"
  "stays R n \<Longrightarrow> (\<And>x. stays R (f x)) \<Longrightarrow> stays R (case v of None \<Rightarrow> n | Some x \<Rightarrow> f x)"
  "(\<And>x. stays R (g x)) \<Longrightarrow> (\<And>y. stays R (h y)) \<Longrightarrow> stays R (case r of Inl x \<Rightarrow> g x | Inr y \<Rightarrow> h y)"
  "(\<And>x y. stays R (l x y)) \<Longrightarrow> stays R (case q of (x, y) \<Rightarrow> l x y)"
  "(\<And>x y z. stays R (k x y z)) \<Longrightarrow> stays R ((case q of (x, y) \<Rightarrow> k x y) z)"
  by (auto split: option.split sum.split prod.split)

lemma stays_checkPtrs [stays_rules]: "stays R m \<Longrightarrow> stays R (checkPtrs p m)"
  by (simp add: checkPtrs_def stays_basic)

lemma stays_recoverPanic: "stays R m \<Longrightarrow> R s (snd (recoverPanic m s))"
  unfolding stays_def recoverPanic_def
  by (cases "m s"; cases "fst (m s)") (auto split: go_panic.split elim!: allE [of _ s])

end

section \<open>Frames\<close>

text \<open>Every frame belongs to a call that has been started, is not empty and within the limit.\<close>

definition live :: "u64 \<Rightarrow> ('s, 'i) api_state \<Rightarrow> bool" where
  "live c s \<longleftrightarrow> (\<exists>n. 0 < n \<and> n \<le> startedCalls s \<and> c = word_of_nat n)"

definition frames_ok :: "('s, 'i) api_state \<Rightarrow> bool" where
  "frames_ok s \<longleftrightarrow> (\<forall>c f. iteratorFrames s c = Some f \<longrightarrow> live c s \<and> f \<noteq> [] \<and> length f \<le> frameLenLimit)"

text \<open>
  A program between the states leaves the frames alone, respectively touches only the frame of call \<open>c\<close> and
  only adds to it. The counter of calls must not have gone around.
\<close>

definition undisturbed :: "('s, 'i) api_state \<Rightarrow> ('s, 'i) api_state \<Rightarrow> bool" where
  "undisturbed s s' \<longleftrightarrow> startedCalls s \<le> startedCalls s' \<and>
     (frames_ok s \<longrightarrow> startedCalls s' < 2 ^ 64 \<longrightarrow> iteratorFrames s' = iteratorFrames s)"

definition confined :: "u64 \<Rightarrow> ('s, 'i) api_state \<Rightarrow> ('s, 'i) api_state \<Rightarrow> bool" where
  "confined c s s' \<longleftrightarrow> startedCalls s \<le> startedCalls s' \<and>
     (live c s \<longrightarrow> frames_ok s \<longrightarrow> startedCalls s' < 2 ^ 64 \<longrightarrow>
        frames_ok s' \<and> (\<forall>d. d \<noteq> c \<longrightarrow> iteratorFrames s' d = iteratorFrames s d) \<and>
        prefix (frame_of s c) (frame_of s' c))"

lemma live_mono: "live c s \<Longrightarrow> startedCalls s \<le> startedCalls s' \<Longrightarrow> live c s'"
  unfolding live_def using le_trans by blast

lemma frames_ok_same:
  assumes "frames_ok s" and "iteratorFrames s' = iteratorFrames s" and "startedCalls s \<le> startedCalls s'"
  shows "frames_ok s'"
  using assms live_mono unfolding frames_ok_def by metis

lemma undisturbed_confined: "undisturbed s s' \<Longrightarrow> confined c s s'"
  using frames_ok_same [of s s'] by (auto simp: undisturbed_def confined_def frame_of_def)

lemma stays_mono: "(\<And>s t. R s t \<Longrightarrow> R' s t) \<Longrightarrow> stays R m \<Longrightarrow> stays R' m"
  by (simp add: stays_def)

interpretation undisturbed: transitions undisturbed
proof
  fix s t u :: "('a, 'b) api_state"
  show "undisturbed s s" by (simp add: undisturbed_def)
  show "undisturbed s u" if "undisturbed s t" "undisturbed t u"
    using that frames_ok_same [of s t] by (auto simp: undisturbed_def)
qed

interpretation confined: transitions "confined c" for c
proof
  fix s t u :: "('a, 'b) api_state"
  show "confined c s s" by (simp add: confined_def)
  show "confined c s u" if "confined c s t" "confined c t u"
    using that live_mono [of c s t] by (auto simp: confined_def intro: prefix_order.trans)
qed

lemma undisturbed_onHost [stays_rules]: "stays undisturbed (onHost m)"
  by (auto simp: stays_def onHost_def undisturbed_def split: prod.split)

lemma confined_onHost [stays_rules]: "stays (confined c) (onHost m)"
  by (rule stays_mono [OF _ undisturbed_onHost]) (rule undisturbed_confined)

lemma frame_of_update [simp]:
  "frame_of (s\<lparr>iteratorFrames := (iteratorFrames s)(c \<mapsto> f)\<rparr>) d = (if d = c then f else frame_of s d)"
  by (simp add: frame_of_def)

lemma stored_confined:
  assumes "length (frame_of s c) < frameLenLimit"
  shows "confined c s (s\<lparr>iteratorFrames := (iteratorFrames s)(c \<mapsto> frame_of s c @ [it])\<rparr>)"
  using assms by (auto simp: confined_def frames_ok_def live_def)

lemma confined_buildIterator [stays_rules]: "stays (confined c) (buildIterator c it)"
proof -
  have "confined c s (snd (storeIterator c it frameLenLimit s))" for s :: "('a, 'b) api_state"
    using stored_confined [of s c it]
    by (auto simp: storeIterator_def bindM_apply basic_apply Let_def confined.R_refl split: option.split)
  then show ?thesis unfolding buildIterator_def
    by (intro stays_rules) (simp add: stays_def)
qed

section \<open>Callbacks\<close>

definition tidy_querier :: "('s, 'i) Querier \<Rightarrow> bool" where
  "tidy_querier q \<longleftrightarrow> (\<forall>request gasLimit. stays undisturbed (qr_Query q request gasLimit))"

lemma confined_query [stays_rules]:
  "tidy_querier q \<Longrightarrow> stays (confined c) (qr_Query q request gasLimit)"
  using stays_mono [of undisturbed "confined c" "qr_Query q request gasLimit"]
  by (simp add: tidy_querier_def undisturbed_confined)

lemma confined_withIterator:
  "(\<And>iter. stays (confined c) (f iter)) \<Longrightarrow> confined c s (snd (withIterator h p ref f s))"
  unfolding withIterator_def by (rule confined.stays_recoverPanic) (intro stays_rules)

lemma confined_vtable:
  assumes "tidy_querier (ho_querier h)"
  shows "confined c s (snd (vtable h c p req s))"
  by (cases req; simp only: vtable.simps cGet_def cSet_def cDelete_def cScan_def cNext_def cNextKey_def cNextValue_def
      nextPart_def cHumanizeAddress_def cCanonicalizeAddress_def cValidateAddress_def addressAnswer_def
      cQueryExternal_def RustQuery_def meteredCall_def)
     (intro confined.stays_recoverPanic confined_withIterator stays_rules assms)+

lemma confined_serve:
  assumes "tidy_querier (ho_querier h)"
  shows "confined c s (snd (serve h c f s))"
proof (induction f arbitrary: s)
  case (Callback p req k)
  then show ?case using confined_vtable [OF assms] confined.R_trans by (fastforce simp del: vtable.simps)
qed (simp add: confined.R_refl)

section \<open>The end of a call\<close>

lemma endCall_state:
  "startedCalls (snd (endCall it c s)) = startedCalls s \<and>
   iteratorFrames (snd (endCall it c s)) = (iteratorFrames s)(c := None)"
proof -
  have closed: "iteratorFrames (snd (eachM (\<lambda>iter. bindM (tryM (onHost (itr_Close it iter))) (\<lambda>_. returnM ())) xs t)) = iteratorFrames t \<and>
      startedCalls (snd (eachM (\<lambda>iter. bindM (tryM (onHost (itr_Close it iter))) (\<lambda>_. returnM ())) xs t)) = startedCalls t"
    for xs t
    by (induction xs arbitrary: t)
       (auto simp: basic_apply bindM_def tryM_def onHost_def split: prod.splits outcome.splits)
  show ?thesis by (simp add: endCall_def removeFrame_def bindM_apply basic_apply closed)
qed

lemma fresh_call:
  assumes "frames_ok s" and "Suc (startedCalls s) < 2 ^ 64"
  shows "iteratorFrames s (word_of_nat (Suc (startedCalls s))) = None"
proof (rule ccontr)
  assume "iteratorFrames s (word_of_nat (Suc (startedCalls s))) \<noteq> None"
  then obtain n where n: "n \<le> startedCalls s" and eq: "word_of_nat (Suc (startedCalls s)) = (word_of_nat n :: u64)"
    using assms(1) by (auto simp: frames_ok_def live_def)
  have "unat (word_of_nat (Suc (startedCalls s)) :: u64) = Suc (startedCalls s)" and "unat (word_of_nat n :: u64) = n"
    using assms(2) n by (simp_all add: unsigned_of_nat take_bit_nat_eq_self del: of_nat_Suc)
  with eq n show False by (simp del: of_nat_Suc)
qed

lemma apiCall_cases:
  assumes "apiCall lib a f s = (r, s')"
  obtains (refused) "s' = s"
  | (run) h c t where "ho_querier h = the (arg_querier a)" and "arg_querier a \<noteq> None"
      and "c = word_of_nat (Suc (startedCalls s))"
      and "t = snd (serve h c f (s\<lparr>startedCalls := Suc (startedCalls s)\<rparr>))"
      and "s' = snd (endCall (arg_iterator a) c t)"
proof (cases "arg_querier a")
  case None
  then show ?thesis using assms
    by (intro refused)
       (auto simp: apiCall_def checkAndPinAPI_def checkAndPinQuerier_def bindM_def basic_apply split: option.splits if_splits)
next
  case (Some q)
  show ?thesis
  proof (cases "\<exists>api. checkAndPinAPI (arg_api a) s = (Ok api, s)")
    case False
    then show ?thesis using assms
      by (intro refused) (auto simp: apiCall_def checkAndPinAPI_def bindM_def basic_apply split: option.splits if_splits)
  next
    case True
    then obtain api where "checkAndPinAPI (arg_api a) s = (Ok api, s)" by blast
    with assms Some show ?thesis
      by (intro run [of "\<lparr>ho_store = arg_store a, ho_iterator = arg_iterator a, ho_GasConsumed = arg_GasConsumed a,
            ho_api = api, ho_querier = q\<rparr>"])
         (auto simp: apiCall_def checkAndPinQuerier_def startCall_def latestCallID_def bindM_def basic_apply
            split: prod.splits outcome.splits)
  qed
qed

lemma undisturbed_apiCall:
  assumes "\<And>q. arg_querier a = Some q \<Longrightarrow> tidy_querier q"
  shows "stays undisturbed (apiCall lib a f)"
  unfolding stays_def
proof
  fix s
  obtain r s' where call: "apiCall lib a f s = (r, s')" by (cases "apiCall lib a f s")
  have "undisturbed s s'" using call
  proof (cases rule: apiCall_cases)
    case refused
    then show ?thesis by (simp add: undisturbed.R_refl)
  next
    case (run h c t)
    let ?s = "s\<lparr>startedCalls := Suc (startedCalls s)\<rparr>"
    have "tidy_querier (ho_querier h)" using run(1,2) assms by auto
    then have conf: "confined c ?s t" unfolding run(4) by (rule confined_serve)
    have live: "live c ?s" unfolding live_def run(3) by auto
    have "iteratorFrames s' = iteratorFrames s" if ok: "frames_ok s" and bound: "startedCalls t < 2 ^ 64"
    proof -
      have "frames_ok ?s" by (rule frames_ok_same [OF ok]) simp_all
      with conf live bound have others: "iteratorFrames t d = iteratorFrames s d" if "d \<noteq> c" for d
        using that by (auto simp: confined_def)
      have "iteratorFrames s c = None"
        unfolding run(3) using conf bound by (intro fresh_call ok) (auto simp: confined_def)
      then show ?thesis using others run(5) endCall_state [of "arg_iterator a" c t] by (auto simp: fun_eq_iff)
    qed
    then show ?thesis using conf run(5) endCall_state [of "arg_iterator a" c t] by (auto simp: undisturbed_def confined_def)
  qed
  then show "undisturbed s (snd (apiCall lib a f s))" by (simp add: call)
qed

definition tidy_args :: "('s, 'i) call_args \<Rightarrow> bool" where
  "tidy_args a \<longleftrightarrow> (\<forall>q. arg_querier a = Some q \<longrightarrow> tidy_querier q)"

lemmas entry_point_defs = VM_Instantiate_def api_Instantiate_def VM_Execute_def api_Execute_def VM_Query_def api_Query_def VM_Migrate_def api_Migrate_def VM_MigrateWithInfo_def api_MigrateWithInfo_def VM_Sudo_def api_Sudo_def VM_Reply_def api_Reply_def VM_IBCChannelOpen_def api_IBCChannelOpen_def VM_IBCChannelConnect_def api_IBCChannelConnect_def VM_IBCChannelClose_def api_IBCChannelClose_def VM_IBCPacketReceive_def api_IBCPacketReceive_def VM_IBCPacketAck_def api_IBCPacketAck_def VM_IBCPacketTimeout_def api_IBCPacketTimeout_def VM_IBCSourceCallback_def api_IBCSourceCallback_def VM_IBCDestinationCallback_def api_IBCDestinationCallback_def

section \<open>Entry points\<close>

lemma undisturbed_entry:
  assumes "tidy_args a"
  shows "stays undisturbed (bindM (apiCall lib a f) (decodeResult gasLimit deserCost unmarshal subMessages))"
proof -
  have "stays undisturbed (apiCall lib a f)" using assms by (auto simp: tidy_args_def intro: undisturbed_apiCall)
  then show ?thesis unfolding decodeResult_def by (intro stays_rules)
qed

lemma undisturbed_marshalled: "(\<And>bin. stays undisturbed (f bin)) \<Longrightarrow> stays undisturbed (marshalled r f)"
  unfolding marshalled_def by (intro stays_rules)

text \<open>
  C12: A contract call cleans up after itself: for every entry point of the VM, whatever the library does during
  the call and however the call ends, the frames of iterators afterwards are those from before, so no
  iterator of a call can be reached once the call is over and the iterators of calls around it are intact.
  This holds if the querier the call is given does so too, as one does that answers with nested calls.
\<close>

theorem contract_calls_clean_up:
  assumes "tidy_args a"
  shows "stays undisturbed (VM_Instantiate vm cd a checksum env info msg gasLimit deserCost) \<and>
    stays undisturbed (VM_Execute vm cd a checksum env info msg gasLimit deserCost) \<and>
    stays undisturbed (VM_Query vm cd a checksum env msg gasLimit deserCost) \<and>
    stays undisturbed (VM_Migrate vm cd a checksum env msg gasLimit deserCost) \<and>
    stays undisturbed (VM_MigrateWithInfo vm cd a checksum env msg minfo gasLimit deserCost) \<and>
    stays undisturbed (VM_Sudo vm cd a checksum env msg gasLimit deserCost) \<and>
    stays undisturbed (VM_Reply vm cd a checksum env reply gasLimit deserCost) \<and>
    stays undisturbed (VM_IBCChannelOpen vm cd a checksum env openMsg gasLimit deserCost) \<and>
    stays undisturbed (VM_IBCChannelConnect vm cd a checksum env connectMsg gasLimit deserCost) \<and>
    stays undisturbed (VM_IBCChannelClose vm cd a checksum env closeMsg gasLimit deserCost) \<and>
    stays undisturbed (VM_IBCPacketReceive vm cd a checksum env receiveMsg gasLimit deserCost) \<and>
    stays undisturbed (VM_IBCPacketAck vm cd a checksum env ackMsg gasLimit deserCost) \<and>
    stays undisturbed (VM_IBCPacketTimeout vm cd a checksum env timeoutMsg gasLimit deserCost) \<and>
    stays undisturbed (VM_IBCSourceCallback vm cd a checksum env sourceMsg gasLimit deserCost) \<and>
    stays undisturbed (VM_IBCDestinationCallback vm cd a checksum env destinationMsg gasLimit deserCost)"
  unfolding entry_point_defs
  by (intro conjI undisturbed_marshalled undisturbed_entry assms)

definition bounded_call :: "u64 \<Rightarrow> ('r \<Rightarrow> SubMsg list) \<Rightarrow> ('t, (go_error + 'r) \<times> u64) prog \<Rightarrow> bool" where
  "bounded_call gasLimit subMessages m \<longleftrightarrow> (\<forall>s r gas s'. m s = (Ok (Inr r, gas), s') \<longrightarrow>
     gas \<le> gasLimit \<and> (\<forall>msg \<in> set (subMessages r). length (sub_Payload msg) \<le> 128 * 1024))"

lemma checkPayloads_Inr_iff:
  "checkPayloads i ms = Inr u \<longleftrightarrow> (\<forall>m \<in> set ms. length (sub_Payload m) \<le> ReplyPayloadMaxBytes)"
  by (induction i ms rule: checkPayloads.induct) auto

lemma bounded_entry: "bounded_call gasLimit subMessages (bindM m (decodeResult gasLimit deserCost unmarshal subMessages))"
  unfolding bounded_call_def
  by (auto simp: decodeResult_def DeserializeResponse_def prog_Ok_iffs bindO_Ok_iff bindE_Inr_iff Let_def add.commute not_less
      checkPayloads_Inr_iff ReplyPayloadMaxBytes_def elim!: bindM_Ok_E split: sum.splits if_splits)

lemma bounded_marshalled:
  "(\<And>bin. bounded_call gasLimit subMessages (f bin)) \<Longrightarrow> bounded_call gasLimit subMessages (marshalled r f)"
  by (auto simp: marshalled_def bounded_call_def basic_apply split: sum.split)

text \<open>
  C28: A contract call that returns a result reports at most the gas it was given as used, the gas for
  decoding the result included, and none of the submessages it returns carries a payload of more than 128 KiB.
\<close>

theorem contract_results_bounded:
  "bounded_call gasLimit SubMessages (VM_Instantiate vm cd a checksum env info msg gasLimit deserCost) \<and>
    bounded_call gasLimit SubMessages (VM_Execute vm cd a checksum env info msg gasLimit deserCost) \<and>
    bounded_call gasLimit (\<lambda>_. []) (VM_Query vm cd a checksum env msg gasLimit deserCost) \<and>
    bounded_call gasLimit SubMessages (VM_Migrate vm cd a checksum env msg gasLimit deserCost) \<and>
    bounded_call gasLimit SubMessages (VM_MigrateWithInfo vm cd a checksum env msg minfo gasLimit deserCost) \<and>
    bounded_call gasLimit SubMessages (VM_Sudo vm cd a checksum env msg gasLimit deserCost) \<and>
    bounded_call gasLimit SubMessages (VM_Reply vm cd a checksum env reply gasLimit deserCost) \<and>
    bounded_call gasLimit (\<lambda>_. []) (VM_IBCChannelOpen vm cd a checksum env openMsg gasLimit deserCost) \<and>
    bounded_call gasLimit IBCBasicResult_SubMessages (VM_IBCChannelConnect vm cd a checksum env connectMsg gasLimit deserCost) \<and>
    bounded_call gasLimit IBCBasicResult_SubMessages (VM_IBCChannelClose vm cd a checksum env closeMsg gasLimit deserCost) \<and>
    bounded_call gasLimit IBCReceiveResult_SubMessages (VM_IBCPacketReceive vm cd a checksum env receiveMsg gasLimit deserCost) \<and>
    bounded_call gasLimit IBCBasicResult_SubMessages (VM_IBCPacketAck vm cd a checksum env ackMsg gasLimit deserCost) \<and>
    bounded_call gasLimit IBCBasicResult_SubMessages (VM_IBCPacketTimeout vm cd a checksum env timeoutMsg gasLimit deserCost) \<and>
    bounded_call gasLimit IBCBasicResult_SubMessages (VM_IBCSourceCallback vm cd a checksum env sourceMsg gasLimit deserCost) \<and>
    bounded_call gasLimit IBCBasicResult_SubMessages (VM_IBCDestinationCallback vm cd a checksum env destinationMsg gasLimit deserCost)"
  unfolding entry_point_defs
  by (intro conjI bounded_marshalled bounded_entry)

text \<open>
  The check for the gas of decoding does not count the gas used outside of the contract: a call that has
  used its gas in queries passes it, and what the report says remains wraps around below zero.
\<close>

lemma remaining_gas_wraps:
  "\<exists>report'. DeserializeResponse 100 \<lparr>frac_Numerator = 1, frac_Denominator = 1\<rparr>
      \<lparr>gr_Limit = 100, gr_Remaining = 0, gr_UsedExternally = 90, gr_UsedInternally = 10\<rparr> ''{}'' (\<lambda>_. Inr ()) (\<lambda>_. []) =
      Ok (report', Inr ()) \<and> gr_Remaining report' = 18446744073709551614"
  by (simp add: DeserializeResponse_def UFraction_Floor_def UFraction_Mul_def Let_def)

section \<open>Iterators during a call\<close>

lemma retrieve_iff:
  "retrieveIterator s c i = Some it \<longleftrightarrow>
   0 < i \<and> i \<le> 2147483647 \<and> unat i - 1 < length (frame_of s c) \<and> frame_of s c ! (unat i - 1) = it"
  by (auto simp: retrieveIterator_def iteratorIdToIndex_def frame_of_def word_gt_0 not_less
      word_less_1 split: option.splits if_splits)


end
