(* ===== verification/Vm_Lookup.thy ===== *)
theory Vm_Lookup
  imports Vm_Calls
begin

text \<open>
  A contract's store as the bindings' own tests provide it (\<open>Lookup\<close> in \<open>wasmvm/internal/api/mocks.go\<close>): the
  in-memory database behind a gas meter. The contract of a store and its iterators that a client of the
  callbacks relies on is the locale \<open>contract_store\<close>; it is interpreted on \<open>Lookup\<close>. Inside it, what a contract
  sees through the callbacks: it reads what it wrote, and a scan lists the range it asked for.
\<close>

section \<open>Lookup\<close>

text \<open>An iterator is an object of its own: the state keeps the iterators that were opened, in order.\<close>

record lookup_host =
  lk_db :: "bytes items"
  lk_meter :: gas_meter
  lk_iters :: "bytes memDBIterator list"

definition GetPrice :: u64 where "GetPrice = 99000"
definition SetPrice :: u64 where "SetPrice = 187000"
definition RemovePrice :: u64 where "RemovePrice = 142000"
definition RangePrice :: u64 where "RangePrice = 261000"

definition lookupGas :: "u64 \<Rightarrow> string \<Rightarrow> (lookup_host, unit) prog" where
  "lookupGas amount descriptor = (\<lambda>l. case ConsumeGas amount descriptor (lk_meter l) of (r, g) \<Rightarrow> (r, l\<lparr>lk_meter := g\<rparr>))"

text \<open>\<open>if err != nil { panic(err) }\<close>\<close>

definition orPanic :: "go_error + 'a \<Rightarrow> ('t, 'a) prog" where
  "orPanic r = (case r of Inl _ \<Rightarrow> panicM PanicOther | Inr x \<Rightarrow> returnM x)"

definition Lookup_Get :: "bytes option \<Rightarrow> (lookup_host, bytes option) prog" where
  "Lookup_Get key = bindM (lookupGas GetPrice ''get'') (\<lambda>_. bindM getM (\<lambda>l. orPanic (MemDB_Get (lk_db l) (orEmpty key))))"

definition Lookup_Set :: "bytes option \<Rightarrow> bytes option \<Rightarrow> (lookup_host, unit) prog" where
  "Lookup_Set key val = bindM (lookupGas SetPrice ''set'') (\<lambda>_. bindM getM (\<lambda>l.
     bindM (orPanic (MemDB_Set (lk_db l) (orEmpty key) val)) (\<lambda>db. modifyM (\<lambda>l. l\<lparr>lk_db := db\<rparr>))))"

definition Lookup_Delete :: "bytes option \<Rightarrow> (lookup_host, unit) prog" where
  "Lookup_Delete key = bindM (lookupGas RemovePrice ''remove'') (\<lambda>_. bindM getM (\<lambda>l.
     bindM (orPanic (MemDB_Delete (lk_db l) (orEmpty key))) (\<lambda>db. modifyM (\<lambda>l. l\<lparr>lk_db := db\<rparr>))))"

definition newIterator :: "bytes memDBIterator \<Rightarrow> (lookup_host, nat) prog" where
  "newIterator i = (\<lambda>l. (Ok (length (lk_iters l)), l\<lparr>lk_iters := lk_iters l @ [i]\<rparr>))"

definition Lookup_Iterator :: "bytes option \<Rightarrow> bytes option \<Rightarrow> (lookup_host, nat) prog" where
  "Lookup_Iterator start stop = bindM (lookupGas RangePrice ''range'') (\<lambda>_. bindM getM (\<lambda>l.
     bindM (orPanic (MemDB_Iterator (lk_db l) start stop)) newIterator))"

definition Lookup_ReverseIterator :: "bytes option \<Rightarrow> bytes option \<Rightarrow> (lookup_host, nat) prog" where
  "Lookup_ReverseIterator start stop = bindM (lookupGas RangePrice ''range'') (\<lambda>_. bindM getM (\<lambda>l.
     bindM (orPanic (MemDB_ReverseIterator (lk_db l) start stop)) newIterator))"

definition lookup_store :: "(lookup_host, nat) KVStore" where
  "lookup_store = \<lparr>kv_Get = Lookup_Get, kv_Set = Lookup_Set, kv_Delete = Lookup_Delete,
     kv_Iterator = Lookup_Iterator, kv_ReverseIterator = Lookup_ReverseIterator\<rparr>"

text \<open>The iterators the store hands out are those of the database; a number of none is a nil pointer.\<close>

definition iterObject :: "nat \<Rightarrow> (lookup_host, bytes memDBIterator) prog" where
  "iterObject i = (\<lambda>l. if i < length (lk_iters l) then (Ok (lk_iters l ! i), l) else (Panic PanicOther, l))"

definition lookup_iterator :: "(lookup_host, nat) Iterator" where
  "lookup_iterator = \<lparr>
     itr_Valid = (\<lambda>i l. i < length (lk_iters l) \<and> iter_Valid (lk_iters l ! i)),
     itr_Next = (\<lambda>i. bindM (iterObject i) (\<lambda>it. bindM (liftO (iter_Next it)) (\<lambda>it'.
        modifyM (\<lambda>l. l\<lparr>lk_iters := (lk_iters l)[i := it']\<rparr>)))),
     itr_Key = (\<lambda>i. bindM (iterObject i) (\<lambda>it. bindM (liftO (iter_Key it)) (\<lambda>k. returnM (Some k)))),
     itr_Value = (\<lambda>i. bindM (iterObject i) (\<lambda>it. bindM (liftO (iter_Value it)) (\<lambda>v. returnM (Some v)))),
     itr_Close = (\<lambda>i. bindM (iterObject i) (\<lambda>it. modifyM (\<lambda>l. l\<lparr>lk_iters := (lk_iters l)[i := iter_Close it]\<rparr>)))\<rparr>"

definition lookup_GasConsumed :: "lookup_host \<Rightarrow> u64" where
  "lookup_GasConsumed l = gm_consumed (lk_meter l)"

section \<open>The contract of a store\<close>

text \<open>
  \<open>content\<close> is what the store holds, \<open>pending\<close> what an open iterator has still to list. Operations on the store may
  panic; reading an open iterator that is valid does not.
\<close>

locale contract_store =
  fixes kv :: "('s, 'i) KVStore"
    and itr :: "('s, 'i) Iterator"
    and content :: "'s \<Rightarrow> bytes items"
    and pending :: "'i \<Rightarrow> 's \<Rightarrow> bytes items option"
  assumes get: "kv_Get kv k s = (Ok v, s') \<Longrightarrow> v = kv_get (content s) (orEmpty k) \<and> content s' = content s"
    and set: "kv_Set kv k v s = (Ok u, s') \<Longrightarrow> content s' = kv_set (content s) (orEmpty k) (orEmpty v)"
    and delete: "kv_Delete kv k s = (Ok u, s') \<Longrightarrow> content s' = kv_delete (content s) (orEmpty k)"
    and iterator: "kv_Iterator kv a b s = (Ok i, s') \<Longrightarrow> content s' = content s \<and> pending i s' = Some (kv_range (content s) a b)"
    and reverse: "kv_ReverseIterator kv a b s = (Ok i, s') \<Longrightarrow> items_ok (content s) \<Longrightarrow>
        content s' = content s \<and> pending i s' = Some (rev (kv_range (content s) a b))"
    and valid: "pending i s = Some xs \<Longrightarrow> itr_Valid itr i s \<longleftrightarrow> xs \<noteq> []"
    and read: "pending i s = Some ((key, val) # xs) \<Longrightarrow>
        itr_Key itr i s = (Ok (Some key), s) \<and> itr_Value itr i s = (Ok (Some val), s) \<and>
        (\<exists>s'. itr_Next itr i s = (Ok (), s') \<and> pending i s' = Some xs)"

text \<open>A client that calls \<open>next\<close> until there is no key.\<close>

definition no_ptrs :: call_ptrs where "no_ptrs = \<lparr>ptr_nil = False, ptr_dirty = False\<rparr>"

fun readAll :: "nat \<Rightarrow> ('s, 'i) call_host \<Rightarrow> IteratorReference \<Rightarrow> ('s, 'i) api_state \<Rightarrow> bytes items option" where
  "readAll 0 h ref s = None"
| "readAll (Suc n) h ref s =
     (case cNext h no_ptrs ref s of (a, s') \<Rightarrow>
        if ans_ret a \<noteq> GoError_None then None
        else case (ans_out a, ans_value a) of
            (Some k, Some v) \<Rightarrow> map_option ((#) (k, v)) (readAll n h ref s')
          | _ \<Rightarrow> Some [])"

lemma retrieve_host [simp]: "retrieveIterator (s\<lparr>api_host := t\<rparr>) c i = retrieveIterator s c i"
  by (simp add: retrieveIterator_def split: option.split)

lemma storeIterator_Ok:
  assumes "storeIterator c it frameLenLimit s = (Ok i, s')"
  shows "retrieveIterator s' c i = Some it \<and> api_host s' = api_host s"
proof -
  let ?n = "length (frame_of s c)"
  have n: "?n < 32768" and i: "i = word_of_nat ?n + 1"
    and s': "s' = s\<lparr>iteratorFrames := (iteratorFrames s)(c \<mapsto> frame_of s c @ [it])\<rparr>"
    using assms by (auto simp: storeIterator_def Let_def indexToIteratorID_def frameLenLimit_def bindM_apply basic_apply
        split: if_splits option.splits)
  have unat: "unat i = Suc ?n" unfolding i using n by (simp add: unat_word_ariths unsigned_of_nat take_bit_nat_eq_self)
  then have "0 < i" and "i \<le> 2147483647" using n by (simp_all add: word_less_nat_alt word_le_nat_alt)
  with unat s' show ?thesis by (simp add: retrieve_iff)
qed

lemma scan_reference:
  assumes "cScan h c p a b order s = (ans, s')" and "ans_iter ans = Some ref"
  shows "\<exists>i t. (order = 1 \<and> kv_Iterator (ho_store h) a b (api_host s) = (Ok i, t) \<or>
                order = 2 \<and> kv_ReverseIterator (ho_store h) a b (api_host s) = (Ok i, t)) \<and>
      ref_call_id ref = c \<and> retrieveIterator s' c (ref_iterator_id ref) = Some i \<and> api_host s' = t"
proof -
  let ?open = "if order = 1 then kv_Iterator (ho_store h) a b else kv_ReverseIterator (ho_store h) a b"
  have order: "order = 1 \<or> order = 2" and ptrs: "\<not> ptr_nil p" "\<not> ptr_dirty p"
    using assms by (auto simp: cScan_def recoverPanic_def checkPtrs_def answered_def basic_apply split: if_splits)
  obtain r t where run: "?open (api_host s) = (r, t)" by (cases "?open (api_host s)")
  have Ok: "\<exists>i. r = Ok i"
    using assms order ptrs run
    by (cases r) (auto simp: cScan_def recoverPanic_def checkPtrs_def meteredCall_def onHost_def answered_def bindM_apply basic_apply
        split: go_panic.splits)
  then obtain i where i: "r = Ok i" ..
  obtain q u where store: "storeIterator c i frameLenLimit (s\<lparr>api_host := t\<rparr>) = (q, u)"
    by (cases "storeIterator c i frameLenLimit (s\<lparr>api_host := t\<rparr>)")
  have "\<exists>n. q = Ok n \<and> ref = \<lparr>ref_call_id = c, ref_iterator_id = n\<rparr> \<and> s' = u"
    using assms order ptrs run i store
    by (cases q) (auto simp: cScan_def recoverPanic_def checkPtrs_def meteredCall_def onHost_def answered_def tryM_def
        buildIterator_def bindM_apply basic_apply split: go_panic.splits)
  then show ?thesis using storeIterator_Ok [of c i "s\<lparr>api_host := t\<rparr>"] store run i order by (auto split: if_splits)
qed

context contract_store
begin

lemma next_entry:
  assumes "ho_iterator h = itr" and "retrieveIterator s (ref_call_id ref) (ref_iterator_id ref) = Some i"
    and "ref_call_id ref \<noteq> 0" and "pending i (api_host s) = Some ((k, v) # xs)"
  shows "\<exists>gas t. cNext h no_ptrs ref s =
      ((answered GoError_None gas)\<lparr>ans_out := Some k, ans_value := Some v\<rparr>, s\<lparr>api_host := t\<rparr>) \<and> pending i t = Some xs"
proof -
  obtain t where "itr_Next itr i (api_host s) = (Ok (), t)" and "pending i t = Some xs" using read [OF assms(4)] by blast
  with read [OF assms(4)] assms valid [OF assms(4)] show ?thesis
    by (auto simp: cNext_def withIterator_def checkPtrs_def no_ptrs_def recoverPanic_def meteredCall_def onHost_def
        bindM_apply basic_apply)
qed

lemma readAll_pending:
  assumes "ho_iterator h = itr" and "retrieveIterator s (ref_call_id ref) (ref_iterator_id ref) = Some i"
    and "ref_call_id ref \<noteq> 0" and "pending i (api_host s) = Some xs" and "length xs < n"
  shows "readAll n h ref s = Some xs"
  using assms(2,4,5)
proof (induction n arbitrary: s xs)
  case (Suc n)
  show ?case
  proof (cases xs)
    case Nil
    with Suc.prems assms(1,3) valid [OF Suc.prems(2)] show ?thesis
      by (simp add: cNext_def withIterator_def checkPtrs_def no_ptrs_def recoverPanic_def answered_def bindM_apply basic_apply)
  next
    case (Cons kv ys)
    obtain k v where kv: "kv = (k, v)" by (cases kv)
    obtain gas t where step: "cNext h no_ptrs ref s =
        ((answered GoError_None gas)\<lparr>ans_out := Some k, ans_value := Some v\<rparr>, s\<lparr>api_host := t\<rparr>)" and "pending i t = Some ys"
      using next_entry [OF assms(1) Suc.prems(1) assms(3)] Suc.prems(2) Cons kv by blast
    then have "readAll n h ref (s\<lparr>api_host := t\<rparr>) = Some ys"
      using Suc.prems Cons by (intro Suc.IH) simp_all
    with step show ?thesis by (simp add: Cons kv answered_def)
  qed
qed simp

lemma scan_reads_range:
  assumes "ho_store h = kv" and "ho_iterator h = itr" and "items_ok (content (api_host s))" and "c \<noteq> 0"
    and "cScan h c p a b order s = (ans, s')" and "ans_iter ans = Some ref" and "length (content (api_host s)) < n"
  shows "readAll n h ref s' = Some (if order = 1 then kv_range (content (api_host s)) a b else rev (kv_range (content (api_host s)) a b))"
proof -
  from scan_reference [OF assms(5,6)] assms(1) obtain i t where
    opened: "order = 1 \<and> kv_Iterator kv a b (api_host s) = (Ok i, t) \<or> order = 2 \<and> kv_ReverseIterator kv a b (api_host s) = (Ok i, t)"
    and "ref_call_id ref = c" "retrieveIterator s' c (ref_iterator_id ref) = Some i" "api_host s' = t" by blast
  moreover have "length (kv_range (content (api_host s)) a b) \<le> length (content (api_host s))"
    by (simp add: kv_range_def)
  ultimately show ?thesis
    using assms(2-4,7) iterator reverse by (auto intro!: readAll_pending)
qed

lemma reads_its_writes:
  assumes "ho_store h = kv" and "cSet h p k v s = (a, s1)" and "ans_ret a = GoError_None"
    and "cGet h p' k' s1 = (b, s2)" and "ans_ret b = GoError_None"
  shows "ans_out b = (if orEmpty k' = orEmpty k then Some (orEmpty v) else kv_get (content (api_host s)) (orEmpty k'))"
proof -
  have "content (api_host s1) = kv_set (content (api_host s)) (orEmpty k) (orEmpty v)"
    using assms(2,3) by (auto simp: assms(1) cSet_def recoverPanic_def checkPtrs_def meteredCall_def onHost_def answered_def bindM_def
        basic_apply split: prod.splits outcome.splits if_splits go_panic.splits dest!: set)
  moreover have "ans_out b = kv_get (content (api_host s1)) (orEmpty k')"
    using assms(4,5) by (auto simp: assms(1) cGet_def recoverPanic_def checkPtrs_def meteredCall_def onHost_def answered_def bindM_def
        basic_apply split: prod.splits outcome.splits if_splits go_panic.splits dest!: get)
  ultimately show ?thesis by (simp add: kv_get_set)
qed

end

section \<open>Lookup meets it\<close>

definition iter_pending :: "bytes memDBIterator \<Rightarrow> bytes items" where
  "iter_pending it = (case it_item it of None \<Rightarrow> [] | Some x \<Rightarrow> x # it_ch it)"

definition lookup_pending :: "nat \<Rightarrow> lookup_host \<Rightarrow> bytes items option" where
  "lookup_pending i l = (if i < length (lk_iters l)
     then Some (iter_pending (lk_iters l ! i)) else None)"

lemma lookupGas_Ok: "lookupGas amount d l = (Ok u, l') \<Longrightarrow> lk_db l' = lk_db l \<and> lk_iters l' = lk_iters l"
  by (auto simp: lookupGas_def split: prod.splits)

lemma orPanic_Ok: "orPanic r s = (Ok x, s') \<longleftrightarrow> r = Inr x \<and> s' = s"
  by (auto simp: orPanic_def basic_apply split: sum.splits)

lemma pending_new: "iter_pending (newMemDBIterator db a b r) = memdb_channel db a b r"
  by (simp add: iter_pending_def newMemDBIterator_def split: list.splits)

interpretation lookup: contract_store lookup_store lookup_iterator lk_db lookup_pending
proof
  fix k :: "bytes option" and v s s'
  assume "kv_Get lookup_store k s = (Ok v, s')"
  then show "v = kv_get (lk_db s) (orEmpty k) \<and> lk_db s' = lk_db s"
    by (auto simp: lookup_store_def Lookup_Get_def MemDB_Get_def orPanic_Ok basic_apply
        elim!: bindM_Ok_E dest!: lookupGas_Ok split: if_splits)
next
  fix k v :: "bytes option" and s u s'
  assume "kv_Set lookup_store k v s = (Ok u, s')"
  then show "lk_db s' = kv_set (lk_db s) (orEmpty k) (orEmpty v)"
    by (auto simp: lookup_store_def Lookup_Set_def MemDB_Set_def orPanic_Ok basic_apply orEmpty_def
        elim!: bindM_Ok_E dest!: lookupGas_Ok split: if_splits option.splits)
next
  fix k :: "bytes option" and s u s'
  assume "kv_Delete lookup_store k s = (Ok u, s')"
  then show "lk_db s' = kv_delete (lk_db s) (orEmpty k)"
    by (auto simp: lookup_store_def Lookup_Delete_def MemDB_Delete_def orPanic_Ok basic_apply
        elim!: bindM_Ok_E dest!: lookupGas_Ok split: if_splits)
next
  fix a b s i s'
  assume "kv_Iterator lookup_store a b s = (Ok i, s')"
  then show "lk_db s' = lk_db s \<and> lookup_pending i s' = Some (kv_range (lk_db s) a b)"
    by (auto simp: lookup_store_def Lookup_Iterator_def MemDB_Iterator_def orPanic_Ok basic_apply newIterator_def
        lookup_pending_def pending_new memdb_channel_forward elim!: bindM_Ok_E dest!: lookupGas_Ok split: if_splits)
next
  fix a b s i s'
  assume "kv_ReverseIterator lookup_store a b s = (Ok i, s')" and "items_ok (lk_db s)"
  then show "lk_db s' = lk_db s \<and> lookup_pending i s' = Some (rev (kv_range (lk_db s) a b))"
    by (auto simp: lookup_store_def Lookup_ReverseIterator_def MemDB_ReverseIterator_def orPanic_Ok basic_apply newIterator_def
        lookup_pending_def pending_new memdb_channel_reverse elim!: bindM_Ok_E dest!: lookupGas_Ok split: if_splits)
next
  fix i s xs
  assume "lookup_pending i s = Some xs"
  then show "itr_Valid lookup_iterator i s \<longleftrightarrow> xs \<noteq> []"
    by (auto simp: lookup_iterator_def lookup_pending_def iter_pending_def iter_Valid_def split: if_splits option.splits)
next
  fix i s key val xs
  assume "lookup_pending i s = Some ((key, val) # xs)"
  then have i: "i < length (lk_iters s)" and item: "it_item (lk_iters s ! i) = Some (key, val)" and ch: "it_ch (lk_iters s ! i) = xs"
    by (auto simp: lookup_pending_def iter_pending_def split: if_splits option.splits)
  obtain it' where "iter_Next (lk_iters s ! i) = Ok it'" and "iter_pending it' = xs"
    using item ch by (cases xs) (auto simp: iter_Next_def iter_Valid_def iter_pending_def)
  with i item show "itr_Key lookup_iterator i s = (Ok (Some key), s) \<and> itr_Value lookup_iterator i s = (Ok (Some val), s) \<and>
      (\<exists>s'. itr_Next lookup_iterator i s = (Ok (), s') \<and> lookup_pending i s' = Some xs)"
    by (simp add: lookup_iterator_def lookup_pending_def iterObject_def iter_Key_def iter_Value_def liftO_def bindM_apply
        basic_apply)
qed

section \<open>Properties\<close>

text \<open>
  What a contract sees of its store: a scan, ascending (order 1) or descending (order 2), followed to its end
  with \<open>next\<close>, lists exactly the entries of the range it asked for, in order, however many iterators the
  call has open already.
\<close>

theorem scan_lists_range:
  assumes "ho_store h = lookup_store" and "ho_iterator h = lookup_iterator" and "items_ok (lk_db (api_host s))" and "c \<noteq> 0"
    and "cScan h c p a b order s = (ans, s')" and "ans_iter ans = Some ref"
  shows "readAll (Suc (length (lk_db (api_host s)))) h ref s' =
     Some (if order = 1 then kv_range (lk_db (api_host s)) a b else rev (kv_range (lk_db (api_host s)) a b))"
  using assms by (intro lookup.scan_reads_range) simp_all

definition sample_host :: "(lookup_host, nat) call_host" where
  "sample_host = \<lparr>ho_store = lookup_store, ho_iterator = lookup_iterator, ho_GasConsumed = lookup_GasConsumed,
     ho_api = \<lparr>api_HumanizeAddress = Some (\<lambda>_. (0, Inl (PlainError ''unsupported''))),
       api_CanonicalizeAddress = Some (\<lambda>_. (0, Inl (PlainError ''unsupported''))),
       api_ValidateAddress = Some (\<lambda>_. (0, Inl (PlainError ''unsupported'')))\<rparr>,
     ho_querier = \<lparr>qr_Query = (\<lambda>_ _. failM (SystemError UnknownSystem)), qr_GasConsumed = lookup_GasConsumed,
       qr_Unmarshal = (\<lambda>_. Inl ''bad request''), qr_errText = (\<lambda>_. ''error'')\<rparr>\<rparr>"

definition sample_api_state :: "(lookup_host, nat) api_state" where
  "sample_api_state = \<lparr>iteratorFrames = Map.empty, startedCalls = 1,
     api_host = \<lparr>lk_db = [(''a'', ''1''), (''b'', ''2''), (''c'', ''3'')],
       lk_meter = \<lparr>gm_limit = 1000000, gm_consumed = 0\<rparr>, lk_iters = []\<rparr>\<rparr>"

lemmas sample_lookup_defs = sample_host_def sample_api_state_def lookup_store_def lookup_iterator_def lookup_GasConsumed_def
  no_ptrs_def

text \<open>A scan of the sample store: the iterator is the first of its call.\<close>

lemma sample_scan:
  "\<exists>gas s'. cScan sample_host 1 no_ptrs (Some ''b'') None 2 sample_api_state =
     ((answered GoError_None gas)\<lparr>ans_iter := Some \<lparr>ref_call_id = 1, ref_iterator_id = 1\<rparr>\<rparr>, s') \<and>
     iteratorFrames s' = [1 \<mapsto> [0]] \<and> startedCalls s' = 1"
  by (simp add: sample_lookup_defs cScan_def recoverPanic_def checkPtrs_def meteredCall_def onHost_def tryM_def buildIterator_def
      Lookup_ReverseIterator_def MemDB_ReverseIterator_def empty_bound_def lookupGas_def ConsumeGas_def addUint64Overflow_def
      RangePrice_def orPanic_def newIterator_def storeIterator_def frame_of_def frameLenLimit_def indexToIteratorID_def
      bindM_def basic_apply) blast

theorem scan_lists_range_witness:
  "\<exists>ans ref s'. cScan sample_host 1 no_ptrs (Some ''b'') None 2 sample_api_state = (ans, s') \<and> ans_iter ans = Some ref \<and>
     readAll 4 sample_host ref s' = Some [(''c'', ''3''), (''b'', ''2'')]"
proof -
  obtain gas s' where run: "cScan sample_host 1 no_ptrs (Some ''b'') None 2 sample_api_state =
      ((answered GoError_None gas)\<lparr>ans_iter := Some \<lparr>ref_call_id = 1, ref_iterator_id = 1\<rparr>\<rparr>, s')"
    using sample_scan by blast
  have db: "lk_db (api_host sample_api_state) = [(''a'', ''1''), (''b'', ''2''), (''c'', ''3'')]"
    by (simp add: sample_api_state_def)
  have "readAll (Suc (length (lk_db (api_host sample_api_state)))) sample_host \<lparr>ref_call_id = 1, ref_iterator_id = 1\<rparr> s' =
      Some (if (2 :: 32 word) = 1 then kv_range (lk_db (api_host sample_api_state)) (Some ''b'') None
        else rev (kv_range (lk_db (api_host sample_api_state)) (Some ''b'') None))"
    by (rule scan_lists_range [OF _ _ _ _ run]) (simp_all add: sample_host_def db items_ok_def)
  with run show ?thesis
    by (simp add: db kv_range_def in_domain_def eval_nat_numeral del: readAll.simps)
qed

text \<open>A contract that reads a key after writing one gets the value written, or that of the store before for another key.\<close>

theorem contract_reads_its_writes:
  assumes "ho_store h = lookup_store" and "cSet h p k v s = (a, s1)" and "ans_ret a = GoError_None"
    and "cGet h p' k' s1 = (b, s2)" and "ans_ret b = GoError_None"
  shows "ans_out b = (if orEmpty k' = orEmpty k then Some (orEmpty v) else kv_get (lk_db (api_host s)) (orEmpty k'))"
  using assms by (rule lookup.reads_its_writes)

section \<open>Sample calls\<close>

lemma tidy_sample: "tidy_querier (ho_querier sample_host)"
  by (simp add: tidy_querier_def sample_host_def undisturbed.stays_basic)

definition sample_args :: "(lookup_host, nat) call_args" where
  "sample_args = \<lparr>arg_store = lookup_store, arg_iterator = lookup_iterator, arg_GasConsumed = lookup_GasConsumed,
     arg_api = Some (ho_api sample_host), arg_querier = Some (ho_querier sample_host)\<rparr>"

theorem contract_calls_clean_up_witness:
  "tidy_args sample_args \<and> (\<forall>(vm :: unit VM) cd checksum env info msg gasLimit deserCost.
     stays undisturbed (VM_Execute vm cd sample_args checksum env info msg gasLimit deserCost))"
proof -
  have "tidy_args sample_args" using tidy_sample by (simp add: tidy_args_def sample_args_def)
  then show ?thesis using contract_calls_clean_up [OF \<open>tidy_args sample_args\<close>] by blast
qed

text \<open>A call with one open iterator, and a library that reads a key before it goes on with the iterator.\<close>

definition sample_open :: "(lookup_host, nat) api_state" where
  "sample_open = sample_api_state\<lparr>iteratorFrames := [1 \<mapsto> [0]],
     api_host := (api_host sample_api_state)\<lparr>lk_iters := [newMemDBIterator [(''a'', ''1'')] None None False]\<rparr>\<rparr>"

definition sample_rust :: "unit rust" where
  "sample_rust = Callback no_ptrs (ReadDb (Some ''a'')) (\<lambda>_. Finish ())"


theorem contract_reads_its_writes_witness:
  "\<exists>a s1 b s2. cSet sample_host no_ptrs (Some ''k'') (Some ''v'') sample_api_state = (a, s1) \<and> ans_ret a = GoError_None \<and>
     cGet sample_host no_ptrs (Some ''k'') s1 = (b, s2) \<and> ans_ret b = GoError_None \<and> ans_out b = Some ''v''"
proof -
  have "\<exists>a s1 b s2. cSet sample_host no_ptrs (Some ''k'') (Some ''v'') sample_api_state = (a, s1) \<and> ans_ret a = GoError_None \<and>
     cGet sample_host no_ptrs (Some ''k'') s1 = (b, s2) \<and> ans_ret b = GoError_None"
    by (simp add: sample_lookup_defs cGet_def cSet_def recoverPanic_def checkPtrs_def meteredCall_def answered_def
        onHost_def Lookup_Get_def Lookup_Set_def MemDB_Get_def MemDB_Set_def lookupGas_def ConsumeGas_def addUint64Overflow_def
        GetPrice_def SetPrice_def orPanic_def orEmpty_def bindM_def basic_apply)
  then obtain a s1 b s2 where runs: "cSet sample_host no_ptrs (Some ''k'') (Some ''v'') sample_api_state = (a, s1)"
    "ans_ret a = GoError_None" "cGet sample_host no_ptrs (Some ''k'') s1 = (b, s2)" "ans_ret b = GoError_None" by blast
  with contract_reads_its_writes [OF _ runs] show ?thesis by (simp add: sample_host_def orEmpty_def)
qed

end
