(* ===== verification/Contract_Storage.thy ===== *)
theory Contract_Storage
  imports Libwasmvm Vm_Lookup
begin

text \<open>
  The storage of a contract, through all layers: a request of the VM goes through the Rust library, a callback
  into Go, the frames of iterators and the store behind them. The specification of what the contract may see
  is an ordered map with iterators that list a range as it was when they were opened (\<open>storage_step\<close>). The
  refinement is proved for every store that meets \<open>isolated_store\<close>, an extension of \<open>contract_store\<close>, and
  that is interpreted on \<open>Lookup\<close>.
\<close>

section \<open>Specification\<close>

text \<open>
  The state is the content of the store and, for each iterator opened so far, what it has still to list. A
  step checks the response to a request and yields the next state; a request that failed changes nothing.
\<close>

type_synonym storage_spec = "bytes items \<times> bytes items list"

definition spec_next :: "u32 \<Rightarrow> (bytes \<times> bytes \<Rightarrow> 'a) \<Rightarrow> 'a option \<Rightarrow> storage_spec \<Rightarrow> storage_spec option" where
  "spec_next i part x st = (case st of (m, its) \<Rightarrow>
     if unat i < length its then
       (case its ! unat i of
          [] \<Rightarrow> if x = None then Some st else None
        | kv # rest \<Rightarrow> if x = Some (part kv) then Some (m, its[unat i := rest]) else None)
     else None)"

fun storage_step :: "backend_request \<Rightarrow> backend_response \<Rightarrow> storage_spec \<Rightarrow> storage_spec option" where
  "storage_step (Storage_get k) resp (m, its) = (case resp of
     OptBytes (Inr v, _) \<Rightarrow> if v = kv_get m k then Some (m, its) else None
   | OptBytes (Inl _, _) \<Rightarrow> Some (m, its)
   | _ \<Rightarrow> None)"
| "storage_step (Storage_set k v) resp (m, its) = (case resp of
     Unit (Inr _, _) \<Rightarrow> Some (kv_set m k v, its)
   | Unit (Inl _, _) \<Rightarrow> Some (m, its)
   | _ \<Rightarrow> None)"
| "storage_step (Storage_remove k) resp (m, its) = (case resp of
     Unit (Inr _, _) \<Rightarrow> Some (kv_delete m k, its)
   | Unit (Inl _, _) \<Rightarrow> Some (m, its)
   | _ \<Rightarrow> None)"
| "storage_step (Storage_scan a b order) resp (m, its) = (case resp of
     Iter (Inr i, _) \<Rightarrow>
       if unat i = length its
       then Some (m, its @ [case order of Ascending \<Rightarrow> kv_range m a b | Descending \<Rightarrow> rev (kv_range m a b)]) else None
   | Iter (Inl _, _) \<Rightarrow> Some (m, its)
   | _ \<Rightarrow> None)"
| "storage_step (Storage_next i) resp st = (case resp of
     Record (Inr x, _) \<Rightarrow> spec_next i (\<lambda>kv. kv) x st
   | Record (Inl _, _) \<Rightarrow> Some st
   | _ \<Rightarrow> None)"
| "storage_step (Storage_next_key i) resp st = (case resp of
     OptBytes (Inr x, _) \<Rightarrow> spec_next i fst x st
   | OptBytes (Inl _, _) \<Rightarrow> Some st
   | _ \<Rightarrow> None)"
| "storage_step (Storage_next_value i) resp st = (case resp of
     OptBytes (Inr x, _) \<Rightarrow> spec_next i snd x st
   | OptBytes (Inl _, _) \<Rightarrow> Some st
   | _ \<Rightarrow> None)"
| "storage_step (Api_addr_canonicalize _) resp st = Some st"
| "storage_step (Api_addr_humanize _) resp st = Some st"
| "storage_step (Api_addr_validate _) resp st = Some st"
| "storage_step (Querier_query_raw _ _) resp st = Some st"

fun storage_accepts :: "storage_spec \<Rightarrow> (backend_request \<times> backend_response) list \<Rightarrow> storage_spec option" where
  "storage_accepts st [] = Some st"
| "storage_accepts st ((q, resp) # tr) = (case storage_step q resp st of None \<Rightarrow> None | Some st' \<Rightarrow> storage_accepts st' tr)"

section \<open>The requests of a run\<close>

definition backend_step ::
  "rust_env \<Rightarrow> ('s, 'i) call_host \<Rightarrow> u64 \<Rightarrow> backend_request \<Rightarrow> IteratorReference list \<Rightarrow> ('s, 'i) api_state \<Rightarrow>
   (backend_response \<times> IteratorReference list) \<times> ('s, 'i) api_state"
where
  "backend_step e h c q refs s = serve h c (backend e refs q (\<lambda>resp refs'. Finish (resp, refs'))) s"

primrec transcript ::
  "rust_env \<Rightarrow> ('s, 'i) call_host \<Rightarrow> u64 \<Rightarrow> 'r wasm_run \<Rightarrow> IteratorReference list \<Rightarrow> ('s, 'i) api_state \<Rightarrow>
   (backend_request \<times> backend_response) list"
where
  "transcript e h c (Return r) refs s = []"
| "transcript e h c (Ask q k) refs s =
     (q, fst (fst (backend_step e h c q refs s))) #
     transcript e h c (k (fst (fst (backend_step e h c q refs s)))) (snd (fst (backend_step e h c q refs s)))
       (snd (backend_step e h c q refs s))"

lemmas backend_defs = GoStorage_get_def GoStorage_scan_def GoStorage_next_def GoStorage_next_key_def GoStorage_next_value_def
  GoStorage_set_def GoStorage_remove_def GoApi_addr_canonicalize_def GoApi_addr_humanize_def GoApi_addr_validate_def
  GoQuerier_query_raw_def GoIter_next_def next_key_or_val_def withIter_def

lemma serve_backend:
  "serve h c (backend e refs q k) s =
   serve h c (k (fst (fst (backend_step e h c q refs s))) (snd (fst (backend_step e h c q refs s))))
     (snd (backend_step e h c q refs s))"
  by (cases q) (simp_all add: backend_step_def backend_defs Let_def del: vtable.simps split: sum.split)

section \<open>Callbacks on the store\<close>

lemma rust_ptrs_no_ptrs: "rust_ptrs = no_ptrs"
  by (simp add: rust_ptrs_def no_ptrs_def)

text \<open>What the callbacks of a call share: the answer for a result of the store, and the state with what is left of it.\<close>

definition storeAnswer :: "('a \<Rightarrow> answer) \<Rightarrow> 'a outcome \<Rightarrow> answer" where
  "storeAnswer f r = (case r of
     Ok x \<Rightarrow> f x
   | Panic (PanicOutOfGas _) \<Rightarrow> answered GoError_OutOfGas 0
   | _ \<Rightarrow> answered GoError_Panic 0)"

lemma storeAnswer_simps [simp]:
  "storeAnswer f (Ok x) = f x"
  "ans_ret (storeAnswer f (Err e)) \<noteq> GoError_None"
  "ans_ret (storeAnswer f (Panic p)) \<noteq> GoError_None"
  by (simp_all add: storeAnswer_def answered_def split: go_panic.split)

lemma host_callback:
  "recoverPanic (bindM (meteredCall g (onHost m)) (\<lambda>(x, gas). returnM (f x gas))) s =
   (storeAnswer (\<lambda>x. f x (g (snd (m (api_host s))) - g (api_host s))) (fst (m (api_host s))), s\<lparr>api_host := snd (m (api_host s))\<rparr>)"
  by (cases "m (api_host s)"; cases "fst (m (api_host s))")
     (auto simp: recoverPanic_def meteredCall_def onHost_def storeAnswer_def bindM_apply basic_apply split: go_panic.split)

lemma checkPtrs_rust [simp]:
  "checkPtrs rust_ptrs m = m" "checkPtrs (rust_ptrs\<lparr>ptr_dirty := False\<rparr>) m = m"
  by (simp_all add: checkPtrs_def rust_ptrs_def)

lemma goResult_cases:
  "ans_ret a = GoError_None \<Longrightarrow> goResult a d ok = ok"
  "ans_ret a \<noteq> GoError_None \<Longrightarrow> goResult a d ok = Inl (the (into_result (ans_ret a) (ans_errOut a) d))"
  by (simp_all add: goResult_def into_result_def Let_def split: GoError.split)

lemma answered_ret [simp]: "ans_ret (answered e g) = e"
  by (simp add: answered_def)

section \<open>The contract of a store, continued\<close>

definition kept :: "('i \<Rightarrow> 's \<Rightarrow> bytes items option) \<Rightarrow> 's \<Rightarrow> 's \<Rightarrow> bool" where
  "kept pending s s' \<longleftrightarrow> (\<forall>j xs. pending j s = Some xs \<longrightarrow> pending j s' = Some xs)"

text \<open>
  Operations do not disturb open iterators, an operation that fails leaves the content as it was, and an
  iterator just opened is none that was open before.
\<close>

locale isolated_store = contract_store +
  assumes get_kept: "kv_Get kv k s = (got, s') \<Longrightarrow> content s' = content s \<and> kept pending s s'"
    and set_kept: "kv_Set kv k v s = (r, s') \<Longrightarrow> kept pending s s' \<and> ((\<forall>u. r \<noteq> Ok u) \<longrightarrow> content s' = content s)"
    and delete_kept: "kv_Delete kv k s = (r, s') \<Longrightarrow> kept pending s s' \<and> ((\<forall>u. r \<noteq> Ok u) \<longrightarrow> content s' = content s)"
    and iterator_kept: "kv_Iterator kv a b s = (opened, s') \<Longrightarrow>
        content s' = content s \<and> kept pending s s' \<and> (\<forall>i. opened = Ok i \<longrightarrow> pending i s = None)"
    and reverse_kept: "kv_ReverseIterator kv a b s = (opened, s') \<Longrightarrow>
        content s' = content s \<and> kept pending s s' \<and> (\<forall>i. opened = Ok i \<longrightarrow> pending i s = None)"
    and next_kept: "itr_Next itr i s = (stepped, s') \<Longrightarrow>
        content s' = content s \<and> (\<forall>j xs. j \<noteq> i \<longrightarrow> pending j s = Some xs \<longrightarrow> pending j s' = Some xs)"

text \<open>
  The querier is given the whole state; what is assumed of it is that answering a query leaves the frames and
  the store of the calling contract alone.
\<close>

definition reads_only ::
  "('s \<Rightarrow> bytes items) \<Rightarrow> ('i \<Rightarrow> 's \<Rightarrow> bytes items option) \<Rightarrow> ('s, 'i) Querier \<Rightarrow> bool"
where
  "reads_only content pending q \<longleftrightarrow> (\<forall>request gasLimit s r s'. qr_Query q request gasLimit s = (r, s') \<longrightarrow>
     iteratorFrames s' = iteratorFrames s \<and> content (api_host s') = content (api_host s) \<and>
     kept pending (api_host s) (api_host s'))"

text \<open>
  The iterators the library holds: each refers to an iterator of the store in the frame of the call, which has
  the entries still to list that the specification says. Different references are different iterators.
\<close>

definition holds_iterators ::
  "('i \<Rightarrow> 's \<Rightarrow> bytes items option) \<Rightarrow> u64 \<Rightarrow> IteratorReference list \<Rightarrow> bytes items list \<Rightarrow> ('s, 'i) api_state \<Rightarrow> bool"
where
  "holds_iterators pending c refs its s \<longleftrightarrow>
     length refs = length its \<and> length refs \<le> length (frame_of s c) \<and> length (frame_of s c) \<le> frameLenLimit \<and>
     (\<exists>hs. length hs = length its \<and> distinct hs \<and>
        (\<forall>n < length its. ref_call_id (refs ! n) = c \<and> retrieveIterator s c (ref_iterator_id (refs ! n)) = Some (hs ! n) \<and>
           pending (hs ! n) (api_host s) = Some (its ! n)))"

lemma holds_iterators_kept:
  assumes "holds_iterators pending c refs its s" and "kept pending (api_host s) (api_host s')"
    and "iteratorFrames s' = iteratorFrames s"
  shows "holds_iterators pending c refs its s'"
proof -
  have "frame_of s' c = frame_of s c" and "retrieveIterator s' c i = retrieveIterator s c i" for i
    using assms(3) by (simp_all add: frame_of_def retrieveIterator_def split: option.split)
  with assms(1,2) show ?thesis unfolding holds_iterators_def kept_def by metis
qed

lemma frame_of_host [simp]: "frame_of (s\<lparr>api_host := t\<rparr>) c = frame_of s c"
  by (simp add: frame_of_def)

lemma storeIterator_eq:
  "storeIterator c i frameLenLimit s =
   (if frameLenLimit \<le> length (frame_of s c)
    then (Err (PlainError (''Reached iterator limit ('' @ dec_string frameLenLimit @ '')'')), s)
    else (Ok (word_of_nat (length (frame_of s c)) + 1), s\<lparr>iteratorFrames := (iteratorFrames s)(c \<mapsto> frame_of s c @ [i])\<rparr>))"
  by (simp add: storeIterator_def Let_def indexToIteratorID_def frameLenLimit_def bindM_apply basic_apply)

lemma cScan_eq:
  assumes "(case order of Ascending \<Rightarrow> kv_Iterator (ho_store h) a b | Descending \<Rightarrow> kv_ReverseIterator (ho_store h) a b) (api_host s) =
      (r, t)"
  shows "\<exists>gas. cScan h c rust_ptrs a b (order_number order) s =
    (case r of
       Ok i \<Rightarrow>
         if frameLenLimit \<le> length (frame_of s c)
         then ((answered GoError_User gas)\<lparr>ans_errOut := Some (qr_errText (ho_querier h)
             (PlainError (''Reached iterator limit ('' @ dec_string frameLenLimit @ '')'')))\<rparr>, s\<lparr>api_host := t\<rparr>)
         else ((answered GoError_None gas)\<lparr>ans_iter := Some \<lparr>ref_call_id = c, ref_iterator_id = word_of_nat (length (frame_of s c)) + 1\<rparr>\<rparr>,
           s\<lparr>api_host := t, iteratorFrames := (iteratorFrames s)(c \<mapsto> frame_of s c @ [i])\<rparr>)
     | _ \<Rightarrow> (storeAnswer (\<lambda>_. answered GoError_Panic 0) r, s\<lparr>api_host := t\<rparr>))"
  using assms
  by (cases order; cases r)
     (auto simp: cScan_def recoverPanic_def meteredCall_def onHost_def tryM_def buildIterator_def storeIterator_eq storeAnswer_def
        bindM_apply basic_apply split: go_panic.split)

lemma holds_iterators_opened:
  assumes "holds_iterators pending c refs its s" and "kept pending (api_host s) t" and "pending i (api_host s) = None"
    and "pending i t = Some xs" and "length (frame_of s c) < frameLenLimit"
  shows "holds_iterators pending c (refs @ [\<lparr>ref_call_id = c, ref_iterator_id = word_of_nat (length (frame_of s c)) + 1\<rparr>]) (its @ [xs])
     (s\<lparr>api_host := t, iteratorFrames := (iteratorFrames s)(c \<mapsto> frame_of s c @ [i])\<rparr>)"
    (is "holds_iterators _ _ ?refs _ ?s")
proof -
  obtain hs where hs: "length hs = length its" "distinct hs" "\<And>n. n < length its \<Longrightarrow> ref_call_id (refs ! n) = c"
    "\<And>n. n < length its \<Longrightarrow> retrieveIterator s c (ref_iterator_id (refs ! n)) = Some (hs ! n)"
    "\<And>n. n < length its \<Longrightarrow> pending (hs ! n) (api_host s) = Some (its ! n)"
    and len: "length refs = length its" "length refs \<le> length (frame_of s c)"
    using assms(1) unfolding holds_iterators_def by blast
  have frame: "frame_of ?s c = frame_of s c @ [i]" by (simp add: frame_of_def)
  have old: "retrieveIterator ?s c j = Some x" if "retrieveIterator s c j = Some x" for j x
    using that by (auto simp: retrieve_iff frame nth_append)
  have new: "retrieveIterator ?s c (word_of_nat (length (frame_of s c)) + 1) = Some i"
    using storeIterator_Ok [of c i "s\<lparr>api_host := t\<rparr>"] assms(5) by (simp add: storeIterator_eq)
  have "i \<notin> set hs" using hs(1,5) assms(3) by (auto simp: in_set_conv_nth)
  then have "distinct (hs @ [i])" using hs(2) by simp
  moreover have "ref_call_id (?refs ! n) = c \<and> retrieveIterator ?s c (ref_iterator_id (?refs ! n)) = Some ((hs @ [i]) ! n) \<and>
      pending ((hs @ [i]) ! n) (api_host ?s) = Some ((its @ [xs]) ! n)" if "n < length (its @ [xs])" for n
    using that hs(1,3-5) len(1) old new assms(2,4) by (auto simp: nth_append kept_def less_Suc_eq)
  ultimately show ?thesis
    unfolding holds_iterators_def frame using hs(1) len assms(5) by (intro conjI exI [of _ "hs @ [i]"]) auto
qed

lemma holds_iterators_at:
  assumes "holds_iterators pending c refs its s" and "n < length its"
  obtains i where "ref_call_id (refs ! n) = c" and "retrieveIterator s c (ref_iterator_id (refs ! n)) = Some i"
    and "pending i (api_host s) = Some (its ! n)"
    and "\<And>t xs. pending i t = Some xs \<Longrightarrow>
       (\<And>j ys. j \<noteq> i \<Longrightarrow> pending j (api_host s) = Some ys \<Longrightarrow> pending j t = Some ys) \<Longrightarrow>
       holds_iterators pending c refs (its[n := xs]) (s\<lparr>api_host := t\<rparr>)"
proof -
  obtain hs where hs: "length hs = length its" "distinct hs"
    "\<And>m. m < length its \<Longrightarrow> ref_call_id (refs ! m) = c \<and> retrieveIterator s c (ref_iterator_id (refs ! m)) = Some (hs ! m) \<and>
       pending (hs ! m) (api_host s) = Some (its ! m)"
    and len: "length refs = length its" "length refs \<le> length (frame_of s c)" "length (frame_of s c) \<le> frameLenLimit"
    using assms(1) unfolding holds_iterators_def by blast
  have "holds_iterators pending c refs (its[n := xs]) (s\<lparr>api_host := t\<rparr>)"
    if t: "pending (hs ! n) t = Some xs" "\<And>j ys. j \<noteq> hs ! n \<Longrightarrow> pending j (api_host s) = Some ys \<Longrightarrow> pending j t = Some ys" for t xs
  proof -
    have "pending (hs ! m) t = Some (its[n := xs] ! m)" if "m < length its" for m
      using that t hs assms(2) by (cases "m = n") (auto simp: nth_eq_iff_index_eq)
    then show ?thesis unfolding holds_iterators_def using hs len by (intro conjI exI [of _ hs]) auto
  qed
  with hs(3) [OF assms(2)] show ?thesis using that [of "hs ! n"] by blast
qed

text \<open>The step of the specification that a request has to match, with the state it leaves.\<close>

definition step_matches ::
  "('s \<Rightarrow> bytes items) \<Rightarrow> ('i \<Rightarrow> 's \<Rightarrow> bytes items option) \<Rightarrow> u64 \<Rightarrow> bytes items list \<Rightarrow> ('s, 'i) api_state \<Rightarrow> backend_request \<Rightarrow>
   (backend_response \<times> IteratorReference list) \<times> ('s, 'i) api_state \<Rightarrow> bool"
where
  "step_matches content pending c its s q out \<longleftrightarrow> (case out of ((resp, refs'), s') \<Rightarrow>
     \<exists>its'. storage_step q resp (content (api_host s), its) = Some (content (api_host s'), its') \<and>
       items_ok (content (api_host s')) \<and> holds_iterators pending c refs' its' s')"

context isolated_store
begin

lemma get_step:
  assumes "ho_store h = kv" and "items_ok (content (api_host s))" and "holds_iterators pending c refs its s"
  shows "step_matches content pending c its s (Storage_get key) (backend_step e h c (Storage_get key) refs s)"
proof -
  obtain r t where run: "kv_Get kv (Some key) (api_host s) = (r, t)" by (cases "kv_Get kv (Some key) (api_host s)")
  have same: "content t = content (api_host s)" "kept pending (api_host s) t" using get_kept [OF run] by simp_all
  then have holds: "holds_iterators pending c refs its (s\<lparr>api_host := t\<rparr>)"
    by (intro holds_iterators_kept [OF assms(3)]) simp_all
  moreover have "v = kv_get (content (api_host s)) key" if "r = Ok v" for v
    using get run that by (fastforce simp: orEmpty_def)
  ultimately show ?thesis using run same assms(2)
    by (cases r) (simp_all add: step_matches_def backend_step_def GoStorage_get_def cGet_def host_callback assms(1) goResult_cases)
qed

lemma set_step:
  assumes "ho_store h = kv" and "items_ok (content (api_host s))" and "holds_iterators pending c refs its s"
  shows "step_matches content pending c its s (Storage_set key val) (backend_step e h c (Storage_set key val) refs s)"
proof -
  obtain r t where run: "kv_Set kv (Some key) (Some val) (api_host s) = (r, t)"
    by (cases "kv_Set kv (Some key) (Some val) (api_host s)")
  have same: "kept pending (api_host s) t" "(\<forall>u. r \<noteq> Ok u) \<longrightarrow> content t = content (api_host s)"
    using set_kept [OF run] by simp_all
  then have "holds_iterators pending c refs its (s\<lparr>api_host := t\<rparr>)"
    by (intro holds_iterators_kept [OF assms(3)]) simp_all
  moreover have "content t = kv_set (content (api_host s)) key val" if "r = Ok u" for u
    using set run that by (fastforce simp: orEmpty_def)
  ultimately show ?thesis using run same assms(2)
    by (cases r) (simp_all add: step_matches_def backend_step_def GoStorage_set_def cSet_def host_callback assms(1)
        goResult_cases items_ok_set)
qed

lemma remove_step:
  assumes "ho_store h = kv" and "items_ok (content (api_host s))" and "holds_iterators pending c refs its s"
  shows "step_matches content pending c its s (Storage_remove key) (backend_step e h c (Storage_remove key) refs s)"
proof -
  obtain r t where run: "kv_Delete kv (Some key) (api_host s) = (r, t)" by (cases "kv_Delete kv (Some key) (api_host s)")
  have same: "kept pending (api_host s) t" "(\<forall>u. r \<noteq> Ok u) \<longrightarrow> content t = content (api_host s)"
    using delete_kept [OF run] by simp_all
  then have "holds_iterators pending c refs its (s\<lparr>api_host := t\<rparr>)"
    by (intro holds_iterators_kept [OF assms(3)]) simp_all
  moreover have "content t = kv_delete (content (api_host s)) key" if "r = Ok u" for u
    using delete run that by (fastforce simp: orEmpty_def)
  ultimately show ?thesis using run same assms(2)
    by (cases r) (simp_all add: step_matches_def backend_step_def GoStorage_remove_def cDelete_def host_callback assms(1)
        goResult_cases items_ok_delete)
qed

lemma scan_step:
  assumes "ho_store h = kv" and "items_ok (content (api_host s))" and "holds_iterators pending c refs its s"
  shows "step_matches content pending c its s (Storage_scan a b order) (backend_step e h c (Storage_scan a b order) refs s)"
proof -
  let ?open = "(case order of Ascending \<Rightarrow> kv_Iterator kv a b | Descending \<Rightarrow> kv_ReverseIterator kv a b) (api_host s)"
  let ?xs = "case order of Ascending \<Rightarrow> kv_range (content (api_host s)) a b | Descending \<Rightarrow> rev (kv_range (content (api_host s)) a b)"
  obtain r t where run: "?open = (r, t)" by (cases ?open)
  have same: "content t = content (api_host s)" "kept pending (api_host s) t"
    using run iterator_kept reverse_kept by (cases order; simp)+
  have opened: "pending i (api_host s) = None" "pending i t = Some ?xs" if "r = Ok i" for i
    using run that iterator iterator_kept reverse [OF _ assms(2)] reverse_kept by (cases order; simp)+
  have holds: "holds_iterators pending c refs its (s\<lparr>api_host := t\<rparr>)"
    using same by (intro holds_iterators_kept [OF assms(3)]) simp_all
  have len: "length refs = length its" "length its \<le> length (frame_of s c)" "length (frame_of s c) \<le> frameLenLimit"
    using assms(3) by (simp_all add: holds_iterators_def)
  then have number: "unat (word_of_nat (length its) :: u32) = length its"
    by (simp add: unsigned_of_nat take_bit_nat_eq_self frameLenLimit_def)
  obtain gas where scan: "cScan h c rust_ptrs a b (order_number order) s =
    (case r of
       Ok i \<Rightarrow>
         if frameLenLimit \<le> length (frame_of s c)
         then ((answered GoError_User gas)\<lparr>ans_errOut := Some (qr_errText (ho_querier h)
             (PlainError (''Reached iterator limit ('' @ dec_string frameLenLimit @ '')'')))\<rparr>, s\<lparr>api_host := t\<rparr>)
         else ((answered GoError_None gas)\<lparr>ans_iter := Some \<lparr>ref_call_id = c, ref_iterator_id = word_of_nat (length (frame_of s c)) + 1\<rparr>\<rparr>,
           s\<lparr>api_host := t, iteratorFrames := (iteratorFrames s)(c \<mapsto> frame_of s c @ [i])\<rparr>)
     | _ \<Rightarrow> (storeAnswer (\<lambda>_. answered GoError_Panic 0) r, s\<lparr>api_host := t\<rparr>))"
    using cScan_eq [where order = order and h = h and a = a and b = b and s = s and r = r and t = t and c = c] run assms(1) by auto
  show ?thesis
  proof (cases "\<exists>i. r = Ok i \<and> length (frame_of s c) < frameLenLimit")
    case True
    then obtain i where i: "r = Ok i" and room: "length (frame_of s c) < frameLenLimit" by blast
    from holds_iterators_opened [OF assms(3) same(2) opened [OF i] room] scan i room same(1) assms(2) len(1) number
    show ?thesis
      by (auto simp: step_matches_def backend_step_def GoStorage_scan_def Let_def goResult_cases answered_def)
  next
    case False
    then have "ans_ret (fst (cScan h c rust_ptrs a b (order_number order) s)) \<noteq> GoError_None"
      and "snd (cScan h c rust_ptrs a b (order_number order) s) = s\<lparr>api_host := t\<rparr>"
      using scan by (auto split: outcome.splits)
    then show ?thesis using holds same(1) assms(2)
      by (simp add: step_matches_def backend_step_def GoStorage_scan_def Let_def goResult_cases)
  qed
qed

lemma next_read:
  assumes "pending i u = Some ((key, val) # xs)"
  obtains t where "itr_Next itr i u = (Ok (), t)" and "pending i t = Some xs" and "content t = content u"
    and "\<And>j ys. j \<noteq> i \<Longrightarrow> pending j u = Some ys \<Longrightarrow> pending j t = Some ys"
  using read [OF assms] next_kept by metis

text \<open>The three ways to read an iterator of the library, at once.\<close>

lemma iterator_answers:
  assumes "ho_iterator h = itr" and "ref_call_id ref \<noteq> 0"
    and "retrieveIterator s (ref_call_id ref) (ref_iterator_id ref) = Some i" and pending: "pending i (api_host s) = Some xs"
  shows "\<exists>gas t. ((xs = [] \<and> t = api_host s) \<or> (xs \<noteq> [] \<and> pending i t = Some (tl xs) \<and> content t = content (api_host s) \<and>
      (\<forall>j ys. j \<noteq> i \<longrightarrow> pending j (api_host s) = Some ys \<longrightarrow> pending j t = Some ys))) \<and>
    cNext h rust_ptrs ref s = ((answered GoError_None gas)\<lparr>ans_out := map_option fst (if xs = [] then None else Some (hd xs)),
      ans_value := map_option snd (if xs = [] then None else Some (hd xs))\<rparr>, s\<lparr>api_host := t\<rparr>) \<and>
    cNextKey h rust_ptrs ref s = ((answered GoError_None gas)\<lparr>ans_out := map_option fst (if xs = [] then None else Some (hd xs))\<rparr>,
      s\<lparr>api_host := t\<rparr>) \<and>
    cNextValue h rust_ptrs ref s = ((answered GoError_None gas)\<lparr>ans_out := map_option snd (if xs = [] then None else Some (hd xs))\<rparr>,
      s\<lparr>api_host := t\<rparr>)"
proof (cases xs)
  case Nil
  then show ?thesis using assms valid [OF pending]
    by (intro exI [of _ 0] exI [of _ "api_host s"])
       (simp add: cNext_def cNextKey_def cNextValue_def nextPart_def withIterator_def checkPtrs_def rust_ptrs_def recoverPanic_def
          answered_def bindM_apply basic_apply)
next
  case (Cons x ys)
  obtain key val where x: "x = (key, val)" by (cases x)
  from next_read [OF pending [unfolded Cons x]] obtain t where t: "itr_Next itr i (api_host s) = (Ok (), t)" "pending i t = Some ys"
    "content t = content (api_host s)" "\<And>j zs. j \<noteq> i \<Longrightarrow> pending j (api_host s) = Some zs \<Longrightarrow> pending j t = Some zs" by blast
  have "itr_Key itr i (api_host s) = (Ok (Some key), api_host s)" "itr_Value itr i (api_host s) = (Ok (Some val), api_host s)"
    using read [OF pending [unfolded Cons x]] by blast+
  with assms t valid [OF pending] show ?thesis
    by (intro exI [of _ "ho_GasConsumed h t - ho_GasConsumed h (api_host s)"] exI [of _ t])
       (simp add: Cons x cNext_def cNextKey_def cNextValue_def nextPart_def withIterator_def checkPtrs_def rust_ptrs_def recoverPanic_def
          meteredCall_def onHost_def bindM_apply basic_apply)
qed

lemma next_step:
  assumes "ho_iterator h = itr" and "c \<noteq> 0" and "items_ok (content (api_host s))" and "holds_iterators pending c refs its s"
    and "q \<in> {Storage_next i, Storage_next_key i, Storage_next_value i}"
  shows "step_matches content pending c its s q (backend_step e h c q refs s)"
proof (cases "unat i < length its")
  case False
  moreover have "length refs = length its" using assms(4) by (simp add: holds_iterators_def)
  ultimately show ?thesis using assms(3-5)
    by (auto simp: step_matches_def backend_step_def backend_defs)
next
  case True
  let ?ref = "refs ! unat i" and ?xs = "its ! unat i"
  have len: "length refs = length its" using assms(4) by (simp add: holds_iterators_def)
  obtain j where j: "ref_call_id ?ref = c" "retrieveIterator s c (ref_iterator_id ?ref) = Some j" "pending j (api_host s) = Some ?xs"
    and advanced: "\<And>t xs. pending j t = Some xs \<Longrightarrow>
       (\<And>k ys. k \<noteq> j \<Longrightarrow> pending k (api_host s) = Some ys \<Longrightarrow> pending k t = Some ys) \<Longrightarrow>
       holds_iterators pending c refs (its[unat i := xs]) (s\<lparr>api_host := t\<rparr>)"
    using holds_iterators_at [OF assms(4) True] by blast
  from iterator_answers [where ref = ?ref, OF assms(1) _ _ j(3)] j(1,2) assms(2) obtain gas t where
    t: "(?xs = [] \<and> t = api_host s) \<or> (?xs \<noteq> [] \<and> pending j t = Some (tl ?xs) \<and> content t = content (api_host s) \<and>
      (\<forall>k ys. k \<noteq> j \<longrightarrow> pending k (api_host s) = Some ys \<longrightarrow> pending k t = Some ys))"
    and answers: "cNext h rust_ptrs ?ref s = ((answered GoError_None gas)\<lparr>ans_out := map_option fst (if ?xs = [] then None else Some (hd ?xs)),
      ans_value := map_option snd (if ?xs = [] then None else Some (hd ?xs))\<rparr>, s\<lparr>api_host := t\<rparr>)"
    "cNextKey h rust_ptrs ?ref s = ((answered GoError_None gas)\<lparr>ans_out := map_option fst (if ?xs = [] then None else Some (hd ?xs))\<rparr>,
      s\<lparr>api_host := t\<rparr>)"
    "cNextValue h rust_ptrs ?ref s = ((answered GoError_None gas)\<lparr>ans_out := map_option snd (if ?xs = [] then None else Some (hd ?xs))\<rparr>,
      s\<lparr>api_host := t\<rparr>)" by auto
  show ?thesis
  proof (cases ?xs)
    case Nil
    with t answers assms(3-5) True len show ?thesis
      by (auto simp: step_matches_def backend_step_def backend_defs goResult_cases spec_next_def)
  next
    case (Cons x ys)
    with t have "holds_iterators pending c refs (its[unat i := ys]) (s\<lparr>api_host := t\<rparr>)" by (auto intro: advanced)
    with Cons t answers assms(3,5) True len show ?thesis
      by (auto simp: step_matches_def backend_step_def backend_defs goResult_cases spec_next_def)
  qed
qed

lemma pure_step:
  assumes "items_ok (content (api_host s))" and "holds_iterators pending c refs its s"
  shows "step_matches content pending c its s (Api_addr_canonicalize human) (backend_step e h c (Api_addr_canonicalize human) refs s)"
    and "step_matches content pending c its s (Api_addr_humanize canonical) (backend_step e h c (Api_addr_humanize canonical) refs s)"
    and "step_matches content pending c its s (Api_addr_validate human) (backend_step e h c (Api_addr_validate human) refs s)"
proof -
  have "snd (cCanonicalizeAddress h rust_ptrs x s) = s" "snd (cHumanizeAddress h rust_ptrs x s) = s"
    "snd (cValidateAddress h rust_ptrs x s) = s" for x
    by (simp_all add: cCanonicalizeAddress_def cHumanizeAddress_def cValidateAddress_def addressAnswer_def recoverPanic_def
        basic_apply split: option.split prod.split sum.split)
  with assms show
    "step_matches content pending c its s (Api_addr_canonicalize human) (backend_step e h c (Api_addr_canonicalize human) refs s)"
    "step_matches content pending c its s (Api_addr_humanize canonical) (backend_step e h c (Api_addr_humanize canonical) refs s)"
    "step_matches content pending c its s (Api_addr_validate human) (backend_step e h c (Api_addr_validate human) refs s)"
    by (simp_all add: step_matches_def backend_step_def backend_defs)
qed

lemma query_step:
  assumes "reads_only content pending (ho_querier h)" and "items_ok (content (api_host s))" and "holds_iterators pending c refs its s"
  shows "step_matches content pending c its s (Querier_query_raw request gl) (backend_step e h c (Querier_query_raw request gl) refs s)"
proof -
  let ?s = "snd (cQueryExternal h rust_ptrs gl (Some request) s)"
  have "iteratorFrames ?s = iteratorFrames s \<and> content (api_host ?s) = content (api_host s) \<and> kept pending (api_host s) (api_host ?s)"
  proof (cases "qr_Unmarshal (ho_querier h) request")
    case (Inl err)
    then show ?thesis
      by (simp add: cQueryExternal_def recoverPanic_def meteredCall_def RustQuery_def orEmpty_def bindM_apply basic_apply kept_def)
  next
    case (Inr req)
    obtain r u where run: "qr_Query (ho_querier h) req gl s = (r, u)" by (cases "qr_Query (ho_querier h) req gl s")
    then have "?s = u"
      by (cases r) (simp_all add: Inr cQueryExternal_def recoverPanic_def meteredCall_def RustQuery_def orEmpty_def tryM_def
          bindM_apply basic_apply split: go_panic.split)
    with run assms(1) show ?thesis unfolding reads_only_def by blast
  qed
  with assms(2) holds_iterators_kept [OF assms(3)] show ?thesis
    by (simp add: step_matches_def backend_step_def GoQuerier_query_raw_def)
qed

lemma request_step:
  assumes "ho_store h = kv" and "ho_iterator h = itr" and "reads_only content pending (ho_querier h)" and "c \<noteq> 0"
    and "items_ok (content (api_host s))" and "holds_iterators pending c refs its s"
  shows "step_matches content pending c its s q (backend_step e h c q refs s)"
proof (cases q)
  case (Storage_next i)
  then show ?thesis by (intro next_step [where i = i] assms) simp
next
  case (Storage_next_key i)
  then show ?thesis by (intro next_step [where i = i] assms) simp
next
  case (Storage_next_value i)
  then show ?thesis by (intro next_step [where i = i] assms) simp
qed (simp_all only: get_step [OF assms(1,5,6)] set_step [OF assms(1,5,6)] remove_step [OF assms(1,5,6)]
    scan_step [OF assms(1,5,6)] pure_step [OF assms(5,6)] query_step [OF assms(3,5,6)])

lemma run_refines:
  assumes "ho_store h = kv" and "ho_iterator h = itr" and "reads_only content pending (ho_querier h)" and "c \<noteq> 0"
    and "items_ok (content (api_host s))" and "holds_iterators pending c refs its s"
  shows "\<exists>its'. storage_accepts (content (api_host s), its) (transcript e h c run refs s) =
     Some (content (api_host (snd (serve h c (drive e run refs) s))), its')"
  using assms(5,6)
proof (induction run arbitrary: refs its s)
  case (Ask q k)
  obtain resp refs' s' where step: "backend_step e h c q refs s = ((resp, refs'), s')"
    by (cases "backend_step e h c q refs s") (metis prod.collapse)
  with request_step [OF assms(1-4) Ask.prems, of q e] obtain its' where
    "storage_step q resp (content (api_host s), its) = Some (content (api_host s'), its')"
    "items_ok (content (api_host s'))" "holds_iterators pending c refs' its' s'"
    by (auto simp: step_matches_def)
  with Ask.IH [of "k resp" s' refs' its'] show ?case by (auto simp: step serve_backend)
qed simp

end

section \<open>Lookup is isolated\<close>

lemma lookupGas_state: "lookupGas amount d l = (r, l') \<Longrightarrow> lk_db l' = lk_db l \<and> lk_iters l' = lk_iters l"
  by (auto simp: lookupGas_def split: prod.splits)

lemma pending_same: "lk_iters l' = lk_iters l \<Longrightarrow> lookup_pending j l' = lookup_pending j l"
  by (simp add: lookup_pending_def)

lemma lookup_outcome:
  "Lookup_Get k l = (r1, l1) \<Longrightarrow> lk_db l1 = lk_db l \<and> lk_iters l1 = lk_iters l"
  "Lookup_Set k v l = (r2, l2) \<Longrightarrow> lk_iters l2 = lk_iters l \<and> ((\<forall>u. r2 \<noteq> Ok u) \<longrightarrow> lk_db l2 = lk_db l)"
  "Lookup_Delete k l = (r2, l2) \<Longrightarrow> lk_iters l2 = lk_iters l \<and> ((\<forall>u. r2 \<noteq> Ok u) \<longrightarrow> lk_db l2 = lk_db l)"
  "Lookup_Iterator a b l = (r3, l3) \<Longrightarrow> lk_db l3 = lk_db l \<and> (lk_iters l3 = lk_iters l \<and> (\<forall>i. r3 \<noteq> Ok i) \<or>
     r3 = Ok (length (lk_iters l)) \<and> (\<exists>it. lk_iters l3 = lk_iters l @ [it]))"
  "Lookup_ReverseIterator a b l = (r3, l3) \<Longrightarrow> lk_db l3 = lk_db l \<and> (lk_iters l3 = lk_iters l \<and> (\<forall>i. r3 \<noteq> Ok i) \<or>
     r3 = Ok (length (lk_iters l)) \<and> (\<exists>it. lk_iters l3 = lk_iters l @ [it]))"
  by (auto simp: Lookup_Get_def Lookup_Set_def Lookup_Delete_def Lookup_Iterator_def Lookup_ReverseIterator_def orPanic_def
      newIterator_def bindM_def basic_apply split: prod.splits outcome.splits sum.splits dest!: lookupGas_state)

lemma lookup_next_outcome:
  "itr_Next lookup_iterator i l = (r, l') \<Longrightarrow> lk_db l' = lk_db l \<and> (\<exists>it. lk_iters l' = (lk_iters l)[i := it])"
  by (auto simp: lookup_iterator_def iterObject_def liftO_def bindM_def basic_apply
      split: prod.splits outcome.splits if_splits intro: exI [of _ "lk_iters l ! i"])

interpretation lookup_isolated: isolated_store lookup_store lookup_iterator lk_db lookup_pending
proof
  fix a b s s' and opened :: "nat outcome"
  show "kv_Iterator lookup_store a b s = (opened, s') \<Longrightarrow>
      lk_db s' = lk_db s \<and> kept lookup_pending s s' \<and> (\<forall>i. opened = Ok i \<longrightarrow> lookup_pending i s = None)"
    by (auto simp: lookup_store_def kept_def lookup_pending_def nth_append dest!: lookup_outcome(4) split: if_splits)
  show "kv_ReverseIterator lookup_store a b s = (opened, s') \<Longrightarrow>
      lk_db s' = lk_db s \<and> kept lookup_pending s s' \<and> (\<forall>i. opened = Ok i \<longrightarrow> lookup_pending i s = None)"
    by (auto simp: lookup_store_def kept_def lookup_pending_def nth_append dest!: lookup_outcome(5) split: if_splits)
next
  fix i s stepped s'
  assume "itr_Next lookup_iterator i s = (stepped, s')"
  from lookup_next_outcome [OF this]
  show "lk_db s' = lk_db s \<and> (\<forall>j xs. j \<noteq> i \<longrightarrow> lookup_pending j s = Some xs \<longrightarrow> lookup_pending j s' = Some xs)"
    by (auto simp: lookup_pending_def)
next
  fix k s s' and got :: "bytes option outcome"
  assume "kv_Get lookup_store k s = (got, s')"
  then show "lk_db s' = lk_db s \<and> kept lookup_pending s s'"
    using lookup_outcome(1) [of k s got s'] pending_same [of s' s] by (auto simp: lookup_store_def kept_def)
next
  fix k v s s' and r :: "unit outcome"
  assume "kv_Set lookup_store k v s = (r, s')"
  then show "kept lookup_pending s s' \<and> ((\<forall>u. r \<noteq> Ok u) \<longrightarrow> lk_db s' = lk_db s)"
    using lookup_outcome(2) [of k v s r s'] pending_same [of s' s] by (auto simp: lookup_store_def kept_def)
next
  fix k s s' and r :: "unit outcome"
  assume "kv_Delete lookup_store k s = (r, s')"
  then show "kept lookup_pending s s' \<and> ((\<forall>u. r \<noteq> Ok u) \<longrightarrow> lk_db s' = lk_db s)"
    using lookup_outcome(3) [of k s r s'] pending_same [of s' s] by (auto simp: lookup_store_def kept_def)
qed

section \<open>Properties\<close>


text \<open>A contract that scans its store, writes while it reads, and reads on.\<close>

definition sample_storage_run :: "bytes option wasm_run" where
  "sample_storage_run =
     Ask (Storage_scan None None Ascending) (\<lambda>_.
     Ask (Storage_set ''b'' ''new'') (\<lambda>_.
     Ask (Storage_next 0) (\<lambda>_.
     Ask (Storage_get ''b'') (\<lambda>resp.
     Return (case resp of OptBytes (Inr v, _) \<Rightarrow> v | _ \<Rightarrow> None)))))"

definition sample_env :: rust_env where
  "sample_env = \<lparr>fmt_debug = (\<lambda>_. []), hex_upper = (\<lambda>_. []), from_slice = (\<lambda>_. Inl ''no JSON'')\<rparr>"

definition sample_state_at :: "(u64 \<rightharpoonup> nat list) \<Rightarrow> bytes items \<Rightarrow> u64 \<Rightarrow> bytes memDBIterator list \<Rightarrow> (lookup_host, nat) api_state" where
  "sample_state_at frames db gas iters = \<lparr>iteratorFrames = frames, startedCalls = 1,
     api_host = \<lparr>lk_db = db, lk_meter = \<lparr>gm_limit = 1000000, gm_consumed = gas\<rparr>, lk_iters = iters\<rparr>\<rparr>"

lemma sample_api_state_at:
  "sample_api_state = sample_state_at Map.empty [(''a'', ''1''), (''b'', ''2''), (''c'', ''3'')] 0 []"
  by (simp add: sample_api_state_def sample_state_at_def)

lemmas sample_storage_defs = sample_state_at_def sample_host_def lookup_store_def lookup_iterator_def lookup_GasConsumed_def rust_ptrs_def
  recoverPanic_def checkPtrs_def meteredCall_def onHost_def lookupGas_def ConsumeGas_def addUint64Overflow_def orPanic_def orEmpty_def
  bindM_def basic_apply

lemma sample_scan_answer:
  "cScan sample_host 1 rust_ptrs None None 1 (sample_state_at Map.empty db 0 []) =
   ((answered GoError_None 261000)\<lparr>ans_iter := Some \<lparr>ref_call_id = 1, ref_iterator_id = 1\<rparr>\<rparr>,
    sample_state_at [1 \<mapsto> [0]] db 261000 [newMemDBIterator db None None False])"
  by (simp add: sample_storage_defs cScan_def tryM_def buildIterator_def Lookup_Iterator_def MemDB_Iterator_def empty_bound_def
      RangePrice_def newIterator_def storeIterator_def indexToIteratorID_def frame_of_def frameLenLimit_def)

lemma sample_set_answer:
  "cSet sample_host rust_ptrs (Some ''b'') (Some v) (sample_state_at frames db 261000 iters) =
   (answered GoError_None 187000, sample_state_at frames (kv_set db ''b'' v) 448000 iters)"
  by (simp add: sample_storage_defs cSet_def Lookup_Set_def MemDB_Set_def SetPrice_def)

lemma sample_next_answer:
  "cNext sample_host rust_ptrs \<lparr>ref_call_id = 1, ref_iterator_id = 1\<rparr>
     (sample_state_at [1 \<mapsto> [0]] db gas [\<lparr>it_item = Some (k, v), it_ch = x # ch, it_start = a, it_end = b\<rparr>]) =
   ((answered GoError_None 0)\<lparr>ans_out := Some k, ans_value := Some v\<rparr>,
    sample_state_at [1 \<mapsto> [0]] db gas [\<lparr>it_item = Some x, it_ch = ch, it_start = a, it_end = b\<rparr>])"
  by (simp add: sample_storage_defs cNext_def withIterator_def retrieveIterator_def iteratorIdToIndex_def iterObject_def
      iter_Valid_def iter_Key_def iter_Value_def iter_Next_def liftO_def)

lemma sample_get_answer:
  "cGet sample_host rust_ptrs (Some ''b'') (sample_state_at frames db 448000 iters) =
   ((answered GoError_None 99000)\<lparr>ans_out := kv_get db ''b''\<rparr>, sample_state_at frames db 547000 iters)"
  by (simp add: sample_storage_defs cGet_def Lookup_Get_def MemDB_Get_def GetPrice_def)


end
