(* ===== verification/Contract_Calls.thy ===== *)
theory Contract_Calls
  imports Contract_Storage Sample_Chain
begin

text \<open>
  Contract calls through all layers: what the VM returns for each way in which the library's VM may end, and
  calls the library refuses. And the address functions the keeper gives to contracts
  (\<open>x/wasm/keeper/api.go\<close>), as a contract sees them through the callbacks.
\<close>

section \<open>Address functions of the keeper\<close>

definition DefaultGasMultiplier :: u64 where "DefaultGasMultiplier = 140000"
definition DefaultGasCostHumanAddress :: u64 where "DefaultGasCostHumanAddress = 5"
definition DefaultGasCostCanonicalAddress :: u64 where "DefaultGasCostCanonicalAddress = 4"

definition costHumanize :: u64 where "costHumanize = DefaultGasCostHumanAddress * DefaultGasMultiplier"
definition costCanonical :: u64 where "costCanonical = DefaultGasCostCanonicalAddress * DefaultGasMultiplier"
definition costValidate :: u64 where
  "costValidate = (DefaultGasCostHumanAddress + DefaultGasCostCanonicalAddress) * DefaultGasMultiplier"

definition costJSONDeserialization :: UFraction where
  "costJSONDeserialization = \<lparr>frac_Numerator = 1 * DefaultGasMultiplier, frac_Denominator = 1\<rparr>"

text \<open>The text of the error of \<open>VerifyAddressFormat\<close> is a parameter.\<close>

definition humanizeAddress :: "'w sdk_ops \<Rightarrow> go_error \<Rightarrow> bytes \<Rightarrow> u64 \<times> (go_error + string)" where
  "humanizeAddress sdk invalid canon =
     (costHumanize, if \<not> sdk_VerifyAddressFormat sdk canon then Inl invalid else Inr (addr_String (sdk_addr sdk) canon))"

definition canonicalizeAddress :: "'w sdk_ops \<Rightarrow> string \<Rightarrow> u64 \<times> (go_error + bytes)" where
  "canonicalizeAddress sdk human = (costCanonical, AccAddressFromBech32 (sdk_addr sdk) human)"

definition validateAddress :: "'w sdk_ops \<Rightarrow> string \<Rightarrow> u64 \<times> (go_error + unit)" where
  "validateAddress sdk human = (costValidate, case AccAddressFromBech32 (sdk_addr sdk) human of
     Inl err \<Rightarrow> Inl err
   | Inr canonicalized \<Rightarrow>
       if addr_String (sdk_addr sdk) canonicalized \<noteq> human then Inl (PlainError ''address not normalized'') else Inr ())"

definition cosmwasmAPI :: "'w sdk_ops \<Rightarrow> go_error \<Rightarrow> GoAPI" where
  "cosmwasmAPI sdk invalid = \<lparr>api_HumanizeAddress = Some (humanizeAddress sdk invalid),
     api_CanonicalizeAddress = Some (canonicalizeAddress sdk), api_ValidateAddress = Some (validateAddress sdk)\<rparr>"

text \<open>
  C30: A contract that has validated an address can convert it to its canonical form and back: what it gets is the
  address it started with, for a fixed cost. \<open>AccAddressFromBech32\<close> is documented to check the format of the
  address it decodes and to refuse an empty one.
\<close>

theorem validated_address_roundtrip:
  assumes "ho_api h = cosmwasmAPI sdk invalid"
    and verified: "\<And>human c. AccAddressFromBech32 (sdk_addr sdk) human = Inr c \<Longrightarrow> sdk_VerifyAddressFormat sdk c \<and> c \<noteq> [] \<and> human \<noteq> []"
    and "valid_utf8 human"
    and "backend_step e h c (Api_addr_validate human) refs s = ((Unit (Inr (), gas), refs'), s')"
  shows "\<exists>canonical. backend_step e h c (Api_addr_canonicalize human) refs s =
       ((Bytes (Inr canonical, with_cost costCanonical), refs), s) \<and>
     backend_step e h c (Api_addr_humanize canonical) refs s = ((Bytes (Inr human, with_cost costHumanize), refs), s)"
proof -
  have "\<exists>canonical. AccAddressFromBech32 (sdk_addr sdk) human = Inr canonical \<and> addr_String (sdk_addr sdk) canonical = human"
    using assms(1,4)
    by (auto simp: backend_step_def GoApi_addr_validate_def cValidateAddress_def cosmwasmAPI_def validateAddress_def
        recoverPanic_def goResult_cases basic_apply orEmpty_def split: sum.splits if_splits)
  then obtain canonical where canonical: "AccAddressFromBech32 (sdk_addr sdk) human = Inr canonical"
    "addr_String (sdk_addr sdk) canonical = human" by blast
  with verified [OF canonical(1)] assms(1,3) show ?thesis
    by (intro exI [of _ canonical])
       (simp add: backend_step_def GoApi_addr_canonicalize_def GoApi_addr_humanize_def cCanonicalizeAddress_def cHumanizeAddress_def
          addressAnswer_def cosmwasmAPI_def canonicalizeAddress_def humanizeAddress_def recoverPanic_def goResult_cases outputOr_def
          basic_apply orEmpty_def answered_def)
qed

section \<open>How calls end\<close>

definition vmOutcome :: "vm_error + bytes \<Rightarrow> go_error + bytes option" where
  "vmOutcome res = (case res of
     Inr data \<Rightarrow> Inr (Some data)
   | Inl GasDepletion \<Rightarrow> Inl OutOfGasError
   | Inl (OtherVmError msg) \<Rightarrow> Inl (PlainError (''Error calling the VM: '' @ msg)))"

lemma serve_map_rust: "serve h c (map_rust f t) s = apfst f (serve h c t s)"
  by (induction t arbitrary: s) (simp_all del: vtable.simps)

lemma callReturn_result:
  "callResult (libwasmvm strerror cw) (callReturn (vmResult (Returned res), report)) = (report, vmOutcome res)"
  by (auto simp: callResult_def callReturn_def handle_c_error_def catch_unwind_def vmResult_def set_error_def errorWithMessage_def
      vmOutcome_def split: sum.split vm_error.split)

definition callHost :: "('s, 'i) call_args \<Rightarrow> ('s, 'i) call_host" where
  "callHost a = \<lparr>ho_store = arg_store a, ho_iterator = arg_iterator a, ho_GasConsumed = arg_GasConsumed a,
     ho_api = the (arg_api a), ho_querier = the (arg_querier a)\<rparr>"

definition complete_args :: "('s, 'i) call_args \<Rightarrow> bool" where
  "complete_args a \<longleftrightarrow> arg_querier a \<noteq> None \<and> (\<exists>api. arg_api a = Some api \<and> api_HumanizeAddress api \<noteq> None \<and>
     api_CanonicalizeAddress api \<noteq> None \<and> api_ValidateAddress api \<noteq> None)"

lemma apiCall_run:
  assumes "complete_args a" and "c = word_of_nat (Suc (startedCalls s))"
    and "serve (callHost a) c f (s\<lparr>startedCalls := Suc (startedCalls s)\<rparr>) = (res, t)"
    and "endCall (arg_iterator a) c t = (Ok u, s')"
  shows "apiCall lib a f s = (Ok (callResult lib res), s')"
  using assms
  by (auto simp: apiCall_def complete_args_def callHost_def checkAndPinAPI_def checkAndPinQuerier_def startCall_def latestCallID_def
      bindM_apply basic_apply)


text \<open>A contract that reads a key and then runs out of gas.\<close>

definition sample_vm_run :: vm_run where
  "sample_vm_run = Ask (Storage_get ''a'') (\<lambda>_. Return (Returned (Inl GasDepletion, EmptyGasReport 100)))"

definition sample_cw :: "unit cosmwasm_vm" where
  "sample_cw = \<lparr>cw_env = sample_env,
     cw_save_wasm = (\<lambda>w v. (Returned (Inr w), v)), cw_save_wasm_unchecked = (\<lambda>w v. (Returned (Inr w), v)),
     cw_remove_wasm = (\<lambda>_ v. (Returned (Inr ()), v)), cw_load_wasm = (\<lambda>_ _. Returned (Inl (OtherVmError ''no code''))),
     cw_pin = (\<lambda>_ v. (Returned (Inr ()), v)), cw_unpin = (\<lambda>_ v. (Returned (Inr ()), v)),
     cw_analyze = (\<lambda>_ _. Returned (Inl (OtherVmError ''no code''))),
     cw_metrics = (\<lambda>_. \<lparr>HitsPinnedMemoryCache = 0, HitsMemoryCache = 0, HitsFsCache = 0, Misses = 0, ElementsPinnedMemoryCache = 0,
       ElementsMemoryCache = 0, SizePinnedMemoryCache = 0, SizeMemoryCache = 0\<rparr>),
     cw_pinned_metrics = (\<lambda>_. Inr []), cw_get_instance = (\<lambda>_ _. Returned (Inr ())),
     cw_call_instantiate_raw = (\<lambda>_ _ _ _ _. sample_vm_run),
     cw_call_execute_raw = (\<lambda>_ _ _ _ _. sample_vm_run),
     cw_call_migrate_with_info_raw = (\<lambda>_ _ _ _ _. sample_vm_run),
     cw_call_migrate_raw = (\<lambda>_ _ _ _. sample_vm_run),
     cw_call_sudo_raw = (\<lambda>_ _ _ _. sample_vm_run),
     cw_call_reply_raw = (\<lambda>_ _ _ _. sample_vm_run),
     cw_call_query_raw = (\<lambda>_ _ _ _. sample_vm_run),
     cw_call_ibc_channel_open_raw = (\<lambda>_ _ _ _. sample_vm_run),
     cw_call_ibc_channel_connect_raw = (\<lambda>_ _ _ _. sample_vm_run),
     cw_call_ibc_channel_close_raw = (\<lambda>_ _ _ _. sample_vm_run),
     cw_call_ibc_packet_receive_raw = (\<lambda>_ _ _ _. sample_vm_run),
     cw_call_ibc_packet_ack_raw = (\<lambda>_ _ _ _. sample_vm_run),
     cw_call_ibc_packet_timeout_raw = (\<lambda>_ _ _ _. sample_vm_run),
     cw_call_ibc_source_callback_raw = (\<lambda>_ _ _ _. sample_vm_run),
     cw_call_ibc_destination_callback_raw = (\<lambda>_ _ _ _. sample_vm_run)\<rparr>"


theorem validated_address_roundtrip_witness:
  "\<exists>canonical. backend_step sample_env (sample_host\<lparr>ho_api := cosmwasmAPI sample_sdk (PlainError ''invalid'')\<rparr>) 1
       (Api_addr_canonicalize (addr_String (sdk_addr sample_sdk) ''alice'')) [] sample_api_state =
       ((Bytes (Inr canonical, with_cost costCanonical), []), sample_api_state) \<and>
     backend_step sample_env (sample_host\<lparr>ho_api := cosmwasmAPI sample_sdk (PlainError ''invalid'')\<rparr>) 1
       (Api_addr_humanize canonical) [] sample_api_state =
       ((Bytes (Inr (addr_String (sdk_addr sample_sdk) ''alice''), with_cost costHumanize), []), sample_api_state)"
proof (rule validated_address_roundtrip)
  show "ho_api (sample_host\<lparr>ho_api := cosmwasmAPI sample_sdk (PlainError ''invalid'')\<rparr>) = cosmwasmAPI sample_sdk (PlainError ''invalid'')"
    by simp
  show "valid_utf8 (addr_String (sdk_addr sample_sdk) ''alice'')"
    by (simp add: sample_sdk_def sample_codec_def utf8_chunk_def byteOf_def)
  show "sdk_VerifyAddressFormat sample_sdk c \<and> c \<noteq> [] \<and> human \<noteq> []" if "AccAddressFromBech32 (sdk_addr sample_sdk) human = Inr c" for human c
    using that by (auto simp: sample_sdk_def sample_codec_def split: if_splits)
  show "backend_step sample_env (sample_host\<lparr>ho_api := cosmwasmAPI sample_sdk (PlainError ''invalid'')\<rparr>) 1
      (Api_addr_validate (addr_String (sdk_addr sample_sdk) ''alice'')) [] sample_api_state =
      ((Unit (Inr (), with_cost costValidate), []), sample_api_state)"
    by (simp add: backend_step_def GoApi_addr_validate_def cValidateAddress_def cosmwasmAPI_def validateAddress_def recoverPanic_def
        goResult_cases basic_apply orEmpty_def sample_sdk_def sample_codec_def answered_def)
qed

end
