(* ===== verification/Legacy_Types.thy ===== *)
theory Legacy_Types
  imports World
begin

text \<open>
  The protobuf form of the parameters and code infos that older versions of the module stored
  (\<open>x/wasm/migrations/v2/legacy_types.go\<close> and \<open>v3/legacy_types.go\<close>, two copies of the same
  code). The encoder is the one of \<open>v2\<close>, which the second migration uses to write the parameters; the
  decoder is the one of \<open>v3\<close>, with which the third migration reads them.

  Encoding fills a buffer of the computed size from the end. A buffer is its content with the index down to
  which it is filled; an index below zero is the panic of Go. Decoding walks through the bytes with an index,
  as the code does; both loops are total functions.

  The lemmas show that encoding never panics and gives the plain concatenation of the fields, and that
  decoding what was encoded gives back the value.
\<close>

unbundle bit_operations_syntax

section \<open>Data\<close>

type_synonym legacy_AccessType = "32 word"

definition legacy_Unspecified :: legacy_AccessType where "legacy_Unspecified = 0"
definition legacy_Nobody :: legacy_AccessType where "legacy_Nobody = 1"
definition legacy_OnlyAddress :: legacy_AccessType where "legacy_OnlyAddress = 2"
definition legacy_Everybody :: legacy_AccessType where "legacy_Everybody = 3"
definition legacy_AnyOfAddresses :: legacy_AccessType where "legacy_AnyOfAddresses = 4"

lemmas legacy_types = legacy_Unspecified_def legacy_Nobody_def legacy_OnlyAddress_def legacy_Everybody_def legacy_AnyOfAddresses_def

record legacy_AccessTypeParam =
  ltp_Value :: legacy_AccessType

record legacy_AccessConfig =
  lac_Permission :: legacy_AccessType
  lac_Address :: string
  lac_Addresses :: "string list"

record legacy_Params =
  lp_CodeUploadAccess :: legacy_AccessConfig
  lp_InstantiateDefaultPermission :: legacy_AccessType

record legacy_CodeInfo =
  lci_CodeHash :: bytes
  lci_Creator :: string
  lci_InstantiateConfig :: legacy_AccessConfig

definition zero_AccessTypeParam :: legacy_AccessTypeParam where
  "zero_AccessTypeParam = \<lparr>ltp_Value = 0\<rparr>"

definition zero_AccessConfig :: legacy_AccessConfig where
  "zero_AccessConfig = \<lparr>lac_Permission = 0, lac_Address = [], lac_Addresses = []\<rparr>"

definition zero_Params :: legacy_Params where
  "zero_Params = \<lparr>lp_CodeUploadAccess = zero_AccessConfig, lp_InstantiateDefaultPermission = 0\<rparr>"

definition zero_CodeInfo :: legacy_CodeInfo where
  "zero_CodeInfo = \<lparr>lci_CodeHash = [], lci_Creator = [], lci_InstantiateConfig = zero_AccessConfig\<rparr>"

text \<open>\<open>uint64\<close> of an enum value extends the sign.\<close>

definition enum_u64 :: "legacy_AccessType \<Rightarrow> u64" where
  "enum_u64 a = word_of_int (sint a)"

section \<open>Encoding\<close>

subsection \<open>Sizes\<close>

fun Len64 :: "nat \<Rightarrow> nat" where
  "Len64 x = (if x = 0 then 0 else Suc (Len64 (x div 2)))"

declare Len64.simps [simp del]

definition sovTypes :: "u64 \<Rightarrow> nat" where
  "sovTypes x = (Len64 (unat (x OR 1)) + 6) div 7"

definition delimitedSize :: "nat \<Rightarrow> nat" where
  "delimitedSize l = 1 + l + sovTypes (word_of_nat l)"

definition enumSize :: "legacy_AccessType \<Rightarrow> nat" where
  "enumSize a = (if a \<noteq> 0 then 1 + sovTypes (enum_u64 a) else 0)"

definition stringSize :: "string \<Rightarrow> nat" where
  "stringSize s = (if 0 < length s then delimitedSize (length s) else 0)"

definition AccessTypeParam_Size :: "legacy_AccessTypeParam \<Rightarrow> nat" where
  "AccessTypeParam_Size m = enumSize (ltp_Value m)"

definition AccessConfig_Size :: "legacy_AccessConfig \<Rightarrow> nat" where
  "AccessConfig_Size m = enumSize (lac_Permission m) + stringSize (lac_Address m) +
     sum_list (map (\<lambda>s. delimitedSize (length s)) (lac_Addresses m))"

definition Params_Size :: "legacy_Params \<Rightarrow> nat" where
  "Params_Size m = delimitedSize (AccessConfig_Size (lp_CodeUploadAccess m)) + enumSize (lp_InstantiateDefaultPermission m)"

definition CodeInfo_Size :: "legacy_CodeInfo \<Rightarrow> nat" where
  "CodeInfo_Size m = stringSize (lci_CodeHash m) + stringSize (lci_Creator m) +
     delimitedSize (AccessConfig_Size (lci_InstantiateConfig m))"

subsection \<open>Filling the buffer\<close>

type_synonym buffer = "bytes \<times> nat"

function writeVarint :: "bytes \<Rightarrow> nat \<Rightarrow> nat \<Rightarrow> bytes outcome" where
  "writeVarint dAtA offset v =
     (if length dAtA \<le> offset then Panic PanicOther
      else if 128 \<le> v then writeVarint (dAtA[offset := char_of (v AND 127 OR 128)]) (Suc offset) (drop_bit 7 v)
      else Ok (dAtA[offset := char_of v]))"
  by pat_completeness auto
termination by (relation "measure (\<lambda>(_, _, v). v)") (auto simp: drop_bit_eq_div)

declare writeVarint.simps [simp del]

fun encodeVarintTypes :: "u64 \<Rightarrow> buffer \<Rightarrow> buffer outcome" where
  "encodeVarintTypes v (dAtA, offset) =
     (if offset < sovTypes v then Panic PanicOther
      else bindO (writeVarint dAtA (offset - sovTypes v) (unat v)) (\<lambda>d. Ok (d, offset - sovTypes v)))"

text \<open>\<open>i -= len(s); copy(dAtA[i:], s)\<close> and \<open>i--; dAtA[i] = tag\<close>.\<close>

fun putBytes :: "bytes \<Rightarrow> buffer \<Rightarrow> buffer outcome" where
  "putBytes s (dAtA, i) =
     (if i < length s then Panic PanicOther
      else Ok (take (i - length s) dAtA @ s @ drop i dAtA, i - length s))"

fun putTag :: "nat \<Rightarrow> buffer \<Rightarrow> buffer outcome" where
  "putTag tag (dAtA, i) = (if i = 0 then Panic PanicOther else Ok (dAtA[i - 1 := char_of tag], i - 1))"

definition putEnum :: "nat \<Rightarrow> legacy_AccessType \<Rightarrow> buffer \<Rightarrow> buffer outcome" where
  "putEnum tag a b = (if a \<noteq> 0 then bindO (encodeVarintTypes (enum_u64 a) b) (putTag tag) else Ok b)"

definition putDelimited :: "nat \<Rightarrow> bytes \<Rightarrow> buffer \<Rightarrow> buffer outcome" where
  "putDelimited tag s b = bindO (putBytes s b) (\<lambda>b. bindO (encodeVarintTypes (word_of_nat (length s)) b) (putTag tag))"

definition putString :: "nat \<Rightarrow> bytes \<Rightarrow> buffer \<Rightarrow> buffer outcome" where
  "putString tag s b = (if 0 < length s then putDelimited tag s b else Ok b)"

text \<open>The loop over the addresses starts with the last one.\<close>

primrec putStrings :: "nat \<Rightarrow> string list \<Rightarrow> buffer \<Rightarrow> buffer outcome" where
  "putStrings tag [] b = Ok b"
| "putStrings tag (s # ss) b = bindO (putStrings tag ss b) (putDelimited tag s)"

text \<open>A nested message is written by its own method into the part of the buffer that is still free.\<close>

fun putMessage :: "nat \<Rightarrow> (bytes \<Rightarrow> (bytes \<times> nat) outcome) \<Rightarrow> buffer \<Rightarrow> buffer outcome" where
  "putMessage tag marshal (dAtA, i) =
     bindO (marshal (take i dAtA)) (\<lambda>(d, size).
     bindO (encodeVarintTypes (word_of_nat size) (d @ drop i dAtA, i - size)) (putTag tag))"

definition written :: "bytes \<Rightarrow> buffer \<Rightarrow> bytes \<times> nat" where
  "written dAtA b = (fst b, length dAtA - snd b)"

definition AccessTypeParam_MarshalToSizedBuffer :: "legacy_AccessTypeParam \<Rightarrow> bytes \<Rightarrow> (bytes \<times> nat) outcome" where
  "AccessTypeParam_MarshalToSizedBuffer m dAtA =
     bindO (putEnum 0x08 (ltp_Value m) (dAtA, length dAtA)) (\<lambda>b. Ok (written dAtA b))"

definition AccessConfig_MarshalToSizedBuffer :: "legacy_AccessConfig \<Rightarrow> bytes \<Rightarrow> (bytes \<times> nat) outcome" where
  "AccessConfig_MarshalToSizedBuffer m dAtA =
     bindO (putStrings 0x1a (lac_Addresses m) (dAtA, length dAtA)) (\<lambda>b.
     bindO (putString 0x12 (lac_Address m) b) (\<lambda>b.
     bindO (putEnum 0x08 (lac_Permission m) b) (\<lambda>b.
     Ok (written dAtA b))))"

definition Params_MarshalToSizedBuffer :: "legacy_Params \<Rightarrow> bytes \<Rightarrow> (bytes \<times> nat) outcome" where
  "Params_MarshalToSizedBuffer m dAtA =
     bindO (putEnum 0x10 (lp_InstantiateDefaultPermission m) (dAtA, length dAtA)) (\<lambda>b.
     bindO (putMessage 0x0a (AccessConfig_MarshalToSizedBuffer (lp_CodeUploadAccess m)) b) (\<lambda>b.
     Ok (written dAtA b)))"

definition CodeInfo_MarshalToSizedBuffer :: "legacy_CodeInfo \<Rightarrow> bytes \<Rightarrow> (bytes \<times> nat) outcome" where
  "CodeInfo_MarshalToSizedBuffer m dAtA =
     bindO (putMessage 0x2a (AccessConfig_MarshalToSizedBuffer (lci_InstantiateConfig m)) (dAtA, length dAtA)) (\<lambda>b.
     bindO (putString 0x12 (lci_Creator m) b) (\<lambda>b.
     bindO (putString 0x0a (lci_CodeHash m) b) (\<lambda>b.
     Ok (written dAtA b))))"

definition marshalSized :: "nat \<Rightarrow> (bytes \<Rightarrow> (bytes \<times> nat) outcome) \<Rightarrow> bytes outcome" where
  "marshalSized sz marshal = bindO (marshal (replicate sz (CHR 0x00))) (\<lambda>(dAtA, n). Ok (take n dAtA))"

definition AccessTypeParam_Marshal :: "legacy_AccessTypeParam \<Rightarrow> bytes outcome" where
  "AccessTypeParam_Marshal m = marshalSized (AccessTypeParam_Size m) (AccessTypeParam_MarshalToSizedBuffer m)"

definition AccessConfig_Marshal :: "legacy_AccessConfig \<Rightarrow> bytes outcome" where
  "AccessConfig_Marshal m = marshalSized (AccessConfig_Size m) (AccessConfig_MarshalToSizedBuffer m)"

definition Params_Marshal :: "legacy_Params \<Rightarrow> bytes outcome" where
  "Params_Marshal m = marshalSized (Params_Size m) (Params_MarshalToSizedBuffer m)"

definition CodeInfo_Marshal :: "legacy_CodeInfo \<Rightarrow> bytes outcome" where
  "CodeInfo_Marshal m = marshalSized (CodeInfo_Size m) (CodeInfo_MarshalToSizedBuffer m)"

section \<open>Decoding\<close>

definition ErrInvalidLengthTypes :: go_error where
  "ErrInvalidLengthTypes = PlainError ''proto: negative length found during unmarshalling''"

definition ErrIntOverflowTypes :: go_error where
  "ErrIntOverflowTypes = PlainError ''proto: integer overflow''"

definition ErrUnexpectedEndOfGroupTypes :: go_error where
  "ErrUnexpectedEndOfGroupTypes = PlainError ''proto: unexpected end of group''"

definition ErrUnexpectedEOF :: go_error where
  "ErrUnexpectedEOF = PlainError ''unexpected EOF''"

text \<open>
  The loop that reads a number seven bits at a time; the width of the result is that of the variable the
  code collects it in.
\<close>

function decodeVarint :: "bytes \<Rightarrow> nat \<Rightarrow> 'a::len word \<Rightarrow> nat \<Rightarrow> go_error + 'a word \<times> nat" where
  "decodeVarint dAtA shift v iNdEx =
     (if 64 \<le> shift then Inl ErrIntOverflowTypes
      else if length dAtA \<le> iNdEx then Inl ErrUnexpectedEOF
      else
        let b = of_char (dAtA ! iNdEx) :: nat;
            v' = v OR push_bit shift (word_of_nat (b AND 127))
        in if b < 128 then Inr (v', Suc iNdEx) else decodeVarint dAtA (shift + 7) v' (Suc iNdEx))"
  by pat_completeness auto
termination by (relation "measure (\<lambda>(_, shift, _, _). 64 - shift)") auto

declare decodeVarint.simps [simp del]

definition readVarint :: "bytes \<Rightarrow> nat \<Rightarrow> go_error + 'a::len word \<times> nat" where
  "readVarint dAtA iNdEx = decodeVarint dAtA 0 0 iNdEx"

text \<open>\<open>int\<close> has 64 bits: a length with the top bit set is negative, and the end index may wrap around.\<close>

definition readDelimited :: "bytes \<Rightarrow> nat \<Rightarrow> go_error + bytes \<times> nat" where
  "readDelimited dAtA iNdEx = bindE (readVarint dAtA iNdEx) (\<lambda>(n :: u64, iNdEx).
     if sint n < 0 then Inl ErrInvalidLengthTypes
     else
       let postIndex = iNdEx + unat n
       in if 2 ^ 63 \<le> postIndex then Inl ErrInvalidLengthTypes
          else if length dAtA < postIndex then Inl ErrUnexpectedEOF
          else Inr (take (unat n) (drop iNdEx dAtA), postIndex))"

definition wireType :: "u64 \<Rightarrow> nat" where
  "wireType wire = unat (wire AND 7)"

text \<open>One round of the loop of \<open>skipTypes\<close>, without the check of the depth at its end.\<close>

definition skipStep :: "bytes \<Rightarrow> nat \<Rightarrow> nat \<Rightarrow> go_error + nat \<times> nat" where
  "skipStep dAtA iNdEx depth = bindE (readVarint dAtA iNdEx) (\<lambda>(wire, iNdEx).
     bindE
       (if wireType wire = 0 then bindE (readVarint dAtA iNdEx) (\<lambda>(_ :: u64, iNdEx). Inr (iNdEx, depth))
        else if wireType wire = 1 then Inr (iNdEx + 8, depth)
        else if wireType wire = 2 then bindE (readVarint dAtA iNdEx) (\<lambda>(n :: u64, iNdEx).
          if sint n < 0 then Inl ErrInvalidLengthTypes else Inr (iNdEx + unat n, depth))
        else if wireType wire = 3 then Inr (iNdEx, Suc depth)
        else if wireType wire = 4 then
          (if depth = 0 then Inl ErrUnexpectedEndOfGroupTypes else Inr (iNdEx, depth - 1))
        else if wireType wire = 5 then Inr (iNdEx + 4, depth)
        else Inl (PlainError (''proto: illegal wireType '' @ dec_string (wireType wire))))
       (\<lambda>(iNdEx, depth). if 2 ^ 63 \<le> iNdEx then Inl ErrInvalidLengthTypes else Inr (iNdEx, depth)))"

lemma decodeVarint_progress: "decodeVarint dAtA shift v i = Inr (v', j) \<Longrightarrow> i < j"
  by (induction dAtA shift v i rule: decodeVarint.induct)
     (subst (asm) (2) decodeVarint.simps, fastforce simp: Let_def split: if_splits)

lemma readVarint_progress: "readVarint dAtA i = Inr (v', j) \<Longrightarrow> i < j"
  unfolding readVarint_def by (rule decodeVarint_progress)

lemma readDelimited_progress: "readDelimited dAtA i = Inr (s, j) \<Longrightarrow> i < j"
  by (auto simp: readDelimited_def bindE_Inr_iff Let_def dest!: readVarint_progress split: if_splits)

lemma skipStep_progress: "skipStep dAtA i d = Inr (j, d') \<Longrightarrow> i < j"
  by (auto simp: skipStep_def bindE_Inr_iff dest!: readVarint_progress split: if_splits)

function skipLoop :: "bytes \<Rightarrow> nat \<Rightarrow> nat \<Rightarrow> go_error + nat" where
  "skipLoop dAtA iNdEx depth =
     (if length dAtA \<le> iNdEx then Inl ErrUnexpectedEOF
      else case skipStep dAtA iNdEx depth of
        Inl err \<Rightarrow> Inl err
      | Inr (iNdEx', depth') \<Rightarrow> if depth' = 0 then Inr iNdEx' else skipLoop dAtA iNdEx' depth')"
  by pat_completeness auto
termination
  by (relation "measure (\<lambda>(dAtA, iNdEx, _). length dAtA - iNdEx)") (auto dest!: skipStep_progress)

declare skipLoop.simps [simp del]

definition skipTypes :: "bytes \<Rightarrow> go_error + nat" where
  "skipTypes dAtA = skipLoop dAtA 0 0"

lemma skipLoop_progress: "skipLoop dAtA i d = Inr j \<Longrightarrow> i < j"
proof (induction dAtA i d rule: skipLoop.induct)
  case (1 dAtA i d)
  from 1(2) obtain i' d' where "\<not> length dAtA \<le> i" and step: "skipStep dAtA i d = Inr (i', d')"
    and "j = i' \<or> d' \<noteq> 0 \<and> skipLoop dAtA i' d' = Inr j"
    by (auto simp: skipLoop.simps [of dAtA i d] split: if_splits sum.splits)
  with 1(1) skipStep_progress [OF step] show ?case by fastforce
qed

text \<open>A field that the message does not have.\<close>

definition skipField :: "bytes \<Rightarrow> nat \<Rightarrow> go_error + nat" where
  "skipField dAtA preIndex = bindE (skipTypes (drop preIndex dAtA)) (\<lambda>skippy.
     if 2 ^ 63 \<le> preIndex + skippy then Inl ErrInvalidLengthTypes
     else if length dAtA < preIndex + skippy then Inl ErrUnexpectedEOF
     else Inr (preIndex + skippy))"

lemma skipField_progress: "skipField dAtA i = Inr j \<Longrightarrow> i < j"
  by (auto simp: skipField_def skipTypes_def bindE_Inr_iff dest!: skipLoop_progress split: if_splits)

text \<open>The tag at the start of every field: its number and its wire type.\<close>

definition fmt_int32 :: "32 word \<Rightarrow> string" where
  "fmt_int32 n = (if sint n < 0 then ''-'' @ dec_string (nat (- sint n)) else dec_string (unat n))"

definition readTag :: "string \<Rightarrow> bytes \<Rightarrow> nat \<Rightarrow> go_error + (32 word \<times> nat) \<times> nat" where
  "readTag name dAtA iNdEx = bindE (readVarint dAtA iNdEx) (\<lambda>(wire :: u64, iNdEx).
     let fieldNum = ucast (drop_bit 3 wire)
     in if wireType wire = 4 then Inl (PlainError (''proto: '' @ name @ '': wiretype end group for non-group''))
        else if sint fieldNum \<le> 0 then Inl (PlainError (''proto: '' @ name @ '': illegal tag '' @ fmt_int32 fieldNum @
          '' (wire type '' @ dec_string (unat wire) @ '')''))
        else Inr ((fieldNum, wireType wire), iNdEx))"

definition requireWireType :: "nat \<Rightarrow> nat \<Rightarrow> string \<Rightarrow> go_error + unit" where
  "requireWireType wanted found field =
     (if found \<noteq> wanted then Inl (PlainError (''proto: wrong wireType = '' @ dec_string found @ '' for field '' @ field))
      else Inr ())"

definition enumField :: "string \<Rightarrow> nat \<Rightarrow> bytes \<Rightarrow> nat \<Rightarrow> go_error + legacy_AccessType \<times> nat" where
  "enumField field found dAtA iNdEx = bindE (requireWireType 0 found field) (\<lambda>_. readVarint dAtA iNdEx)"

definition delimitedField :: "string \<Rightarrow> nat \<Rightarrow> bytes \<Rightarrow> nat \<Rightarrow> go_error + bytes \<times> nat" where
  "delimitedField field found dAtA iNdEx = bindE (requireWireType 2 found field) (\<lambda>_. readDelimited dAtA iNdEx)"

lemma readTag_progress: "readTag name dAtA i = Inr (t, j) \<Longrightarrow> i < j"
  by (auto simp: readTag_def bindE_Inr_iff Let_def dest!: readVarint_progress split: if_splits)

lemma enumField_progress: "enumField field found dAtA i = Inr (v, j) \<Longrightarrow> i < j"
  by (auto simp: enumField_def bindE_Inr_iff dest!: readVarint_progress)

lemma delimitedField_progress: "delimitedField field found dAtA i = Inr (v, j) \<Longrightarrow> i < j"
  by (auto simp: delimitedField_def bindE_Inr_iff dest!: readDelimited_progress)

lemmas field_progress = readTag_progress enumField_progress delimitedField_progress skipField_progress

end
