(* ===== verification/Legacy_Codec.thy ===== *)
theory Legacy_Codec
  imports Legacy_Types
begin

text \<open>
  The four messages of \<open>legacy_types.go\<close>: their decoders (one step per field and the loop over the fields)
  and the round trip. \<open>AccessConfig_bytes\<close>, \<open>Params_bytes\<close> and \<open>CodeInfo_bytes\<close> are the
  reference encodings: the fields one after the other, without buffers.
\<close>

section \<open>Decoders\<close>

definition AccessTypeParam_step :: "bytes \<Rightarrow> nat \<Rightarrow> legacy_AccessTypeParam \<Rightarrow> go_error + legacy_AccessTypeParam \<times> nat" where
  "AccessTypeParam_step dAtA preIndex m = bindE (readTag ''AccessTypeParam'' dAtA preIndex) (\<lambda>((fieldNum, wt), iNdEx).
     if fieldNum = 1 then bindE (enumField ''Value'' wt dAtA iNdEx) (\<lambda>(v, iNdEx). Inr (m\<lparr>ltp_Value := v\<rparr>, iNdEx))
     else bindE (skipField dAtA preIndex) (\<lambda>iNdEx. Inr (m, iNdEx)))"

definition AccessConfig_step :: "bytes \<Rightarrow> nat \<Rightarrow> legacy_AccessConfig \<Rightarrow> go_error + legacy_AccessConfig \<times> nat" where
  "AccessConfig_step dAtA preIndex m = bindE (readTag ''AccessConfig'' dAtA preIndex) (\<lambda>((fieldNum, wt), iNdEx).
     if fieldNum = 1 then bindE (enumField ''Permission'' wt dAtA iNdEx) (\<lambda>(v, iNdEx). Inr (m\<lparr>lac_Permission := v\<rparr>, iNdEx))
     else if fieldNum = 2 then bindE (delimitedField ''Address'' wt dAtA iNdEx) (\<lambda>(s, iNdEx). Inr (m\<lparr>lac_Address := s\<rparr>, iNdEx))
     else if fieldNum = 3 then bindE (delimitedField ''Addresses'' wt dAtA iNdEx) (\<lambda>(s, iNdEx).
       Inr (m\<lparr>lac_Addresses := lac_Addresses m @ [s]\<rparr>, iNdEx))
     else bindE (skipField dAtA preIndex) (\<lambda>iNdEx. Inr (m, iNdEx)))"

lemma AccessTypeParam_step_progress: "AccessTypeParam_step dAtA i m = Inr (m', j) \<Longrightarrow> i < j"
  by (fastforce simp: AccessTypeParam_step_def bindE_Inr_iff dest!: field_progress split: if_splits)

lemma AccessConfig_step_progress: "AccessConfig_step dAtA i m = Inr (m', j) \<Longrightarrow> i < j"
  by (fastforce simp: AccessConfig_step_def bindE_Inr_iff dest!: field_progress split: if_splits)

function AccessTypeParam_loop :: "bytes \<Rightarrow> nat \<Rightarrow> legacy_AccessTypeParam \<Rightarrow> go_error + legacy_AccessTypeParam" where
  "AccessTypeParam_loop dAtA iNdEx m =
     (if iNdEx < length dAtA
      then case AccessTypeParam_step dAtA iNdEx m of
          Inl err \<Rightarrow> Inl err
        | Inr (m', iNdEx') \<Rightarrow> AccessTypeParam_loop dAtA iNdEx' m'
      else if length dAtA < iNdEx then Inl ErrUnexpectedEOF
      else Inr m)"
  by pat_completeness auto
termination
  by (relation "measure (\<lambda>(dAtA, iNdEx, _). length dAtA - iNdEx)") (auto dest!: AccessTypeParam_step_progress)

function AccessConfig_loop :: "bytes \<Rightarrow> nat \<Rightarrow> legacy_AccessConfig \<Rightarrow> go_error + legacy_AccessConfig" where
  "AccessConfig_loop dAtA iNdEx m =
     (if iNdEx < length dAtA
      then case AccessConfig_step dAtA iNdEx m of
          Inl err \<Rightarrow> Inl err
        | Inr (m', iNdEx') \<Rightarrow> AccessConfig_loop dAtA iNdEx' m'
      else if length dAtA < iNdEx then Inl ErrUnexpectedEOF
      else Inr m)"
  by pat_completeness auto
termination
  by (relation "measure (\<lambda>(dAtA, iNdEx, _). length dAtA - iNdEx)") (auto dest!: AccessConfig_step_progress)

definition AccessTypeParam_Unmarshal :: "legacy_AccessTypeParam \<Rightarrow> bytes \<Rightarrow> go_error + legacy_AccessTypeParam" where
  "AccessTypeParam_Unmarshal m dAtA = AccessTypeParam_loop dAtA 0 m"

definition AccessConfig_Unmarshal :: "legacy_AccessConfig \<Rightarrow> bytes \<Rightarrow> go_error + legacy_AccessConfig" where
  "AccessConfig_Unmarshal m dAtA = AccessConfig_loop dAtA 0 m"

text \<open>A nested message is decoded into the value the field already has.\<close>

definition Params_step :: "bytes \<Rightarrow> nat \<Rightarrow> legacy_Params \<Rightarrow> go_error + legacy_Params \<times> nat" where
  "Params_step dAtA preIndex p = bindE (readTag ''Params'' dAtA preIndex) (\<lambda>((fieldNum, wt), iNdEx).
     if fieldNum = 1 then bindE (delimitedField ''CodeUploadAccess'' wt dAtA iNdEx) (\<lambda>(s, iNdEx).
       bindE (AccessConfig_Unmarshal (lp_CodeUploadAccess p) s) (\<lambda>c. Inr (p\<lparr>lp_CodeUploadAccess := c\<rparr>, iNdEx)))
     else if fieldNum = 2 then bindE (enumField ''InstantiateDefaultPermission'' wt dAtA iNdEx) (\<lambda>(v, iNdEx).
       Inr (p\<lparr>lp_InstantiateDefaultPermission := v\<rparr>, iNdEx))
     else bindE (skipField dAtA preIndex) (\<lambda>iNdEx. Inr (p, iNdEx)))"

definition CodeInfo_step :: "bytes \<Rightarrow> nat \<Rightarrow> legacy_CodeInfo \<Rightarrow> go_error + legacy_CodeInfo \<times> nat" where
  "CodeInfo_step dAtA preIndex p = bindE (readTag ''CodeInfo'' dAtA preIndex) (\<lambda>((fieldNum, wt), iNdEx).
     if fieldNum = 1 then bindE (delimitedField ''CodeHash'' wt dAtA iNdEx) (\<lambda>(s, iNdEx). Inr (p\<lparr>lci_CodeHash := s\<rparr>, iNdEx))
     else if fieldNum = 2 then bindE (delimitedField ''Creator'' wt dAtA iNdEx) (\<lambda>(s, iNdEx). Inr (p\<lparr>lci_Creator := s\<rparr>, iNdEx))
     else if fieldNum = 5 then bindE (delimitedField ''InstantiateConfig'' wt dAtA iNdEx) (\<lambda>(s, iNdEx).
       bindE (AccessConfig_Unmarshal (lci_InstantiateConfig p) s) (\<lambda>c. Inr (p\<lparr>lci_InstantiateConfig := c\<rparr>, iNdEx)))
     else bindE (skipField dAtA preIndex) (\<lambda>iNdEx. Inr (p, iNdEx)))"

lemma Params_step_progress: "Params_step dAtA i m = Inr (m', j) \<Longrightarrow> i < j"
  by (fastforce simp: Params_step_def bindE_Inr_iff dest!: field_progress split: if_splits)

lemma CodeInfo_step_progress: "CodeInfo_step dAtA i m = Inr (m', j) \<Longrightarrow> i < j"
  by (fastforce simp: CodeInfo_step_def bindE_Inr_iff dest!: field_progress split: if_splits)

function Params_loop :: "bytes \<Rightarrow> nat \<Rightarrow> legacy_Params \<Rightarrow> go_error + legacy_Params" where
  "Params_loop dAtA iNdEx p =
     (if iNdEx < length dAtA
      then case Params_step dAtA iNdEx p of
          Inl err \<Rightarrow> Inl err
        | Inr (p', iNdEx') \<Rightarrow> Params_loop dAtA iNdEx' p'
      else if length dAtA < iNdEx then Inl ErrUnexpectedEOF
      else Inr p)"
  by pat_completeness auto
termination
  by (relation "measure (\<lambda>(dAtA, iNdEx, _). length dAtA - iNdEx)") (auto dest!: Params_step_progress)

function CodeInfo_loop :: "bytes \<Rightarrow> nat \<Rightarrow> legacy_CodeInfo \<Rightarrow> go_error + legacy_CodeInfo" where
  "CodeInfo_loop dAtA iNdEx p =
     (if iNdEx < length dAtA
      then case CodeInfo_step dAtA iNdEx p of
          Inl err \<Rightarrow> Inl err
        | Inr (p', iNdEx') \<Rightarrow> CodeInfo_loop dAtA iNdEx' p'
      else if length dAtA < iNdEx then Inl ErrUnexpectedEOF
      else Inr p)"
  by pat_completeness auto
termination
  by (relation "measure (\<lambda>(dAtA, iNdEx, _). length dAtA - iNdEx)") (auto dest!: CodeInfo_step_progress)

declare AccessTypeParam_loop.simps [simp del] AccessConfig_loop.simps [simp del]
declare Params_loop.simps [simp del] CodeInfo_loop.simps [simp del]

definition Params_Unmarshal :: "legacy_Params \<Rightarrow> bytes \<Rightarrow> go_error + legacy_Params" where
  "Params_Unmarshal p dAtA = Params_loop dAtA 0 p"

definition CodeInfo_Unmarshal :: "legacy_CodeInfo \<Rightarrow> bytes \<Rightarrow> go_error + legacy_CodeInfo" where
  "CodeInfo_Unmarshal p dAtA = CodeInfo_loop dAtA 0 p"

section \<open>Reference encodings\<close>

fun varint_bytes :: "nat \<Rightarrow> bytes" where
  "varint_bytes v = (if v < 128 then [char_of v] else char_of (128 + v mod 128) # varint_bytes (v div 128))"

declare varint_bytes.simps [simp del]

definition delimited_bytes :: "nat \<Rightarrow> bytes \<Rightarrow> bytes" where
  "delimited_bytes tag s = char_of tag # varint_bytes (length s) @ s"

definition enum_bytes :: "nat \<Rightarrow> legacy_AccessType \<Rightarrow> bytes" where
  "enum_bytes tag a = (if a = 0 then [] else char_of tag # varint_bytes (unat (enum_u64 a)))"

definition string_bytes :: "nat \<Rightarrow> bytes \<Rightarrow> bytes" where
  "string_bytes tag s = (if s = [] then [] else delimited_bytes tag s)"

definition AccessTypeParam_bytes :: "legacy_AccessTypeParam \<Rightarrow> bytes" where
  "AccessTypeParam_bytes m = enum_bytes 0x08 (ltp_Value m)"

definition AccessConfig_bytes :: "legacy_AccessConfig \<Rightarrow> bytes" where
  "AccessConfig_bytes m = enum_bytes 0x08 (lac_Permission m) @ string_bytes 0x12 (lac_Address m) @
     concat (map (delimited_bytes 0x1a) (lac_Addresses m))"

definition Params_bytes :: "legacy_Params \<Rightarrow> bytes" where
  "Params_bytes m = delimited_bytes 0x0a (AccessConfig_bytes (lp_CodeUploadAccess m)) @
     enum_bytes 0x10 (lp_InstantiateDefaultPermission m)"

definition CodeInfo_bytes :: "legacy_CodeInfo \<Rightarrow> bytes" where
  "CodeInfo_bytes m = string_bytes 0x0a (lci_CodeHash m) @ string_bytes 0x12 (lci_Creator m) @
     delimited_bytes 0x2a (AccessConfig_bytes (lci_InstantiateConfig m))"

section \<open>Numbers\<close>

lemma Len64_le_iff: "Len64 k \<le> m \<longleftrightarrow> k < 2 ^ m"
proof (induction m arbitrary: k)
  case 0
  then show ?case by (simp add: Len64.simps [of k])
next
  case (Suc m)
  show ?case using Suc [of "k div 2"] by (auto simp: Len64.simps [of k])
qed

lemma Len64_shift: "128 \<le> k \<Longrightarrow> Len64 k = 7 + Len64 (k div 128)"
  by (simp add: Len64.simps [of k] Len64.simps [of "k div 2"] Len64.simps [of "k div 2 div 2"] Len64.simps [of "k div 4"]
      Len64.simps [of "k div 8"] Len64.simps [of "k div 16"] Len64.simps [of "k div 32"] Len64.simps [of "k div 64"]
      div_mult2_eq [symmetric] div_greater_zero_iff)

lemma Len64_or_one: "Len64 (k OR Suc 0) = (if k = 0 then 1 else Len64 k)"
  by (cases "even k") (simp_all add: or_Suc_0_eq Len64.simps [of k] Len64.simps [of "Suc k"] Len64.simps [of 0] odd_pos)

lemma length_varint: "length (varint_bytes k) = (Len64 (k OR Suc 0) + 6) div 7"
proof (induction k rule: varint_bytes.induct)
  case (1 k)
  show ?case
  proof (cases "k < 128")
    case True
    then have "0 < Len64 (k OR Suc 0)" and "Len64 (k OR Suc 0) \<le> 7"
      using Len64_le_iff [of k 0] Len64_le_iff [of k 7] by (auto simp: Len64_or_one)
    then show ?thesis using True by (simp add: varint_bytes.simps [of k])
  next
    case False
    then have "k div 128 \<noteq> 0" by (simp add: div_eq_0_iff)
    with False 1 show ?thesis by (simp add: varint_bytes.simps [of k] Len64_or_one Len64_shift [of k])
  qed
qed

lemma sovTypes_varint: "sovTypes x = length (varint_bytes (unat x))"
  by (simp add: sovTypes_def length_varint unsigned_or_eq)

lemma varint_nonempty [simp]: "varint_bytes k \<noteq> []"
  by (simp add: varint_bytes.simps [of k])

lemma low_byte: "v AND 127 = v mod (128::nat)"
  using take_bit_eq_mask [of 7 v] by (simp add: take_bit_eq_mod mask_eq_exp_minus_1)

lemma high_byte: "v AND 127 OR 128 = 128 + v mod (128::nat)"
proof -
  have "v mod 128 AND 128 = 0"
    using and_exp_eq_0_iff_not_bit [of "v mod 128" 7] bit_take_bit_iff [of 7 v 7] by (simp add: take_bit_eq_mod)
  then show ?thesis using disjunctive_add_eq_or [of "v mod 128" 128] unfolding low_byte by simp
qed

lemma writeVarint_eq:
  assumes "offset + length (varint_bytes v) \<le> length dAtA"
  shows "writeVarint dAtA offset v = Ok (take offset dAtA @ varint_bytes v @ drop (offset + length (varint_bytes v)) dAtA)"
  using assms
proof (induction v arbitrary: dAtA offset rule: varint_bytes.induct)
  case (1 v)
  show ?case
  proof (cases "v < 128")
    case True
    with 1(2) show ?thesis by (simp add: writeVarint.simps [of dAtA offset] varint_bytes.simps [of v] upd_conv_take_nth_drop)
  next
    case False
    with 1(2) have len: "Suc offset + length (varint_bytes (v div 128)) \<le> length dAtA" by (simp add: varint_bytes.simps [of v])
    then have "take (Suc offset) (dAtA[offset := x]) = take offset dAtA @ [x]" for x
      by (simp add: take_Suc_conv_app_nth)
    with 1(1) [OF False, of "Suc offset" "dAtA[offset := char_of (v AND 127 OR 128)]"] False len show ?thesis
      by (simp add: writeVarint.simps [of dAtA offset] varint_bytes.simps [of v] drop_bit_eq_div high_byte)
  qed
qed

lemma varint_value: "word_of_nat (v mod 128) OR push_bit 7 (word_of_nat (v div 128)) = (word_of_nat v :: 'a::len word)"
proof -
  have "v mod 128 OR push_bit 7 (v div 128) = (v mod 128) + 128 * (v div 128)"
  proof -
    have "take_bit 7 v AND push_bit 7 (drop_bit 7 v) = 0"
      by (rule bit_eqI) (auto simp: bit_simps)
    with disjunctive_add_eq_or [of "take_bit 7 v" "push_bit 7 (drop_bit 7 v)"] show ?thesis
      by (simp add: take_bit_eq_mod drop_bit_eq_div push_bit_eq_mult)
  qed
  then have "v mod 128 OR push_bit 7 (v div 128) = v" by simp
  then show ?thesis by (metis of_nat_or_eq of_nat_push_bit)
qed

lemma decodeVarint_eq:
  assumes "drop i dAtA = varint_bytes v @ rest" and "v < 2 ^ (64 - shift)" and "shift < 64"
  shows "decodeVarint dAtA shift acc i =
     Inr (acc OR push_bit shift (word_of_nat v :: 'a::len word), i + length (varint_bytes v))"
  using assms
proof (induction v arbitrary: i shift acc rule: varint_bytes.induct)
  case (1 v)
  obtain b bs where v: "varint_bytes v = b # bs" by (cases "varint_bytes v") simp_all
  from 1(2) v have d: "drop i dAtA = b # bs @ rest" by simp
  then have i: "i < length dAtA" by (metis drop_all leI list.distinct(1))
  with d have b: "dAtA ! i = b" and bs: "drop (Suc i) dAtA = bs @ rest" by (simp_all add: Cons_nth_drop_Suc [symmetric])
  show ?case
  proof (cases "v < 128")
    case True
    with v have "b = char_of v" "bs = []" by (simp_all add: varint_bytes.simps [of v])
    with True i b v 1(4) show ?thesis
      by (simp add: decodeVarint.simps [of dAtA shift] low_byte Let_def)
  next
    case False
    with v have b': "b = char_of (128 + v mod 128)" "bs = varint_bytes (v div 128)" by (simp_all add: varint_bytes.simps [of v])
    have small: "128 + v mod 128 < 256" by simp
    have "shift + 7 < 64"
    proof (rule ccontr)
      assume "\<not> ?thesis"
      then have "(2::nat) ^ (64 - shift) \<le> 2 ^ 7" by (intro power_increasing) auto
      with 1(3) False show False by simp
    qed
    moreover from this have "v div 128 < 2 ^ (64 - (shift + 7))"
    proof -
      have "(2::nat) ^ (64 - shift) = 2 ^ (64 - (shift + 7)) * 128"
        using \<open>shift + 7 < 64\<close> power_add [of "2::nat" "64 - (shift + 7)" 7] by simp
      with 1(3) show ?thesis by (simp add: less_mult_imp_div_less)
    qed
    ultimately have "decodeVarint dAtA (shift + 7) a (Suc i) =
        Inr (a OR push_bit (shift + 7) (word_of_nat (v div 128)), Suc i + length (varint_bytes (v div 128)))" for a :: "'a word"
      using 1(1) [OF False, of "Suc i" "shift + 7" a] bs b'(2) by simp
    moreover have "(acc OR push_bit shift (word_of_nat (v mod 128))) OR push_bit (shift + 7) (word_of_nat (v div 128)) =
        acc OR push_bit shift (word_of_nat v)"
      using varint_value [of v, where 'a = 'a]
      by (metis (no_types) or.assoc push_bit_or push_bit_push_bit add.commute)
    ultimately show ?thesis using i b b' small v \<open>shift + 7 < 64\<close>
      by (simp add: decodeVarint.simps [of dAtA shift] low_byte Let_def)
  qed
qed

section \<open>The buffer holds the reference encoding\<close>

definition puts :: "(buffer \<Rightarrow> buffer outcome) \<Rightarrow> bytes \<Rightarrow> bool" where
  "puts f s \<longleftrightarrow> (\<forall>dAtA i. length s \<le> i \<and> i \<le> length dAtA \<longrightarrow>
     f (dAtA, i) = Ok (take (i - length s) dAtA @ s @ drop i dAtA, i - length s))"

definition fills :: "(bytes \<Rightarrow> (bytes \<times> nat) outcome) \<Rightarrow> bytes \<Rightarrow> bool" where
  "fills f s \<longleftrightarrow> (\<forall>dAtA. length s \<le> length dAtA \<longrightarrow>
     f dAtA = Ok (take (length dAtA - length s) dAtA @ s, length s))"

lemma bindO_assoc: "bindO (bindO r f) g = bindO r (\<lambda>x. bindO (f x) g)"
  by (cases r) auto

lemma puts_nothing: "puts Ok []"
  by (simp add: puts_def)

lemma putsD:
  "puts f s \<Longrightarrow> length s \<le> i \<Longrightarrow> i \<le> length dAtA \<Longrightarrow>
   f (dAtA, i) = Ok (take (i - length s) dAtA @ s @ drop i dAtA, i - length s)"
  by (simp add: puts_def)

lemma puts_then:
  assumes f: "puts f s" and g: "puts g t"
  shows "puts (\<lambda>b. bindO (f b) g) (t @ s)"
  unfolding puts_def
proof (intro allI impI)
  fix dAtA :: bytes and i
  assume len: "length (t @ s) \<le> i \<and> i \<le> length dAtA"
  let ?d = "take (i - length s) dAtA @ s @ drop i dAtA"
  have "g (?d, i - length s) = Ok (take (i - length s - length t) ?d @ t @ drop (i - length s) ?d, i - length s - length t)"
    using len by (intro putsD [OF g]) auto
  with putsD [OF f, of i dAtA] len show "bindO (f (dAtA, i)) g =
      Ok (take (i - length (t @ s)) dAtA @ (t @ s) @ drop i dAtA, i - length (t @ s))"
    by (simp add: min_def diff_diff_left add.commute)
qed

lemma puts_bytes: "puts (putBytes s) s"
  by (simp add: puts_def)

lemma puts_tag: "puts (putTag t) [char_of t]"
  by (auto simp: puts_def upd_conv_take_nth_drop Suc_diff_Suc)

lemma puts_varint: "puts (encodeVarintTypes v) (varint_bytes (unat v))"
  by (auto simp: puts_def sovTypes_varint writeVarint_eq)

lemma puts_enum: "puts (putEnum tag a) (enum_bytes tag a)"
  using puts_then [OF puts_varint puts_tag] puts_nothing by (auto simp: putEnum_def enum_bytes_def puts_def)

lemma puts_delimited: "length s < 2 ^ 64 \<Longrightarrow> puts (putDelimited tag s) (delimited_bytes tag s)"
  using puts_then [OF puts_bytes [of s] puts_then [OF puts_varint [of "word_of_nat (length s)"] puts_tag [of tag]]]
  by (simp add: putDelimited_def [abs_def] delimited_bytes_def unsigned_of_nat take_bit_nat_eq_self)

lemma puts_string: "length s < 2 ^ 64 \<Longrightarrow> puts (putString tag s) (string_bytes tag s)"
  using puts_delimited [of s tag] puts_nothing by (auto simp: putString_def string_bytes_def puts_def)

lemma puts_strings: "\<forall>s \<in> set ss. length s < 2 ^ 64 \<Longrightarrow> puts (putStrings tag ss) (concat (map (delimited_bytes tag) ss))"
proof (induction ss)
  case Nil
  then show ?case by (simp add: puts_def)
next
  case (Cons s ss)
  then have "puts (\<lambda>b. bindO (putStrings tag ss b) (putDelimited tag s)) (delimited_bytes tag s @ concat (map (delimited_bytes tag) ss))"
    by (intro puts_then puts_delimited) auto
  then show ?case by (simp add: puts_def)
qed

lemma fills_written: "puts f s \<Longrightarrow> fills (\<lambda>dAtA. bindO (f (dAtA, length dAtA)) (\<lambda>b. Ok (written dAtA b))) s"
  by (auto simp: puts_def fills_def written_def)

lemma delimited_longer: "length s < length (delimited_bytes tag s)"
  by (simp add: delimited_bytes_def)

lemma puts_message:
  assumes "fills marshal s" and "length s < 2 ^ 64"
  shows "puts (putMessage tag marshal) (delimited_bytes tag s)"
proof -
  have "puts (\<lambda>b. bindO (encodeVarintTypes (word_of_nat (length s)) b) (putTag tag)) ([char_of tag] @ varint_bytes (length s))"
    using puts_then [OF puts_varint [of "word_of_nat (length s)"] puts_tag [of tag]] assms(2)
    by (simp add: unsigned_of_nat take_bit_nat_eq_self)
  note header = putsD [OF this]
  show ?thesis
    unfolding puts_def
  proof (intro allI impI)
    fix dAtA :: bytes and i
    assume len: "length (delimited_bytes tag s) \<le> i \<and> i \<le> length dAtA"
    then have "length s \<le> i" using delimited_longer [of s tag] by linarith
    then have "marshal (take i dAtA) = Ok (take (i - length s) dAtA @ s, length s)"
      using assms(1) len by (auto simp: fills_def min_def)
    moreover have "bindO (encodeVarintTypes (word_of_nat (length s)) ((take (i - length s) dAtA @ s) @ drop i dAtA, i - length s)) (putTag tag) =
        Ok (take (i - length (delimited_bytes tag s)) dAtA @ delimited_bytes tag s @ drop i dAtA, i - length (delimited_bytes tag s))"
    proof -
      from len have "length ([char_of tag] @ varint_bytes (length s)) \<le> i - length s"
        and "i - length s \<le> length ((take (i - length s) dAtA @ s) @ drop i dAtA)" and "min (length dAtA) (i - length s) = i - length s"
        by (auto simp: delimited_bytes_def)
      with header [OF this(1,2)] show ?thesis
        by (simp add: delimited_bytes_def diff_diff_left add.commute del: encodeVarintTypes.simps putTag.simps)
    qed
    ultimately show "putMessage tag marshal (dAtA, i) =
        Ok (take (i - length (delimited_bytes tag s)) dAtA @ delimited_bytes tag s @ drop i dAtA, i - length (delimited_bytes tag s))"
      by (simp del: encodeVarintTypes.simps putTag.simps)
  qed
qed

text \<open>The size of a message is an \<open>int\<close>.\<close>

definition fits :: "legacy_AccessConfig \<Rightarrow> bool" where
  "fits m \<longleftrightarrow> AccessConfig_Size m < 2 ^ 63"

lemma stringSize_le: "length s \<le> stringSize s"
  by (simp add: stringSize_def delimitedSize_def)

lemma fits_strings:
  assumes "fits m"
  shows "length (lac_Address m) < 2 ^ 64" and "\<forall>s \<in> set (lac_Addresses m). length s < 2 ^ 64"
proof -
  show "length (lac_Address m) < 2 ^ 64"
    using assms stringSize_le [of "lac_Address m"] by (simp add: fits_def AccessConfig_Size_def)
  have "length s \<le> sum_list (map (\<lambda>s. delimitedSize (length s)) (lac_Addresses m))" if "s \<in> set (lac_Addresses m)" for s
  proof -
    have "delimitedSize (length s) \<le> sum_list (map (\<lambda>s. delimitedSize (length s)) (lac_Addresses m))"
      using that by (intro member_le_sum_list) auto
    then show ?thesis by (simp add: delimitedSize_def)
  qed
  with assms show "\<forall>s \<in> set (lac_Addresses m). length s < 2 ^ 64"
    by (fastforce simp: fits_def AccessConfig_Size_def)
qed

subsection \<open>Sizes\<close>

lemma length_delimited: "length s < 2 ^ 64 \<Longrightarrow> length (delimited_bytes tag s) = delimitedSize (length s)"
  by (simp add: delimited_bytes_def delimitedSize_def sovTypes_varint unsigned_of_nat take_bit_nat_eq_self)

lemma length_enum: "length (enum_bytes tag a) = enumSize a"
  by (simp add: enum_bytes_def enumSize_def sovTypes_varint)

lemma length_string: "length s < 2 ^ 64 \<Longrightarrow> length (string_bytes tag s) = stringSize s"
  by (simp add: string_bytes_def stringSize_def length_delimited)

lemma length_AccessConfig: "fits m \<Longrightarrow> length (AccessConfig_bytes m) = AccessConfig_Size m"
  using fits_strings [of m]
  by (simp add: AccessConfig_bytes_def AccessConfig_Size_def length_enum length_string length_concat length_delimited
      cong: map_cong)

lemma fits_bytes: "fits m \<Longrightarrow> length (AccessConfig_bytes m) < 2 ^ 64"
  using length_AccessConfig [of m] by (simp add: fits_def)

lemma length_config: "fits m \<Longrightarrow> length (delimited_bytes tag (AccessConfig_bytes m)) = delimitedSize (AccessConfig_Size m)"
  by (simp add: length_delimited [OF fits_bytes] length_AccessConfig)

subsection \<open>Messages\<close>

lemma fills_AccessConfig:
  assumes "fits m"
  shows "fills (AccessConfig_MarshalToSizedBuffer m) (AccessConfig_bytes m)"
proof -
  have "puts (\<lambda>b. bindO (putStrings 0x1a (lac_Addresses m) b) (\<lambda>b. bindO (putString 0x12 (lac_Address m) b) (putEnum 0x08 (lac_Permission m))))
      ((enum_bytes 0x08 (lac_Permission m) @ string_bytes 0x12 (lac_Address m)) @ concat (map (delimited_bytes 0x1a) (lac_Addresses m)))"
    by (intro puts_then puts_strings puts_string puts_enum fits_strings [OF assms])
  from fills_written [OF this] show ?thesis
    by (simp add: AccessConfig_MarshalToSizedBuffer_def [abs_def] AccessConfig_bytes_def bindO_assoc)
qed

lemma fills_Params:
  assumes "fits (lp_CodeUploadAccess m)"
  shows "fills (Params_MarshalToSizedBuffer m) (Params_bytes m)"
proof -
  have "puts (\<lambda>b. bindO (putEnum 0x10 (lp_InstantiateDefaultPermission m) b)
        (putMessage 0x0a (AccessConfig_MarshalToSizedBuffer (lp_CodeUploadAccess m)))) (Params_bytes m)"
    unfolding Params_bytes_def using assms
    by (intro puts_then puts_enum puts_message fills_AccessConfig fits_bytes) auto
  from fills_written [OF this] show ?thesis by (simp add: Params_MarshalToSizedBuffer_def [abs_def] bindO_assoc)
qed

lemma fills_CodeInfo:
  assumes "fits (lci_InstantiateConfig m)" and "length (lci_Creator m) < 2 ^ 64" and "length (lci_CodeHash m) < 2 ^ 64"
  shows "fills (CodeInfo_MarshalToSizedBuffer m) (CodeInfo_bytes m)"
proof -
  have "puts (\<lambda>b. bindO (putMessage 0x2a (AccessConfig_MarshalToSizedBuffer (lci_InstantiateConfig m)) b)
        (\<lambda>b. bindO (putString 0x12 (lci_Creator m) b) (putString 0x0a (lci_CodeHash m))))
      ((string_bytes 0x0a (lci_CodeHash m) @ string_bytes 0x12 (lci_Creator m)) @
        delimited_bytes 0x2a (AccessConfig_bytes (lci_InstantiateConfig m)))"
    using assms by (intro puts_then puts_string puts_message fills_AccessConfig fits_bytes) auto
  from fills_written [OF this] show ?thesis
    by (simp add: CodeInfo_MarshalToSizedBuffer_def [abs_def] CodeInfo_bytes_def bindO_assoc)
qed

lemma fills_AccessTypeParam: "fills (AccessTypeParam_MarshalToSizedBuffer m) (AccessTypeParam_bytes m)"
  using fills_written [OF puts_enum]
  by (simp add: AccessTypeParam_MarshalToSizedBuffer_def [abs_def] AccessTypeParam_bytes_def)

lemma marshalSized_fills: "fills marshal s \<Longrightarrow> n = length s \<Longrightarrow> marshalSized n marshal = Ok s"
  by (simp add: marshalSized_def fills_def)

lemma sized_Params:
  assumes "Params_Size m < 2 ^ 63"
  shows "fits (lp_CodeUploadAccess m)" and "length (Params_bytes m) = Params_Size m"
proof -
  show "fits (lp_CodeUploadAccess m)" using assms by (simp add: fits_def Params_Size_def delimitedSize_def)
  then show "length (Params_bytes m) = Params_Size m" by (simp add: Params_bytes_def Params_Size_def length_enum length_config)
qed

lemma sized_CodeInfo:
  assumes "CodeInfo_Size m < 2 ^ 63"
  shows "fits (lci_InstantiateConfig m)" and "length (lci_Creator m) < 2 ^ 64" and "length (lci_CodeHash m) < 2 ^ 64"
    and "length (CodeInfo_bytes m) = CodeInfo_Size m"
proof -
  show "fits (lci_InstantiateConfig m)" using assms by (simp add: fits_def CodeInfo_Size_def delimitedSize_def)
  moreover show "length (lci_Creator m) < 2 ^ 64" and "length (lci_CodeHash m) < 2 ^ 64"
    using assms stringSize_le [of "lci_Creator m"] stringSize_le [of "lci_CodeHash m"] by (simp_all add: CodeInfo_Size_def)
  ultimately show "length (CodeInfo_bytes m) = CodeInfo_Size m"
    by (simp add: CodeInfo_bytes_def CodeInfo_Size_def length_string length_config)
qed

lemma Params_Marshal_eq: "Params_Size m < 2 ^ 63 \<Longrightarrow> Params_Marshal m = Ok (Params_bytes m)"
  unfolding Params_Marshal_def by (rule marshalSized_fills [OF fills_Params]) (simp_all add: sized_Params)

lemma CodeInfo_Marshal_eq: "CodeInfo_Size m < 2 ^ 63 \<Longrightarrow> CodeInfo_Marshal m = Ok (CodeInfo_bytes m)"
  unfolding CodeInfo_Marshal_def
  by (rule marshalSized_fills [OF fills_CodeInfo]) (use sized_CodeInfo [of m] in simp_all)

section \<open>Decoding what was encoded\<close>

lemma varint_small: "v < 128 \<Longrightarrow> varint_bytes v = [char_of v]"
  by (simp add: varint_bytes.simps [of v])

lemma readVarint_eq:
  assumes "drop i dAtA = varint_bytes v @ rest" and "v < 2 ^ 64"
  shows "readVarint dAtA i = Inr (word_of_nat v :: 'a::len word, i + length (varint_bytes v))"
  using decodeVarint_eq [OF assms(1), of 0 0] assms(2) by (simp add: readVarint_def)

lemma sint_small: "n < 2 ^ 63 \<Longrightarrow> sint (word_of_nat n :: u64) = int n"
  by (simp add: signed_of_nat signed_take_bit_int_eq_self)

lemma readDelimited_eq:
  assumes "drop i dAtA = varint_bytes (length s) @ s @ rest" and "length dAtA < 2 ^ 63"
  shows "readDelimited dAtA i = Inr (s, i + length (varint_bytes (length s)) + length s)"
proof -
  have len: "length dAtA - i = length (varint_bytes (length s)) + (length s + length rest)"
    using arg_cong [OF assms(1), of length] by simp
  moreover have "0 < length (varint_bytes (length s))" by simp
  ultimately have small: "length s < 2 ^ 63" and le: "i + length (varint_bytes (length s)) + length s \<le> length dAtA"
    using assms(2) by linarith+
  have "drop (i + length (varint_bytes (length s))) dAtA = drop (length (varint_bytes (length s))) (drop i dAtA)"
    by (simp add: add.commute)
  also have "\<dots> = s @ rest" unfolding assms(1) by simp
  finally have "take (length s) (drop (i + length (varint_bytes (length s))) dAtA) = s" by simp
  then show ?thesis
    using readVarint_eq [OF assms(1), where 'a = 64] small le assms(2)
    by (simp add: readDelimited_def Let_def sint_small unsigned_of_nat take_bit_nat_eq_self)
qed

lemma enum_word: "ucast (enum_u64 a) = a"
  by (rule bit_word_eqI) (simp add: enum_u64_def bit_simps)

definition tags :: "nat set" where "tags = {0x08, 0x0a, 0x10, 0x12, 0x1a, 0x2a}"

lemma readTag_eq:
  assumes "drop i dAtA = char_of tag # rest" and "tag \<in> tags"
  shows "readTag name dAtA i = Inr ((word_of_nat (tag div 8), tag mod 8), Suc i)"
proof -
  have "drop i dAtA = varint_bytes tag @ rest" and "tag < 2 ^ 64" and one: "length (varint_bytes tag) = 1"
    using assms by (auto simp: tags_def varint_small)
  from readVarint_eq [OF this(1,2), where 'a = 64] one assms(2) show ?thesis
    by (auto simp: readTag_def wireType_def tags_def)
qed

text \<open>
  One lemma per field: at its encoding the loop of the message stores the value and goes on behind it.
  \<open>at dAtA i s rest\<close> says that the bytes from \<open>i\<close> on are \<open>s\<close> followed by \<open>rest\<close>.
\<close>

definition at :: "bytes \<Rightarrow> nat \<Rightarrow> bytes \<Rightarrow> bytes \<Rightarrow> bool" where
  "at dAtA i s rest \<longleftrightarrow> i \<le> length dAtA \<and> length dAtA < 2 ^ 63 \<and> drop i dAtA = s @ rest"

lemma at_next:
  assumes "at dAtA i (s @ t) rest"
  shows "at dAtA (i + length s) t rest"
proof -
  from assms have "drop (length s) (drop i dAtA) = t @ rest" by (simp add: at_def del: drop_drop)
  then have "drop (i + length s) dAtA = t @ rest" by (simp add: add.commute)
  moreover from assms have "length dAtA - i = length (s @ t @ rest)" by (metis at_def append_assoc length_drop)
  ultimately show ?thesis using assms by (auto simp: at_def)
qed

lemma at_first: "at dAtA i (s @ t) rest \<Longrightarrow> at dAtA i s (t @ rest)"
  by (simp add: at_def)

lemma at_tag:
  assumes "at dAtA i (char_of tag # s) rest" and "tag \<in> tags"
  shows "readTag name dAtA i = Inr ((word_of_nat (tag div 8), tag mod 8), Suc i)" and "i < length dAtA"
    and "drop (Suc i) dAtA = s @ rest"
proof -
  from assms(1) have d: "drop i dAtA = char_of tag # s @ rest" by (simp add: at_def)
  then show i: "i < length dAtA" by (metis drop_all leI list.distinct(1))
  with d show "drop (Suc i) dAtA = s @ rest" by (simp add: Cons_nth_drop_Suc [symmetric])
  show "readTag name dAtA i = Inr ((word_of_nat (tag div 8), tag mod 8), Suc i)" by (rule readTag_eq [OF d assms(2)])
qed

lemma at_delimited:
  assumes "at dAtA i (delimited_bytes tag s) rest" and "tag \<in> tags" and "tag mod 8 = 2"
  shows "readTag name dAtA i = Inr ((word_of_nat (tag div 8), 2), Suc i)" and "i < length dAtA"
    and "delimitedField field 2 dAtA (Suc i) = Inr (s, i + length (delimited_bytes tag s))"
proof -
  from assms(1) have "at dAtA i (char_of tag # (varint_bytes (length s) @ s)) rest" by (simp add: delimited_bytes_def)
  note tag = at_tag [OF this assms(2)]
  from tag(1) assms(3) show "readTag name dAtA i = Inr ((word_of_nat (tag div 8), 2), Suc i)" by simp
  show "i < length dAtA" by (rule tag(2))
  show "delimitedField field 2 dAtA (Suc i) = Inr (s, i + length (delimited_bytes tag s))"
    using readDelimited_eq [of "Suc i" dAtA s rest] tag(3) assms(1)
    by (simp add: delimitedField_def requireWireType_def delimited_bytes_def at_def)
qed

lemma at_enum:
  assumes "at dAtA i (enum_bytes tag a) rest" and "a \<noteq> 0" and "tag \<in> tags" and "tag mod 8 = 0"
  shows "readTag name dAtA i = Inr ((word_of_nat (tag div 8), 0), Suc i)" and "i < length dAtA"
    and "enumField field 0 dAtA (Suc i) = Inr (a, i + length (enum_bytes tag a))"
proof -
  from assms(1,2) have "at dAtA i (char_of tag # varint_bytes (unat (enum_u64 a))) rest" by (simp add: enum_bytes_def)
  note tag = at_tag [OF this assms(3)]
  from tag(1) assms(4) show "readTag name dAtA i = Inr ((word_of_nat (tag div 8), 0), Suc i)" by simp
  show "i < length dAtA" by (rule tag(2))
  have "unat (enum_u64 a) < 2 ^ 64" using unsigned_less [of "enum_u64 a", where 'a = nat] by simp
  from readVarint_eq [OF tag(3) this, where 'a = 32] assms(2)
  show "enumField field 0 dAtA (Suc i) = Inr (a, i + length (enum_bytes tag a))"
    by (simp add: enumField_def requireWireType_def enum_bytes_def enum_word)
qed

lemma AccessConfig_fields:
  "at dAtA i (enum_bytes 0x08 a) rest \<Longrightarrow> a \<noteq> 0 \<Longrightarrow>
     AccessConfig_loop dAtA i m = AccessConfig_loop dAtA (i + length (enum_bytes 0x08 a)) (m\<lparr>lac_Permission := a\<rparr>)"
  "at dAtA i (delimited_bytes 0x12 s) rest \<Longrightarrow>
     AccessConfig_loop dAtA i m = AccessConfig_loop dAtA (i + length (delimited_bytes 0x12 s)) (m\<lparr>lac_Address := s\<rparr>)"
  "at dAtA i (delimited_bytes 0x1a s) rest \<Longrightarrow>
     AccessConfig_loop dAtA i m =
       AccessConfig_loop dAtA (i + length (delimited_bytes 0x1a s)) (m\<lparr>lac_Addresses := lac_Addresses m @ [s]\<rparr>)"
proof -
  show "at dAtA i (enum_bytes 0x08 a) rest \<Longrightarrow> a \<noteq> 0 \<Longrightarrow>
     AccessConfig_loop dAtA i m = AccessConfig_loop dAtA (i + length (enum_bytes 0x08 a)) (m\<lparr>lac_Permission := a\<rparr>)"
    by (subst AccessConfig_loop.simps) (simp add: AccessConfig_step_def at_enum tags_def)
  show "at dAtA i (delimited_bytes 0x12 s) rest \<Longrightarrow>
     AccessConfig_loop dAtA i m = AccessConfig_loop dAtA (i + length (delimited_bytes 0x12 s)) (m\<lparr>lac_Address := s\<rparr>)"
    by (subst AccessConfig_loop.simps) (simp add: AccessConfig_step_def at_delimited tags_def)
  show "at dAtA i (delimited_bytes 0x1a s) rest \<Longrightarrow>
     AccessConfig_loop dAtA i m =
       AccessConfig_loop dAtA (i + length (delimited_bytes 0x1a s)) (m\<lparr>lac_Addresses := lac_Addresses m @ [s]\<rparr>)"
    by (subst AccessConfig_loop.simps) (simp add: AccessConfig_step_def at_delimited tags_def)
qed

lemma AccessConfig_end: "at dAtA i [] [] \<Longrightarrow> AccessConfig_loop dAtA i m = Inr m"
  by (simp add: at_def AccessConfig_loop.simps [of dAtA])

lemma AccessConfig_addresses:
  "at dAtA i (concat (map (delimited_bytes 0x1a) ss)) [] \<Longrightarrow>
   AccessConfig_loop dAtA i m = Inr (m\<lparr>lac_Addresses := lac_Addresses m @ ss\<rparr>)"
proof (induction ss arbitrary: i m)
  case Nil
  then show ?case by (simp add: AccessConfig_end)
next
  case (Cons s ss)
  then have a: "at dAtA i (delimited_bytes 0x1a s @ concat (map (delimited_bytes 0x1a) ss)) []" by simp
  from AccessConfig_fields(3) [OF at_first [OF a]] Cons.IH [OF at_next [OF a]] show ?case by simp
qed

lemma AccessConfig_roundtrip:
  assumes "fits m"
  shows "AccessConfig_Unmarshal zero_AccessConfig (AccessConfig_bytes m) = Inr m"
proof -
  let ?d = "AccessConfig_bytes m" and ?p = "enum_bytes 0x08 (lac_Permission m)" and ?a = "string_bytes 0x12 (lac_Address m)"
    and ?as = "concat (map (delimited_bytes 0x1a) (lac_Addresses m))"
  let ?m1 = "zero_AccessConfig\<lparr>lac_Permission := lac_Permission m\<rparr>"
  have 1: "at ?d 0 (?p @ ?a @ ?as) []"
    using assms length_AccessConfig [OF assms] by (simp add: at_def fits_def AccessConfig_bytes_def)
  then have 2: "at ?d (length ?p) (?a @ ?as) []" using at_next [OF 1] by simp
  then have 3: "at ?d (length ?p + length ?a) ?as []" by (rule at_next)
  have "AccessConfig_loop ?d 0 zero_AccessConfig = AccessConfig_loop ?d (length ?p) ?m1"
    using AccessConfig_fields(1) [OF at_first [OF 1]] by (cases "lac_Permission m = 0") (simp_all add: enum_bytes_def zero_AccessConfig_def)
  also have "\<dots> = AccessConfig_loop ?d (length ?p + length ?a) (?m1\<lparr>lac_Address := lac_Address m\<rparr>)"
    using AccessConfig_fields(2) [of ?d "length ?p" "lac_Address m"] at_first [OF 2]
    by (cases "lac_Address m = []") (simp_all add: string_bytes_def zero_AccessConfig_def)
  also have "\<dots> = Inr m" using AccessConfig_addresses [OF 3] by (simp add: zero_AccessConfig_def)
  finally show ?thesis by (simp add: AccessConfig_Unmarshal_def)
qed

lemma Params_fields:
  "at dAtA i (delimited_bytes 0x0a (AccessConfig_bytes c)) rest \<Longrightarrow> fits c \<Longrightarrow> lp_CodeUploadAccess p = zero_AccessConfig \<Longrightarrow>
     Params_loop dAtA i p =
       Params_loop dAtA (i + length (delimited_bytes 0x0a (AccessConfig_bytes c))) (p\<lparr>lp_CodeUploadAccess := c\<rparr>)"
  "at dAtA i (enum_bytes 0x10 a) rest \<Longrightarrow> a \<noteq> 0 \<Longrightarrow>
     Params_loop dAtA i p = Params_loop dAtA (i + length (enum_bytes 0x10 a)) (p\<lparr>lp_InstantiateDefaultPermission := a\<rparr>)"
proof -
  show "at dAtA i (delimited_bytes 0x0a (AccessConfig_bytes c)) rest \<Longrightarrow> fits c \<Longrightarrow> lp_CodeUploadAccess p = zero_AccessConfig \<Longrightarrow>
     Params_loop dAtA i p =
       Params_loop dAtA (i + length (delimited_bytes 0x0a (AccessConfig_bytes c))) (p\<lparr>lp_CodeUploadAccess := c\<rparr>)"
    by (subst Params_loop.simps) (simp add: Params_step_def at_delimited tags_def AccessConfig_roundtrip)
  show "at dAtA i (enum_bytes 0x10 a) rest \<Longrightarrow> a \<noteq> 0 \<Longrightarrow>
     Params_loop dAtA i p = Params_loop dAtA (i + length (enum_bytes 0x10 a)) (p\<lparr>lp_InstantiateDefaultPermission := a\<rparr>)"
    by (subst Params_loop.simps) (simp add: Params_step_def at_enum tags_def)
qed

lemma CodeInfo_fields:
  "at dAtA i (delimited_bytes 0x0a s) rest \<Longrightarrow>
     CodeInfo_loop dAtA i p = CodeInfo_loop dAtA (i + length (delimited_bytes 0x0a s)) (p\<lparr>lci_CodeHash := s\<rparr>)"
  "at dAtA i (delimited_bytes 0x12 s) rest \<Longrightarrow>
     CodeInfo_loop dAtA i p = CodeInfo_loop dAtA (i + length (delimited_bytes 0x12 s)) (p\<lparr>lci_Creator := s\<rparr>)"
  "at dAtA i (delimited_bytes 0x2a (AccessConfig_bytes c)) rest \<Longrightarrow> fits c \<Longrightarrow> lci_InstantiateConfig p = zero_AccessConfig \<Longrightarrow>
     CodeInfo_loop dAtA i p =
       CodeInfo_loop dAtA (i + length (delimited_bytes 0x2a (AccessConfig_bytes c))) (p\<lparr>lci_InstantiateConfig := c\<rparr>)"
proof -
  show "at dAtA i (delimited_bytes 0x0a s) rest \<Longrightarrow>
     CodeInfo_loop dAtA i p = CodeInfo_loop dAtA (i + length (delimited_bytes 0x0a s)) (p\<lparr>lci_CodeHash := s\<rparr>)"
    by (subst CodeInfo_loop.simps) (simp add: CodeInfo_step_def at_delimited tags_def)
  show "at dAtA i (delimited_bytes 0x12 s) rest \<Longrightarrow>
     CodeInfo_loop dAtA i p = CodeInfo_loop dAtA (i + length (delimited_bytes 0x12 s)) (p\<lparr>lci_Creator := s\<rparr>)"
    by (subst CodeInfo_loop.simps) (simp add: CodeInfo_step_def at_delimited tags_def)
  show "at dAtA i (delimited_bytes 0x2a (AccessConfig_bytes c)) rest \<Longrightarrow> fits c \<Longrightarrow> lci_InstantiateConfig p = zero_AccessConfig \<Longrightarrow>
     CodeInfo_loop dAtA i p =
       CodeInfo_loop dAtA (i + length (delimited_bytes 0x2a (AccessConfig_bytes c))) (p\<lparr>lci_InstantiateConfig := c\<rparr>)"
    by (subst CodeInfo_loop.simps) (simp add: CodeInfo_step_def at_delimited tags_def AccessConfig_roundtrip)
qed

lemma Params_end: "at dAtA i [] [] \<Longrightarrow> Params_loop dAtA i m = Inr m"
  by (simp add: at_def Params_loop.simps [of dAtA])

lemma CodeInfo_end: "at dAtA i [] [] \<Longrightarrow> CodeInfo_loop dAtA i m = Inr m"
  by (simp add: at_def CodeInfo_loop.simps [of dAtA])

lemma Params_roundtrip:
  assumes "Params_Size p < 2 ^ 63"
  shows "Params_Unmarshal zero_Params (Params_bytes p) = Inr p"
proof -
  let ?d = "Params_bytes p" and ?c = "delimited_bytes 0x0a (AccessConfig_bytes (lp_CodeUploadAccess p))"
    and ?e = "enum_bytes 0x10 (lp_InstantiateDefaultPermission p)"
  let ?p1 = "zero_Params\<lparr>lp_CodeUploadAccess := lp_CodeUploadAccess p\<rparr>"
  note sized = sized_Params [OF assms]
  have 1: "at ?d 0 (?c @ ?e) []" using assms sized by (simp add: at_def Params_bytes_def)
  then have 2: "at ?d (length ?c) (?e @ []) []" using at_next [OF 1] by simp
  then have 3: "at ?d (length ?c + length ?e) [] []" by (rule at_next)
  have "Params_loop ?d 0 zero_Params = Params_loop ?d (length ?c) ?p1"
    using Params_fields(1) [OF at_first [OF 1] sized(1), of zero_Params] by (simp add: zero_Params_def)
  also have "\<dots> = Params_loop ?d (length ?c + length ?e) (?p1\<lparr>lp_InstantiateDefaultPermission := lp_InstantiateDefaultPermission p\<rparr>)"
    using Params_fields(2) [OF at_first [OF 2]]
    by (cases "lp_InstantiateDefaultPermission p = 0") (simp_all add: enum_bytes_def zero_Params_def)
  also have "\<dots> = Inr p" using Params_end [OF 3] by (simp add: zero_Params_def)
  finally show ?thesis by (simp add: Params_Unmarshal_def)
qed

lemma CodeInfo_roundtrip:
  assumes "CodeInfo_Size p < 2 ^ 63"
  shows "CodeInfo_Unmarshal zero_CodeInfo (CodeInfo_bytes p) = Inr p"
proof -
  let ?d = "CodeInfo_bytes p" and ?h = "string_bytes 0x0a (lci_CodeHash p)" and ?u = "string_bytes 0x12 (lci_Creator p)"
    and ?c = "delimited_bytes 0x2a (AccessConfig_bytes (lci_InstantiateConfig p))"
  let ?p1 = "zero_CodeInfo\<lparr>lci_CodeHash := lci_CodeHash p\<rparr>"
  let ?p2 = "?p1\<lparr>lci_Creator := lci_Creator p\<rparr>"
  note sized = sized_CodeInfo [OF assms]
  have 1: "at ?d 0 (?h @ ?u @ ?c) []" using assms sized by (simp add: at_def CodeInfo_bytes_def)
  then have 2: "at ?d (length ?h) (?u @ ?c) []" using at_next [OF 1] by simp
  then have 3: "at ?d (length ?h + length ?u) (?c @ []) []" using at_next [OF 2] by simp
  then have 4: "at ?d (length ?h + length ?u + length ?c) [] []" by (rule at_next)
  have "CodeInfo_loop ?d 0 zero_CodeInfo = CodeInfo_loop ?d (length ?h) ?p1"
    using CodeInfo_fields(1) [of ?d 0 "lci_CodeHash p"] at_first [OF 1]
    by (cases "lci_CodeHash p = []") (simp_all add: string_bytes_def zero_CodeInfo_def)
  also have "\<dots> = CodeInfo_loop ?d (length ?h + length ?u) ?p2"
    using CodeInfo_fields(2) [of ?d "length ?h" "lci_Creator p"] at_first [OF 2]
    by (cases "lci_Creator p = []") (simp_all add: string_bytes_def zero_CodeInfo_def)
  also have "\<dots> = CodeInfo_loop ?d (length ?h + length ?u + length ?c) (?p2\<lparr>lci_InstantiateConfig := lci_InstantiateConfig p\<rparr>)"
    using CodeInfo_fields(3) [OF at_first [OF 3] sized(1), of ?p2] by (simp add: zero_CodeInfo_def)
  also have "\<dots> = Inr p" using CodeInfo_end [OF 4] by (simp add: zero_CodeInfo_def)
  finally show ?thesis by (simp add: CodeInfo_Unmarshal_def)
qed

text \<open>
  C24: Parameters and code infos of older versions are encoded without a panic into exactly as many bytes as their
  size says, and the decoder of the later package reads back the same value from them.
\<close>

theorem legacy_encoding_roundtrip:
  assumes "Params_Size p < 2 ^ 63" and "CodeInfo_Size c < 2 ^ 63"
  shows "(\<exists>b. Params_Marshal p = Ok b \<and> length b = Params_Size p \<and> Params_Unmarshal zero_Params b = Inr p) \<and>
     (\<exists>b. CodeInfo_Marshal c = Ok b \<and> length b = CodeInfo_Size c \<and> CodeInfo_Unmarshal zero_CodeInfo b = Inr c)"
  using assms by (simp add: Params_Marshal_eq CodeInfo_Marshal_eq sized_Params sized_CodeInfo Params_roundtrip CodeInfo_roundtrip)

definition sample_legacy_params :: legacy_Params where
  "sample_legacy_params = \<lparr>lp_CodeUploadAccess = \<lparr>lac_Permission = legacy_OnlyAddress, lac_Address = ''alice'', lac_Addresses = []\<rparr>,
     lp_InstantiateDefaultPermission = legacy_Everybody\<rparr>"

definition sample_legacy_code :: legacy_CodeInfo where
  "sample_legacy_code = \<lparr>lci_CodeHash = ''hash'', lci_Creator = ''alice'',
     lci_InstantiateConfig = \<lparr>lac_Permission = legacy_OnlyAddress, lac_Address = ''alice'', lac_Addresses = []\<rparr>\<rparr>"

lemma sample_legacy_sizes: "Params_Size sample_legacy_params < 2 ^ 63" "CodeInfo_Size sample_legacy_code < 2 ^ 63"
  by (simp_all add: sample_legacy_params_def sample_legacy_code_def Params_Size_def CodeInfo_Size_def AccessConfig_Size_def enumSize_def
      stringSize_def delimitedSize_def sovTypes_varint varint_small legacy_types enum_u64_def)

theorem legacy_encoding_roundtrip_witness:
  "(\<exists>b. Params_Marshal sample_legacy_params = Ok b \<and> length b = Params_Size sample_legacy_params \<and>
      Params_Unmarshal zero_Params b = Inr sample_legacy_params) \<and>
   (\<exists>b. CodeInfo_Marshal sample_legacy_code = Ok b \<and> length b = CodeInfo_Size sample_legacy_code \<and>
      CodeInfo_Unmarshal zero_CodeInfo b = Inr sample_legacy_code)"
  by (rule legacy_encoding_roundtrip) (rule sample_legacy_sizes)+

end
