(* ===== verification/Migrations.thy ===== *)
theory Migrations
  imports Legacy_Codec Genesis_Roundtrip
begin

text \<open>
  The in-place migrations of the module's store (\<open>keeper/migrations.go\<close> and \<open>x/wasm/migrations\<close>):
  version 2 adds the index of contracts by creator, version 3 moves the parameters from the \<open>x/params\<close>
  module into the module's own store, and version 4 replaces the permission for a single address by the one
  for a list of addresses.

  Entries written by older versions are the bytes of the legacy messages (\<open>RawV\<close>). The store of the
  \<open>x/params\<close> module is not part of this code: \<open>GetParamSet\<close> is a parameter that reads the state of
  the other modules.

  The lemmas show that the first migration lists every contract under its creator, and that the other two give
  parameters and code infos that the current version reads, with the same permissions.
\<close>

section \<open>Version 1 to 2\<close>

definition Migrate1to2 :: "('w, 'v) Keeper \<Rightarrow> ('w, 'v, unit) op" where
  "Migrate1to2 k = IterateContractInfo (\<lambda>contractAddr contractInfo.
     case AccAddressFromBech32 (k_addr k) (con_Creator contractInfo) of
       Inl _ \<Rightarrow> panicM PanicOther
     | Inr creator \<Rightarrow>
         bindM (mustM (addToContractCreatorSecondaryIndex creator (con_Created contractInfo) contractAddr)) (\<lambda>_. returnM False))"

section \<open>Version 2 to 3\<close>

subsection \<open>Parameters of the \<open>x/params\<close> module\<close>

definition legacy_AllAccessTypes :: "legacy_AccessType list" where
  "legacy_AllAccessTypes = [legacy_Nobody, legacy_OnlyAddress, legacy_AnyOfAddresses, legacy_Everybody]"

definition legacy_AccessType_String :: "legacy_AccessType \<Rightarrow> string" where
  "legacy_AccessType_String a =
     (if a = legacy_Nobody then ''Nobody''
      else if a = legacy_OnlyAddress then ''OnlyAddress''
      else if a = legacy_Everybody then ''Everybody''
      else if a = legacy_AnyOfAddresses then ''AnyOfAddresses''
      else ''Unspecified'')"

definition legacy_AccessType_UnmarshalText :: "string \<Rightarrow> legacy_AccessType" where
  "legacy_AccessType_UnmarshalText txt =
     (case find (\<lambda>v. legacy_AccessType_String v = txt) legacy_AllAccessTypes of
        Some v \<Rightarrow> v
      | None \<Rightarrow> legacy_Unspecified)"

definition legacy_validateAccessType :: "legacy_AccessType \<Rightarrow> go_error + unit" where
  "legacy_validateAccessType a =
     (if a = legacy_Unspecified then Inl (WrappedError ''type'' ErrEmpty)
      else if a \<in> set legacy_AllAccessTypes then Inr ()
      else Inl (WrappedError (''unknown type: '' @ [CHR 0x22] @ legacy_AccessType_String a @ [CHR 0x22]) ErrInvalid))"

primrec assertDistinctAddresses :: "addr_codec \<Rightarrow> string set \<Rightarrow> string list \<Rightarrow> go_error + unit" where
  "assertDistinctAddresses ac idx [] = Inr ()"
| "assertDistinctAddresses ac idx (a # addrs) =
     (case AccAddressFromBech32 ac a of
        Inl err \<Rightarrow> Inl (WrappedError (''address: '' @ a) err)
      | Inr _ \<Rightarrow>
          if a \<in> idx then Inl (WrappedError (''address: '' @ a) ErrDuplicate)
          else assertDistinctAddresses ac (insert a idx) addrs)"

definition legacy_assertValidAddresses :: "addr_codec \<Rightarrow> string list \<Rightarrow> go_error + unit" where
  "legacy_assertValidAddresses ac addrs =
     (if addrs = [] then Inl ErrEmpty else assertDistinctAddresses ac {} addrs)"

definition legacy_AccessConfig_ValidateBasic :: "addr_codec \<Rightarrow> legacy_AccessConfig \<Rightarrow> go_error + unit" where
  "legacy_AccessConfig_ValidateBasic ac a =
     (if lac_Permission a = legacy_Unspecified then Inl (WrappedError ''type'' ErrEmpty)
      else if lac_Permission a = legacy_Nobody \<or> lac_Permission a = legacy_Everybody then Inr ()
      else if lac_Permission a = legacy_OnlyAddress
      then wrapE ''only address'' (bindE (AccAddressFromBech32 ac (lac_Address a)) (\<lambda>_. Inr ()))
      else if lac_Permission a = legacy_AnyOfAddresses
      then wrapE ''addresses'' (legacy_assertValidAddresses ac (lac_Addresses a))
      else Inl (WrappedError (''unknown type: '' @ [CHR 0x22] @ legacy_AccessType_String (lac_Permission a) @ [CHR 0x22]) ErrInvalid))"

definition legacy_AccessConfig_Equals :: "legacy_AccessConfig \<Rightarrow> legacy_AccessConfig \<Rightarrow> bool" where
  "legacy_AccessConfig_Equals a o1 \<longleftrightarrow> lac_Permission a = lac_Permission o1 \<and> lac_Address a = lac_Address o1"

subsection \<open>The migration\<close>

definition MigrateStore :: "('w \<Rightarrow> legacy_Params outcome) \<Rightarrow> ('w, 'v, unit) op" where
  "MigrateStore GetParamSet = bindM getM (\<lambda>w.
     bindM (liftO (GetParamSet (es_ext (w_env w)))) (\<lambda>currParams.
     bindM (liftO (Params_Marshal currParams)) (\<lambda>bz.
     storeSet ParamsKey (RawV bz))))"

section \<open>Version 3 to 4\<close>

text \<open>The conversion between the two enum types keeps the number.\<close>

definition toAccessType :: "legacy_AccessType \<Rightarrow> AccessType" where
  "toAccessType a =
     (if a = 0 then AccessTypeUnspecified
      else if a = 1 then AccessTypeNobody
      else if a = 3 then AccessTypeEverybody
      else if a = 4 then AccessTypeAnyOfAddresses
      else AccessTypeOther (sint a))"

fun fromAccessType :: "AccessType \<Rightarrow> legacy_AccessType" where
  "fromAccessType AccessTypeUnspecified = 0"
| "fromAccessType AccessTypeNobody = 1"
| "fromAccessType AccessTypeEverybody = 3"
| "fromAccessType AccessTypeAnyOfAddresses = 4"
| "fromAccessType (AccessTypeOther n) = word_of_int n"

definition updateAccessConfig :: "legacy_AccessConfig \<Rightarrow> AccessConfig" where
  "updateAccessConfig legacyAccessConfig =
     (if lac_Permission legacyAccessConfig = legacy_OnlyAddress
      then \<lparr>Permission = AccessTypeAnyOfAddresses, Addresses = [lac_Address legacyAccessConfig]\<rparr>
      else \<lparr>Permission = toAccessType (lac_Permission legacyAccessConfig), Addresses = lac_Addresses legacyAccessConfig\<rparr>)"

definition updateParams :: "legacy_Params \<Rightarrow> Params" where
  "updateParams legacyParams =
     \<lparr>CodeUploadAccess = updateAccessConfig (lp_CodeUploadAccess legacyParams),
      InstantiateDefaultPermission =
        (if lp_InstantiateDefaultPermission legacyParams = legacy_OnlyAddress then AccessTypeAnyOfAddresses
         else toAccessType (lp_InstantiateDefaultPermission legacyParams))\<rparr>"

definition updateCodeInfo :: "legacy_CodeInfo \<Rightarrow> CodeInfo" where
  "updateCodeInfo legacyCodeInfo =
     \<lparr>code_CodeHash = lci_CodeHash legacyCodeInfo, code_Creator = lci_Creator legacyCodeInfo,
      code_InstantiateConfig = updateAccessConfig (lci_InstantiateConfig legacyCodeInfo)\<rparr>"

text \<open>
  The bytes of an entry. Entries that the current version wrote are kept decoded; the messages of
  \<open>types.pb.go\<close> have the same fields as the legacy ones, without the single address.
\<close>

definition current_AccessConfig :: "AccessConfig \<Rightarrow> legacy_AccessConfig" where
  "current_AccessConfig a = \<lparr>lac_Permission = fromAccessType (Permission a), lac_Address = [], lac_Addresses = Addresses a\<rparr>"

fun entryBytes :: "store_value \<Rightarrow> bytes outcome" where
  "entryBytes (RawV bz) = Ok bz"
| "entryBytes (ParamsV p) = Params_Marshal \<lparr>lp_CodeUploadAccess = current_AccessConfig (CodeUploadAccess p),
     lp_InstantiateDefaultPermission = fromAccessType (InstantiateDefaultPermission p)\<rparr>"
| "entryBytes (CodeInfoV c) = CodeInfo_Marshal \<lparr>lci_CodeHash = code_CodeHash c, lci_Creator = code_Creator c,
     lci_InstantiateConfig = current_AccessConfig (code_InstantiateConfig c)\<rparr>"
| "entryBytes _ = Panic PanicOther"

definition mustUnmarshal :: "(bytes \<Rightarrow> go_error + 'm) \<Rightarrow> store_value \<Rightarrow> 'm outcome" where
  "mustUnmarshal unmarshal v = bindO (entryBytes v) (\<lambda>bz.
     case unmarshal bz of Inl _ \<Rightarrow> Panic PanicOther | Inr m \<Rightarrow> Ok m)"

definition migrateParams :: "('w, 'v, unit) op" where
  "migrateParams = bindM (storeGet ParamsKey) (\<lambda>bz.
     case bz of
       None \<Rightarrow> returnM ()
     | Some v \<Rightarrow> bindM (liftO (mustUnmarshal (Params_Unmarshal zero_Params) v)) (\<lambda>legacyParams.
         SetParams (updateParams legacyParams)))"

definition migrateCode :: "bytes \<times> store_value \<Rightarrow> ('w, 'v, unit) op" where
  "migrateCode item = (case item of (key, value) \<Rightarrow>
     bindM (liftO (mustUnmarshal (CodeInfo_Unmarshal zero_CodeInfo) value)) (\<lambda>legacyCodeInfo.
     bindM (liftO (BigEndian_Uint64 key)) (\<lambda>codeID.
     mustStoreCodeInfo codeID (updateCodeInfo legacyCodeInfo))))"

definition Migrate3to4 :: "('w, 'v, unit) op" where
  "Migrate3to4 = bindM migrateParams (\<lambda>_. bindM (storePrefix CodeKeyPrefix) (eachM migrateCode))"

definition Migrate2to3 :: "('w \<Rightarrow> legacy_Params outcome) \<Rightarrow> ('w, 'v, unit) op" where
  "Migrate2to3 legacySubspace = MigrateStore legacySubspace"

section \<open>Contracts by creator\<close>

lemma iterateM_fold:
  assumes "\<And>x w. x \<in> set xs \<Longrightarrow> cb x w = (Ok False, upd x w)"
  shows "iterateM cb xs w = (Ok (), fold upd xs w)"
  using assms by (induction xs arbitrary: w) (simp_all add: bindM_def returnM_def)

lemma eachM_fold:
  assumes "\<And>x w. x \<in> set xs \<Longrightarrow> f x w = (Ok (), upd x w)"
  shows "eachM f xs w = (Ok (), fold upd xs w)"
  using assms by (induction xs arbitrary: w) (simp_all add: bindM_def returnM_def)

text \<open>
  Contracts that the migration can index: the entry is a contract info with the position of its creation and a
  creator that parses to an address of at most 255 bytes.
\<close>

definition indexable :: "('w, 'v) Keeper \<Rightarrow> store_value \<Rightarrow> bytes \<Rightarrow> AbsoluteTxPosition \<Rightarrow> bool" where
  "indexable k v creator p \<longleftrightarrow> (\<exists>c. v = ContractInfoV c \<and> con_Created c = Some p \<and>
     AccAddressFromBech32 (k_addr k) (con_Creator c) = Inr creator \<and> length creator \<le> 255)"

definition indexContract :: "('w, 'v) Keeper \<Rightarrow> bytes \<times> store_value \<Rightarrow> ('w, 'v) world \<Rightarrow> ('w, 'v) world" where
  "indexContract k x w = (case x of
     (a, ContractInfoV c) \<Rightarrow>
       (case (AccAddressFromBech32 (k_addr k) (con_Creator c), con_Created c) of
          (Inr creator, Some p) \<Rightarrow>
            (case key_of (ByCreatorK creator p a) of Ok b \<Rightarrow> w\<lparr>w_store := kv_set (w_store w) b (RawV [])\<rparr> | _ \<Rightarrow> w)
        | _ \<Rightarrow> w)
   | _ \<Rightarrow> w)"

lemma indexable_key: "indexable k v creator p \<Longrightarrow> \<exists>b. key_of (ByCreatorK creator p a) = Ok b"
  by (auto simp: indexable_def GetContractByCreatorSecondaryIndexKey_def GetContractsByCreatorPrefix_def MustLengthPrefix_def)

lemma look_indexContract:
  assumes "indexable k v creator p"
  shows "look (w_store (indexContract k (a, v) w)) sk =
     (if sk = ByCreatorK creator p a then Some (RawV []) else look (w_store w) sk)"
proof -
  obtain b where b: "key_of (ByCreatorK creator p a) = Ok b" using indexable_key [OF assms] by blast
  then show ?thesis using assms by (auto simp: indexable_def indexContract_def look_creator simp del: key_of.simps)
qed

definition index_entries :: "('w, 'v) Keeper \<Rightarrow> store_value items \<Rightarrow> store_key set" where
  "index_entries k xs = {ByCreatorK creator p a | creator p a. \<exists>v. (a, v) \<in> set xs \<and> indexable k v creator p}"

lemma index_entries_Cons:
  assumes "indexable k v creator p"
  shows "index_entries k ((a, v) # xs) = insert (ByCreatorK creator p a) (index_entries k xs)"
proof -
  have "indexable k v creator' p' \<longleftrightarrow> creator' = creator \<and> p' = p" for creator' p'
    using assms by (auto simp: indexable_def)
  with assms show ?thesis unfolding index_entries_def by (auto 0 3 intro: assms)
qed

lemma look_indexed:
  assumes "\<forall>(a, v) \<in> set xs. \<exists>creator p. indexable k v creator p"
  shows "look (w_store (fold (indexContract k) xs w)) sk =
     (if sk \<in> index_entries k xs then Some (RawV []) else look (w_store w) sk)"
  using assms
proof (induction xs arbitrary: w)
  case Nil
  then show ?case by (simp add: index_entries_def)
next
  case (Cons x xs)
  obtain a v where x: "x = (a, v)" by (cases x)
  with Cons.prems obtain creator p where i: "indexable k v creator p" by auto
  have "\<forall>(a, v) \<in> set xs. \<exists>creator p. indexable k v creator p" using Cons.prems by simp
  from Cons.IH [OF this, of "indexContract k (a, v) w"] show ?case
    unfolding x by (simp add: look_indexContract [OF i] index_entries_Cons [OF i])
qed

lemma migrate_contract:
  assumes "indexable k v creator p"
  shows "bindM (liftO (asContractInfo v)) (\<lambda>c.
     case AccAddressFromBech32 (k_addr k) (con_Creator c) of
       Inl _ \<Rightarrow> panicM PanicOther
     | Inr creator \<Rightarrow> bindM (mustM (addToContractCreatorSecondaryIndex creator (con_Created c) a)) (\<lambda>_. returnM False)) w =
     (Ok False, indexContract k (a, v) w)"
proof -
  obtain b where b: "GetContractByCreatorSecondaryIndexKey creator (position_bytes p) a = Ok b"
    using indexable_key [OF assms, of a] by auto
  with assms show ?thesis
    by (auto simp: indexable_def indexContract_def addToContractCreatorSecondaryIndex_def AbsoluteTxPosition_Bytes_def mustM_def tryM_def
        storeSet_def bindM_def liftO_def modifyM_def returnM_def)
qed

text \<open>
  C23: The migration to version 2 succeeds and makes the index by creator complete: a contract is listed under exactly the
  creator its info names (next to what was listed before). Nothing but the index changes.
\<close>

theorem creators_indexed_by_migration:
  assumes "items_ok (w_store w)"
    and "\<forall>a v. look (w_store w) (ContractK a) = Some v \<longrightarrow> (\<exists>creator p. indexable k v creator p)"
  shows "\<exists>w'. Migrate1to2 k w = (Ok (), w') \<and>
     (\<forall>creator a. created_by (w_store w') creator a \<longleftrightarrow> created_by (w_store w) creator a \<or>
        (\<exists>c. look (w_store w) (ContractK a) = Some (ContractInfoV c) \<and>
          AccAddressFromBech32 (k_addr k) (con_Creator c) = Inr creator)) \<and>
     (\<forall>sk. (\<forall>creator p a. sk \<noteq> ByCreatorK creator p a) \<longrightarrow> look (w_store w') sk = look (w_store w) sk)"
proof -
  let ?xs = "strip_prefix ContractKeyPrefix (w_store w)" and ?w = "fold (indexContract k) (strip_prefix ContractKeyPrefix (w_store w)) w"
  have entry: "(a, v) \<in> set ?xs \<longleftrightarrow> look (w_store w) (ContractK a) = Some v" for a v
    by (rule contract_entry [OF assms(1)])
  have idx: "\<forall>(a, v) \<in> set ?xs. \<exists>creator p. indexable k v creator p" using assms(2) by (auto simp: entry)
  have "Migrate1to2 k w = (Ok (), ?w)"
    unfolding Migrate1to2_def IterateContractInfo_def storePrefix_def bindM_def [of "\<lambda>w. (Ok (strip_prefix ContractKeyPrefix (w_store w)), w)"]
    using idx by (auto intro!: iterateM_fold simp: migrate_contract)
  moreover have creator: "(\<exists>p v. look (w_store w) (ContractK a) = Some v \<and> indexable k v creator p) \<longleftrightarrow>
      (\<exists>c. look (w_store w) (ContractK a) = Some (ContractInfoV c) \<and> AccAddressFromBech32 (k_addr k) (con_Creator c) = Inr creator)"
    for creator a
    using assms(2) [rule_format, of a] by (auto simp: indexable_def)
  have "created_by (w_store ?w) creator a \<longleftrightarrow> created_by (w_store w) creator a \<or>
      (\<exists>c. look (w_store w) (ContractK a) = Some (ContractInfoV c) \<and> AccAddressFromBech32 (k_addr k) (con_Creator c) = Inr creator)"
    for creator a
    unfolding created_by_def look_indexed [OF idx] creator [symmetric] by (auto simp: index_entries_def entry)
  ultimately show ?thesis using look_indexed [OF idx, of w] by (auto simp: index_entries_def)
qed

section \<open>Parameters and codes\<close>

text \<open>The codes of a store of an older version.\<close>

definition legacy_codes :: "store_value items \<Rightarrow> (u64 \<Rightarrow> legacy_CodeInfo option) \<Rightarrow> bool" where
  "legacy_codes m codes \<longleftrightarrow> (\<forall>i. case codes i of
     None \<Rightarrow> look m (CodeK i) = None
   | Some c \<Rightarrow> CodeInfo_Size c < 2 ^ 63 \<and> (\<exists>bz. CodeInfo_Marshal c = Ok bz \<and> look m (CodeK i) = Some (RawV bz)))"

lemma legacy_code_entry:
  assumes "legacy_codes m codes" and "look m (CodeK i) = Some v"
  obtains c where "codes i = Some c" and "mustUnmarshal (CodeInfo_Unmarshal zero_CodeInfo) v = Ok c"
proof (cases "codes i")
  case None
  with assms(1) [unfolded legacy_codes_def, rule_format, of i] assms(2) show ?thesis by simp
next
  case (Some c)
  with assms(1) [unfolded legacy_codes_def, rule_format, of i] assms(2) have size: "CodeInfo_Size c < 2 ^ 63" and "v = RawV (CodeInfo_bytes c)"
    by (auto simp: CodeInfo_Marshal_eq)
  then have "mustUnmarshal (CodeInfo_Unmarshal zero_CodeInfo) v = Ok c" by (simp add: mustUnmarshal_def CodeInfo_roundtrip)
  with Some that show ?thesis by blast
qed

definition updateCode :: "(u64 \<Rightarrow> legacy_CodeInfo option) \<Rightarrow> bytes \<times> store_value \<Rightarrow> ('w, 'v) world \<Rightarrow> ('w, 'v) world" where
  "updateCode codes x w = (case BigEndian_Uint64 (fst x) of
     Ok i \<Rightarrow> (case codes i of Some c \<Rightarrow> w\<lparr>w_store := kv_set (w_store w) (GetCodeKey i) (CodeInfoV (updateCodeInfo c))\<rparr> | None \<Rightarrow> w)
   | _ \<Rightarrow> w)"

lemma look_updateCodes:
  assumes "\<forall>x \<in> set xs. \<exists>i c. fst x = Uint64ToBigEndian i \<and> codes i = Some c"
  shows "look (w_store (fold (updateCode codes) xs w)) sk =
     (case sk of
        CodeK i \<Rightarrow> if Uint64ToBigEndian i \<in> fst ` set xs then map_option (CodeInfoV \<circ> updateCodeInfo) (codes i) else look (w_store w) sk
      | _ \<Rightarrow> look (w_store w) sk)"
  using assms
proof (induction xs arbitrary: w)
  case Nil
  then show ?case by (simp split: store_key.split)
next
  case (Cons x xs)
  then obtain j c where x: "fst x = Uint64ToBigEndian j" "codes j = Some c" by auto
  have inj: "Uint64ToBigEndian i = Uint64ToBigEndian j \<longleftrightarrow> i = j" for i
    by (metis asUint64_key outcome.inject(1))
  have "look (w_store (updateCode codes x w)) sk = (if sk = CodeK j then Some (CodeInfoV (updateCodeInfo c)) else look (w_store w) sk)" for sk
    by (simp add: updateCode_def x asUint64_key look_sets)
  with Cons x show ?case by (auto simp: inj split: store_key.split)
qed

lemma migrations_run:
  assumes "items_ok (w_store w)" and "keys_ok (w_store w)" and "legacy_codes (w_store w) codes"
    and "legacySubspace (es_ext (w_env w)) = Ok p" and "Params_Size p < 2 ^ 63"
  shows "\<exists>w'. bindM (Migrate2to3 legacySubspace) (\<lambda>_. Migrate3to4) w = (Ok (), w') \<and>
     GetParams w' = (Ok (updateParams p), w') \<and>
     (\<forall>i. GetCodeInfo i w' = (Ok (map_option updateCodeInfo (codes i)), w')) \<and>
     (\<forall>sk. sk \<noteq> ParamsK \<and> (\<forall>i. sk \<noteq> CodeK i) \<longrightarrow> look (w_store w') sk = look (w_store w) sk)"
proof -
  define raw where "raw = w\<lparr>w_store := kv_set (w_store w) ParamsKey (RawV (Params_bytes p))\<rparr>"
  define new where "new = w\<lparr>w_store := kv_set (w_store raw) ParamsKey (ParamsV (updateParams p))\<rparr>"
  let ?xs = "strip_prefix CodeKeyPrefix (w_store new)"
  let ?w = "fold (updateCode codes) ?xs new"
  have look: "look (w_store new) sk = (if sk = ParamsK then Some (ParamsV (updateParams p)) else look (w_store w) sk)" for sk
    by (simp add: new_def raw_def look_single)
  have "items_ok (w_store new)" and "keys_ok (w_store new)"
    using assms(1,2) by (simp_all add: new_def raw_def items_ok_set keys_ok_set [of _ ParamsK])
  then have entry: "(key, v) \<in> set ?xs \<longleftrightarrow> (\<exists>i. key = Uint64ToBigEndian i \<and> look (w_store w) (CodeK i) = Some v)" for key v
    using code_entry [of "w_store new" key v] by (simp add: look)
  have known: "\<forall>x \<in> set ?xs. \<exists>i c. fst x = Uint64ToBigEndian i \<and> codes i = Some c"
  proof
    fix x assume "x \<in> set ?xs"
    with entry [of "fst x" "snd x"] obtain i where i: "fst x = Uint64ToBigEndian i" "look (w_store w) (CodeK i) = Some (snd x)" by auto
    from legacy_code_entry [OF assms(3) i(2)] i(1) show "\<exists>i c. fst x = Uint64ToBigEndian i \<and> codes i = Some c" by blast
  qed
  have each: "migrateCode x u = (Ok (), updateCode codes x u)" if "x \<in> set ?xs" for x u
  proof -
    from that entry [of "fst x" "snd x"] obtain i where i: "fst x = Uint64ToBigEndian i" "look (w_store w) (CodeK i) = Some (snd x)" by auto
    from legacy_code_entry [OF assms(3) i(2)] obtain c where "codes i = Some c"
      and "mustUnmarshal (CodeInfo_Unmarshal zero_CodeInfo) (snd x) = Ok c" by blast
    with i(1) show ?thesis
      by (cases x) (simp add: migrateCode_def updateCode_def asUint64_key mustStoreCodeInfo_def storeSet_def bindM_def liftO_def modifyM_def)
  qed
  have params: "mustUnmarshal (Params_Unmarshal zero_Params) (RawV (Params_bytes p)) = Ok p"
    using assms(5) by (simp add: mustUnmarshal_def Params_roundtrip)
  have "Migrate2to3 legacySubspace w = (Ok (), raw)"
    using assms(4,5)
    by (simp add: raw_def Migrate2to3_def MigrateStore_def Params_Marshal_eq storeSet_def bindM_def liftO_def modifyM_def getM_def)
  moreover have "migrateParams raw = (Ok (), new)"
    using params by (simp add: new_def raw_def kv_get_set migrateParams_def storeGet_def SetParams_def storeSet_def bindM_def liftO_def modifyM_def)
  ultimately have run: "bindM (Migrate2to3 legacySubspace) (\<lambda>_. Migrate3to4) w = (Ok (), ?w)"
    using eachM_fold [of ?xs migrateCode "updateCode codes" new, OF each]
    by (simp add: Migrate3to4_def bindM_def storePrefix_def)
  have codes: "look (w_store ?w) (CodeK i) = map_option (CodeInfoV \<circ> updateCodeInfo) (codes i)" for i
  proof (cases "look (w_store w) (CodeK i)")
    case None
    then have "codes i = None" using assms(3) [unfolded legacy_codes_def, rule_format, of i] by (auto split: option.splits)
    with None show ?thesis by (simp add: look_updateCodes [OF known] look)
  next
    case (Some v)
    then have "Uint64ToBigEndian i \<in> fst ` set ?xs" using entry by force
    then show ?thesis by (simp add: look_updateCodes [OF known])
  qed
  have "look (w_store ?w) ParamsK = Some (ParamsV (updateParams p))" by (simp add: look_updateCodes [OF known] look)
  moreover have "look (w_store ?w) sk = look (w_store w) sk" if "sk \<noteq> ParamsK \<and> (\<forall>i. sk \<noteq> CodeK i)" for sk
    using that by (simp add: look_updateCodes [OF known] look split: store_key.split)
  ultimately show ?thesis using run codes
    by (auto simp: GetParams_def GetCodeInfo_def storeGet_def look_def bindM_def liftO_def returnM_def split: option.split)
qed

text \<open>What a permission of an older version allows.\<close>

definition legacy_allows :: "addr_codec \<Rightarrow> legacy_AccessConfig \<Rightarrow> bytes \<Rightarrow> bool" where
  "legacy_allows ac c actor \<longleftrightarrow> lac_Permission c = legacy_Everybody \<or>
     lac_Permission c = legacy_OnlyAddress \<and> lac_Address c = addr_String ac actor \<or>
     lac_Permission c = legacy_AnyOfAddresses \<and> addr_String ac actor \<in> set (lac_Addresses c)"

lemma migrated_permission_decides:
  assumes "legacy_AccessConfig_ValidateBasic ac c = Inr ()"
  shows "Allowed ac (updateAccessConfig c) actor = Ok (legacy_allows ac c actor)"
  using assms
  by (auto simp: legacy_allows_def legacy_AccessConfig_ValidateBasic_def Allowed_def updateAccessConfig_def toAccessType_def legacy_types split: if_splits)

text \<open>
  C9: On a store written by older versions with valid permissions, the migrations to versions 3 and 4
  succeed. Afterwards the module reads parameters and code infos that allow every actor exactly what the old ones did,
  a code keeps its hash and creator, there are no other codes, and no entry of another kind has changed.
\<close>

theorem permissions_migrated:
  assumes "items_ok (w_store w)" and "keys_ok (w_store w)" and "legacy_codes (w_store w) codes"
    and "legacySubspace (es_ext (w_env w)) = Ok p" and "Params_Size p < 2 ^ 63"
    and "legacy_AccessConfig_ValidateBasic ac (lp_CodeUploadAccess p) = Inr ()"
    and "\<forall>i c. codes i = Some c \<longrightarrow> legacy_AccessConfig_ValidateBasic ac (lci_InstantiateConfig c) = Inr ()"
  shows "\<exists>w'. bindM (Migrate2to3 legacySubspace) (\<lambda>_. Migrate3to4) w = (Ok (), w') \<and>
     (\<exists>ps. GetParams w' = (Ok ps, w') \<and>
        (\<forall>actor. Allowed ac (CodeUploadAccess ps) actor = Ok (legacy_allows ac (lp_CodeUploadAccess p) actor))) \<and>
     (\<forall>i. case codes i of
        None \<Rightarrow> GetCodeInfo i w' = (Ok None, w')
      | Some c \<Rightarrow> \<exists>c'. GetCodeInfo i w' = (Ok (Some c'), w') \<and>
          code_CodeHash c' = lci_CodeHash c \<and> code_Creator c' = lci_Creator c \<and>
          (\<forall>actor. Allowed ac (code_InstantiateConfig c') actor = Ok (legacy_allows ac (lci_InstantiateConfig c) actor))) \<and>
     (\<forall>sk. sk \<noteq> ParamsK \<and> (\<forall>i. sk \<noteq> CodeK i) \<longrightarrow> look (w_store w') sk = look (w_store w) sk)"
proof -
  obtain w' where run: "bindM (Migrate2to3 legacySubspace) (\<lambda>_. Migrate3to4) w = (Ok (), w')"
    and params: "GetParams w' = (Ok (updateParams p), w')"
    and codes: "\<And>i. GetCodeInfo i w' = (Ok (map_option updateCodeInfo (codes i)), w')"
    and rest: "\<forall>sk. sk \<noteq> ParamsK \<and> (\<forall>i. sk \<noteq> CodeK i) \<longrightarrow> look (w_store w') sk = look (w_store w) sk"
    using migrations_run [of w codes legacySubspace p] assms(1-5) by blast
  have "\<exists>ps. GetParams w' = (Ok ps, w') \<and>
      (\<forall>actor. Allowed ac (CodeUploadAccess ps) actor = Ok (legacy_allows ac (lp_CodeUploadAccess p) actor))"
    using params by (simp add: updateParams_def migrated_permission_decides [OF assms(6)])
  moreover have "case codes i of
        None \<Rightarrow> GetCodeInfo i w' = (Ok None, w')
      | Some c \<Rightarrow> \<exists>c'. GetCodeInfo i w' = (Ok (Some c'), w') \<and>
          code_CodeHash c' = lci_CodeHash c \<and> code_Creator c' = lci_Creator c \<and>
          (\<forall>actor. Allowed ac (code_InstantiateConfig c') actor = Ok (legacy_allows ac (lci_InstantiateConfig c) actor))" for i
    using codes [of i] assms(7)
    by (auto simp: updateCodeInfo_def migrated_permission_decides split: option.split)
  ultimately show ?thesis using run rest by blast
qed

section \<open>Samples\<close>

definition sample_old_contract :: ContractInfo where
  "sample_old_contract = \<lparr>con_CodeID = 1, con_Creator = ''alice'', con_Admin = [], con_Label = ''label'',
     con_Created = Some \<lparr>pos_BlockHeight = 3, pos_TxIndex = 0\<rparr>, con_IBCPortID = [], con_Extension = None\<rparr>"

definition sample_old_store :: "store_value items" where
  "sample_old_store = kv_set [] (GetContractAddressKey ''contract'') (ContractInfoV sample_old_contract)"

lemma look_empty: "look [] sk = None"
  by (simp add: look_def split: outcome.split)

theorem creators_indexed_by_migration_witness:
  "\<exists>w'. Migrate1to2 sample_keeper (sample_world sample_old_store) = (Ok (), w') \<and> created_by (w_store w') ''alice'' ''contract''"
proof -
  have look: "look (w_store (sample_world sample_old_store)) (ContractK a) =
      (if a = ''contract'' then Some (ContractInfoV sample_old_contract) else None)" for a
    by (simp add: sample_world_def sample_old_store_def look_sets look_empty del: kv_set.simps)
  have "indexable sample_keeper (ContractInfoV sample_old_contract) ''alice'' \<lparr>pos_BlockHeight = 3, pos_TxIndex = 0\<rparr>"
    by (simp add: indexable_def sample_old_contract_def sample_keeper_def sample_sdk_def sample_codec_def)
  then have "\<forall>a v. look (w_store (sample_world sample_old_store)) (ContractK a) = Some v \<longrightarrow>
      (\<exists>creator p. indexable sample_keeper v creator p)"
    by (auto simp: look split: if_splits)
  moreover have "items_ok (w_store (sample_world sample_old_store))"
    by (simp add: sample_world_def sample_old_store_def items_ok_set del: kv_set.simps)
  moreover have "look (w_store (sample_world sample_old_store)) (ContractK ''contract'') = Some (ContractInfoV sample_old_contract)"
    and "AccAddressFromBech32 (k_addr sample_keeper) (con_Creator sample_old_contract) = Inr ''alice''"
    by (simp_all add: look) (simp_all add: sample_old_contract_def sample_keeper_def sample_sdk_def sample_codec_def)
  ultimately show ?thesis using creators_indexed_by_migration [of "sample_world sample_old_store" sample_keeper] by blast
qed

definition sample_old_codes :: "u64 \<Rightarrow> legacy_CodeInfo option" where
  "sample_old_codes = (\<lambda>i. if i = 1 then Some sample_legacy_code else None)"

theorem permissions_migrated_witness:
  "\<exists>w' ps c. bindM (Migrate2to3 (\<lambda>_. Ok sample_legacy_params)) (\<lambda>_. Migrate3to4)
       (sample_world (kv_set [] (GetCodeKey 1) (RawV (CodeInfo_bytes sample_legacy_code)))) = (Ok (), w') \<and>
     GetParams w' = (Ok ps, w') \<and> GetCodeInfo 1 w' = (Ok (Some c), w') \<and> code_CodeHash c = ''hash'' \<and>
     Allowed (k_addr sample_keeper) (CodeUploadAccess ps) ''alice'' = Ok True \<and>
     Allowed (k_addr sample_keeper) (CodeUploadAccess ps) ''bob'' = Ok False \<and>
     Allowed (k_addr sample_keeper) (code_InstantiateConfig c) ''alice'' = Ok True"
proof -
  let ?m = "kv_set [] (GetCodeKey 1) (RawV (CodeInfo_bytes sample_legacy_code))" and ?ac = "k_addr sample_keeper"
  have store: "w_store (sample_world ?m) = ?m" by (simp add: sample_world_def)
  have legacy: "legacy_codes ?m sample_old_codes"
    using sample_legacy_sizes(2)
    by (simp add: legacy_codes_def sample_old_codes_def look_sets look_empty CodeInfo_Marshal_eq del: kv_set.simps)
  have keys: "keys_ok ?m" by (rule keys_ok_set [of _ "CodeK 1"]) (simp_all add: keys_ok_def)
  have items: "items_ok ?m" by (simp add: items_ok_set del: kv_set.simps)
  have valid: "legacy_AccessConfig_ValidateBasic ?ac (lp_CodeUploadAccess sample_legacy_params) = Inr ()"
    "legacy_AccessConfig_ValidateBasic ?ac (lci_InstantiateConfig sample_legacy_code) = Inr ()"
    by (simp_all add: legacy_AccessConfig_ValidateBasic_def sample_legacy_params_def sample_legacy_code_def legacy_types
        sample_keeper_def sample_sdk_def sample_codec_def)
  have codes: "\<forall>i c. sample_old_codes i = Some c \<longrightarrow> legacy_AccessConfig_ValidateBasic ?ac (lci_InstantiateConfig c) = Inr ()"
    using valid(2) by (simp add: sample_old_codes_def split: if_splits)
  obtain w' ps where "bindM (Migrate2to3 (\<lambda>_. Ok sample_legacy_params)) (\<lambda>_. Migrate3to4) (sample_world ?m) = (Ok (), w')"
    and "GetParams w' = (Ok ps, w')"
    and ps: "\<And>actor. Allowed ?ac (CodeUploadAccess ps) actor = Ok (legacy_allows ?ac (lp_CodeUploadAccess sample_legacy_params) actor)"
    and code: "\<And>i. case sample_old_codes i of
        None \<Rightarrow> GetCodeInfo i w' = (Ok None, w')
      | Some c \<Rightarrow> \<exists>c'. GetCodeInfo i w' = (Ok (Some c'), w') \<and>
          code_CodeHash c' = lci_CodeHash c \<and> code_Creator c' = lci_Creator c \<and>
          (\<forall>actor. Allowed ?ac (code_InstantiateConfig c') actor = Ok (legacy_allows ?ac (lci_InstantiateConfig c) actor))"
    using permissions_migrated [of "sample_world ?m" sample_old_codes "\<lambda>_. Ok sample_legacy_params" sample_legacy_params ?ac,
        unfolded store, OF items keys legacy refl sample_legacy_sizes(1) valid(1) codes] by blast
  moreover have "legacy_allows ?ac (lp_CodeUploadAccess sample_legacy_params) ''alice''"
    and "\<not> legacy_allows ?ac (lp_CodeUploadAccess sample_legacy_params) ''bob''"
    and "legacy_allows ?ac (lci_InstantiateConfig sample_legacy_code) ''alice''"
    by (simp_all add: legacy_allows_def sample_legacy_params_def sample_legacy_code_def legacy_types sample_keeper_def sample_sdk_def sample_codec_def)
  moreover have "lci_CodeHash sample_legacy_code = ''hash''" by (simp add: sample_legacy_code_def)
  ultimately show ?thesis using code [of 1] ps by (auto simp: sample_old_codes_def)
qed

text \<open>The two addresses lists that older versions told apart and \<open>Equals\<close> does not.\<close>

lemma legacy_Equals_ignores_addresses:
  "\<exists>a b. legacy_AccessConfig_Equals a b \<and> updateAccessConfig a \<noteq> updateAccessConfig b"
proof -
  let ?c = "\<lambda>as. \<lparr>lac_Permission = legacy_AnyOfAddresses, lac_Address = [], lac_Addresses = as\<rparr>"
  have "legacy_AccessConfig_Equals (?c []) (?c [''a''])" and "updateAccessConfig (?c []) \<noteq> updateAccessConfig (?c [''a''])"
    by (simp_all add: legacy_AccessConfig_Equals_def updateAccessConfig_def legacy_types)
  then show ?thesis by blast
qed

end
