(* ===== verification/Snapshots.thy ===== *)
theory Snapshots
  imports Genesis_Roundtrip
begin

text \<open>
  The extension of state-sync snapshots with the byte code of contracts (\<open>keeper/snapshotter.go\<close>). The
  stores of all modules are part of the snapshot itself; the codes are kept by the VM and follow as payloads,
  each code once and compressed.

  The version of the module's store at a height (\<open>CacheMultiStoreWithVersion\<close>) and the compressor of
  \<open>compress/gzip\<close> are parameters. A payload writer works on a state of its own. The payload reader is the
  list of payloads it delivers with the error it ends with, none for the end of the stream.

  The theorem shows that a node that restores a snapshot has the code of every entry of the registry.
\<close>

section \<open>Taking a snapshot\<close>

definition SnapshotFormat :: u32 where "SnapshotFormat = 1"

text \<open>The callback of \<open>IterateCodeInfos\<close> with the set of the checksums seen before.\<close>

primrec snapshotCodes ::
  "('w, 'v) Keeper \<Rightarrow> (bytes \<Rightarrow> go_error + bytes) \<Rightarrow> (bytes \<Rightarrow> ('p, unit) prog) \<Rightarrow> ('w, 'v) world \<Rightarrow> string set \<Rightarrow>
   store_value items \<Rightarrow> ('p, unit) prog"
where
  "snapshotCodes k GzipIt payloadWriter w seenBefore [] = returnM ()"
| "snapshotCodes k GzipIt payloadWriter w seenBefore (item # items) =
     bindM (liftO (asCodeInfo (snd item))) (\<lambda>info.
     bindM (liftO (BigEndian_Uint64 (fst item))) (\<lambda>id.
     let hexHash = hex_encode (code_CodeHash info) in
     if hexHash \<in> seenBefore then snapshotCodes k GzipIt payloadWriter w seenBefore items
     else bindM (liftO (fst (GetByteCode k id w))) (\<lambda>wasmBytes.
       bindM (liftE (GzipIt (case wasmBytes of None \<Rightarrow> [] | Some b \<Rightarrow> b))) (\<lambda>compressedWasm.
       bindM (payloadWriter compressedWasm) (\<lambda>_.
       snapshotCodes k GzipIt payloadWriter w (insert hexHash seenBefore) items)))))"

definition SnapshotExtension ::
  "('w, 'v) Keeper \<Rightarrow> (bytes \<Rightarrow> go_error + bytes) \<Rightarrow> (u64 \<Rightarrow> go_error + store_value items) \<Rightarrow> u64 \<Rightarrow>
   (bytes \<Rightarrow> ('p, unit) prog) \<Rightarrow> ('w, 'v) world \<Rightarrow> ('p, unit) prog"
where
  "SnapshotExtension k GzipIt cms height payloadWriter w = bindM (liftE (cms height)) (\<lambda>items.
     snapshotCodes k GzipIt payloadWriter (w\<lparr>w_store := items\<rparr>) {} (strip_prefix CodeKeyPrefix items))"

section \<open>Restoring\<close>

definition restoreV1 :: "('w, 'v) Keeper \<Rightarrow> bytes \<Rightarrow> ('w, 'v, unit) op" where
  "restoreV1 k compressedCode =
     (if \<not> IsGzip compressedCode then failM (WrappedError ''not a gzip'' ErrInvalid)
      else case Uncompress (k_sdk k) compressedCode (2 ^ 63 - 1) of
          Inl err \<Rightarrow> failM (WrappedError (sdk_errText (k_sdk k) err) ErrCreateFailed)
        | Inr wasmCode \<Rightarrow> bindM (vmStoreCodeUnchecked k wasmCode) (\<lambda>r.
            case r of
              Inl err \<Rightarrow> failM (WrappedError err ErrCreateFailed)
            | Inr _ \<Rightarrow> returnM ()))"

definition finalizeV1 :: "('w, 'v) Keeper \<Rightarrow> ('w, 'v, unit) op" where
  "finalizeV1 k = InitializePinnedCodes k"

definition processAllItems ::
  "('w, 'v) Keeper \<Rightarrow> bytes list \<times> go_error option \<Rightarrow> (('w, 'v) Keeper \<Rightarrow> bytes \<Rightarrow> ('w, 'v, unit) op) \<Rightarrow>
   (('w, 'v) Keeper \<Rightarrow> ('w, 'v, unit) op) \<Rightarrow> ('w, 'v, unit) op"
where
  "processAllItems k payloadReader cb finalize = (case payloadReader of (payloads, err) \<Rightarrow>
     bindM (eachM (\<lambda>payload. wrapM ''processing snapshot item'' (cb k payload)) payloads) (\<lambda>_.
     case err of
       Some e \<Rightarrow> failM e
     | None \<Rightarrow> finalize k))"

definition ErrUnknownFormat :: go_error where "ErrUnknownFormat = PlainError ''unknown snapshot format''"

definition RestoreExtension ::
  "('w, 'v) Keeper \<Rightarrow> u32 \<Rightarrow> bytes list \<times> go_error option \<Rightarrow> ('w, 'v, unit) op"
where
  "RestoreExtension k format payloadReader =
     (if format = SnapshotFormat then processAllItems k payloadReader restoreV1 finalizeV1
      else failM ErrUnknownFormat)"

section \<open>The VM as a store of codes\<close>

text \<open>
  What the VM promises for codes it accepts: a stored code is found under its checksum, the other codes stay,
  and a code that is stored can be pinned.
\<close>

definition code_cache :: "'v wasm_engine \<Rightarrow> (bytes \<Rightarrow> bool) \<Rightarrow> (bytes \<Rightarrow> bytes) \<Rightarrow> ('v \<Rightarrow> bytes \<Rightarrow> bytes option) \<Rightarrow> bool" where
  "code_cache vm valid checksum codes \<longleftrightarrow>
     (\<forall>h b v. codes v h = Some b \<longrightarrow> vm_GetCode vm h v = Inr b) \<and>
     (\<forall>b v. valid b \<longrightarrow> (\<exists>v'. vm_StoreCodeUnchecked vm b v = (Inr (checksum b), v') \<and> codes v' = (codes v)(checksum b \<mapsto> b))) \<and>
     (\<forall>h v. codes v h \<noteq> None \<longrightarrow> (\<exists>v'. vm_Pin vm h v = (None, v') \<and> codes v' = codes v))"

text \<open>A stream that collects the payloads.\<close>

definition appendPayload :: "bytes \<Rightarrow> (bytes list, unit) prog" where
  "appendPayload payload = modifyM (\<lambda>ps. ps @ [payload])"

section \<open>Snapshots restore the codes\<close>

definition hashes :: "store_value items \<Rightarrow> bytes set" where
  "hashes items = {code_CodeHash c | key c. (key, CodeInfoV c) \<in> set items}"

lemma hashes_Cons: "hashes ((key, CodeInfoV c) # items) = insert (code_CodeHash c) (hashes items)"
  by (auto simp: hashes_def)

text \<open>
  Entries whose code the VM has: \<open>code\<close> gives the byte code of a checksum and \<open>gz\<close> the payload of a code.
\<close>

definition available :: "('w, 'v) Keeper \<Rightarrow> (bytes \<Rightarrow> go_error + bytes) \<Rightarrow> ('w, 'v) world \<Rightarrow> (bytes \<Rightarrow> bytes) \<Rightarrow> (bytes \<Rightarrow> bytes) \<Rightarrow>
    bytes \<times> store_value \<Rightarrow> bool" where
  "available k GzipIt w code gz item \<longleftrightarrow> (\<exists>i c. item = (Uint64ToBigEndian i, CodeInfoV c) \<and>
     GetByteCode k i w = (Ok (Some (code (code_CodeHash c))), w) \<and> GzipIt (code (code_CodeHash c)) = Inr (gz (code (code_CodeHash c))))"

lemma snapshotCodes_payloads:
  assumes "\<forall>item \<in> set items. available k GzipIt w code gz item"
  shows "\<exists>hs. snapshotCodes k GzipIt appendPayload w (hex_encode ` seen) items ps = (Ok (), ps @ map (gz \<circ> code) hs) \<and>
     distinct hs \<and> set hs = hashes items - seen"
  using assms
proof (induction items arbitrary: seen ps)
  case Nil
  then show ?case by (simp add: returnM_def hashes_def)
next
  case (Cons item items)
  then obtain i c where item: "item = (Uint64ToBigEndian i, CodeInfoV c)"
    and code: "GetByteCode k i w = (Ok (Some (code (code_CodeHash c))), w)"
    and gzip: "GzipIt (code (code_CodeHash c)) = Inr (gz (code (code_CodeHash c)))"
    by (auto simp: available_def)
  let ?h = "code_CodeHash c"
  have rest: "\<forall>item \<in> set items. available k GzipIt w code gz item" using Cons.prems by simp
  have step: "snapshotCodes k GzipIt appendPayload w (hex_encode ` seen) (item # items) ps =
      (if ?h \<in> seen then snapshotCodes k GzipIt appendPayload w (hex_encode ` seen) items ps
       else snapshotCodes k GzipIt appendPayload w (hex_encode ` insert ?h seen) items (ps @ [gz (code ?h)]))"
    using code gzip by (auto simp: item asUint64_key appendPayload_def bindM_def liftO_def liftE_def modifyM_def returnM_def Let_def)
  show ?case
  proof (cases "?h \<in> seen")
    case True
    with Cons.IH [OF rest, of seen ps] show ?thesis unfolding step by (auto simp: item hashes_Cons)
  next
    case False
    from Cons.IH [OF rest, of "insert ?h seen" "ps @ [gz (code ?h)]"] obtain hs where
      "snapshotCodes k GzipIt appendPayload w (hex_encode ` insert ?h seen) items (ps @ [gz (code ?h)]) =
        (Ok (), (ps @ [gz (code ?h)]) @ map (gz \<circ> code) hs)" and "distinct hs" and "set hs = hashes items - insert ?h seen" by blast
    with False show ?thesis unfolding step by (intro exI [of _ "?h # hs"]) (auto simp: item hashes_Cons)
  qed
qed

lemma restore_payloads:
  assumes cache: "code_cache (k_vm k) valid checksum codes"
    and bs: "\<forall>b \<in> set bs. valid b \<and> IsGzip (gz b) \<and> Uncompress (k_sdk k) (gz b) (2 ^ 63 - 1) = Inr b"
  shows "\<exists>r'. eachM (\<lambda>payload. wrapM d (restoreV1 k payload)) (map gz bs) r = (Ok (), r') \<and> w_store r' = w_store r \<and>
     codes (w_vm r') = codes (w_vm r) ++ map_of (rev (map (\<lambda>b. (checksum b, b)) bs))"
  using bs
proof (induction bs arbitrary: r)
  case Nil
  then show ?case by (simp add: returnM_def)
next
  case (Cons b bs)
  from Cons.prems have "valid b" by simp
  with cache obtain v where store: "vm_StoreCodeUnchecked (k_vm k) b (w_vm r) = (Inr (checksum b), v)"
    and v: "codes v = (codes (w_vm r))(checksum b \<mapsto> b)" unfolding code_cache_def by meson
  have "wrapM d (restoreV1 k (gz b)) r = (Ok (), r\<lparr>w_vm := v\<rparr>)"
    using Cons.prems store by (simp add: wrapM_def restoreV1_def vmStoreCodeUnchecked_def bindM_def returnM_def)
  moreover from Cons obtain r' where "eachM (\<lambda>payload. wrapM d (restoreV1 k payload)) (map gz bs) (r\<lparr>w_vm := v\<rparr>) = (Ok (), r')"
    and "w_store r' = w_store r" and "codes (w_vm r') = codes v ++ map_of (rev (map (\<lambda>b. (checksum b, b)) bs))"
    by fastforce
  ultimately show ?case by (simp add: bindM_def v map_add_assoc [symmetric] map_upd_Some_unfold)
qed

lemma code_items:
  assumes "registry_ok m" and "keys_ok m"
  shows "(key, v) \<in> set (strip_prefix CodeKeyPrefix m) \<longleftrightarrow>
     (\<exists>i c. key = Uint64ToBigEndian i \<and> v = CodeInfoV c \<and> code_at m i = Some c)"
proof -
  have typed: "look m (CodeK i) = Some v \<longleftrightarrow> (\<exists>c. v = CodeInfoV c \<and> code_at m i = Some c)" for i
    using assms(1) by (auto simp: registry_ok_def well_typed_def code_at_def split: option.splits store_value.splits)
  have "items_ok m" using assms(1) by (simp add: registry_ok_def)
  from code_entry [OF this assms(2), of key v] show ?thesis by (auto simp: typed)
qed

text \<open>The checksums of the registry, and a VM that has a given byte code for each of them.\<close>

definition registered :: "store_value items \<Rightarrow> bytes set" where
  "registered m = {code_CodeHash c | i c. code_at m i = Some c}"

definition holds :: "('v \<Rightarrow> bytes \<Rightarrow> bytes option) \<Rightarrow> bytes set \<Rightarrow> (bytes \<Rightarrow> bytes) \<Rightarrow> 'v \<Rightarrow> bool" where
  "holds codes H code v \<longleftrightarrow> (\<forall>h \<in> H. codes v h = Some (code h))"

lemma GetByteCode_holds:
  assumes "registry_ok (w_store u)" and "code_cache (k_vm k) valid checksum codes" and "holds codes (registered (w_store u)) code (w_vm u)"
  shows "GetByteCode k i u = (Ok (map_option (code \<circ> code_CodeHash) (code_at (w_store u) i)), u)"
proof (cases "code_at (w_store u) i")
  case None
  then show ?thesis using eval_GetCodeInfo [OF assms(1), of i] by (simp add: GetByteCode_def bindM_def returnM_def)
next
  case (Some c)
  then have "vm_GetCode (k_vm k) (code_CodeHash c) (w_vm u) = Inr (code (code_CodeHash c))"
    using assms(2,3) unfolding code_cache_def holds_def registered_def by blast
  with Some show ?thesis using eval_GetCodeInfo [OF assms(1), of i] by (simp add: GetByteCode_def bindM_def returnM_def getM_def)
qed

lemma pin_holds:
  assumes "registry_ok (w_store r)" and "keys_ok (w_store r)" and cache: "code_cache (k_vm k) valid checksum codes"
    and "holds codes (registered (w_store r)) code (w_vm r)"
  shows "\<exists>r'. InitializePinnedCodes k r = (Ok (), r') \<and> w_store r' = w_store r \<and> holds codes (registered (w_store r)) code (w_vm r')"
proof (rule pin_every_code [where J = "holds codes (registered (w_store r)) code", OF assms(1,2,4)])
  fix i c v
  assume c: "code_at (w_store r) i = Some c" and v: "holds codes (registered (w_store r)) code v"
  then have "codes v (code_CodeHash c) \<noteq> None" unfolding holds_def registered_def by auto
  with cache obtain v' where "vm_Pin (k_vm k) (code_CodeHash c) v = (None, v')" and "codes v' = codes v"
    unfolding code_cache_def by meson
  with v show "\<exists>v'. vm_Pin (k_vm k) (code_CodeHash c) v = (None, v') \<and> holds codes (registered (w_store r)) code v'"
    by (auto simp: holds_def)
qed

lemma snapshot_payloads:
  assumes "registry_ok (w_store w)" and "keys_ok (w_store w)" and "code_cache (k_vm k) valid checksum codes"
    and "holds codes (registered (w_store w)) code (w_vm w)" and "cms height = Inr (w_store w)"
    and "\<forall>h \<in> registered (w_store w). GzipIt (code h) = Inr (gz (code h))"
  obtains hs where "SnapshotExtension k GzipIt cms height appendPayload w [] = (Ok (), map gz (map code hs))"
    and "distinct hs" and "set hs = registered (w_store w)"
proof -
  let ?items = "strip_prefix CodeKeyPrefix (w_store w)"
  note entry = code_items [OF assms(1,2)]
  have "hashes ?items = registered (w_store w)" by (auto simp: hashes_def entry registered_def)
  moreover have "\<forall>item \<in> set ?items. available k GzipIt w code gz item"
    using GetByteCode_holds [OF assms(1,3,4)] assms(6) unfolding available_def by (auto simp: entry registered_def) blast
  ultimately show thesis
    using snapshotCodes_payloads [of ?items k GzipIt w code gz "{}" "[]"] assms(5) that
    by (auto simp: SnapshotExtension_def bindM_def liftE_def returnM_def)
qed

lemma holds_restored:
  assumes "distinct hs" and "\<forall>h \<in> set hs. checksum (code h) = h"
  shows "holds (\<lambda>_. f ++ map_of (rev (map (\<lambda>b. (checksum b, b)) (map code hs)))) (set hs) code v"
  unfolding holds_def
proof
  fix h assume h: "h \<in> set hs"
  have "distinct (map fst (rev (map (\<lambda>b. (checksum b, b)) (map code hs))))"
    using assms by (auto simp: rev_map distinct_map inj_on_def)
  moreover have "(h, code h) \<in> set (rev (map (\<lambda>b. (checksum b, b)) (map code hs)))" using h assms(2) by force
  ultimately show "(f ++ map_of (rev (map (\<lambda>b. (checksum b, b)) (map code hs)))) h = Some (code h)" by (simp add: map_add_Some_iff)
qed

text \<open>
  C22: A node that takes a snapshot and a node that has restored the stores and then this snapshot agree on the byte
  code of every entry of the registry; each byte code is sent once, however many entries have it, and the codes
  that are pinned are pinned again.
\<close>

theorem snapshot_restores_codes:
  assumes ok: "registry_ok (w_store w)" and keys: "keys_ok (w_store w)"
    and cache: "code_cache (k_vm k) valid checksum codes"
    and stored: "\<And>i c. code_at (w_store w) i = Some c \<Longrightarrow>
      \<exists>b. codes (w_vm w) (code_CodeHash c) = Some b \<and> valid b \<and> checksum b = code_CodeHash c"
    and gzip: "\<And>b. valid b \<Longrightarrow> GzipIt b = Inr (gz b) \<and> IsGzip (gz b) \<and> Uncompress (k_sdk k) (gz b) (2 ^ 63 - 1) = Inr b"
    and cms: "cms height = Inr (w_store w)" and synced: "w_store r = w_store w"
  shows "\<exists>payloads r'. SnapshotExtension k GzipIt cms height appendPayload w [] = (Ok (), payloads) \<and>
     length payloads = card {code_CodeHash c | i c. code_at (w_store w) i = Some c} \<and>
     RestoreExtension k 1 (payloads, None) r = (Ok (), r') \<and> w_store r' = w_store r \<and>
     (\<forall>i. fst (GetByteCode k i r') = fst (GetByteCode k i w))"
proof -
  let ?H = "registered (w_store w)"
  define code where "code h = the (codes (w_vm w) h)" for h
  have known: "codes (w_vm w) h = Some (code h)" "valid (code h)" "checksum (code h) = h" if "h \<in> ?H" for h
    using that stored by (force simp: code_def registered_def)+
  then have w: "holds codes ?H code (w_vm w)" by (simp add: holds_def)
  from known(2) gzip obtain hs where snap: "SnapshotExtension k GzipIt cms height appendPayload w [] = (Ok (), map gz (map code hs))"
    and hs: "distinct hs" "set hs = ?H"
    using snapshot_payloads [where k = k and gz = gz and GzipIt = GzipIt and cms = cms and height = height, OF ok keys cache w cms] by blast
  have "\<forall>b \<in> set (map code hs). valid b \<and> IsGzip (gz b) \<and> Uncompress (k_sdk k) (gz b) (2 ^ 63 - 1) = Inr b"
    using known(2) gzip hs(2) by auto
  from restore_payloads [OF cache this, of "''processing snapshot item''" r] obtain r1 where
    restore: "eachM (\<lambda>payload. wrapM ''processing snapshot item'' (restoreV1 k payload)) (map gz (map code hs)) r = (Ok (), r1)"
    and r1: "w_store r1 = w_store r" "codes (w_vm r1) = codes (w_vm r) ++ map_of (rev (map (\<lambda>b. (checksum b, b)) (map code hs)))"
    by blast
  have "holds codes ?H code (w_vm r1)"
    using holds_restored [OF hs(1), of checksum code "codes (w_vm r)"] known(3) unfolding hs(2) holds_def r1(2) by blast
  with pin_holds [of r1, OF _ _ cache] ok keys obtain r' where "InitializePinnedCodes k r1 = (Ok (), r')"
    and r': "w_store r' = w_store w" "holds codes ?H code (w_vm r')" using r1(1) synced by auto
  with restore have "RestoreExtension k 1 (map gz (map code hs), None) r = (Ok (), r')"
    by (simp add: RestoreExtension_def SnapshotFormat_def processAllItems_def finalizeV1_def bindM_def)
  moreover have "fst (GetByteCode k i r') = fst (GetByteCode k i w)" for i
    using GetByteCode_holds [of r', OF _ cache] GetByteCode_holds [OF ok cache w] r' ok by simp
  moreover have "length (map gz (map code hs)) = card ?H" using hs distinct_card by fastforce
  ultimately show ?thesis using snap r' synced unfolding registered_def by auto
qed

section \<open>A sample\<close>

type_synonym sample_codes = "bytes \<Rightarrow> bytes option"

definition sample_checksum :: "bytes \<Rightarrow> bytes" where
  "sample_checksum code = take 32 (code @ replicate 32 (CHR 0x00))"

definition sample_cache_vm :: "sample_codes wasm_engine" where
  "sample_cache_vm = \<lparr>
     vm_StoreCode = (\<lambda>code _ v. ((sample_checksum code, 1, None), v(sample_checksum code \<mapsto> code))),
     vm_StoreCodeUnchecked = (\<lambda>code v. (Inr (sample_checksum code), v(sample_checksum code \<mapsto> code))),
     vm_AnalyzeCode = (\<lambda>_ _. Inr sample_report),
     vm_GetCode = (\<lambda>c v. case v c of None \<Rightarrow> Inl ''no code'' | Some b \<Rightarrow> Inr b),
     vm_Pin = (\<lambda>c v. (if v c = None then Some ''no code'' else None, v)),
     vm_Unpin = (\<lambda>_ v. (None, v)),
     vm_Instantiate = vm_Instantiate sample_vm, vm_Execute = vm_Execute sample_vm, vm_MigrateWithInfo = vm_MigrateWithInfo sample_vm,
     vm_Sudo = vm_Sudo sample_vm, vm_Reply = vm_Reply sample_vm, vm_Query = vm_Query sample_vm,
     vm_IBCChannelOpen = vm_IBCChannelOpen sample_vm, vm_IBCChannelConnect = vm_IBCChannelConnect sample_vm,
     vm_IBCChannelClose = vm_IBCChannelClose sample_vm, vm_IBCPacketReceive = vm_IBCPacketReceive sample_vm,
     vm_IBCPacketAck = vm_IBCPacketAck sample_vm, vm_IBCPacketTimeout = vm_IBCPacketTimeout sample_vm,
     vm_IBCSourceCallback = vm_IBCSourceCallback sample_vm, vm_IBCDestinationCallback = vm_IBCDestinationCallback sample_vm\<rparr>"

definition sample_node :: "(unit, sample_codes) Keeper" where
  "sample_node = \<lparr>
     k_sdk = sample_sdk\<lparr>sdk_gunzip := (\<lambda>z. Inr (drop 3 z, None, True))\<rparr>, k_vm = sample_cache_vm,
     k_bank = (\<lambda>_ _ _. returnM ()), k_queryHandler = (\<lambda>_ _ _. returnM []), k_responseHandler = (\<lambda>_ _ _ _ d. returnM d),
     k_messenger = (\<lambda>_ _ _ _. returnM ([], [], [])), k_queryGasLimit = 3000000, k_gasRegister = DefaultGasRegisterConfig,
     k_maxQueryStackSize = 10, k_maxCallDepth = 500, k_acceptedAccountTypes = {''base''},
     k_accountPruner = (\<lambda>_. returnM False), k_propagateGovAuthorization = {}, k_authority = ''gov''\<rparr>"

definition sample_node_world :: "sample_codes \<Rightarrow> (unit, sample_codes) world" where
  "sample_node_world v = \<lparr>w_store = sample_store6,
     w_env = \<lparr>es_ext = (), es_meter = NewGasMeter 1000000, es_events = []\<rparr>, w_vm = v, w_tx = Some {}\<rparr>"

theorem snapshot_restores_codes_witness:
  "\<exists>payloads r'. SnapshotExtension sample_node (\<lambda>b. Inr (gzipIdent @ b)) (\<lambda>_. Inr sample_store6) 7 appendPayload
       (sample_node_world [sample_hash \<mapsto> ''wasm'']) [] = (Ok (), payloads) \<and> length payloads = 1 \<and>
     RestoreExtension sample_node 1 (payloads, None) (sample_node_world Map.empty) = (Ok (), r') \<and>
     fst (GetByteCode sample_node 2 r') = Ok (Some ''wasm'')"
proof -
  let ?w = "sample_node_world [sample_hash \<mapsto> ''wasm'']" and ?r = "sample_node_world Map.empty"
  have store: "w_store (sample_node_world v) = sample_store6" "w_vm (sample_node_world v) = v" for v by (simp_all add: sample_node_world_def)
  have ok: "registry_ok sample_store6" and keys: "keys_ok sample_store6"
    using reachable_ok [OF sample_isolated sample_reachable6] reachable_keys [OF sample_isolated sample_reachable6]
    by (simp_all add: sample_world_store)
  have cache: "code_cache (k_vm sample_node) (\<lambda>b. length b < 100) sample_checksum (\<lambda>v. v)"
    by (auto simp: code_cache_def sample_node_def sample_cache_vm_def)
  have hash: "sample_checksum ''wasm'' = sample_hash" by (simp add: sample_checksum_def sample_hash_def)
  have "\<exists>payloads r'. SnapshotExtension sample_node (\<lambda>b. Inr (gzipIdent @ b)) (\<lambda>_. Inr sample_store6) 7 appendPayload ?w [] = (Ok (), payloads) \<and>
      length payloads = card {code_CodeHash c | i c. code_at (w_store ?w) i = Some c} \<and>
      RestoreExtension sample_node 1 (payloads, None) ?r = (Ok (), r') \<and> w_store r' = w_store ?r \<and>
      (\<forall>i. fst (GetByteCode sample_node i r') = fst (GetByteCode sample_node i ?w))"
  proof (rule snapshot_restores_codes [OF _ _ cache, where gz = "\<lambda>b. gzipIdent @ b"])
    show "\<exists>b. w_vm ?w (code_CodeHash c) = Some b \<and> length b < 100 \<and> sample_checksum b = code_CodeHash c"
      if "code_at (w_store ?w) i = Some c" for i c
      using that hash by (auto simp: store sample_views6 sample_code_def split: if_splits)
    show "Inr (gzipIdent @ b) = Inr (gzipIdent @ b) \<and> IsGzip (gzipIdent @ b) \<and>
        Uncompress (k_sdk sample_node) (gzipIdent @ b) (2 ^ 63 - 1) = Inr b" if "length b < 100" for b
      using that by (auto simp: IsGzip_def gzipIdent_def Uncompress_def sample_node_def)
  qed (use ok keys in \<open>simp_all add: store\<close>)
  moreover have "{code_CodeHash c | i c. code_at (w_store ?w) i = Some c} = {sample_hash}"
    by (auto simp: store sample_views6 sample_code_def)
  moreover have "fst (GetByteCode sample_node 2 ?w) = Ok (Some ''wasm'')"
    using eval_GetCodeInfo [of ?w 2] ok
    by (simp add: store sample_views6 sample_code_def GetByteCode_def bindM_def returnM_def getM_def sample_node_def sample_cache_vm_def)
  ultimately show ?thesis by fastforce
qed

end
