(* ===== verification/Foreign_Memory.thy ===== *)
theory Foreign_Memory
  imports Wasm_Types
begin

text \<open>
  The memory both sides of the VM bindings share (\<open>internal/api/memory.go\<close> and
  \<open>libwasmvm/src/memory.rs\<close>): views into slices of the other side, and vectors that Rust allocates
  and Go may create, read and destroy.

  The memory is a map from addresses to blocks with an owner. Reading outside of a block, and freeing a block
  twice, with a wrong capacity or from the wrong side, is \<open>Undefined\<close>. The allocator takes addresses that
  were never used; how much it allocates beyond the requested size is an argument (\<open>spare\<close>).

  The lemmas show that byte strings cross the boundary unchanged in both directions, with \<open>nil\<close> and the
  empty string told apart, and that every vector is freed exactly once. This is what allows the models of the
  callbacks and of the library calls to pass \<open>bytes option\<close> values.
\<close>

section \<open>Memory\<close>

datatype 'a ffi = Done 'a | GoPanic | Undefined

primrec bindF :: "'a ffi \<Rightarrow> ('a \<Rightarrow> 'b ffi) \<Rightarrow> 'b ffi" where
  "bindF (Done x) f = f x"
| "bindF GoPanic f = GoPanic"
| "bindF Undefined f = Undefined"

datatype side = GoSide | RustSide

datatype pointer = Null | Ptr nat

record block =
  blk_owner :: side
  blk_data :: bytes
  blk_cap :: nat

record memory =
  mem_blocks :: "nat \<Rightarrow> block option"
  mem_next :: nat

text \<open>\<open>slice::from_raw_parts\<close> and what \<open>C.GoBytes\<close> copies.\<close>

fun readMem :: "memory \<Rightarrow> pointer \<Rightarrow> nat \<Rightarrow> bytes ffi" where
  "readMem mem Null n = Undefined"
| "readMem mem (Ptr a) n =
     (case mem_blocks mem a of
        None \<Rightarrow> Undefined
      | Some blk \<Rightarrow> if n \<le> length (blk_data blk) then Done (take n (blk_data blk)) else Undefined)"

definition alloc :: "side \<Rightarrow> bytes \<Rightarrow> nat \<Rightarrow> memory \<Rightarrow> nat \<times> memory" where
  "alloc side data spare mem = (mem_next mem,
     \<lparr>mem_blocks = (mem_blocks mem)(mem_next mem \<mapsto> \<lparr>blk_owner = side, blk_data = data, blk_cap = length data + spare\<rparr>),
      mem_next = Suc (mem_next mem)\<rparr>)"

section \<open>Rust\<close>

record vec =
  vec_ptr :: pointer
  vec_len :: nat
  vec_cap :: nat

definition Vec_new :: vec where
  "Vec_new = \<lparr>vec_ptr = Null, vec_len = 0, vec_cap = 0\<rparr>"

definition Vec_from :: "bytes \<Rightarrow> nat \<Rightarrow> memory \<Rightarrow> vec \<times> memory" where
  "Vec_from data spare mem =
     (if length data + spare = 0 then (Vec_new, mem)
      else case alloc RustSide data spare mem of (a, mem') \<Rightarrow>
        (\<lparr>vec_ptr = Ptr a, vec_len = length data, vec_cap = length data + spare\<rparr>, mem'))"

text \<open>The destructor of \<open>Vec\<close>.\<close>

definition dropVec :: "vec \<Rightarrow> memory \<Rightarrow> memory ffi" where
  "dropVec v mem =
     (if vec_cap v = 0 then Done mem
      else case vec_ptr v of
          Null \<Rightarrow> Undefined
        | Ptr a \<Rightarrow>
            (case mem_blocks mem a of
               None \<Rightarrow> Undefined
             | Some blk \<Rightarrow>
                 if blk_owner blk = RustSide \<and> blk_cap blk = vec_cap v
                 then Done (mem\<lparr>mem_blocks := (mem_blocks mem)(a := None)\<rparr>) else Undefined))"

record ByteSliceView =
  bsv_is_nil :: bool
  bsv_ptr :: pointer
  bsv_len :: nat

definition ByteSliceView_read :: "memory \<Rightarrow> ByteSliceView \<Rightarrow> bytes option ffi" where
  "ByteSliceView_read mem v =
     (if bsv_is_nil v then Done None
      else if bsv_len v = 0 then Done (Some [])
      else bindF (readMem mem (bsv_ptr v) (bsv_len v)) (\<lambda>b. Done (Some b)))"

record U8SliceView =
  u8v_is_none :: bool
  u8v_ptr :: pointer
  u8v_len :: nat

definition U8SliceView_new :: "(pointer \<times> nat) option \<Rightarrow> U8SliceView" where
  "U8SliceView_new source = (case source of
     Some (p, n) \<Rightarrow> \<lparr>u8v_is_none = False, u8v_ptr = p, u8v_len = n\<rparr>
   | None \<Rightarrow> \<lparr>u8v_is_none = True, u8v_ptr = Null, u8v_len = 0\<rparr>)"

record UnmanagedVector =
  uv_is_none :: bool
  uv_ptr :: pointer
  uv_len :: nat
  uv_cap :: nat

definition UnmanagedVector_new :: "vec option \<Rightarrow> UnmanagedVector" where
  "UnmanagedVector_new source = (case source of
     Some data \<Rightarrow>
       if vec_cap data = 0 then \<lparr>uv_is_none = False, uv_ptr = Null, uv_len = 0, uv_cap = 0\<rparr>
       else \<lparr>uv_is_none = False, uv_ptr = vec_ptr data, uv_len = vec_len data, uv_cap = vec_cap data\<rparr>
   | None \<Rightarrow> \<lparr>uv_is_none = True, uv_ptr = Null, uv_len = 0, uv_cap = 0\<rparr>)"

definition UnmanagedVector_consume :: "UnmanagedVector \<Rightarrow> vec option" where
  "UnmanagedVector_consume v =
     (if uv_is_none v then None
      else if uv_cap v = 0 then Some Vec_new
      else Some \<lparr>vec_ptr = uv_ptr v, vec_len = uv_len v, vec_cap = uv_cap v\<rparr>)"

definition new_unmanaged_vector :: "bool \<Rightarrow> pointer \<Rightarrow> nat \<Rightarrow> nat \<Rightarrow> memory \<Rightarrow> (UnmanagedVector \<times> memory) ffi" where
  "new_unmanaged_vector nil ptr len spare mem =
     (if nil then Done (UnmanagedVector_new None, mem)
      else if len = 0 then Done (UnmanagedVector_new (Some Vec_new), mem)
      else bindF (readMem mem ptr len) (\<lambda>external_memory.
        case Vec_from external_memory spare mem of (copy, mem') \<Rightarrow> Done (UnmanagedVector_new (Some copy), mem')))"

definition destroy_unmanaged_vector :: "UnmanagedVector \<Rightarrow> memory \<Rightarrow> memory ffi" where
  "destroy_unmanaged_vector v mem = (case UnmanagedVector_consume v of
     None \<Rightarrow> Done mem
   | Some data \<Rightarrow> dropVec data mem)"

section \<open>Go\<close>

text \<open>A slice is \<open>nil\<close> or has the address of its array and a length.\<close>

record slice =
  sl_addr :: nat
  sl_len :: nat

definition makeView :: "slice option \<Rightarrow> ByteSliceView" where
  "makeView s = (case s of
     None \<Rightarrow> \<lparr>bsv_is_nil = True, bsv_ptr = Null, bsv_len = 0\<rparr>
   | Some sl \<Rightarrow>
       if sl_len sl = 0 then \<lparr>bsv_is_nil = False, bsv_ptr = Null, bsv_len = 0\<rparr>
       else \<lparr>bsv_is_nil = False, bsv_ptr = Ptr (sl_addr sl), bsv_len = sl_len sl\<rparr>)"

definition newUnmanagedVector :: "slice option \<Rightarrow> nat \<Rightarrow> memory \<Rightarrow> (UnmanagedVector \<times> memory) ffi" where
  "newUnmanagedVector data spare mem = (case data of
     None \<Rightarrow> new_unmanaged_vector True Null 0 spare mem
   | Some sl \<Rightarrow>
       if sl_len sl = 0 then new_unmanaged_vector False Null 0 spare mem
       else new_unmanaged_vector False (Ptr (sl_addr sl)) (sl_len sl) spare mem)"

text \<open>\<open>C.GoBytes\<close> takes a C \<open>int\<close>: the conversion \<open>cint(len)\<close> keeps 32 bits; it panics on a negative length.\<close>

definition cint :: "nat \<Rightarrow> int" where
  "cint n = sint (word_of_nat n :: 32 word)"

definition GoBytes :: "memory \<Rightarrow> pointer \<Rightarrow> int \<Rightarrow> bytes ffi" where
  "GoBytes mem p n = (if n < 0 then GoPanic else if n = 0 then Done [] else readMem mem p (nat n))"

definition copyAndDestroyUnmanagedVector :: "UnmanagedVector \<Rightarrow> memory \<Rightarrow> (bytes option \<times> memory) ffi" where
  "copyAndDestroyUnmanagedVector v mem =
     bindF (if uv_is_none v then Done None
            else if uv_cap v = 0 then Done (Some [])
            else bindF (GoBytes mem (uv_ptr v) (cint (uv_len v))) (\<lambda>b. Done (Some b))) (\<lambda>out.
     bindF (destroy_unmanaged_vector v mem) (\<lambda>mem'. Done (out, mem')))"

definition copyU8Slice :: "memory \<Rightarrow> U8SliceView \<Rightarrow> bytes option ffi" where
  "copyU8Slice mem view =
     (if u8v_is_none view then Done None
      else if u8v_len view = 0 then Done (Some [])
      else bindF (GoBytes mem (u8v_ptr view) (cint (u8v_len view))) (\<lambda>b. Done (Some b)))"

section \<open>What slices and vectors hold\<close>

definition mem_ok :: "memory \<Rightarrow> bool" where
  "mem_ok mem \<longleftrightarrow> (\<forall>a. mem_blocks mem a \<noteq> None \<longrightarrow> a < mem_next mem)"

definition slice_holds :: "memory \<Rightarrow> slice option \<Rightarrow> bytes option \<Rightarrow> bool" where
  "slice_holds mem s b \<longleftrightarrow> (case (s, b) of
     (None, None) \<Rightarrow> True
   | (Some sl, Some bs) \<Rightarrow> sl_len sl = length bs \<and>
       (bs = [] \<or> (\<exists>blk. mem_blocks mem (sl_addr sl) = Some blk \<and> blk_owner blk = GoSide \<and> prefix bs (blk_data blk)))
   | _ \<Rightarrow> False)"

definition vec_holds :: "memory \<Rightarrow> vec \<Rightarrow> bytes \<Rightarrow> bool" where
  "vec_holds mem v bs \<longleftrightarrow> vec_len v = length bs \<and>
     (if vec_cap v = 0 then bs = []
      else \<exists>a. vec_ptr v = Ptr a \<and> mem_blocks mem a = Some \<lparr>blk_owner = RustSide, blk_data = bs, blk_cap = vec_cap v\<rparr>)"

text \<open>The memory without the block of a vector.\<close>

definition without :: "vec \<Rightarrow> memory \<Rightarrow> memory" where
  "without v mem = (case vec_ptr v of
     Ptr a \<Rightarrow> if vec_cap v = 0 then mem else mem\<lparr>mem_blocks := (mem_blocks mem)(a := None)\<rparr>
   | Null \<Rightarrow> mem)"

lemma cint_small: "n < 2 ^ 31 \<Longrightarrow> cint n = int n"
  by (simp add: cint_def signed_of_nat signed_take_bit_int_eq_self)

lemma vec_holds_drop: "vec_holds mem v bs \<Longrightarrow> dropVec v mem = Done (without v mem)"
  by (auto simp: vec_holds_def dropVec_def without_def split: if_splits pointer.split)

lemma without_dropped: "vec_holds mem v bs \<Longrightarrow> vec_cap v \<noteq> 0 \<Longrightarrow> dropVec v (without v mem) = Undefined"
  by (auto simp: vec_holds_def dropVec_def without_def)

lemma consume_new: "vec_cap v \<noteq> 0 \<Longrightarrow> UnmanagedVector_consume (UnmanagedVector_new (Some v)) = Some v"
  by (cases v) (simp add: UnmanagedVector_consume_def UnmanagedVector_new_def)

lemma mem_ok_fresh: "mem_ok mem \<Longrightarrow> mem_blocks mem (mem_next mem) = None"
  by (metis less_irrefl mem_ok_def)

lemma Vec_from_holds:
  assumes "mem_ok mem" and "Vec_from bs spare mem = (v, mem')"
  shows "vec_holds mem' v bs" and "mem_ok mem'" and "mem_blocks (without v mem') = mem_blocks mem"
  using assms mem_ok_fresh [OF assms(1)]
  by (auto simp: Vec_from_def Vec_new_def alloc_def vec_holds_def mem_ok_def without_def less_Suc_eq fun_eq_iff split: if_splits)

section \<open>Crossing the boundary\<close>

lemma view_reads_slice: "slice_holds mem s b \<Longrightarrow> ByteSliceView_read mem (makeView s) = Done b"
  by (auto simp: slice_holds_def makeView_def ByteSliceView_read_def prefix_def split: option.splits)

lemma go_to_rust:
  assumes "mem_ok mem" and "slice_holds mem s b"
  obtains v mem' where "newUnmanagedVector s spare mem = Done (v, mem')" and "mem_ok mem'"
    and "case UnmanagedVector_consume v of
        None \<Rightarrow> b = None \<and> mem' = mem
      | Some data \<Rightarrow> (\<exists>bs. b = Some bs \<and> vec_holds mem' data bs \<and> mem_blocks (without data mem') = mem_blocks mem)"
proof (cases "\<exists>bs. b = Some bs \<and> bs \<noteq> []")
  case True
  then obtain bs sl blk where b: "b = Some bs" "bs \<noteq> []" and s: "s = Some sl" "sl_len sl = length bs"
    and blk: "mem_blocks mem (sl_addr sl) = Some blk" "prefix bs (blk_data blk)"
    using assms(2) by (auto simp: slice_holds_def split: option.splits)
  obtain v mem' where v: "Vec_from bs spare mem = (v, mem')" by (cases "Vec_from bs spare mem")
  have "newUnmanagedVector s spare mem = Done (UnmanagedVector_new (Some v), mem')"
    using b s blk v by (auto simp: newUnmanagedVector_def new_unmanaged_vector_def prefix_def)
  moreover have "vec_cap v \<noteq> 0" using v b(2) by (auto simp: Vec_from_def alloc_def)
  ultimately show ?thesis
    using that [of "UnmanagedVector_new (Some v)" mem'] Vec_from_holds [OF assms(1) v] b(1)
    by (simp add: consume_new)
next
  case False
  then have "b = None \<and> s = None \<or> b = Some [] \<and> (\<exists>sl. s = Some sl \<and> sl_len sl = 0)"
    using assms(2) by (auto simp: slice_holds_def split: option.splits)
  then show ?thesis
    using that assms(1)
    by (auto simp: newUnmanagedVector_def new_unmanaged_vector_def UnmanagedVector_new_def UnmanagedVector_consume_def Vec_new_def
        vec_holds_def without_def)
qed

lemma rust_to_go:
  assumes "vec_holds mem v bs" and "length bs < 2 ^ 31"
  shows "copyAndDestroyUnmanagedVector (UnmanagedVector_new (Some v)) mem = Done (Some bs, without v mem)"
proof (cases "vec_cap v = 0")
  case True
  with assms(1) show ?thesis
    by (auto simp: copyAndDestroyUnmanagedVector_def destroy_unmanaged_vector_def UnmanagedVector_new_def UnmanagedVector_consume_def
        Vec_new_def dropVec_def vec_holds_def without_def split: pointer.split)
next
  case False
  with assms obtain a where a: "vec_ptr v = Ptr a" "vec_len v = length bs"
    "mem_blocks mem a = Some \<lparr>blk_owner = RustSide, blk_data = bs, blk_cap = vec_cap v\<rparr>" by (auto simp: vec_holds_def)
  have "GoBytes mem (Ptr a) (cint (length bs)) = Done bs" using a(3) assms(2) by (simp add: GoBytes_def cint_small)
  with False a vec_holds_drop [OF assms(1)] show ?thesis
    by (simp add: copyAndDestroyUnmanagedVector_def destroy_unmanaged_vector_def consume_new) (simp add: UnmanagedVector_new_def)
qed

lemma rust_slice_to_go:
  assumes "vec_holds mem v bs" and "length bs < 2 ^ 31"
  shows "copyU8Slice mem (U8SliceView_new (Some (vec_ptr v, vec_len v))) = Done (Some bs)"
  using assms by (auto simp: copyU8Slice_def U8SliceView_new_def GoBytes_def vec_holds_def cint_small split: if_splits)


text \<open>The conversion of the length to a C \<open>int\<close> cuts longer vectors.\<close>

lemma long_vector_cut:
  assumes "vec_holds mem v bs" and "length bs = 2 ^ 32 + n" and "n < 2 ^ 31"
  shows "copyAndDestroyUnmanagedVector (UnmanagedVector_new (Some v)) mem = Done (Some (take n bs), without v mem)"
proof -
  have "bs \<noteq> []" using assms(2) by auto
  with assms(1) obtain a where a: "vec_cap v \<noteq> 0" "vec_ptr v = Ptr a" "vec_len v = length bs"
    "mem_blocks mem a = Some \<lparr>blk_owner = RustSide, blk_data = bs, blk_cap = vec_cap v\<rparr>"
    by (auto simp: vec_holds_def split: if_splits)
  have "(word_of_nat (length bs) :: 32 word) = word_of_nat n" by (simp add: assms(2))
  then have "cint (length bs) = int n" using cint_small [OF assms(3)] by (simp add: cint_def)
  then have "GoBytes mem (Ptr a) (cint (length bs)) = Done (take n bs)" using a(4) assms(2) by (simp add: GoBytes_def)
  with a vec_holds_drop [OF assms(1)] show ?thesis
    by (simp add: copyAndDestroyUnmanagedVector_def destroy_unmanaged_vector_def consume_new) (simp add: UnmanagedVector_new_def)
qed

definition sample_memory :: memory where
  "sample_memory = \<lparr>mem_blocks = [0 \<mapsto> \<lparr>blk_owner = GoSide, blk_data = ''key'', blk_cap = 3\<rparr>,
     1 \<mapsto> \<lparr>blk_owner = RustSide, blk_data = ''value'', blk_cap = 8\<rparr>], mem_next = 2\<rparr>"


end
