(* ===== verification/Spec2Isabelle.thy ===== *)
theory Spec2Isabelle
  imports Authorization Packets Submessages Addresses Queries Grants Ante Genesis_Roundtrip Listings Contract_Calls Migrations Snapshots Foreign_Memory
begin

text \<open>
  A model of the CosmWasm module of a Cosmos chain (\<open>src/x/wasm\<close>) and of the bindings to the contract VM
  (\<open>src/wasmvm\<close>, with the Rust library \<open>src/wasmvm/libwasmvm\<close>), and theorems that make it correct.

  \<^bold>\<open>The program.\<close> Users upload WebAssembly codes, create contracts from them and call these. The \<open>Keeper\<close>
  (\<open>keeper/keeper.go\<close>) keeps the registry of codes and contracts in the module's store and runs contracts in
  the VM. A contract answers with messages, which the dispatcher (\<open>msg_dispatcher.go\<close>) and the handlers
  (\<open>handler_plugin.go\<close>, \<open>handler_plugin_encoders.go\<close>) run as messages of the chain; some of them run contracts
  again. While it runs, a contract queries the chain (\<open>query_plugins.go\<close>). Messages of users arrive at the
  message server (\<open>msg_server.go\<close>), packets of other chains at the IBC module (\<open>ibc.go\<close>, \<open>relay.go\<close>), and
  clients read through the query service (\<open>querier.go\<close>). The VM is a Rust library; Go calls it through
  \<open>internal/api/lib.go\<close>, and it calls back into Go for storage, addresses and queries (\<open>callbacks.go\<close>).

  \<^bold>\<open>Conventions.\<close> \<open>Prelude\<close> has the byte strings (\<open>char list\<close>, for Go's \<open>string\<close> and \<open>[]byte\<close>; a slice that
  may be \<open>nil\<close> is an option where the code tells the difference), machine words for \<open>uint64\<close> and \<open>uint32\<close>, and the
  sequencing of Go statements with errors and panics as values (\<open>outcome\<close>, \<open>bindM\<close>, \<open>tryM\<close>). \<open>World\<close> has the
  state the keeper reaches through an \<open>sdk.Context\<close>, and the records of functions that stand for code outside
  of the repository: \<open>sdk_ops\<close> (Cosmos SDK, ibc-go) and \<open>wasm_engine\<close> (the VM as the keeper sees it).
  What theorems need of these parameters is a named predicate in their hypotheses, for instance \<open>isolated\<close>,
  \<open>paginates\<close>, \<open>code_cache\<close>; the witnesses establish it for a concrete instance. Operations keep the names of the
  source, with the receiver in front where names repeat (\<open>server_PinCodes\<close>, \<open>MemDB_Get\<close>).

  \<^bold>\<open>Data and validation.\<close>
  \<^item> \<open>Wasm_Types\<close>, \<open>Vm_Types\<close>, \<open>Query_Types\<close>, \<open>Json\<close>: the data of \<open>x/wasm/types\<close> and \<open>wasmvm/types\<close> and the text of
    JSON values.
  \<^item> \<open>Keys\<close> (\<open>types/keys.go\<close>): two entries of the store have the same key only if they are the same entry.
  \<^item> \<open>KV_Store\<close> (\<open>internal/api/testdb\<close>, \<open>types/store.go\<close>): ordered stores as an interface, \<open>ordered_kv\<close>, that
    \<open>MemDB\<close> meets; every range iterator lists exactly the range.
  \<^item> \<open>Gas_Register\<close> (\<open>types/gas_register.go\<close>): gas prices and conversions with their overflows.
  \<^item> \<open>Access_Control\<close> (\<open>params.go\<close>, \<open>authz_policy.go\<close>): access configurations and the policies under which a
    message runs; a submessage never has rights its parent did not have.
  \<^item> \<open>Validation\<close>, \<open>Events\<close>, \<open>Addresses\<close>: \<open>ValidateBasic\<close> of the messages, events, contract addresses.

  \<^bold>\<open>The keeper.\<close>
  \<^item> \<open>Keeper_Store\<close>, \<open>Keeper_Calls\<close>, \<open>Keeper_Contracts\<close> (\<open>keeper.go\<close>): reading and writing the registry, and the
    entry points that run contracts.
  \<^item> \<open>Query_Plugins\<close>, \<open>Encoders\<close>, \<open>Dispatcher\<close>, \<open>Relay\<close>, \<open>Contract_Keeper\<close>, \<open>Msg_Server\<close>, \<open>Proposals\<close>, \<open>Authz\<close>,
    \<open>Ante\<close>, \<open>Genesis\<close>, \<open>Grpc_Querier\<close>: one theory for each file or pair of files that they name.
  \<^item> \<open>Migrations\<close>, on \<open>Legacy_Types\<close> and \<open>Legacy_Codec\<close> (\<open>x/wasm/migrations\<close>): the in-place migrations and
    the protobuf form of the entries they read, encoder and decoder byte by byte.
  \<^item> \<open>Snapshots\<close> (\<open>keeper/snapshotter.go\<close>): the byte code of contracts in state-sync snapshots.
  \<^item> \<open>Chain\<close> (\<open>keeper_cgo.go\<close>): the keeper as \<open>NewKeeper\<close> wires it, and \<open>reachable\<close>, the states a chain with this
    module can reach by messages, packets, proposals, genesis and whatever other modules do.

  \<^bold>\<open>The VM bindings.\<close>
  \<^item> \<open>Vm_Callbacks\<close> (\<open>iterator.go\<close>, \<open>callbacks.go\<close>), \<open>Vm_Library\<close> (\<open>lib.go\<close>, \<open>lib_libwasmvm.go\<close>), \<open>Libwasmvm\<close>
    (\<open>libwasmvm/src\<close>): the two sides of the bindings. What a contract does during a call is a tree of callbacks;
    the interpreter of WebAssembly, the crate \<open>cosmwasm-vm\<close>, is a parameter.
  \<^item> \<open>Foreign_Memory\<close> (\<open>memory.go\<close>, \<open>memory.rs\<close>): the memory the two sides share.
  \<^item> \<open>Vm_Lookup\<close> (\<open>mocks.go\<close>): a contract's store as the tests of the bindings build it, on which the interfaces
    \<open>contract_store\<close> and \<open>isolated_store\<close> are interpreted.

  \<^bold>\<open>What is shown.\<close>
  \<^item> The registry. \<open>Registry_Steps\<close> has one rule for each kind of write; \<open>Registry_Ops\<close> and \<open>Registry_Runs\<close> show that
    every operation, failing or not, is a sequence of these steps. An invariant of the steps (\<open>registry_stable\<close>) holds
    on every reachable state: \<open>Registry\<close> has the consistency of entries and indexes, \<open>Registry_Views\<close> what reading
    operations return then. \<open>Registry_Spec\<close> is a registry without keys and indexes that the store refines. The theorems
    of this theory follow: every contract has its code, the index by code is exact, histories only grow and end with
    the current code, a code and the origin of a contract never change, an upload takes a fresh number.
  \<^item> Rights (\<open>Authorization\<close>, \<open>Grants\<close>): only the admin migrates or changes a contract, creation needs the permission of
    the code, governance messages need the authority; what the limits of an authz grant allow over all its uses.
  \<^item> Execution (\<open>Submessages\<close>, \<open>Queries\<close>, \<open>Packets\<close>): a failed submessage leaves no trace in any store, messages are
    signed by their contract, gas limits hold, a contract changes only its own entries, nested queries end, packets are
    acknowledged once.
  \<^item> Persistence (\<open>Genesis_Roundtrip\<close>, \<open>Legacy_Codec\<close>, \<open>Migrations\<close>, \<open>Snapshots\<close>, \<open>Listings\<close>): export and import give
    the same registry, migrations keep every entry and its permission, a restored snapshot has every code, paging through a
    listing shows every entry once.
  \<^item> The bindings (\<open>Vm_Calls\<close>, \<open>Contract_Storage\<close>, \<open>Contract_Calls\<close>, \<open>Foreign_Memory\<close>): a call cleans up its iterators
    and does not disturb those of others, a contract sees its storage as an ordered map, results are bounded and report
    how the VM ended, bytes cross the boundary unchanged and vectors are freed once.

  \<^bold>\<open>Samples.\<close> \<open>Sample_Chain\<close> and \<open>Sample_App\<close> instantiate the parameters with a small chain, on which the witnesses run.

  \<^bold>\<open>Bounds.\<close> Contracts call contracts, so the wiring in \<open>Chain\<close> is unrolled a number of levels; a run that needs more
  panics. Results on reachable states hold for every number of levels, and \<open>Queries\<close> shows that for queries any number
  above \<open>maxQueryStackSize\<close> gives the same answer. The loops of the decoders in \<open>Legacy_Codec\<close> consume at least a byte per
  round. The other recursions are structural or decrease a measure given with them.

  \<^bold>\<open>Not modelled.\<close>
  \<^item> Generated code: \<open>*.pb.go\<close> apart from the types of its messages (values in the store are kept decoded), and the gateway
    \<open>query.pb.gw.go\<close>. The exception is \<open>legacy_types.go\<close>, whose codec the migrations rely on.
  \<^item> The command line (\<open>client/cli\<close>, \<open>cmd/wasmd\<close>, \<open>wasmvm/cmd\<close>), which parses flags of \<open>cobra\<close> and prints.
  \<^item> The assembly of the application (\<open>app\<close>, \<open>module.go\<close>, \<open>codec.go\<close>, \<open>alias.go\<close>): registrations with the SDK. Only the
    order of the ante handlers is in \<open>Ante\<close>.
  \<^item> \<open>keeper/options.go\<close>: the options replace parts of the keeper by what the caller brings, and tell by type
    assertions on interface values which part they replace. In the model these parts are arguments.
  \<^item> \<open>metrics.go\<close>, telemetry, logging and \<open>simulation\<close>, which draws random messages for tests.
  \<^item> \<open>InitCache\<close> and \<open>ReleaseCache\<close> with their lock file, link flags, and keeping Go slices alive and pinned.
  \<^item> Tests, their helpers and mocks (\<open>tests\<close>, \<open>wasmtesting\<close>, \<open>test_common.go\<close>), apart from \<open>Lookup\<close>, \<open>MemDB\<close> and the gas meter of
    \<open>mocks.go\<close>.
\<close>

section \<open>The registry of codes and contracts\<close>

text \<open>
  C2: On every reachable state, looking up a contract either reports that there is none or finds
  the contract together with its code: no contract is ever left without its code, and no lookup
  panics on a stored value.
\<close>

theorem contracts_have_codes:
  assumes "isolated app" and "reachable app w"
  shows "(GetContractInfo a w = (Ok None, w) \<and>
          contractInstance k a w = (Err (WrappedError (''address '' @ addr_String (k_addr k) a)
             (ErrNoSuchContractFn (addr_String (k_addr k) a))), w)) \<or>
         (\<exists>c code. GetContractInfo a w = (Ok (Some c), w) \<and>
                   GetCodeInfo (con_CodeID c) w = (Ok (Some code), w) \<and>
                   contractInstance k a w = (Ok (c, code), w))"
proof -
  have ok: "registry_ok (w_store w)" using assms by (rule reachable_ok)
  note reads = eval_GetContractInfo [OF ok] eval_GetCodeInfo [OF ok] eval_contractInstance [OF ok]
  show ?thesis
  proof (cases "contract_at (w_store w) a")
    case (Some c)
    with ok obtain code where "code_at (w_store w) (con_CodeID c) = Some code"
      unfolding registry_ok_def by blast
    with Some show ?thesis by (simp add: reads)
  qed (simp add: reads)
qed

theorem contracts_have_codes_witness:
  "isolated sample_app \<and> reachable sample_app (sample_world sample_store6) \<and>
   contractInstance sample_k sample_contract (sample_world sample_store6) =
     (Ok (sample_info 2, sample_code), sample_world sample_store6)"
  using contracts_have_codes [OF sample_isolated sample_reachable6, of sample_contract sample_k]
    sample_isolated sample_reachable6
  by (auto simp: GetContractInfo_def GetCodeInfo_def sample_monad sample_world_def sample_store_defs be_bytes_8)

text \<open>
  C4: The last entry of a contract's history names the code the contract runs, on every reachable
  state in which no history has used up its positions.
\<close>

theorem last_history_entry_names_code:
  assumes "isolated app" and "reachable app w" and "\<not> history_full (w_store w)"
    and "GetContractInfo a w = (Ok (Some c), w)"
  shows "\<exists>e. mustGetLastContractHistoryEntry a w = (Ok e, w) \<and> hist_CodeID e = con_CodeID c"
proof -
  have ok: "registry_ok (w_store w)" using assms(1,2) by (rule reachable_ok)
  then have "contract_at (w_store w) a = Some c" using assms(4) by (simp add: eval_GetContractInfo)
  then have "contract_ok (w_store w) a c"
    using ok assms(3) by (simp add: registry_ok_def histories_ok_def)
  then obtain i e where last: "is_last (w_store w) a i e" and e: "hist_CodeID e = con_CodeID c"
    by (auto simp: contract_ok_def)
  have "items_ok (w_store w)" using ok by (simp add: registry_ok_def)
  then have "mustGetLastContractHistoryEntry a w = (Ok e, w)" using last by (auto simp: mustGetLast_iff)
  with e show ?thesis by blast
qed

theorem last_history_entry_names_code_witness:
  "GetContractInfo sample_contract (sample_world sample_store6) = (Ok (Some (sample_info 2)), sample_world sample_store6) \<and>
   (\<exists>e. mustGetLastContractHistoryEntry sample_contract (sample_world sample_store6) = (Ok e, sample_world sample_store6) \<and> hist_CodeID e = 2)"
  using last_history_entry_names_code [OF sample_isolated sample_reachable6, of sample_contract "sample_info 2"]
  by (simp add: sample_reads sample_views6 sample_world_store sample_info_def NewContractInfo_def)

text \<open>
  C3: The index by code is exact: iterating over the contracts of a code visits every contract that
  runs this code, each once, and no other.
\<close>

theorem code_index_exact:
  assumes "isolated app" and "reachable app w" and "\<not> history_full (w_store w)"
  shows "\<exists>addrs. distinct addrs \<and>
           set addrs = {a. \<exists>c. GetContractInfo a w = (Ok (Some c), w) \<and> con_CodeID c = codeID} \<and>
           (\<forall>cb. IterateContractsByCode codeID cb w = iterateM cb addrs w)"
proof -
  have ok: "registry_ok (w_store w)" using assms(1,2) by (rule reachable_ok)
  show ?thesis
    using contracts_of_listed [OF ok assms(3), of codeID] eval_IterateContractsByCode [OF ok]
    by (auto simp: eval_GetContractInfo [OF ok] intro!: exI [of _ "contracts_of (w_store w) codeID"])
qed

theorem code_index_exact_witness:
  "\<not> history_full sample_store6 \<and>
   (\<exists>addrs. distinct addrs \<and> set addrs = {sample_contract} \<and>
      (\<forall>cb. IterateContractsByCode 2 cb (sample_world sample_store6) = iterateM cb addrs (sample_world sample_store6)))"
proof -
  have "{a. \<exists>c. contract_at sample_store6 a = Some c \<and> con_CodeID c = 2} = {sample_contract}"
    by (auto simp: sample_views6 sample_info_def NewContractInfo_def split: if_splits)
  with code_index_exact [OF sample_isolated sample_reachable6, of 2] show ?thesis
    by (simp add: sample_reads sample_views6(3) sample_world_store)
qed

text \<open>
  C21: After a restart every pinned code can be pinned again: on every reachable state
  \<open>InitializePinnedCodes\<close> succeeds if the VM accepts each code, and leaves the store alone.
\<close>

theorem pinned_codes_initialize:
  assumes "isolated app" and "reachable app w"
    and "\<And>checksum v. fst (vm_Pin (k_vm k) checksum v) = None"
  shows "\<exists>w'. InitializePinnedCodes k w = (Ok (), w') \<and> w_store w' = w_store w"
  using reachable_ok [OF assms(1,2)] reachable_keys [OF assms(1,2)] assms(3)
  by (rule eval_InitializePinnedCodes)

theorem pinned_codes_initialize_witness:
  "look sample_store6 (PinnedK 2) \<noteq> None \<and>
   (\<exists>w'. InitializePinnedCodes sample_k (sample_world sample_store6) = (Ok (), w') \<and> w_store w' = sample_store6)"
  using pinned_codes_initialize [OF sample_isolated sample_reachable6, of sample_k]
  by (simp add: sample_k_simps sample_vm_simps sample_world_store) (simp add: sample_store6_def sample_look)

text \<open>
  C18: A code never changes under its identifier: in every later state the code has the checksum
  and the creator it was stored with, as long as the \<open>2\<^sup>6\<^sup>4\<close> identifiers are not used up.
\<close>

theorem code_never_changes:
  assumes "isolated app" and "reachable app w" and "(chain_step app)\<^sup>*\<^sup>* w w'"
    and "GetCodeInfo i w = (Ok (Some c), w)" and "\<not> ids_used_up (registry_of (w_store w'))"
  shows "\<exists>c'. GetCodeInfo i w' = (Ok (Some c'), w') \<and>
              code_CodeHash c' = code_CodeHash c \<and> code_Creator c' = code_Creator c"
proof -
  have ok: "registry_ok (w_store w)" and ok': "registry_ok (w_store w')"
    using assms(1,2,3) reachable_ok reachable_run by blast+
  have "codes_below_next (registry_of (w_store w))" using assms(1,2) by (rule reachable_ids)
  then have "code_is i (code_CodeHash c) (code_Creator c) (registry_of (w_store w))"
    using assms(4) by (simp add: code_is_def eval_GetCodeInfo [OF ok] registry_of_def)
  from code_fixed.run_stable [OF assms(1,2) this assms(3)] assms(5) show ?thesis
    by (auto simp: code_is_def eval_GetCodeInfo [OF ok'] registry_of_def)
qed

theorem code_never_changes_witness:
  "(chain_step sample_app)\<^sup>*\<^sup>* (sample_world sample_store4) (sample_world sample_store6) \<and>
   GetCodeInfo 1 (sample_world sample_store4) = (Ok (Some sample_code), sample_world sample_store4) \<and>
   (\<exists>c'. GetCodeInfo 1 (sample_world sample_store6) = (Ok (Some c'), sample_world sample_store6) \<and>
         code_CodeHash c' = sample_hash \<and> code_Creator c' = ''alice'')"
  using code_never_changes [OF sample_isolated sample_reachable4 sample_run46, of 1 sample_code] sample_run46
  by (simp add: sample_reads sample_views4 sample_views6 sample_world_store sample_code_def)

text \<open>
  C19: A contract keeps its creator, the position of its creation and its IBC port for ever, and is
  never removed.
\<close>

theorem contract_origin_never_changes:
  assumes "isolated app" and "reachable app w" and "(chain_step app)\<^sup>*\<^sup>* w w'"
    and "GetContractInfo a w = (Ok (Some c), w)"
  shows "\<exists>c'. GetContractInfo a w' = (Ok (Some c'), w') \<and>
              con_Creator c' = con_Creator c \<and> con_Created c' = con_Created c \<and>
              (con_IBCPortID c = [] \<or> con_IBCPortID c' = con_IBCPortID c)"
proof -
  have ok: "registry_ok (w_store w)" and ok': "registry_ok (w_store w')"
    using assms(1-3) reachable_ok reachable_run by blast+
  have "contract_is a (con_Creator c) (con_Created c) (con_IBCPortID c) (registry_of (w_store w))"
    using assms(4) by (simp add: contract_is_def eval_GetContractInfo [OF ok] registry_of_def)
  from contract_fixed.run_stable [OF assms(1,2) this assms(3)] show ?thesis
    by (auto simp: contract_is_def eval_GetContractInfo [OF ok'] registry_of_def)
qed

theorem contract_origin_never_changes_witness:
  "GetContractInfo sample_contract (sample_world sample_store4) = (Ok (Some (sample_info 1)), sample_world sample_store4) \<and>
   (\<exists>c'. GetContractInfo sample_contract (sample_world sample_store6) = (Ok (Some c'), sample_world sample_store6) \<and> con_Creator c' = ''alice'')"
  using contract_origin_never_changes [OF sample_isolated sample_reachable4 sample_run46, of sample_contract "sample_info 1"]
  by (simp add: sample_reads sample_views4 sample_views6 sample_world_store sample_info_def NewContractInfo_def
      sample_codec_def addr_bytes_def)

text \<open>
  C5: The history of a contract only grows: what \<open>GetContractHistory\<close> returns is a prefix of what it
  returns in every later state.
\<close>

theorem history_append_only:
  assumes "isolated app" and "reachable app w" and "(chain_step app)\<^sup>*\<^sup>* w w'"
    and "\<not> history_full (w_store w')"
  shows "\<exists>hs hs'. GetContractHistory a w = (Ok hs, w) \<and> GetContractHistory a w' = (Ok hs', w') \<and> prefix hs hs'"
proof -
  have ok: "registry_ok (w_store w)" and ok': "registry_ok (w_store w')"
    using assms(1-3) reachable_ok reachable_run by blast+
  have "history_extends a (history_at (w_store w) a) (registry_of (w_store w))"
    by (simp add: history_extends_def registry_of_def)
  from history_grows.run_stable [OF assms(1,2) this assms(3)]
  have grows: "history_extends a (history_at (w_store w) a) (registry_of (w_store w'))" .
  have "history_at (w_store w') a (- 1) = None"
    using assms(4) by (simp add: history_full_def history_at_def)
  with grows have "prefix (positions_of (w_store w) a) (positions_of (w_store w') a)"
    by (intro history_prefix [OF ok ok']) (auto simp: history_extends_def registry_of_def)
  then show ?thesis
    by (simp add: eval_GetContractHistory [OF ok] eval_GetContractHistory [OF ok'] map_mono_prefix)
qed

theorem history_append_only_witness:
  "\<not> history_full sample_store6 \<and>
   (\<exists>hs hs'. GetContractHistory sample_contract (sample_world sample_store4) = (Ok hs, sample_world sample_store4) \<and>
      GetContractHistory sample_contract (sample_world sample_store6) = (Ok hs', sample_world sample_store6) \<and> prefix hs hs')"
  using history_append_only [OF sample_isolated sample_reachable4 sample_run46, of sample_contract]
  by (simp add: sample_views6 sample_world_store)

text \<open>
  C1: The module implements the abstract registry: whatever messages, packets, proposals and calls a
  chain runs, the store moves through transitions of the abstract registry only.
\<close>

theorem chain_refines_registry:
  assumes "isolated app" and "reachable app w" and "(chain_step app)\<^sup>*\<^sup>* w w'"
  shows "spec_step\<^sup>*\<^sup>* (registry_of (w_store w)) (registry_of (w_store w'))"
proof -
  have ok: "registry_ok (w_store w)" using assms(1,2) by (rule reachable_ok)
  then have "reaches (w_store w) (w_store w')"
    using assms(1,3) by (intro run_reaches) (simp_all add: registry_ok_def)
  then show ?thesis using registry_run_refines ok by (simp add: reaches_def)
qed

theorem chain_refines_registry_witness:
  "(chain_step sample_app)\<^sup>*\<^sup>* (sample_world sample_store4) (sample_world sample_store6) \<and>
   spec_step\<^sup>*\<^sup>* (registry_of sample_store4) (registry_of sample_store6)"
  using chain_refines_registry [OF sample_isolated sample_reachable4 sample_run46] sample_run46
  by (simp add: sample_world_store)

text \<open>
  C20: An upload takes an identifier that was free and stores the code there, with the checksum it
  returns and the sender as its creator, and leaves every other code as it was.
\<close>

theorem upload_takes_fresh_id:
  assumes "isolated app" and "reachable app w" and "\<not> ids_used_up (registry_of (w_store w))"
    and "server_StoreCode k ctx msg w = (Ok (i, h), w')"
  shows "GetCodeInfo i w = (Ok None, w) \<and>
         (\<exists>c a. GetCodeInfo i w' = (Ok (Some c), w') \<and> code_CodeHash c = h \<and>
                AccAddressFromBech32 (k_addr k) (sc_Sender msg) = Inr a \<and>
                code_Creator c = addr_String (k_addr k) a) \<and>
         (\<forall>j c. j = i \<or> (GetCodeInfo j w = (Ok c, w) \<longleftrightarrow> GetCodeInfo j w' = (Ok c, w')))"
proof -
  obtain a where sender: "AccAddressFromBech32 (k_addr k) (sc_Sender msg) = Inr a"
    and run: "create k ctx (Some a) (sc_WASMByteCode msg) (sc_InstantiatePermission msg)
      (selectAuthorizationPolicy k ctx (sc_Sender msg)) w = (Ok (i, h), w')"
    using assms(4) by (auto simp: server_StoreCode_def parseAddr_def bindM_def liftE_def wrapM_def failM_def
        returnM_def split: sum.splits)
  from tripleD(1) [OF create_effect refl run] obtain c
    where i: "next_id (w_store w) KeySequenceCodeID = Ok i"
      and w': "w_store w' = kv_set (bump KeySequenceCodeID i (w_store w)) (GetCodeKey i) (CodeInfoV c)"
      and c: "code_CodeHash c = h" "code_Creator c = addr_String (k_addr k) a" by auto
  have ok: "registry_ok (w_store w)" using assms(1,2) by (rule reachable_ok)
  then have ok': "registry_ok (w_store w')" unfolding w' using i by (blast intro: registry_step_ok registry_step.code_stored)
  have "code_at (w_store w) i = None"
    using reachable_ids [OF assms(1,2)] assms(3) i by (auto simp: codes_below_next_def registry_of_def)
  moreover have "code_at (w_store w') = (code_at (w_store w))(i \<mapsto> c)"
    by (simp add: w' fun_eq_iff code_at_def look_writes)
  ultimately show ?thesis using sender c
    by (auto simp: eval_GetCodeInfo [OF ok] eval_GetCodeInfo [OF ok'])
qed

theorem upload_takes_fresh_id_witness:
  "\<exists>w'. server_StoreCode sample_k sample_ctx
       \<lparr>sc_Sender = ''alice'', sc_WASMByteCode = ''wasm'', sc_InstantiatePermission = None\<rparr>
       (sample_world sample_store2) = (Ok (2, sample_hash), w') \<and>
     GetCodeInfo 2 (sample_world sample_store2) = (Ok None, sample_world sample_store2)"
proof -
  obtain w' where w': "server_StoreCode sample_k sample_ctx
       \<lparr>sc_Sender = ''alice'', sc_WASMByteCode = ''wasm'', sc_InstantiatePermission = None\<rparr>
       (sample_world sample_store2) = (Ok (2, sample_hash), w')"
    using sample_upload by blast
  show ?thesis
    using upload_takes_fresh_id [OF sample_isolated sample_reachable2 _ w'] w' by (simp add: sample_views2 sample_world_store)
qed

end
